(* ===== verification/Hosted_Prelude.thy ===== *)
theory Hosted_Prelude
  imports Main "HOL-Library.Word"
begin

unbundle bit_operations_syntax

section \<open>Shared types, byte buffers, error codes and table searches\<close>

text \<open>
  What every component of the development uses: the machine integer types of the C code, the
  error codes, little-endian reads and writes on byte buffers (every multi-byte field of the
  wire structs is packed and little-endian), and the first-match search that the code writes
  as a \<open>for\<close> loop over a fixed table. The theorem collections \<open>wire\<close> (buffer layout) and
  \<open>tbl\<close> (table searches) are the hints the component proofs pass to the simplifier.
\<close>

named_theorems wire "layout of byte buffers"
named_theorems tbl "first-match searches in fixed tables"

type_synonym byte = "8 word"
type_synonym u8 = "8 word"
type_synonym u16 = "16 word"
type_synonym u32 = "32 word"
type_synonym u64 = "64 word"

text \<open>A C \<open>int\<close> status (\<open>esp_err_t\<close>); its values here are small, so it is an \<open>int\<close>.\<close>

type_synonym esp_err = int

definition ESP_OK :: esp_err where "ESP_OK = 0"
definition ESP_FAIL :: esp_err where "ESP_FAIL = -1"
definition ESP_ERR_NO_MEM :: esp_err where "ESP_ERR_NO_MEM = 0x101"
definition ESP_ERR_INVALID_ARG :: esp_err where "ESP_ERR_INVALID_ARG = 0x102"
definition ESP_ERR_INVALID_STATE :: esp_err where "ESP_ERR_INVALID_STATE = 0x103"
definition ESP_ERR_INVALID_SIZE :: esp_err where "ESP_ERR_INVALID_SIZE = 0x104"
definition ESP_ERR_NOT_FOUND :: esp_err where "ESP_ERR_NOT_FOUND = 0x105"
definition ESP_ERR_NOT_SUPPORTED :: esp_err where "ESP_ERR_NOT_SUPPORTED = 0x106"
definition ESP_ERR_TIMEOUT :: esp_err where "ESP_ERR_TIMEOUT = 0x107"

lemmas esp_errs = ESP_OK_def ESP_FAIL_def ESP_ERR_NO_MEM_def ESP_ERR_INVALID_ARG_def
  ESP_ERR_INVALID_STATE_def ESP_ERR_INVALID_SIZE_def ESP_ERR_NOT_FOUND_def
  ESP_ERR_NOT_SUPPORTED_def ESP_ERR_TIMEOUT_def

text \<open>The results of the host's upper layers.\<close>

definition SUCCESS :: int where "SUCCESS = 0"
definition FAILURE :: int where "FAILURE = -1"

subsection \<open>Little-endian fields\<close>

fun le_put :: "nat \<Rightarrow> 'a::len word \<Rightarrow> byte list" where
  "le_put 0 w = []"
| "le_put (Suc n) w = ucast w # le_put n (drop_bit 8 w)"

fun le_get :: "byte list \<Rightarrow> 'a::len word" where
  "le_get [] = 0"
| "le_get (b # bs) = ucast b OR push_bit 8 (le_get bs)"

lemma length_le_put [simp, wire]: "length (le_put n w) = n"
  by (induction n arbitrary: w) auto

lemma le_get_put_take: "le_get (le_put n w) = take_bit (8 * n) (w :: 'a::len word)"
proof (induction n arbitrary: w)
  case 0
  then show ?case by simp
next
  case (Suc n)
  have "ucast (ucast w :: byte) OR push_bit 8 (take_bit (8 * n) (drop_bit 8 w))
      = take_bit (8 + 8 * n) (w :: 'a word)"
    by (rule bit_word_eqI) (auto simp: bit_simps)
  then show ?case by (simp add: Suc)
qed

lemma le_get_put: "LENGTH('a) \<le> 8 * n \<Longrightarrow> le_get (le_put n w) = (w :: 'a::len word)"
  by (simp add: le_get_put_take take_bit_word_eq_self)

lemma le_get_put_words [simp, wire]:
  "le_get (le_put 2 w2) = (w2 :: u16)"
  "le_get (le_put 4 w4) = (w4 :: u32)"
  "le_get (le_put 8 w8) = (w8 :: u64)"
  by (simp_all add: le_get_put)

definition rd8 :: "nat \<Rightarrow> byte list \<Rightarrow> u8" where
  "rd8 off b = b ! off"

definition rd16 :: "nat \<Rightarrow> byte list \<Rightarrow> u16" where
  "rd16 off b = le_get (take 2 (drop off b))"

definition rd32 :: "nat \<Rightarrow> byte list \<Rightarrow> u32" where
  "rd32 off b = le_get (take 4 (drop off b))"

definition rd64 :: "nat \<Rightarrow> byte list \<Rightarrow> u64" where
  "rd64 off b = le_get (take 8 (drop off b))"

text \<open>
  Reading past a prefix of known length. \<open>rd_skip\<close> moves a read over the fields in front of
  it, \<open>rd_here\<close> reads the field at the front of what is left.
\<close>

lemma rd_here [simp, wire]:
  "rd16 0 (le_put 2 w2 @ xs) = w2"
  "rd32 0 (le_put 4 w4 @ xs) = w4"
  "rd64 0 (le_put 8 w8 @ xs) = w8"
  "rd16 0 (le_put 2 w2) = w2"
  "rd32 0 (le_put 4 w4) = w4"
  "rd64 0 (le_put 8 w8) = w8"
  by (simp_all add: rd16_def rd32_def rd64_def)

lemma rd_skip [wire]:
  "length xs \<le> off \<Longrightarrow> rd8 off (xs @ ys) = rd8 (off - length xs) ys"
  "length xs \<le> off \<Longrightarrow> rd16 off (xs @ ys) = rd16 (off - length xs) ys"
  "length xs \<le> off \<Longrightarrow> rd32 off (xs @ ys) = rd32 (off - length xs) ys"
  "length xs \<le> off \<Longrightarrow> rd64 off (xs @ ys) = rd64 (off - length xs) ys"
  by (simp_all add: rd8_def rd16_def rd32_def rd64_def nth_append)

lemma rd_skip_Cons [wire]:
  "0 < off \<Longrightarrow> rd8 off (x # ys) = rd8 (off - 1) ys"
  "0 < off \<Longrightarrow> rd16 off (x # ys) = rd16 (off - 1) ys"
  "0 < off \<Longrightarrow> rd32 off (x # ys) = rd32 (off - 1) ys"
  "0 < off \<Longrightarrow> rd64 off (x # ys) = rd64 (off - 1) ys"
  by (simp_all add: rd8_def rd16_def rd32_def rd64_def drop_Cons')

lemma rd8_0 [simp, wire]: "rd8 0 (x # xs) = x"
  by (simp add: rd8_def)

text \<open>A 16-bit length written as two bytes by hand, as the host wrappers do.\<close>

lemma rd16_bytes [wire]:
  "n < 65536 \<Longrightarrow>
   rd16 0 (word_of_nat (n mod 256) # word_of_nat (n div 256 mod 256) # xs) = word_of_nat n"
proof -
  assume "n < 65536"
  then have hi: "n div 256 mod 256 = n div 256" by simp
  have "ucast (word_of_nat (n mod 256) :: byte) OR push_bit 8 (ucast (word_of_nat (n div 256) :: byte))
      = (word_of_nat n :: u16)"
    by (rule bit_word_eqI) (auto simp: bit_simps simp flip: take_bit_eq_mod drop_bit_eq_div
          simp: take_bit_eq_mod [of 8, symmetric, simplified] drop_bit_eq_div [of 8, symmetric, simplified])
  then show ?thesis using hi by (simp add: rd16_def numeral_2_eq_2)
qed

lemma rd16_len: "n \<le> 255 \<Longrightarrow> unat (rd16 0 (word_of_nat n # 0 # xs)) = n"
  using rd16_bytes [of n xs] by (simp add: unsigned_of_nat take_bit_nat_eq_self)

lemma rd16_len16:
  "n < 65536 \<Longrightarrow> unat (rd16 0 (word_of_nat (n mod 256) # word_of_nat (n div 256 mod 256) # xs)) = n"
  using rd16_bytes [of n xs] by (simp add: unsigned_of_nat take_bit_nat_eq_self)

subsection \<open>Signed readings of narrow integers\<close>

text \<open>\<open>(int8_t)x\<close> for a C \<open>int\<close> \<open>x\<close>: the low byte, read as two's complement.\<close>

definition int8 :: "int \<Rightarrow> int" where
  "int8 x = sint (word_of_int x :: byte)"

lemma int8_id: "-128 \<le> x \<Longrightarrow> x \<le> 127 \<Longrightarrow> int8 x = x"
  by (simp add: int8_def signed_of_int signed_take_bit_int_eq_self)

lemma int8_bounds: "-128 \<le> int8 x" "int8 x \<le> 127"
  using sint_ge [of "word_of_int x :: byte"] sint_less [of "word_of_int x :: byte"]
  by (simp_all add: int8_def)

text \<open>The 32-bit status field of a response, written and read back.\<close>

definition status_word :: "esp_err \<Rightarrow> u32" where
  "status_word st = word_of_int st"

definition word_status :: "u32 \<Rightarrow> esp_err" where
  "word_status w = sint w"

lemma word_status_word [simp]:
  "- (2 ^ 31) \<le> st \<Longrightarrow> st < 2 ^ 31 \<Longrightarrow> word_status (status_word st) = st"
  by (simp add: word_status_def status_word_def signed_of_int signed_take_bit_int_eq_self)

subsection \<open>First match in a fixed table\<close>

text \<open>
  \<open>for (int i = 0; i < N; i++) if (P(t[i])) { ...; break; }\<close>: the index of the first entry
  that satisfies \<open>P\<close>, or none.
\<close>

fun find_slot :: "('a \<Rightarrow> bool) \<Rightarrow> 'a list \<Rightarrow> nat option" where
  "find_slot P [] = None"
| "find_slot P (x # xs) = (if P x then Some 0 else map_option Suc (find_slot P xs))"

lemma find_slot_None [tbl]: "find_slot P xs = None \<longleftrightarrow> (\<forall>x \<in> set xs. \<not> P x)"
  by (induction xs) auto

lemma find_slot_Some [tbl]:
  "find_slot P xs = Some i \<longleftrightarrow> i < length xs \<and> P (xs ! i) \<and> (\<forall>j < i. \<not> P (xs ! j))"
proof (induction xs arbitrary: i)
  case Nil
  then show ?case by simp
next
  case (Cons x xs)
  then show ?case
    by (cases i) (auto simp: less_Suc_eq_0_disj)
qed

lemma find_slot_SomeD:
  assumes "find_slot P xs = Some i"
  shows "i < length xs" "P (xs ! i)" "j < i \<Longrightarrow> \<not> P (xs ! j)"
  using assms by (auto simp: find_slot_Some)

lemma find_slot_exists: "x \<in> set xs \<Longrightarrow> P x \<Longrightarrow> \<exists>i. find_slot P xs = Some i"
  using find_slot_None [of P xs] by (cases "find_slot P xs") auto

end
