(* ===== verification/Phy_Proto.thy ===== *)
theory Phy_Proto
  imports Hosted_Prelude
begin

unbundle bit_operations_syntax

section \<open>The PHY RPC wire protocol (esp_hosted_open/include/phy_rpc_proto.h)\<close>

text \<open>
  Message ids, packed request structures, response header and event structures shared by the
  host library and the co-processor overlay. A \<open>#define PHY_RPC_REQ_X\<close> is
  \<open>PHY_RPC_REQ X\<close> here, with \<open>X\<close> a constructor of \<open>phy_rpc\<close> and \<open>rpc_num X\<close> the number
  in the define; likewise \<open>PHY_RPC_RESP X\<close> and \<open>PHY_RPC_EVT E\<close>. A packed struct
  is a view of a byte buffer: its size is \<open>sizeof_req\<close> or \<open>sizeof_evt\<close>, its
  fields are read at the offsets the packed layout gives them.
\<close>

subsection \<open>Message ids\<close>

datatype phy_rpc =
    SET_CHANNEL | SET_FREQ | SET_BAND | SET_BANDWIDTH | SET_CHAN_FILT | SET_COUNTRY_PERM |
    SET_CHAN14_MIC | SET_PHY_11P | SET_RATE | SET_LOW_RATE | SET_TX_POWER | SET_MOST_TPW |
    GET_MOST_TPW | SET_RX_GAIN | SET_AGC_MAX_GAIN | RESET_RX_GAIN_TBL | SET_CCA |
    GET_CCA_COUNTERS | RESET_CCA_COUNT | GET_PHY_RSSI | GET_NOISE_FLOOR | GET_TEMPERATURE |
    SET_CSI_DUMP | SET_LOOPBACK | SET_BT_TX_GAIN | SET_BT_FILTER | GET_INFO | GET_CAPS |
    TX_80211 | SET_PROMISC | SET_PROMISC_FILTER | SET_PROTOCOL | SET_MAC | SET_CSI_ENABLE |
    FTM_INITIATE | ESPNOW_INIT | ESPNOW_DEINIT | ESPNOW_ADD_PEER | ESPNOW_DEL_PEER |
    ESPNOW_SEND | ESPNOW_SET_PMK | IEEE154_ENABLE | IEEE154_SET_CHAN | IEEE154_SET_PANID |
    IEEE154_SET_PROMISC | IEEE154_TX_RAW | SET_EVENT_MASK | BT_SET_PREAMBLE |
    BT_SET_ADDRESS | BT_SET_CRC_MODE | BT_BURST_TX

primrec rpc_num :: "phy_rpc \<Rightarrow> u32" where
  "rpc_num SET_CHANNEL = 0x001"
| "rpc_num SET_FREQ = 0x010"
| "rpc_num SET_BAND = 0x011"
| "rpc_num SET_BANDWIDTH = 0x00A"
| "rpc_num SET_CHAN_FILT = 0x012"
| "rpc_num SET_COUNTRY_PERM = 0x00C"
| "rpc_num SET_CHAN14_MIC = 0x013"
| "rpc_num SET_PHY_11P = 0x002"
| "rpc_num SET_RATE = 0x014"
| "rpc_num SET_LOW_RATE = 0x009"
| "rpc_num SET_TX_POWER = 0x003"
| "rpc_num SET_MOST_TPW = 0x015"
| "rpc_num GET_MOST_TPW = 0x016"
| "rpc_num SET_RX_GAIN = 0x004"
| "rpc_num SET_AGC_MAX_GAIN = 0x005"
| "rpc_num RESET_RX_GAIN_TBL = 0x017"
| "rpc_num SET_CCA = 0x006"
| "rpc_num GET_CCA_COUNTERS = 0x007"
| "rpc_num RESET_CCA_COUNT = 0x008"
| "rpc_num GET_PHY_RSSI = 0x00B"
| "rpc_num GET_NOISE_FLOOR = 0x018"
| "rpc_num GET_TEMPERATURE = 0x019"
| "rpc_num SET_CSI_DUMP = 0x01A"
| "rpc_num SET_LOOPBACK = 0x01B"
| "rpc_num SET_BT_TX_GAIN = 0x01C"
| "rpc_num SET_BT_FILTER = 0x01D"
| "rpc_num GET_INFO = 0x00D"
| "rpc_num GET_CAPS = 0x01E"
| "rpc_num TX_80211 = 0x020"
| "rpc_num SET_PROMISC = 0x021"
| "rpc_num SET_PROMISC_FILTER = 0x022"
| "rpc_num SET_PROTOCOL = 0x023"
| "rpc_num SET_MAC = 0x024"
| "rpc_num SET_CSI_ENABLE = 0x025"
| "rpc_num FTM_INITIATE = 0x026"
| "rpc_num ESPNOW_INIT = 0x030"
| "rpc_num ESPNOW_DEINIT = 0x031"
| "rpc_num ESPNOW_ADD_PEER = 0x032"
| "rpc_num ESPNOW_DEL_PEER = 0x033"
| "rpc_num ESPNOW_SEND = 0x034"
| "rpc_num ESPNOW_SET_PMK = 0x035"
| "rpc_num IEEE154_ENABLE = 0x040"
| "rpc_num IEEE154_SET_CHAN = 0x041"
| "rpc_num IEEE154_SET_PANID = 0x042"
| "rpc_num IEEE154_SET_PROMISC = 0x043"
| "rpc_num IEEE154_TX_RAW = 0x044"
| "rpc_num SET_EVENT_MASK = 0x027"
| "rpc_num BT_SET_PREAMBLE = 0x050"
| "rpc_num BT_SET_ADDRESS = 0x051"
| "rpc_num BT_SET_CRC_MODE = 0x052"
| "rpc_num BT_BURST_TX = 0x053"

definition all_rpcs :: "phy_rpc list" where
  "all_rpcs =
     [SET_CHANNEL, SET_FREQ, SET_BAND, SET_BANDWIDTH, SET_CHAN_FILT, SET_COUNTRY_PERM,
      SET_CHAN14_MIC, SET_PHY_11P, SET_RATE, SET_LOW_RATE, SET_TX_POWER, SET_MOST_TPW,
      GET_MOST_TPW, SET_RX_GAIN, SET_AGC_MAX_GAIN, RESET_RX_GAIN_TBL, SET_CCA,
      GET_CCA_COUNTERS, RESET_CCA_COUNT, GET_PHY_RSSI, GET_NOISE_FLOOR, GET_TEMPERATURE,
      SET_CSI_DUMP, SET_LOOPBACK, SET_BT_TX_GAIN, SET_BT_FILTER, GET_INFO, GET_CAPS,
      TX_80211, SET_PROMISC, SET_PROMISC_FILTER, SET_PROTOCOL, SET_MAC, SET_CSI_ENABLE,
      FTM_INITIATE, ESPNOW_INIT, ESPNOW_DEINIT, ESPNOW_ADD_PEER, ESPNOW_DEL_PEER,
      ESPNOW_SEND, ESPNOW_SET_PMK, IEEE154_ENABLE, IEEE154_SET_CHAN, IEEE154_SET_PANID,
      IEEE154_SET_PROMISC, IEEE154_TX_RAW, SET_EVENT_MASK, BT_SET_PREAMBLE, BT_SET_ADDRESS,
      BT_SET_CRC_MODE, BT_BURST_TX]"

datatype phy_evt =
    OCB_FRAME | PHY_STATE | RAW_FRAME | CSI | FTM_REPORT | ESPNOW_RX | ESPNOW_TX_STATUS |
    IEEE154_RX

primrec evt_num :: "phy_evt \<Rightarrow> u32" where
  "evt_num OCB_FRAME = 0x001"
| "evt_num PHY_STATE = 0x002"
| "evt_num RAW_FRAME = 0x003"
| "evt_num CSI = 0x004"
| "evt_num FTM_REPORT = 0x005"
| "evt_num ESPNOW_RX = 0x006"
| "evt_num ESPNOW_TX_STATUS = 0x007"
| "evt_num IEEE154_RX = 0x008"

definition all_evts :: "phy_evt list" where
  "all_evts =
     [OCB_FRAME, PHY_STATE, RAW_FRAME, CSI, FTM_REPORT, ESPNOW_RX, ESPNOW_TX_STATUS,
      IEEE154_RX]"

definition PHY_RPC_MSG_BASE :: u32 where
  "PHY_RPC_MSG_BASE = 0xC1750000"

definition PHY_RPC_MSG_REQ :: "u32 \<Rightarrow> u32" where
  "PHY_RPC_MSG_REQ n = PHY_RPC_MSG_BASE OR n"

definition PHY_RPC_MSG_RESP :: "u32 \<Rightarrow> u32" where
  "PHY_RPC_MSG_RESP n = PHY_RPC_MSG_BASE OR 0x8000 OR n"

definition PHY_RPC_MSG_EVT :: "u32 \<Rightarrow> u32" where
  "PHY_RPC_MSG_EVT n = PHY_RPC_MSG_BASE OR 0xF000 OR n"

definition PHY_RPC_REQ :: "phy_rpc \<Rightarrow> u32" where
  "PHY_RPC_REQ r = PHY_RPC_MSG_REQ (rpc_num r)"

definition PHY_RPC_RESP :: "phy_rpc \<Rightarrow> u32" where
  "PHY_RPC_RESP r = PHY_RPC_MSG_RESP (rpc_num r)"

definition PHY_RPC_EVT :: "phy_evt \<Rightarrow> u32" where
  "PHY_RPC_EVT e = PHY_RPC_MSG_EVT (evt_num e)"

definition PHY_RPC_CAPS_BYTES :: nat where
  "PHY_RPC_CAPS_BYTES = 16"

lemmas msg_id_defs = PHY_RPC_MSG_BASE_def PHY_RPC_MSG_REQ_def PHY_RPC_MSG_RESP_def
  PHY_RPC_MSG_EVT_def PHY_RPC_REQ_def PHY_RPC_RESP_def PHY_RPC_EVT_def

lemma all_rpcs_complete: "r \<in> set all_rpcs"
  by (cases r) (simp_all add: all_rpcs_def)

lemma all_evts_complete: "e \<in> set all_evts"
  by (cases e) (simp_all add: all_evts_def)

lemma distinct_rpc_nums: "distinct (map rpc_num all_rpcs)"
  by (simp add: all_rpcs_def)

lemma rpc_num_eq [simp]: "rpc_num a = rpc_num b \<longleftrightarrow> a = b"
  using distinct_rpc_nums all_rpcs_complete by (auto simp: distinct_map inj_on_def)

lemma evt_num_eq [simp]: "evt_num a = evt_num b \<longleftrightarrow> a = b"
proof -
  have "distinct (map evt_num all_evts)" by (simp add: all_evts_def)
  then show ?thesis using all_evts_complete by (auto simp: distinct_map inj_on_def)
qed

text \<open>The numbers stay below \<open>0x80\<close>, so they fit the low byte of an id and the capability map.\<close>

lemma rpc_num_lt: "unat (rpc_num r) < 128"
  by (cases r) simp_all

lemma evt_num_lt: "unat (evt_num e) < 128"
  by (cases e) simp_all

lemma num7:
  assumes "unat (n :: u32) < 128"
  shows "n AND 0x7F = n"
proof -
  have "unat (take_bit 7 n) = unat n"
    using assms by (simp add: unsigned_take_bit_eq take_bit_nat_eq_self)
  then show ?thesis
    by (simp add: word_unat_eq_iff take_bit_eq_mask mask_eq_exp_minus_1)
qed

lemma msg_id_num:
  assumes "unat n < 128"
  shows "PHY_RPC_MSG_REQ n AND 0x7F = n" "PHY_RPC_MSG_RESP n AND 0x7F = n"
    "PHY_RPC_MSG_EVT n AND 0x7F = n"
  using num7 [OF assms]
  by (simp_all add: msg_id_defs bit.conj_disj_distrib2)

lemma msg_id_class:
  assumes "unat n < 128"
  shows "PHY_RPC_MSG_REQ n AND 0xF000 = 0" "PHY_RPC_MSG_RESP n AND 0xF000 = 0x8000"
    "PHY_RPC_MSG_EVT n AND 0xF000 = 0xF000"
proof -
  have "n AND 0xF000 = (n AND 0x7F) AND 0xF000" using num7 [OF assms] by simp
  also have "\<dots> = 0" by (simp add: and.assoc)
  finally have *: "n AND 0xF000 = 0" .
  show "PHY_RPC_MSG_REQ n AND 0xF000 = 0" "PHY_RPC_MSG_RESP n AND 0xF000 = 0x8000"
    "PHY_RPC_MSG_EVT n AND 0xF000 = 0xF000"
    using * by (simp_all add: msg_id_defs bit.conj_disj_distrib2)
qed

lemma PHY_RPC_REQ_eq [simp]: "PHY_RPC_REQ a = PHY_RPC_REQ b \<longleftrightarrow> a = b"
  by (metis PHY_RPC_REQ_def msg_id_num(1) rpc_num_eq rpc_num_lt)

lemma PHY_RPC_RESP_eq [simp]: "PHY_RPC_RESP a = PHY_RPC_RESP b \<longleftrightarrow> a = b"
  by (metis PHY_RPC_RESP_def msg_id_num(2) rpc_num_eq rpc_num_lt)

lemma PHY_RPC_EVT_eq [simp]: "PHY_RPC_EVT a = PHY_RPC_EVT b \<longleftrightarrow> a = b"
  by (metis PHY_RPC_EVT_def msg_id_num(3) evt_num_eq evt_num_lt)

lemma msg_id_disjoint [simp]:
  "PHY_RPC_REQ a \<noteq> PHY_RPC_RESP b" "PHY_RPC_RESP b \<noteq> PHY_RPC_REQ a"
  "PHY_RPC_REQ a \<noteq> PHY_RPC_EVT e" "PHY_RPC_EVT e \<noteq> PHY_RPC_REQ a"
  "PHY_RPC_RESP a \<noteq> PHY_RPC_EVT e" "PHY_RPC_EVT e \<noteq> PHY_RPC_RESP a"
  using msg_id_class [OF rpc_num_lt] msg_id_class [OF evt_num_lt]
  by (auto simp: PHY_RPC_REQ_def PHY_RPC_RESP_def PHY_RPC_EVT_def dest: arg_cong [of _ _ "\<lambda>x. x AND 0xF000"])

lemma msg_id_not_sentinel [simp]:
  "PHY_RPC_REQ r \<noteq> 0xFFFFFFFF" "PHY_RPC_RESP r \<noteq> 0xFFFFFFFF" "PHY_RPC_EVT e \<noteq> 0xFFFFFFFF"
proof -
  have "PHY_RPC_EVT e \<noteq> 0xFFFFFFFF"
    by (cases e) (simp_all add: msg_id_defs)
  then show "PHY_RPC_REQ r \<noteq> 0xFFFFFFFF" "PHY_RPC_RESP r \<noteq> 0xFFFFFFFF" "PHY_RPC_EVT e \<noteq> 0xFFFFFFFF"
    using msg_id_class [OF rpc_num_lt [of r]]
    by (auto simp: PHY_RPC_REQ_def PHY_RPC_RESP_def)
qed


subsection \<open>Request structures\<close>

text \<open>
  The size of the packed request structure each handler expects: the 4-byte header
  \<open>phy_rpc_hdr_t\<close> and the fields behind it. A request without a structure of its own is the
  header alone. Structures with a flexible array count up to the array.
\<close>

definition sizeof_hdr :: nat where
  "sizeof_hdr = 4"

definition sizeof_resp_hdr :: nat where
  "sizeof_resp_hdr = 8"

definition sizeof_req :: "phy_rpc \<Rightarrow> nat" where
  "sizeof_req r =
     (case r of
        SET_FREQ \<Rightarrow> 8 | SET_CHAN_FILT \<Rightarrow> 8 | SET_BT_FILTER \<Rightarrow> 8
      | SET_COUNTRY_PERM \<Rightarrow> 4 | GET_MOST_TPW \<Rightarrow> 4 | RESET_RX_GAIN_TBL \<Rightarrow> 4
      | GET_CCA_COUNTERS \<Rightarrow> 4 | RESET_CCA_COUNT \<Rightarrow> 4 | GET_PHY_RSSI \<Rightarrow> 4
      | GET_NOISE_FLOOR \<Rightarrow> 4 | GET_TEMPERATURE \<Rightarrow> 4 | GET_INFO \<Rightarrow> 4 | GET_CAPS \<Rightarrow> 4
      | TX_80211 \<Rightarrow> 10 | SET_PROMISC_FILTER \<Rightarrow> 8 | SET_PROTOCOL \<Rightarrow> 8 | SET_MAC \<Rightarrow> 12
      | FTM_INITIATE \<Rightarrow> 16 | ESPNOW_INIT \<Rightarrow> 4 | ESPNOW_DEINIT \<Rightarrow> 4
      | ESPNOW_ADD_PEER \<Rightarrow> 30 | ESPNOW_DEL_PEER \<Rightarrow> 10 | ESPNOW_SEND \<Rightarrow> 12
      | ESPNOW_SET_PMK \<Rightarrow> 20 | IEEE154_SET_PANID \<Rightarrow> 6 | IEEE154_TX_RAW \<Rightarrow> 8
      | SET_EVENT_MASK \<Rightarrow> 12
      | _ \<Rightarrow> 5)"

definition hdr_op_id :: "byte list \<Rightarrow> u32" where
  "hdr_op_id d = rd32 0 d"

text \<open>The structures whose body is one byte (\<open>channel\<close>, \<open>enable\<close>, \<open>gain\<close>, \<dots>), one 32-bit
  word (\<open>freq_mhz\<close>, \<open>filter\<close>, \<open>reg_value\<close>, \<open>filter_mask\<close>), or one 16/64-bit word.\<close>

definition body_u8 :: "byte list \<Rightarrow> u8" where
  "body_u8 d = rd8 4 d"

definition body_u16 :: "byte list \<Rightarrow> u16" where
  "body_u16 d = rd16 4 d"

definition body_u32 :: "byte list \<Rightarrow> u32" where
  "body_u32 d = rd32 4 d"

definition body_u64 :: "byte list \<Rightarrow> u64" where
  "body_u64 d = rd64 4 d"

record tx_80211_req =
  tx_wifi_if :: u8
  tx_en_seq_nr :: u8
  tx_frame_len :: u16
  tx_frame :: "byte list"

definition view_tx_80211 :: "byte list \<Rightarrow> tx_80211_req" where
  "view_tx_80211 d = \<lparr>tx_wifi_if = rd8 4 d, tx_en_seq_nr = rd8 5 d,
     tx_frame_len = rd16 8 d, tx_frame = drop 10 d\<rparr>"

record protocol_req =
  pr_protocol_mask :: u8
  pr_wifi_if :: u8

definition view_protocol :: "byte list \<Rightarrow> protocol_req" where
  "view_protocol d = \<lparr>pr_protocol_mask = rd8 4 d, pr_wifi_if = rd8 5 d\<rparr>"

record mac_req =
  mr_wifi_if :: u8
  mr_mac :: "byte list"

definition view_mac :: "byte list \<Rightarrow> mac_req" where
  "view_mac d = \<lparr>mr_wifi_if = rd8 4 d, mr_mac = take 6 (drop 5 d)\<rparr>"

record ftm_req =
  ft_peer_mac :: "byte list"
  ft_frames_count :: u8
  ft_burst_period :: u8
  ft_channel :: u8

definition view_ftm :: "byte list \<Rightarrow> ftm_req" where
  "view_ftm d = \<lparr>ft_peer_mac = take 6 (drop 4 d), ft_frames_count = rd8 10 d,
     ft_burst_period = rd8 11 d, ft_channel = rd8 12 d\<rparr>"

record add_peer_req =
  ap_peer_mac :: "byte list"
  ap_lmk :: "byte list"
  ap_channel :: u8
  ap_wifi_if :: u8
  ap_encrypt :: u8

definition view_add_peer :: "byte list \<Rightarrow> add_peer_req" where
  "view_add_peer d = \<lparr>ap_peer_mac = take 6 (drop 4 d), ap_lmk = take 16 (drop 10 d),
     ap_channel = rd8 26 d, ap_wifi_if = rd8 27 d, ap_encrypt = rd8 28 d\<rparr>"

definition del_peer_mac :: "byte list \<Rightarrow> byte list" where
  "del_peer_mac d = take 6 (drop 4 d)"

record espnow_send_req =
  es_peer_mac :: "byte list"
  es_data_len :: u16
  es_data :: "byte list"

definition view_espnow_send :: "byte list \<Rightarrow> espnow_send_req" where
  "view_espnow_send d = \<lparr>es_peer_mac = take 6 (drop 4 d), es_data_len = rd16 10 d,
     es_data = drop 12 d\<rparr>"

definition pmk_of :: "byte list \<Rightarrow> byte list" where
  "pmk_of d = take 16 (drop 4 d)"

record tx_raw_req =
  tr_cca :: u8
  tr_frame_len :: u16
  tr_frame :: "byte list"

definition view_tx_raw :: "byte list \<Rightarrow> tx_raw_req" where
  "view_tx_raw d = \<lparr>tr_cca = rd8 4 d, tr_frame_len = rd16 6 d, tr_frame = drop 8 d\<rparr>"

lemmas req_views = view_tx_80211_def view_protocol_def view_mac_def view_ftm_def
  view_add_peer_def del_peer_mac_def view_espnow_send_def pmk_of_def view_tx_raw_def
  body_u8_def body_u16_def body_u32_def body_u64_def hdr_op_id_def

subsection \<open>Response header and event structures\<close>

text \<open>\<open>phy_rpc_resp_hdr_t\<close>: the request's \<open>op_id\<close> and the status.\<close>

definition resp_hdr :: "u32 \<Rightarrow> esp_err \<Rightarrow> byte list" where
  "resp_hdr op st = le_put 4 op @ le_put 4 (status_word st)"

definition resp_op_id :: "byte list \<Rightarrow> u32" where
  "resp_op_id d = rd32 0 d"

definition resp_status :: "byte list \<Rightarrow> esp_err" where
  "resp_status d = word_status (rd32 4 d)"

lemma length_resp_hdr [simp]: "length (resp_hdr op st) = 8"
  by (simp add: resp_hdr_def)

lemma resp_hdr_op_id [simp]: "resp_op_id (resp_hdr op st @ xs) = op"
  by (simp add: resp_op_id_def resp_hdr_def)

lemma resp_hdr_op_id0 [simp]: "resp_op_id (resp_hdr op st) = op"
  using resp_hdr_op_id [of op st "[]"] by simp

lemma resp_hdr_status:
  "- (2 ^ 31) \<le> st \<Longrightarrow> st < 2 ^ 31 \<Longrightarrow> resp_status (resp_hdr op st @ xs) = st"
  by (simp add: resp_status_def resp_hdr_def wire)

definition sizeof_evt :: "phy_evt \<Rightarrow> nat" where
  "sizeof_evt e =
     (case e of OCB_FRAME \<Rightarrow> 14 | PHY_STATE \<Rightarrow> 0 | RAW_FRAME \<Rightarrow> 12 | CSI \<Rightarrow> 16
      | FTM_REPORT \<Rightarrow> 20 | ESPNOW_RX \<Rightarrow> 16 | ESPNOW_TX_STATUS \<Rightarrow> 8 | IEEE154_RX \<Rightarrow> 12)"

end
