(* ===== verification/Custom_Callbacks.thy ===== *)
theory Custom_Callbacks
  imports Phy_Proto
begin

section \<open>The custom-message callback tables\<close>

text \<open>
  Both ends of the peer-data channel keep a fixed table of callbacks indexed by message id:
  the co-processor in slave/main/slave_control.c (\<open>custom_msg_callbacks\<close>), the host in
  vendor/esp_hosted/host/drivers/rpc/core/rpc_evt.c (\<open>custom_callbacks\<close>). A slot is empty when
  its callback is NULL; its message id is then the sentinel \<open>0xFFFFFFFF\<close>.

  What the clients (the PHY overlay and the host library) rely on is the locale
  \<open>callback_table\<close>; both tables interpret it. Its client lemmas say what a run of
  registrations does to a table of a given capacity.
\<close>

subsection \<open>Slots and their state\<close>

record ('c, 'x) cb_slot =
  cs_msg_id :: u32
  cs_callback :: "'c option"
  cs_context :: "'x option"

definition CB_NONE :: u32 where
  "CB_NONE = 0xFFFFFFFF"

definition empty_slot :: "('c, 'x) cb_slot" where
  "empty_slot = \<lparr>cs_msg_id = CB_NONE, cs_callback = None, cs_context = None\<rparr>"

record ('c, 'x) cb_table =
  ct_slots :: "('c, 'x) cb_slot list"
  ct_mutex :: bool

definition cb_init :: "nat \<Rightarrow> ('c, 'x) cb_table" where
  "cb_init n = \<lparr>ct_slots = replicate n empty_slot, ct_mutex = False\<rparr>"

text \<open>Whether the RTOS gives a new mutex, and whether taking it succeeds.\<close>

record rtos =
  mutex_create_ok :: bool
  mutex_take_ok :: bool

subsection \<open>Operations\<close>

definition esp_hosted_register_custom_callback ::
  "rtos \<Rightarrow> ('c, 'x) cb_table \<Rightarrow> u32 \<Rightarrow> 'c option \<Rightarrow> 'x option \<Rightarrow> esp_err \<times> ('c, 'x) cb_table" where
  "esp_hosted_register_custom_callback os t mid cb x =
     (if mid = CB_NONE then (ESP_ERR_INVALID_ARG, t)
      else
        let t = (if ct_mutex t then t else t\<lparr>ct_mutex := mutex_create_ok os\<rparr>)
        in if \<not> ct_mutex t then (ESP_ERR_NO_MEM, t)
           else if \<not> mutex_take_ok os then (ESP_FAIL, t)
           else case find_slot (\<lambda>s. cs_msg_id s = mid) (ct_slots t) of
             Some i \<Rightarrow>
               (case cb of
                  None \<Rightarrow> (ESP_OK, t\<lparr>ct_slots := (ct_slots t)[i := empty_slot]\<rparr>)
                | Some f \<Rightarrow> (ESP_OK, t\<lparr>ct_slots := (ct_slots t)
                    [i := (ct_slots t ! i)\<lparr>cs_callback := Some f, cs_context := x\<rparr>]\<rparr>))
           | None \<Rightarrow>
               (case cb of
                  None \<Rightarrow> (ESP_ERR_NOT_FOUND, t)
                | Some f \<Rightarrow>
                    (case find_slot (\<lambda>s. cs_callback s = None) (ct_slots t) of
                       Some i \<Rightarrow> (ESP_OK, t\<lparr>ct_slots := (ct_slots t)
                         [i := \<lparr>cs_msg_id = mid, cs_callback = Some f, cs_context = x\<rparr>]\<rparr>)
                     | None \<Rightarrow> (ESP_ERR_NO_MEM, t))))"

text \<open>The test of the dispatcher's loop: the id matches and a callback is set.\<close>

definition cb_hit :: "u32 \<Rightarrow> ('c, 'x) cb_slot \<Rightarrow> bool" where
  "cb_hit mid s \<longleftrightarrow> cs_msg_id s = mid \<and> cs_callback s \<noteq> None"

text \<open>
  The dispatch of an incoming custom message. The result holds the call made, if any: the
  callback, the message id and data passed to it, and its context.
\<close>

definition handle_custom_rpc_request ::
  "rtos \<Rightarrow> ('c, 'x) cb_table \<Rightarrow> u32 \<Rightarrow> byte list
     \<Rightarrow> esp_err \<times> ('c \<times> u32 \<times> byte list \<times> 'x option) option" where
  "handle_custom_rpc_request os t mid req =
     (if mid = CB_NONE then (ESP_ERR_INVALID_ARG, None)
      else
        let hit = (if ct_mutex t \<and> mutex_take_ok os
                   then find_slot (cb_hit mid) (ct_slots t)
                   else None)
        in case hit of
             Some i \<Rightarrow>
               (case cs_callback (ct_slots t ! i) of
                  Some f \<Rightarrow> (ESP_OK, Some (f, mid, req, cs_context (ct_slots t ! i)))
                | None \<Rightarrow> (ESP_ERR_NOT_FOUND, None))
           | None \<Rightarrow> (ESP_ERR_NOT_FOUND, None))"

text \<open>
  Sending: the buffer handed to the RPC layer is the message id (little-endian) and the data.
  \<open>None\<close> models a NULL data pointer. \<open>malloc n\<close> says whether an allocation of \<open>n\<close> bytes
  succeeds. The second component is the event buffer queued for the host, if any.
\<close>

definition esp_hosted_send_custom_data ::
  "(nat \<Rightarrow> bool) \<Rightarrow> u32 \<Rightarrow> byte list option \<Rightarrow> nat \<Rightarrow> esp_err \<times> byte list option" where
  "esp_hosted_send_custom_data malloc mid data len =
     (if (data = None \<and> len \<noteq> 0) \<or> (data \<noteq> None \<and> len = 0) then (ESP_ERR_INVALID_ARG, None)
      else if len > 8166 then (ESP_ERR_INVALID_SIZE, None)
      else if \<not> malloc (4 + len) then (ESP_ERR_NO_MEM, None)
      else (ESP_OK, Some (le_put 4 mid @ (case data of None \<Rightarrow> [] | Some d \<Rightarrow> take len d))))"

text \<open>The event handler that unpacks that buffer into the protobuf event: id, then user data.\<close>

definition rpc_evt_custom_rpc :: "byte list \<Rightarrow> u32 \<times> byte list" where
  "rpc_evt_custom_rpc data = (rd32 0 data, if length data > 4 then drop 4 data else [])"

text \<open>The host's table: the same search order, with \<open>SUCCESS\<close> and \<open>FAILURE\<close> as results.\<close>


definition rpc_evt_register_custom_callback ::
  "rtos \<Rightarrow> ('c, 'x) cb_table \<Rightarrow> u32 \<Rightarrow> 'c option \<Rightarrow> 'x option \<Rightarrow> int \<times> ('c, 'x) cb_table" where
  "rpc_evt_register_custom_callback os t mid cb x =
     (if mid = CB_NONE then (FAILURE, t)
      else
        let t = (if ct_mutex t then t else t\<lparr>ct_mutex := mutex_create_ok os\<rparr>)
        in if \<not> ct_mutex t then (FAILURE, t)
           else case find_slot (\<lambda>s. cs_msg_id s = mid) (ct_slots t) of
             Some i \<Rightarrow>
               (case cb of
                  None \<Rightarrow> (SUCCESS, t\<lparr>ct_slots := (ct_slots t)[i := empty_slot]\<rparr>)
                | Some f \<Rightarrow> (SUCCESS, t\<lparr>ct_slots := (ct_slots t)
                    [i := (ct_slots t ! i)\<lparr>cs_callback := Some f, cs_context := x\<rparr>]\<rparr>))
           | None \<Rightarrow>
               (case cb of
                  None \<Rightarrow> (FAILURE, t)
                | Some f \<Rightarrow>
                    (case find_slot (\<lambda>s. cs_callback s = None) (ct_slots t) of
                       Some i \<Rightarrow> (SUCCESS, t\<lparr>ct_slots := (ct_slots t)
                         [i := \<lparr>cs_msg_id = mid, cs_callback = Some f, cs_context = x\<rparr>]\<rparr>)
                     | None \<Rightarrow> (FAILURE, t))))"

subsection \<open>The well-formed tables and the map they stand for\<close>

definition slot_ok :: "('c, 'x) cb_slot \<Rightarrow> bool" where
  "slot_ok s \<longleftrightarrow> (cs_callback s = None \<longleftrightarrow> cs_msg_id s = CB_NONE)"

definition slots_inj :: "('c, 'x) cb_slot list \<Rightarrow> bool" where
  "slots_inj ss \<longleftrightarrow>
     (\<forall>i < length ss. \<forall>j < length ss.
        cs_msg_id (ss ! i) = cs_msg_id (ss ! j) \<longrightarrow> cs_msg_id (ss ! i) \<noteq> CB_NONE \<longrightarrow> i = j)"

definition cb_inv :: "('c, 'x) cb_table \<Rightarrow> bool" where
  "cb_inv t \<longleftrightarrow> list_all slot_ok (ct_slots t) \<and> slots_inj (ct_slots t)"

definition slot_val :: "('c, 'x) cb_slot \<Rightarrow> ('c \<times> 'x option) option" where
  "slot_val s = map_option (\<lambda>f. (f, cs_context s)) (cs_callback s)"

definition cb_lookup :: "('c, 'x) cb_table \<Rightarrow> u32 \<Rightarrow> ('c \<times> 'x option) option" where
  "cb_lookup t mid =
     (case find_slot (cb_hit mid) (ct_slots t) of
        None \<Rightarrow> None
      | Some i \<Rightarrow> slot_val (ct_slots t ! i))"

definition cb_cap :: "('c, 'x) cb_table \<Rightarrow> nat" where
  "cb_cap t = length (ct_slots t)"

lemma slot_ok_empty [simp]: "slot_ok empty_slot" "slot_val empty_slot = None"
  "cs_msg_id empty_slot = CB_NONE" "cs_callback empty_slot = None"
  by (simp_all add: slot_ok_def slot_val_def empty_slot_def)

lemma slot_val_Some: "slot_val s = Some v \<Longrightarrow> cs_callback s \<noteq> None"
  by (auto simp: slot_val_def)

lemma slot_val_None: "slot_val s = None \<longleftrightarrow> cs_callback s = None"
  by (simp add: slot_val_def)

lemma slots_injD:
  "slots_inj ss \<Longrightarrow> i < length ss \<Longrightarrow> j < length ss \<Longrightarrow>
   cs_msg_id (ss ! i) = cs_msg_id (ss ! j) \<Longrightarrow> cs_msg_id (ss ! i) \<noteq> CB_NONE \<Longrightarrow> i = j"
  unfolding slots_inj_def by blast

lemma cb_invD:
  assumes "cb_inv t" "i < length (ct_slots t)"
  shows "slot_ok (ct_slots t ! i)"
  using assms by (simp add: cb_inv_def list_all_length)

lemma slot_okD: "slot_ok s \<Longrightarrow> cs_callback s \<noteq> None \<Longrightarrow> cs_msg_id s \<noteq> CB_NONE"
  unfolding slot_ok_def by blast

text \<open>The slot that holds a key determines what the table says of it.\<close>

lemma cb_lookup_at:
  assumes inv: "cb_inv t" and i: "i < length (ct_slots t)" and m: "cs_msg_id (ct_slots t ! i) = mid"
    and mid: "mid \<noteq> CB_NONE"
  shows "cb_lookup t mid = slot_val (ct_slots t ! i)"
proof -
  have "cs_callback (ct_slots t ! i) \<noteq> None"
    using cb_invD [OF inv i] m mid by (simp add: slot_ok_def)
  then have hit: "cb_hit mid (ct_slots t ! i)" using m unfolding cb_hit_def by blast
  obtain k where k: "find_slot (cb_hit mid) (ct_slots t) = Some k"
    using find_slot_exists [of _ _ "cb_hit mid", OF nth_mem [OF i] hit] by blast
  have "k < length (ct_slots t)" "cs_msg_id (ct_slots t ! k) = mid"
    using find_slot_SomeD(1,2) [OF k] unfolding cb_hit_def by blast+
  then have "i = k"
    using slots_injD [of "ct_slots t" i k] inv i m mid unfolding cb_inv_def by simp
  with k show ?thesis by (simp add: cb_lookup_def)
qed

lemma cb_lookup_none:
  assumes "\<And>i. i < length (ct_slots t) \<Longrightarrow> cs_msg_id (ct_slots t ! i) \<noteq> mid \<or>
     cs_callback (ct_slots t ! i) = None"
  shows "cb_lookup t mid = None"
proof (cases "find_slot (cb_hit mid) (ct_slots t)")
  case None
  then show ?thesis by (simp add: cb_lookup_def)
next
  case (Some k)
  then show ?thesis using find_slot_SomeD(1,2) [OF Some] assms [of k] by (simp add: cb_hit_def)
qed

lemma cb_lookup_sentinel:
  assumes "cb_inv t"
  shows "cb_lookup t CB_NONE = None"
  using cb_invD [OF assms] by (intro cb_lookup_none) (simp add: slot_ok_def)

lemma cb_lookup_SomeD:
  assumes "cb_lookup t mid = Some v"
  obtains i where "i < length (ct_slots t)" "cs_msg_id (ct_slots t ! i) = mid"
    "cs_callback (ct_slots t ! i) \<noteq> None" "slot_val (ct_slots t ! i) = Some v"
proof (cases "find_slot (cb_hit mid) (ct_slots t)")
  case None
  then show ?thesis using assms by (simp add: cb_lookup_def)
next
  case (Some k)
  have "slot_val (ct_slots t ! k) = Some v" using assms Some by (simp add: cb_lookup_def)
  then show ?thesis using that [of k] find_slot_SomeD(1,2) [OF Some] unfolding cb_hit_def by blast
qed

lemma cb_inv_init: "cb_inv (cb_init n)"
  by (simp add: cb_inv_def cb_init_def slots_inj_def list_all_length)

lemma cb_lookup_init: "cb_lookup (cb_init n) mid = None"
  by (rule cb_lookup_none) (simp add: cb_init_def)

lemma cb_lookup_init_empty [simp]: "cb_lookup (cb_init n) = Map.empty"
  by (rule ext) (rule cb_lookup_init)

lemma cb_cap_init [simp]: "cb_cap (cb_init n) = n"
  by (simp add: cb_cap_def cb_init_def)

lemma cb_inv_mutex [simp]: "cb_inv (t\<lparr>ct_mutex := b\<rparr>) = cb_inv t"
  by (simp add: cb_inv_def)

lemma cb_lookup_mutex [simp]: "cb_lookup (t\<lparr>ct_mutex := b\<rparr>) = cb_lookup t"
  by (rule ext) (simp add: cb_lookup_def cong: option.case_cong)

subsection \<open>Writing one slot\<close>

definition set_slot :: "nat \<Rightarrow> ('c, 'x) cb_slot \<Rightarrow> ('c, 'x) cb_table \<Rightarrow> ('c, 'x) cb_table" where
  "set_slot i s t = t\<lparr>ct_slots := (ct_slots t)[i := s]\<rparr>"

lemma set_slot_simps [simp]:
  "length (ct_slots (set_slot i s t)) = length (ct_slots t)"
  "ct_mutex (set_slot i s t) = ct_mutex t"
  "i < length (ct_slots t) \<Longrightarrow> ct_slots (set_slot i s t) ! i = s"
  "j \<noteq> i \<Longrightarrow> ct_slots (set_slot i s t) ! j = ct_slots t ! j"
  by (simp_all add: set_slot_def)

lemma cb_inv_write:
  assumes inv: "cb_inv t" and i: "i < length (ct_slots t)" and s: "slot_ok s"
    and new: "\<And>j. j < length (ct_slots t) \<Longrightarrow> j \<noteq> i \<Longrightarrow> cs_msg_id s \<noteq> CB_NONE \<Longrightarrow>
       cs_msg_id (ct_slots t ! j) \<noteq> cs_msg_id s"
  shows "cb_inv (set_slot i s t)"
proof -
  have "slot_ok (ct_slots (set_slot i s t) ! k)" if "k < length (ct_slots t)" for k
    using that s i cb_invD [OF inv that] by (cases "k = i") simp_all
  moreover have "k = j" if kj: "k < length (ct_slots t)" "j < length (ct_slots t)"
    "cs_msg_id (ct_slots (set_slot i s t) ! k) = cs_msg_id (ct_slots (set_slot i s t) ! j)"
    "cs_msg_id (ct_slots (set_slot i s t) ! k) \<noteq> CB_NONE" for k j
  proof -
    consider "k = i" "j = i" | "k = i" "j \<noteq> i" | "k \<noteq> i" "j = i" | "k \<noteq> i" "j \<noteq> i" by blast
    then show ?thesis
    proof cases
      case 2 with new [of j] kj i show ?thesis by simp
    next
      case 3 with new [of k] kj i show ?thesis by simp
    next
      case 4 then show ?thesis using slots_injD [of "ct_slots t" k j] kj inv by (simp add: cb_inv_def)
    qed simp
  qed
  ultimately show ?thesis
    unfolding cb_inv_def slots_inj_def list_all_length by simp
qed

text \<open>Only the key of the slot written and the key it held before can change.\<close>

lemma cb_lookup_other:
  assumes inv: "cb_inv t" and inv': "cb_inv (set_slot i s t)" and i: "i < length (ct_slots t)"
    and k: "k \<noteq> cs_msg_id s" "k \<noteq> cs_msg_id (ct_slots t ! i)"
  shows "cb_lookup (set_slot i s t) k = cb_lookup t k"
proof (cases "k = CB_NONE \<or> (\<forall>j < length (ct_slots t). cs_msg_id (ct_slots t ! j) \<noteq> k)")
  case True
  then show ?thesis
  proof
    assume "k = CB_NONE"
    then show ?thesis using cb_lookup_sentinel [OF inv] cb_lookup_sentinel [OF inv'] by simp
  next
    assume none: "\<forall>j < length (ct_slots t). cs_msg_id (ct_slots t ! j) \<noteq> k"
    have "cs_msg_id (ct_slots (set_slot i s t) ! j) \<noteq> k" if "j < length (ct_slots t)" for j
      using none that k i by (cases "j = i") auto
    then have "cb_lookup (set_slot i s t) k = None" by (intro cb_lookup_none) simp
    moreover have "cb_lookup t k = None" using none by (intro cb_lookup_none) simp
    ultimately show ?thesis by simp
  qed
next
  case False
  then obtain j where j: "j < length (ct_slots t)" "cs_msg_id (ct_slots t ! j) = k" "k \<noteq> CB_NONE"
    by blast
  then have "j \<noteq> i" using k by blast
  then show ?thesis using cb_lookup_at [OF inv j] cb_lookup_at [OF inv', of j k] j by simp
qed

lemma cb_lookup_write:
  assumes inv: "cb_inv t" and inv': "cb_inv (set_slot i s t)"
    and i: "i < length (ct_slots t)" and s: "cs_msg_id s = mid" "mid \<noteq> CB_NONE"
    and old: "cs_msg_id (ct_slots t ! i) = mid \<or> cs_msg_id (ct_slots t ! i) = CB_NONE"
  shows "cb_lookup (set_slot i s t) = (cb_lookup t)(mid := slot_val s)"
proof (rule ext)
  fix k
  show "cb_lookup (set_slot i s t) k = ((cb_lookup t)(mid := slot_val s)) k"
  proof (cases "k = mid")
    case True
    then show ?thesis using cb_lookup_at [OF inv', of i mid] i s by simp
  next
    case False
    show ?thesis
    proof (cases "k = CB_NONE")
      case True
      with False show ?thesis
        using cb_lookup_sentinel [OF inv] cb_lookup_sentinel [OF inv'] by simp
    next
      case nz: False
      have "cb_lookup (set_slot i s t) k = cb_lookup t k"
        using cb_lookup_other [OF inv inv' i] False nz s old by auto
      with False show ?thesis by simp
    qed
  qed
qed

lemma cb_lookup_clear:
  assumes inv: "cb_inv t" and inv': "cb_inv (set_slot i empty_slot t)"
    and i: "i < length (ct_slots t)" and mid: "cs_msg_id (ct_slots t ! i) = mid" "mid \<noteq> CB_NONE"
  shows "cb_lookup (set_slot i empty_slot t) = (cb_lookup t)(mid := None)"
proof (rule ext)
  fix k
  show "cb_lookup (set_slot i empty_slot t) k = ((cb_lookup t)(mid := None)) k"
  proof (cases "k = mid")
    case True
    have "cs_msg_id (ct_slots (set_slot i empty_slot t) ! j) \<noteq> mid" if "j < length (ct_slots t)" for j
    proof (cases "j = i")
      case True
      then show ?thesis using i mid by simp
    next
      case False
      then show ?thesis using slots_injD [of "ct_slots t" j i] that i mid inv
        by (auto simp: cb_inv_def)
    qed
    then have "cb_lookup (set_slot i empty_slot t) mid = None" by (intro cb_lookup_none) simp
    with True show ?thesis by simp
  next
    case False
    show ?thesis
    proof (cases "k = CB_NONE")
      case True
      with False show ?thesis
        using cb_lookup_sentinel [OF inv] cb_lookup_sentinel [OF inv'] by simp
    next
      case nz: False
      have "cb_lookup (set_slot i empty_slot t) k = cb_lookup t k"
        using cb_lookup_other [OF inv inv' i] False nz mid by auto
      with False show ?thesis by simp
    qed
  qed
qed

subsection \<open>Counting\<close>

lemma cb_dom_sub: "dom (cb_lookup t) \<subseteq> cs_msg_id ` set (ct_slots t)"
proof
  fix k assume "k \<in> dom (cb_lookup t)"
  then obtain v where "cb_lookup t k = Some v" by (auto simp: dom_def)
  then obtain i where "i < length (ct_slots t)" "cs_msg_id (ct_slots t ! i) = k"
    by (rule cb_lookup_SomeD)
  then show "k \<in> cs_msg_id ` set (ct_slots t)" using nth_mem by blast
qed

lemma cb_dom_finite: "finite (dom (cb_lookup t))"
  using cb_dom_sub by (rule finite_subset) simp

lemma cb_dom_card: "card (dom (cb_lookup t)) \<le> cb_cap t"
proof -
  have "card (dom (cb_lookup t)) \<le> card (cs_msg_id ` set (ct_slots t))"
    using cb_dom_sub [of t] by (intro card_mono) simp_all
  also have "\<dots> \<le> card (set (ct_slots t))" by (simp add: card_image_le)
  also have "\<dots> \<le> length (ct_slots t)" by (rule card_length)
  finally show ?thesis by (simp add: cb_cap_def)
qed

text \<open>A table whose callbacks are all set is full: its map has as many keys as slots.\<close>

lemma cb_full_card:
  assumes inv: "cb_inv t" and full: "find_slot (\<lambda>s. cs_callback s = None) (ct_slots t) = None"
  shows "card (dom (cb_lookup t)) = cb_cap t"
proof -
  let ?key = "\<lambda>i. cs_msg_id (ct_slots t ! i)"
  have live: "cs_callback (ct_slots t ! i) \<noteq> None" if "i < length (ct_slots t)" for i
    using full nth_mem [OF that] unfolding find_slot_None by blast
  have key: "?key i \<noteq> CB_NONE" if "i < length (ct_slots t)" for i
    using slot_okD [OF cb_invD [OF inv that] live [OF that]] .
  have "?key ` {..<length (ct_slots t)} \<subseteq> dom (cb_lookup t)"
  proof
    fix k assume "k \<in> ?key ` {..<length (ct_slots t)}"
    then obtain i where i: "i < length (ct_slots t)" "?key i = k" by auto
    then have "cb_lookup t k = slot_val (ct_slots t ! i)"
      using cb_lookup_at [OF inv i] key by blast
    then show "k \<in> dom (cb_lookup t)" using live [OF i(1)] by (simp add: domIff slot_val_None)
  qed
  then have "card (?key ` {..<length (ct_slots t)}) \<le> card (dom (cb_lookup t))"
    by (rule card_mono [OF cb_dom_finite])
  moreover have "inj_on ?key {..<length (ct_slots t)}"
    using inv key slots_injD [of "ct_slots t"] unfolding cb_inv_def inj_on_def by blast
  then have "card (?key ` {..<length (ct_slots t)}) = cb_cap t"
    by (simp add: card_image cb_cap_def)
  ultimately show ?thesis using cb_dom_card [of t] by simp
qed

subsection \<open>What a registration does\<close>

text \<open>The slave's registration with a mutex that works, as a case list over the table.\<close>

definition good_rtos :: rtos where
  "good_rtos = \<lparr>mutex_create_ok = True, mutex_take_ok = True\<rparr>"

lemma register_write_known:
  assumes inv: "cb_inv t" and i: "find_slot (\<lambda>s. cs_msg_id s = mid) (ct_slots t) = Some i"
    and mid: "mid \<noteq> CB_NONE"
  shows "cb_inv (set_slot i ((ct_slots t ! i)\<lparr>cs_callback := Some f, cs_context := x\<rparr>) t)"
    "cb_lookup (set_slot i ((ct_slots t ! i)\<lparr>cs_callback := Some f, cs_context := x\<rparr>) t)
       = (cb_lookup t)(mid \<mapsto> (f, x))"
    "cb_inv (set_slot i empty_slot t)"
    "cb_lookup (set_slot i empty_slot t) = (cb_lookup t)(mid := None)"
proof -
  let ?s = "(ct_slots t ! i)\<lparr>cs_callback := Some f, cs_context := x\<rparr>"
  have i': "i < length (ct_slots t)" "cs_msg_id (ct_slots t ! i) = mid"
    using find_slot_SomeD(1,2) [OF i] by auto
  have uniq: "cs_msg_id (ct_slots t ! j) \<noteq> mid" if "j < length (ct_slots t)" "j \<noteq> i" for j
    using slots_injD [of "ct_slots t" j i] that i' mid inv by (auto simp: cb_inv_def)
  show inv': "cb_inv (set_slot i ?s t)"
    by (rule cb_inv_write [OF inv i'(1)]) (use i' mid uniq in \<open>auto simp: slot_ok_def\<close>)
  show "cb_lookup (set_slot i ?s t) = (cb_lookup t)(mid \<mapsto> (f, x))"
    using cb_lookup_write [OF inv inv' i'(1), of mid] i' mid by (simp add: slot_val_def)
  show inv'': "cb_inv (set_slot i empty_slot t)"
    by (rule cb_inv_write [OF inv i'(1)]) simp_all
  show "cb_lookup (set_slot i empty_slot t) = (cb_lookup t)(mid := None)"
    by (rule cb_lookup_clear [OF inv inv'' i' mid])
qed

lemma register_write_fresh:
  assumes inv: "cb_inv t" and none: "find_slot (\<lambda>s. cs_msg_id s = mid) (ct_slots t) = None"
    and i: "find_slot (\<lambda>s. cs_callback s = None) (ct_slots t) = Some i"
    and mid: "mid \<noteq> CB_NONE"
    and s_def: "s = \<lparr>cs_msg_id = mid, cs_callback = Some f, cs_context = x\<rparr>"
  shows "cb_inv (set_slot i s t)" "cb_lookup (set_slot i s t) = (cb_lookup t)(mid \<mapsto> (f, x))"
proof -
  have i': "i < length (ct_slots t)" "cs_callback (ct_slots t ! i) = None"
    using find_slot_SomeD(1,2) [OF i] by auto
  have old: "cs_msg_id (ct_slots t ! i) = CB_NONE"
    using cb_invD [OF inv i'(1)] i'(2) by (simp add: slot_ok_def)
  have new: "cs_msg_id (ct_slots t ! j) \<noteq> mid" if "j < length (ct_slots t)" for j
    using none nth_mem [OF that] unfolding find_slot_None by blast
  show inv': "cb_inv (set_slot i s t)"
    by (rule cb_inv_write [OF inv i'(1)]) (use mid new in \<open>auto simp: slot_ok_def s_def\<close>)
  show "cb_lookup (set_slot i s t) = (cb_lookup t)(mid \<mapsto> (f, x))"
    using cb_lookup_write [OF inv inv' i'(1), of mid] old mid by (simp add: slot_val_def s_def)
qed

lemma cb_known:
  assumes inv: "cb_inv t" and mid: "mid \<noteq> CB_NONE"
  shows "find_slot (\<lambda>s. cs_msg_id s = mid) (ct_slots t) = None \<longleftrightarrow> cb_lookup t mid = None"
proof (cases "find_slot (\<lambda>s. cs_msg_id s = mid) (ct_slots t)")
  case None
  have "cs_msg_id (ct_slots t ! j) \<noteq> mid" if "j < length (ct_slots t)" for j
    using None nth_mem [OF that] unfolding find_slot_None by blast
  then have "cb_lookup t mid = None" by (intro cb_lookup_none) simp
  with None show ?thesis by simp
next
  case (Some i)
  have i: "i < length (ct_slots t)" "cs_msg_id (ct_slots t ! i) = mid"
    using find_slot_SomeD(1,2) [OF Some] by auto
  have "cs_callback (ct_slots t ! i) \<noteq> None"
    using cb_invD [OF inv i(1)] i(2) mid by (simp add: slot_ok_def)
  then have "slot_val (ct_slots t ! i) \<noteq> None" by (simp add: slot_val_None)
  with Some show ?thesis using cb_lookup_at [OF inv i mid] by simp
qed

text \<open>What both tables do once their checks have passed: the slot search and the update.\<close>

definition cb_update ::
  "('c, 'x) cb_table \<Rightarrow> u32 \<Rightarrow> 'c option \<Rightarrow> 'x option \<Rightarrow> bool \<times> ('c, 'x) cb_table" where
  "cb_update t mid cb x =
     (case find_slot (\<lambda>s. cs_msg_id s = mid) (ct_slots t) of
        Some i \<Rightarrow>
          (case cb of
             None \<Rightarrow> (True, set_slot i empty_slot t)
           | Some f \<Rightarrow> (True, set_slot i ((ct_slots t ! i)\<lparr>cs_callback := Some f, cs_context := x\<rparr>) t))
      | None \<Rightarrow>
          (case cb of
             None \<Rightarrow> (False, t)
           | Some f \<Rightarrow>
               (case find_slot (\<lambda>s. cs_callback s = None) (ct_slots t) of
                  Some i \<Rightarrow> (True, set_slot i \<lparr>cs_msg_id = mid, cs_callback = Some f, cs_context = x\<rparr> t)
                | None \<Rightarrow> (False, t))))"

lemma slave_register_cases:
  "snd (esp_hosted_register_custom_callback os t mid cb x) \<in>
     {t, t\<lparr>ct_mutex := mutex_create_ok os\<rparr>} \<and> fst (esp_hosted_register_custom_callback os t mid cb x) \<noteq> ESP_OK \<or>
   (\<exists>t'. (t' = t \<or> t' = t\<lparr>ct_mutex := True\<rparr>) \<and> mid \<noteq> CB_NONE \<and>
     snd (esp_hosted_register_custom_callback os t mid cb x) = snd (cb_update t' mid cb x) \<and>
     (fst (esp_hosted_register_custom_callback os t mid cb x) = ESP_OK \<longleftrightarrow> fst (cb_update t' mid cb x)))"
proof -
  consider "mid = CB_NONE" | "mid \<noteq> CB_NONE" "\<not> ct_mutex t" "\<not> mutex_create_ok os"
    | "mid \<noteq> CB_NONE" "ct_mutex t \<or> mutex_create_ok os" "\<not> mutex_take_ok os"
    | "mid \<noteq> CB_NONE" "ct_mutex t \<or> mutex_create_ok os" "mutex_take_ok os" by blast
  then show ?thesis
  proof cases
    case 4
    let ?t = "if ct_mutex t then t else t\<lparr>ct_mutex := True\<rparr>"
    have "snd (esp_hosted_register_custom_callback os t mid cb x) = snd (cb_update ?t mid cb x) \<and>
      (fst (esp_hosted_register_custom_callback os t mid cb x) = ESP_OK \<longleftrightarrow> fst (cb_update ?t mid cb x))"
      using 4
      by (auto simp: esp_hosted_register_custom_callback_def cb_update_def set_slot_def Let_def
          esp_errs split: option.splits)
    then show ?thesis using 4(1) by (intro disjI2 exI [of _ ?t]) simp
  qed (simp_all add: esp_hosted_register_custom_callback_def Let_def esp_errs)
qed

lemma cb_update_mutex [simp]:
  "fst (cb_update (t\<lparr>ct_mutex := b\<rparr>) mid cb x) = fst (cb_update t mid cb x)"
  by (simp add: cb_update_def split: option.splits)

lemma cb_update_inv:
  "cb_inv t \<Longrightarrow> mid \<noteq> CB_NONE \<Longrightarrow> cb_inv (snd (cb_update t mid cb x))"
  by (auto simp: cb_update_def register_write_known register_write_fresh split: option.splits)

lemma cb_update_cap: "cb_cap (snd (cb_update t mid cb x)) = cb_cap t"
  by (simp add: cb_update_def cb_cap_def split: option.splits)

lemma cb_update_fail: "\<not> fst (cb_update t mid cb x) \<Longrightarrow> snd (cb_update t mid cb x) = t"
  by (auto simp: cb_update_def split: option.splits)

lemma cb_update_set:
  "cb_inv t \<Longrightarrow> mid \<noteq> CB_NONE \<Longrightarrow> fst (cb_update t mid (Some f) x) \<Longrightarrow>
   cb_lookup (snd (cb_update t mid (Some f) x)) = (cb_lookup t)(mid \<mapsto> (f, x))"
  by (auto simp: cb_update_def register_write_known(2) register_write_fresh(2) split: option.splits)

lemma cb_update_clear:
  assumes inv: "cb_inv t" and mid: "mid \<noteq> CB_NONE"
  shows "cb_lookup (snd (cb_update t mid None x)) = (cb_lookup t)(mid := None)"
proof (cases "find_slot (\<lambda>s. cs_msg_id s = mid) (ct_slots t)")
  case None
  then have "cb_lookup t mid = None" using cb_known [OF inv mid] by blast
  with None show ?thesis by (auto simp: cb_update_def fun_upd_idem)
next
  case (Some i)
  then show ?thesis using register_write_known(4) [OF inv Some mid] by (simp add: cb_update_def)
qed

lemma cb_update_room:
  assumes inv: "cb_inv t" and mid: "mid \<noteq> CB_NONE"
  shows "fst (cb_update t mid (Some f) x) \<longleftrightarrow>
    mid \<in> dom (cb_lookup t) \<or> card (dom (cb_lookup t)) < cb_cap t"
proof (cases "find_slot (\<lambda>s. cs_msg_id s = mid) (ct_slots t)")
  case (Some i)
  then have "cb_lookup t mid \<noteq> None" using cb_known [OF inv mid] by (metis option.distinct(1))
  with Some show ?thesis by (simp add: cb_update_def domIff)
next
  case None
  then have out: "mid \<notin> dom (cb_lookup t)" using cb_known [OF inv mid] by (simp add: domIff)
  show ?thesis
  proof (cases "find_slot (\<lambda>s. cs_callback s = None) (ct_slots t)")
    case full: None
    show ?thesis using None full out cb_full_card [OF inv full] by (simp add: cb_update_def)
  next
    case (Some i)
    let ?s = "\<lparr>cs_msg_id = mid, cs_callback = Some f, cs_context = x\<rparr>"
    have "dom (cb_lookup (set_slot i ?s t)) = insert mid (dom (cb_lookup t))"
      using register_write_fresh(2) [OF inv None Some mid refl] by simp
    then have "card (dom (cb_lookup (set_slot i ?s t))) = Suc (card (dom (cb_lookup t)))"
      using out cb_dom_finite by simp
    then have "card (dom (cb_lookup t)) < cb_cap t"
      using cb_dom_card [of "set_slot i ?s t"] by (simp add: cb_cap_def)
    with None Some show ?thesis by (simp add: cb_update_def)
  qed
qed

subsection \<open>Registration loops\<close>

text \<open>
  A loop over \<open>(id, callback)\<close> pairs that ignores failures, one that stops at the first, and
  one of de-registrations, over any registration function.
\<close>

fun reg_all :: "('t \<Rightarrow> u32 \<Rightarrow> 'c option \<Rightarrow> 'x option \<Rightarrow> int \<times> 't) \<Rightarrow> 't \<Rightarrow> (u32 \<times> 'c) list \<Rightarrow> 't" where
  "reg_all reg t [] = t"
| "reg_all reg t ((m, f) # xs) = reg_all reg (snd (reg t m (Some f) None)) xs"

fun reg_until ::
  "('t \<Rightarrow> u32 \<Rightarrow> 'c option \<Rightarrow> 'x option \<Rightarrow> int \<times> 't) \<Rightarrow> 't \<Rightarrow> (u32 \<times> 'c) list \<Rightarrow> int \<times> 't" where
  "reg_until reg t [] = (0, t)"
| "reg_until reg t ((m, f) # xs) =
     (if fst (reg t m (Some f) None) \<noteq> 0 then reg t m (Some f) None
      else reg_until reg (snd (reg t m (Some f) None)) xs)"

fun dereg_all :: "('t \<Rightarrow> u32 \<Rightarrow> 'c option \<Rightarrow> 'x option \<Rightarrow> int \<times> 't) \<Rightarrow> 't \<Rightarrow> u32 list \<Rightarrow> 't" where
  "dereg_all reg t [] = t"
| "dereg_all reg t (m # ms) = dereg_all reg (snd (reg t m None None)) ms"

text \<open>The map a list of pairs stands for.\<close>

definition cbs_map :: "(u32 \<times> 'c) list \<Rightarrow> u32 \<Rightarrow> ('c \<times> 'x option) option" where
  "cbs_map xs = map_of (map (\<lambda>(m, f). (m, (f, None))) xs)"

lemma dom_cbs_map: "dom (cbs_map xs) = fst ` set xs"
  by (auto simp: cbs_map_def dom_map_of_conv_image_fst image_image case_prod_beta)

lemma cbs_map_Cons: "cbs_map ((m, f) # xs) = (cbs_map xs)(m \<mapsto> (f, None))"
  by (simp add: cbs_map_def)

lemma cbs_map_Nil [simp]: "cbs_map [] = Map.empty"
  by (simp add: cbs_map_def)

lemma cbs_map_in:
  assumes "distinct (map fst xs)" "(m, h) \<in> set xs"
  shows "cbs_map xs m = Some (h, None)"
proof -
  have "distinct (map fst (map (\<lambda>(m, f). (m, (f, None))) xs))"
    using assms(1) by (simp add: comp_def case_prod_beta)
  moreover have "(m, (h, None)) \<in> set (map (\<lambda>(m, f). (m, (f, None))) xs)"
    using assms(2) by force
  ultimately show ?thesis unfolding cbs_map_def by (rule map_of_is_SomeI)
qed

lemma cbs_map_step:
  fixes l :: "u32 \<Rightarrow> ('c \<times> 'x option) option"
  assumes "m \<notin> fst ` set xs"
  shows "l ++ cbs_map (take (Suc k) ((m, f) # xs)) = l(m \<mapsto> (f, None)) ++ cbs_map (take k xs)"
proof -
  have "m \<notin> dom (cbs_map (take k xs) :: u32 \<Rightarrow> ('c \<times> 'x option) option)"
    using assms by (auto simp: dom_cbs_map image_iff dest: in_set_takeD)
  then show ?thesis by (simp add: cbs_map_Cons map_add_upd_left)
qed

subsection \<open>The contract of a callback table\<close>

text \<open>
  What a client of either table relies on: a table \<open>t\<close> stands for a partial map from message
  ids to callbacks, of at most \<open>cap t\<close> keys. \<open>reg\<close> returns 0 for success.
\<close>

locale callback_table =
  fixes reg :: "'t \<Rightarrow> u32 \<Rightarrow> 'c option \<Rightarrow> 'x option \<Rightarrow> int \<times> 't"
    and lookup :: "'t \<Rightarrow> u32 \<Rightarrow> ('c \<times> 'x option) option"
    and inv :: "'t \<Rightarrow> bool"
    and cap :: "'t \<Rightarrow> nat"
  assumes reg_inv: "inv t \<Longrightarrow> inv (snd (reg t m c x))"
    and reg_cap: "cap (snd (reg t m c x)) = cap t"
    and reg_ok: "inv t \<Longrightarrow> fst (reg t m (Some f) x) = 0 \<Longrightarrow>
       lookup (snd (reg t m (Some f) x)) = (lookup t)(m \<mapsto> (f, x))"
    and reg_fail: "inv t \<Longrightarrow> fst (reg t m c x) \<noteq> 0 \<Longrightarrow> lookup (snd (reg t m c x)) = lookup t"
    and reg_clear: "inv t \<Longrightarrow> m \<noteq> CB_NONE \<Longrightarrow>
       lookup (snd (reg t m None x)) = (lookup t)(m := None)"
    and reg_room: "inv t \<Longrightarrow> m \<noteq> CB_NONE \<Longrightarrow>
       fst (reg t m (Some f) x) = 0 \<longleftrightarrow> m \<in> dom (lookup t) \<or> card (dom (lookup t)) < cap t"
    and dom_cap: "inv t \<Longrightarrow> finite (dom (lookup t)) \<and> card (dom (lookup t)) \<le> cap t"
begin

lemma reg_fresh:
  assumes "inv t" "m \<noteq> CB_NONE" "m \<notin> dom (lookup t)"
  shows "card (dom (lookup t)) < cap t \<Longrightarrow>
       lookup (snd (reg t m (Some f) x)) = (lookup t)(m \<mapsto> (f, x)) \<and> fst (reg t m (Some f) x) = 0 \<and>
       card (dom (lookup (snd (reg t m (Some f) x)))) = Suc (card (dom (lookup t)))"
    "\<not> card (dom (lookup t)) < cap t \<Longrightarrow>
       lookup (snd (reg t m (Some f) x)) = lookup t \<and> fst (reg t m (Some f) x) \<noteq> 0"
  using assms reg_room [of t m f x] reg_ok [of t m f x] reg_fail [of t m "Some f" x] dom_cap [of t]
  by auto

text \<open>Fresh distinct ids go in until the table is full; the rest are dropped.\<close>

definition fresh_ids :: "'t \<Rightarrow> (u32 \<times> 'c) list \<Rightarrow> bool" where
  "fresh_ids t xs \<longleftrightarrow> distinct (map fst xs) \<and> CB_NONE \<notin> fst ` set xs \<and>
     dom (lookup t) \<inter> fst ` set xs = {}"

lemma fresh_ids_Cons:
  assumes "fresh_ids t ((m, f) # xs)"
  shows "m \<noteq> CB_NONE" "m \<notin> dom (lookup t)" "m \<notin> fst ` set xs" "fresh_ids t xs"
    "lookup t' = (lookup t)(m \<mapsto> v) \<Longrightarrow> fresh_ids t' xs" "lookup t' = lookup t \<Longrightarrow> fresh_ids t' xs"
  using assms by (auto simp: fresh_ids_def)

lemma reg_all_fresh:
  assumes "inv t" "fresh_ids t xs"
  shows "inv (reg_all reg t xs) \<and> cap (reg_all reg t xs) = cap t \<and>
    lookup (reg_all reg t xs) = lookup t ++ cbs_map (take (cap t - card (dom (lookup t))) xs)"
  using assms
proof (induction xs arbitrary: t)
  case Nil
  then show ?case by simp
next
  case (Cons p xs)
  obtain m f where p: "p = (m, f)" by (cases p)
  let ?t = "snd (reg t m (Some f) None)"
  note m = fresh_ids_Cons [OF Cons.prems(2) [unfolded p]]
  have inv': "inv ?t" using Cons.prems(1) by (rule reg_inv)
  show ?case
  proof (cases "card (dom (lookup t)) < cap t")
    case True
    note l = reg_fresh(1) [OF Cons.prems(1) m(1,2) True, of f None]
    then have l1: "lookup ?t = (lookup t)(m \<mapsto> (f, None))" by blast
    obtain k where k: "cap t - card (dom (lookup t)) = Suc k" "cap t - card (dom (lookup ?t)) = k"
      using True l by (metis Suc_diff_Suc)
    have "inv (reg_all reg ?t xs) \<and> cap (reg_all reg ?t xs) = cap t \<and> lookup (reg_all reg ?t xs)
        = lookup t ++ cbs_map (take (Suc k) (p # xs))"
      using Cons.IH [OF inv' m(5) [OF l1]]
      unfolding reg_cap unfolding k(2) unfolding l1 p cbs_map_step [OF m(3)] by blast
    then show ?thesis using p k by simp
  next
    case False
    have l: "lookup ?t = lookup t"
      using reg_fresh(2) [OF Cons.prems(1) m(1,2) False] by blast
    show ?thesis using Cons.IH [OF inv' m(6) [OF l]] l p False by (simp add: reg_cap)
  qed
qed

lemma reg_until_fresh:
  assumes "inv t" "fresh_ids t xs"
  shows "(fst (reg_until reg t xs) = 0 \<longleftrightarrow> card (dom (lookup t)) + length xs \<le> cap t) \<and>
    inv (snd (reg_until reg t xs)) \<and> cap (snd (reg_until reg t xs)) = cap t \<and>
    lookup (snd (reg_until reg t xs)) =
      lookup t ++ cbs_map (take (cap t - card (dom (lookup t))) xs)"
  using assms
proof (induction xs arbitrary: t)
  case Nil
  then show ?case using dom_cap by simp
next
  case (Cons p xs)
  obtain m f where p: "p = (m, f)" by (cases p)
  let ?t = "snd (reg t m (Some f) None)"
  note m = fresh_ids_Cons [OF Cons.prems(2) [unfolded p]]
  have inv': "inv ?t" using Cons.prems(1) by (rule reg_inv)
  show ?case
  proof (cases "card (dom (lookup t)) < cap t")
    case True
    note l = reg_fresh(1) [OF Cons.prems(1) m(1,2) True, of f None]
    then have l1: "lookup ?t = (lookup t)(m \<mapsto> (f, None))" by blast
    obtain k where k: "cap t - card (dom (lookup t)) = Suc k" "cap t - card (dom (lookup ?t)) = k"
      using True l by (metis Suc_diff_Suc)
    have "inv (snd (reg_until reg ?t xs)) \<and> cap (snd (reg_until reg ?t xs)) = cap t \<and> lookup (snd (reg_until reg ?t xs))
        = lookup t ++ cbs_map (take (Suc k) (p # xs))"
      using Cons.IH [OF inv' m(5) [OF l1]]
      unfolding reg_cap unfolding k(2) unfolding l1 p cbs_map_step [OF m(3)] by blast
    moreover have "fst (reg_until reg ?t xs) = 0 \<longleftrightarrow> card (dom (lookup t)) + length (p # xs) \<le> cap t"
      using Cons.IH [OF inv' m(5) [OF l1], unfolded reg_cap] conjunct2 [OF conjunct2 [OF l]]
      by (simp only: list.size) simp
    moreover have "reg_until reg t (p # xs) = reg_until reg ?t xs" using l p by simp
    ultimately show ?thesis using k by simp
  next
    case False
    note l = reg_fresh(2) [OF Cons.prems(1) m(1,2) False, of f None]
    then show ?thesis using p inv' False by (simp add: reg_cap)
  qed
qed

lemma dereg_all_lookup:
  "inv t \<Longrightarrow> CB_NONE \<notin> set ms \<Longrightarrow>
   inv (dereg_all reg t ms) \<and> lookup (dereg_all reg t ms) = lookup t |` (- set ms)"
proof (induction ms arbitrary: t)
  case Nil
  then show ?case by simp
next
  case (Cons m ms)
  have "lookup (snd (reg t m None None)) = (lookup t)(m := None)"
    using Cons.prems by (intro reg_clear) auto
  then have "lookup (snd (reg t m None None)) |` (- set ms) = lookup t |` (- set (m # ms))"
    by (auto simp: restrict_map_def fun_eq_iff)
  then show ?case using Cons.IH [OF reg_inv [OF Cons.prems(1)]] Cons.prems by simp
qed

end

subsection \<open>Both tables keep the contract\<close>

lemma slave_register_good:
  assumes "mid \<noteq> CB_NONE"
  shows "(fst (esp_hosted_register_custom_callback good_rtos t mid cb x) = 0 \<longleftrightarrow> fst (cb_update t mid cb x)) \<and>
    snd (esp_hosted_register_custom_callback good_rtos t mid cb x)
      = snd (cb_update (t\<lparr>ct_mutex := True\<rparr>) mid cb x)"
  using assms
  by (auto simp: esp_hosted_register_custom_callback_def cb_update_def set_slot_def Let_def
      good_rtos_def esp_errs split: option.splits)

lemma host_register_good:
  assumes "mid \<noteq> CB_NONE"
  shows "(fst (rpc_evt_register_custom_callback good_rtos t mid cb x) = 0 \<longleftrightarrow> fst (cb_update t mid cb x)) \<and>
    snd (rpc_evt_register_custom_callback good_rtos t mid cb x)
      = snd (cb_update (t\<lparr>ct_mutex := True\<rparr>) mid cb x)"
  using assms
  by (auto simp: rpc_evt_register_custom_callback_def cb_update_def set_slot_def Let_def
      good_rtos_def SUCCESS_def FAILURE_def split: option.splits)

lemma cb_update_good:
  assumes "cb_inv t" "mid \<noteq> CB_NONE"
  defines "t' \<equiv> t\<lparr>ct_mutex := True\<rparr>"
  shows "cb_inv (snd (cb_update t' mid cb x))" "cb_cap (snd (cb_update t' mid cb x)) = cb_cap t"
    "fst (cb_update t mid (Some f) x) \<Longrightarrow>
       cb_lookup (snd (cb_update t' mid (Some f) x)) = (cb_lookup t)(mid \<mapsto> (f, x))"
    "\<not> fst (cb_update t mid cb x) \<Longrightarrow> cb_lookup (snd (cb_update t' mid cb x)) = cb_lookup t"
    "cb_lookup (snd (cb_update t' mid None x)) = (cb_lookup t)(mid := None)"
  using assms cb_update_inv [of t' mid cb x] cb_update_cap [of t' mid cb x]
    cb_update_set [of t' mid f x] cb_update_fail [of t' mid cb x] cb_update_clear [of t' mid x]
  by (auto simp: cb_cap_def)

lemma cb_register_none:
  "esp_hosted_register_custom_callback os t CB_NONE cb x = (ESP_ERR_INVALID_ARG, t)"
  "rpc_evt_register_custom_callback os t CB_NONE cb x = (FAILURE, t)"
  by (simp_all add: esp_hosted_register_custom_callback_def rpc_evt_register_custom_callback_def)

interpretation slave_cb: callback_table
  "esp_hosted_register_custom_callback good_rtos" cb_lookup cb_inv cb_cap
proof (unfold_locales, goal_cases)
  case (1 t m c x) then show ?case
    by (cases "m = CB_NONE") (simp_all add: slave_register_good cb_update_good(1) cb_register_none)
next
  case (2 t m c x) then show ?case
    by (cases "m = CB_NONE")
      (simp_all add: slave_register_good cb_update_cap cb_register_none, simp add: cb_cap_def)
next
  case (3 t m f x) then show ?case
    using slave_register_good [of m t "Some f" x] cb_update_good(3) [of t m f x]
    by (cases "m = CB_NONE") (simp_all add: cb_register_none esp_errs)
next
  case (4 t m c x) then show ?case
    using slave_register_good [of m t c x] cb_update_good(4) [of t m c x]
    by (cases "m = CB_NONE") (simp_all add: cb_register_none)
next
  case (5 t m x) then show ?case
    using cb_update_good(5) [of t m x] slave_register_good [of m t None x] by simp
next
  case (6 t m f x) then show ?case
    using slave_register_good [of m t "Some f" x] cb_update_room [of t m f x] by simp
next
  case (7 t) show ?case using cb_dom_finite cb_dom_card by blast
qed

interpretation host_cb: callback_table
  "rpc_evt_register_custom_callback good_rtos" cb_lookup cb_inv cb_cap
proof (unfold_locales, goal_cases)
  case (1 t m c x) then show ?case
    by (cases "m = CB_NONE") (simp_all add: host_register_good cb_update_good(1) cb_register_none)
next
  case (2 t m c x) then show ?case
    by (cases "m = CB_NONE")
      (simp_all add: host_register_good cb_update_cap cb_register_none, simp add: cb_cap_def)
next
  case (3 t m f x) then show ?case
    using host_register_good [of m t "Some f" x] cb_update_good(3) [of t m f x]
    by (cases "m = CB_NONE") (simp_all add: cb_register_none FAILURE_def)
next
  case (4 t m c x) then show ?case
    using host_register_good [of m t c x] cb_update_good(4) [of t m c x]
    by (cases "m = CB_NONE") (simp_all add: cb_register_none)
next
  case (5 t m x) then show ?case
    using cb_update_good(5) [of t m x] host_register_good [of m t None x] by simp
next
  case (6 t m f x) then show ?case
    using host_register_good [of m t "Some f" x] cb_update_room [of t m f x] by simp
next
  case (7 t) show ?case using cb_dom_finite cb_dom_card by blast
qed

lemma slave_register_mutex:
  "mid \<noteq> CB_NONE \<Longrightarrow> ct_mutex (snd (esp_hosted_register_custom_callback good_rtos t mid cb x))"
  by (simp add: slave_register_good cb_update_def split: option.splits)

lemma host_register_mutex:
  "mid \<noteq> CB_NONE \<Longrightarrow> ct_mutex (snd (rpc_evt_register_custom_callback good_rtos t mid cb x))"
  by (simp add: host_register_good cb_update_def split: option.splits)

text \<open>The host calls its table through \<open>esp_hosted_misc.h\<close>'s wrapper, which adds nothing.\<close>

abbreviation host_register where
  "host_register \<equiv> rpc_evt_register_custom_callback good_rtos"

abbreviation slave_register where
  "slave_register \<equiv> esp_hosted_register_custom_callback good_rtos"

lemma dispatch_good:
  assumes "cb_inv t" "ct_mutex t" "mid \<noteq> CB_NONE"
  shows "handle_custom_rpc_request good_rtos t mid req =
    (case cb_lookup t mid of
       None \<Rightarrow> (ESP_ERR_NOT_FOUND, None)
     | Some (f, x) \<Rightarrow> (ESP_OK, Some (f, mid, req, x)))"
proof (cases "find_slot (cb_hit mid) (ct_slots t)")
  case None
  then show ?thesis using assms by (simp add: handle_custom_rpc_request_def good_rtos_def cb_lookup_def)
next
  case (Some i)
  have "cb_hit mid (ct_slots t ! i)" using find_slot_SomeD(2) [OF Some] .
  then obtain f where "cs_callback (ct_slots t ! i) = Some f" by (auto simp: cb_hit_def)
  then show ?thesis using Some assms
    by (simp add: handle_custom_rpc_request_def good_rtos_def cb_lookup_def slot_val_def)
qed

subsection \<open>Properties\<close>

text \<open>C12: Registration on the co-processor, whatever the RTOS answers: the table stays well
  formed and keeps its size; on success it maps the id to the new callback (or no longer maps
  it, for a NULL callback), and on any error the map it stands for is unchanged.\<close>

theorem slave_register_outcome:
  assumes "cb_inv t" and r: "esp_hosted_register_custom_callback os t mid cb x = (e, t')"
  shows "cb_inv t' \<and> cb_cap t' = cb_cap t \<and>
    (if e = ESP_OK
     then mid \<noteq> CB_NONE \<and> cb_lookup t' = (cb_lookup t)(mid := map_option (\<lambda>f. (f, x)) cb)
     else cb_lookup t' = cb_lookup t)"
  using slave_register_cases [of os t mid cb x, unfolded r]
proof
  assume "snd (e, t') \<in> {t, t\<lparr>ct_mutex := mutex_create_ok os\<rparr>} \<and> fst (e, t') \<noteq> ESP_OK"
  then show ?thesis using assms(1) by (auto simp: cb_cap_def)
next
  assume "\<exists>u. (u = t \<or> u = t\<lparr>ct_mutex := True\<rparr>) \<and> mid \<noteq> CB_NONE \<and>
    snd (e, t') = snd (cb_update u mid cb x) \<and> (fst (e, t') = ESP_OK \<longleftrightarrow> fst (cb_update u mid cb x))"
  then obtain u where u: "cb_inv u" "cb_lookup u = cb_lookup t" "cb_cap u = cb_cap t"
    and mid: "mid \<noteq> CB_NONE" and r: "t' = snd (cb_update u mid cb x)"
      "e = ESP_OK \<longleftrightarrow> fst (cb_update u mid cb x)"
    using assms(1) that [of t] that [of "t\<lparr>ct_mutex := True\<rparr>"] by (elim exE conjE disjE) (simp_all add: cb_cap_def)
  have "cb_inv t' \<and> cb_cap t' = cb_cap t"
    using cb_update_inv [OF u(1) mid] u(3) by (simp add: r(1) cb_update_cap)
  moreover have "cb_lookup t' = (cb_lookup t)(mid := map_option (\<lambda>f. (f, x)) cb)" if "e = ESP_OK"
    using that cb_update_set [OF u(1) mid] cb_update_clear [OF u(1) mid] u(2) r
    by (cases cb) auto
  moreover have "cb_lookup t' = cb_lookup t" if "e \<noteq> ESP_OK"
    using that cb_update_fail u(2) r by metis
  ultimately show ?thesis using mid by simp
qed

lemma slave_register_outcome_witness:
  "cb_lookup (snd (slave_register (cb_init 2) 7 (Some (3 :: nat)) (None :: nat option))) 7
     = Some (3, None)"
proof -
  obtain e t' where r: "slave_register (cb_init 2) 7 (Some (3 :: nat)) (None :: nat option) = (e, t')"
    by fastforce
  have "e = ESP_OK"
  proof -
    have "fst (slave_register (cb_init 2) 7 (Some (3 :: nat)) (None :: nat option)) = ESP_OK"
      by code_simp
    then show ?thesis using r by simp
  qed
  then show ?thesis using slave_register_outcome [OF cb_inv_init r] r by simp
qed

text \<open>Dispatch of a custom message calls exactly the callback the table maps its id to, with
  the id, the bytes and the context it was registered with, and calls nothing (reporting
  \<open>ESP_ERR_NOT_FOUND\<close>) for an id without one.\<close>

theorem dispatch_registered:
  assumes "cb_inv t" "ct_mutex t" "mid \<noteq> CB_NONE"
  shows "handle_custom_rpc_request good_rtos t mid req =
    (case cb_lookup t mid of
       None \<Rightarrow> (ESP_ERR_NOT_FOUND, None)
     | Some (f, x) \<Rightarrow> (ESP_OK, Some (f, mid, req, x)))"
  by (rule dispatch_good [OF assms])

lemma dispatch_registered_witness:
  "handle_custom_rpc_request good_rtos
     \<lparr>ct_slots = [\<lparr>cs_msg_id = 7, cs_callback = Some (3 :: nat), cs_context = Some (4 :: nat)\<rparr>], ct_mutex = True\<rparr>
     7 [1, 2] = (ESP_OK, Some (3, 7, [1, 2], Some 4))"
  using dispatch_registered [of
     "\<lparr>ct_slots = [\<lparr>cs_msg_id = 7, cs_callback = Some (3 :: nat), cs_context = Some (4 :: nat)\<rparr>], ct_mutex = True\<rparr>"
     7 "[1, 2]"]
  by (simp add: cb_inv_def slots_inj_def slot_ok_def CB_NONE_def cb_lookup_def cb_hit_def slot_val_def)

text \<open>Custom data of 1 to 8166 bytes that the co-processor sends reaches the host's event with
  the message id and the bytes intact.\<close>

theorem custom_data_roundtrip:
  assumes "malloc (4 + length d)" "d \<noteq> []" "length d \<le> 8166"
  shows "\<exists>buf. esp_hosted_send_custom_data malloc mid (Some d) (length d) = (ESP_OK, Some buf) \<and>
    rpc_evt_custom_rpc buf = (mid, d)"
  using assms
  by (simp add: esp_hosted_send_custom_data_def rpc_evt_custom_rpc_def)

lemma custom_data_roundtrip_witness:
  "\<exists>buf. esp_hosted_send_custom_data (\<lambda>_. True) 0xC1758001 (Some [5, 6]) 2 = (ESP_OK, Some buf) \<and>
    rpc_evt_custom_rpc buf = (0xC1758001, [5, 6])"
  using custom_data_roundtrip [of "\<lambda>_. True" "[5, 6]" "0xC1758001"]
  by (simp add: numeral_2_eq_2)

end
