(* ===== verification/Phy_Host.thy ===== *)
theory Phy_Host
  imports Custom_Callbacks
begin

unbundle bit_operations_syntax

section \<open>The host library: calls in flight, responses, start-up (phy_rpc.c)\<close>

text \<open>
  The in-flight table, the response callback, the request/response call \<open>do_call\<close>, and the
  registration and de-registration of the callbacks. A semaphore that is taken before it was
  created is a crash (\<open>None\<close>). \<open>do_call\<close> here is the run of one caller with the messages that
  arrive while it waits; all interleavings of several callers are in \<open>Phy_Host_Steps\<close>, which is
  built from the same pieces (\<open>reserve\<close>, \<open>on_response\<close>, \<open>collect\<close>, \<open>release\<close>).
\<close>

subsection \<open>State\<close>

definition MAX_INFLIGHT :: nat where
  "MAX_INFLIGHT = 4"

text \<open>
  One slot: the token of its binary semaphore, the expected ids, the caller's buffer (\<open>None\<close> for
  a NULL pointer) with its capacity and the number of bytes stored, the status and the flag.
\<close>

record inflight =
  fl_done :: bool
  fl_op_id :: u32
  fl_want :: u32
  fl_out :: "byte list option"
  fl_cap :: nat
  fl_out_len :: nat
  fl_status :: esp_err
  fl_in_use :: bool

record host =
  h_mutex :: bool
  h_slots :: "inflight list"
  h_next_op :: u32

definition empty_fl :: inflight where
  "empty_fl = \<lparr>fl_done = False, fl_op_id = 0, fl_want = 0, fl_out = None, fl_cap = 0,
     fl_out_len = 0, fl_status = 0, fl_in_use = False\<rparr>"

definition host_boot :: host where
  "host_boot = \<lparr>h_mutex = False, h_slots = replicate MAX_INFLIGHT empty_fl, h_next_op = 1\<rparr>"

definition upd_slot :: "nat \<Rightarrow> (inflight \<Rightarrow> inflight) \<Rightarrow> host \<Rightarrow> host" where
  "upd_slot i f h = h\<lparr>h_slots := (h_slots h)[i := f (h_slots h ! i)]\<rparr>"

text \<open>A freshly initialised host.\<close>

definition host_up :: host where
  "host_up = host_boot\<lparr>h_mutex := True\<rparr>"

subsection \<open>Responses\<close>

definition awaits :: "u32 \<Rightarrow> u32 \<Rightarrow> inflight \<Rightarrow> bool" where
  "awaits op mid f \<longleftrightarrow> fl_in_use f \<and> fl_op_id f = op \<and> fl_want f = mid"

text \<open>\<open>memcpy\<close> of \<open>src\<close> over the start of \<open>dst\<close>.\<close>

definition overwrite :: "byte list \<Rightarrow> byte list \<Rightarrow> byte list" where
  "overwrite dst src = src @ drop (length src) dst"

definition store_response :: "byte list \<Rightarrow> inflight \<Rightarrow> inflight" where
  "store_response data f =
     (let f = f\<lparr>fl_status := resp_status data\<rparr>;
          f = (case fl_out f of
                 Some b \<Rightarrow>
                   if length data > sizeof_resp_hdr
                   then let copy = min (length data - sizeof_resp_hdr) (fl_cap f)
                        in f\<lparr>fl_out := Some (overwrite b (take copy (drop sizeof_resp_hdr data))),
                             fl_out_len := copy\<rparr>
                   else f
               | None \<Rightarrow> f)
      in f\<lparr>fl_done := True\<rparr>)"

definition on_response :: "u32 \<Rightarrow> byte list \<Rightarrow> host \<Rightarrow> host option" where
  "on_response mid data h =
     (if length data < sizeof_resp_hdr then Some h
      else if \<not> h_mutex h then None
      else case find_slot (awaits (resp_op_id data) mid) (h_slots h) of
             None \<Rightarrow> Some h
           | Some i \<Rightarrow> Some (upd_slot i (store_response data) h))"

subsection \<open>A call\<close>

text \<open>
  Reserving a slot: the first free one gets the next operation id, the expected response id, the
  caller's buffer and the status \<open>ESP_FAIL\<close>. The semaphore is not touched.
\<close>

definition claim :: "u32 \<Rightarrow> u32 \<Rightarrow> byte list option \<Rightarrow> nat \<Rightarrow> inflight \<Rightarrow> inflight" where
  "claim op resp out cap f = f\<lparr>fl_op_id := op, fl_want := resp, fl_out := out, fl_cap := cap,
     fl_out_len := 0, fl_status := ESP_FAIL, fl_in_use := True\<rparr>"

definition reserve :: "u32 \<Rightarrow> byte list option \<Rightarrow> nat \<Rightarrow> host \<Rightarrow> (nat \<times> u32 \<times> host) option" where
  "reserve resp out cap h =
     (case find_slot (\<lambda>f. \<not> fl_in_use f) (h_slots h) of
        None \<Rightarrow> None
      | Some i \<Rightarrow>
          Some (i, h_next_op h,
                upd_slot i (claim (h_next_op h) resp out cap) (h\<lparr>h_next_op := h_next_op h + 1\<rparr>)))"

definition release :: "nat \<Rightarrow> host \<Rightarrow> host" where
  "release i h = upd_slot i (\<lambda>f. f\<lparr>fl_in_use := False\<rparr>) h"

text \<open>What a finished call returns: status, stored length, buffer.\<close>

record call_result =
  cr_err :: esp_err
  cr_len :: nat
  cr_out :: "byte list option"

definition collect :: "inflight \<Rightarrow> call_result" where
  "collect f = \<lparr>cr_err = fl_status f, cr_len = fl_out_len f, cr_out = fl_out f\<rparr>"

definition failed :: "esp_err \<Rightarrow> byte list option \<Rightarrow> call_result" where
  "failed e out = \<lparr>cr_err = e, cr_len = 0, cr_out = out\<rparr>"

fun deliver :: "(u32 \<times> byte list) list \<Rightarrow> host \<Rightarrow> host option" where
  "deliver [] h = Some h"
| "deliver ((mid, data) # ms) h =
     (case on_response mid data h of None \<Rightarrow> None | Some h' \<Rightarrow> deliver ms h')"

text \<open>
  \<open>net req buf\<close> gives the status of \<open>esp_hosted_send_custom_data\<close> and the responses that arrive
  before the call takes its semaphore. \<open>None\<close> is a crash.
\<close>

type_synonym net = "u32 \<Rightarrow> byte list \<Rightarrow> esp_err \<times> (u32 \<times> byte list) list"

definition do_call ::
  "(nat \<Rightarrow> bool) \<Rightarrow> net \<Rightarrow> u32 \<Rightarrow> u32 \<Rightarrow> byte list \<Rightarrow> byte list option \<Rightarrow> nat \<Rightarrow> host
     \<Rightarrow> (call_result \<times> host) option" where
  "do_call malloc net req resp body out cap h =
     (if \<not> h_mutex h then Some (failed ESP_ERR_INVALID_STATE out, h)
      else if \<not> malloc (sizeof_hdr + length body) then Some (failed ESP_ERR_NO_MEM out, h)
      else
        case reserve resp out cap h of
          None \<Rightarrow> Some (failed ESP_ERR_NO_MEM out, h)
        | Some (i, op, h) \<Rightarrow>
            (let (err, msgs) = net req (le_put 4 op @ body)
             in case deliver msgs h of
                  None \<Rightarrow> None
                | Some h \<Rightarrow>
                    let f = h_slots h ! i in
                    if err \<noteq> ESP_OK then Some (failed err (fl_out f), release i h)
                    else if \<not> fl_done f then Some (failed ESP_ERR_TIMEOUT (fl_out f), release i h)
                    else Some (collect f, release i (upd_slot i (\<lambda>f. f\<lparr>fl_done := False\<rparr>) h))))"

subsection \<open>Start-up and shutdown\<close>

datatype host_cb =
    On_response | On_event_ocb | On_event_raw | On_event_csi | On_event_ftm |
    On_event_espnow_rx | On_event_espnow_tx | On_event_ieee154_rx

type_synonym host_table = "(host_cb, unit) cb_table"

definition resp_ids :: "phy_rpc list" where
  "resp_ids =
     [SET_CHANNEL, SET_PHY_11P, SET_TX_POWER, SET_RX_GAIN, SET_AGC_MAX_GAIN, SET_CCA,
      GET_CCA_COUNTERS, RESET_CCA_COUNT, SET_LOW_RATE, SET_BANDWIDTH, GET_PHY_RSSI,
      SET_COUNTRY_PERM, GET_INFO, SET_FREQ, SET_BAND, SET_CHAN_FILT, SET_CHAN14_MIC, SET_RATE,
      SET_MOST_TPW, GET_MOST_TPW, RESET_RX_GAIN_TBL, GET_NOISE_FLOOR, GET_TEMPERATURE,
      SET_CSI_DUMP, SET_LOOPBACK, SET_BT_TX_GAIN, SET_BT_FILTER, GET_CAPS, TX_80211,
      SET_PROMISC, SET_PROMISC_FILTER, SET_PROTOCOL, SET_MAC, SET_CSI_ENABLE, FTM_INITIATE,
      ESPNOW_INIT, ESPNOW_DEINIT, ESPNOW_ADD_PEER, ESPNOW_DEL_PEER, ESPNOW_SEND,
      ESPNOW_SET_PMK, IEEE154_ENABLE, IEEE154_SET_CHAN, IEEE154_SET_PANID,
      IEEE154_SET_PROMISC, IEEE154_TX_RAW, SET_EVENT_MASK]"

definition resp_regs :: "(u32 \<times> host_cb) list" where
  "resp_regs = map (\<lambda>r. (PHY_RPC_RESP r, On_response)) resp_ids"

definition event_regs :: "(u32 \<times> host_cb) list" where
  "event_regs =
     [(PHY_RPC_EVT OCB_FRAME, On_event_ocb), (PHY_RPC_EVT RAW_FRAME, On_event_raw),
      (PHY_RPC_EVT CSI, On_event_csi), (PHY_RPC_EVT FTM_REPORT, On_event_ftm),
      (PHY_RPC_EVT ESPNOW_RX, On_event_espnow_rx),
      (PHY_RPC_EVT ESPNOW_TX_STATUS, On_event_espnow_tx),
      (PHY_RPC_EVT IEEE154_RX, On_event_ieee154_rx)]"

text \<open>
  A failing response registration returns its error; a failing event registration aborts
  (\<open>ESP_ERROR_CHECK\<close>, here \<open>None\<close>). The four semaphores are assumed to be created; the code
  does not check them.
\<close>

definition esp_hosted_open_init ::
  "bool \<Rightarrow> host \<Rightarrow> host_table \<Rightarrow> (esp_err \<times> host \<times> host_table) option" where
  "esp_hosted_open_init mutex_ok h t =
     (if h_mutex h then Some (ESP_ERR_INVALID_STATE, h, t)
      else if \<not> mutex_ok then Some (ESP_ERR_NO_MEM, h, t)
      else
        let h = h\<lparr>h_mutex := True, h_slots := map (\<lambda>f. f\<lparr>fl_done := False\<rparr>) (h_slots h)\<rparr>;
            (err, t) = reg_until host_register t resp_regs
        in if err \<noteq> ESP_OK then Some (err, h, t)
           else
             let (err, t) = reg_until host_register t event_regs
             in if err \<noteq> ESP_OK then None else Some (ESP_OK, h, t))"

definition deinit_ids :: "u32 list" where
  "deinit_ids = map PHY_RPC_RESP
     [SET_CHANNEL, SET_PHY_11P, SET_TX_POWER, SET_RX_GAIN, SET_AGC_MAX_GAIN, SET_CCA,
      GET_CCA_COUNTERS, RESET_CCA_COUNT, SET_LOW_RATE, SET_BANDWIDTH, GET_PHY_RSSI,
      SET_COUNTRY_PERM, GET_INFO, SET_FREQ, SET_BAND, SET_CHAN_FILT, SET_CHAN14_MIC, SET_RATE,
      SET_MOST_TPW, GET_MOST_TPW, RESET_RX_GAIN_TBL, GET_NOISE_FLOOR, GET_TEMPERATURE,
      SET_CSI_DUMP, SET_LOOPBACK, SET_BT_TX_GAIN, SET_BT_FILTER, GET_CAPS]
     @ [PHY_RPC_EVT OCB_FRAME]"

definition esp_hosted_open_deinit :: "host \<Rightarrow> host_table \<Rightarrow> esp_err \<times> host \<times> host_table" where
  "esp_hosted_open_deinit h t =
     (ESP_OK, h\<lparr>h_mutex := False\<rparr>, dereg_all host_register t deinit_ids)"

subsection \<open>Start-up: what the table must hold\<close>

lemma length_resp_regs: "length resp_regs = 47"
  by (simp add: resp_regs_def resp_ids_def)

lemma length_event_regs: "length event_regs = 7"
  by (simp add: event_regs_def)

lemma regs_fresh:
  "distinct (map fst (resp_regs @ event_regs))" "CB_NONE \<notin> fst ` set (resp_regs @ event_regs)"
proof -
  have d: "distinct resp_ids" by (simp add: resp_ids_def)
  have m: "map fst (resp_regs @ event_regs) = map PHY_RPC_RESP resp_ids @
      map PHY_RPC_EVT [OCB_FRAME, RAW_FRAME, CSI, FTM_REPORT, ESPNOW_RX, ESPNOW_TX_STATUS, IEEE154_RX]"
    by (simp add: resp_regs_def event_regs_def comp_def)
  show "distinct (map fst (resp_regs @ event_regs))"
    unfolding m using d by (auto simp: distinct_map inj_on_def)
  show "CB_NONE \<notin> fst ` set (resp_regs @ event_regs)"
    unfolding set_map [symmetric] m by (auto simp: CB_NONE_def)
qed

lemma cbs_map_append:
  "distinct (map fst (xs @ ys)) \<Longrightarrow> cbs_map xs ++ cbs_map ys = cbs_map (xs @ ys)"
proof -
  assume "distinct (map fst (xs @ ys))"
  then have "dom (cbs_map xs) \<inter> dom (cbs_map ys) = {}" by (simp add: dom_cbs_map)
  then have "cbs_map xs ++ cbs_map ys = cbs_map ys ++ cbs_map xs" by (rule map_add_comm)
  then show ?thesis by (simp add: cbs_map_def)
qed

text \<open>An empty table takes the responses, then the events, as far as its capacity goes.\<close>

lemma init_regs:
  assumes "cb_inv t" "cb_lookup t = Map.empty"
  defines "a \<equiv> reg_until host_register (t :: host_table) resp_regs"
  defines "b \<equiv> reg_until host_register (snd a) event_regs"
  shows "fst a = 0 \<longleftrightarrow> 47 \<le> cb_cap t"
    "fst a = 0 \<Longrightarrow> fst b = 0 \<longleftrightarrow> 54 \<le> cb_cap t"
    "fst a = 0 \<Longrightarrow> fst b = 0 \<Longrightarrow> cb_inv (snd b) \<and> cb_lookup (snd b) = cbs_map (resp_regs @ event_regs)"
proof -
  have d: "distinct (map fst resp_regs)" "distinct (map fst event_regs)"
    "CB_NONE \<notin> fst ` set resp_regs" "CB_NONE \<notin> fst ` set event_regs"
    "fst ` set resp_regs \<inter> fst ` set event_regs = {}"
    using regs_fresh by auto
  have fa: "host_cb.fresh_ids t resp_regs" using d assms(2) by (simp add: host_cb.fresh_ids_def)
  note ra = host_cb.reg_until_fresh [OF assms(1) fa, folded a_def]
  show a0: "fst a = 0 \<longleftrightarrow> 47 \<le> cb_cap t" using ra assms(2) by (simp add: length_resp_regs)
  assume ok: "fst a = 0"
  then have la: "cb_lookup (snd a) = cbs_map resp_regs"
    using ra a0 assms(2) length_resp_regs by simp
  have card: "card (dom (cb_lookup (snd a))) = 47"
    using distinct_card [OF d(1)] length_resp_regs by (simp add: la dom_cbs_map)
  have fb: "host_cb.fresh_ids (snd a) event_regs"
    using d la by (simp add: host_cb.fresh_ids_def dom_cbs_map)
  have inv: "cb_inv (snd a)" "cb_cap (snd a) = cb_cap t" using ra by auto
  note rb = host_cb.reg_until_fresh [OF inv(1) fb, folded b_def, unfolded card inv(2)]
  show b0: "fst b = 0 \<longleftrightarrow> 54 \<le> cb_cap t" using rb by (simp add: length_event_regs)
  assume ok': "fst b = 0"
  then have "7 \<le> cb_cap t - 47" using b0 by simp
  then show "cb_inv (snd b) \<and> cb_lookup (snd b) = cbs_map (resp_regs @ event_regs)"
    using rb la cbs_map_append [OF regs_fresh(1)] by (simp add: length_event_regs)
qed

lemma dereg_lookup:
  assumes "cb_inv (t :: host_table)"
  shows "cb_lookup (snd (snd (esp_hosted_open_deinit h t))) = cb_lookup t |` (- set deinit_ids)"
proof -
  have "CB_NONE \<notin> set deinit_ids" by (auto simp: deinit_ids_def CB_NONE_def)
  from host_cb.dereg_all_lookup [OF assms this]
  show ?thesis by (simp add: esp_hosted_open_deinit_def)
qed

lemma init_outcome:
  fixes t :: host_table
  assumes "cb_inv t" "cb_lookup t = Map.empty" "\<not> h_mutex h"
  shows "case esp_hosted_open_init True h t of
      None \<Rightarrow> 47 \<le> cb_cap t \<and> cb_cap t < 54
    | Some (e, h', t') \<Rightarrow>
        if 54 \<le> cb_cap t
        then e = ESP_OK \<and> h_mutex h' \<and> cb_lookup t' = cbs_map (resp_regs @ event_regs)
        else cb_cap t < 47 \<and> e \<noteq> ESP_OK \<and>
          esp_hosted_open_init True h' t' = Some (ESP_ERR_INVALID_STATE, h', t')"
proof -
  obtain ea ta where a: "reg_until host_register t resp_regs = (ea, ta)" by fastforce
  obtain eb tb where b: "reg_until host_register ta event_regs = (eb, tb)" by fastforce
  note i = init_regs [OF assms(1,2), unfolded a fst_conv snd_conv b]
  show ?thesis
    using i assms(3) by (auto simp: esp_hosted_open_init_def Let_def a b ESP_OK_def)
qed

subsection \<open>Properties\<close>

text \<open>Start-up of the host library on an empty callback table of \<open>n\<close> slots. It succeeds
  exactly when there are 54 slots, and then the table maps every response id to \<open>on_response\<close> and
  the seven events to their handlers. With 47 to 53 slots it aborts. With fewer it returns an
  error and leaves its mutex behind, so that every later call of init is refused with
  \<open>ESP_ERR_INVALID_STATE\<close>. The configuration allows at most 32 slots.\<close>

theorem init_needs_54_slots:
  fixes t :: host_table
  assumes "cb_inv t" "cb_lookup t = Map.empty" "\<not> h_mutex h"
  shows "case esp_hosted_open_init True h t of
      None \<Rightarrow> 47 \<le> cb_cap t \<and> cb_cap t < 54
    | Some (e, h', t') \<Rightarrow>
        if 54 \<le> cb_cap t
        then e = ESP_OK \<and> h_mutex h' \<and> cb_lookup t' = cbs_map (resp_regs @ event_regs)
        else cb_cap t < 47 \<and> e \<noteq> ESP_OK \<and>
          esp_hosted_open_init True h' t' = Some (ESP_ERR_INVALID_STATE, h', t')"
  by (rule init_outcome [OF assms])

lemma init_needs_54_slots_witness:
  "\<exists>e h' t'. esp_hosted_open_init True host_boot (cb_init 32) = Some (e, h', t') \<and> e \<noteq> ESP_OK \<and>
     esp_hosted_open_init True h' t' = Some (ESP_ERR_INVALID_STATE, h', t')"
  using init_needs_54_slots [of "cb_init 32" host_boot]
  by (auto simp: cb_inv_init host_boot_def split: option.splits)

text \<open>Shutdown removes only 28 response callbacks and one event callback. After a successful
  start-up and a shutdown, the callback of a response outside that list is still registered, and
  a well-sized response for it that arrives then uses the deleted mutex: the host crashes.\<close>

theorem deinit_leaves_callbacks:
  fixes t :: host_table
  assumes "cb_inv t" "cb_lookup t = Map.empty" "\<not> h_mutex h"
    and init: "esp_hosted_open_init True h t = Some (ESP_OK, h1, t1)"
    and deinit: "esp_hosted_open_deinit h1 t1 = (e, h2, t2)"
    and r: "r \<in> set resp_ids" "PHY_RPC_RESP r \<notin> set deinit_ids" and len: "sizeof_resp_hdr \<le> length data"
  shows "cb_lookup t2 (PHY_RPC_RESP r) = Some (On_response, None) \<and>
    on_response (PHY_RPC_RESP r) data h2 = None"
proof -
  obtain ea ta where a: "reg_until host_register t resp_regs = (ea, ta)" by fastforce
  obtain eb tb where b: "reg_until host_register ta event_regs = (eb, tb)" by fastforce
  note i = init_regs [OF assms(1,2), unfolded a fst_conv snd_conv b]
  have ok: "ea = 0" "eb = 0" "t1 = tb"
    using init assms(3) by (auto simp: esp_hosted_open_init_def Let_def a b ESP_OK_def split: if_splits)
  then have t1: "cb_inv t1" "cb_lookup t1 = cbs_map (resp_regs @ event_regs)" using i(3) by auto
  have "(PHY_RPC_RESP r, On_response) \<in> set (resp_regs @ event_regs)"
    using r(1) by (auto simp: resp_regs_def)
  then have "cb_lookup t1 (PHY_RPC_RESP r) = Some (On_response, None)"
    using t1(2) cbs_map_in [OF regs_fresh(1)] by simp
  then have "cb_lookup t2 (PHY_RPC_RESP r) = Some (On_response, None)"
    using dereg_lookup [OF t1(1), of h1] r(2) deinit by (simp add: restrict_map_def)
  moreover have "\<not> h_mutex h2" using deinit by (auto simp: esp_hosted_open_deinit_def)
  then have "on_response (PHY_RPC_RESP r) data h2 = None"
    using len by (simp add: on_response_def)
  ultimately show ?thesis ..
qed

lemma deinit_leaves_callbacks_witness:
  "\<exists>h1 t1 h2 t2. esp_hosted_open_init True host_boot (cb_init 64) = Some (ESP_OK, h1, t1) \<and>
     esp_hosted_open_deinit h1 t1 = (ESP_OK, h2, t2) \<and>
     cb_lookup t2 (PHY_RPC_RESP TX_80211) = Some (On_response, None) \<and>
     on_response (PHY_RPC_RESP TX_80211) [1, 0, 0, 0, 0, 0, 0, 0] h2 = None"
proof -
  obtain h1 t1 where init: "esp_hosted_open_init True host_boot (cb_init 64) = Some (ESP_OK, h1, t1)"
    using init_outcome [of "cb_init 64" host_boot]
    by (auto simp: cb_inv_init host_boot_def split: option.splits)
  obtain h2 t2 where de: "esp_hosted_open_deinit h1 t1 = (ESP_OK, h2, t2)"
    by (simp add: esp_hosted_open_deinit_def)
  have "TX_80211 \<in> set resp_ids" "PHY_RPC_RESP TX_80211 \<notin> set deinit_ids"
    by (auto simp: resp_ids_def deinit_ids_def)
  then show ?thesis
    using init de deinit_leaves_callbacks [OF cb_inv_init cb_lookup_init_empty _ init de,
        of TX_80211 "[1, 0, 0, 0, 0, 0, 0, 0]"]
    by (auto simp: host_boot_def sizeof_resp_hdr_def)
qed

end
