(* ===== verification/Phy_Calls.thy ===== *)
theory Phy_Calls
  imports Phy_Host
begin

unbundle bit_operations_syntax

section \<open>The host library's calls and events (phy_rpc.c)\<close>

text \<open>
  One definition per public function \<open>esp_hosted_open_*\<close>, each a run of \<open>do_call\<close> with the
  request body the function builds, and one per event handler \<open>on_event_*\<close>: what it passes to the
  application's callback, or nothing. A NULL pointer argument is \<open>None\<close>; \<open>junk\<close> is what an
  uninitialised local holds. \<open>None\<close> as the result of a call is a crash.
\<close>

record link =
  l_malloc :: "nat \<Rightarrow> bool"
  l_net :: net

type_synonym 'a outcome = "(esp_err \<times> 'a \<times> host) option"

definition call_body :: "link \<Rightarrow> phy_rpc \<Rightarrow> byte list \<Rightarrow> host \<Rightarrow> unit outcome" where
  "call_body l r body h =
     (case do_call (l_malloc l) (l_net l) (PHY_RPC_REQ r) (PHY_RPC_RESP r) body None 0 h of
        None \<Rightarrow> None
      | Some (c, h) \<Rightarrow> Some (cr_err c, (), h))"

text \<open>The macro \<open>ONE_BYTE_REQ\<close>.\<close>

definition one_byte_req :: "link \<Rightarrow> phy_rpc \<Rightarrow> u8 \<Rightarrow> host \<Rightarrow> unit outcome" where
  "one_byte_req l r v h = call_body l r [v] h"

text \<open>A call with a reply buffer; the buffer is read only when the call succeeded.\<close>

definition call_reply ::
  "link \<Rightarrow> phy_rpc \<Rightarrow> byte list \<Rightarrow> nat \<Rightarrow> (byte list \<Rightarrow> 'a) \<Rightarrow> host \<Rightarrow> 'a option outcome" where
  "call_reply l r buf cap dec h =
     (case do_call (l_malloc l) (l_net l) (PHY_RPC_REQ r) (PHY_RPC_RESP r) [] (Some buf) cap h of
        None \<Rightarrow> None
      | Some (c, h) \<Rightarrow>
          if cr_err c \<noteq> ESP_OK then Some (cr_err c, None, h)
          else Some (ESP_OK, map_option dec (cr_out c), h))"

definition bool_byte :: "bool \<Rightarrow> u8" where
  "bool_byte b = (if b then 1 else 0)"

subsection \<open>PHY controls\<close>

definition esp_hosted_open_set_channel :: "link \<Rightarrow> u8 \<Rightarrow> host \<Rightarrow> unit outcome" where
  "esp_hosted_open_set_channel l v h = one_byte_req l SET_CHANNEL v h"

definition esp_hosted_open_set_phy_11p :: "link \<Rightarrow> bool \<Rightarrow> host \<Rightarrow> unit outcome" where
  "esp_hosted_open_set_phy_11p l v h = one_byte_req l SET_PHY_11P (bool_byte v) h"

definition esp_hosted_open_set_tx_power :: "link \<Rightarrow> int \<Rightarrow> host \<Rightarrow> unit outcome" where
  "esp_hosted_open_set_tx_power l v h = one_byte_req l SET_TX_POWER (word_of_int v) h"

definition esp_hosted_open_set_rx_gain :: "link \<Rightarrow> u8 \<Rightarrow> host \<Rightarrow> unit outcome" where
  "esp_hosted_open_set_rx_gain l v h = one_byte_req l SET_RX_GAIN v h"

definition esp_hosted_open_set_agc_max_gain :: "link \<Rightarrow> u8 \<Rightarrow> host \<Rightarrow> unit outcome" where
  "esp_hosted_open_set_agc_max_gain l v h = one_byte_req l SET_AGC_MAX_GAIN v h"

definition esp_hosted_open_set_cca :: "link \<Rightarrow> bool \<Rightarrow> host \<Rightarrow> unit outcome" where
  "esp_hosted_open_set_cca l v h = one_byte_req l SET_CCA (bool_byte v) h"

definition esp_hosted_open_set_low_rate :: "link \<Rightarrow> bool \<Rightarrow> host \<Rightarrow> unit outcome" where
  "esp_hosted_open_set_low_rate l v h = one_byte_req l SET_LOW_RATE (bool_byte v) h"

definition esp_hosted_open_set_bandwidth :: "link \<Rightarrow> u8 \<Rightarrow> host \<Rightarrow> unit outcome" where
  "esp_hosted_open_set_bandwidth l v h = one_byte_req l SET_BANDWIDTH v h"

definition esp_hosted_open_reset_cca_counters :: "link \<Rightarrow> host \<Rightarrow> unit outcome" where
  "esp_hosted_open_reset_cca_counters l h = call_body l RESET_CCA_COUNT [] h"

definition esp_hosted_open_set_country_permissive :: "link \<Rightarrow> host \<Rightarrow> unit outcome" where
  "esp_hosted_open_set_country_permissive l h = call_body l SET_COUNTRY_PERM [] h"

definition esp_hosted_open_get_cca_counters ::
  "link \<Rightarrow> byte list \<Rightarrow> host \<Rightarrow> (u32 \<times> u32) option outcome" where
  "esp_hosted_open_get_cca_counters l junk h =
     call_reply l GET_CCA_COUNTERS junk 8 (\<lambda>b. (rd32 0 b, rd32 4 b)) h"

definition esp_hosted_open_get_phy_rssi :: "link \<Rightarrow> host \<Rightarrow> int option outcome" where
  "esp_hosted_open_get_phy_rssi l h = call_reply l GET_PHY_RSSI [0] 1 (\<lambda>b. sint (rd8 0 b)) h"

record open_info =
  oi_channel :: u8
  oi_tx_power_dbm :: int
  oi_phy_11p_armed :: bool
  oi_cca_enabled :: bool
  oi_low_rate_enabled :: bool
  oi_agc_max_gain :: u8
  oi_fw_version :: "byte list"

definition decode_info :: "byte list \<Rightarrow> open_info" where
  "decode_info b =
     \<lparr>oi_channel = rd8 0 b, oi_tx_power_dbm = sint (rd8 1 b), oi_phy_11p_armed = (rd8 2 b \<noteq> 0),
      oi_cca_enabled = (rd8 3 b \<noteq> 0), oi_low_rate_enabled = (rd8 4 b \<noteq> 0),
      oi_agc_max_gain = rd8 5 b, oi_fw_version = (take 32 (drop 8 b))[31 := 0]\<rparr>"

text \<open>\<open>has_out\<close> is \<open>out != NULL\<close>.\<close>

definition esp_hosted_open_get_info ::
  "link \<Rightarrow> bool \<Rightarrow> byte list \<Rightarrow> host \<Rightarrow> open_info option outcome" where
  "esp_hosted_open_get_info l has_out junk h =
     (if \<not> has_out then Some (ESP_ERR_INVALID_ARG, None, h)
      else call_reply l GET_INFO junk 40 decode_info h)"

definition esp_hosted_open_set_freq :: "link \<Rightarrow> u32 \<Rightarrow> host \<Rightarrow> unit outcome" where
  "esp_hosted_open_set_freq l v h = call_body l SET_FREQ (le_put 4 v) h"

definition esp_hosted_open_set_band :: "link \<Rightarrow> u8 \<Rightarrow> host \<Rightarrow> unit outcome" where
  "esp_hosted_open_set_band l v h = one_byte_req l SET_BAND v h"

definition esp_hosted_open_set_chan_filt :: "link \<Rightarrow> u32 \<Rightarrow> host \<Rightarrow> unit outcome" where
  "esp_hosted_open_set_chan_filt l v h = call_body l SET_CHAN_FILT (le_put 4 v) h"

definition esp_hosted_open_set_chan14_micro :: "link \<Rightarrow> bool \<Rightarrow> host \<Rightarrow> unit outcome" where
  "esp_hosted_open_set_chan14_micro l v h = one_byte_req l SET_CHAN14_MIC (bool_byte v) h"

definition esp_hosted_open_set_rate :: "link \<Rightarrow> u8 \<Rightarrow> host \<Rightarrow> unit outcome" where
  "esp_hosted_open_set_rate l v h = one_byte_req l SET_RATE v h"

definition esp_hosted_open_set_most_tpw :: "link \<Rightarrow> int \<Rightarrow> host \<Rightarrow> unit outcome" where
  "esp_hosted_open_set_most_tpw l v h = one_byte_req l SET_MOST_TPW (word_of_int v) h"

definition esp_hosted_open_get_most_tpw :: "link \<Rightarrow> host \<Rightarrow> int option outcome" where
  "esp_hosted_open_get_most_tpw l h = call_reply l GET_MOST_TPW [0] 1 (\<lambda>b. sint (rd8 0 b)) h"

definition esp_hosted_open_reset_rx_gain_table :: "link \<Rightarrow> host \<Rightarrow> unit outcome" where
  "esp_hosted_open_reset_rx_gain_table l h = call_body l RESET_RX_GAIN_TBL [] h"

definition esp_hosted_open_get_noise_floor :: "link \<Rightarrow> host \<Rightarrow> int option outcome" where
  "esp_hosted_open_get_noise_floor l h = call_reply l GET_NOISE_FLOOR [0] 1 (\<lambda>b. sint (rd8 0 b)) h"

definition esp_hosted_open_get_temperature :: "link \<Rightarrow> host \<Rightarrow> int option outcome" where
  "esp_hosted_open_get_temperature l h = call_reply l GET_TEMPERATURE [0] 1 (\<lambda>b. sint (rd8 0 b)) h"

definition esp_hosted_open_set_csi_dump :: "link \<Rightarrow> bool \<Rightarrow> host \<Rightarrow> unit outcome" where
  "esp_hosted_open_set_csi_dump l v h = one_byte_req l SET_CSI_DUMP (bool_byte v) h"

definition esp_hosted_open_set_loopback :: "link \<Rightarrow> u8 \<Rightarrow> host \<Rightarrow> unit outcome" where
  "esp_hosted_open_set_loopback l v h = one_byte_req l SET_LOOPBACK v h"

definition esp_hosted_open_set_bt_tx_gain :: "link \<Rightarrow> u8 \<Rightarrow> host \<Rightarrow> unit outcome" where
  "esp_hosted_open_set_bt_tx_gain l v h = one_byte_req l SET_BT_TX_GAIN v h"

definition esp_hosted_open_set_bt_filter :: "link \<Rightarrow> u32 \<Rightarrow> host \<Rightarrow> unit outcome" where
  "esp_hosted_open_set_bt_filter l v h = call_body l SET_BT_FILTER (le_put 4 v) h"

text \<open>The capability array is zeroed and then filled by the reply, whatever the status.\<close>

definition esp_hosted_open_get_caps :: "link \<Rightarrow> bool \<Rightarrow> host \<Rightarrow> byte list option outcome" where
  "esp_hosted_open_get_caps l has_caps h =
     (if \<not> has_caps then Some (ESP_ERR_INVALID_ARG, None, h)
      else case do_call (l_malloc l) (l_net l) (PHY_RPC_REQ GET_CAPS) (PHY_RPC_RESP GET_CAPS) []
             (Some (replicate 16 0)) PHY_RPC_CAPS_BYTES h of
          None \<Rightarrow> None
        | Some (c, h) \<Rightarrow> Some (cr_err c, cr_out c, h))"

definition esp_hosted_open_has_capability :: "u32 \<Rightarrow> byte list \<Rightarrow> bool" where
  "esp_hosted_open_has_capability mid caps =
     (let low = unat (mid AND 0xFF)
      in low < PHY_RPC_CAPS_BYTES * 8 \<and> (caps ! (low div 8)) AND push_bit (low mod 8) 1 \<noteq> 0)"

subsection \<open>Raw TX, promiscuous mode, protocol, MAC, CSI, FTM\<close>

text \<open>
  The body of TX_80211 as the function builds it: interface, sequence flag, two reserved bytes,
  the length in two bytes, two more zero bytes, the frame.
\<close>

definition tx_80211_body :: "u8 \<Rightarrow> byte list \<Rightarrow> bool \<Rightarrow> byte list" where
  "tx_80211_body wifi_if frame en_seq_nr =
     [wifi_if, bool_byte en_seq_nr, 0, 0, word_of_nat (length frame mod 256),
      word_of_nat (length frame div 256 mod 256), 0, 0] @ frame"

definition esp_hosted_open_tx_80211 ::
  "link \<Rightarrow> u8 \<Rightarrow> byte list option \<Rightarrow> bool \<Rightarrow> host \<Rightarrow> unit outcome" where
  "esp_hosted_open_tx_80211 l wifi_if frame en_seq_nr h =
     (case frame of
        None \<Rightarrow> Some (ESP_ERR_INVALID_ARG, (), h)
      | Some f \<Rightarrow>
          if length f = 0 \<or> length f > 1500 then Some (ESP_ERR_INVALID_ARG, (), h)
          else if \<not> l_malloc l (8 + length f) then Some (ESP_ERR_NO_MEM, (), h)
          else call_body l TX_80211 (tx_80211_body wifi_if f en_seq_nr) h)"

definition esp_hosted_open_set_promisc :: "link \<Rightarrow> bool \<Rightarrow> host \<Rightarrow> unit outcome" where
  "esp_hosted_open_set_promisc l v h = one_byte_req l SET_PROMISC (bool_byte v) h"

definition esp_hosted_open_set_promisc_filter :: "link \<Rightarrow> u32 \<Rightarrow> host \<Rightarrow> unit outcome" where
  "esp_hosted_open_set_promisc_filter l v h = call_body l SET_PROMISC_FILTER (le_put 4 v) h"

definition esp_hosted_open_set_protocol :: "link \<Rightarrow> u8 \<Rightarrow> u8 \<Rightarrow> host \<Rightarrow> unit outcome" where
  "esp_hosted_open_set_protocol l wifi_if pmask h =
     call_body l SET_PROTOCOL [pmask, wifi_if, 0, 0] h"

definition esp_hosted_open_set_mac ::
  "link \<Rightarrow> u8 \<Rightarrow> byte list option \<Rightarrow> host \<Rightarrow> unit outcome" where
  "esp_hosted_open_set_mac l wifi_if mac h =
     (case mac of
        None \<Rightarrow> Some (ESP_ERR_INVALID_ARG, (), h)
      | Some m \<Rightarrow> call_body l SET_MAC (wifi_if # take 6 m @ [0]) h)"

definition esp_hosted_open_set_csi_enable :: "link \<Rightarrow> bool \<Rightarrow> host \<Rightarrow> unit outcome" where
  "esp_hosted_open_set_csi_enable l v h = one_byte_req l SET_CSI_ENABLE (bool_byte v) h"

definition esp_hosted_open_ftm_initiate ::
  "link \<Rightarrow> byte list option \<Rightarrow> u8 \<Rightarrow> u8 \<Rightarrow> u8 \<Rightarrow> host \<Rightarrow> unit outcome" where
  "esp_hosted_open_ftm_initiate l peer_mac frames period ch h =
     (case peer_mac of
        None \<Rightarrow> Some (ESP_ERR_INVALID_ARG, (), h)
      | Some m \<Rightarrow> call_body l FTM_INITIATE (take 6 m @ [frames, period, ch, 0, 0, 0]) h)"

subsection \<open>ESP-NOW\<close>

definition esp_hosted_open_espnow_init :: "link \<Rightarrow> host \<Rightarrow> unit outcome" where
  "esp_hosted_open_espnow_init l h = call_body l ESPNOW_INIT [] h"

definition esp_hosted_open_espnow_deinit :: "link \<Rightarrow> host \<Rightarrow> unit outcome" where
  "esp_hosted_open_espnow_deinit l h = call_body l ESPNOW_DEINIT [] h"

definition esp_hosted_open_espnow_set_pmk ::
  "link \<Rightarrow> byte list option \<Rightarrow> host \<Rightarrow> unit outcome" where
  "esp_hosted_open_espnow_set_pmk l pmk h =
     (case pmk of
        None \<Rightarrow> Some (ESP_ERR_INVALID_ARG, (), h)
      | Some k \<Rightarrow> call_body l ESPNOW_SET_PMK (take 16 k) h)"

definition esp_hosted_open_espnow_add_peer ::
  "link \<Rightarrow> byte list option \<Rightarrow> byte list option \<Rightarrow> u8 \<Rightarrow> u8 \<Rightarrow> bool \<Rightarrow> host \<Rightarrow> unit outcome" where
  "esp_hosted_open_espnow_add_peer l peer_mac lmk ch wifi_if encrypt h =
     (case peer_mac of
        None \<Rightarrow> Some (ESP_ERR_INVALID_ARG, (), h)
      | Some m \<Rightarrow>
          call_body l ESPNOW_ADD_PEER
            (take 6 m @ (case lmk of Some k \<Rightarrow> take 16 k | None \<Rightarrow> replicate 16 0)
             @ [ch, wifi_if, bool_byte encrypt, 0]) h)"

definition esp_hosted_open_espnow_del_peer ::
  "link \<Rightarrow> byte list option \<Rightarrow> host \<Rightarrow> unit outcome" where
  "esp_hosted_open_espnow_del_peer l peer_mac h =
     (case peer_mac of
        None \<Rightarrow> Some (ESP_ERR_INVALID_ARG, (), h)
      | Some m \<Rightarrow> call_body l ESPNOW_DEL_PEER (take 6 m) h)"

definition espnow_send_body :: "byte list \<Rightarrow> byte list \<Rightarrow> byte list" where
  "espnow_send_body m d =
     take 6 m @ [word_of_nat (length d mod 256), word_of_nat (length d div 256 mod 256)] @ d"

definition esp_hosted_open_espnow_send ::
  "link \<Rightarrow> byte list option \<Rightarrow> byte list option \<Rightarrow> host \<Rightarrow> unit outcome" where
  "esp_hosted_open_espnow_send l peer_mac data h =
     (case (peer_mac, data) of
        (Some m, Some d) \<Rightarrow>
          if length d = 0 \<or> length d > 250 then Some (ESP_ERR_INVALID_ARG, (), h)
          else if \<not> l_malloc l (8 + length d) then Some (ESP_ERR_NO_MEM, (), h)
          else call_body l ESPNOW_SEND (espnow_send_body m d) h
      | _ \<Rightarrow> Some (ESP_ERR_INVALID_ARG, (), h))"

subsection \<open>802.15.4\<close>

definition esp_hosted_open_ieee154_enable :: "link \<Rightarrow> bool \<Rightarrow> host \<Rightarrow> unit outcome" where
  "esp_hosted_open_ieee154_enable l v h = one_byte_req l IEEE154_ENABLE (bool_byte v) h"

definition esp_hosted_open_ieee154_set_channel :: "link \<Rightarrow> u8 \<Rightarrow> host \<Rightarrow> unit outcome" where
  "esp_hosted_open_ieee154_set_channel l v h = one_byte_req l IEEE154_SET_CHAN v h"

definition esp_hosted_open_ieee154_set_pan_id :: "link \<Rightarrow> u16 \<Rightarrow> host \<Rightarrow> unit outcome" where
  "esp_hosted_open_ieee154_set_pan_id l v h = call_body l IEEE154_SET_PANID (le_put 2 v) h"

definition esp_hosted_open_ieee154_set_promiscuous :: "link \<Rightarrow> bool \<Rightarrow> host \<Rightarrow> unit outcome" where
  "esp_hosted_open_ieee154_set_promiscuous l v h = one_byte_req l IEEE154_SET_PROMISC (bool_byte v) h"

definition esp_hosted_open_set_event_mask :: "link \<Rightarrow> u64 \<Rightarrow> host \<Rightarrow> unit outcome" where
  "esp_hosted_open_set_event_mask l v h = call_body l SET_EVENT_MASK (le_put 8 v) h"

definition tx_raw_body :: "byte list \<Rightarrow> bool \<Rightarrow> byte list" where
  "tx_raw_body frame cca =
     [bool_byte cca, 0, word_of_nat (length frame mod 256),
      word_of_nat (length frame div 256 mod 256)] @ frame"

definition esp_hosted_open_ieee154_tx_raw ::
  "link \<Rightarrow> byte list option \<Rightarrow> bool \<Rightarrow> host \<Rightarrow> unit outcome" where
  "esp_hosted_open_ieee154_tx_raw l frame cca h =
     (case frame of
        None \<Rightarrow> Some (ESP_ERR_INVALID_ARG, (), h)
      | Some f \<Rightarrow>
          if length f = 0 \<or> length f > 127 then Some (ESP_ERR_INVALID_ARG, (), h)
          else if \<not> l_malloc l (4 + length f) then Some (ESP_ERR_NO_MEM, (), h)
          else call_body l IEEE154_TX_RAW (tx_raw_body f cca) h)"

subsection \<open>Events\<close>

text \<open>
  The length checks of the event handlers and the arguments of the application's callback; the
  handlers call nothing when no callback is set (\<open>reg\<close>).
\<close>

record ocb_rx =
  ox_payload :: "byte list"
  ox_rssi_dbm :: int
  ox_channel :: u8
  ox_src_mac :: "byte list"
  ox_timestamp_us :: u32

definition on_event_ocb :: "bool \<Rightarrow> byte list \<Rightarrow> ocb_rx option" where
  "on_event_ocb reg d =
     (if length d < sizeof_evt OCB_FRAME then None
      else let n = unat (rd16 8 d)
           in if sizeof_evt OCB_FRAME + n > length d \<or> \<not> reg then None
              else Some \<lparr>ox_payload = take n (drop (sizeof_evt OCB_FRAME) d), ox_rssi_dbm = sint (rd8 0 d),
                ox_channel = rd8 1 d, ox_src_mac = take 6 (drop 2 d), ox_timestamp_us = rd32 10 d\<rparr>)"

record raw_rx =
  rx_frame :: "byte list"
  rx_rssi_dbm :: int
  rx_channel :: u8
  rx_rate :: u8
  rx_is_qos :: bool
  rx_timestamp_us :: u32

definition on_event_raw :: "bool \<Rightarrow> byte list \<Rightarrow> raw_rx option" where
  "on_event_raw reg d =
     (if length d < sizeof_evt RAW_FRAME then None
      else let n = unat (rd16 4 d)
           in if sizeof_evt RAW_FRAME + n > length d \<or> \<not> reg then None
              else Some \<lparr>rx_frame = take n (drop (sizeof_evt RAW_FRAME) d), rx_rssi_dbm = sint (rd8 0 d),
                rx_channel = rd8 1 d, rx_rate = rd8 2 d, rx_is_qos = (rd8 3 d \<noteq> 0),
                rx_timestamp_us = rd32 8 d\<rparr>)"

record csi_rx =
  cx_csi :: "byte list"
  cx_rssi_dbm :: int
  cx_channel :: u8
  cx_src_mac :: "byte list"
  cx_timestamp_us :: u32

definition on_event_csi :: "bool \<Rightarrow> byte list \<Rightarrow> csi_rx option" where
  "on_event_csi reg d =
     (if length d < sizeof_evt CSI then None
      else let n = unat (rd16 8 d)
           in if sizeof_evt CSI + n > length d \<or> \<not> reg then None
              else Some \<lparr>cx_csi = take n (drop (sizeof_evt CSI) d), cx_rssi_dbm = sint (rd8 0 d),
                cx_channel = rd8 1 d, cx_src_mac = take 6 (drop 2 d), cx_timestamp_us = rd32 12 d\<rparr>)"

record ftm_rx =
  fx_peer_mac :: "byte list"
  fx_status :: u8
  fx_rtt_raw_ps :: u32
  fx_rtt_est_ps :: u32
  fx_dist_est_cm :: u32

definition on_event_ftm :: "bool \<Rightarrow> byte list \<Rightarrow> ftm_rx option" where
  "on_event_ftm reg d =
     (if length d < sizeof_evt FTM_REPORT \<or> \<not> reg then None
      else Some \<lparr>fx_peer_mac = take 6 d, fx_status = rd8 6 d, fx_rtt_raw_ps = rd32 8 d,
        fx_rtt_est_ps = rd32 12 d, fx_dist_est_cm = rd32 16 d\<rparr>)"

record now_rx_meta =
  nx_data :: "byte list"
  nx_rssi_dbm :: int
  nx_channel :: u8
  nx_src_mac :: "byte list"
  nx_dst_mac :: "byte list"

definition on_event_espnow_rx :: "bool \<Rightarrow> byte list \<Rightarrow> now_rx_meta option" where
  "on_event_espnow_rx reg d =
     (if length d < sizeof_evt ESPNOW_RX then None
      else let n = unat (rd16 14 d)
           in if sizeof_evt ESPNOW_RX + n > length d \<or> \<not> reg then None
              else Some \<lparr>nx_data = take n (drop (sizeof_evt ESPNOW_RX) d), nx_rssi_dbm = sint (rd8 12 d),
                nx_channel = rd8 13 d, nx_src_mac = take 6 d, nx_dst_mac = take 6 (drop 6 d)\<rparr>)"

definition on_event_espnow_tx :: "bool \<Rightarrow> byte list \<Rightarrow> (byte list \<times> bool) option" where
  "on_event_espnow_tx reg d =
     (if length d < sizeof_evt ESPNOW_TX_STATUS \<or> \<not> reg then None
      else Some (take 6 d, rd8 6 d = 0))"

record i154_rx =
  ix_frame :: "byte list"
  ix_rssi_dbm :: int
  ix_lqi :: u8
  ix_channel :: u8
  ix_timestamp_us :: u32

definition on_event_ieee154_rx :: "bool \<Rightarrow> byte list \<Rightarrow> i154_rx option" where
  "on_event_ieee154_rx reg d =
     (if length d < sizeof_evt IEEE154_RX then None
      else let n = unat (rd16 4 d)
           in if sizeof_evt IEEE154_RX + n > length d \<or> \<not> reg then None
              else Some \<lparr>ix_frame = take n (drop (sizeof_evt IEEE154_RX) d), ix_rssi_dbm = sint (rd8 0 d),
                ix_lqi = rd8 1 d, ix_channel = rd8 2 d, ix_timestamp_us = rd32 8 d\<rparr>)"

end
