(* ===== verification/Phy_Slave_Base.thy ===== *)
theory Phy_Slave_Base
  imports Custom_Callbacks
begin

unbundle bit_operations_syntax

section \<open>The co-processor side of the PHY RPCs: environment, state, responses\<close>

text \<open>
  What the handlers of slave/components/phy_rpc_overlay share. The chip's PHY library and the
  ESP-IDF APIs are not in this repository: \<open>phy_env\<close> holds, as functions, which weak symbols
  the linker resolved, what the getters return, and the status of every API call, which may
  depend on the calls made before. Every call the code makes is recorded in \<open>calls\<close> and every
  buffer it queues for the host in \<open>sent\<close>, so an action that is skipped, repeated or reordered
  is visible in the state.
\<close>

subsection \<open>Symbols and API calls\<close>

datatype phy_sym =
    phy_11p_set | phy_change_channel | phy_force_rx_gain | phy_rx_gain_force |
    phy_disable_agc | phy_enable_agc | phy_agc_max_gain_set | phy_disable_cca |
    phy_enable_cca | phy_set_cca_cnt | phy_get_cca_cnt | phy_get_rssi | phy_get_sigrssi |
    phy_disable_low_rate | phy_enable_low_rate | phy_bb_bss_cbw40 | phy_set_freq |
    phy_band_change | phy_band_sel | phy_chan_filt_set | phy_chan14_mic_cfg_new |
    phy_set_rate | phy_set_most_tpw | phy_get_most_tpw | phy_set_rx_gain_table |
    phy_get_noise_floor | phy_xpd_tsens | phy_csidump_force_lltf_cfg |
    phy_set_loopback_gain | phy_bt_set_tx_gain_new | phy_bt_tx_gain_set |
    phy_bt_filter_reg | esp_ieee802154_enable | esp_ieee802154_disable |
    esp_ieee802154_set_channel | esp_ieee802154_set_panid |
    esp_ieee802154_set_promiscuous | esp_ieee802154_transmit

datatype wifi_interface = WIFI_IF_STA | WIFI_IF_AP

record peer_info =
  p_addr :: "byte list"
  p_lmk :: "byte list"
  p_channel :: u8
  p_ifidx :: wifi_interface
  p_encrypt :: bool

record ftm_cfg =
  f_resp_mac :: "byte list"
  f_frm_count :: u8
  f_burst_period :: u8
  f_channel :: u8

datatype api_call =
    Phy phy_sym "int list"
  | Set_country_permissive
  | Wifi_set_channel int
  | Wifi_set_max_tx_power int
  | Wifi_set_ps_none
  | Wifi_80211_tx wifi_interface "byte list" bool
  | Wifi_set_promiscuous_rx_cb
  | Wifi_set_promiscuous bool
  | Wifi_set_promiscuous_filter u32
  | Wifi_set_protocol wifi_interface u8
  | Wifi_set_mac wifi_interface "byte list"
  | Wifi_set_csi_rx_cb
  | Wifi_set_csi bool
  | Register_ftm_handler
  | Ftm_initiate_session ftm_cfg
  | Create_raw_task
  | Now_init
  | Now_register_recv_cb
  | Now_register_send_cb
  | Now_deinit
  | Now_set_pmk "byte list"
  | Now_add_peer peer_info
  | Now_del_peer "byte list"
  | Now_send "byte list" "byte list"
  | I154_transmit "byte list" bool

record phy_env =
  resolved :: "phy_sym \<Rightarrow> bool"
  api_ret :: "api_call list \<Rightarrow> api_call \<Rightarrow> int"
  heap_ok :: "nat \<Rightarrow> bool"
  queue_ok :: bool

subsection \<open>State\<close>

text \<open>\<open>s_state\<close>, reported by GET_INFO; the raw-frame queue (NULL before the first enable).\<close>

record phy_info =
  i_channel :: u8
  i_tx_power_dbm :: int
  i_phy_11p_armed :: u8
  i_cca_enabled :: u8
  i_low_rate_enabled :: u8
  i_agc_max_gain :: u8

record raw_evt =
  re_rssi_dbm :: int
  re_channel :: u8
  re_rate :: u8
  re_is_qos :: u8
  re_timestamp_us :: u32
  re_frame :: "byte list"

record slave =
  s_state :: phy_info
  s_raw_q :: "raw_evt list option"
  s_ftm_handler_registered :: bool
  calls :: "api_call list"
  sent :: "byte list list"

definition s_state_init :: phy_info where
  "s_state_init = \<lparr>i_channel = 180, i_tx_power_dbm = 20, i_phy_11p_armed = 1, i_cca_enabled = 1,
     i_low_rate_enabled = 0, i_agc_max_gain = 255\<rparr>"

definition slave_init :: slave where
  "slave_init = \<lparr>s_state = s_state_init, s_raw_q = None, s_ftm_handler_registered = False,
     calls = [], sent = []\<rparr>"

type_synonym handler = "phy_env \<Rightarrow> byte list \<Rightarrow> slave \<Rightarrow> slave"

subsection \<open>Calls and responses\<close>

definition api :: "phy_env \<Rightarrow> api_call \<Rightarrow> slave \<Rightarrow> int \<times> slave" where
  "api env c s = (api_ret env (calls s) c, s\<lparr>calls := calls s @ [c]\<rparr>)"

definition api_do :: "phy_env \<Rightarrow> api_call \<Rightarrow> slave \<Rightarrow> slave" where
  "api_do env c s = snd (api env c s)"

definition phy :: "phy_env \<Rightarrow> phy_sym \<Rightarrow> int list \<Rightarrow> slave \<Rightarrow> slave" where
  "phy env sy args s = api_do env (Phy sy args) s"

text \<open>\<open>if (sy) sy(args);\<close>\<close>

definition phy_if :: "phy_env \<Rightarrow> phy_sym \<Rightarrow> int list \<Rightarrow> slave \<Rightarrow> slave" where
  "phy_if env sy args s = (if resolved env sy then phy env sy args s else s)"

text \<open>\<open>esp_hosted_send_custom_data\<close> with its status ignored: what it queued is appended.\<close>

definition ship :: "phy_env \<Rightarrow> u32 \<Rightarrow> byte list \<Rightarrow> slave \<Rightarrow> slave" where
  "ship env mid data s =
     (case esp_hosted_send_custom_data (heap_ok env) mid (Some data) (length data) of
        (_, Some buf) \<Rightarrow> s\<lparr>sent := sent s @ [buf]\<rparr>
      | (_, None) \<Rightarrow> s)"

definition send_simple_resp :: "phy_env \<Rightarrow> u32 \<Rightarrow> u32 \<Rightarrow> esp_err \<Rightarrow> slave \<Rightarrow> slave" where
  "send_simple_resp env resp_id op st s = ship env resp_id (resp_hdr op st) s"

definition send_resp_with_body ::
  "phy_env \<Rightarrow> u32 \<Rightarrow> u32 \<Rightarrow> esp_err \<Rightarrow> byte list \<Rightarrow> slave \<Rightarrow> slave" where
  "send_resp_with_body env resp_id op st body s =
     (if \<not> heap_ok env (sizeof_resp_hdr + length body)
      then send_simple_resp env resp_id op ESP_ERR_NO_MEM s
      else ship env resp_id (resp_hdr op st @ body) s)"

text \<open>\<open>UNPACK_REQ\<close>: a short request is dropped without an answer.\<close>

definition unpack :: "phy_rpc \<Rightarrow> byte list \<Rightarrow> slave \<Rightarrow> (u32 \<Rightarrow> slave) \<Rightarrow> slave" where
  "unpack r data s k = (if length data < sizeof_req r then s else k (hdr_op_id data))"

definition iface_of :: "u8 \<Rightarrow> wifi_interface" where
  "iface_of b = (if b = 1 then WIFI_IF_AP else WIFI_IF_STA)"

subsection \<open>Capability bits\<close>

definition zero_caps :: "byte list" where
  "zero_caps = replicate PHY_RPC_CAPS_BYTES 0"

text \<open>The macro \<open>MARK\<close>: set the bit of a request id when its symbol is present.\<close>

definition mark :: "phy_rpc \<Rightarrow> bool \<Rightarrow> byte list \<Rightarrow> byte list" where
  "mark r present caps =
     (let low = unat (PHY_RPC_REQ r AND 0xFF)
      in if low < PHY_RPC_CAPS_BYTES * 8 \<and> present
         then caps[low div 8 := caps ! (low div 8) OR push_bit (low mod 8) 1]
         else caps)"

fun mark_all :: "(phy_rpc \<times> bool) list \<Rightarrow> byte list \<Rightarrow> byte list" where
  "mark_all [] caps = caps"
| "mark_all ((r, p) # ms) caps = mark_all ms (mark r p caps)"

text \<open>The test \<open>caps[low / 8] & (1u << (low % 8))\<close> of a request's bit.\<close>

definition has_cap :: "byte list \<Rightarrow> phy_rpc \<Rightarrow> bool" where
  "has_cap caps r =
     (let low = unat (rpc_num r) in bit (caps ! (low div 8)) (low mod 8))"

lemma low_byte_req: "unat (PHY_RPC_REQ r AND 0xFF) = unat (rpc_num r)"
  by (cases r) (simp_all add: msg_id_defs)

lemma length_mark [simp]: "length (mark r p caps) = length caps"
  by (simp add: mark_def Let_def)

lemma length_mark_all [simp]: "length (mark_all ms caps) = length caps"
  by (induction ms arbitrary: caps) auto

lemma div_mod_eq: "(a :: nat) div 8 = b div 8 \<Longrightarrow> a mod 8 = b mod 8 \<Longrightarrow> a = b"
  by (metis div_mult_mod_eq)

lemma bit_byte_exp: "bit (2 ^ k :: byte) n \<longleftrightarrow> n = k \<and> k < 8"
  by (auto simp: bit_exp_iff)

lemma bit_mark:
  assumes "length caps = PHY_RPC_CAPS_BYTES"
  shows "has_cap (mark r p caps) q \<longleftrightarrow> has_cap caps q \<or> (p \<and> q = r)"
proof -
  have lt: "unat (rpc_num r) < 128" "unat (rpc_num r) div 8 < length caps"
    using rpc_num_lt [of r] assms by (simp_all add: PHY_RPC_CAPS_BYTES_def)
  have eq: "unat (rpc_num q) = unat (rpc_num r) \<longleftrightarrow> q = r"
    by (simp only: word_unat_eq_iff [symmetric] rpc_num_eq)
  show ?thesis
  proof (cases "unat (rpc_num q) div 8 = unat (rpc_num r) div 8")
    case True
    have "unat (rpc_num q) mod 8 = unat (rpc_num r) mod 8 \<longleftrightarrow> q = r"
      using True div_mod_eq eq by metis
    then show ?thesis using True lt
      by (auto simp: has_cap_def mark_def Let_def low_byte_req PHY_RPC_CAPS_BYTES_def
          bit_or_iff bit_byte_exp)
  next
    case False
    then show ?thesis using lt
      by (auto simp: has_cap_def mark_def Let_def low_byte_req PHY_RPC_CAPS_BYTES_def)
  qed
qed

lemma has_cap_mark_all:
  "length caps = PHY_RPC_CAPS_BYTES \<Longrightarrow>
   has_cap (mark_all ms caps) q \<longleftrightarrow> has_cap caps q \<or> (q, True) \<in> set ms"
  by (induction ms arbitrary: caps) (auto simp: bit_mark)

lemma has_cap_zero [simp]: "\<not> has_cap zero_caps q"
  using rpc_num_lt [of q]
  by (simp add: has_cap_def zero_caps_def Let_def PHY_RPC_CAPS_BYTES_def)

subsection \<open>What a handler answers\<close>

named_theorems slave_step "the state changes of calls and responses"

lemma api_simps [slave_step]:
  "fst (api env c s) = api_ret env (calls s) c"
  "sent (snd (api env c s)) = sent s"
  "sent (api_do env c s) = sent s"
  "sent (phy env sy args s) = sent s"
  "sent (phy_if env sy args s) = sent s"
  by (simp_all add: api_def api_do_def phy_def phy_if_def)

text \<open>The event buffer of a response: message id, header, body.\<close>

definition resp_buf :: "phy_rpc \<Rightarrow> u32 \<Rightarrow> esp_err \<Rightarrow> byte list \<Rightarrow> byte list" where
  "resp_buf r op st body = le_put 4 (PHY_RPC_RESP r) @ resp_hdr op st @ body"

text \<open>
  The environments of the properties: memory does not run out, and the API calls return C
  \<open>int\<close>s (32 bits).
\<close>

definition st_ok :: "esp_err \<Rightarrow> bool" where
  "st_ok st \<longleftrightarrow> - (2 ^ 31) \<le> st \<and> st < 2 ^ 31"

lemma st_ok_errs [simp]: "st_ok ESP_OK" "st_ok ESP_FAIL" "st_ok ESP_ERR_NO_MEM"
  "st_ok ESP_ERR_INVALID_ARG" "st_ok ESP_ERR_INVALID_SIZE" "st_ok ESP_ERR_NOT_SUPPORTED"
  by (simp_all add: st_ok_def esp_errs)

abbreviation good_env :: "phy_env \<Rightarrow> bool" where
  "good_env env \<equiv> (\<forall>n. heap_ok env n) \<and> (\<forall>l c. st_ok (api_ret env l c))"

lemma ship_good:
  "good_env env \<Longrightarrow> data \<noteq> [] \<Longrightarrow> length data \<le> 8166 \<Longrightarrow>
   ship env mid data s = s\<lparr>sent := sent s @ [le_put 4 mid @ data]\<rparr>"
  by (simp add: ship_def esp_hosted_send_custom_data_def)

lemma simple_resp_good:
  "good_env env \<Longrightarrow> send_simple_resp env (PHY_RPC_RESP r) op st s
     = s\<lparr>sent := sent s @ [resp_buf r op st []]\<rparr>"
proof -
  assume "good_env env"
  moreover have "resp_hdr op st \<noteq> []" using length_resp_hdr [of op st] by (metis list.size(3) zero_neq_numeral)
  ultimately show ?thesis by (simp add: send_simple_resp_def ship_good resp_buf_def)
qed

lemma body_resp_good:
  "good_env env \<Longrightarrow> length body \<le> 8000 \<Longrightarrow> send_resp_with_body env (PHY_RPC_RESP r) op st body s
     = s\<lparr>sent := sent s @ [resp_buf r op st body]\<rparr>"
proof -
  assume a: "good_env env" "length body \<le> 8000"
  moreover have "resp_hdr op st @ body \<noteq> []"
    using length_resp_hdr [of op st] by (metis append_is_Nil_conv list.size(3) zero_neq_numeral)
  ultimately show ?thesis by (simp add: send_resp_with_body_def ship_good resp_buf_def)
qed

text \<open>
  A handler serves a request when a short message changes nothing and any other is answered by
  exactly one response of its own, carrying the request's \<open>op_id\<close> and a 32-bit status.
\<close>

definition serves :: "phy_env \<Rightarrow> phy_rpc \<Rightarrow> handler \<Rightarrow> bool" where
  "serves env r h \<longleftrightarrow>
     (\<forall>data s. if length data < sizeof_req r then h env data s = s
       else \<exists>st body. st_ok st \<and> sent (h env data s) = sent s @ [resp_buf r (hdr_op_id data) st body])"

lemma unpack_short: "length data < sizeof_req r \<Longrightarrow> unpack r data s k = s"
  by (simp add: unpack_def)

lemma unpack_long: "\<not> length data < sizeof_req r \<Longrightarrow> unpack r data s k = k (hdr_op_id data)"
  by (simp add: unpack_def)

lemma some_resp [slave_step]:
  "st_ok st0 \<Longrightarrow> \<exists>st. st_ok st \<and> (\<exists>body. resp_buf r op st0 b0 = resp_buf r op st body)"
  by blast

lemmas serve_simps = unpack_long Let_def case_prod_beta slave_step

lemma servesI:
  assumes "\<And>data s. length data < sizeof_req r \<Longrightarrow> h env data s = s"
    and "\<And>data s. \<not> length data < sizeof_req r \<Longrightarrow>
       \<exists>st body. st_ok st \<and> sent (h env data s) = sent s @ [resp_buf r (hdr_op_id data) st body]"
  shows "serves env r h"
  using assms by (simp add: serves_def)

end
