(* ===== verification/Phy_Handlers.thy ===== *)
theory Phy_Handlers
  imports Phy_Slave_Base
begin

unbundle bit_operations_syntax

section \<open>The PHY handlers (phy_rpc_handlers.c)\<close>

text \<open>
  One definition per handler, named as in the code. The status of a call is threaded as the code
  threads \<open>err\<close> or \<open>st\<close>; a weak symbol that did not resolve answers \<open>ESP_ERR_NOT_SUPPORTED\<close>.
  The last part holds the capability map and the registration table, and the lemma that every
  handler of the table serves its request.
\<close>

subsection \<open>Handlers\<close>

definition on_set_channel :: handler where
  "on_set_channel env data s = unpack SET_CHANNEL data s (\<lambda>op.
     let s = api_do env Set_country_permissive s;
         (err, s) = api env (Wifi_set_channel 140) s;
         s = (if err = ESP_OK
              then (phy env phy_change_channel [uint (body_u8 data), 1, 0, 0] s)
                     \<lparr>s_state := (s_state s)\<lparr>i_channel := body_u8 data\<rparr>\<rparr>
              else s)
     in send_simple_resp env (PHY_RPC_RESP SET_CHANNEL) op err s)"

definition on_set_phy_11p :: handler where
  "on_set_phy_11p env data s = unpack SET_PHY_11P data s (\<lambda>op.
     let s = phy env phy_11p_set [if body_u8 data \<noteq> 0 then 1 else 0, 0] s;
         s = s\<lparr>s_state := (s_state s)\<lparr>i_phy_11p_armed := (if body_u8 data \<noteq> 0 then 1 else 0)\<rparr>\<rparr>
     in send_simple_resp env (PHY_RPC_RESP SET_PHY_11P) op ESP_OK s)"

text \<open>\<open>int8_t q = r->dbm * 4\<close>, clamped to 8..84; the product wraps in the narrowing.\<close>

definition quarter_dbm :: "int \<Rightarrow> int" where
  "quarter_dbm dbm =
     (let q = int8 (dbm * 4);
          q = (if q < 8 then 8 else q)
      in if q > 84 then 84 else q)"

definition on_set_tx_power :: handler where
  "on_set_tx_power env data s = unpack SET_TX_POWER data s (\<lambda>op.
     let dbm = sint (body_u8 data);
         (err, s) = api env (Wifi_set_max_tx_power (quarter_dbm dbm)) s;
         s = (if err = ESP_OK then s\<lparr>s_state := (s_state s)\<lparr>i_tx_power_dbm := dbm\<rparr>\<rparr> else s)
     in send_simple_resp env (PHY_RPC_RESP SET_TX_POWER) op err s)"

definition on_set_rx_gain :: handler where
  "on_set_rx_gain env data s = unpack SET_RX_GAIN data s (\<lambda>op.
     let g = body_u8 data in
     if g = 0xFF then
       let s = phy_if env phy_enable_agc [] s;
           s = phy_if env phy_rx_gain_force [0] s
       in send_simple_resp env (PHY_RPC_RESP SET_RX_GAIN) op ESP_OK s
     else
       let s = phy_if env phy_disable_agc [] s;
           s = phy_if env phy_rx_gain_force [1] s;
           st = (if resolved env phy_force_rx_gain then ESP_OK else ESP_ERR_NOT_SUPPORTED);
           s = phy_if env phy_force_rx_gain [uint g] s
       in send_simple_resp env (PHY_RPC_RESP SET_RX_GAIN) op st s)"

definition on_set_agc_max_gain :: handler where
  "on_set_agc_max_gain env data s = unpack SET_AGC_MAX_GAIN data s (\<lambda>op.
     let g = body_u8 data in
     if \<not> resolved env phy_agc_max_gain_set
     then send_simple_resp env (PHY_RPC_RESP SET_AGC_MAX_GAIN) op ESP_ERR_NOT_SUPPORTED s
     else
       let s = phy env phy_agc_max_gain_set [uint g] s;
           s = s\<lparr>s_state := (s_state s)\<lparr>i_agc_max_gain := g\<rparr>\<rparr>
       in send_simple_resp env (PHY_RPC_RESP SET_AGC_MAX_GAIN) op ESP_OK s)"

definition on_set_cca :: handler where
  "on_set_cca env data s = unpack SET_CCA data s (\<lambda>op.
     let en = (body_u8 data \<noteq> 0);
         f = (if en then phy_enable_cca else phy_disable_cca);
         st = (if resolved env f then ESP_OK else ESP_ERR_NOT_SUPPORTED);
         s = phy_if env f [] s;
         s = (if st = ESP_OK
              then s\<lparr>s_state := (s_state s)\<lparr>i_cca_enabled := (if en then 1 else 0)\<rparr>\<rparr> else s)
     in send_simple_resp env (PHY_RPC_RESP SET_CCA) op st s)"

definition on_get_cca_counters :: handler where
  "on_get_cca_counters env data s = unpack GET_CCA_COUNTERS data s (\<lambda>op.
     if \<not> resolved env phy_get_cca_cnt
     then send_simple_resp env (PHY_RPC_RESP GET_CCA_COUNTERS) op ESP_ERR_NOT_SUPPORTED s
     else
       let (v, s) = api env (Phy phy_get_cca_cnt []) s
       in send_resp_with_body env (PHY_RPC_RESP GET_CCA_COUNTERS) op ESP_OK
            (le_put 4 (word_of_int v :: u32) @ le_put 4 (0 :: u32)) s)"

definition on_reset_cca_counters :: handler where
  "on_reset_cca_counters env data s = unpack RESET_CCA_COUNT data s (\<lambda>op.
     if \<not> resolved env phy_set_cca_cnt
     then send_simple_resp env (PHY_RPC_RESP RESET_CCA_COUNT) op ESP_ERR_NOT_SUPPORTED s
     else send_simple_resp env (PHY_RPC_RESP RESET_CCA_COUNT) op ESP_OK
            (phy env phy_set_cca_cnt [0] s))"

definition on_set_low_rate :: handler where
  "on_set_low_rate env data s = unpack SET_LOW_RATE data s (\<lambda>op.
     let en = (body_u8 data \<noteq> 0);
         f = (if en then phy_enable_low_rate else phy_disable_low_rate);
         st = (if resolved env f then ESP_OK else ESP_ERR_NOT_SUPPORTED);
         s = phy_if env f [] s;
         s = (if st = ESP_OK
              then s\<lparr>s_state := (s_state s)\<lparr>i_low_rate_enabled := (if en then 1 else 0)\<rparr>\<rparr> else s)
     in send_simple_resp env (PHY_RPC_RESP SET_LOW_RATE) op st s)"

definition on_set_bandwidth :: handler where
  "on_set_bandwidth env data s = unpack SET_BANDWIDTH data s (\<lambda>op.
     let bw = body_u8 data;
         (st, s) =
           (if \<not> resolved env phy_bb_bss_cbw40 then (ESP_ERR_NOT_SUPPORTED, s)
            else if bw = 40 then (ESP_OK, phy env phy_bb_bss_cbw40 [1] s)
            else if bw = 20 then (ESP_OK, phy env phy_bb_bss_cbw40 [0] s)
            else (ESP_ERR_INVALID_ARG, s))
     in send_simple_resp env (PHY_RPC_RESP SET_BANDWIDTH) op st s)"

definition on_get_phy_rssi :: handler where
  "on_get_phy_rssi env data s = unpack GET_PHY_RSSI data s (\<lambda>op.
     let (rssi, s) =
           (if resolved env phy_get_sigrssi
            then (let (v, s) = api env (Phy phy_get_sigrssi []) s in (int8 v, s))
            else if resolved env phy_get_rssi
            then (let (v, s) = api env (Phy phy_get_rssi []) s in (int8 v, s))
            else (-128, s))
     in send_resp_with_body env (PHY_RPC_RESP GET_PHY_RSSI) op
          (if rssi = -128 then ESP_ERR_NOT_SUPPORTED else ESP_OK) [word_of_int rssi] s)"

definition on_set_country_permissive :: handler where
  "on_set_country_permissive env data s = unpack SET_COUNTRY_PERM data s (\<lambda>op.
     let (err, s) = api env Set_country_permissive s
     in send_simple_resp env (PHY_RPC_RESP SET_COUNTRY_PERM) op err s)"

text \<open>The GET_INFO body: six state bytes, two zero bytes, the version in a 32-byte field.\<close>

definition str_bytes :: "string \<Rightarrow> byte list" where
  "str_bytes = map of_char"

definition fw_version :: "byte list" where
  "fw_version = str_bytes ''esp-hosted-open slave 0.1'' @ replicate 7 0"

definition info_body :: "phy_info \<Rightarrow> byte list" where
  "info_body i =
     [i_channel i, word_of_int (i_tx_power_dbm i), i_phy_11p_armed i, i_cca_enabled i,
      i_low_rate_enabled i, i_agc_max_gain i, 0, 0] @ fw_version"

definition on_get_info :: handler where
  "on_get_info env data s = unpack GET_INFO data s (\<lambda>op.
     send_resp_with_body env (PHY_RPC_RESP GET_INFO) op ESP_OK (info_body (s_state s)) s)"

text \<open>The macro \<open>HOOK_OPT\<close>: call the symbol if it resolved, else report it missing.\<close>

definition hook_opt :: "phy_env \<Rightarrow> phy_sym \<Rightarrow> int list \<Rightarrow> slave \<Rightarrow> esp_err \<times> slave" where
  "hook_opt env sy args s =
     (if resolved env sy then (ESP_OK, phy env sy args s) else (ESP_ERR_NOT_SUPPORTED, s))"

definition on_set_freq :: handler where
  "on_set_freq env data s = unpack SET_FREQ data s (\<lambda>op.
     let (st, s) = hook_opt env phy_set_freq [sint (body_u32 data)] s
     in send_simple_resp env (PHY_RPC_RESP SET_FREQ) op st s)"

definition on_set_band :: handler where
  "on_set_band env data s = unpack SET_BAND data s (\<lambda>op.
     let v = uint (body_u8 data);
         (st, s) =
           (if resolved env phy_band_change then (ESP_OK, phy env phy_band_change [v] s)
            else if resolved env phy_band_sel then (ESP_OK, phy env phy_band_sel [v] s)
            else (ESP_ERR_NOT_SUPPORTED, s))
     in send_simple_resp env (PHY_RPC_RESP SET_BAND) op st s)"

definition on_set_chan_filt :: handler where
  "on_set_chan_filt env data s = unpack SET_CHAN_FILT data s (\<lambda>op.
     let (st, s) = hook_opt env phy_chan_filt_set [uint (body_u32 data)] s
     in send_simple_resp env (PHY_RPC_RESP SET_CHAN_FILT) op st s)"

definition on_set_chan14_mic :: handler where
  "on_set_chan14_mic env data s = unpack SET_CHAN14_MIC data s (\<lambda>op.
     let (st, s) = hook_opt env phy_chan14_mic_cfg_new [uint (body_u8 data)] s
     in send_simple_resp env (PHY_RPC_RESP SET_CHAN14_MIC) op st s)"

definition on_set_rate :: handler where
  "on_set_rate env data s = unpack SET_RATE data s (\<lambda>op.
     let (st, s) = hook_opt env phy_set_rate [uint (body_u8 data)] s
     in send_simple_resp env (PHY_RPC_RESP SET_RATE) op st s)"

definition on_set_most_tpw :: handler where
  "on_set_most_tpw env data s = unpack SET_MOST_TPW data s (\<lambda>op.
     let (st, s) = hook_opt env phy_set_most_tpw [sint (body_u8 data)] s
     in send_simple_resp env (PHY_RPC_RESP SET_MOST_TPW) op st s)"

definition on_get_most_tpw :: handler where
  "on_get_most_tpw env data s = unpack GET_MOST_TPW data s (\<lambda>op.
     if \<not> resolved env phy_get_most_tpw
     then send_simple_resp env (PHY_RPC_RESP GET_MOST_TPW) op ESP_ERR_NOT_SUPPORTED s
     else
       let (v, s) = api env (Phy phy_get_most_tpw []) s
       in send_resp_with_body env (PHY_RPC_RESP GET_MOST_TPW) op ESP_OK [word_of_int v] s)"

definition on_reset_rx_gain_table :: handler where
  "on_reset_rx_gain_table env data s = unpack RESET_RX_GAIN_TBL data s (\<lambda>op.
     let (st, s) = hook_opt env phy_set_rx_gain_table [0] s
     in send_simple_resp env (PHY_RPC_RESP RESET_RX_GAIN_TBL) op st s)"

definition on_get_noise_floor :: handler where
  "on_get_noise_floor env data s = unpack GET_NOISE_FLOOR data s (\<lambda>op.
     if \<not> resolved env phy_get_noise_floor
     then send_simple_resp env (PHY_RPC_RESP GET_NOISE_FLOOR) op ESP_ERR_NOT_SUPPORTED s
     else
       let (v, s) = api env (Phy phy_get_noise_floor []) s
       in send_resp_with_body env (PHY_RPC_RESP GET_NOISE_FLOOR) op ESP_OK [word_of_int v] s)"

definition on_get_temperature :: handler where
  "on_get_temperature env data s = unpack GET_TEMPERATURE data s (\<lambda>op.
     if \<not> resolved env phy_xpd_tsens
     then send_simple_resp env (PHY_RPC_RESP GET_TEMPERATURE) op ESP_ERR_NOT_SUPPORTED s
     else
       let (v, s) = api env (Phy phy_xpd_tsens []) s
       in send_resp_with_body env (PHY_RPC_RESP GET_TEMPERATURE) op ESP_OK [word_of_int v] s)"

definition on_set_csi_dump :: handler where
  "on_set_csi_dump env data s = unpack SET_CSI_DUMP data s (\<lambda>op.
     let (st, s) = hook_opt env phy_csidump_force_lltf_cfg [uint (body_u8 data)] s
     in send_simple_resp env (PHY_RPC_RESP SET_CSI_DUMP) op st s)"

definition on_set_loopback :: handler where
  "on_set_loopback env data s = unpack SET_LOOPBACK data s (\<lambda>op.
     let (st, s) = hook_opt env phy_set_loopback_gain [uint (body_u8 data)] s
     in send_simple_resp env (PHY_RPC_RESP SET_LOOPBACK) op st s)"

definition on_set_bt_tx_gain :: handler where
  "on_set_bt_tx_gain env data s = unpack SET_BT_TX_GAIN data s (\<lambda>op.
     let v = uint (body_u8 data);
         (st, s) =
           (if resolved env phy_bt_set_tx_gain_new then (ESP_OK, phy env phy_bt_set_tx_gain_new [v] s)
            else if resolved env phy_bt_tx_gain_set then (ESP_OK, phy env phy_bt_tx_gain_set [v] s)
            else (ESP_ERR_NOT_SUPPORTED, s))
     in send_simple_resp env (PHY_RPC_RESP SET_BT_TX_GAIN) op st s)"

definition on_set_bt_filter :: handler where
  "on_set_bt_filter env data s = unpack SET_BT_FILTER data s (\<lambda>op.
     let (st, s) = hook_opt env phy_bt_filter_reg [uint (body_u32 data)] s
     in send_simple_resp env (PHY_RPC_RESP SET_BT_FILTER) op st s)"

subsection \<open>GET_CAPS\<close>

definition handlers_marks :: "phy_env \<Rightarrow> (phy_rpc \<times> bool) list" where
  "handlers_marks env =
     [(SET_CHANNEL, True), (SET_PHY_11P, True), (SET_TX_POWER, True), (SET_COUNTRY_PERM, True),
      (GET_INFO, True), (GET_CAPS, True),
      (SET_RX_GAIN, resolved env phy_force_rx_gain),
      (SET_AGC_MAX_GAIN, resolved env phy_agc_max_gain_set),
      (RESET_RX_GAIN_TBL, resolved env phy_set_rx_gain_table),
      (SET_CCA, resolved env phy_disable_cca),
      (GET_CCA_COUNTERS, resolved env phy_get_cca_cnt),
      (RESET_CCA_COUNT, resolved env phy_set_cca_cnt),
      (SET_LOW_RATE, resolved env phy_disable_low_rate),
      (SET_BANDWIDTH, resolved env phy_bb_bss_cbw40),
      (GET_PHY_RSSI, resolved env phy_get_sigrssi \<or> resolved env phy_get_rssi),
      (SET_FREQ, resolved env phy_set_freq),
      (SET_BAND, resolved env phy_band_change \<or> resolved env phy_band_sel),
      (SET_CHAN_FILT, resolved env phy_chan_filt_set),
      (SET_CHAN14_MIC, resolved env phy_chan14_mic_cfg_new),
      (SET_RATE, resolved env phy_set_rate),
      (SET_MOST_TPW, resolved env phy_set_most_tpw),
      (GET_MOST_TPW, resolved env phy_get_most_tpw),
      (GET_NOISE_FLOOR, resolved env phy_get_noise_floor),
      (GET_TEMPERATURE, resolved env phy_xpd_tsens),
      (SET_CSI_DUMP, resolved env phy_csidump_force_lltf_cfg),
      (SET_LOOPBACK, resolved env phy_set_loopback_gain),
      (SET_BT_TX_GAIN, resolved env phy_bt_set_tx_gain_new \<or> resolved env phy_bt_tx_gain_set),
      (SET_BT_FILTER, resolved env phy_bt_filter_reg)]"

text \<open>The extras' bits (phy_rpc_extras.c) and the wireless bits (phy_rpc_wireless.c).\<close>

definition extras_marks :: "(phy_rpc \<times> bool) list" where
  "extras_marks =
     [(TX_80211, True), (SET_PROMISC, True), (SET_PROMISC_FILTER, True), (SET_PROTOCOL, True),
      (SET_MAC, True), (SET_CSI_ENABLE, True), (FTM_INITIATE, True), (SET_EVENT_MASK, True)]"

definition phy_rpc_extras_fill_caps :: "byte list \<Rightarrow> byte list" where
  "phy_rpc_extras_fill_caps caps = mark_all extras_marks caps"

definition i154_marks :: "(phy_rpc \<times> bool) list" where
  "i154_marks =
     [(IEEE154_ENABLE, True), (IEEE154_SET_CHAN, True), (IEEE154_SET_PANID, True),
      (IEEE154_SET_PROMISC, True), (IEEE154_TX_RAW, True)]"

definition espnow_marks :: "(phy_rpc \<times> bool) list" where
  "espnow_marks =
     [(ESPNOW_INIT, True), (ESPNOW_DEINIT, True), (ESPNOW_ADD_PEER, True),
      (ESPNOW_DEL_PEER, True), (ESPNOW_SEND, True), (ESPNOW_SET_PMK, True)]"

definition phy_rpc_wireless_fill_caps :: "phy_env \<Rightarrow> byte list \<Rightarrow> byte list" where
  "phy_rpc_wireless_fill_caps env caps =
     (let caps = mark_all espnow_marks caps
      in if resolved env esp_ieee802154_enable then mark_all i154_marks caps else caps)"

definition get_caps :: "phy_env \<Rightarrow> byte list" where
  "get_caps env = phy_rpc_wireless_fill_caps env
     (phy_rpc_extras_fill_caps (mark_all (handlers_marks env) zero_caps))"

definition on_get_caps :: handler where
  "on_get_caps env data s = unpack GET_CAPS data s (\<lambda>op.
     send_resp_with_body env (PHY_RPC_RESP GET_CAPS) op ESP_OK (get_caps env) s)"

subsection \<open>Registration\<close>

definition phy_rpc_handlers_table :: "(u32 \<times> handler) list" where
  "phy_rpc_handlers_table =
     [(PHY_RPC_REQ SET_CHANNEL, on_set_channel),
      (PHY_RPC_REQ SET_PHY_11P, on_set_phy_11p),
      (PHY_RPC_REQ SET_TX_POWER, on_set_tx_power),
      (PHY_RPC_REQ SET_RX_GAIN, on_set_rx_gain),
      (PHY_RPC_REQ SET_AGC_MAX_GAIN, on_set_agc_max_gain),
      (PHY_RPC_REQ SET_CCA, on_set_cca),
      (PHY_RPC_REQ GET_CCA_COUNTERS, on_get_cca_counters),
      (PHY_RPC_REQ RESET_CCA_COUNT, on_reset_cca_counters),
      (PHY_RPC_REQ SET_LOW_RATE, on_set_low_rate),
      (PHY_RPC_REQ SET_BANDWIDTH, on_set_bandwidth),
      (PHY_RPC_REQ GET_PHY_RSSI, on_get_phy_rssi),
      (PHY_RPC_REQ SET_COUNTRY_PERM, on_set_country_permissive),
      (PHY_RPC_REQ GET_INFO, on_get_info),
      (PHY_RPC_REQ SET_FREQ, on_set_freq),
      (PHY_RPC_REQ SET_BAND, on_set_band),
      (PHY_RPC_REQ SET_CHAN_FILT, on_set_chan_filt),
      (PHY_RPC_REQ SET_CHAN14_MIC, on_set_chan14_mic),
      (PHY_RPC_REQ SET_RATE, on_set_rate),
      (PHY_RPC_REQ SET_MOST_TPW, on_set_most_tpw),
      (PHY_RPC_REQ GET_MOST_TPW, on_get_most_tpw),
      (PHY_RPC_REQ RESET_RX_GAIN_TBL, on_reset_rx_gain_table),
      (PHY_RPC_REQ GET_NOISE_FLOOR, on_get_noise_floor),
      (PHY_RPC_REQ GET_TEMPERATURE, on_get_temperature),
      (PHY_RPC_REQ SET_CSI_DUMP, on_set_csi_dump),
      (PHY_RPC_REQ SET_LOOPBACK, on_set_loopback),
      (PHY_RPC_REQ SET_BT_TX_GAIN, on_set_bt_tx_gain),
      (PHY_RPC_REQ SET_BT_FILTER, on_set_bt_filter),
      (PHY_RPC_REQ GET_CAPS, on_get_caps)]"

text \<open>A registration failure is only logged; the loop goes on.\<close>

type_synonym slave_table = "(handler, unit) cb_table"

definition phy_rpc_handlers_register :: "slave_table \<Rightarrow> slave_table" where
  "phy_rpc_handlers_register t = reg_all slave_register t phy_rpc_handlers_table"

subsection \<open>Every handler serves its request\<close>

lemmas handler_defs = on_set_channel_def on_set_phy_11p_def on_set_tx_power_def
  on_set_rx_gain_def on_set_agc_max_gain_def on_set_cca_def on_get_cca_counters_def
  on_reset_cca_counters_def on_set_low_rate_def on_set_bandwidth_def on_get_phy_rssi_def
  on_set_country_permissive_def on_get_info_def on_set_freq_def on_set_band_def
  on_set_chan_filt_def on_set_chan14_mic_def on_set_rate_def on_set_most_tpw_def
  on_get_most_tpw_def on_reset_rx_gain_table_def on_get_noise_floor_def
  on_get_temperature_def on_set_csi_dump_def on_set_loopback_def on_set_bt_tx_gain_def
  on_set_bt_filter_def on_get_caps_def

lemma hook_opt_sent [slave_step]: "sent (snd (hook_opt env sy args s)) = sent s"
  by (simp add: hook_opt_def slave_step)

lemma hook_opt_st [slave_step]: "st_ok (fst (hook_opt env sy args s))"
  by (simp add: hook_opt_def)

lemma length_info_body [simp]: "length (info_body i) = 40"
  by (simp add: info_body_def fw_version_def str_bytes_def)

lemma length_get_caps [simp]: "length (get_caps env) = 16"
  by (simp add: get_caps_def phy_rpc_extras_fill_caps_def phy_rpc_wireless_fill_caps_def Let_def
      zero_caps_def PHY_RPC_CAPS_BYTES_def)

lemma serve_handlers:
  assumes heap: "good_env env"
  shows "serves env SET_CHANNEL on_set_channel"
    "serves env SET_PHY_11P on_set_phy_11p"
    "serves env SET_TX_POWER on_set_tx_power"
    "serves env SET_RX_GAIN on_set_rx_gain"
    "serves env SET_AGC_MAX_GAIN on_set_agc_max_gain"
    "serves env SET_CCA on_set_cca"
    "serves env GET_CCA_COUNTERS on_get_cca_counters"
    "serves env RESET_CCA_COUNT on_reset_cca_counters"
    "serves env SET_LOW_RATE on_set_low_rate"
    "serves env SET_BANDWIDTH on_set_bandwidth"
    "serves env GET_PHY_RSSI on_get_phy_rssi"
    "serves env SET_COUNTRY_PERM on_set_country_permissive"
    "serves env GET_INFO on_get_info"
    "serves env SET_FREQ on_set_freq"
    "serves env SET_BAND on_set_band"
    "serves env SET_CHAN_FILT on_set_chan_filt"
    "serves env SET_CHAN14_MIC on_set_chan14_mic"
    "serves env SET_RATE on_set_rate"
    "serves env SET_MOST_TPW on_set_most_tpw"
    "serves env GET_MOST_TPW on_get_most_tpw"
    "serves env RESET_RX_GAIN_TBL on_reset_rx_gain_table"
    "serves env GET_NOISE_FLOOR on_get_noise_floor"
    "serves env GET_TEMPERATURE on_get_temperature"
    "serves env SET_CSI_DUMP on_set_csi_dump"
    "serves env SET_LOOPBACK on_set_loopback"
    "serves env SET_BT_TX_GAIN on_set_bt_tx_gain"
    "serves env SET_BT_FILTER on_set_bt_filter"
    "serves env GET_CAPS on_get_caps"
  using simple_resp_good [OF heap] body_resp_good [OF heap] conjunct2 [OF heap]
  by (intro servesI; simp add: handler_defs unpack_short; simp add: serve_simps slave_step)+

lemma handlers_serve:
  assumes "good_env env" "(m, h) \<in> set phy_rpc_handlers_table"
  shows "\<exists>r. m = PHY_RPC_REQ r \<and> serves env r h"
  using assms(2) serve_handlers [OF assms(1)] unfolding phy_rpc_handlers_table_def by auto

end
