(* ===== verification/Phy_Extras.thy ===== *)
theory Phy_Extras
  imports Phy_Handlers
begin

unbundle bit_operations_syntax

section \<open>Raw TX, promiscuous RX, CSI, FTM (phy_rpc_extras.c)\<close>

text \<open>
  The handlers of the extras table and the three forwarders: the promiscuous callback with the
  queue and the task behind it, the CSI callback and the FTM report handler. A forwarder queues
  an event buffer for the host; the event layouts are \<open>raw_event\<close>, \<open>csi_event\<close> and
  \<open>ftm_event\<close>.
\<close>

subsection \<open>Raw 802.11 TX\<close>

definition on_tx_80211 :: handler where
  "on_tx_80211 env data s = unpack TX_80211 data s (\<lambda>op.
     let r = view_tx_80211 data;
         n = unat (tx_frame_len r)
     in if sizeof_req TX_80211 + n > length data
        then send_simple_resp env (PHY_RPC_RESP TX_80211) op ESP_ERR_INVALID_SIZE s
        else
          let (err, s) = api env (Wifi_80211_tx (iface_of (tx_wifi_if r)) (take n (tx_frame r))
                                    (tx_en_seq_nr r \<noteq> 0)) s
          in send_simple_resp env (PHY_RPC_RESP TX_80211) op err s)"

subsection \<open>Promiscuous RX\<close>

definition RAW_QUEUE_LEN :: nat where
  "RAW_QUEUE_LEN = 16"

datatype pkt_type = WIFI_PKT_MGMT | WIFI_PKT_CTRL | WIFI_PKT_DATA | WIFI_PKT_MISC

record promisc_pkt =
  pp_sig_len :: nat
  pp_rssi :: int
  pp_channel :: u8
  pp_rate :: u8
  pp_timestamp :: u32
  pp_payload :: "byte list"

definition promisc_cb :: "phy_env \<Rightarrow> promisc_pkt \<Rightarrow> pkt_type \<Rightarrow> slave \<Rightarrow> slave" where
  "promisc_cb env p ty s =
     (case s_raw_q s of
        None \<Rightarrow> s
      | Some q \<Rightarrow>
          if ty = WIFI_PKT_MISC then s
          else
            let plen = pp_sig_len p in
            if plen > 1600 then s
            else if \<not> heap_ok env (12 + plen) then s
            else
              let e = \<lparr>re_rssi_dbm = pp_rssi p, re_channel = pp_channel p, re_rate = pp_rate p,
                       re_is_qos = (if ty = WIFI_PKT_DATA \<and> rd8 0 (pp_payload p) AND 0x80 \<noteq> 0
                                    then 1 else 0),
                       re_timestamp_us = pp_timestamp p,
                       re_frame = take plen (pp_payload p)\<rparr>
              in if length q < RAW_QUEUE_LEN then s\<lparr>s_raw_q := Some (q @ [e])\<rparr> else s)"

text \<open>The event \<open>phy_rpc_evt_raw_frame_t\<close>.\<close>

definition raw_event :: "raw_evt \<Rightarrow> byte list" where
  "raw_event e =
     [word_of_int (re_rssi_dbm e), re_channel e, re_rate e, re_is_qos e]
     @ le_put 2 (word_of_nat (length (re_frame e)) :: u16) @ le_put 2 (0 :: u16)
     @ le_put 4 (re_timestamp_us e) @ re_frame e"

text \<open>One turn of \<open>raw_forward_task\<close>: take the oldest frame and send it.\<close>

definition raw_forward_step :: "phy_env \<Rightarrow> slave \<Rightarrow> slave" where
  "raw_forward_step env s =
     (case s_raw_q s of
        Some (e # q) \<Rightarrow>
          let s = s\<lparr>s_raw_q := Some q\<rparr>
          in if heap_ok env (sizeof_evt RAW_FRAME + length (re_frame e))
             then ship env (PHY_RPC_EVT RAW_FRAME) (raw_event e) s
             else s
      | _ \<Rightarrow> s)"

definition on_set_promisc :: handler where
  "on_set_promisc env data s = unpack SET_PROMISC data s (\<lambda>op.
     let en = (body_u8 data \<noteq> 0);
         s = (if en \<and> s_raw_q s = None
              then api_do env Wifi_set_promiscuous_rx_cb
                     (api_do env Create_raw_task
                        (s\<lparr>s_raw_q := (if queue_ok env then Some [] else None)\<rparr>))
              else s);
         (err, s) = api env (Wifi_set_promiscuous en) s
     in send_simple_resp env (PHY_RPC_RESP SET_PROMISC) op err s)"

definition on_set_promisc_filter :: handler where
  "on_set_promisc_filter env data s = unpack SET_PROMISC_FILTER data s (\<lambda>op.
     let (err, s) = api env (Wifi_set_promiscuous_filter (body_u32 data)) s
     in send_simple_resp env (PHY_RPC_RESP SET_PROMISC_FILTER) op err s)"

subsection \<open>Protocol and MAC\<close>

definition on_set_protocol :: handler where
  "on_set_protocol env data s = unpack SET_PROTOCOL data s (\<lambda>op.
     let r = view_protocol data;
         (err, s) = api env (Wifi_set_protocol (iface_of (pr_wifi_if r)) (pr_protocol_mask r)) s
     in send_simple_resp env (PHY_RPC_RESP SET_PROTOCOL) op err s)"

definition on_set_mac :: handler where
  "on_set_mac env data s = unpack SET_MAC data s (\<lambda>op.
     let r = view_mac data;
         (err, s) = api env (Wifi_set_mac (iface_of (mr_wifi_if r)) (mr_mac r)) s
     in send_simple_resp env (PHY_RPC_RESP SET_MAC) op err s)"

subsection \<open>CSI\<close>

record csi_info =
  ci_rssi :: int
  ci_channel :: u8
  ci_mac :: "byte list"
  ci_timestamp :: u32
  ci_buf :: "byte list option"
  ci_len :: int

definition csi_event :: "csi_info \<Rightarrow> byte list \<Rightarrow> byte list" where
  "csi_event info csi =
     [word_of_int (ci_rssi info), ci_channel info] @ take 6 (ci_mac info)
     @ le_put 2 (word_of_int (ci_len info) :: u16) @ le_put 2 (0 :: u16)
     @ le_put 4 (ci_timestamp info) @ csi"

definition csi_cb :: "phy_env \<Rightarrow> csi_info option \<Rightarrow> slave \<Rightarrow> slave" where
  "csi_cb env oinfo s =
     (case oinfo of
        None \<Rightarrow> s
      | Some info \<Rightarrow>
          (case ci_buf info of
             None \<Rightarrow> s
           | Some b \<Rightarrow>
               if ci_len info \<le> 0 then s
               else if \<not> heap_ok env (sizeof_evt CSI + nat (ci_len info)) then s
               else ship env (PHY_RPC_EVT CSI) (csi_event info (take (nat (ci_len info)) b)) s))"

definition on_set_csi_enable :: handler where
  "on_set_csi_enable env data s = unpack SET_CSI_ENABLE data s (\<lambda>op.
     if body_u8 data \<noteq> 0 then
       let (err, s) = api env Wifi_set_csi_rx_cb s;
           (err, s) = (if err = ESP_OK then api env (Wifi_set_csi True) s else (err, s))
       in send_simple_resp env (PHY_RPC_RESP SET_CSI_ENABLE) op err s
     else
       let (err, s) = api env (Wifi_set_csi False) s
       in send_simple_resp env (PHY_RPC_RESP SET_CSI_ENABLE) op err s)"

subsection \<open>FTM\<close>

record ftm_report =
  fr_peer_mac :: "byte list"
  fr_status :: u8
  fr_rtt_raw :: u32
  fr_rtt_est :: u32
  fr_dist_est :: u32

definition ftm_event :: "ftm_report \<Rightarrow> byte list" where
  "ftm_event r = take 6 (fr_peer_mac r) @ [fr_status r, 0] @ le_put 4 (fr_rtt_raw r)
     @ le_put 4 (fr_rtt_est r) @ le_put 4 (fr_dist_est r)"

text \<open>The handler acts on \<open>WIFI_EVENT_FTM_REPORT\<close> only; \<open>is_ftm\<close> is that test.\<close>

definition on_ftm_event :: "phy_env \<Rightarrow> bool \<Rightarrow> ftm_report \<Rightarrow> slave \<Rightarrow> slave" where
  "on_ftm_event env is_ftm r s =
     (if \<not> is_ftm then s else ship env (PHY_RPC_EVT FTM_REPORT) (ftm_event r) s)"

definition on_ftm_initiate :: handler where
  "on_ftm_initiate env data s = unpack FTM_INITIATE data s (\<lambda>op.
     let r = view_ftm data;
         s = (if \<not> s_ftm_handler_registered s
              then (api_do env Register_ftm_handler s)\<lparr>s_ftm_handler_registered := True\<rparr>
              else s);
         cfg = \<lparr>f_resp_mac = ft_peer_mac r, f_frm_count = ft_frames_count r,
                f_burst_period = ft_burst_period r, f_channel = ft_channel r\<rparr>;
         (err, s) = api env (Ftm_initiate_session cfg) s
     in send_simple_resp env (PHY_RPC_RESP FTM_INITIATE) op err s)"

text \<open>The event mask is only logged; the request is accepted.\<close>

definition on_set_event_mask :: handler where
  "on_set_event_mask env data s = unpack SET_EVENT_MASK data s (\<lambda>op.
     send_simple_resp env (PHY_RPC_RESP SET_EVENT_MASK) op ESP_OK s)"

subsection \<open>Registration\<close>

definition phy_rpc_extras_table :: "(u32 \<times> handler) list" where
  "phy_rpc_extras_table =
     [(PHY_RPC_REQ TX_80211, on_tx_80211),
      (PHY_RPC_REQ SET_PROMISC, on_set_promisc),
      (PHY_RPC_REQ SET_PROMISC_FILTER, on_set_promisc_filter),
      (PHY_RPC_REQ SET_PROTOCOL, on_set_protocol),
      (PHY_RPC_REQ SET_MAC, on_set_mac),
      (PHY_RPC_REQ SET_CSI_ENABLE, on_set_csi_enable),
      (PHY_RPC_REQ FTM_INITIATE, on_ftm_initiate),
      (PHY_RPC_REQ SET_EVENT_MASK, on_set_event_mask)]"

definition phy_rpc_extras_register :: "slave_table \<Rightarrow> slave_table" where
  "phy_rpc_extras_register t = reg_all slave_register t phy_rpc_extras_table"

lemmas extras_defs = on_tx_80211_def on_set_promisc_def on_set_promisc_filter_def
  on_set_protocol_def on_set_mac_def on_set_csi_enable_def on_ftm_initiate_def
  on_set_event_mask_def

lemma serve_extras:
  assumes heap: "good_env env"
  shows "serves env TX_80211 on_tx_80211"
    "serves env SET_PROMISC on_set_promisc"
    "serves env SET_PROMISC_FILTER on_set_promisc_filter"
    "serves env SET_PROTOCOL on_set_protocol"
    "serves env SET_MAC on_set_mac"
    "serves env SET_CSI_ENABLE on_set_csi_enable"
    "serves env FTM_INITIATE on_ftm_initiate"
    "serves env SET_EVENT_MASK on_set_event_mask"
  using simple_resp_good [OF heap] conjunct2 [OF heap]
  by (intro servesI; simp add: extras_defs unpack_short; simp add: serve_simps slave_step)+

lemma extras_serve:
  assumes "good_env env" "(m, h) \<in> set phy_rpc_extras_table"
  shows "\<exists>r. m = PHY_RPC_REQ r \<and> serves env r h"
  using assms(2) serve_extras [OF assms(1)] unfolding phy_rpc_extras_table_def by auto

subsection \<open>The raw-frame queue\<close>

text \<open>
  The queue never holds more than its 16 entries nor a frame over 1600 bytes, so the 16-bit
  length field of the event never wraps.
\<close>

definition raw_q_ok :: "slave \<Rightarrow> bool" where
  "raw_q_ok s = (case s_raw_q s of
     None \<Rightarrow> True
   | Some q \<Rightarrow> length q \<le> RAW_QUEUE_LEN \<and> (\<forall>e \<in> set q. length (re_frame e) \<le> 1600))"

lemma raw_q_ok_promisc: "raw_q_ok s \<Longrightarrow> raw_q_ok (promisc_cb env p ty s)"
  by (auto simp: raw_q_ok_def promisc_cb_def Let_def split: option.splits)

lemma ship_raw_q [slave_step]: "s_raw_q (ship env m d s) = s_raw_q s"
  by (auto simp: ship_def split: prod.splits option.splits)

lemma raw_q_ok_forward: "raw_q_ok s \<Longrightarrow> raw_q_ok (raw_forward_step env s)"
  by (auto simp: raw_q_ok_def raw_forward_step_def Let_def slave_step
      split: option.splits list.splits)

end
