(* ===== verification/Phy_Wireless.thy ===== *)
theory Phy_Wireless
  imports Phy_Extras
begin

unbundle bit_operations_syntax

section \<open>ESP-NOW and 802.15.4 (phy_rpc_wireless.c)\<close>

text \<open>
  The ESP-NOW handlers and callbacks, and the 802.15.4 handlers behind weak symbols, with their
  registration table.
\<close>

subsection \<open>ESP-NOW\<close>

record now_rx =
  nr_src :: "byte list"
  nr_dst :: "byte list"
  nr_ctrl :: "(int \<times> u8) option"

definition espnow_rx_event :: "now_rx \<Rightarrow> byte list \<Rightarrow> byte list" where
  "espnow_rx_event info data =
     take 6 (nr_src info) @ take 6 (nr_dst info)
     @ (case nr_ctrl info of None \<Rightarrow> [0, 0] | Some (rssi, ch) \<Rightarrow> [word_of_int rssi, ch])
     @ le_put 2 (word_of_nat (length data) :: u16) @ data"

definition espnow_rx_cb :: "phy_env \<Rightarrow> now_rx \<Rightarrow> byte list \<Rightarrow> int \<Rightarrow> slave \<Rightarrow> slave" where
  "espnow_rx_cb env info data len s =
     (if len \<le> 0 \<or> len > 250 then s
      else if \<not> heap_ok env (sizeof_evt ESPNOW_RX + nat len) then s
      else ship env (PHY_RPC_EVT ESPNOW_RX) (espnow_rx_event info (take (nat len) data)) s)"

text \<open>The transmit status event: the address of \<open>info\<close> if there is one, and 0 for success.\<close>

definition espnow_tx_cb :: "phy_env \<Rightarrow> byte list option \<Rightarrow> bool \<Rightarrow> slave \<Rightarrow> slave" where
  "espnow_tx_cb env src success s =
     ship env (PHY_RPC_EVT ESPNOW_TX_STATUS)
       ((case src of None \<Rightarrow> replicate 6 0 | Some a \<Rightarrow> take 6 a)
        @ [if success then 0 else 1, 0]) s"

definition on_espnow_init :: handler where
  "on_espnow_init env data s = unpack ESPNOW_INIT data s (\<lambda>op.
     let (err, s) = api env Now_init s;
         s = (if err = ESP_OK
              then api_do env Now_register_send_cb (api_do env Now_register_recv_cb s)
              else s)
     in send_simple_resp env (PHY_RPC_RESP ESPNOW_INIT) op err s)"

definition on_espnow_deinit :: handler where
  "on_espnow_deinit env data s = unpack ESPNOW_DEINIT data s (\<lambda>op.
     let (err, s) = api env Now_deinit s
     in send_simple_resp env (PHY_RPC_RESP ESPNOW_DEINIT) op err s)"

definition on_espnow_set_pmk :: handler where
  "on_espnow_set_pmk env data s = unpack ESPNOW_SET_PMK data s (\<lambda>op.
     let (err, s) = api env (Now_set_pmk (pmk_of data)) s
     in send_simple_resp env (PHY_RPC_RESP ESPNOW_SET_PMK) op err s)"

definition on_espnow_add_peer :: handler where
  "on_espnow_add_peer env data s = unpack ESPNOW_ADD_PEER data s (\<lambda>op.
     let r = view_add_peer data;
         p = \<lparr>p_addr = ap_peer_mac r, p_lmk = ap_lmk r, p_channel = ap_channel r,
              p_ifidx = iface_of (ap_wifi_if r), p_encrypt = (ap_encrypt r \<noteq> 0)\<rparr>;
         (err, s) = api env (Now_add_peer p) s
     in send_simple_resp env (PHY_RPC_RESP ESPNOW_ADD_PEER) op err s)"

definition on_espnow_del_peer :: handler where
  "on_espnow_del_peer env data s = unpack ESPNOW_DEL_PEER data s (\<lambda>op.
     let (err, s) = api env (Now_del_peer (del_peer_mac data)) s
     in send_simple_resp env (PHY_RPC_RESP ESPNOW_DEL_PEER) op err s)"

definition on_espnow_send :: handler where
  "on_espnow_send env data s = unpack ESPNOW_SEND data s (\<lambda>op.
     let r = view_espnow_send data;
         n = unat (es_data_len r)
     in if sizeof_req ESPNOW_SEND + n > length data
        then send_simple_resp env (PHY_RPC_RESP ESPNOW_SEND) op ESP_ERR_INVALID_SIZE s
        else
          let (err, s) = api env (Now_send (es_peer_mac r) (take n (es_data r))) s
          in send_simple_resp env (PHY_RPC_RESP ESPNOW_SEND) op err s)"

subsection \<open>802.15.4\<close>

text \<open>\<open>frame\<close> starts with the length byte (PHR); a NULL frame is \<open>None\<close>.\<close>

definition i154_rx_event :: "byte list \<Rightarrow> byte list" where
  "i154_rx_event frame =
     (let plen = unat (rd8 0 frame)
      in [0, 0, 0, 0] @ le_put 2 (word_of_nat plen :: u16) @ [0, 0, 0, 0, 0, 0] @ take plen (drop 1 frame))"

definition esp_ieee802154_receive_done :: "phy_env \<Rightarrow> byte list option \<Rightarrow> slave \<Rightarrow> slave" where
  "esp_ieee802154_receive_done env oframe s =
     (case oframe of
        None \<Rightarrow> s
      | Some frame \<Rightarrow>
          let plen = unat (rd8 0 frame) in
          if plen < 2 \<or> plen > 127 then s
          else if \<not> heap_ok env (sizeof_evt IEEE154_RX + plen) then s
          else ship env (PHY_RPC_EVT IEEE154_RX) (i154_rx_event frame) s)"

definition i154_call :: "phy_env \<Rightarrow> phy_sym \<Rightarrow> int list \<Rightarrow> slave \<Rightarrow> esp_err \<times> slave" where
  "i154_call env sy args s =
     (if resolved env sy then api env (Phy sy args) s else (ESP_ERR_NOT_SUPPORTED, s))"

definition on_i154_enable :: handler where
  "on_i154_enable env data s = unpack IEEE154_ENABLE data s (\<lambda>op.
     let (st, s) =
           (if body_u8 data \<noteq> 0
            then i154_call env esp_ieee802154_enable [] s
            else i154_call env esp_ieee802154_disable [] s)
     in send_simple_resp env (PHY_RPC_RESP IEEE154_ENABLE) op st s)"

definition on_i154_set_chan :: handler where
  "on_i154_set_chan env data s = unpack IEEE154_SET_CHAN data s (\<lambda>op.
     let ch = body_u8 data;
         (st, s) =
           (if \<not> resolved env esp_ieee802154_set_channel then (ESP_ERR_NOT_SUPPORTED, s)
            else if ch < 11 \<or> ch > 26 then (ESP_ERR_INVALID_ARG, s)
            else api env (Phy esp_ieee802154_set_channel [uint ch]) s)
     in send_simple_resp env (PHY_RPC_RESP IEEE154_SET_CHAN) op st s)"

definition on_i154_set_panid :: handler where
  "on_i154_set_panid env data s = unpack IEEE154_SET_PANID data s (\<lambda>op.
     let (st, s) = i154_call env esp_ieee802154_set_panid [uint (body_u16 data)] s
     in send_simple_resp env (PHY_RPC_RESP IEEE154_SET_PANID) op st s)"

definition on_i154_set_promisc :: handler where
  "on_i154_set_promisc env data s = unpack IEEE154_SET_PROMISC data s (\<lambda>op.
     let (st, s) = i154_call env esp_ieee802154_set_promiscuous
                     [if body_u8 data \<noteq> 0 then 1 else 0] s
     in send_simple_resp env (PHY_RPC_RESP IEEE154_SET_PROMISC) op st s)"

text \<open>\<open>uint8_t buf[128]\<close>: the length byte and the frame, at most 127 bytes of it.\<close>

definition on_i154_tx_raw :: handler where
  "on_i154_tx_raw env data s = unpack IEEE154_TX_RAW data s (\<lambda>op.
     let r = view_tx_raw data;
         n = unat (tr_frame_len r);
         (st, s) =
           (if sizeof_req IEEE154_TX_RAW + n > length data then (ESP_ERR_INVALID_SIZE, s)
            else if \<not> resolved env esp_ieee802154_transmit then (ESP_ERR_NOT_SUPPORTED, s)
            else if n > 127 then (ESP_ERR_INVALID_SIZE, s)
            else api env (I154_transmit (word_of_nat n # take n (tr_frame r)) (tr_cca r \<noteq> 0)) s)
     in send_simple_resp env (PHY_RPC_RESP IEEE154_TX_RAW) op st s)"

subsection \<open>Registration\<close>

definition phy_rpc_wireless_table :: "(u32 \<times> handler) list" where
  "phy_rpc_wireless_table =
     [(PHY_RPC_REQ ESPNOW_INIT, on_espnow_init),
      (PHY_RPC_REQ ESPNOW_DEINIT, on_espnow_deinit),
      (PHY_RPC_REQ ESPNOW_SET_PMK, on_espnow_set_pmk),
      (PHY_RPC_REQ ESPNOW_ADD_PEER, on_espnow_add_peer),
      (PHY_RPC_REQ ESPNOW_DEL_PEER, on_espnow_del_peer),
      (PHY_RPC_REQ ESPNOW_SEND, on_espnow_send),
      (PHY_RPC_REQ IEEE154_ENABLE, on_i154_enable),
      (PHY_RPC_REQ IEEE154_SET_CHAN, on_i154_set_chan),
      (PHY_RPC_REQ IEEE154_SET_PANID, on_i154_set_panid),
      (PHY_RPC_REQ IEEE154_SET_PROMISC, on_i154_set_promisc),
      (PHY_RPC_REQ IEEE154_TX_RAW, on_i154_tx_raw)]"

definition phy_rpc_wireless_register :: "slave_table \<Rightarrow> slave_table" where
  "phy_rpc_wireless_register t = reg_all slave_register t phy_rpc_wireless_table"

lemmas wireless_defs = on_espnow_init_def on_espnow_deinit_def on_espnow_set_pmk_def
  on_espnow_add_peer_def on_espnow_del_peer_def on_espnow_send_def on_i154_enable_def
  on_i154_set_chan_def on_i154_set_panid_def on_i154_set_promisc_def on_i154_tx_raw_def

lemma i154_call_sent [slave_step]: "sent (snd (i154_call env sy args s)) = sent s"
  by (simp add: i154_call_def slave_step)

lemma i154_call_st [slave_step]:
  "\<forall>l c. st_ok (api_ret env l c) \<Longrightarrow> st_ok (fst (i154_call env sy args s))"
  by (simp add: i154_call_def slave_step)

lemma serve_wireless:
  assumes heap: "good_env env"
  shows "serves env ESPNOW_INIT on_espnow_init"
    "serves env ESPNOW_DEINIT on_espnow_deinit"
    "serves env ESPNOW_SET_PMK on_espnow_set_pmk"
    "serves env ESPNOW_ADD_PEER on_espnow_add_peer"
    "serves env ESPNOW_DEL_PEER on_espnow_del_peer"
    "serves env ESPNOW_SEND on_espnow_send"
    "serves env IEEE154_ENABLE on_i154_enable"
    "serves env IEEE154_SET_CHAN on_i154_set_chan"
    "serves env IEEE154_SET_PANID on_i154_set_panid"
    "serves env IEEE154_SET_PROMISC on_i154_set_promisc"
    "serves env IEEE154_TX_RAW on_i154_tx_raw"
  using simple_resp_good [OF heap] conjunct2 [OF heap]
  by (intro servesI; simp add: wireless_defs unpack_short; simp add: serve_simps slave_step)+

lemma wireless_serve:
  assumes "good_env env" "(m, h) \<in> set phy_rpc_wireless_table"
  shows "\<exists>r. m = PHY_RPC_REQ r \<and> serves env r h"
  using assms(2) serve_wireless [OF assms(1)] unfolding phy_rpc_wireless_table_def by auto

end
