(* ===== verification/Phy_Slave.thy ===== *)
theory Phy_Slave
  imports Phy_Wireless
begin

section \<open>The co-processor's start-up and dispatch (phy_rpc_overlay.c)\<close>

text \<open>
  \<open>app_main\<close> brings the co-processor up, applies the 802.11p set-up and registers the three
  handler tables; \<open>slave_rx\<close> is what the RPC layer does with a custom message, through the
  callback table. The properties say what a request is answered with, how many handlers a table
  of a given size takes, and what GET_CAPS reports.
\<close>

subsection \<open>Start-up\<close>

definition slave_phy_apply :: "phy_env \<Rightarrow> u8 \<Rightarrow> slave \<Rightarrow> esp_err \<times> slave" where
  "slave_phy_apply env ch s =
     (let (err, s) = api env Set_country_permissive s in
      if err \<noteq> ESP_OK then (err, s)
      else
        let s = phy env phy_11p_set [1, 0] s;
            (err, s) = api env (Wifi_set_channel 140) s
        in if err \<noteq> ESP_OK then (err, s)
           else
             let s = phy env phy_change_channel [uint ch, 1, 0, 0] s;
                 s = api_do env Wifi_set_ps_none s
             in (ESP_OK, s))"

text \<open>\<open>on_wifi_event\<close>: the set-up is applied again when Wi-Fi reports ready.\<close>

definition on_wifi_event :: "phy_env \<Rightarrow> u8 \<Rightarrow> bool \<Rightarrow> slave \<Rightarrow> slave" where
  "on_wifi_event env ch is_ready s = (if is_ready then snd (slave_phy_apply env ch s) else s)"

text \<open>The results of the platform calls of \<open>app_main\<close> that are not PHY calls.\<close>

record boot_env =
  nvs_init_ret :: esp_err
  nvs_needs_erase :: bool
  nvs_erase_ret :: esp_err
  nvs_init2_ret :: esp_err
  coproc_init_ret :: esp_err
  reapply_on_ready :: bool
  evt_register_ret :: esp_err

text \<open>\<open>ESP_ERROR_CHECK\<close> aborts on an error: the boot ends with \<open>None\<close>.\<close>

definition register_all_handlers :: "slave_table \<Rightarrow> slave_table" where
  "register_all_handlers t =
     phy_rpc_wireless_register (phy_rpc_extras_register (phy_rpc_handlers_register t))"

definition app_main :: "boot_env \<Rightarrow> phy_env \<Rightarrow> u8 \<Rightarrow> slave_table \<Rightarrow> (slave \<times> slave_table) option" where
  "app_main b env ch t =
     (let erase = nvs_needs_erase b;
          ret = (if erase then nvs_init2_ret b else nvs_init_ret b)
      in if erase \<and> nvs_erase_ret b \<noteq> ESP_OK then None
         else if ret \<noteq> ESP_OK then None
         else if coproc_init_ret b \<noteq> ESP_OK then None
         else if reapply_on_ready b \<and> evt_register_ret b \<noteq> ESP_OK then None
         else
           let (err, s) = slave_phy_apply env ch slave_init
           in if err \<noteq> ESP_OK then None
              else Some (s, register_all_handlers t))"

subsection \<open>Dispatch\<close>

text \<open>A custom message through \<open>handle_custom_rpc_request\<close>: the callback found is run.\<close>

definition slave_rx :: "phy_env \<Rightarrow> slave_table \<Rightarrow> u32 \<Rightarrow> byte list \<Rightarrow> slave \<Rightarrow> esp_err \<times> slave" where
  "slave_rx env t mid data s =
     (case handle_custom_rpc_request good_rtos t mid data of
        (e, Some (h, _, d, _)) \<Rightarrow> (e, h env d s)
      | (e, None) \<Rightarrow> (e, s))"

definition slave_tables :: "(u32 \<times> handler) list" where
  "slave_tables = phy_rpc_handlers_table @ phy_rpc_extras_table @ phy_rpc_wireless_table"

subsection \<open>The tables together\<close>

lemmas table_defs = phy_rpc_handlers_table_def phy_rpc_extras_table_def phy_rpc_wireless_table_def

lemma reg_all_append: "reg_all reg t (xs @ ys) = reg_all reg (reg_all reg t xs) ys"
  by (induction reg t xs rule: reg_all.induct) simp_all

lemma register_all_eq: "register_all_handlers t = reg_all slave_register t slave_tables"
  by (simp add: register_all_handlers_def slave_tables_def phy_rpc_handlers_register_def
      phy_rpc_extras_register_def phy_rpc_wireless_register_def reg_all_append)

lemma length_slave_tables: "length slave_tables = 47"
  by (simp add: slave_tables_def table_defs)

lemma distinct_slave_tables: "distinct (map fst slave_tables)"
  by (simp add: slave_tables_def table_defs)

lemma slave_tables_no_sentinel: "CB_NONE \<notin> fst ` set slave_tables"
  by (auto simp: slave_tables_def table_defs CB_NONE_def)

lemma tables_serve:
  "good_env env \<Longrightarrow> (m, h) \<in> set slave_tables \<Longrightarrow> \<exists>r. m = PHY_RPC_REQ r \<and> serves env r h"
  using handlers_serve extras_serve wireless_serve by (auto simp: slave_tables_def)

abbreviation slave_map :: "nat \<Rightarrow> u32 \<Rightarrow> (handler \<times> unit option) option" where
  "slave_map n \<equiv> cbs_map (take n slave_tables)"

lemma slave_table_lookup:
  "cb_inv (register_all_handlers (cb_init n)) \<and>
   cb_lookup (register_all_handlers (cb_init n)) = slave_map n"
proof -
  have "slave_cb.fresh_ids (cb_init n :: slave_table) slave_tables"
    using distinct_slave_tables slave_tables_no_sentinel by (simp add: slave_cb.fresh_ids_def)
  from slave_cb.reg_all_fresh [OF cb_inv_init this]
  show ?thesis by (simp add: register_all_eq)
qed

lemma reg_all_mutex:
  "ct_mutex t \<Longrightarrow> CB_NONE \<notin> fst ` set xs \<Longrightarrow> ct_mutex (reg_all slave_register t xs)"
  by (induction xs arbitrary: t) (auto simp: slave_register_mutex)

lemma slave_table_mutex: "ct_mutex (register_all_handlers t)"
proof -
  obtain p xs where xs: "slave_tables = p # xs" by (simp add: slave_tables_def table_defs)
  have "fst p \<noteq> CB_NONE" "CB_NONE \<notin> fst ` set xs" 
    using slave_tables_no_sentinel unfolding xs by auto
  then show ?thesis
    by (cases p) (simp add: register_all_eq xs reg_all_mutex slave_register_mutex)
qed

lemma slave_rx_lookup:
  assumes "mid \<noteq> CB_NONE"
  shows "slave_rx env (register_all_handlers (cb_init n)) mid data s =
    (case slave_map n mid of
       None \<Rightarrow> (ESP_ERR_NOT_FOUND, s)
     | Some (h, _) \<Rightarrow> (ESP_OK, h env data s))"
  unfolding slave_rx_def dispatch_good [OF conjunct1 [OF slave_table_lookup] slave_table_mutex assms]
    conjunct2 [OF slave_table_lookup]
  by (simp split: option.splits)

lemma distinct_take_drop:
  assumes "distinct (map fst xs)" "(m, h) \<in> set (drop n xs)"
  shows "m \<notin> fst ` set (take n xs)"
proof -
  have "distinct (map fst (take n xs) @ map fst (drop n xs))"
    using assms(1) by (simp flip: map_append)
  moreover have "m \<in> set (map fst (drop n xs))" using assms(2) by force
  ultimately show ?thesis by (auto simp only: distinct_append set_map disjoint_iff)
qed

lemma slave_rx_in:
  assumes "(m, h) \<in> set (take n slave_tables)"
  shows "slave_rx env (register_all_handlers (cb_init n)) m data s = (ESP_OK, h env data s)"
proof -
  have "distinct (map fst (take n slave_tables))"
    using distinct_take [OF distinct_slave_tables, of n] by (simp add: take_map)
  moreover have "m \<noteq> CB_NONE"
    using slave_tables_no_sentinel assms by (force dest: in_set_takeD)
  ultimately show ?thesis using assms by (simp add: slave_rx_lookup cbs_map_in)
qed

lemma slave_rx_out:
  assumes "m \<notin> fst ` set (take n slave_tables)" "m \<noteq> CB_NONE"
  shows "slave_rx env (register_all_handlers (cb_init n)) m data s = (ESP_ERR_NOT_FOUND, s)"
proof -
  have "m \<notin> dom (slave_map n)" using assms(1) by (simp only: dom_cbs_map) simp
  then have "slave_map n m = None" by (simp only: domIff not_not)
  with assms(2) show ?thesis by (simp add: slave_rx_lookup)
qed

lemma get_caps_exact:
  "has_cap (get_caps env) r \<longleftrightarrow>
     (r, True) \<in> set (handlers_marks env @ extras_marks @ espnow_marks) \<or>
     resolved env esp_ieee802154_enable \<and> (r, True) \<in> set i154_marks"
proof -
  have len: "length (mark_all extras_marks (mark_all (handlers_marks env) zero_caps)) = PHY_RPC_CAPS_BYTES"
    "length (mark_all (handlers_marks env) zero_caps) = PHY_RPC_CAPS_BYTES"
    "length zero_caps = PHY_RPC_CAPS_BYTES"
    by (simp_all add: zero_caps_def)
  show ?thesis
    using len by (simp add: get_caps_def phy_rpc_extras_fill_caps_def phy_rpc_wireless_fill_caps_def
        Let_def has_cap_mark_all)
qed

subsection \<open>Properties\<close>

text \<open>A chip without any weak symbol, whose API calls all succeed; used in the witnesses.\<close>

definition bare_env :: phy_env where
  "bare_env = \<lparr>resolved = (\<lambda>_. False), api_ret = (\<lambda>_ _. 0), heap_ok = (\<lambda>_. True), queue_ok = True\<rparr>"

lemma bare_env_heap: "good_env bare_env"
  using st_ok_errs(1) by (simp add: bare_env_def ESP_OK_def)

lemma sent_init: "sent slave_init = []"
  by (simp add: slave_init_def)

text \<open>C2: Every one of the 47 PHY request handlers answers each well-formed request with exactly
  one message, under the response id that belongs to the request id it is registered for and with
  the request's \<open>op_id\<close>; a message shorter than the request structure changes nothing.\<close>

theorem every_handler_answers_once:
  assumes "good_env env" "(m, h) \<in> set slave_tables"
  shows "\<exists>r. m = PHY_RPC_REQ r \<and>
    (\<forall>data s. if length data < sizeof_req r then h env data s = s
       else \<exists>st body. st_ok st \<and> sent (h env data s)
              = sent s @ [le_put 4 (PHY_RPC_RESP r) @ resp_hdr (hdr_op_id data) st @ body])"
  using tables_serve [OF assms] by (simp only: serves_def resp_buf_def)

lemma every_handler_answers_once_witness:
  "\<exists>st body. st_ok st \<and> sent (on_get_info bare_env [7, 0, 0, 0] slave_init)
     = [le_put 4 (PHY_RPC_RESP GET_INFO) @ resp_hdr 7 st @ body]"
proof -
  have mem: "(PHY_RPC_REQ GET_INFO, on_get_info) \<in> set slave_tables"
    by (simp add: slave_tables_def phy_rpc_handlers_table_def)
  have op: "hdr_op_id [7, 0, 0, 0] = 7" by code_simp
  from every_handler_answers_once [OF bare_env_heap mem]
  show ?thesis
  proof (elim exE conjE)
    fix r
    assume r: "PHY_RPC_REQ GET_INFO = PHY_RPC_REQ r" and
      ans: "\<forall>data s. if length data < sizeof_req r then on_get_info bare_env data s = s
       else \<exists>st body. st_ok st \<and> sent (on_get_info bare_env data s)
              = sent s @ [le_put 4 (PHY_RPC_RESP r) @ resp_hdr (hdr_op_id data) st @ body]"
    have "r = GET_INFO" using r by simp
    moreover have "\<not> length [7 :: byte, 0, 0, 0] < sizeof_req GET_INFO" by code_simp
    ultimately show ?thesis
      using ans [THEN spec, THEN spec, of "[7, 0, 0, 0]" slave_init]
      by (simp only: op sent_init if_False append_Nil)
  qed
qed

text \<open>What a co-processor with \<open>n\<close> callback slots serves after start-up: the first \<open>n\<close> of
  the 47 handlers, in registration order; every other PHY request is answered by nothing and
  reported \<open>ESP_ERR_NOT_FOUND\<close> to the caller of the dispatcher.\<close>

theorem slots_decide_service:
  assumes "(m, h) \<in> set slave_tables"
  shows "slave_rx env (register_all_handlers (cb_init n)) m data s =
    (if (m, h) \<in> set (take n slave_tables) then (ESP_OK, h env data s) else (ESP_ERR_NOT_FOUND, s))"
proof (cases "(m, h) \<in> set (take n slave_tables)")
  case True
  then show ?thesis by (simp add: slave_rx_in)
next
  case False
  have "(m, h) \<in> set (take n slave_tables @ drop n slave_tables)" using assms by simp
  then have d: "(m, h) \<in> set (drop n slave_tables)" using False by (simp del: append_take_drop_id)
  have "m \<noteq> CB_NONE" using slave_tables_no_sentinel assms by force
  then show ?thesis
    using slave_rx_out [OF distinct_take_drop [OF distinct_slave_tables d]] False by simp
qed

lemma slots_decide_service_witness:
  "slave_rx bare_env (register_all_handlers (cb_init 16)) (PHY_RPC_REQ GET_CAPS) [1, 0, 0, 0] slave_init
     = (ESP_ERR_NOT_FOUND, slave_init)"
  using slots_decide_service [of "PHY_RPC_REQ GET_CAPS" on_get_caps bare_env 16]
  by (simp add: slave_tables_def table_defs)

text \<open>GET_CAPS predicts the outcome of the requests that only need a symbol: such a request is
  answered \<open>ESP_OK\<close> when its capability bit is set and \<open>ESP_ERR_NOT_SUPPORTED\<close> when it is not.\<close>

theorem caps_predict_status:
  assumes "good_env env" "(PHY_RPC_REQ r, h) \<in> set slave_tables" "\<not> length data < sizeof_req r"
    and "r \<in> {SET_FREQ, SET_BAND, SET_CHAN_FILT, SET_CHAN14_MIC, SET_RATE, SET_MOST_TPW,
      GET_MOST_TPW, RESET_RX_GAIN_TBL, GET_NOISE_FLOOR, GET_TEMPERATURE, SET_CSI_DUMP,
      SET_LOOPBACK, SET_BT_TX_GAIN, SET_BT_FILTER, SET_AGC_MAX_GAIN, GET_CCA_COUNTERS,
      RESET_CCA_COUNT}"
  shows "\<exists>body. sent (h env data s) = sent s @ [resp_buf r (hdr_op_id data)
    (if has_cap (get_caps env) r then ESP_OK else ESP_ERR_NOT_SUPPORTED) body]"
proof -
  note good = simple_resp_good [OF assms(1)] body_resp_good [OF assms(1)]
  have cap: "has_cap (get_caps env) r \<longleftrightarrow> (r, True) \<in> set (handlers_marks env)"
    using assms(4) by (auto simp: get_caps_exact extras_marks_def espnow_marks_def i154_marks_def)
  show ?thesis
    using assms(4,2,3) unfolding cap slave_tables_def table_defs
    by (elim insertE; simp add: handlers_marks_def handler_defs serve_simps slave_step good hook_opt_def;
        (blast | auto)?)
qed

lemma caps_predict_status_witness:
  "\<exists>body. sent (on_set_freq bare_env [7, 0, 0, 0, 0, 0, 0, 0] slave_init)
     = [resp_buf SET_FREQ 7 ESP_ERR_NOT_SUPPORTED body]"
proof -
  have m: "(PHY_RPC_REQ SET_FREQ, on_set_freq) \<in> set slave_tables"
    by (simp add: slave_tables_def phy_rpc_handlers_table_def)
  have l: "\<not> length [7 :: byte, 0, 0, 0, 0, 0, 0, 0] < sizeof_req SET_FREQ" by code_simp
  have op: "hdr_op_id [7, 0, 0, 0, 0, 0, 0, 0] = 7" by code_simp
  have c: "\<not> has_cap (get_caps bare_env) SET_FREQ"
    by (simp add: get_caps_exact handlers_marks_def extras_marks_def espnow_marks_def bare_env_def)
  show ?thesis
    using caps_predict_status [OF bare_env_heap m l, of slave_init] c op by (simp add: sent_init)
qed

text \<open>
  Outside that list the bits are only an approximation: SET_CCA tests the symbol that disables
  CCA, so enabling it can fail although the bit is set.
\<close>

lemma set_cca_cap_gap:
  assumes "good_env env" "resolved env phy_disable_cca" "\<not> resolved env phy_enable_cca"
    "\<not> length data < sizeof_req SET_CCA" "body_u8 data \<noteq> 0"
  shows "has_cap (get_caps env) SET_CCA"
    "sent (on_set_cca env data s) = sent s @ [resp_buf SET_CCA (hdr_op_id data) ESP_ERR_NOT_SUPPORTED []]"
  using assms
  by (auto simp: get_caps_exact handlers_marks_def on_set_cca_def serve_simps slave_step
      simple_resp_good esp_errs)

end
