(* ===== verification/Phy_EndToEnd.thy ===== *)
theory Phy_EndToEnd
  imports Phy_Calls Phy_Slave
begin

unbundle bit_operations_syntax

section \<open>Host and co-processor together\<close>

text \<open>
  A call of the host library carried to the co-processor's handlers and its answer back: the
  request goes through the co-processor's callback table, what the handler queues is unpacked
  by the custom-RPC event and delivered to \<open>on_response\<close>. The RPC layer below (vendored) is a
  reliable link here: it hands over every message once and in order and returns the
  co-processor's dispatch status.
\<close>

definition slave_link :: "phy_env \<Rightarrow> slave_table \<Rightarrow> slave \<Rightarrow> net" where
  "slave_link env t s req buf =
     (let (e, s') = slave_rx env t req buf s
      in (e, map rpc_evt_custom_rpc (drop (length (sent s)) (sent s'))))"

definition linked :: "phy_env \<Rightarrow> nat \<Rightarrow> slave \<Rightarrow> link" where
  "linked env n s = \<lparr>l_malloc = (\<lambda>_. True),
     l_net = slave_link env (register_all_handlers (cb_init n)) s\<rparr>"

text \<open>The co-processor's state after it served the host's next request.\<close>

definition slave_after :: "phy_env \<Rightarrow> nat \<Rightarrow> slave \<Rightarrow> phy_rpc \<Rightarrow> host \<Rightarrow> byte list \<Rightarrow> slave" where
  "slave_after env n s r h body =
     snd (slave_rx env (register_all_handlers (cb_init n)) (PHY_RPC_REQ r)
            (le_put 4 (h_next_op h) @ body) s)"

text \<open>A host between calls: initialised, no slot in use, no token left behind.\<close>

definition host_ready :: "host \<Rightarrow> bool" where
  "host_ready h \<longleftrightarrow> h_mutex h \<and> h_slots h \<noteq> [] \<and> (\<forall>f \<in> set (h_slots h). \<not> fl_in_use f \<and> \<not> fl_done f)"

lemma rpc_evt_resp_buf [simp]:
  "rpc_evt_custom_rpc (resp_buf r op st body) = (PHY_RPC_RESP r, resp_hdr op st @ body)"
  using length_resp_hdr [of op st]
  by (auto simp: rpc_evt_custom_rpc_def resp_buf_def simp del: length_resp_hdr)

lemma resp_hdr_drop [simp]: "drop sizeof_resp_hdr (resp_hdr op st @ body) = body"
  by (simp add: sizeof_resp_hdr_def)

subsection \<open>One round trip\<close>

text \<open>What the caller's buffer receives of a body \<open>rb\<close>.\<close>

definition reply_out :: "byte list option \<Rightarrow> nat \<Rightarrow> byte list \<Rightarrow> byte list option" where
  "reply_out out cap rb = (if rb = [] then out else map_option (\<lambda>b. overwrite b (take cap rb)) out)"

lemma call_roundtrip:
  assumes ready: "host_ready h" and mem: "(PHY_RPC_REQ r, hnd) \<in> set (take n slave_tables)"
    and ans: "sent (hnd env (le_put 4 (h_next_op h) @ body) s) = sent s @ [resp_buf r (h_next_op h) st rb]"
    and st: "- (2 ^ 31) \<le> st" "st < 2 ^ 31"
  shows "\<exists>c h'. do_call (l_malloc (linked env n s)) (l_net (linked env n s))
      (PHY_RPC_REQ r) (PHY_RPC_RESP r) body out cap h = Some (c, h') \<and>
    cr_err c = st \<and> cr_out c = reply_out out cap rb \<and>
    host_ready h' \<and> h_next_op h' = h_next_op h + 1"
proof -
  obtain f fs where hs: "h_slots h = f # fs" "\<not> fl_in_use f" "\<not> fl_done f" "h_mutex h"
    and fs: "\<forall>g \<in> set fs. \<not> fl_in_use g \<and> \<not> fl_done g"
    using ready by (cases "h_slots h") (auto simp: host_ready_def)
  let ?op = "h_next_op h"
  let ?resp = "PHY_RPC_RESP r"
  let ?f = "claim ?op ?resp out cap f"
  let ?h = "h\<lparr>h_slots := ?f # fs, h_next_op := ?op + 1\<rparr>"
  let ?data = "resp_hdr ?op st @ rb"
  have res: "reserve ?resp out cap h = Some (0, ?op, ?h)"
    using hs by (simp add: reserve_def upd_slot_def)
  have net: "slave_link env (register_all_handlers (cb_init n)) s (PHY_RPC_REQ r) (le_put 4 ?op @ body)
      = (ESP_OK, [(?resp, ?data)])"
    using slave_rx_in [OF mem] ans by (simp add: slave_link_def)
  have aw: "awaits ?op ?resp ?f" by (simp add: awaits_def claim_def)
  have del: "deliver [(?resp, ?data)] ?h = Some (?h\<lparr>h_slots := store_response ?data ?f # fs\<rparr>)"
    using aw hs by (simp add: on_response_def sizeof_resp_hdr_def upd_slot_def)
  have sr: "fl_done (store_response ?data ?f)" "fl_status (store_response ?data ?f) = st"
    "fl_out (store_response ?data ?f) = reply_out out cap rb" "fl_in_use (store_response ?data ?f)"
    using st resp_hdr_status [of st ?op rb]
    by (auto simp: store_response_def Let_def claim_def reply_out_def sizeof_resp_hdr_def min_def
        split: option.splits)
  show ?thesis
    using res net del sr hs fs
    by (auto simp: do_call_def linked_def collect_def release_def upd_slot_def host_ready_def Let_def)
qed

text \<open>From here on the co-processor has room for all 47 handlers.\<close>

abbreviation full :: "phy_env \<Rightarrow> slave \<Rightarrow> link" where
  "full env s \<equiv> linked env 47 s"

lemma take_47 [simp]: "take 47 slave_tables = slave_tables"
  using length_slave_tables by simp

lemma call_body_roundtrip:
  assumes "host_ready h" "(PHY_RPC_REQ r, hnd) \<in> set slave_tables"
    and "sent (hnd env (le_put 4 (h_next_op h) @ body) s) = sent s @ [resp_buf r (h_next_op h) st rb]"
    and "- (2 ^ 31) \<le> st" "st < 2 ^ 31"
  shows "(\<exists>h'. call_body (full env s) r body h = Some (st, (), h') \<and> host_ready h') \<and>
    slave_after env 47 s r h body = hnd env (le_put 4 (h_next_op h) @ body) s"
  using call_roundtrip [of h r hnd 47 env body s st rb None 0] slave_rx_in [of "PHY_RPC_REQ r" hnd 47 env] assms
  by (auto simp: call_body_def slave_after_def)

lemma call_reply_roundtrip:
  assumes "host_ready h" "(PHY_RPC_REQ r, hnd) \<in> set slave_tables"
    and "sent (hnd env (le_put 4 (h_next_op h)) s) = sent s @ [resp_buf r (h_next_op h) ESP_OK rb]"
    and "rb \<noteq> []" "length rb = length buf" "cap = length buf"
  shows "\<exists>h'. call_reply (full env s) r buf cap dec h = Some (ESP_OK, Some (dec rb), h') \<and> host_ready h'"
  using call_roundtrip [of h r hnd 47 env "[]" s ESP_OK rb "Some buf" cap] assms
  by (auto simp: call_reply_def reply_out_def overwrite_def ESP_OK_def)

subsection \<open>Reading a request back\<close>

lemma length_req_msg [simp]: "length (le_put 4 (op :: u32) @ body) = 4 + length body"
  by simp

lemma req_reads [simp]:
  "hdr_op_id (le_put 4 op @ body) = op"
  "hdr_op_id (le_put 4 op) = op"
  "body_u8 (le_put 4 (op :: u32) @ v # xs) = v"
  "body_u16 (le_put 4 (op :: u32) @ le_put 2 w2) = w2"
  "body_u32 (le_put 4 (op :: u32) @ le_put 4 w4) = w4"
  "body_u64 (le_put 4 (op :: u32) @ le_put 8 w8) = w8"
  by (simp_all add: hdr_op_id_def body_u8_def body_u16_def body_u32_def body_u64_def rd_skip)

lemma drop_req [simp]:
  "4 \<le> k \<Longrightarrow> drop k (le_put 4 (op :: u32) @ body) = drop (k - 4) body"
  by simp

lemma rd_req [simp]:
  "4 \<le> k \<Longrightarrow> rd8 k (le_put 4 (op :: u32) @ body) = rd8 (k - 4) body"
  "4 \<le> k \<Longrightarrow> rd16 k (le_put 4 (op :: u32) @ body) = rd16 (k - 4) body"
  by (simp_all add: rd_skip)

lemma host_up_ready: "host_ready host_up"
  by (simp add: host_up_def host_ready_def host_boot_def empty_fl_def MAX_INFLIGHT_def)

subsection \<open>Properties\<close>



lemma fw_field: "length fw_version = 32" "take 32 fw_version = fw_version" "fw_version[31 := 0] = fw_version"
  by code_simp+

text \<open>GET_INFO returns the co-processor's state as it is: channel, transmit power, the three flags,
  the gain limit and the zero-terminated version string.\<close>

theorem get_info_end_to_end:
  assumes "host_ready h" "good_env env" "length junk = 40"
    and "-128 \<le> i_tx_power_dbm (s_state s)" "i_tx_power_dbm (s_state s) \<le> 127"
  shows "\<exists>h'. esp_hosted_open_get_info (full env s) True junk h = Some (ESP_OK, Some
    \<lparr>oi_channel = i_channel (s_state s), oi_tx_power_dbm = i_tx_power_dbm (s_state s),
     oi_phy_11p_armed = (i_phy_11p_armed (s_state s) \<noteq> 0), oi_cca_enabled = (i_cca_enabled (s_state s) \<noteq> 0),
     oi_low_rate_enabled = (i_low_rate_enabled (s_state s) \<noteq> 0), oi_agc_max_gain = i_agc_max_gain (s_state s),
     oi_fw_version = fw_version\<rparr>, h') \<and> host_ready h'"
proof -
  have m: "(PHY_RPC_REQ GET_INFO, on_get_info) \<in> set slave_tables"
    by (simp add: slave_tables_def phy_rpc_handlers_table_def)
  have a: "sent (on_get_info env (le_put 4 (h_next_op h)) s)
      = sent s @ [resp_buf GET_INFO (h_next_op h) ESP_OK (info_body (s_state s))]"
    using body_resp_good [OF assms(2)] by (simp add: on_get_info_def unpack_def sizeof_req_def)
  have ne: "info_body (s_state s) \<noteq> []" by (simp add: info_body_def)
  have dec: "decode_info (info_body (s_state s)) =
    \<lparr>oi_channel = i_channel (s_state s), oi_tx_power_dbm = i_tx_power_dbm (s_state s),
     oi_phy_11p_armed = (i_phy_11p_armed (s_state s) \<noteq> 0), oi_cca_enabled = (i_cca_enabled (s_state s) \<noteq> 0),
     oi_low_rate_enabled = (i_low_rate_enabled (s_state s) \<noteq> 0), oi_agc_max_gain = i_agc_max_gain (s_state s),
     oi_fw_version = fw_version\<rparr>"
    using int8_id [OF assms(4,5)] fw_field
    unfolding decode_info_def info_body_def
    by (simp add: rd8_def int8_def del: drop_append take_append)
  show ?thesis
    using call_reply_roundtrip [OF assms(1) m a ne _ assms(3) [symmetric], of decode_info]
    by (simp add: esp_hosted_open_get_info_def dec assms(3))
qed

lemma get_info_end_to_end_witness:
  "\<exists>i h'. esp_hosted_open_get_info (full bare_env slave_init) True (replicate 40 0xAA) host_up
     = Some (ESP_OK, Some i, h') \<and> oi_channel i = 180 \<and> oi_tx_power_dbm i = 20"
  using get_info_end_to_end [OF host_up_ready bare_env_heap, of "replicate 40 0xAA" slave_init]
  by (auto simp: slave_init_def s_state_init_def)



lemma ucast_rd16_len: "n \<le> 255 \<Longrightarrow> (ucast (rd16 0 (word_of_nat n # 0 # xs)) :: byte) = word_of_nat n"
  using of_nat_unat [of "rd16 0 (word_of_nat n # 0 # xs)", where 'a = byte] by (simp add: rd16_len)

lemma frames_parts:
  assumes "host_ready h" "good_env env" "length m = 6"
  shows "d \<noteq> [] \<Longrightarrow> length d \<le> 250 \<Longrightarrow>
      calls (slave_after env 47 s ESPNOW_SEND h (espnow_send_body m d)) = calls s @ [Now_send m d]"
    "f \<noteq> [] \<Longrightarrow> length f \<le> 127 \<Longrightarrow> resolved env esp_ieee802154_transmit \<Longrightarrow>
      calls (slave_after env 47 s IEEE154_TX_RAW h (tx_raw_body f cca))
        = calls s @ [I154_transmit (word_of_nat (length f) # f) cca]"
proof -
  have op: "hdr_op_id (le_put 4 (h_next_op h) @ b) = h_next_op h" for b by simp
  show "calls (slave_after env 47 s ESPNOW_SEND h (espnow_send_body m d)) = calls s @ [Now_send m d]"
    if d: "d \<noteq> []" "length d \<le> 250"
  proof -
    have mem: "(PHY_RPC_REQ ESPNOW_SEND, on_espnow_send) \<in> set (take 47 slave_tables)"
      unfolding take_47 by (simp add: slave_tables_def phy_rpc_wireless_table_def)
    show ?thesis
      using d assms(3)
      by (simp add: slave_after_def slave_rx_in [OF mem] on_espnow_send_def unpack_def sizeof_req_def
          espnow_send_body_def view_espnow_send_def op Let_def rd_skip rd16_len
          api_def case_prod_beta simple_resp_good [OF assms(2)])
  qed
  show "calls (slave_after env 47 s IEEE154_TX_RAW h (tx_raw_body f cca))
        = calls s @ [I154_transmit (word_of_nat (length f) # f) cca]"
    if f: "f \<noteq> []" "length f \<le> 127" "resolved env esp_ieee802154_transmit"
  proof -
    have mem: "(PHY_RPC_REQ IEEE154_TX_RAW, on_i154_tx_raw) \<in> set (take 47 slave_tables)"
      unfolding take_47 by (simp add: slave_tables_def phy_rpc_wireless_table_def)
    show ?thesis
      using f
      by (simp add: slave_after_def slave_rx_in [OF mem] on_i154_tx_raw_def unpack_def sizeof_req_def
          tx_raw_body_def view_tx_raw_def op Let_def rd_skip rd_skip_Cons rd16_len
          ucast_rd16_len api_def case_prod_beta simple_resp_good [OF assms(2)] bool_byte_def)
  qed
qed

text \<open>ESP-NOW sending and 802.15.4 raw sending deliver what the application gave: the radio call
  on the co-processor gets the peer address and the frame unchanged (behind the length byte for
  802.15.4).\<close>

theorem frames_arrive_intact:
  assumes "host_ready h" "good_env env" "length m = 6"
  shows "(d \<noteq> [] \<and> length d \<le> 250 \<longrightarrow>
      calls (slave_after env 47 s ESPNOW_SEND h (espnow_send_body m d)) = calls s @ [Now_send m d]) \<and>
    (f \<noteq> [] \<and> length f \<le> 127 \<and> resolved env esp_ieee802154_transmit \<longrightarrow>
      calls (slave_after env 47 s IEEE154_TX_RAW h (tx_raw_body f cca))
        = calls s @ [I154_transmit (word_of_nat (length f) # f) cca])"
  using frames_parts [OF assms] by blast

lemma frames_arrive_intact_witness:
  "calls (slave_after bare_env 47 slave_init ESPNOW_SEND host_up (espnow_send_body [1, 2, 3, 4, 5, 6] [7, 8]))
     = [Now_send [1, 2, 3, 4, 5, 6] [7, 8]]"
  using frames_arrive_intact [OF host_up_ready bare_env_heap, of "[1, 2, 3, 4, 5, 6]" "[7, 8]" slave_init "[1]"]
  by (simp add: slave_init_def)

text \<open>C29: Raw 802.11 transmission does not deliver the frame. The host puts two more zero bytes
  between the length and the frame than the co-processor's structure has, so for every frame the
  radio gets two zero bytes followed by the frame without its last two bytes.\<close>

theorem tx_80211_shifts_frame:
  assumes "host_ready h" "good_env env" "f \<noteq> []" "length f \<le> 1500"
  shows "calls (slave_after env 47 s TX_80211 h (tx_80211_body wifi_if f en))
    = calls s @ [Wifi_80211_tx (iface_of wifi_if) (take (length f) ([0, 0] @ f)) en]"
proof -
  have mem: "(PHY_RPC_REQ TX_80211, on_tx_80211) \<in> set (take 47 slave_tables)"
    unfolding take_47 by (simp add: slave_tables_def phy_rpc_extras_table_def)
  have op: "hdr_op_id (le_put 4 (h_next_op h) @ b) = h_next_op h" for b by simp
  have n: "unat (rd16 0 (word_of_nat (length f mod 256) # word_of_nat (length f div 256 mod 256) # 0 # 0 # f))
      = length f"
    using assms(4) by (intro rd16_len16) simp
  show ?thesis
    using n assms(3,4)
    by (simp add: slave_after_def slave_rx_in [OF mem] on_tx_80211_def unpack_def sizeof_req_def
        tx_80211_body_def view_tx_80211_def op Let_def rd_skip rd_skip_Cons
        api_def case_prod_beta simple_resp_good [OF assms(2)] bool_byte_def)
qed

lemma tx_80211_shifts_frame_witness:
  "calls (slave_after bare_env 47 slave_init TX_80211 host_up (tx_80211_body 0 [0x80, 0, 1, 2, 3] True))
     = [Wifi_80211_tx WIFI_IF_STA [0, 0, 0x80, 0, 1] True]"
  using tx_80211_shifts_frame [OF host_up_ready bare_env_heap, of "[0x80, 0, 1, 2, 3]" slave_init 0 True]
  by (simp add: slave_init_def iface_of_def)

text \<open>The transmit-power request. For -32 to 31 dBm the radio gets four times the value, clamped to
  8..84 quarter dBm, and the state then reports the value asked for; the product wraps outside that
  range, so that for instance 32 dBm sets the minimum and -40 dBm the maximum.\<close>

theorem tx_power_clamped_until_wrap:
  "(-32 \<le> dbm \<and> dbm \<le> 31 \<longrightarrow> quarter_dbm dbm = max 8 (min 84 (4 * dbm))) \<and>
    quarter_dbm dbm \<in> {8..84} \<and> quarter_dbm 32 = 8 \<and> quarter_dbm (-40) = 84"
proof -
  have "quarter_dbm dbm = max 8 (min 84 (4 * dbm))" if "-32 \<le> dbm" "dbm \<le> 31"
    using that int8_id [of "dbm * 4"] by (simp add: quarter_dbm_def Let_def)
  moreover have "quarter_dbm dbm \<in> {8..84}" by (simp add: quarter_dbm_def Let_def)
  moreover have "quarter_dbm 32 = 8" "quarter_dbm (-40) = 84" by code_simp+
  ultimately show ?thesis by blast
qed

lemma tx_power_clamped_until_wrap_witness: "quarter_dbm 10 = 40"
  using tx_power_clamped_until_wrap [of 10] by simp

text \<open>SET_CHANNEL on the co-processor: the permissive country and the bootstrap channel 140 are set
  first; only when that succeeds is the PHY tuned to the requested channel and the channel recorded
  (so that GET_INFO reports it), and the host gets the status of the bootstrap call.\<close>

theorem set_channel_end_to_end:
  fixes s :: slave
  assumes "host_ready h" "good_env env"
  defines "e \<equiv> api_ret env (calls s @ [Set_country_permissive]) (Wifi_set_channel 140)"
  shows "(\<exists>h'. esp_hosted_open_set_channel (full env s) ch h = Some (e, (), h') \<and> host_ready h') \<and>
    (let s' = slave_after env 47 s SET_CHANNEL h [ch] in
     if e = ESP_OK
     then calls s' = calls s @ [Set_country_permissive, Wifi_set_channel 140,
            Phy phy_change_channel [uint ch, 1, 0, 0]] \<and> i_channel (s_state s') = ch
     else calls s' = calls s @ [Set_country_permissive, Wifi_set_channel 140] \<and> s_state s' = s_state s)"
proof -
  have mem: "(PHY_RPC_REQ SET_CHANNEL, on_set_channel) \<in> set slave_tables"
    by (simp add: slave_tables_def phy_rpc_handlers_table_def)
  let ?d = "le_put 4 (h_next_op h) @ [ch]"
  have run: "on_set_channel env ?d s = (if e = ESP_OK
      then s\<lparr>calls := calls s @ [Set_country_permissive, Wifi_set_channel 140, Phy phy_change_channel [uint ch, 1, 0, 0]],
             s_state := (s_state s)\<lparr>i_channel := ch\<rparr>,
             sent := sent s @ [resp_buf SET_CHANNEL (h_next_op h) e []]\<rparr>
      else s\<lparr>calls := calls s @ [Set_country_permissive, Wifi_set_channel 140],
             sent := sent s @ [resp_buf SET_CHANNEL (h_next_op h) e []]\<rparr>)"
    by (simp add: on_set_channel_def unpack_def sizeof_req_def Let_def api_def api_do_def phy_def
        e_def simple_resp_good [OF assms(2)])
  have st: "- (2 ^ 31) \<le> e" "e < 2 ^ 31" using assms(2) by (simp_all add: e_def st_ok_def)
  have a: "sent (on_set_channel env ?d s) = sent s @ [resp_buf SET_CHANNEL (h_next_op h) e []]"
    using run by simp
  show ?thesis
    using call_body_roundtrip [OF assms(1) mem a st] run
    by (simp add: esp_hosted_open_set_channel_def one_byte_req_def Let_def)
qed

lemma set_channel_end_to_end_witness:
  "i_channel (s_state (slave_after bare_env 47 slave_init SET_CHANNEL host_up [172])) = 172"
  using set_channel_end_to_end [OF host_up_ready bare_env_heap, of slave_init 172]
  by (simp add: bare_env_def ESP_OK_def Let_def)

text \<open>Reading an event back.\<close>

lemma rd_here_Cons [wire]: "rd8 0 (x # xs) = x"
  by (simp add: rd8_def)

lemma len16: "n < 65536 \<Longrightarrow> unat (word_of_nat n :: u16) = n"
  by (simp add: unsigned_of_nat take_bit_nat_eq_self)

lemma rssi_byte: "-128 \<le> x \<Longrightarrow> x \<le> 127 \<Longrightarrow> sint (word_of_int x :: byte) = x"
  using int8_id [of x] by (simp add: int8_def)

lemma rd_mac [wire]:
  "length m = 6 \<Longrightarrow> 6 \<le> k \<Longrightarrow> rd8 k (m @ xs) = rd8 (k - 6) xs"
  "length m = 6 \<Longrightarrow> 6 \<le> k \<Longrightarrow> rd16 k (m @ xs) = rd16 (k - 6) xs"
  "length m = 6 \<Longrightarrow> 6 \<le> k \<Longrightarrow> rd32 k (m @ xs) = rd32 (k - 6) xs"
  by (simp_all add: rd_skip)

text \<open>The capture path. A frame the promiscuous callback accepts into an empty queue and the
  forwarding task then sends reaches the application's callback on the host with all its bytes and
  its receive data, marked as QoS when it is a data frame whose QoS bit is set.\<close>

theorem captured_frame_reaches_host:
  assumes "good_env env" "s_raw_q s = Some []" "ty \<noteq> WIFI_PKT_MISC"
    and "pp_sig_len p = length (pp_payload p)" "pp_sig_len p \<le> 1600" "pp_payload p \<noteq> []"
    and "-128 \<le> pp_rssi p" "pp_rssi p \<le> 127"
  shows "\<exists>buf. sent (raw_forward_step env (promisc_cb env p ty s)) = sent s @ [buf] \<and>
    fst (rpc_evt_custom_rpc buf) = PHY_RPC_EVT RAW_FRAME \<and>
    on_event_raw True (snd (rpc_evt_custom_rpc buf)) = Some
      \<lparr>rx_frame = pp_payload p, rx_rssi_dbm = pp_rssi p, rx_channel = pp_channel p, rx_rate = pp_rate p,
       rx_is_qos = (ty = WIFI_PKT_DATA \<and> hd (pp_payload p) AND 0x80 \<noteq> 0), rx_timestamp_us = pp_timestamp p\<rparr>"
proof -
  define e where "e = \<lparr>re_rssi_dbm = pp_rssi p, re_channel = pp_channel p, re_rate = pp_rate p,
    re_is_qos = (if ty = WIFI_PKT_DATA \<and> rd8 0 (pp_payload p) AND 0x80 \<noteq> 0 then 1 else 0),
    re_timestamp_us = pp_timestamp p, re_frame = pp_payload p\<rparr>"
  let ?d = "raw_event e"
  have cb: "promisc_cb env p ty s = s\<lparr>s_raw_q := Some [e]\<rparr>"
    using assms by (auto simp: promisc_cb_def Let_def e_def RAW_QUEUE_LEN_def)
  have len: "?d \<noteq> []" "length ?d \<le> 8166" using assms(4,5) by (simp_all add: raw_event_def e_def)
  have fwd: "sent (raw_forward_step env (promisc_cb env p ty s))
      = sent s @ [le_put 4 (PHY_RPC_EVT RAW_FRAME) @ ?d]"
    using assms(1) len by (simp add: cb raw_forward_step_def ship_good)
  have evt: "rpc_evt_custom_rpc (le_put 4 (PHY_RPC_EVT RAW_FRAME) @ ?d) = (PHY_RPC_EVT RAW_FRAME, ?d)"
    using len(1) by (simp add: rpc_evt_custom_rpc_def)
  have n: "unat (word_of_nat (length (pp_payload p)) :: u16) = length (pp_payload p)"
    using assms(4,5) by (intro len16) simp
  have q: "rd8 0 (pp_payload p) = hd (pp_payload p)" using assms(6) by (simp add: rd8_def hd_conv_nth)
  have dec: "on_event_raw True ?d = Some
      \<lparr>rx_frame = pp_payload p, rx_rssi_dbm = pp_rssi p, rx_channel = pp_channel p, rx_rate = pp_rate p,
       rx_is_qos = (ty = WIFI_PKT_DATA \<and> hd (pp_payload p) AND 0x80 \<noteq> 0), rx_timestamp_us = pp_timestamp p\<rparr>"
    using rssi_byte [OF assms(7,8)]
    by (simp add: on_event_raw_def raw_event_def sizeof_evt_def e_def rd_skip_Cons rd_skip n q Let_def)
  show ?thesis using fwd evt dec by auto
qed

lemma captured_frame_reaches_host_witness:
  "\<exists>buf. sent (raw_forward_step bare_env (promisc_cb bare_env
       \<lparr>pp_sig_len = 3, pp_rssi = -60, pp_channel = 6, pp_rate = 11, pp_timestamp = 9, pp_payload = [0x88, 1, 2]\<rparr>
       WIFI_PKT_DATA (slave_init\<lparr>s_raw_q := Some []\<rparr>))) = [buf] \<and>
     (\<exists>m. on_event_raw True (snd (rpc_evt_custom_rpc buf)) = Some m \<and> rx_frame m = [0x88, 1, 2] \<and> rx_is_qos m)"
  using captured_frame_reaches_host [OF bare_env_heap, of "slave_init\<lparr>s_raw_q := Some []\<rparr>" WIFI_PKT_DATA
    "\<lparr>pp_sig_len = 3, pp_rssi = -60, pp_channel = 6, pp_rate = 11, pp_timestamp = 9, pp_payload = [0x88, 1, 2]\<rparr>"]
  by (auto simp: slave_init_def)

lemma events_parts:
  "length (ci_mac info) = 6 \<Longrightarrow> ci_len info = int (length csi) \<Longrightarrow> length csi < 65536 \<Longrightarrow>
     -128 \<le> ci_rssi info \<Longrightarrow> ci_rssi info \<le> 127 \<Longrightarrow>
     on_event_csi True (csi_event info csi) = Some \<lparr>cx_csi = csi, cx_rssi_dbm = ci_rssi info,
       cx_channel = ci_channel info, cx_src_mac = ci_mac info, cx_timestamp_us = ci_timestamp info\<rparr>"
  "length (fr_peer_mac r) = 6 \<Longrightarrow>
     on_event_ftm True (ftm_event r) = Some \<lparr>fx_peer_mac = fr_peer_mac r, fx_status = fr_status r,
       fx_rtt_raw_ps = fr_rtt_raw r, fx_rtt_est_ps = fr_rtt_est r, fx_dist_est_cm = fr_dist_est r\<rparr>"
  "length src = 6 \<Longrightarrow> length dst = 6 \<Longrightarrow> length d \<le> 250 \<Longrightarrow> -128 \<le> rssi \<Longrightarrow> rssi \<le> 127 \<Longrightarrow>
     on_event_espnow_rx True (espnow_rx_event \<lparr>nr_src = src, nr_dst = dst, nr_ctrl = Some (rssi, ch)\<rparr> d)
     = Some \<lparr>nx_data = d, nx_rssi_dbm = rssi, nx_channel = ch, nx_src_mac = src, nx_dst_mac = dst\<rparr>"
  "2 \<le> length f \<Longrightarrow> length f \<le> 127 \<Longrightarrow>
     on_event_ieee154_rx True (i154_rx_event (word_of_nat (length f) # f))
     = Some \<lparr>ix_frame = f, ix_rssi_dbm = 0, ix_lqi = 0, ix_channel = 0, ix_timestamp_us = 0\<rparr>"
proof -
  show "on_event_csi True (csi_event info csi) = Some \<lparr>cx_csi = csi, cx_rssi_dbm = ci_rssi info,
       cx_channel = ci_channel info, cx_src_mac = ci_mac info, cx_timestamp_us = ci_timestamp info\<rparr>"
    if "length (ci_mac info) = 6" "ci_len info = int (length csi)" "length csi < 65536"
      "-128 \<le> ci_rssi info" "ci_rssi info \<le> 127"
    using that rssi_byte [OF that(4,5)] len16 [OF that(3)]
    by (simp add: on_event_csi_def csi_event_def sizeof_evt_def rd_skip_Cons rd_skip Let_def)
  show "on_event_ftm True (ftm_event r) = Some \<lparr>fx_peer_mac = fr_peer_mac r, fx_status = fr_status r,
       fx_rtt_raw_ps = fr_rtt_raw r, fx_rtt_est_ps = fr_rtt_est r, fx_dist_est_cm = fr_dist_est r\<rparr>"
    if "length (fr_peer_mac r) = 6"
    using that by (simp add: on_event_ftm_def ftm_event_def sizeof_evt_def rd_skip_Cons rd_skip)
  show "on_event_espnow_rx True (espnow_rx_event \<lparr>nr_src = src, nr_dst = dst, nr_ctrl = Some (rssi, ch)\<rparr> d)
     = Some \<lparr>nx_data = d, nx_rssi_dbm = rssi, nx_channel = ch, nx_src_mac = src, nx_dst_mac = dst\<rparr>"
    if "length src = 6" "length dst = 6" "length d \<le> 250" "-128 \<le> rssi" "rssi \<le> 127"
    using that rssi_byte [OF that(4,5)] len16 [of "length d"]
    by (simp add: on_event_espnow_rx_def espnow_rx_event_def sizeof_evt_def rd_skip_Cons rd_skip Let_def)
  show "on_event_ieee154_rx True (i154_rx_event (word_of_nat (length f) # f))
     = Some \<lparr>ix_frame = f, ix_rssi_dbm = 0, ix_lqi = 0, ix_channel = 0, ix_timestamp_us = 0\<rparr>"
    if "2 \<le> length f" "length f \<le> 127"
  proof -
    have n: "unat (word_of_nat (length f) :: byte) = length f"
      using that by (simp add: unsigned_of_nat take_bit_nat_eq_self)
    have z: "rd32 (Suc (Suc 0)) [] = 0 \<and> rd32 2 (0 # 0 # 0 # 0 # 0 # 0 # f) = 0"
      by (simp add: rd32_def numeral_eq_Suc)
    show ?thesis
      using that len16 [of "length f"] z n
      by (simp add: on_event_ieee154_rx_def i154_rx_event_def sizeof_evt_def rd_skip_Cons rd_skip Let_def)
  qed
qed

text \<open>The other events arrive as they were sent: what the host's handlers pass to the application for
  a CSI capture, an FTM report, an ESP-NOW frame, an ESP-NOW transmit status and an 802.15.4 frame is what
  the co-processor put into the event.\<close>

theorem events_roundtrip:
  "(length (ci_mac info) = 6 \<and> ci_len info = int (length csi) \<and> length csi < 65536 \<and> -128 \<le> ci_rssi info \<and> ci_rssi info \<le> 127 \<longrightarrow>
     on_event_csi True (csi_event info csi) = Some \<lparr>cx_csi = csi, cx_rssi_dbm = ci_rssi info,
       cx_channel = ci_channel info, cx_src_mac = ci_mac info, cx_timestamp_us = ci_timestamp info\<rparr>) \<and>
   (length (fr_peer_mac r) = 6 \<longrightarrow>
     on_event_ftm True (ftm_event r) = Some \<lparr>fx_peer_mac = fr_peer_mac r, fx_status = fr_status r,
       fx_rtt_raw_ps = fr_rtt_raw r, fx_rtt_est_ps = fr_rtt_est r, fx_dist_est_cm = fr_dist_est r\<rparr>) \<and>
   (length src = 6 \<and> length dst = 6 \<and> length d \<le> 250 \<and> -128 \<le> rssi \<and> rssi \<le> 127 \<longrightarrow>
     on_event_espnow_rx True (espnow_rx_event \<lparr>nr_src = src, nr_dst = dst, nr_ctrl = Some (rssi, ch)\<rparr> d)
     = Some \<lparr>nx_data = d, nx_rssi_dbm = rssi, nx_channel = ch, nx_src_mac = src, nx_dst_mac = dst\<rparr>) \<and>
   (2 \<le> length f \<and> length f \<le> 127 \<longrightarrow>
     on_event_ieee154_rx True (i154_rx_event (word_of_nat (length f) # f))
     = Some \<lparr>ix_frame = f, ix_rssi_dbm = 0, ix_lqi = 0, ix_channel = 0, ix_timestamp_us = 0\<rparr>)"
  using events_parts by blast

lemma events_roundtrip_witness:
  "on_event_espnow_rx True (espnow_rx_event
      \<lparr>nr_src = [1, 2, 3, 4, 5, 6], nr_dst = [9, 9, 9, 9, 9, 9], nr_ctrl = Some (-40, 6)\<rparr> [7])
    = Some \<lparr>nx_data = [7], nx_rssi_dbm = -40, nx_channel = 6, nx_src_mac = [1, 2, 3, 4, 5, 6],
        nx_dst_mac = [9, 9, 9, 9, 9, 9]\<rparr>"
  using events_roundtrip [where src = "[1, 2, 3, 4, 5, 6]" and dst = "[9, 9, 9, 9, 9, 9]" and rssi = "-40"
    and d = "[7]" and ch = 6] by simp

end
