(* ===== verification/Phy_Host_Steps.thy ===== *)
theory Phy_Host_Steps
  imports Phy_Host
begin

section \<open>Calls in flight: all interleavings of callers and responses\<close>

text \<open>
  Several tasks may be in \<open>do_call\<close> while the dispatcher task runs \<open>on_response\<close>. A state holds
  the host's tables, a program counter per caller and, as ghosts, the ids of each caller's call
  and the responses delivered so far. A step is the code between two points where another task
  can run: the reservation under the mutex, the send, the semaphore's success or timeout, the
  release of the slot (which the code does without the mutex), or one response. The numbers of
  callers and of steps are not bounded.
\<close>

subsection \<open>States and steps\<close>

datatype pc =
    Idle
  | Sending nat
  | Waiting nat
  | Taken nat
  | Failing nat esp_err
  | Done call_result

record sys =
  y_host :: host
  y_pc :: "nat \<Rightarrow> pc"
  y_op :: "nat \<Rightarrow> u32"
  y_resp :: "nat \<Rightarrow> u32"
  y_seen :: "(u32 \<times> byte list) list"
  y_issued :: nat

definition sys_init :: "host \<Rightarrow> sys" where
  "sys_init h = \<lparr>y_host = h, y_pc = (\<lambda>_. Idle), y_op = (\<lambda>_. 0), y_resp = (\<lambda>_. 0), y_seen = [],
     y_issued = 0\<rparr>"

definition set_pc :: "nat \<Rightarrow> pc \<Rightarrow> sys \<Rightarrow> sys" where
  "set_pc c p s = s\<lparr>y_pc := (y_pc s)(c := p)\<rparr>"

definition slot_of :: "sys \<Rightarrow> nat \<Rightarrow> inflight" where
  "slot_of s i = h_slots (y_host s) ! i"

text \<open>The semaphore taken: its token is gone.\<close>

definition take_token :: "nat \<Rightarrow> sys \<Rightarrow> sys" where
  "take_token i s = s\<lparr>y_host := upd_slot i (\<lambda>f. f\<lparr>fl_done := False\<rparr>) (y_host s)\<rparr>"

definition free_slot :: "nat \<Rightarrow> sys \<Rightarrow> sys" where
  "free_slot i s = s\<lparr>y_host := release i (y_host s)\<rparr>"

inductive step :: "sys \<Rightarrow> sys \<Rightarrow> bool" where
  Begin: "y_pc s c = Idle \<Longrightarrow> h_mutex (y_host s) \<Longrightarrow>
    reserve resp out cap (y_host s) = Some (i, op, h) \<Longrightarrow>
    step s (s\<lparr>y_host := h, y_pc := (y_pc s)(c := Sending i), y_op := (y_op s)(c := op),
              y_resp := (y_resp s)(c := resp), y_issued := Suc (y_issued s)\<rparr>)"
| Sent: "y_pc s c = Sending i \<Longrightarrow> step s (set_pc c (Waiting i) s)"
| Send_error: "y_pc s c = Sending i \<Longrightarrow> e \<noteq> ESP_OK \<Longrightarrow> step s (set_pc c (Failing i e) s)"
| Timeout: "y_pc s c = Waiting i \<Longrightarrow> \<not> fl_done (slot_of s i) \<Longrightarrow>
    step s (set_pc c (Failing i ESP_ERR_TIMEOUT) s)"
| Take: "y_pc s c = Waiting i \<Longrightarrow> fl_done (slot_of s i) \<Longrightarrow>
    step s (set_pc c (Taken i) (take_token i s))"
| Collect: "y_pc s c = Taken i \<Longrightarrow>
    step s (set_pc c (Done (collect (slot_of s i))) (free_slot i s))"
| Give_up: "y_pc s c = Failing i e \<Longrightarrow>
    step s (set_pc c (Done (failed e (fl_out (slot_of s i)))) (free_slot i s))"
| Return: "y_pc s c = Done r \<Longrightarrow> step s (set_pc c Idle s)"
| Response: "on_response mid data (y_host s) = Some h \<Longrightarrow>
    step s (s\<lparr>y_host := h, y_seen := y_seen s @ [(mid, data)]\<rparr>)"

inductive reachable :: "host \<Rightarrow> sys \<Rightarrow> bool" for h0 where
  Start: "reachable h0 (sys_init h0)"
| Next: "reachable h0 s \<Longrightarrow> step s s' \<Longrightarrow> reachable h0 s'"

subsection \<open>The invariant\<close>

text \<open>The slot a caller owns.\<close>

fun owned :: "pc \<Rightarrow> nat option" where
  "owned (Sending i) = Some i"
| "owned (Waiting i) = Some i"
| "owned (Taken i) = Some i"
| "owned (Failing i e) = Some i"
| "owned Idle = None"
| "owned (Done r) = None"

text \<open>A response for a call, and what a slot may hold of it.\<close>

definition matches :: "u32 \<Rightarrow> u32 \<Rightarrow> u32 \<times> byte list \<Rightarrow> bool" where
  "matches op resp m \<longleftrightarrow> fst m = resp \<and> sizeof_resp_hdr \<le> length (snd m) \<and> resp_op_id (snd m) = op"

definition status_sound :: "(u32 \<times> byte list) list \<Rightarrow> u32 \<Rightarrow> u32 \<Rightarrow> esp_err \<Rightarrow> bool" where
  "status_sound seen op resp st \<longleftrightarrow>
     st = ESP_FAIL \<or> (\<exists>m \<in> set seen. matches op resp m \<and> resp_status (snd m) = st)"

definition out_sound :: "(u32 \<times> byte list) list \<Rightarrow> u32 \<Rightarrow> u32 \<Rightarrow> nat \<Rightarrow> byte list option \<Rightarrow> bool" where
  "out_sound seen op resp n out \<longleftrightarrow>
     n = 0 \<or> (\<exists>m \<in> set seen. \<exists>b. matches op resp m \<and> out = Some b \<and>
       take n b = take n (drop sizeof_resp_hdr (snd m)) \<and> n \<le> length (snd m) - sizeof_resp_hdr)"

definition slot_sound :: "(u32 \<times> byte list) list \<Rightarrow> inflight \<Rightarrow> bool" where
  "slot_sound seen f \<longleftrightarrow>
     status_sound seen (fl_op_id f) (fl_want f) (fl_status f) \<and>
     out_sound seen (fl_op_id f) (fl_want f) (fl_out_len f) (fl_out f) \<and>
     fl_out_len f \<le> fl_cap f"

definition owner_ok :: "sys \<Rightarrow> nat \<Rightarrow> bool" where
  "owner_ok s c \<longleftrightarrow>
     (case owned (y_pc s c) of
        None \<Rightarrow> True
      | Some i \<Rightarrow> i < length (h_slots (y_host s)) \<and> fl_in_use (slot_of s i) \<and>
          fl_op_id (slot_of s i) = y_op s c \<and> fl_want (slot_of s i) = y_resp s c)"

fun pc_sound :: "(u32 \<times> byte list) list \<Rightarrow> u32 \<Rightarrow> u32 \<Rightarrow> pc \<Rightarrow> bool" where
  "pc_sound seen op resp (Done r) \<longleftrightarrow>
     (cr_err r = ESP_OK \<longrightarrow> (\<exists>m \<in> set seen. matches op resp m \<and> resp_status (snd m) = ESP_OK)) \<and>
     out_sound seen op resp (cr_len r) (cr_out r)"
| "pc_sound seen op resp (Failing i e) \<longleftrightarrow> e \<noteq> ESP_OK"
| "pc_sound seen op resp _ \<longleftrightarrow> True"

definition done_ok :: "sys \<Rightarrow> nat \<Rightarrow> bool" where
  "done_ok s c \<longleftrightarrow> pc_sound (y_seen s) (y_op s c) (y_resp s c) (y_pc s c)"

definition own_inv :: "sys \<Rightarrow> bool" where
  "own_inv s \<longleftrightarrow>
     length (h_slots (y_host s)) = MAX_INFLIGHT \<and> (\<forall>c. owner_ok s c) \<and>
     (\<forall>c d i. owned (y_pc s c) = Some i \<longrightarrow> owned (y_pc s d) = Some i \<longrightarrow> c = d)"

definition sound_inv :: "sys \<Rightarrow> bool" where
  "sound_inv s \<longleftrightarrow>
     (\<forall>c. done_ok s c) \<and>
     (\<forall>i < length (h_slots (y_host s)). fl_in_use (slot_of s i) \<longrightarrow> slot_sound (y_seen s) (slot_of s i))"

text \<open>Operation ids count up from 1, so calls in flight have different ones, until they wrap.\<close>

definition op_inv :: "sys \<Rightarrow> bool" where
  "op_inv s \<longleftrightarrow> y_issued s < 2 ^ 32 - 1 \<longrightarrow>
     unat (h_next_op (y_host s)) = y_issued s + 1 \<and>
     (\<forall>c. owned (y_pc s c) \<noteq> None \<longrightarrow> unat (y_op s c) \<le> y_issued s) \<and>
     (\<forall>c d. owned (y_pc s c) \<noteq> None \<longrightarrow> owned (y_pc s d) \<noteq> None \<longrightarrow> y_op s c = y_op s d \<longrightarrow> c = d)"

subsection \<open>Slots under updates\<close>

lemma upd_slot_simps [simp]:
  "length (h_slots (upd_slot i f h)) = length (h_slots h)"
  "h_mutex (upd_slot i f h) = h_mutex h"
  "h_next_op (upd_slot i f h) = h_next_op h"
  "i < length (h_slots h) \<Longrightarrow> h_slots (upd_slot i f h) ! i = f (h_slots h ! i)"
  "j \<noteq> i \<Longrightarrow> h_slots (upd_slot i f h) ! j = h_slots h ! j"
  by (simp_all add: upd_slot_def)

lemma release_simps [simp]:
  "length (h_slots (release i h)) = length (h_slots h)"
  "h_next_op (release i h) = h_next_op h" "h_mutex (release i h) = h_mutex h"
  "i < length (h_slots h) \<Longrightarrow> h_slots (release i h) ! i = (h_slots h ! i)\<lparr>fl_in_use := False\<rparr>"
  "j \<noteq> i \<Longrightarrow> h_slots (release i h) ! j = h_slots h ! j"
  by (simp_all add: release_def)

lemma store_response_simps [simp]:
  "fl_op_id (store_response d f) = fl_op_id f" "fl_want (store_response d f) = fl_want f"
  "fl_in_use (store_response d f) = fl_in_use f" "fl_cap (store_response d f) = fl_cap f"
  "fl_status (store_response d f) = resp_status d" "fl_done (store_response d f)"
  by (simp_all add: store_response_def Let_def split: option.splits)

lemma on_response_cases:
  assumes "on_response mid data h = Some h'"
  obtains "h' = h"
  | i where "i < length (h_slots h)" "awaits (resp_op_id data) mid (h_slots h ! i)"
      "sizeof_resp_hdr \<le> length data" "h' = upd_slot i (store_response data) h"
proof (cases "find_slot (awaits (resp_op_id data) mid) (h_slots h)")
  case None
  then show ?thesis using assms that(1) by (auto simp: on_response_def split: if_splits)
next
  case (Some i)
  then show ?thesis using assms that find_slot_SomeD(1,2) [OF Some]
    by (auto simp: on_response_def split: if_splits)
qed

lemma reserve_cases:
  assumes "reserve resp out cap h = Some (i, op, h')"
  shows "i < length (h_slots h)" "\<not> fl_in_use (h_slots h ! i)" "op = h_next_op h"
    "h' = upd_slot i (claim op resp out cap) (h\<lparr>h_next_op := op + 1\<rparr>)"
  using assms find_slot_SomeD [of "\<lambda>f. \<not> fl_in_use f" "h_slots h"]
  by (auto simp: reserve_def split: option.splits)

subsection \<open>Ownership is preserved\<close>

lemma own_invD:
  assumes "own_inv s" "owned (y_pc s c) = Some i"
  shows "i < length (h_slots (y_host s))" "fl_in_use (slot_of s i)"
    "fl_op_id (slot_of s i) = y_op s c" "fl_want (slot_of s i) = y_resp s c"
    "owned (y_pc s d) = Some i \<Longrightarrow> d = c"
proof -
  have "owner_ok s c" using assms(1) by (simp add: own_inv_def)
  then show "i < length (h_slots (y_host s))" "fl_in_use (slot_of s i)"
    "fl_op_id (slot_of s i) = y_op s c" "fl_want (slot_of s i) = y_resp s c"
    using assms(2) by (simp_all add: owner_ok_def)
  show "owned (y_pc s d) = Some i \<Longrightarrow> d = c"
    using assms unfolding own_inv_def by blast
qed

lemma own_invI:
  assumes "length (h_slots (y_host s)) = MAX_INFLIGHT"
    and "\<And>c i. owned (y_pc s c) = Some i \<Longrightarrow> i < length (h_slots (y_host s)) \<and> fl_in_use (slot_of s i) \<and>
       fl_op_id (slot_of s i) = y_op s c \<and> fl_want (slot_of s i) = y_resp s c"
    and "\<And>c d i. owned (y_pc s c) = Some i \<Longrightarrow> owned (y_pc s d) = Some i \<Longrightarrow> c = d"
  shows "own_inv s"
  using assms unfolding own_inv_def owner_ok_def by (auto split: option.splits)

lemma own_inv_len: "own_inv s \<Longrightarrow> length (h_slots (y_host s)) = MAX_INFLIGHT"
  by (simp add: own_inv_def)

text \<open>A caller moves on, the host's slots keep their flags and ids.\<close>

lemma own_inv_pc:
  assumes inv: "own_inv s" and p: "owned p = None \<or> owned p = owned (y_pc s c)"
    and len: "length (h_slots h) = length (h_slots (y_host s))"
    and same: "\<And>i. i < length (h_slots h) \<Longrightarrow> fl_in_use (h_slots h ! i) = fl_in_use (slot_of s i) \<and>
       fl_op_id (h_slots h ! i) = fl_op_id (slot_of s i) \<and> fl_want (h_slots h ! i) = fl_want (slot_of s i)"
    and s': "s' = s\<lparr>y_host := h, y_pc := (y_pc s)(c := p), y_seen := q\<rparr>"
  shows "own_inv s'"
proof (rule own_invI)
  have sub: "owned (y_pc s' d) = Some i \<Longrightarrow> owned (y_pc s d) = Some i" for d i
    using p by (auto simp: s' split: if_splits)
  show "length (h_slots (y_host s')) = MAX_INFLIGHT"
    using len own_inv_len [OF inv] by (simp add: s')
  show "i < length (h_slots (y_host s')) \<and> fl_in_use (slot_of s' i) \<and>
     fl_op_id (slot_of s' i) = y_op s' d \<and> fl_want (slot_of s' i) = y_resp s' d"
    if "owned (y_pc s' d) = Some i" for d i
    using own_invD(1-4) [OF inv sub [OF that]] same [of i] len by (simp add: slot_of_def s')
  show "d = e" if "owned (y_pc s' d) = Some i" "owned (y_pc s' e) = Some i" for d e i
    using own_invD(5) [OF inv sub [OF that(2)] sub [OF that(1)]] .
qed

lemma own_inv_set_pc:
  assumes "own_inv s" "owned p = None \<or> owned p = owned (y_pc s c)"
  shows "own_inv (set_pc c p s)"
  by (rule own_inv_pc [OF assms, where h = "y_host s" and q = "y_seen s"])
    (simp_all add: set_pc_def slot_of_def)

text \<open>A caller gives its slot back.\<close>

lemma own_inv_free:
  assumes inv: "own_inv s" and c: "owned (y_pc s c) = Some i" and p: "owned p = None"
  shows "own_inv (set_pc c p (free_slot i s))" (is "own_inv ?s")
proof (rule own_invI)
  have sub: "owned (y_pc s d) = Some j \<and> d \<noteq> c" if "owned (y_pc ?s d) = Some j" for d j
    using that p by (auto simp: set_pc_def free_slot_def split: if_splits)
  show "length (h_slots (y_host ?s)) = MAX_INFLIGHT"
    using own_inv_len [OF inv] by (simp add: set_pc_def free_slot_def)
  show "j < length (h_slots (y_host ?s)) \<and> fl_in_use (slot_of ?s j) \<and>
     fl_op_id (slot_of ?s j) = y_op ?s d \<and> fl_want (slot_of ?s j) = y_resp ?s d"
    if "owned (y_pc ?s d) = Some j" for d j
  proof -
    have d: "owned (y_pc s d) = Some j" "d \<noteq> c" using sub [OF that] by auto
    have "j \<noteq> i" using own_invD(5) [OF inv c, of d] d by auto
    then show ?thesis using own_invD(1-4) [OF inv d(1)]
      by (simp add: slot_of_def set_pc_def free_slot_def)
  qed
  show "d = e" if "owned (y_pc ?s d) = Some j" "owned (y_pc ?s e) = Some j" for d e j
    using own_invD(5) [OF inv, of e j d] sub [OF that(1)] sub [OF that(2)] by blast
qed

text \<open>A caller takes a free slot, which nobody owns.\<close>

lemma own_inv_begin:
  assumes inv: "own_inv s" and c: "y_pc s c = Idle"
    and r: "reserve resp out cap (y_host s) = Some (i, op, h)"
    and s': "s' = s\<lparr>y_host := h, y_pc := (y_pc s)(c := Sending i), y_op := (y_op s)(c := op),
              y_resp := (y_resp s)(c := resp), y_issued := Suc (y_issued s)\<rparr>"
  shows "own_inv s'"
proof (rule own_invI)
  note rc = reserve_cases [OF r]
  have free: "owned (y_pc s d) \<noteq> Some i" for d
    using own_invD(2) [OF inv, of d i] rc(2) by (auto simp: slot_of_def)
  show "length (h_slots (y_host s')) = MAX_INFLIGHT"
    using own_inv_len [OF inv] rc(4) by (simp add: s')
  show "j < length (h_slots (y_host s')) \<and> fl_in_use (slot_of s' j) \<and>
     fl_op_id (slot_of s' j) = y_op s' d \<and> fl_want (slot_of s' j) = y_resp s' d"
    if "owned (y_pc s' d) = Some j" for d j
  proof (cases "d = c")
    case True
    then show ?thesis using that rc by (simp add: s' slot_of_def claim_def)
  next
    case False
    then have d: "owned (y_pc s d) = Some j" using that by (simp add: s')
    then have "j \<noteq> i" using free by blast
    then show ?thesis using own_invD(1-4) [OF inv d] rc False by (simp add: s' slot_of_def)
  qed
  show "d = e" if "owned (y_pc s' d) = Some j" "owned (y_pc s' e) = Some j" for d e j
    using that own_invD(5) [OF inv, of e j d] free by (auto simp: s' split: if_splits)
qed

lemma own_inv_step:
  assumes "step s s'" "own_inv s"
  shows "own_inv s'"
  using assms
proof (cases rule: step.cases)
  case (Begin c resp out cap i op h)
  then show ?thesis using own_inv_begin [OF assms(2)] by blast
next
  case (Collect c i)
  then show ?thesis using own_inv_free [OF assms(2), of c i] by simp
next
  case (Give_up c i e)
  then show ?thesis using own_inv_free [OF assms(2), of c i] by simp
next
  case (Take c i)
  then show ?thesis
    using own_invD(1) [OF assms(2), of c i]
    by (intro own_inv_pc [OF assms(2), where p = "Taken i" and c = c and h = "y_host s'" and q = "y_seen s"])
      (auto simp: set_pc_def take_token_def slot_of_def upd_slot_def nth_list_update)
next
  case (Response mid data h)
  have "own_inv (s\<lparr>y_host := h, y_pc := (y_pc s)(0 := y_pc s 0), y_seen := y_seen s @ [(mid, data)]\<rparr>)"
    using Response(2)
    by (elim on_response_cases; intro own_inv_pc [OF assms(2) _ _ _ refl])
      (auto simp: slot_of_def upd_slot_def nth_list_update)
  then show ?thesis using Response(1) by simp
qed (auto intro!: own_inv_set_pc [OF assms(2)])

lemma reachable_own:
  assumes "reachable h0 s" "length (h_slots h0) = MAX_INFLIGHT"
  shows "own_inv s"
  using assms(1)
proof induction
  case Start
  then show ?case using assms(2) by (simp add: own_inv_def owner_ok_def sys_init_def)
next
  case (Next s s')
  then show ?case using own_inv_step by blast
qed

subsection \<open>What a slot holds came from its own response\<close>

lemma status_sound_mono: "status_sound q op r st \<Longrightarrow> status_sound (q @ q') op r st"
  by (auto simp: status_sound_def)

lemma out_sound_mono: "out_sound q op r n b \<Longrightarrow> out_sound (q @ q') op r n b"
  by (auto simp: out_sound_def)

lemma slot_sound_mono: "slot_sound q f \<Longrightarrow> slot_sound (q @ q') f"
  by (simp add: slot_sound_def status_sound_mono out_sound_mono)

lemma slot_sound_done [simp]: "slot_sound q (f\<lparr>fl_done := b\<rparr>) = slot_sound q f"
  by (simp add: slot_sound_def)

lemma slot_sound_claim: "slot_sound q (claim op resp out cap f)"
  by (simp add: slot_sound_def claim_def status_sound_def out_sound_def)

lemma slot_sound_store:
  assumes "slot_sound q f" "awaits (resp_op_id data) mid f" "sizeof_resp_hdr \<le> length data"
  shows "slot_sound (q @ [(mid, data)]) (store_response data f)"
proof -
  have m: "matches (fl_op_id f) (fl_want f) (mid, data)"
    using assms(2,3) by (simp add: matches_def awaits_def)
  have st: "status_sound (q @ [(mid, data)]) (fl_op_id f) (fl_want f) (resp_status data)"
    using m by (auto simp: status_sound_def)
  show ?thesis
  proof (cases "\<exists>b. fl_out f = Some b \<and> sizeof_resp_hdr < length data")
    case True
    then obtain b where b: "fl_out f = Some b" "sizeof_resp_hdr < length data" by blast
    let ?n = "min (length data - sizeof_resp_hdr) (fl_cap f)"
    have "take ?n (overwrite b (take ?n (drop sizeof_resp_hdr data))) = take ?n (drop sizeof_resp_hdr data)"
      by (simp add: overwrite_def)
    then have "out_sound (q @ [(mid, data)]) (fl_op_id f) (fl_want f) ?n
        (Some (overwrite b (take ?n (drop sizeof_resp_hdr data))))"
      using m unfolding out_sound_def by (intro disjI2 bexI [of _ "(mid, data)"]) auto
    with st b show ?thesis by (simp add: slot_sound_def store_response_def Let_def)
  next
    case False
    then have "fl_out (store_response data f) = fl_out f" "fl_out_len (store_response data f) = fl_out_len f"
      by (auto simp: store_response_def Let_def split: option.splits)
    with st assms(1) show ?thesis by (simp add: slot_sound_def out_sound_mono)
  qed
qed

lemma done_ok_mono:
  "done_ok s c \<Longrightarrow> done_ok (s\<lparr>y_host := h, y_seen := y_seen s @ q\<rparr>) c"
  by (cases "y_pc s c") (auto simp: done_ok_def out_sound_mono)

lemma sound_invD: "sound_inv s \<Longrightarrow> done_ok s c"
  "sound_inv s \<Longrightarrow> i < length (h_slots (y_host s)) \<Longrightarrow> fl_in_use (slot_of s i) \<Longrightarrow>
    slot_sound (y_seen s) (slot_of s i)"
  by (simp_all add: sound_inv_def)

lemma sound_inv_response:
  assumes inv: "sound_inv s" and r: "on_response mid data (y_host s) = Some h"
  shows "sound_inv (s\<lparr>y_host := h, y_seen := y_seen s @ [(mid, data)]\<rparr>)" (is "sound_inv ?s")
proof -
  have "slot_sound (y_seen ?s) (slot_of ?s j)" if j: "j < length (h_slots (y_host ?s))" "fl_in_use (slot_of ?s j)" for j
    using r
  proof (cases rule: on_response_cases)
    case 1
    then show ?thesis using j sound_invD(2) [OF inv, of j] by (simp add: slot_of_def slot_sound_mono)
  next
    case (2 i)
    show ?thesis
    proof (cases "j = i")
      case True
      have "slot_sound (y_seen s) (slot_of s i)"
        using sound_invD(2) [OF inv 2(1)] 2(2) by (simp add: slot_of_def awaits_def)
      with True 2 show ?thesis by (simp add: slot_of_def slot_sound_store)
    next
      case False
      then show ?thesis using j 2 sound_invD(2) [OF inv, of j] by (simp add: slot_of_def slot_sound_mono)
    qed
  qed
  then show ?thesis
    using done_ok_mono [OF sound_invD(1) [OF inv], where h = h and q = "[(mid, data)]"] by (simp add: sound_inv_def)
qed

lemma done_ok_set_pc:
  "done_ok (set_pc c p s) c \<longleftrightarrow> pc_sound (y_seen s) (y_op s c) (y_resp s c) p"
  by (simp add: done_ok_def set_pc_def)

lemma sound_inv_set_pc:
  assumes "sound_inv s" "done_ok (set_pc c p s) c"
  shows "sound_inv (set_pc c p s)"
proof -
  have "done_ok (set_pc c p s) d" for d
    using assms sound_invD(1) [OF assms(1), of d]
    by (cases "d = c") (auto simp: done_ok_def set_pc_def)
  then show ?thesis using assms(1) by (auto simp: sound_inv_def set_pc_def slot_of_def)
qed

lemma sound_inv_slot:
  assumes inv: "sound_inv s" and i: "i < length (h_slots (y_host s))"
    and f: "\<And>g. fl_in_use (f g) \<Longrightarrow> fl_in_use g" "\<And>q g. slot_sound q g \<Longrightarrow> slot_sound q (f g)"
  shows "sound_inv (s\<lparr>y_host := upd_slot i f (y_host s)\<rparr>)" (is "sound_inv ?s")
proof -
  have "slot_sound (y_seen ?s) (slot_of ?s j)" if "j < length (h_slots (y_host ?s))" "fl_in_use (slot_of ?s j)" for j
    using that i sound_invD(2) [OF inv, of j] f by (cases "j = i") (auto simp: slot_of_def)
  moreover have "done_ok ?s c" for c
    using sound_invD(1) [OF inv, of c] by (simp add: done_ok_def)
  ultimately show ?thesis by (simp add: sound_inv_def)
qed

lemma sound_inv_begin:
  assumes inv: "sound_inv s" and c: "y_pc s c = Idle"
    and r: "reserve resp out cap (y_host s) = Some (i, op, h)"
  shows "sound_inv (s\<lparr>y_host := h, y_pc := (y_pc s)(c := Sending i), y_op := (y_op s)(c := op),
              y_resp := (y_resp s)(c := resp), y_issued := Suc (y_issued s)\<rparr>)" (is "sound_inv ?s")
proof -
  note rc = reserve_cases [OF r]
  have "slot_sound (y_seen ?s) (slot_of ?s j)" if "j < length (h_slots (y_host ?s))" "fl_in_use (slot_of ?s j)" for j
    using that rc(1,4) sound_invD(2) [OF inv, of j]
    by (cases "j = i") (auto simp: slot_of_def slot_sound_claim)
  moreover have "done_ok ?s d" for d
    using sound_invD(1) [OF inv, of d] by (simp add: done_ok_def)
  ultimately show ?thesis by (simp add: sound_inv_def)
qed

lemma slot_sound_collect:
  assumes "slot_sound q f" "fl_op_id f = op" "fl_want f = resp"
  shows "pc_sound q op resp (Done (collect f))"
  using assms by (auto simp: slot_sound_def status_sound_def collect_def esp_errs)

lemma sound_inv_step:
  assumes "step s s'" "own_inv s" "sound_inv s"
  shows "sound_inv s'"
  using assms(1)
proof (cases rule: step.cases)
  case (Begin c resp out cap i op h)
  then show ?thesis using sound_inv_begin [OF assms(3)] by simp
next
  case (Response mid data h)
  then show ?thesis using sound_inv_response [OF assms(3)] by simp
next
  case (Take c i)
  have i: "i < length (h_slots (y_host s))" using own_invD(1) [OF assms(2), of c i] Take(2) by simp
  have "sound_inv (take_token i s)"
    unfolding take_token_def by (rule sound_inv_slot [OF assms(3) i]) simp_all
  then show ?thesis unfolding Take(1)
    by (rule sound_inv_set_pc) (simp add: done_ok_def set_pc_def)
next
  case (Collect c i)
  have own: "i < length (h_slots (y_host s))" "fl_in_use (slot_of s i)"
    "fl_op_id (slot_of s i) = y_op s c" "fl_want (slot_of s i) = y_resp s c"
    using own_invD(1-4) [OF assms(2), of c i] Collect(2) by simp_all
  have "sound_inv (free_slot i s)"
    unfolding free_slot_def release_def
    by (rule sound_inv_slot [OF assms(3) own(1)]) (simp_all add: slot_sound_def)
  moreover have "pc_sound (y_seen s) (y_op s c) (y_resp s c) (Done (collect (slot_of s i)))"
    using slot_sound_collect [OF sound_invD(2) [OF assms(3) own(1,2)] own(3,4)] .
  then have "done_ok (set_pc c (Done (collect (slot_of s i))) (free_slot i s)) c"
    by (simp add: done_ok_def set_pc_def free_slot_def del: pc_sound.simps)
  ultimately show ?thesis unfolding Collect(1) by (rule sound_inv_set_pc)
next
  case (Give_up c i e)
  have own: "i < length (h_slots (y_host s))"
    using own_invD(1) [OF assms(2), of c i] Give_up(2) by simp
  have "sound_inv (free_slot i s)"
    unfolding free_slot_def release_def
    by (rule sound_inv_slot [OF assms(3) own]) (simp_all add: slot_sound_def)
  moreover have "e \<noteq> ESP_OK" using sound_invD(1) [OF assms(3), of c] Give_up(2) by (simp add: done_ok_def)
  then have "done_ok (set_pc c (Done (failed e (fl_out (slot_of s i)))) (free_slot i s)) c"
    by (simp add: done_ok_def set_pc_def failed_def out_sound_def)
  ultimately show ?thesis unfolding Give_up(1) by (rule sound_inv_set_pc)
qed (auto intro!: sound_inv_set_pc [OF assms(3)] simp: done_ok_set_pc esp_errs)

definition boot_ok :: "host \<Rightarrow> bool" where
  "boot_ok h \<longleftrightarrow> length (h_slots h) = MAX_INFLIGHT \<and> (\<forall>f \<in> set (h_slots h). \<not> fl_in_use f) \<and>
     h_next_op h = 1"

lemma reachable_sound:
  assumes "reachable h0 s" "boot_ok h0"
  shows "sound_inv s"
  using assms(1)
proof induction
  case Start
  then show ?case using assms(2) by (simp add: sound_inv_def done_ok_def sys_init_def slot_of_def boot_ok_def)
next
  case (Next s s')
  then show ?case using sound_inv_step reachable_own [OF Next(1)] assms(2) by (simp add: boot_ok_def)
qed

subsection \<open>Operation ids in flight\<close>

lemma op_inv_mono:
  assumes "op_inv s" "h_next_op (y_host s') = h_next_op (y_host s)" "y_issued s' = y_issued s"
    "y_op s' = y_op s" "\<And>c. owned (y_pc s' c) \<noteq> None \<Longrightarrow> owned (y_pc s c) \<noteq> None"
  shows "op_inv s'"
  using assms by (simp add: op_inv_def)

lemma op_inv_begin:
  assumes inv: "op_inv s" and c: "y_pc s c = Idle"
    and r: "reserve resp out cap (y_host s) = Some (i, op, h)"
  shows "op_inv (s\<lparr>y_host := h, y_pc := (y_pc s)(c := Sending i), y_op := (y_op s)(c := op),
              y_resp := (y_resp s)(c := resp), y_issued := Suc (y_issued s)\<rparr>)" (is "op_inv ?s")
  unfolding op_inv_def
proof (intro impI)
  note rc = reserve_cases [OF r]
  assume "y_issued ?s < 2 ^ 32 - 1"
  then have lt: "y_issued s + 2 < 2 ^ 32" by simp
  then have nx: "unat (h_next_op (y_host s)) = y_issued s + 1"
    and le: "\<And>d. owned (y_pc s d) \<noteq> None \<Longrightarrow> unat (y_op s d) \<le> y_issued s"
    and inj: "\<And>d e. owned (y_pc s d) \<noteq> None \<Longrightarrow> owned (y_pc s e) \<noteq> None \<Longrightarrow> y_op s d = y_op s e \<Longrightarrow> d = e"
    using inv unfolding op_inv_def by simp_all
  have op: "unat op = y_issued s + 1" using nx rc(3) by simp
  have nx': "unat (h_next_op (y_host ?s)) = y_issued ?s + 1"
    using rc(3,4) nx lt by (simp add: unat_word_ariths)
  have le': "unat (y_op ?s d) \<le> y_issued ?s" if "owned (y_pc ?s d) \<noteq> None" for d
    using that op le [of d] by (cases "d = c") auto
  have new: "y_op s d \<noteq> op" if "owned (y_pc s d) \<noteq> None" for d
    using le [OF that] op by auto
  have inj': "d = e" if "owned (y_pc ?s d) \<noteq> None" "owned (y_pc ?s e) \<noteq> None" "y_op ?s d = y_op ?s e" for d e
    using that inj [of d e] new [of d] new [of e] by (cases "d = c"; cases "e = c") auto
  show "unat (h_next_op (y_host ?s)) = y_issued ?s + 1 \<and>
     (\<forall>d. owned (y_pc ?s d) \<noteq> None \<longrightarrow> unat (y_op ?s d) \<le> y_issued ?s) \<and>
     (\<forall>d e. owned (y_pc ?s d) \<noteq> None \<longrightarrow> owned (y_pc ?s e) \<noteq> None \<longrightarrow> y_op ?s d = y_op ?s e \<longrightarrow> d = e)"
    using nx' le' inj' by blast
qed

lemma op_inv_step:
  assumes "step s s'" "op_inv s"
  shows "op_inv s'"
  using assms(1)
proof (cases rule: step.cases)
  case (Begin c resp out cap i op h)
  then show ?thesis using op_inv_begin [OF assms(2)] by simp
next
  case (Response mid data h)
  have "h_next_op h = h_next_op (y_host s)"
    using Response(2) by (cases rule: on_response_cases) simp_all
  then show ?thesis using Response(1) by (intro op_inv_mono [OF assms(2)]) simp_all
qed (auto intro!: op_inv_mono [OF assms(2)] simp: set_pc_def take_token_def free_slot_def split: if_splits)

lemma reachable_op:
  assumes "reachable h0 s" "boot_ok h0"
  shows "op_inv s"
  using assms(1)
proof induction
  case Start
  then show ?case using assms(2) by (simp add: op_inv_def sys_init_def boot_ok_def)
next
  case (Next s s')
  then show ?case using op_inv_step by blast
qed

subsection \<open>Schedules\<close>

text \<open>An executable schedule of steps, to exhibit concrete runs.\<close>

datatype action =
    A_begin nat u32 "byte list option" nat
  | A_sent nat
  | A_timeout nat
  | A_take nat
  | A_collect nat
  | A_give_up nat
  | A_return nat
  | A_response u32 "byte list"

fun exec :: "action \<Rightarrow> sys \<Rightarrow> sys option" where
  "exec (A_begin c resp out cap) s =
     (if y_pc s c = Idle \<and> h_mutex (y_host s)
      then (case reserve resp out cap (y_host s) of
              None \<Rightarrow> None
            | Some (i, op, h) \<Rightarrow>
                Some (s\<lparr>y_host := h, y_pc := (y_pc s)(c := Sending i), y_op := (y_op s)(c := op),
                        y_resp := (y_resp s)(c := resp), y_issued := Suc (y_issued s)\<rparr>))
      else None)"
| "exec (A_sent c) s = (case y_pc s c of Sending i \<Rightarrow> Some (set_pc c (Waiting i) s) | _ \<Rightarrow> None)"
| "exec (A_timeout c) s =
     (case y_pc s c of
        Waiting i \<Rightarrow> if fl_done (slot_of s i) then None
                      else Some (set_pc c (Failing i ESP_ERR_TIMEOUT) s)
      | _ \<Rightarrow> None)"
| "exec (A_take c) s =
     (case y_pc s c of
        Waiting i \<Rightarrow> if fl_done (slot_of s i) then Some (set_pc c (Taken i) (take_token i s)) else None
      | _ \<Rightarrow> None)"
| "exec (A_collect c) s =
     (case y_pc s c of
        Taken i \<Rightarrow> Some (set_pc c (Done (collect (slot_of s i))) (free_slot i s))
      | _ \<Rightarrow> None)"
| "exec (A_give_up c) s =
     (case y_pc s c of
        Failing i e \<Rightarrow> Some (set_pc c (Done (failed e (fl_out (slot_of s i)))) (free_slot i s))
      | _ \<Rightarrow> None)"
| "exec (A_return c) s = (case y_pc s c of Done r \<Rightarrow> Some (set_pc c Idle s) | _ \<Rightarrow> None)"
| "exec (A_response mid data) s =
     (case on_response mid data (y_host s) of
        None \<Rightarrow> None
      | Some h \<Rightarrow> Some (s\<lparr>y_host := h, y_seen := y_seen s @ [(mid, data)]\<rparr>))"

fun run :: "action list \<Rightarrow> sys \<Rightarrow> sys option" where
  "run [] s = Some s"
| "run (a # as) s = (case exec a s of None \<Rightarrow> None | Some s' \<Rightarrow> run as s')"

lemma exec_step: "exec a s = Some s' \<Longrightarrow> step s s'"
  by (cases a; simp split: option.splits pc.splits if_splits prod.splits)
    (auto intro: step.intros)

lemma run_reachable: "run as s = Some s' \<Longrightarrow> reachable h0 s \<Longrightarrow> reachable h0 s'"
  by (induction as arbitrary: s) (auto split: option.splits dest!: exec_step intro: Next)

lemma boot_ok_up: "boot_ok host_up"
  by (simp add: boot_ok_def host_up_def host_boot_def empty_fl_def)

lemma run_up: "run as (sys_init host_up) = Some s \<Longrightarrow> reachable host_up s"
  using run_reachable Start by blast

text \<open>One answered call, and the schedule that leaves a token behind.\<close>

definition answered_run :: "action list" where
  "answered_run = [A_begin 0 0xC175800B (Some [0]) 1, A_sent 0,
     A_response 0xC175800B [1, 0, 0, 0, 0, 0, 0, 0, 0xC4], A_take 0, A_collect 0]"

definition stale_run :: "action list" where
  "stale_run = [A_begin 0 0xC1758001 None 0, A_sent 0, A_timeout 0,
     A_response 0xC1758001 [1, 0, 0, 0, 0, 0, 0, 0], A_give_up 0, A_return 0,
     A_begin 0 0xC1758002 None 0, A_sent 0, A_take 0, A_collect 0]"

text \<open>The number of steps a call still takes.\<close>

fun steps_left :: "pc \<Rightarrow> nat" where
  "steps_left (Sending i) = 3"
| "steps_left (Waiting i) = 2"
| "steps_left (Taken i) = 1"
| "steps_left (Failing i e) = 1"
| "steps_left Idle = 0"
| "steps_left (Done r) = 0"

subsection \<open>Properties\<close>

text \<open>C1: No call ever returns another call's answer. However callers and responses interleave,
  when a call ends with \<open>ESP_OK\<close>, a response that carries this call's own operation id, under the
  response id it waits for and with status \<open>ESP_OK\<close>, was delivered; and the bytes it reports in its
  buffer are the body of such a response.\<close>

theorem call_returns_own_answer:
  assumes "reachable h0 s" "boot_ok h0" "y_pc s c = Done r"
  shows "(cr_err r = ESP_OK \<longrightarrow>
      (\<exists>m \<in> set (y_seen s). matches (y_op s c) (y_resp s c) m \<and> resp_status (snd m) = ESP_OK)) \<and>
    (cr_len r = 0 \<or>
      (\<exists>m \<in> set (y_seen s). \<exists>b. matches (y_op s c) (y_resp s c) m \<and> cr_out r = Some b \<and>
         take (cr_len r) b = take (cr_len r) (drop sizeof_resp_hdr (snd m)) \<and>
         cr_len r \<le> length (snd m) - sizeof_resp_hdr))"
  using sound_invD(1) [OF reachable_sound [OF assms(1,2)], of c] assms(3)
  by (simp add: done_ok_def out_sound_def)

lemma answered_run_done:
  "map_option (\<lambda>s. (y_pc s 0, y_op s 0, y_resp s 0)) (run answered_run (sys_init host_up))
     = Some (Done \<lparr>cr_err = 0, cr_len = 1, cr_out = Some [0xC4]\<rparr>, 1, 0xC175800B)"
  by code_simp

lemma call_returns_own_answer_witness:
  "\<exists>s. reachable host_up s \<and> y_pc s 0 = Done \<lparr>cr_err = 0, cr_len = 1, cr_out = Some [0xC4]\<rparr> \<and>
     (\<exists>m \<in> set (y_seen s). matches 1 0xC175800B m \<and> resp_status (snd m) = ESP_OK)"
proof -
  obtain s where r: "run answered_run (sys_init host_up) = Some s"
    and s: "y_pc s 0 = Done \<lparr>cr_err = 0, cr_len = 1, cr_out = Some [0xC4]\<rparr>" "y_op s 0 = 1"
      "y_resp s 0 = 0xC175800B"
    using answered_run_done by (auto simp: map_option_eq_Some)
  have re: "reachable host_up s" using run_up [OF r] .
  show ?thesis
    using call_returns_own_answer [OF re boot_ok_up s(1)] re s by (auto simp: ESP_OK_def)
qed

text \<open>C13: The in-flight table under any interleaving: two calls never share a slot, a call's slot is
  one of the four and holds its ids, and, until 2^32 - 1 calls have been issued, calls in flight have
  different operation ids.\<close>

theorem inflight_exclusive:
  assumes "reachable h0 s" "boot_ok h0" "owned (y_pc s c) = Some i"
  shows "i < 4 \<and> fl_in_use (slot_of s i) \<and> fl_op_id (slot_of s i) = y_op s c \<and>
    fl_want (slot_of s i) = y_resp s c \<and> (\<forall>d. owned (y_pc s d) = Some i \<longrightarrow> d = c) \<and>
    (y_issued s < 2 ^ 32 - 1 \<longrightarrow> (\<forall>d. owned (y_pc s d) \<noteq> None \<longrightarrow> y_op s d = y_op s c \<longrightarrow> d = c))"
proof -
  have own: "own_inv s" using reachable_own assms by (simp add: boot_ok_def)
  have "\<forall>d. owned (y_pc s d) \<noteq> None \<longrightarrow> y_op s d = y_op s c \<longrightarrow> d = c" if "y_issued s < 2 ^ 32 - 1"
    using reachable_op [OF assms(1,2)] assms(3) that unfolding op_inv_def by (metis option.distinct(1))
  then show ?thesis
    using own_invD [OF own assms(3)] own_inv_len [OF own] by (simp add: MAX_INFLIGHT_def)
qed

lemma inflight_exclusive_witness:
  "\<exists>s. reachable host_up s \<and> owned (y_pc s 0) = Some 0 \<and> fl_op_id (slot_of s 0) = y_op s 0"
proof -
  have "map_option (\<lambda>s. owned (y_pc s 0)) (run [A_begin 0 7 None 0] (sys_init host_up)) = Some (Some 0)"
    by code_simp
  then obtain s where r: "run [A_begin 0 7 None 0] (sys_init host_up) = Some s" and o: "owned (y_pc s 0) = Some 0"
    by (auto simp: map_option_eq_Some)
  show ?thesis using inflight_exclusive [OF run_up [OF r] boot_ok_up o] run_up [OF r] o by blast
qed



text \<open>A response that arrives between a call's timeout and the release of its slot leaves the
  semaphore's token behind; the next call in that slot then ends at once with \<open>ESP_FAIL\<close>, although
  no response for it was ever delivered.\<close>

theorem stale_token_fails_next_call:
  "\<exists>s r. reachable host_up s \<and> y_pc s 0 = Done r \<and> cr_err r = ESP_FAIL \<and>
     y_op s 0 \<notin> (\<lambda>m. resp_op_id (snd m)) ` set (y_seen s)"
proof -
  have "map_option (\<lambda>s. (y_pc s 0, y_op s 0 \<notin> (\<lambda>m. resp_op_id (snd m)) ` set (y_seen s)))
      (run stale_run (sys_init host_up)) = Some (Done \<lparr>cr_err = -1, cr_len = 0, cr_out = None\<rparr>, True)"
    by code_simp
  then obtain s where r: "run stale_run (sys_init host_up) = Some s"
    and s: "y_pc s 0 = Done \<lparr>cr_err = -1, cr_len = 0, cr_out = None\<rparr>"
      "y_op s 0 \<notin> (\<lambda>m. resp_op_id (snd m)) ` set (y_seen s)"
    by (auto simp: map_option_eq_Some)
  then show ?thesis using run_up [OF r] by (intro exI conjI) (auto simp: ESP_FAIL_def)
qed

text \<open>A response writes only into the buffer of a call that waits for it, and only within the
  capacity the caller gave: the buffer keeps its length, the bytes past the capacity keep their
  values, and every other slot is untouched.\<close>

theorem response_in_bounds:
  assumes "on_response mid data h = Some h'" "i < length (h_slots h)"
    "fl_out (h_slots h ! i) = Some b" "fl_cap (h_slots h ! i) \<le> length b"
  shows "\<exists>b'. fl_out (h_slots h' ! i) = Some b' \<and> length b' = length b \<and>
    drop (fl_cap (h_slots h ! i)) b' = drop (fl_cap (h_slots h ! i)) b \<and>
    (h_slots h' ! i \<noteq> h_slots h ! i \<longrightarrow> awaits (resp_op_id data) mid (h_slots h ! i))"
  using assms(1)
proof (cases rule: on_response_cases)
  case 1
  then show ?thesis using assms(3) by simp
next
  case (2 j)
  show ?thesis
  proof (cases "j = i")
    case True
    let ?f = "h_slots h ! i"
    have "\<exists>b'. fl_out (store_response data ?f) = Some b' \<and> length b' = length b \<and>
        drop (fl_cap ?f) b' = drop (fl_cap ?f) b"
      using assms(3,4) by (auto simp: store_response_def Let_def overwrite_def min_def)
    then show ?thesis using 2 True assms(2) by auto
  next
    case False
    then show ?thesis using 2 assms(3) by simp
  qed
qed

lemma response_in_bounds_witness:
  "\<exists>b'. fl_out (store_response [1, 0, 0, 0, 0, 0, 0, 0, 9, 9, 9]
      (claim 1 7 (Some [5, 6, 7]) 2 empty_fl)) = Some b' \<and> length b' = 3 \<and> drop 2 b' = [7]"
proof -
  let ?h = "upd_slot 0 (claim 1 7 (Some [5, 6, 7]) 2) host_up"
  have "on_response 7 [1, 0, 0, 0, 0, 0, 0, 0, 9, 9, 9] ?h
      = Some (upd_slot 0 (store_response [1, 0, 0, 0, 0, 0, 0, 0, 9, 9, 9]) ?h)"
    by code_simp
  from response_in_bounds [OF this, of 0 "[5, 6, 7]"]
  show ?thesis by (auto simp: host_up_def host_boot_def MAX_INFLIGHT_def upd_slot_def claim_def empty_fl_def numeral_eq_Suc)
qed

end
