(* ===== verification/Pserial.thy ===== *)
theory Pserial
  imports Hosted_Prelude
begin

section \<open>The RPC endpoint of the co-processor (protocomm_pserial.c)\<close>

text \<open>
  Requests and events of the RPC channel on the co-processor: the TLV envelope
  (\<open>parse_tlv\<close>, \<open>compose_tlv\<close>), \<open>rpc_req_handler\<close>, \<open>rpc_evt_handler\<close>, the request queue
  (\<open>protocomm_pserial_data_ready\<close>, one round of \<open>pserial_task\<close>), and start and stop.
  \<open>protocomm_req_handle\<close> of ESP-IDF, which calls the endpoint's handler, and the two functions
  given to \<open>protocomm_pserial_start\<close> are fields of an environment; the last two are
  modelled with the serial layer, which interprets the locale \<open>serial_port\<close> below. Reading
  outside a heap block is the explicit outcome \<open>Oob\<close>.
\<close>

subsection \<open>The TLV envelope\<close>

definition PROTO_PSER_TLV_T_EPNAME :: u8 where "PROTO_PSER_TLV_T_EPNAME = 1"
definition PROTO_PSER_TLV_T_DATA :: u8 where "PROTO_PSER_TLV_T_DATA = 2"
definition EPNAME_MAX :: nat where "EPNAME_MAX = 16"

text \<open>The endpoint names ``RPCRsp'' and ``RPCEvt'' of \<open>esp_hosted_transport.h\<close>.\<close>

definition RPC_EP_NAME_RSP :: "byte list" where "RPC_EP_NAME_RSP = [82, 80, 67, 82, 115, 112]"
definition RPC_EP_NAME_EVT :: "byte list" where "RPC_EP_NAME_EVT = [82, 80, 67, 69, 118, 116]"

text \<open>
  \<open>parse_tlv\<close> at position \<open>pos\<close> of a block, with \<open>left\<close> bytes said to be left: it reads three
  bytes whatever \<open>left\<close> is, and subtracts in \<open>size_t\<close>.
\<close>

datatype tlv_step = Tlv_end | Tlv_oob | Tlv u8 nat nat nat u32

definition parse_tlv :: "byte list \<Rightarrow> nat \<Rightarrow> u32 \<Rightarrow> tlv_step" where
  "parse_tlv b pos left =
     (if left = 0 then Tlv_end
      else if length b < pos + 3 then Tlv_oob
      else let len = unat (rd16 (pos + 1) b) in
           Tlv (rd8 pos b) len (pos + 3) (pos + 3 + len) (left - (word_of_nat len + 3)))"

text \<open>\<open>compose_tlv\<close>; \<open>alloc\<close> says whether \<open>calloc\<close> of that many bytes succeeds.\<close>

definition tlv_bytes :: "byte list \<Rightarrow> byte list \<Rightarrow> byte list" where
  "tlv_bytes ep data =
     PROTO_PSER_TLV_T_EPNAME # le_put 2 (word_of_nat (length ep) :: u16) @ ep @
     PROTO_PSER_TLV_T_DATA # le_put 2 (word_of_nat (length data) :: u16) @ data"

definition compose_tlv :: "(nat \<Rightarrow> bool) \<Rightarrow> byte list \<Rightarrow> byte list \<Rightarrow> esp_err \<times> byte list" where
  "compose_tlv alloc ep out =
     (if alloc (6 + length ep + length out) then (ESP_OK, tlv_bytes ep out) else (ESP_FAIL, out))"

subsection \<open>Requests and events\<close>

text \<open>The loop of \<open>rpc_req_handler\<close> over the TLVs: name buffer and data pointer collected.\<close>

datatype req_parse = Parse_ok "byte list" "(nat \<times> nat) option" | Parse_fail | Parse_oob

function req_loop ::
  "byte list \<Rightarrow> nat \<Rightarrow> u32 \<Rightarrow> byte list \<Rightarrow> (nat \<times> nat) option \<Rightarrow> req_parse" where
  "req_loop b pos left ep data =
     (case parse_tlv b pos left of
        Tlv_end \<Rightarrow> Parse_ok ep data
      | Tlv_oob \<Rightarrow> Parse_oob
      | Tlv ty len ptr pos' left' \<Rightarrow>
          if ty = PROTO_PSER_TLV_T_EPNAME then
            if EPNAME_MAX - 1 \<le> len then Parse_fail
            else if length b < ptr + len then Parse_oob
            else req_loop b pos' left' (take len (drop ptr b) @ drop len ep) data
          else if ty = PROTO_PSER_TLV_T_DATA then req_loop b pos' left' ep (Some (ptr, len))
          else Parse_fail)"
  by pat_completeness auto
termination
  by (relation "measure (\<lambda>(b, pos, _). length b - pos)")
    (auto simp: parse_tlv_def Let_def split: if_splits)

declare req_loop.simps [simp del]

definition c_string :: "byte list \<Rightarrow> byte list" where
  "c_string b = takeWhile (\<lambda>x. x \<noteq> 0) b"

record 's pserial_env =
  pe_alloc :: "nat \<Rightarrow> bool"
  pe_handle :: "byte list \<Rightarrow> int \<Rightarrow> byte list \<Rightarrow> 's \<Rightarrow> (esp_err \<times> byte list) \<times> 's"
  pe_xmit :: "byte list \<Rightarrow> 's \<Rightarrow> esp_err \<times> 's"
  pe_recv :: "byte list \<Rightarrow> 's \<Rightarrow> (nat \<times> byte list) \<times> 's"

datatype ps_result = Done esp_err | Oob

definition reply :: "'s pserial_env \<Rightarrow> byte list \<Rightarrow> (esp_err \<times> byte list) \<times> 's \<Rightarrow> ps_result \<times> 's" where
  "reply e ep r =
     (case r of ((err, out), s1) \<Rightarrow>
        if err \<noteq> ESP_OK then (Done ESP_FAIL, s1)
        else case compose_tlv (pe_alloc e) ep out of (err2, out2) \<Rightarrow>
          if err2 \<noteq> ESP_OK then (Done ESP_FAIL, s1)
          else case pe_xmit e out2 s1 of (err3, s2) \<Rightarrow>
            if err3 \<noteq> ESP_OK then (Done ESP_FAIL, s2) else (Done ESP_OK, s2))"

definition rpc_req_handler ::
  "'s pserial_env \<Rightarrow> byte list \<Rightarrow> nat \<Rightarrow> 's \<Rightarrow> ps_result \<times> 's" where
  "rpc_req_handler e b in_len s =
     (case req_loop b 0 (word_of_nat in_len) (replicate EPNAME_MAX 0) None of
        Parse_oob \<Rightarrow> (Oob, s)
      | Parse_fail \<Rightarrow> (Done ESP_FAIL, s)
      | Parse_ok ep data \<Rightarrow>
          (case data of
             None \<Rightarrow> (Done ESP_FAIL, s)
           | Some (ptr, len) \<Rightarrow>
               if len = 0 \<or> c_string ep = [] then (Done ESP_FAIL, s)
               else if length b < ptr + len then (Oob, s)
               else reply e RPC_EP_NAME_RSP
                      (pe_handle e (c_string ep) 0 (take len (drop ptr b)) s)))"

definition rpc_evt_handler ::
  "'s pserial_env \<Rightarrow> byte list \<Rightarrow> int \<Rightarrow> 's \<Rightarrow> ps_result \<times> 's" where
  "rpc_evt_handler e b msg_id s =
     reply e RPC_EP_NAME_EVT (pe_handle e RPC_EP_NAME_EVT msg_id b s)"

subsection \<open>The request queue\<close>

text \<open>\<open>serial_arg_t\<close>: a copy of the bytes, if there are any, and the message id.\<close>

record serial_arg =
  sa_data :: "byte list"
  sa_msg_id :: int

definition RPC_ID__Event_Base :: int where "RPC_ID__Event_Base = 768"
definition RPC_ID__Event_Max :: int where "RPC_ID__Event_Max = 790"

text \<open>
  \<open>protocomm_pserial_data_ready\<close>: \<open>priv\<close> says whether the endpoint was started. The queue has
  ten places and the caller waits for one; a caller that has to wait is not answered (\<open>None\<close>).
\<close>

definition REQ_Q_MAX :: nat where "REQ_Q_MAX = 10"

definition protocomm_pserial_data_ready ::
  "bool \<Rightarrow> (nat \<Rightarrow> bool) \<Rightarrow> byte list \<Rightarrow> int \<Rightarrow> serial_arg list \<Rightarrow> (esp_err \<times> serial_arg list) option" where
  "protocomm_pserial_data_ready priv alloc b msg_id q =
     (if \<not> priv then Some (ESP_FAIL, q)
      else if b \<noteq> [] \<and> \<not> alloc (length b) then Some (ESP_FAIL, q)
      else if length q < REQ_Q_MAX then Some (ESP_OK, q @ [\<lparr> sa_data = b, sa_msg_id = msg_id \<rparr>])
      else None)"

text \<open>One round of \<open>pserial_task\<close> on a queue entry.\<close>

definition pserial_task_step :: "'s pserial_env \<Rightarrow> serial_arg \<Rightarrow> 's \<Rightarrow> ps_result \<times> 's" where
  "pserial_task_step e a s =
     (if RPC_ID__Event_Base < sa_msg_id a \<and> sa_msg_id a < RPC_ID__Event_Max
      then rpc_evt_handler e (sa_data a) (sa_msg_id a) s
      else case pe_recv e (sa_data a) s of ((len, b), s1) \<Rightarrow>
             if len = 0 then (Done ESP_OK, s1) else rpc_req_handler e b len s1)"

text \<open>Start and stop set and clear the endpoint's private data.\<close>

definition protocomm_pserial_start :: "bool \<Rightarrow> bool \<Rightarrow> bool \<Rightarrow> esp_err \<times> bool" where
  "protocomm_pserial_start pc_null alloc priv =
     (if pc_null then (ESP_ERR_INVALID_ARG, priv)
      else if \<not> alloc then (ESP_ERR_NO_MEM, priv)
      else (ESP_OK, True))"

definition protocomm_pserial_stop :: "bool \<Rightarrow> esp_err \<times> bool" where
  "protocomm_pserial_stop priv = (ESP_OK, False)"

subsection \<open>Lemmas: envelopes\<close>

lemma length_tlv_bytes [simp]: "length (tlv_bytes ep d) = 6 + length ep + length d"
  by (simp add: tlv_bytes_def)

definition tlv_head :: "byte list \<Rightarrow> nat \<Rightarrow> byte list" where
  "tlv_head ep n = (PROTO_PSER_TLV_T_EPNAME # le_put 2 (word_of_nat (length ep) :: u16) @ ep) @
     PROTO_PSER_TLV_T_DATA # le_put 2 (word_of_nat n :: u16)"

lemma length_tlv_head [simp]: "length (tlv_head ep n) = 6 + length ep"
  by (simp add: tlv_head_def)

lemma tlv_bytes_head: "tlv_bytes ep d = tlv_head ep (length d) @ d"
  by (simp add: tlv_bytes_def tlv_head_def)

lemma unat_len16: "n < 65536 \<Longrightarrow> unat (word_of_nat n :: u16) = n"
  by (simp add: unsigned_of_nat take_bit_nat_eq_self)

lemma word32_pos: "0 < n \<Longrightarrow> n < 2 ^ 32 \<Longrightarrow> (0 :: u32) < word_of_nat n"
  by (simp add: word_less_nat_alt unsigned_of_nat take_bit_nat_eq_self)

lemma word32_sub: "b \<le> a \<Longrightarrow> (word_of_nat a :: u32) - word_of_nat b = word_of_nat (a - b)"
  by (simp add: of_nat_diff)

text \<open>The first TLV of a message with an endpoint name, and the second.\<close>

lemma parse_name:
  assumes "length ep < 65536" "0 < left" "3 \<le> length b" "take 3 b = take 3 (tlv_bytes ep d)"
  shows "parse_tlv b 0 left = Tlv PROTO_PSER_TLV_T_EPNAME (length ep) 3 (3 + length ep)
           (left - (word_of_nat (length ep) + 3))"
proof -
  have "take 3 b = PROTO_PSER_TLV_T_EPNAME # le_put 2 (word_of_nat (length ep) :: u16)"
    using assms(4) by (simp add: tlv_bytes_def)
  then obtain r where b: "b = PROTO_PSER_TLV_T_EPNAME # le_put 2 (word_of_nat (length ep) :: u16) @ r"
    by (metis append_Cons append_take_drop_id)
  then show ?thesis
    using assms(1,2) by (simp add: parse_tlv_def Let_def b wire unat_len16)
qed

lemma parse_data:
  assumes "length d < 65536" "0 < left" "b = xs @ PROTO_PSER_TLV_T_DATA #
      le_put 2 (word_of_nat (length d) :: u16) @ r" "pos = length xs"
  shows "parse_tlv b pos left = Tlv PROTO_PSER_TLV_T_DATA (length d) (pos + 3)
           (pos + 3 + length d) (left - (word_of_nat (length d) + 3))"
  using assms by (simp add: parse_tlv_def Let_def wire unat_len16)

lemma parse_end [simp]: "parse_tlv b pos 0 = Tlv_end"
  by (simp add: parse_tlv_def)

text \<open>A whole message is read as its two parts.\<close>

lemma req_loop_message:
  assumes "length ep < EPNAME_MAX - 1" "length d < 65536"
  shows "req_loop (tlv_bytes ep d) 0 (word_of_nat (6 + length ep + length d)) z None =
    Parse_ok (ep @ drop (length ep) z) (Some (6 + length ep, length d))"
proof -
  let ?b = "tlv_bytes ep d"
  have pos: "(0 :: u32) < word_of_nat (6 + length ep + length d)"
    "(0 :: u32) < word_of_nat (3 + length d)"
    using assms by (auto simp: EPNAME_MAX_def simp del: of_nat_add intro!: word32_pos)
  have 1: "parse_tlv ?b 0 (word_of_nat (6 + length ep + length d)) =
    Tlv PROTO_PSER_TLV_T_EPNAME (length ep) 3 (3 + length ep) (word_of_nat (3 + length d))"
    using parse_name [of ep _ ?b d] assms pos by (simp add: EPNAME_MAX_def)
  have "parse_tlv ?b (3 + length ep) (word_of_nat (3 + length d)) =
    Tlv PROTO_PSER_TLV_T_DATA (length d) (3 + length ep + 3) (3 + length ep + 3 + length d)
      (word_of_nat (3 + length d) - (word_of_nat (length d) + 3))"
    by (rule parse_data [where r = d and
          xs = "PROTO_PSER_TLV_T_EPNAME # le_put 2 (word_of_nat (length ep) :: u16) @ ep"])
      (use assms pos in \<open>simp_all add: tlv_bytes_def\<close>)
  then have 2: "parse_tlv ?b (3 + length ep) (word_of_nat (3 + length d)) =
    Tlv PROTO_PSER_TLV_T_DATA (length d) (6 + length ep) (6 + length ep + length d) 0"
    by (simp add: ac_simps)
  have ep: "take (length ep) (drop 3 ?b) = ep" by (simp add: tlv_bytes_def)
  have "req_loop ?b (6 + length ep + length d) 0 (ep @ drop (length ep) z)
      (Some (6 + length ep, length d)) =
    Parse_ok (ep @ drop (length ep) z) (Some (6 + length ep, length d))"
    by (simp add: req_loop.simps)
  then show ?thesis
    using assms 1 2 ep
    by (simp add: req_loop.simps [of ?b 0] req_loop.simps [of ?b "3 + length ep"]
        PROTO_PSER_TLV_T_EPNAME_def PROTO_PSER_TLV_T_DATA_def)
qed

lemma c_string_padded:
  assumes "0 \<notin> set ep" "length ep \<le> n"
  shows "c_string (ep @ drop (length ep) (replicate n 0)) = ep"
  unfolding c_string_def using assms by (subst takeWhile_append2) auto

lemma rpc_req_message:
  assumes "0 \<notin> set ep" "ep \<noteq> []" "length ep < EPNAME_MAX - 1" "d \<noteq> []" "length d < 65536"
  shows "rpc_req_handler e (tlv_bytes ep d) (length (tlv_bytes ep d)) s =
    reply e RPC_EP_NAME_RSP (pe_handle e ep 0 d s)"
proof -
  have "take (length d) (drop (6 + length ep) (tlv_bytes ep d)) = d"
    by (simp add: tlv_bytes_head)
  then show ?thesis
    using assms req_loop_message [OF assms(3,5), of "replicate EPNAME_MAX 0"]
      c_string_padded [of ep EPNAME_MAX]
    by (simp add: rpc_req_handler_def EPNAME_MAX_def del: of_nat_add)
qed

lemma word32_neq: "a < 2 ^ 32 \<Longrightarrow> b < 2 ^ 32 \<Longrightarrow> a \<noteq> b \<Longrightarrow> (word_of_nat a :: u32) \<noteq> word_of_nat b"
  by (simp add: word_unat_eq_iff unsigned_of_nat take_bit_nat_eq_self)

text \<open>A message cut anywhere but right behind its name is read past its end.\<close>

lemma cut_message_overread:
  assumes ep: "length ep < EPNAME_MAX - 1" and d: "length d < 65536"
    and m: "0 < m" "m < 6 + length ep + length d" "m \<noteq> 3 + length ep"
  shows "req_loop (take m (tlv_bytes ep d)) 0 (word_of_nat m) z None = Parse_oob"
proof -
  let ?b = "take m (tlv_bytes ep d)"
  have m32: "m < 2 ^ 32" using ep d m(2) by (simp add: EPNAME_MAX_def)
  have pos: "(0 :: u32) < word_of_nat m" using m32 m(1) by (rule word32_pos [rotated])
  have lb: "length ?b = m" using m(2) by simp
  consider "m < 3" | "3 \<le> m" "m < 3 + length ep" | "3 + length ep < m" using m(3) by linarith
  then show ?thesis
  proof cases
    case 1
    then show ?thesis using pos lb by (auto simp: req_loop.simps [of ?b 0] parse_tlv_def)
  next
    case 2
    have "parse_tlv ?b 0 (word_of_nat m) = Tlv PROTO_PSER_TLV_T_EPNAME (length ep) 3
        (3 + length ep) (word_of_nat m - (word_of_nat (length ep) + 3))"
      using ep 2(1) lb pos by (intro parse_name) (auto simp: EPNAME_MAX_def min_def)
    then show ?thesis using ep 2 lb by (simp add: req_loop.simps [of ?b 0])
  next
    case 3
    have left1: "(word_of_nat m :: u32) - (word_of_nat (length ep) + 3) = word_of_nat (m - (3 + length ep))"
      using 3 by (simp add: of_nat_diff algebra_simps)
    have 1: "parse_tlv ?b 0 (word_of_nat m) = Tlv PROTO_PSER_TLV_T_EPNAME (length ep) 3
        (3 + length ep) (word_of_nat (m - (3 + length ep)))"
      unfolding left1 [symmetric]
      using ep 3 lb pos by (intro parse_name) (auto simp: EPNAME_MAX_def min_def)
    have p1: "(0 :: u32) < word_of_nat (m - (3 + length ep))"
      using 3 m32 by (intro word32_pos) auto
    have step1: "req_loop ?b 0 (word_of_nat m) z None =
        req_loop ?b (3 + length ep) (word_of_nat (m - (3 + length ep)))
          (take (length ep) (drop 3 ?b) @ drop (length ep) z) None"
      using 1 ep 3 lb by (simp add: req_loop.simps [of ?b 0])
    show ?thesis
    proof (cases "m < 6 + length ep")
      case True
      then show ?thesis
        using p1 lb by (auto simp: step1 req_loop.simps [of ?b "3 + length ep"] parse_tlv_def)
    next
      case False
      let ?left2 = "word_of_nat (m - (3 + length ep)) - (word_of_nat (length d) + 3) :: u32"
      let ?r = "take (m - (6 + length ep)) d"
      have b: "?b = (PROTO_PSER_TLV_T_EPNAME # le_put 2 (word_of_nat (length ep) :: u16) @ ep) @
          PROTO_PSER_TLV_T_DATA # le_put 2 (word_of_nat (length d) :: u16) @ ?r"
        using False by (simp add: tlv_bytes_head) (simp add: tlv_head_def)
      have "parse_tlv ?b (3 + length ep) (word_of_nat (m - (3 + length ep))) =
        Tlv PROTO_PSER_TLV_T_DATA (length d) (3 + length ep + 3) (3 + length ep + 3 + length d) ?left2"
        by (rule parse_data [OF d p1 b]) simp
      then have "parse_tlv ?b (3 + length ep) (word_of_nat (m - (3 + length ep))) =
        Tlv PROTO_PSER_TLV_T_DATA (length d) (6 + length ep) (6 + length ep + length d) ?left2"
        by (simp add: ac_simps)
      then have step2: "req_loop ?b 0 (word_of_nat m) z None =
          req_loop ?b (6 + length ep + length d) ?left2
            (take (length ep) (drop 3 ?b) @ drop (length ep) z) (Some (6 + length ep, length d))"
        by (simp add: step1 req_loop.simps [of ?b "3 + length ep"] PROTO_PSER_TLV_T_EPNAME_def
            PROTO_PSER_TLV_T_DATA_def)
      have "(word_of_nat (m - (3 + length ep)) :: u32) \<noteq> word_of_nat (length d + 3)"
        using m(2) m32 d by (intro word32_neq) auto
      then have "?left2 \<noteq> 0" by simp
      then show ?thesis
        using m(2) lb by (simp add: step2 req_loop.simps [of ?b "6 + length ep + length d"] parse_tlv_def)
    qed
  qed
qed

subsection \<open>The interface to the serial layer\<close>

text \<open>
  What the endpoint relies on: \<open>recv\<close> hands over the pending message and clears it, \<open>xmit\<close>
  sends one whole message and leaves the pending one alone, and neither the handler nor the
  memory allocator gets in the way. \<open>answer\<close> is what the endpoint's handler replies.
\<close>

locale serial_port =
  fixes e :: "'s pserial_env"
    and answer :: "byte list \<Rightarrow> int \<Rightarrow> byte list \<Rightarrow> byte list"
    and pending :: "'s \<Rightarrow> byte list option"
    and sent :: "'s \<Rightarrow> byte list list"
    and ready :: "'s \<Rightarrow> bool"
  assumes alloc: "pe_alloc e n"
    and handle: "ready s \<Longrightarrow> \<exists>s1. pe_handle e ep i d s = ((ESP_OK, answer ep i d), s1) \<and>
      pending s1 = pending s \<and> sent s1 = sent s \<and> ready s1"
    and recv: "ready s \<Longrightarrow> pending s = Some m \<Longrightarrow> \<exists>s1. pe_recv e m s = ((length m, m), s1) \<and>
      pending s1 = None \<and> sent s1 = sent s \<and> ready s1"
    and xmit: "ready s \<Longrightarrow> m \<noteq> [] \<Longrightarrow> \<exists>s1. pe_xmit e m s = (ESP_OK, s1) \<and>
      pending s1 = pending s \<and> sent s1 = sent s @ [m] \<and> ready s1"
begin

lemma reply_sends:
  assumes "ready s" "pe_handle e ep i d s0 = ((ESP_OK, out), s)"
  shows "\<exists>s2. reply e nm (pe_handle e ep i d s0) = (Done ESP_OK, s2) \<and> pending s2 = pending s \<and>
    sent s2 = sent s @ [tlv_bytes nm out] \<and> ready s2"
proof -
  obtain s2 where "pe_xmit e (tlv_bytes nm out) s = (ESP_OK, s2)" "pending s2 = pending s"
    "sent s2 = sent s @ [tlv_bytes nm out]" "ready s2"
    using xmit [OF assms(1), of "tlv_bytes nm out"] by (auto simp: tlv_bytes_def)
  then show ?thesis using assms(2) alloc by (auto simp: reply_def compose_tlv_def)
qed

lemma request_served:
  assumes "ready s" "pending s = Some (tlv_bytes ep d)" "0 \<notin> set ep" "ep \<noteq> []"
    "length ep < EPNAME_MAX - 1" "d \<noteq> []" "length d < 65536"
    and i: "\<not> (RPC_ID__Event_Base < i \<and> i < RPC_ID__Event_Max)"
  shows "\<exists>s2. pserial_task_step e \<lparr>sa_data = tlv_bytes ep d, sa_msg_id = i\<rparr> s = (Done ESP_OK, s2) \<and>
    pending s2 = None \<and> sent s2 = sent s @ [tlv_bytes RPC_EP_NAME_RSP (answer ep 0 d)] \<and> ready s2"
proof -
  obtain s1 where s1: "pe_recv e (tlv_bytes ep d) s = ((length (tlv_bytes ep d), tlv_bytes ep d), s1)"
    "pending s1 = None" "sent s1 = sent s" "ready s1"
    using recv [OF assms(1,2)] by blast
  obtain s3 where s3: "pe_handle e ep 0 d s1 = ((ESP_OK, answer ep 0 d), s3)"
    "pending s3 = pending s1" "sent s3 = sent s1" "ready s3"
    using handle [OF s1(4)] by blast
  have "pserial_task_step e \<lparr>sa_data = tlv_bytes ep d, sa_msg_id = i\<rparr> s =
      reply e RPC_EP_NAME_RSP (pe_handle e ep 0 d s1)"
    using i s1(1) rpc_req_message [OF assms(3-7), of e s1]
    by (auto simp: pserial_task_step_def)
  then show ?thesis
    using reply_sends [OF s3(4,1), of RPC_EP_NAME_RSP] s1 s3 by simp
qed

lemma event_sent:
  assumes "ready s" "RPC_ID__Event_Base < i" "i < RPC_ID__Event_Max"
  shows "\<exists>s2. pserial_task_step e \<lparr>sa_data = d, sa_msg_id = i\<rparr> s = (Done ESP_OK, s2) \<and>
    pending s2 = pending s \<and>
    sent s2 = sent s @ [tlv_bytes RPC_EP_NAME_EVT (answer RPC_EP_NAME_EVT i d)] \<and> ready s2"
proof -
  obtain s3 where s3: "pe_handle e RPC_EP_NAME_EVT i d s = ((ESP_OK, answer RPC_EP_NAME_EVT i d), s3)"
    "pending s3 = pending s" "sent s3 = sent s" "ready s3"
    using handle [OF assms(1)] by blast
  then show ?thesis
    using reply_sends [OF s3(4,1), of RPC_EP_NAME_EVT] assms(2,3)
    by (auto simp: pserial_task_step_def rpc_evt_handler_def)
qed

end

subsection \<open>Properties\<close>

text \<open>A request cut anywhere but right behind its endpoint name is read past the end of its
  heap block: \<open>parse_tlv\<close> never compares the length it reads with the bytes that are left, and
  its remaining-bytes counter wraps. Cut behind the name it is refused.\<close>

theorem cut_request_overreads:
  assumes "length ep < EPNAME_MAX - 1" "length d < 65536" "0 < m" "m < length (tlv_bytes ep d)"
  shows "rpc_req_handler e (take m (tlv_bytes ep d)) m s =
    (if m = 3 + length ep then (Done ESP_FAIL, s) else (Oob, s))"
proof (cases "m = 3 + length ep")
  case True
  let ?b = "take m (tlv_bytes ep d)"
  have "(0 :: u32) < word_of_nat m" using True assms(1) by (intro word32_pos) (auto simp: EPNAME_MAX_def)
  then have "parse_tlv ?b 0 (word_of_nat m) = Tlv PROTO_PSER_TLV_T_EPNAME (length ep) 3
        (3 + length ep) (word_of_nat m - (word_of_nat (length ep) + 3))"
    using assms True by (intro parse_name) (auto simp: EPNAME_MAX_def min_def)
  moreover have "(word_of_nat m :: u32) - (word_of_nat (length ep) + 3) = 0" by (simp add: True)
  ultimately have 1: "parse_tlv ?b 0 (word_of_nat m) = Tlv PROTO_PSER_TLV_T_EPNAME (length ep) 3
        (3 + length ep) 0" by simp
  have "\<exists>x. req_loop ?b 0 (word_of_nat m) z None = Parse_ok x None" for z
    using True assms
    by (subst req_loop.simps, unfold 1) (auto simp: req_loop.simps [of _ "3 + length ep" 0])
  then obtain x where "req_loop ?b 0 (word_of_nat m) (replicate EPNAME_MAX 0) None = Parse_ok x None"
    by blast
  then show ?thesis using True by (auto simp: rpc_req_handler_def)
next
  case False
  then show ?thesis
    using cut_message_overread [OF assms(1-3), of "replicate EPNAME_MAX 0"] assms(4)
    by (simp add: rpc_req_handler_def)
qed

text \<open>A small endpoint for concrete instances: its handler echoes, nothing fails.\<close>

definition demo_env :: "unit pserial_env" where
  "demo_env = \<lparr> pe_alloc = (\<lambda>_. True), pe_handle = (\<lambda>_ _ d s. ((ESP_OK, d), s)),
     pe_xmit = (\<lambda>_ s. (ESP_OK, s)), pe_recv = (\<lambda>b s. ((length b, b), s)) \<rparr>"

theorem cut_request_overreads_witness:
  "rpc_req_handler demo_env (take 10 (tlv_bytes RPC_EP_NAME_RSP [1, 2])) 10 () =
     (if (10 :: nat) = 3 + length RPC_EP_NAME_RSP then (Done ESP_FAIL, ()) else (Oob, ()))"
  by (rule cut_request_overreads) (simp_all add: EPNAME_MAX_def RPC_EP_NAME_RSP_def)

end
