(* ===== verification/Transport_Frame.thy ===== *)
theory Transport_Frame
  imports Hosted_Prelude
begin

section \<open>Frames on the bus: payload header, checksum, SDIO send and receive paths\<close>

text \<open>
  The packet format both sides share and the two directions over SDIO. Common code
  (\<open>esp_hosted_header.h\<close>, \<open>esp_hosted_transport.h\<close>): the 12-byte payload header and the byte-sum
  checksum. Host (\<open>sdio_drv.c\<close>): \<open>esp_hosted_tx\<close>, one round of \<open>sdio_write_task\<close> with its
  wait for write buffers, \<open>is_valid_sdio_rx_packet\<close> and \<open>sdio_push_pkt_to_queue\<close>.
  Co-processor (\<open>sdio_slave_api.c\<close>): \<open>sdio_write\<close> with \<open>update_tx_header\<close>, and one round of
  \<open>sdio_rx_task\<close>. The bus itself (block transfers, register reads) is a parameter.
  \<open>chk\<close> is the build option that turns the checksum on (\<open>H_SDIO_CHECKSUM\<close> on the host,
  \<open>CONFIG_ESP_SDIO_CHECKSUM\<close> on the co-processor).
\<close>

subsection \<open>Interfaces, flags and sizes\<close>

definition ESP_STA_IF :: u8 where "ESP_STA_IF = 1"
definition ESP_AP_IF :: u8 where "ESP_AP_IF = 2"
definition ESP_SERIAL_IF :: u8 where "ESP_SERIAL_IF = 3"
definition ESP_HCI_IF :: u8 where "ESP_HCI_IF = 4"
definition ESP_PRIV_IF :: u8 where "ESP_PRIV_IF = 5"

lemmas esp_ifs = ESP_STA_IF_def ESP_AP_IF_def ESP_SERIAL_IF_def ESP_HCI_IF_def ESP_PRIV_IF_def

definition MORE_FRAGMENT :: u8 where "MORE_FRAGMENT = 1"
definition FLAG_WAKEUP_PKT :: u8 where "FLAG_WAKEUP_PKT = 2"
definition FLAG_POWER_SAVE_STARTED :: u8 where "FLAG_POWER_SAVE_STARTED = 4"
definition FLAG_POWER_SAVE_STOPPED :: u8 where "FLAG_POWER_SAVE_STOPPED = 8"

text \<open>The size of the header, of an SDIO buffer and of the largest payload.\<close>

definition HDR :: nat where "HDR = 12"
definition MAX_SDIO_BUFFER_SIZE :: nat where "MAX_SDIO_BUFFER_SIZE = 1536"
definition MAX_PAYLOAD_SIZE :: nat where "MAX_PAYLOAD_SIZE = MAX_SDIO_BUFFER_SIZE - HDR"

lemmas sdio_sizes = HDR_def MAX_SDIO_BUFFER_SIZE_def MAX_PAYLOAD_SIZE_def

subsection \<open>Payload header and checksum\<close>

record esp_payload_header =
  h_if_type :: u8
  h_if_num :: u8
  h_flags :: u8
  h_len :: u16
  h_offset :: u16
  h_checksum :: u16
  h_seq_num :: u16
  h_throttle_cmd :: u8
  h_pkt_type :: u8

text \<open>
  The first byte packs two 4-bit fields, the eleventh a 2-bit field and six reserved bits
  that are never set.
\<close>

definition put_header :: "esp_payload_header \<Rightarrow> byte list" where
  "put_header h =
     [(h_if_type h AND 15) OR push_bit 4 (h_if_num h AND 15), h_flags h] @
     le_put 2 (h_len h) @ le_put 2 (h_offset h) @ le_put 2 (h_checksum h) @
     le_put 2 (h_seq_num h) @ [h_throttle_cmd h AND 3, h_pkt_type h]"

definition get_header :: "byte list \<Rightarrow> esp_payload_header" where
  "get_header b = \<lparr> h_if_type = rd8 0 b AND 15, h_if_num = drop_bit 4 (rd8 0 b),
     h_flags = rd8 1 b, h_len = rd16 2 b, h_offset = rd16 4 b, h_checksum = rd16 6 b,
     h_seq_num = rd16 8 b, h_throttle_cmd = rd8 10 b AND 3, h_pkt_type = rd8 11 b \<rparr>"

text \<open>\<open>compute_checksum\<close>: the bytes summed in 16 bits.\<close>

fun checksum_from :: "u16 \<Rightarrow> byte list \<Rightarrow> u16" where
  "checksum_from c [] = c"
| "checksum_from c (b # bs) = checksum_from (c + ucast b) bs"

definition compute_checksum :: "byte list \<Rightarrow> nat \<Rightarrow> u16" where
  "compute_checksum buf n = checksum_from 0 (take n buf)"

text \<open>\<open>header->checksum = v\<close> on a buffer.\<close>

definition set_checksum :: "u16 \<Rightarrow> byte list \<Rightarrow> byte list" where
  "set_checksum v b = take 6 b @ le_put 2 v @ drop 8 b"

subsection \<open>Packets in memory\<close>

text \<open>
  \<open>interface_buffer_handle_t\<close> of both sides. The payload carries its length; on the host
  \<open>ib_zcopy\<close> says that the payload already sits behind twelve zero bytes of header space.
\<close>

record ibuf =
  ib_if_type :: u8
  ib_if_num :: u8
  ib_flag :: u8
  ib_seq :: u16
  ib_payload :: "byte list"
  ib_zcopy :: bool

text \<open>What both bit fields of the first header byte can hold.\<close>

definition nibbles :: "ibuf \<Rightarrow> bool" where
  "nibbles ib \<longleftrightarrow> ib_if_type ib < 16 \<and> ib_if_num ib < 16"

datatype prio_q = PRIO_Q_SERIAL | PRIO_Q_BT | PRIO_Q_OTHERS

definition prio_of :: "u8 \<Rightarrow> prio_q" where
  "prio_of t = (if t = ESP_SERIAL_IF then PRIO_Q_SERIAL else if t = ESP_HCI_IF then PRIO_Q_BT
                else PRIO_Q_OTHERS)"

subsection \<open>Host: queueing and sending\<close>

text \<open>\<open>esp_hosted_tx\<close>: checks the length and the transport, then queues by priority.\<close>

definition esp_hosted_tx :: "bool \<Rightarrow> ibuf \<Rightarrow> esp_err \<times> (prio_q \<times> ibuf) option" where
  "esp_hosted_tx transport_up ib =
     (if ib_payload ib = [] \<or> MAX_PAYLOAD_SIZE < length (ib_payload ib) \<or> \<not> transport_up
      then (ESP_FAIL, None)
      else (ESP_OK, Some (prio_of (ib_if_type ib), ib\<lparr>ib_seq := 0\<rparr>)))"

text \<open>
  The frame of a packet whose length variable is \<open>len\<close>. An HCI packet that is copied moves its
  first byte into the header.
\<close>

definition sdio_frame :: "bool \<Rightarrow> nat \<Rightarrow> ibuf \<Rightarrow> byte list" where
  "sdio_frame chk len ib =
     (let hci = ib_if_type ib = ESP_HCI_IF \<and> \<not> ib_zcopy ib;
          n = (if hci then len - 1 else len);
          body = take n (if hci then drop 1 (ib_payload ib) else ib_payload ib);
          f = put_header \<lparr> h_if_type = ib_if_type ib, h_if_num = ib_if_num ib,
                h_flags = ib_flag ib, h_len = word_of_nat n, h_offset = word_of_nat HDR,
                h_checksum = 0, h_seq_num = ib_seq ib, h_throttle_cmd = 0,
                h_pkt_type = (if hci then ib_payload ib ! 0 else 0) \<rparr> @ body
      in if chk then set_checksum (compute_checksum f (HDR + n)) f else f)"

text \<open>\<open>sdio_get_tx_buffer_num\<close>: the token counter less the buffers used, modulo 4096.\<close>

definition sdio_get_tx_buffer_num :: "u32 \<Rightarrow> nat \<Rightarrow> nat" where
  "sdio_get_tx_buffer_num r used =
     (unat (drop_bit 16 r AND 0xFFF) + 0x1000 - used) mod 0x1000"

text \<open>
  The wait for receive buffers of the co-processor. \<open>reg k\<close> is the \<open>k\<close>-th read of its token
  register. At most \<open>retry\<close> reads may find too few buffers (a read error leaves the last number)
  and \<open>unresp\<close> may report an unresponsive device.
\<close>

datatype token_read = Token_reg u32 | Unresponsive | Read_error

fun poll_write_buffers ::
  "(nat \<Rightarrow> token_read) \<Rightarrow> nat \<Rightarrow> nat \<Rightarrow> nat \<Rightarrow> nat \<Rightarrow> nat \<Rightarrow> nat \<Rightarrow> bool \<times> nat" where
  "poll_write_buffers reg used k need avail 0 unresp = (False, avail)"
| "poll_write_buffers reg used k need avail (Suc retry) 0 = (False, avail)"
| "poll_write_buffers reg used k need avail (Suc retry) (Suc unresp) =
     (case reg k of
        Unresponsive \<Rightarrow> poll_write_buffers reg used (Suc k) need avail (Suc retry) unresp
      | r \<Rightarrow> (let n = (case r of Token_reg r32 \<Rightarrow> sdio_get_tx_buffer_num r32 used | _ \<Rightarrow> avail)
              in if n < need then poll_write_buffers reg used (Suc k) need n retry (Suc unresp)
                 else (True, n)))"

definition MAX_WRITE_BUF_RETRIES :: nat where "MAX_WRITE_BUF_RETRIES = 50"

definition sdio_is_write_buffer_available ::
  "(nat \<Rightarrow> token_read) \<Rightarrow> nat \<Rightarrow> nat \<Rightarrow> nat \<Rightarrow> bool \<times> nat" where
  "sdio_is_write_buffer_available reg used need avail =
     (if avail < need then
        (case poll_write_buffers reg used 0 need avail MAX_WRITE_BUF_RETRIES 2 of
           (True, n) \<Rightarrow> (True, n - need)
         | (False, n) \<Rightarrow> (False, n))
      else (True, avail - need))"

text \<open>
  One round of \<open>sdio_write_task\<close>. Its variables live across rounds: \<open>len\<close>, \<open>flag\<close>, \<open>buf_handle\<close>
  and \<open>tx_needed\<close>, which is set to 1 once, before the loop. A round gets the packet that was
  dequeued, or none. \<open>Tx_again\<close> is a round that reads the buffer of the previous packet again,
  after it was released; \<open>Tx_overread\<close> one that copies more bytes than the packet has.
  \<open>wr i\<close> says whether the \<open>i\<close>-th attempt of the block write succeeds; there are two.
\<close>

record wtask =
  wt_len :: nat
  wt_flag :: u8
  wt_tx_needed :: bool
  wt_buf :: "ibuf option"
  wt_avail :: nat
  wt_count :: nat

definition wtask_init :: wtask where
  "wtask_init = \<lparr> wt_len = 0, wt_flag = 0, wt_tx_needed = True, wt_buf = None, wt_avail = 0,
     wt_count = 0 \<rparr>"

datatype tx_out =
  Tx_none | Tx_too_long | Tx_again | Tx_overread | Tx_no_buffer | Tx_failed | Tx_sent "byte list"

definition MAX_SDIO_WRITE_RETRY :: nat where "MAX_SDIO_WRITE_RETRY = 2"

definition sdio_write_step ::
  "bool \<Rightarrow> (nat \<Rightarrow> token_read) \<Rightarrow> (nat \<Rightarrow> bool) \<Rightarrow> ibuf option \<Rightarrow> wtask \<Rightarrow> wtask \<times> tx_out" where
  "sdio_write_step chk reg wr msg t =
     (let t1 = (case msg of None \<Rightarrow> t\<lparr>wt_tx_needed := False\<rparr> | Some ib \<Rightarrow> t\<lparr>wt_buf := Some ib\<rparr>);
          t2 = (case (wt_tx_needed t1, wt_buf t1) of
                  (True, Some ib) \<Rightarrow> t1\<lparr>wt_len := length (ib_payload ib), wt_flag := ib_flag ib\<rparr>
                | _ \<Rightarrow> t1)
      in case wt_buf t2 of
           None \<Rightarrow> (t2, Tx_none)
         | Some ib \<Rightarrow>
             if wt_flag t2 = 0 \<and> wt_len t2 = 0 then (t2, Tx_none)
             else if MAX_SDIO_BUFFER_SIZE - HDR < length (ib_payload ib) then (t2, Tx_too_long)
             else if msg = None then (t2, Tx_again)
             else if length (ib_payload ib) < wt_len t2 then (t2, Tx_overread)
             else
               (let hci = ib_if_type ib = ESP_HCI_IF \<and> \<not> ib_zcopy ib;
                    f = sdio_frame chk (wt_len t2) ib;
                    t3 = (if hci then t2\<lparr>wt_len := wt_len t2 - 1\<rparr> else t2);
                    need = (wt_len t3 + HDR + MAX_SDIO_BUFFER_SIZE - 1) div MAX_SDIO_BUFFER_SIZE
                in case sdio_is_write_buffer_available reg (wt_count t3) need (wt_avail t3) of
                     (False, n) \<Rightarrow> (t3\<lparr>wt_avail := n\<rparr>, Tx_no_buffer)
                   | (True, n) \<Rightarrow>
                       if list_ex wr [0..<MAX_SDIO_WRITE_RETRY]
                       then (t3\<lparr>wt_avail := n, wt_count := (wt_count t3 + need) mod 0x1000\<rparr>, Tx_sent f)
                       else (t3\<lparr>wt_avail := n\<rparr>, Tx_failed)))"

subsection \<open>Host: receiving\<close>

text \<open>
  \<open>is_valid_sdio_rx_packet\<close> on a receive buffer: the length and offset to use, if the packet
  is accepted. \<open>sdio_push_pkt_to_queue\<close> turns it into a packet for the dispatcher.
\<close>

definition is_valid_sdio_rx_packet :: "bool \<Rightarrow> byte list \<Rightarrow> (nat \<times> nat) option" where
  "is_valid_sdio_rx_packet chk rx =
     (let h = get_header rx; len = unat (h_len h); off = unat (h_offset h) in
      if len = 0 \<or> MAX_PAYLOAD_SIZE < len \<or> off \<noteq> HDR then None
      else if chk \<and> compute_checksum (set_checksum 0 rx) (len + off) \<noteq> h_checksum h then None
      else Some (len, off))"

definition sdio_push_pkt_to_queue :: "byte list \<Rightarrow> nat \<Rightarrow> nat \<Rightarrow> prio_q \<times> ibuf" where
  "sdio_push_pkt_to_queue rx len off =
     (let h = get_header rx in
      (prio_of (h_if_type h),
       \<lparr> ib_if_type = h_if_type h, ib_if_num = h_if_num h, ib_flag = h_flags h,
         ib_seq = h_seq_num h, ib_payload = take len (drop off rx), ib_zcopy = False \<rparr>))"

definition host_rx :: "bool \<Rightarrow> byte list \<Rightarrow> (prio_q \<times> ibuf) option" where
  "host_rx chk rx = map_option (\<lambda>(len, off). sdio_push_pkt_to_queue rx len off)
                      (is_valid_sdio_rx_packet chk rx)"

subsection \<open>Co-processor: sending\<close>

text \<open>
  \<open>update_tx_header\<close> behind \<open>copy_tx_payload\<close>, and \<open>sdio_write\<close>. \<open>active\<close> is the driver state,
  \<open>sleeping\<close> what \<open>is_host_power_saving\<close> answers, \<open>null\<close> whether the payload pointer is null, \<open>alloc\<close>
  and \<open>send\<close> whether the buffer and the bus driver cooperate.
\<close>

definition update_tx_header :: "bool \<Rightarrow> ibuf \<Rightarrow> byte list" where
  "update_tx_header chk ib =
     (let n = length (ib_payload ib);
          f = put_header \<lparr> h_if_type = ib_if_type ib, h_if_num = ib_if_num ib,
                h_flags = ib_flag ib, h_len = word_of_nat n, h_offset = word_of_nat HDR,
                h_checksum = 0, h_seq_num = ib_seq ib, h_throttle_cmd = 0,
                h_pkt_type = 0 \<rparr> @ ib_payload ib
      in if chk then set_checksum (compute_checksum f (HDR + n)) f else f)"

definition sdio_write ::
  "bool \<Rightarrow> bool \<Rightarrow> bool \<Rightarrow> bool \<Rightarrow> bool \<Rightarrow> bool \<Rightarrow> ibuf \<Rightarrow> int \<times> byte list option" where
  "sdio_write chk active sleeping null alloc send ib =
     (if \<not> active \<or> sleeping then (ESP_FAIL, None)
      else if ib_payload ib = [] \<and> null \<and> ib_flag ib = 0 then (ESP_FAIL, None)
      else if \<not> alloc \<or> \<not> send then (ESP_FAIL, None)
      else (int (length (ib_payload ib)), Some (update_tx_header chk ib)))"

subsection \<open>Co-processor: receiving\<close>

text \<open>
  One round of \<open>sdio_rx_task\<close> on a receive buffer of which \<open>n\<close> bytes were written. The
  power-save flags act on the event handler before any check of the packet. The queued packet
  keeps the whole buffer, header included, as its payload; its sequence number and flags stay
  in the header.
\<close>

datatype ps_event = ESP_POWER_SAVE_ON | ESP_POWER_SAVE_OFF

definition ps_flag_event :: "u8 \<Rightarrow> ps_event option" where
  "ps_flag_event f =
     (if f AND FLAG_POWER_SAVE_STARTED \<noteq> 0 then Some ESP_POWER_SAVE_ON
      else if f AND FLAG_POWER_SAVE_STOPPED \<noteq> 0 then Some ESP_POWER_SAVE_OFF
      else None)"

definition sdio_rx_step ::
  "bool \<Rightarrow> byte list \<Rightarrow> nat \<Rightarrow> ps_event option \<times> (prio_q \<times> ibuf) option" where
  "sdio_rx_step chk rx n =
     (let h = get_header rx; plen = n mod 65536; len = unat (h_len h); off = unat (h_offset h)
      in (ps_flag_event (h_flags h),
          if len = 0 \<or> plen < len + off then None
          else if chk \<and> compute_checksum (set_checksum 0 rx) (len + off) \<noteq> h_checksum h then None
          else Some (prio_of (h_if_type h),
                 \<lparr> ib_if_type = h_if_type h, ib_if_num = h_if_num h, ib_flag = 0, ib_seq = 0,
                   ib_payload = take plen (if chk then set_checksum 0 rx else rx),
                   ib_zcopy = False \<rparr>)))"

subsection \<open>Messages in a sequence of packets\<close>

text \<open>
  Both receivers of the serial channel join payloads until a packet without \<open>MORE_FRAGMENT\<close>: the
  messages in a sequence of packets, and what is unfinished at its end.
\<close>

fun messages :: "byte list \<Rightarrow> ibuf list \<Rightarrow> byte list list" where
  "messages acc [] = []"
| "messages acc (p # ps) =
     (if ib_flag p AND MORE_FRAGMENT \<noteq> 0 then messages (acc @ ib_payload p) ps
      else (acc @ ib_payload p) # messages [] ps)"

fun unfinished :: "byte list \<Rightarrow> ibuf list \<Rightarrow> byte list" where
  "unfinished acc [] = acc"
| "unfinished acc (p # ps) =
     (if ib_flag p AND MORE_FRAGMENT \<noteq> 0 then unfinished (acc @ ib_payload p) ps
      else unfinished [] ps)"

lemma messages_append:
  "messages acc (ps @ qs) = messages acc ps @ messages (unfinished acc ps) qs"
  by (induction ps arbitrary: acc) auto

lemma unfinished_append: "unfinished acc (ps @ qs) = unfinished (unfinished acc ps) qs"
  by (induction ps arbitrary: acc) auto

subsection \<open>Lemmas: header and checksum\<close>

lemma length_put_header [simp]: "length (put_header h) = HDR"
  by (simp add: put_header_def HDR_def)

lemma length_set_checksum [simp]: "8 \<le> length b \<Longrightarrow> length (set_checksum v b) = length b"
  by (simp add: set_checksum_def)

lemma small_word_bits:
  assumes "w < 2 ^ n" shows "bit (w :: 'a::len word) k \<Longrightarrow> k < n"
proof -
  assume b: "bit w k"
  show "k < n"
  proof (rule ccontr)
    assume k: "\<not> k < n"
    have "take_bit n w = w" using less_mask_eq [OF assms] by (simp add: take_bit_eq_mask)
    then have "bit (take_bit n w) k" using b by simp
    then show False using k by (simp add: bit_take_bit_iff)
  qed
qed

lemma nibble_pack:
  assumes "t < 16" "n < 16"
  shows "((t AND 15) OR push_bit 4 (n AND 15)) AND 15 = (t :: byte)"
  "drop_bit 4 ((t AND 15) OR push_bit 4 (n AND 15)) = (n :: byte)"
proof -
  have 15: "(15 :: byte) = mask 4" by (simp add: mask_eq_exp_minus_1)
  have t: "\<And>k. bit t k \<Longrightarrow> k < 4" using small_word_bits [of t 4] assms by simp
  have n: "\<And>k. bit n k \<Longrightarrow> k < 4" using small_word_bits [of n 4] assms by simp
  show "((t AND 15) OR push_bit 4 (n AND 15)) AND 15 = (t :: byte)"
    unfolding 15 by (rule bit_word_eqI) (use t n in \<open>auto simp: bit_simps\<close>)
  show "drop_bit 4 ((t AND 15) OR push_bit 4 (n AND 15)) = (n :: byte)"
    unfolding 15 by (rule bit_word_eqI) (use t n in \<open>auto simp: bit_simps\<close>)
qed
lemma get_put_header:
  assumes "h_if_type h < 16" "h_if_num h < 16" "h_throttle_cmd h < 4"
  shows "get_header (put_header h @ xs) = h"
proof -
  have th: "h_throttle_cmd h AND 3 AND 3 = h_throttle_cmd h"
    using less_mask_eq [of "h_throttle_cmd h" 2] assms(3) by (simp add: mask_eq_exp_minus_1)
  show ?thesis
    using nibble_pack [OF assms(1,2)] th by (simp add: get_header_def put_header_def wire)
qed

lemma set_checksum_put [simp]:
  "set_checksum v (put_header h @ xs) = put_header (h\<lparr>h_checksum := v\<rparr>) @ xs"
  by (simp add: set_checksum_def put_header_def)

lemma put_header_same: "put_header (h\<lparr>h_checksum := h_checksum h\<rparr>) = put_header h"
  by simp

lemma checksum_from_add: "checksum_from c bs = c + checksum_from 0 bs"
proof (induction bs arbitrary: c)
  case (Cons b bs)
  show ?case using Cons [of "c + ucast b"] Cons [of "ucast b"] by simp
qed simp

lemma checksum_update:
  assumes "i < length bs"
  shows "checksum_from 0 (bs[i := v]) = checksum_from 0 bs - ucast (bs ! i) + ucast v"
  using assms
proof (induction bs arbitrary: i)
  case (Cons b bs)
  show ?case
  proof (cases i)
    case 0
    then show ?thesis
      using checksum_from_add [of "ucast b" bs] checksum_from_add [of "ucast v" bs] by simp
  next
    case (Suc j)
    then show ?thesis
      using Cons checksum_from_add [of "ucast b" bs] checksum_from_add [of "ucast b" "bs[j := v]"]
      by simp
  qed
qed simp

lemma ucast_byte_inj: "ucast (a :: byte) = (ucast b :: u16) \<Longrightarrow> a = b"
proof -
  assume "ucast a = (ucast b :: u16)"
  then have "ucast (ucast a :: u16) = (ucast (ucast b :: u16) :: byte)" by (rule arg_cong)
  moreover have "ucast (ucast x :: u16) = x" for x :: byte
    by (rule bit_word_eqI) (auto simp: bit_simps)
  ultimately show "a = b" by metis
qed

lemma le_put_get2: "length xs = 2 \<Longrightarrow> le_put 2 (le_get xs :: u16) = xs"
proof -
  assume "length xs = 2"
  then obtain a b where xs: "xs = [a, b]"
    by (metis (no_types, opaque_lifting) One_nat_def Suc_1 length_0_conv length_Suc_conv)
  have "ucast (ucast a OR push_bit 8 (ucast b) :: u16) = a"
    by (rule bit_word_eqI) (auto simp: bit_simps)
  moreover have "ucast (drop_bit 8 (ucast a OR push_bit 8 (ucast b)) :: u16) = b"
    by (rule bit_word_eqI) (auto simp: bit_simps dest: bit_imp_le_length)
  ultimately show ?thesis by (simp add: xs numeral_2_eq_2)
qed

lemma rd16_inj:
  assumes "n + 2 \<le> length b" "n + 2 \<le> length c" "rd16 n b = rd16 n c"
  shows "take 2 (drop n b) = take 2 (drop n c)"
proof -
  have "le_put 2 (rd16 n x) = take 2 (drop n x)" if "n + 2 \<le> length x" for x
    unfolding rd16_def by (rule le_put_get2) (use that in simp)
  then show ?thesis using assms by metis
qed

subsection \<open>Sealed frames\<close>

text \<open>
  What both senders produce with the checksum on: a frame whose length field is right and whose
  checksum field is the sum of its other bytes.
\<close>

definition sealed :: "byte list \<Rightarrow> bool" where
  "sealed f \<longleftrightarrow> HDR < length f \<and> length f = HDR + unat (h_len (get_header f)) \<and>
     unat (h_offset (get_header f)) = HDR \<and>
     checksum_from 0 (set_checksum 0 f) = h_checksum (get_header f)"

definition seal :: "bool \<Rightarrow> esp_payload_header \<Rightarrow> byte list \<Rightarrow> byte list" where
  "seal chk h body = put_header (if chk then
     h\<lparr>h_checksum := checksum_from 0 (put_header (h\<lparr>h_checksum := 0\<rparr>) @ body)\<rparr>
     else h\<lparr>h_checksum := 0\<rparr>) @ body"

lemma length_seal [simp]: "length (seal chk h body) = HDR + length body"
  by (simp add: seal_def)

lemma get_header_seal:
  assumes "h_if_type h < 16" "h_if_num h < 16" "h_throttle_cmd h = 0"
  shows "get_header (seal chk h body @ pad) = h\<lparr>h_checksum := (if chk
      then checksum_from 0 (put_header (h\<lparr>h_checksum := 0\<rparr>) @ body) else 0)\<rparr>"
  using assms by (simp add: seal_def get_put_header)

lemma compute_checksum_seal:
  "length body = n \<Longrightarrow> compute_checksum (set_checksum 0 (seal chk h body @ pad)) (n + HDR) =
     checksum_from 0 (put_header (h\<lparr>h_checksum := 0\<rparr>) @ body)"
  by (auto simp: seal_def compute_checksum_def)

lemma drop_seal [simp]:
  "drop HDR (seal chk h body @ pad) = body @ pad" "drop HDR (seal chk h body) = body"
  by (simp_all add: seal_def)

lemma host_rx_seal:
  assumes "h_if_type h < 16" "h_if_num h < 16" "h_throttle_cmd h = 0"
    "h_len h = word_of_nat (length body)" "h_offset h = word_of_nat HDR"
    "0 < length body" "length body \<le> MAX_PAYLOAD_SIZE"
  shows "host_rx chk (seal chk h body @ pad) = Some (prio_of (h_if_type h),
     \<lparr> ib_if_type = h_if_type h, ib_if_num = h_if_num h, ib_flag = h_flags h,
       ib_seq = h_seq_num h, ib_payload = body, ib_zcopy = False \<rparr>)"
proof -
  have n: "unat (word_of_nat (length body) :: u16) = length body"
    using assms(7) by (simp add: sdio_sizes unsigned_of_nat take_bit_nat_eq_self)
  have o: "unat (word_of_nat HDR :: u16) = HDR" by (simp add: HDR_def)
  show ?thesis
    using assms n o get_header_seal [OF assms(1-3), of chk body pad]
      compute_checksum_seal [of body "length body" chk h pad]
    by (auto simp: host_rx_def is_valid_sdio_rx_packet_def sdio_push_pkt_to_queue_def Let_def)
qed

text \<open>
  What the co-processor reads of a received buffer further up (\<open>process_rx_pkt\<close> and
  \<open>process_serial_rx_pkt\<close>): flags, sequence number and payload, from the header.
\<close>

definition read_packet :: "byte list \<Rightarrow> u8 \<times> u16 \<times> byte list" where
  "read_packet b = (let h = get_header b in
     (h_flags h, h_seq_num h, take (unat (h_len h)) (drop (unat (h_offset h)) b)))"

lemma sdio_rx_seal:
  assumes h: "h_if_type h < 16" "h_if_num h < 16" "h_throttle_cmd h = 0"
    and l: "h_len h = word_of_nat (length body)" "h_offset h = word_of_nat HDR"
      "0 < length body" "length body \<le> MAX_PAYLOAD_SIZE"
    and n: "HDR + length body \<le> n" "n < 65536" "n \<le> HDR + length body + length pad"
  obtains p where "sdio_rx_step chk (seal chk h body @ pad) n = (ps_flag_event (h_flags h),
      Some (prio_of (h_if_type h),
        \<lparr> ib_if_type = h_if_type h, ib_if_num = h_if_num h, ib_flag = 0, ib_seq = 0,
          ib_payload = p, ib_zcopy = False \<rparr>))"
    "length p = n" "read_packet p = (h_flags h, h_seq_num h, body)"
proof -
  have len: "unat (word_of_nat (length body) :: u16) = length body"
    using l(4) by (simp add: sdio_sizes unsigned_of_nat take_bit_nat_eq_self)
  have o: "unat (word_of_nat HDR :: u16) = HDR" by (simp add: HDR_def)
  note gh = get_header_seal [OF h]
  have acc: "compute_checksum (set_checksum 0 (seal chk h body @ pad)) (length body + HDR) =
     checksum_from 0 (put_header (h\<lparr>h_checksum := 0\<rparr>) @ body)"
    by (rule compute_checksum_seal) simp
  define q where "q = take (n - HDR - length body) pad"
  have t: "take n (seal chk h body @ pad) = seal chk h body @ q"
    using n by (simp add: q_def)
  have t0: "take n (set_checksum 0 (seal chk h body @ pad)) =
      put_header (h\<lparr>h_checksum := 0\<rparr>) @ body @ q"
    using n by (simp add: seal_def q_def)
  let ?p = "if chk then put_header (h\<lparr>h_checksum := 0\<rparr>) @ body @ q else seal chk h body @ q"
  have g0: "get_header (put_header (h\<lparr>h_checksum := 0\<rparr>) @ body @ q) = h\<lparr>h_checksum := 0\<rparr>"
    using get_put_header [of "h\<lparr>h_checksum := 0\<rparr>" "body @ q"] h by simp
  show ?thesis
  proof
    show "length ?p = n" using n by (simp add: q_def)
    show "read_packet ?p = (h_flags h, h_seq_num h, body)"
      using l len o g0 gh [of chk body q] by (cases chk) (simp_all add: read_packet_def Let_def)
    show "sdio_rx_step chk (seal chk h body @ pad) n = (ps_flag_event (h_flags h),
      Some (prio_of (h_if_type h),
        \<lparr> ib_if_type = h_if_type h, ib_if_num = h_if_num h, ib_flag = 0, ib_seq = 0,
          ib_payload = ?p, ib_zcopy = False \<rparr>))"
      using l len o n t t0 acc gh [of chk body pad]
      by (auto simp: sdio_rx_step_def Let_def)
  qed
qed

definition tx_header :: "ibuf \<Rightarrow> nat \<Rightarrow> u8 \<Rightarrow> esp_payload_header" where
  "tx_header ib n pt = \<lparr> h_if_type = ib_if_type ib, h_if_num = ib_if_num ib,
     h_flags = ib_flag ib, h_len = word_of_nat n, h_offset = word_of_nat HDR,
     h_checksum = 0, h_seq_num = ib_seq ib, h_throttle_cmd = 0, h_pkt_type = pt \<rparr>"

lemma update_tx_header_seal:
  "update_tx_header chk ib = seal chk (tx_header ib (length (ib_payload ib)) 0) (ib_payload ib)"
  by (simp add: update_tx_header_def seal_def tx_header_def Let_def compute_checksum_def)

text \<open>The bytes of a packet that travel behind the header.\<close>

definition wire_body :: "ibuf \<Rightarrow> byte list" where
  "wire_body ib = (if ib_if_type ib = ESP_HCI_IF \<and> \<not> ib_zcopy ib then drop 1 (ib_payload ib)
                   else ib_payload ib)"

lemma sdio_frame_seal:
  "\<exists>pt. sdio_frame chk (length (ib_payload ib)) ib =
     seal chk (tx_header ib (length (wire_body ib)) pt) (wire_body ib)"
  by (auto simp: sdio_frame_def seal_def tx_header_def wire_body_def Let_def compute_checksum_def)

lemma tx_header_simps [simp]:
  "h_if_type (tx_header ib n pt) = ib_if_type ib" "h_if_num (tx_header ib n pt) = ib_if_num ib"
  "h_flags (tx_header ib n pt) = ib_flag ib" "h_len (tx_header ib n pt) = word_of_nat n"
  "h_offset (tx_header ib n pt) = word_of_nat HDR" "h_seq_num (tx_header ib n pt) = ib_seq ib"
  "h_throttle_cmd (tx_header ib n pt) = 0"
  by (simp_all add: tx_header_def)

text \<open>
  A packet goes out in the round that dequeued it, as its own frame, when the length variable is
  still kept up to date and the bus cooperates.
\<close>

lemma sdio_write_step_sends:
  assumes "wt_tx_needed t" "ib_payload ib \<noteq> []" "length (ib_payload ib) \<le> MAX_PAYLOAD_SIZE"
    "fst (sdio_is_write_buffer_available reg (wt_count t) 1 (wt_avail t))" "wr 0 \<or> wr 1"
  shows "\<exists>t'. sdio_write_step chk reg wr (Some ib) t =
     (t', Tx_sent (sdio_frame chk (length (ib_payload ib)) ib)) \<and> wt_tx_needed t'"
proof -
  have need: "(n + HDR + MAX_SDIO_BUFFER_SIZE - 1) div MAX_SDIO_BUFFER_SIZE = 1"
    if "n \<le> MAX_PAYLOAD_SIZE" for n
    using that by (simp add: sdio_sizes div_nat_eqI)
  have wr: "list_ex wr [0..<MAX_SDIO_WRITE_RETRY]"
    using assms(5) by (auto simp: MAX_SDIO_WRITE_RETRY_def numeral_2_eq_2)
  obtain n where av: "sdio_is_write_buffer_available reg (wt_count t) (Suc 0) (wt_avail t) = (True, n)"
    using assms(4) by (metis One_nat_def prod.collapse)
  show ?thesis
    using assms(1-3) wr av need [of "length (ib_payload ib)"] need [of "length (ib_payload ib) - 1"]
    by (auto simp: sdio_write_step_def Let_def MAX_PAYLOAD_SIZE_def)
qed

subsection \<open>Damage\<close>

lemma sealed_seal:
  assumes "h_if_type h < 16" "h_if_num h < 16" "h_throttle_cmd h = 0"
    "h_len h = word_of_nat (length body)" "h_offset h = word_of_nat HDR"
    "0 < length body" "length body < 65536"
  shows "sealed (seal True h body)"
proof -
  have n: "unat (word_of_nat (length body) :: u16) = length body"
    using assms(7) by (simp add: unsigned_of_nat take_bit_nat_eq_self)
  have o: "unat (word_of_nat HDR :: u16) = HDR" by (simp add: HDR_def)
  have "checksum_from 0 (set_checksum 0 (seal True h body)) =
      checksum_from 0 (put_header (h\<lparr>h_checksum := 0\<rparr>) @ body)"
    by (simp add: seal_def)
  then show ?thesis
    using assms n o get_header_seal [OF assms(1-3), of True body "[]"]
    by (simp add: sealed_def sdio_sizes)
qed

lemma rd16_update_other: "i < n \<or> n + 2 \<le> i \<Longrightarrow> rd16 n (f[i := v]) = rd16 n f"
  by (auto simp: rd16_def drop_update_swap not_le)

lemma rd16_update_here:
  assumes "n \<le> i" "i < n + 2" "n + 2 \<le> length f" "f ! i \<noteq> v"
  shows "rd16 n (f[i := v]) \<noteq> rd16 n f"
proof
  assume "rd16 n (f[i := v]) = rd16 n f"
  then have "take 2 (drop n (f[i := v])) = take 2 (drop n f)"
    using assms by (intro rd16_inj) auto
  then have "take 2 (drop n (f[i := v])) ! (i - n) = take 2 (drop n f) ! (i - n)" by simp
  then show False using assms by simp
qed

lemma set_checksum_update_here:
  "6 \<le> i \<Longrightarrow> i < 8 \<Longrightarrow> set_checksum 0 (f[i := v]) = set_checksum 0 f"
  by (simp add: set_checksum_def)

lemma set_checksum_update_other:
  assumes "i < 6 \<or> 8 \<le> i" "8 \<le> length f"
  shows "set_checksum 0 (f[i := v]) = (set_checksum 0 f)[i := v]"
  using assms
  by (auto simp: set_checksum_def list_update_append drop_update_swap take_update_swap
      intro!: list_update_beyond)

text \<open>Any one damaged byte outside the length and offset fields breaks the checksum.\<close>

lemma damage_breaks_checksum:
  assumes f: "sealed f" and i: "i < length f" "i < 2 \<or> 6 \<le> i" "f ! i \<noteq> v"
  defines "g \<equiv> f[i := v]"
  shows "h_len (get_header g) = h_len (get_header f)"
    "h_offset (get_header g) = h_offset (get_header f)"
    "checksum_from 0 (set_checksum 0 g) \<noteq> h_checksum (get_header g)"
proof -
  show "h_len (get_header g) = h_len (get_header f)"
    "h_offset (get_header g) = h_offset (get_header f)"
    using i by (auto simp: g_def get_header_def rd16_update_other)
  have len: "12 < length f" using f by (simp add: sealed_def HDR_def)
  have sum: "checksum_from 0 (set_checksum 0 f) = rd16 6 f"
    using f by (simp add: sealed_def get_header_def)
  show "checksum_from 0 (set_checksum 0 g) \<noteq> h_checksum (get_header g)"
  proof (cases "6 \<le> i \<and> i < 8")
    case True
    then show ?thesis
      using rd16_update_here [of 6 i f v] i len sum
      by (simp add: g_def get_header_def set_checksum_update_here)
  next
    case False
    then have j: "i < 6 \<or> 8 \<le> i" by auto
    have b: "set_checksum 0 f ! i = f ! i"
      using j len i(1) by (auto simp: set_checksum_def nth_append)
    have "checksum_from 0 (set_checksum 0 g) = rd16 6 f - ucast (f ! i) + ucast v"
      using j len i(1) sum b checksum_update [of i "set_checksum 0 f" v]
      by (simp add: g_def set_checksum_update_other)
    moreover have "rd16 6 g = rd16 6 f" using j by (auto simp: g_def rd16_update_other)
    moreover have "rd16 6 f - ucast (f ! i) + ucast v \<noteq> rd16 6 f"
      using i(3) ucast_byte_inj [of v "f ! i"] by (auto simp: algebra_simps)
    ultimately show ?thesis by (simp add: get_header_def)
  qed
qed

lemma get_header_pad: "12 \<le> length f \<Longrightarrow> get_header (f @ pad) = get_header f"
  by (cases f) (auto simp: get_header_def rd8_def rd16_def nth_append)

lemma set_checksum_pad: "8 \<le> length f \<Longrightarrow> set_checksum v (f @ pad) = set_checksum v f @ pad"
  by (simp add: set_checksum_def)

lemma damaged_dropped:
  assumes f: "sealed f" and i: "i < length f" "i < 2 \<or> 6 \<le> i" "f ! i \<noteq> v"
  shows "host_rx True (f[i := v] @ pad) = None" "snd (sdio_rx_step True (f[i := v] @ pad) n) = None"
proof -
  let ?g = "f[i := v]"
  note d = damage_breaks_checksum [OF f i]
  have len: "HDR < length f" "unat (h_len (get_header f)) + HDR = length f"
    "unat (h_offset (get_header f)) = HDR"
    using f by (simp_all add: sealed_def)
  have g: "get_header (?g @ pad) = get_header ?g"
    using len by (simp add: get_header_pad HDR_def)
  have c: "compute_checksum (set_checksum 0 (?g @ pad)) (unat (h_len (get_header f)) + HDR) =
      checksum_from 0 (set_checksum 0 ?g)"
    using len by (simp add: compute_checksum_def set_checksum_pad HDR_def)
  show "host_rx True (?g @ pad) = None"
    using d len(3) c by (simp add: host_rx_def is_valid_sdio_rx_packet_def g Let_def)
  show "snd (sdio_rx_step True (?g @ pad) n) = None"
    using d len(3) c by (simp add: sdio_rx_step_def g Let_def)
qed

subsection \<open>Properties\<close>

text \<open>A packet that the host queues and whose write round runs with \<open>tx_needed\<close> set reaches
  the co-processor as it is: \<open>sdio_write_task\<close> sends one frame, and \<open>sdio_rx_task\<close> accepts that
  frame, whatever bytes pad the receive buffer behind it and with the checksum on or off, queues
  it by the same priority rule, and the header and payload it keeps give the packet's interface,
  number, flags, sequence number and bytes.\<close>

theorem host_packet_reaches_slave:
  assumes "nibbles ib" "ib_payload ib \<noteq> []" "length (ib_payload ib) \<le> MAX_PAYLOAD_SIZE"
    "ib_if_type ib \<noteq> ESP_HCI_IF" "wt_tx_needed t"
    "fst (sdio_is_write_buffer_available reg (wt_count t) 1 (wt_avail t))" "wr 0 \<or> wr 1"
    "HDR + length (ib_payload ib) + length pad = n" "n < 65536"
  shows "\<exists>t' f p. sdio_write_step chk reg wr (Some ib) t = (t', Tx_sent f) \<and> wt_tx_needed t' \<and>
    sdio_rx_step chk (f @ pad) n = (ps_flag_event (ib_flag ib), Some (prio_of (ib_if_type ib),
      \<lparr> ib_if_type = ib_if_type ib, ib_if_num = ib_if_num ib, ib_flag = 0, ib_seq = 0,
        ib_payload = p, ib_zcopy = False \<rparr>)) \<and>
    read_packet p = (ib_flag ib, ib_seq ib, ib_payload ib)"
proof -
  obtain t' where t': "wt_tx_needed t'" "sdio_write_step chk reg wr (Some ib) t =
      (t', Tx_sent (sdio_frame chk (length (ib_payload ib)) ib))"
    using sdio_write_step_sends [OF assms(5,2,3,6,7)] by blast
  have body: "wire_body ib = ib_payload ib" using assms(4) by (simp add: wire_body_def)
  obtain pt where f: "sdio_frame chk (length (ib_payload ib)) ib =
      seal chk (tx_header ib (length (ib_payload ib)) pt) (ib_payload ib)"
    using sdio_frame_seal [of chk ib] by (auto simp: body)
  show ?thesis
    using sdio_rx_seal [of "tx_header ib (length (ib_payload ib)) pt" "ib_payload ib" n pad chk]
      assms t' by (auto simp: f nibbles_def)
qed

text \<open>In the other direction: a packet \<open>sdio_write\<close> sends is accepted by
  \<open>is_valid_sdio_rx_packet\<close> and queued for the host's dispatcher with its interface, number,
  flags, sequence number and bytes, whatever follows it in the receive buffer.\<close>

theorem slave_packet_reaches_host:
  assumes "nibbles ib" "ib_payload ib \<noteq> []" "length (ib_payload ib) \<le> MAX_PAYLOAD_SIZE"
  shows "\<exists>f. sdio_write chk True False null True True ib = (int (length (ib_payload ib)), Some f) \<and>
    host_rx chk (f @ pad) = Some (prio_of (ib_if_type ib), ib\<lparr>ib_zcopy := False\<rparr>)"
  using host_rx_seal [of "tx_header ib (length (ib_payload ib)) 0" "ib_payload ib" chk pad] assms
  by (simp add: sdio_write_def update_tx_header_seal nibbles_def)


text \<open>The power-save flags are obeyed before the checksum is looked at: a serial packet
  whose flags byte was damaged into \<open>FLAG_POWER_SAVE_STARTED\<close> is dropped, and still the
  co-processor enters power save.\<close>

theorem damaged_flags_enter_power_save:
  assumes "nibbles ib" "ib_payload ib \<noteq> []" "length (ib_payload ib) \<le> MAX_PAYLOAD_SIZE"
    "ib_if_type ib = ESP_SERIAL_IF" "ib_flag ib = 0"
    "f = sdio_frame True (length (ib_payload ib)) ib"
  shows "sdio_rx_step True (f[1 := FLAG_POWER_SAVE_STARTED] @ pad) n = (Some ESP_POWER_SAVE_ON, None)"
proof -
  have body: "wire_body ib = ib_payload ib" using assms(4) by (simp add: wire_body_def esp_ifs)
  obtain pt where f: "f = seal True (tx_header ib (length (ib_payload ib)) pt) (ib_payload ib)"
    using sdio_frame_seal [of True ib] assms(6) by (auto simp: body)
  have s: "sealed f" using assms(1-3) by (auto simp: f nibbles_def sdio_sizes intro!: sealed_seal)
  then have len: "12 < length f" by (simp add: sealed_def HDR_def)
  have "f ! 1 = h_flags (get_header f)" by (simp add: get_header_def rd8_def)
  moreover have "h_flags (get_header f) = 0"
    using get_header_seal [of "tx_header ib (length (ib_payload ib)) pt" True "ib_payload ib" "[]"]
      assms(1,5) by (simp add: f nibbles_def)
  ultimately have v: "f ! 1 \<noteq> FLAG_POWER_SAVE_STARTED" by (simp add: FLAG_POWER_SAVE_STARTED_def)
  have "snd (sdio_rx_step True (f[1 := FLAG_POWER_SAVE_STARTED] @ pad) n) = None"
    using damaged_dropped(2) [OF s _ _ v] len by simp
  moreover have "fst (sdio_rx_step True (f[1 := FLAG_POWER_SAVE_STARTED] @ pad) n) = Some ESP_POWER_SAVE_ON"
    using len by (simp add: sdio_rx_step_def get_header_def rd8_def nth_append Let_def
        ps_flag_event_def FLAG_POWER_SAVE_STARTED_def)
  ultimately show ?thesis by (metis prod.collapse)
qed

text \<open>After one round of \<open>sdio_write_task\<close> that found no packet, the length variable is never
  set again: a shorter packet of the next rounds is copied past its end, and a longer one is cut
  to the old length.\<close>

theorem empty_round_freezes_length:
  assumes "t1 = fst (sdio_write_step chk reg0 wr0 None t)" "wt_len t \<noteq> 0"
    "ib_if_type ib \<noteq> ESP_HCI_IF" "length (ib_payload ib) \<le> MAX_PAYLOAD_SIZE"
    "sdio_write_step chk reg wr (Some ib) t1 = (t2, out)"
  shows "\<not> wt_tx_needed t2 \<and> wt_len t2 = wt_len t \<and>
    (length (ib_payload ib) < wt_len t \<longrightarrow> out = Tx_overread) \<and>
    (\<forall>f. out = Tx_sent f \<longrightarrow> f = sdio_frame chk (wt_len t) ib)"
proof -
  have t1: "\<not> wt_tx_needed t1" "wt_len t1 = wt_len t"
    by (auto simp: assms(1) sdio_write_step_def Let_def split: option.splits)
  show ?thesis
    using assms(2-5) t1
    by (auto simp: sdio_write_step_def Let_def MAX_PAYLOAD_SIZE_def
        split: prod.splits bool.splits if_splits)
qed

subsection \<open>Concrete instances\<close>

definition demo_pkt :: ibuf where
  "demo_pkt = \<lparr> ib_if_type = ESP_SERIAL_IF, ib_if_num = 0, ib_flag = 0, ib_seq = 7,
     ib_payload = [1, 2, 3], ib_zcopy = False \<rparr>"

lemma demo_pkt_ok:
  "nibbles demo_pkt" "ib_payload demo_pkt \<noteq> []" "length (ib_payload demo_pkt) \<le> MAX_PAYLOAD_SIZE"
  "ib_if_type demo_pkt \<noteq> ESP_HCI_IF" "ib_if_type demo_pkt = ESP_SERIAL_IF" "ib_flag demo_pkt = 0"
  by (simp_all add: demo_pkt_def nibbles_def esp_ifs sdio_sizes)

theorem host_packet_reaches_slave_witness:
  "\<exists>t' f p. sdio_write_step True (\<lambda>_. Token_reg 0x10000) (\<lambda>_. True) (Some demo_pkt) wtask_init
      = (t', Tx_sent f) \<and> wt_tx_needed t' \<and>
    sdio_rx_step True (f @ [9, 9]) 17 = (ps_flag_event (ib_flag demo_pkt),
      Some (prio_of (ib_if_type demo_pkt),
      \<lparr> ib_if_type = ib_if_type demo_pkt, ib_if_num = ib_if_num demo_pkt, ib_flag = 0, ib_seq = 0,
        ib_payload = p, ib_zcopy = False \<rparr>)) \<and>
    read_packet p = (ib_flag demo_pkt, ib_seq demo_pkt, ib_payload demo_pkt)"
proof (rule host_packet_reaches_slave)
  show "wt_tx_needed wtask_init" by (simp add: wtask_init_def)
  show "fst (sdio_is_write_buffer_available (\<lambda>_. Token_reg 0x10000) (wt_count wtask_init) 1
      (wt_avail wtask_init))"
    by code_simp
  show "HDR + length (ib_payload demo_pkt) + length [9 :: byte, 9] = 17"
    by (simp add: demo_pkt_def HDR_def)
qed (simp_all add: demo_pkt_ok(1-4))

theorem slave_packet_reaches_host_witness:
  "\<exists>f. sdio_write True True False False True True demo_pkt
      = (int (length (ib_payload demo_pkt)), Some f) \<and>
    host_rx True (f @ [9]) = Some (prio_of (ib_if_type demo_pkt), demo_pkt\<lparr>ib_zcopy := False\<rparr>)"
  by (rule slave_packet_reaches_host [OF demo_pkt_ok(1-3)])


theorem damaged_flags_enter_power_save_witness:
  "sdio_rx_step True ((sdio_frame True (length (ib_payload demo_pkt)) demo_pkt)
     [1 := FLAG_POWER_SAVE_STARTED] @ [9]) 16 = (Some ESP_POWER_SAVE_ON, None)"
  by (rule damaged_flags_enter_power_save [OF demo_pkt_ok(1-3) demo_pkt_ok(5,6) refl])

theorem empty_round_freezes_length_witness:
  "\<not> wt_tx_needed (wtask_init\<lparr>wt_buf := Some demo_pkt, wt_len := 8, wt_tx_needed := False\<rparr>) \<and>
   snd (sdio_write_step True (\<lambda>_. Unresponsive) (\<lambda>_. True) (Some demo_pkt)
     (fst (sdio_write_step True (\<lambda>_. Unresponsive) (\<lambda>_. True) None
       (wtask_init\<lparr>wt_buf := Some demo_pkt, wt_len := 8\<rparr>)))) = Tx_overread"
proof -
  obtain t2 out where s: "sdio_write_step True (\<lambda>_. Unresponsive) (\<lambda>_. True) (Some demo_pkt)
     (fst (sdio_write_step True (\<lambda>_. Unresponsive) (\<lambda>_. True) None
       (wtask_init\<lparr>wt_buf := Some demo_pkt, wt_len := 8\<rparr>))) = (t2, out)"
    by (metis prod.collapse)
  have "wt_len (wtask_init\<lparr>wt_buf := Some demo_pkt, wt_len := 8\<rparr>) \<noteq> 0"
    "length (ib_payload demo_pkt) < wt_len (wtask_init\<lparr>wt_buf := Some demo_pkt, wt_len := 8\<rparr>)"
    by (simp_all add: wtask_init_def demo_pkt_def)
  then show ?thesis
    using empty_round_freezes_length [OF refl _ demo_pkt_ok(4) demo_pkt_ok(3) s] s by simp
qed

end
