(* ===== verification/Serial_Slave.thy ===== *)
theory Serial_Slave
  imports Pserial Transport_Frame
begin

section \<open>The serial channel of the co-processor (esp_hosted_coprocessor.c)\<close>

text \<open>
  The functions \<open>esp_hosted_coprocessor_init\<close> gives to the RPC endpoint and what stands behind
  them: the receive buffer \<open>r\<close> that joins fragments (\<open>process_serial_rx_pkt\<close>), its reader
  (\<open>serial_read_data\<close>), the fragmenting sender (\<open>serial_write_data\<close>) and the way of every
  packet to the bus driver (\<open>send_to_host_queue\<close>, \<open>process_tx_pkt\<close>, with the priority queues
  bypassed as the code is built). Whether the host sleeps and can be woken is a parameter.
\<close>

subsection \<open>Sending\<close>

text \<open>
  \<open>cp_written\<close> are the packets given to the driver's \<open>write\<close>, whose result is ignored;
  \<open>cp_seq\<close> is the static sequence number of \<open>serial_write_data\<close>.
\<close>

record serial_rx =
  r_valid :: bool
  r_cur_seq_no :: u16
  r_data :: "byte list"

record copro =
  cp_datapath :: bool
  cp_if_write :: bool
  cp_rx :: serial_rx
  cp_seq :: u16
  cp_written :: "ibuf list"

record pm_env =
  pm_saving :: bool
  pm_wakeup_needed :: "ibuf \<Rightarrow> bool"
  pm_wakeup_host :: bool

definition process_tx_pkt :: "pm_env \<Rightarrow> ibuf \<Rightarrow> copro \<Rightarrow> copro" where
  "process_tx_pkt pm ib s =
     (if \<not> cp_datapath s \<or> \<not> cp_if_write s then s
      else if pm_saving pm \<and> pm_wakeup_needed pm ib then
        (if pm_wakeup_host pm
         then s\<lparr>cp_written := cp_written s @ [ib\<lparr>ib_flag := ib_flag ib OR FLAG_WAKEUP_PKT\<rparr>]\<rparr>
         else s)
      else s\<lparr>cp_written := cp_written s @ [ib]\<rparr>)"

definition send_to_host_queue :: "pm_env \<Rightarrow> ibuf \<Rightarrow> copro \<Rightarrow> esp_err \<times> copro" where
  "send_to_host_queue pm ib s = (ESP_OK, process_tx_pkt pm ib s)"

definition ETH_DATA_LEN :: nat where "ETH_DATA_LEN = 1500"

definition serial_pkt :: "u8 \<Rightarrow> u16 \<Rightarrow> byte list \<Rightarrow> ibuf" where
  "serial_pkt flag seq b = \<lparr> ib_if_type = ESP_SERIAL_IF, ib_if_num = 0, ib_flag = flag,
     ib_seq = seq, ib_payload = b, ib_zcopy = False \<rparr>"

function serial_write_data :: "pm_env \<Rightarrow> byte list \<Rightarrow> copro \<Rightarrow> esp_err \<times> copro" where
  "serial_write_data pm data s =
     (let s1 = s\<lparr>cp_seq := cp_seq s + 1\<rparr>;
          more = ETH_DATA_LEN < length data;
          pkt = serial_pkt (if more then MORE_FRAGMENT else 0) (cp_seq s1)
                  (if more then take ETH_DATA_LEN data else data)
      in case send_to_host_queue pm pkt s1 of (ret, s2) \<Rightarrow>
           if ret \<noteq> ESP_OK then (ESP_FAIL, s2)
           else if more then serial_write_data pm (drop ETH_DATA_LEN data) s2
           else (ESP_OK, s2))"
  by pat_completeness auto
termination
  by (relation "measure (\<lambda>(_, data, _). length data)") (auto simp: ETH_DATA_LEN_def)

declare serial_write_data.simps [simp del]

subsection \<open>Receiving\<close>

text \<open>
  \<open>process_serial_rx_pkt\<close> in two parts, because it waits in between for the last message to be
  read: it computes the room left in the buffer on entry, and stores the packet once \<open>r.valid\<close>
  is clear. A packet is the flags, sequence number and payload of its header. The second
  result of the store is the message given to \<open>parse_protobuf_req\<close>.
\<close>

definition R_SIZE :: nat where "R_SIZE = 8192"

definition rem_buff_size :: "serial_rx \<Rightarrow> nat" where
  "rem_buff_size r = R_SIZE - length (r_data r)"

definition serial_rx_store ::
  "nat \<Rightarrow> u8 \<times> u16 \<times> byte list \<Rightarrow> serial_rx \<Rightarrow> serial_rx \<times> byte list option" where
  "serial_rx_store room pkt r =
     (case pkt of (flags, seq, payload) \<Rightarrow>
        let r1 = (if r_data r = [] then r\<lparr>r_cur_seq_no := seq\<rparr> else r) in
        if seq \<noteq> r_cur_seq_no r1 then (r1\<lparr>r_valid := True\<rparr>, Some (r_data r1))
        else let r2 = r1\<lparr>r_data := r_data r1 @ take (min (length payload) room) payload\<rparr> in
          if flags AND MORE_FRAGMENT = 0 then (r2\<lparr>r_valid := True\<rparr>, Some (r_data r2))
          else (r2, None))"

definition serial_read_data :: "byte list \<Rightarrow> serial_rx \<Rightarrow> (nat \<times> byte list) \<times> serial_rx" where
  "serial_read_data block r =
     (let len = min (length block) (length (r_data r)) in
      if r_valid r then ((len, take len (r_data r) @ drop len block),
                         r\<lparr>r_valid := False, r_data := [], r_cur_seq_no := 0\<rparr>)
      else ((len, block), r))"

text \<open>A packet that finds the buffer free is stored at once.\<close>

definition process_serial_rx_pkt ::
  "u8 \<times> u16 \<times> byte list \<Rightarrow> serial_rx \<Rightarrow> serial_rx \<times> byte list option" where
  "process_serial_rx_pkt pkt r = serial_rx_store (rem_buff_size r) pkt r"

fun serial_rx_pkts ::
  "(u8 \<times> u16 \<times> byte list) list \<Rightarrow> serial_rx \<Rightarrow> serial_rx \<times> byte list list" where
  "serial_rx_pkts [] r = (r, [])"
| "serial_rx_pkts (p # ps) r =
     (case process_serial_rx_pkt p r of (r1, m) \<Rightarrow>
        case serial_rx_pkts ps r1 of (r2, ms) \<Rightarrow>
          (r2, (case m of None \<Rightarrow> ms | Some x \<Rightarrow> x # ms)))"

text \<open>
  The receive task and the RPC task share \<open>r\<close> without a lock. A state is the buffer and the
  packet, if any, that waits in \<open>process_serial_rx_pkt\<close>, with the room it computed on entry.
\<close>

record rx_sys =
  rx_buf :: serial_rx
  rx_wait :: "(nat \<times> u8 \<times> u16 \<times> byte list) option"

inductive rx_step :: "rx_sys \<Rightarrow> rx_sys \<Rightarrow> bool" where
  rx_arrive: "rx_wait s = None \<Longrightarrow>
    rx_step s (s\<lparr>rx_wait := Some (rem_buff_size (rx_buf s), pkt)\<rparr>)"
| rx_store: "rx_wait s = Some (room, pkt) \<Longrightarrow> \<not> r_valid (rx_buf s) \<Longrightarrow>
    rx_step s (s\<lparr>rx_wait := None, rx_buf := fst (serial_rx_store room pkt (rx_buf s))\<rparr>)"
| rx_read: "r_valid (rx_buf s) \<Longrightarrow>
    rx_step s (s\<lparr>rx_buf := snd (serial_read_data block (rx_buf s))\<rparr>)"

definition rx_init :: rx_sys where
  "rx_init = \<lparr> rx_buf = \<lparr> r_valid = False, r_cur_seq_no = 0, r_data = [] \<rparr>, rx_wait = None \<rparr>"

inductive rx_reachable :: "rx_sys \<Rightarrow> bool" where
  rx_start: "rx_reachable rx_init"
| rx_next: "rx_reachable s \<Longrightarrow> rx_step s s' \<Longrightarrow> rx_reachable s'"

inductive_cases rx_stepE: "rx_step s s'"

subsection \<open>Lemmas: fragments and messages\<close>

text \<open>The packets of one message.\<close>

function frags :: "u16 \<Rightarrow> byte list \<Rightarrow> ibuf list" where
  "frags seq d = (if ETH_DATA_LEN < length d
     then serial_pkt MORE_FRAGMENT (seq + 1) (take ETH_DATA_LEN d) # frags (seq + 1) (drop ETH_DATA_LEN d)
     else [serial_pkt 0 (seq + 1) d])"
  by pat_completeness auto
termination
  by (relation "measure (\<lambda>(_, d). length d)") (auto simp: ETH_DATA_LEN_def)

declare frags.simps [simp del]

lemma serial_pkt_simps [simp]:
  "ib_flag (serial_pkt f q b) = f" "ib_payload (serial_pkt f q b) = b"
  "ib_seq (serial_pkt f q b) = q" "ib_if_type (serial_pkt f q b) = ESP_SERIAL_IF"
  "ib_if_num (serial_pkt f q b) = 0" "ib_zcopy (serial_pkt f q b) = False"
  by (simp_all add: serial_pkt_def)

lemma frags_message: "messages acc (frags seq d) = [acc @ d] \<and> unfinished acc (frags seq d) = []"
proof (induction seq d arbitrary: acc rule: frags.induct)
  case (1 seq d)
  then show ?case by (auto simp: frags.simps [of seq d] MORE_FRAGMENT_def)
qed

lemma frags_sizes: "p \<in> set (frags seq d) \<Longrightarrow> length (ib_payload p) \<le> ETH_DATA_LEN"
proof (induction seq d rule: frags.induct)
  case (1 seq d)
  then show ?case by (auto simp: frags.simps [of seq d] split: if_splits)
qed

lemma frags_nonempty: "d \<noteq> [] \<Longrightarrow> p \<in> set (frags seq d) \<Longrightarrow> ib_payload p \<noteq> []"
proof (induction seq d rule: frags.induct)
  case (1 seq d)
  then show ?case
    by (auto simp: frags.simps [of seq d] ETH_DATA_LEN_def split: if_splits)
qed

definition link_open :: "pm_env \<Rightarrow> copro \<Rightarrow> bool" where
  "link_open pm s \<longleftrightarrow> cp_datapath s \<and> cp_if_write s \<and> \<not> pm_saving pm"

lemma serial_write_frags:
  "link_open pm s \<Longrightarrow> \<exists>q. serial_write_data pm d s =
     (ESP_OK, s\<lparr>cp_seq := q, cp_written := cp_written s @ frags (cp_seq s) d\<rparr>)"
proof (induction pm d s rule: serial_write_data.induct)
  case (1 pm d s)
  let ?s1 = "s\<lparr>cp_seq := cp_seq s + 1\<rparr>"
  let ?more = "ETH_DATA_LEN < length d"
  let ?pkt = "serial_pkt (if ?more then MORE_FRAGMENT else 0) (cp_seq s + 1)
      (if ?more then take ETH_DATA_LEN d else d)"
  let ?s2 = "?s1\<lparr>cp_written := cp_written s @ [?pkt]\<rparr>"
  have send: "send_to_host_queue pm ?pkt ?s1 = (ESP_OK, ?s2)"
    using 1(2) by (auto simp: send_to_host_queue_def process_tx_pkt_def link_open_def)
  show ?case
  proof (cases ?more)
    case True
    have "link_open pm ?s2" using 1(2) by (simp add: link_open_def)
    then obtain q where "serial_write_data pm (drop ETH_DATA_LEN d) ?s2 =
        (ESP_OK, ?s2\<lparr>cp_seq := q, cp_written := cp_written ?s2 @ frags (cp_seq ?s2) (drop ETH_DATA_LEN d)\<rparr>)"
      using 1(1) send True by fastforce
    then show ?thesis
      using True send
      by (auto simp: serial_write_data.simps [of pm d s] frags.simps [of "cp_seq s" d] Let_def)
  next
    case False
    then show ?thesis
      using send
      by (auto simp: serial_write_data.simps [of pm d s] frags.simps [of "cp_seq s" d] Let_def)
  qed
qed

text \<open>A closed data path loses every packet and still reports success.\<close>

lemma serial_write_closed:
  "\<not> cp_datapath s \<Longrightarrow> \<exists>q. serial_write_data pm d s = (ESP_OK, s\<lparr>cp_seq := q\<rparr>)"
proof (induction pm d s rule: serial_write_data.induct)
  case (1 pm d s)
  let ?s1 = "s\<lparr>cp_seq := cp_seq s + 1\<rparr>"
  have send: "send_to_host_queue pm p ?s1 = (ESP_OK, ?s1)" for p
    using 1(2) by (auto simp: send_to_host_queue_def process_tx_pkt_def)
  show ?case
  proof (cases "ETH_DATA_LEN < length d")
    case True
    then obtain q where "serial_write_data pm (drop ETH_DATA_LEN d) ?s1 = (ESP_OK, ?s1\<lparr>cp_seq := q\<rparr>)"
      using 1 send by fastforce
    then show ?thesis using True send by (auto simp: serial_write_data.simps [of pm d s] Let_def)
  next
    case False
    then show ?thesis using send by (auto simp: serial_write_data.simps [of pm d s] Let_def)
  qed
qed

text \<open>One message in fragments with one sequence number, received into an empty buffer.\<close>

fun rx_fragments :: "u16 \<Rightarrow> byte list list \<Rightarrow> (u8 \<times> u16 \<times> byte list) list" where
  "rx_fragments q [] = []"
| "rx_fragments q [c] = [(0, q, c)]"
| "rx_fragments q (c # cs) = (MORE_FRAGMENT, q, c) # rx_fragments q cs"

lemma rx_message:
  assumes "cs \<noteq> []" "r_data r = [] \<or> r_cur_seq_no r = q"
    "length (r_data r) + length (concat cs) \<le> R_SIZE"
  shows "serial_rx_pkts (rx_fragments q cs) r =
    (\<lparr> r_valid = True, r_cur_seq_no = q, r_data = r_data r @ concat cs \<rparr>, [r_data r @ concat cs])"
  using assms
proof (induction q cs arbitrary: r rule: rx_fragments.induct)
  case (2 q c)
  then show ?case
    by (auto simp: process_serial_rx_pkt_def serial_rx_store_def rem_buff_size_def Let_def)
next
  case (3 q c c' cs)
  let ?r1 = "r\<lparr>r_cur_seq_no := q, r_data := r_data r @ c\<rparr>"
  have "process_serial_rx_pkt (MORE_FRAGMENT, q, c) r = (?r1, None)"
    using 3(3,4)
    by (auto simp: process_serial_rx_pkt_def serial_rx_store_def rem_buff_size_def Let_def
        MORE_FRAGMENT_def)
  then show ?case using 3(1) [of ?r1] 3(4) by auto
qed simp

subsection \<open>The receive buffer under both tasks\<close>

definition rx_ok :: "rx_sys \<Rightarrow> bool" where
  "rx_ok s \<longleftrightarrow> length (r_data (rx_buf s)) \<le> R_SIZE \<and>
     (\<forall>room pkt. rx_wait s = Some (room, pkt) \<longrightarrow> room + length (r_data (rx_buf s)) \<le> R_SIZE)"

lemma rx_ok_step: "rx_step s s' \<Longrightarrow> rx_ok s \<Longrightarrow> rx_ok s'"
proof (erule rx_stepE)
  fix pkt
  assume "rx_ok s" "s' = s\<lparr>rx_wait := Some (rem_buff_size (rx_buf s), pkt)\<rparr>"
  then show "rx_ok s'" by (auto simp: rx_ok_def rem_buff_size_def)
next
  fix room pkt
  assume "rx_ok s" "rx_wait s = Some (room, pkt)"
    "s' = s\<lparr>rx_wait := None, rx_buf := fst (serial_rx_store room pkt (rx_buf s))\<rparr>"
  then show "rx_ok s'"
    by (cases pkt) (auto simp: rx_ok_def serial_rx_store_def Let_def)
next
  fix block
  assume "rx_ok s" "s' = s\<lparr>rx_buf := snd (serial_read_data block (rx_buf s))\<rparr>"
    "r_valid (rx_buf s)"
  then show "rx_ok s'" by (auto simp: rx_ok_def serial_read_data_def Let_def)
qed

lemma rx_ok_reachable: "rx_reachable s \<Longrightarrow> rx_ok s"
proof (induction rule: rx_reachable.induct)
  case rx_start
  then show ?case by (simp add: rx_ok_def rx_init_def R_SIZE_def)
next
  case (rx_next s s')
  then show ?case by (blast intro: rx_ok_step)
qed

subsection \<open>The serial layer provides the endpoint's interface\<close>

definition rx_pending :: "copro \<Rightarrow> byte list option" where
  "rx_pending s = (if r_valid (cp_rx s) then Some (r_data (cp_rx s)) else None)"

definition serial_recv :: "byte list \<Rightarrow> copro \<Rightarrow> (nat \<times> byte list) \<times> copro" where
  "serial_recv b s = (case serial_read_data b (cp_rx s) of (x, r) \<Rightarrow> (x, s\<lparr>cp_rx := r\<rparr>))"

definition serial_env ::
  "pm_env \<Rightarrow> (byte list \<Rightarrow> int \<Rightarrow> byte list \<Rightarrow> byte list) \<Rightarrow> copro pserial_env" where
  "serial_env pm answer = \<lparr> pe_alloc = (\<lambda>_. True),
     pe_handle = (\<lambda>ep i d s. ((ESP_OK, answer ep i d), s)),
     pe_xmit = serial_write_data pm, pe_recv = serial_recv \<rparr>"

text \<open>The packets the sender makes, and a sender between two messages on an open link.\<close>

definition serial_ok :: "ibuf \<Rightarrow> bool" where
  "serial_ok p \<longleftrightarrow> nibbles p \<and> ib_if_type p = ESP_SERIAL_IF \<and> ib_payload p \<noteq> [] \<and>
     length (ib_payload p) \<le> ETH_DATA_LEN"

definition copro_ready :: "pm_env \<Rightarrow> copro \<Rightarrow> bool" where
  "copro_ready pm s \<longleftrightarrow> link_open pm s \<and> unfinished [] (cp_written s) = [] \<and>
     (\<forall>p \<in> set (cp_written s). serial_ok p)"

lemma frags_ok: "d \<noteq> [] \<Longrightarrow> p \<in> set (frags seq d) \<Longrightarrow> serial_ok p"
proof (induction seq d rule: frags.induct)
  case (1 seq d)
  then show ?case
    by (auto simp: frags.simps [of seq d] serial_ok_def nibbles_def esp_ifs ETH_DATA_LEN_def
        split: if_splits)
qed

interpretation copro: serial_port "serial_env pm answer" answer rx_pending
  "\<lambda>s. messages [] (cp_written s)" "copro_ready pm"
  for pm answer
proof
  show "pe_alloc (serial_env pm answer) n" for n by (simp add: serial_env_def)
next
  fix s ep i d
  assume "copro_ready pm s"
  then show "\<exists>s1. pe_handle (serial_env pm answer) ep i d s = ((ESP_OK, answer ep i d), s1) \<and>
      rx_pending s1 = rx_pending s \<and> messages [] (cp_written s1) = messages [] (cp_written s) \<and>
      copro_ready pm s1"
    by (simp add: serial_env_def)
next
  fix s m
  assume "copro_ready pm s" "rx_pending s = Some m"
  then show "\<exists>s1. pe_recv (serial_env pm answer) m s = ((length m, m), s1) \<and> rx_pending s1 = None \<and>
      messages [] (cp_written s1) = messages [] (cp_written s) \<and>
      copro_ready pm s1"
    by (auto simp: serial_env_def serial_recv_def serial_read_data_def rx_pending_def
        copro_ready_def link_open_def Let_def split: if_splits)
next
  fix s and m :: "byte list"
  assume s: "copro_ready pm s" and m: "m \<noteq> []"
  then obtain q where "serial_write_data pm m s =
      (ESP_OK, s\<lparr>cp_seq := q, cp_written := cp_written s @ frags (cp_seq s) m\<rparr>)"
    using serial_write_frags [of pm s m] by (auto simp: copro_ready_def)
  then show "\<exists>s1. pe_xmit (serial_env pm answer) m s = (ESP_OK, s1) \<and> rx_pending s1 = rx_pending s \<and>
      messages [] (cp_written s1) = messages [] (cp_written s) @ [m] \<and>
      copro_ready pm s1"
    using s frags_message [of "[]" "cp_seq s" m] frags_ok [OF m]
    by (auto simp: serial_env_def rx_pending_def copro_ready_def link_open_def messages_append
        unfinished_append)
qed

text \<open>A whole request through the receive buffer, the queue, the handler and the sender.\<close>

lemma request_answered:
  assumes "copro_ready pm s" "r_data (cp_rx s) = []"
    "cs \<noteq> []" "concat cs = tlv_bytes ep d" "length (tlv_bytes ep d) \<le> R_SIZE"
    "0 \<notin> set ep" "ep \<noteq> []" "length ep < EPNAME_MAX - 1" "d \<noteq> []"
  shows "\<exists>r a s2. serial_rx_pkts (rx_fragments q cs) (cp_rx s) = (r, [tlv_bytes ep d]) \<and>
    protocomm_pserial_data_ready True (\<lambda>_. True) (tlv_bytes ep d) 0 [] = Some (ESP_OK, [a]) \<and>
    pserial_task_step (serial_env pm answer) a (s\<lparr>cp_rx := r\<rparr>) = (Done ESP_OK, s2) \<and>
    messages [] (cp_written s2) =
      messages [] (cp_written s) @ [tlv_bytes RPC_EP_NAME_RSP (answer ep 0 d)] \<and>
    rx_pending s2 = None \<and> copro_ready pm s2"
proof -
  let ?m = "tlv_bytes ep d"
  let ?r = "\<lparr> r_valid = True, r_cur_seq_no = q, r_data = ?m \<rparr>"
  have rx: "serial_rx_pkts (rx_fragments q cs) (cp_rx s) = (?r, [?m])"
    using rx_message [of cs "cp_rx s" q] assms(2-5) by simp
  have dr: "protocomm_pserial_data_ready True (\<lambda>_. True) ?m 0 [] =
      Some (ESP_OK, [\<lparr> sa_data = ?m, sa_msg_id = 0 \<rparr>])"
    by (simp add: protocomm_pserial_data_ready_def REQ_Q_MAX_def)
  have d: "length d < 65536" using assms(5) by (simp add: R_SIZE_def)
  have "\<exists>s2. pserial_task_step (serial_env pm answer) \<lparr> sa_data = ?m, sa_msg_id = 0 \<rparr>
      (s\<lparr>cp_rx := ?r\<rparr>) = (Done ESP_OK, s2) \<and> rx_pending s2 = None \<and>
    messages [] (cp_written s2) = messages [] (cp_written (s\<lparr>cp_rx := ?r\<rparr>)) @
      [tlv_bytes RPC_EP_NAME_RSP (answer ep 0 d)] \<and>
    copro_ready pm s2"
    using assms d
    by (intro copro.request_served)
      (auto simp: copro_ready_def link_open_def rx_pending_def RPC_ID__Event_Base_def)
  then show ?thesis using rx dr by auto
qed

subsection \<open>Properties\<close>

text \<open>C28: Whatever the order in which packets arrive, wait and are stored and the RPC task reads,
  the receive buffer holds at most its 8192 bytes and the copy of a waiting packet stays inside
  it, although the room is computed before the wait.\<close>

theorem rx_buffer_bounded:
  assumes "rx_reachable s"
  shows "length (r_data (rx_buf s)) \<le> R_SIZE \<and>
    (case rx_wait s of None \<Rightarrow> True
     | Some (room, pkt) \<Rightarrow> length (r_data (rx_buf s)) + room \<le> R_SIZE)"
  using rx_ok_reachable [OF assms] by (auto simp: rx_ok_def split: option.splits)

text \<open>A request of up to 8192 bytes in any number of fragments with one sequence number is
  joined, queued once, given once to the handler of its endpoint, and answered with one message
  that carries the handler's answer under ``RPCRsp''; the receive buffer is free again.\<close>

theorem fragmented_request_answered:
  assumes "copro_ready pm s" "r_data (cp_rx s) = []"
    "cs \<noteq> []" "concat cs = tlv_bytes ep d" "length (tlv_bytes ep d) \<le> R_SIZE"
    "0 \<notin> set ep" "ep \<noteq> []" "length ep < EPNAME_MAX - 1" "d \<noteq> []"
  shows "\<exists>r a s2. serial_rx_pkts (rx_fragments q cs) (cp_rx s) = (r, [tlv_bytes ep d]) \<and>
    protocomm_pserial_data_ready True (\<lambda>_. True) (tlv_bytes ep d) 0 [] = Some (ESP_OK, [a]) \<and>
    pserial_task_step (serial_env pm answer) a (s\<lparr>cp_rx := r\<rparr>) = (Done ESP_OK, s2) \<and>
    messages [] (cp_written s2) =
      messages [] (cp_written s) @ [tlv_bytes RPC_EP_NAME_RSP (answer ep 0 d)] \<and>
    rx_pending s2 = None \<and> copro_ready pm s2"
  by (rule request_answered [OF assms])

text \<open>C27: A request that arrives while a long message still waits to be read is cut: the room was
  computed with the old message in the buffer and is not computed again after the wait. What
  the parser then gets is the first part of the request, and it reads beyond it.\<close>

theorem pipelined_request_cut:
  assumes "r_valid r" "length ep < EPNAME_MAX - 1" "length d < 65536"
    "length (r_data r) < R_SIZE" "R_SIZE < length (r_data r) + length (tlv_bytes ep d)"
    "length (r_data r) + 3 + length ep \<noteq> R_SIZE"
  shows "\<exists>r2. serial_rx_store (rem_buff_size r) (0, q, tlv_bytes ep d)
      (snd (serial_read_data block r)) =
        (r2, Some (take (rem_buff_size r) (tlv_bytes ep d))) \<and>
    rem_buff_size r < length (tlv_bytes ep d) \<and>
    rpc_req_handler e (take (rem_buff_size r) (tlv_bytes ep d)) (rem_buff_size r) s = (Oob, s)"
proof -
  have room: "0 < rem_buff_size r" "rem_buff_size r < length (tlv_bytes ep d)"
    "rem_buff_size r \<noteq> 3 + length ep"
    using assms(4-6) by (auto simp: rem_buff_size_def)
  have "rpc_req_handler e (take (rem_buff_size r) (tlv_bytes ep d)) (rem_buff_size r) s = (Oob, s)"
    using cut_message_overread [OF assms(2,3) room(1), of "replicate EPNAME_MAX 0"] room
    by (simp add: rpc_req_handler_def)
  then show ?thesis
    using assms(1) room
    by (simp add: serial_rx_store_def serial_read_data_def Let_def min_def)
qed

text \<open>An answer sent while the data path is closed is dropped packet by packet, and the sender
  is told it was sent.\<close>

theorem closed_path_loses_answer:
  assumes "\<not> cp_datapath s"
  shows "\<exists>q. serial_write_data pm d s = (ESP_OK, s\<lparr>cp_seq := q\<rparr>)"
  by (rule serial_write_closed [OF assms])

subsection \<open>Concrete instances\<close>

definition demo_pm :: pm_env where
  "demo_pm = \<lparr> pm_saving = False, pm_wakeup_needed = (\<lambda>_. False), pm_wakeup_host = True \<rparr>"

definition demo_copro :: copro where
  "demo_copro = \<lparr> cp_datapath = True, cp_if_write = True,
     cp_rx = \<lparr> r_valid = False, r_cur_seq_no = 0, r_data = [] \<rparr>, cp_seq = 0, cp_written = [] \<rparr>"

definition demo_answer :: "byte list \<Rightarrow> int \<Rightarrow> byte list \<Rightarrow> byte list" where
  "demo_answer ep i d = d @ [0]"

theorem rx_buffer_bounded_witness:
  "length (r_data (rx_buf (rx_init\<lparr>rx_wait := Some (R_SIZE, 0, 0, [])\<rparr>))) \<le> R_SIZE \<and>
    (case rx_wait (rx_init\<lparr>rx_wait := Some (R_SIZE, 0, 0, [])\<rparr>) of None \<Rightarrow> True
     | Some (room, pkt) \<Rightarrow>
         length (r_data (rx_buf (rx_init\<lparr>rx_wait := Some (R_SIZE, 0, 0, [])\<rparr>))) + room \<le> R_SIZE)"
proof (rule rx_buffer_bounded)
  have "rem_buff_size (rx_buf rx_init) = R_SIZE" by (simp add: rem_buff_size_def rx_init_def)
  then show "rx_reachable (rx_init\<lparr>rx_wait := Some (R_SIZE, 0, 0, [])\<rparr>)"
    using rx_next [OF rx_start rx_arrive [of rx_init "(0, 0, [])"]] by (simp add: rx_init_def)
qed

theorem fragmented_request_answered_witness:
  "\<exists>r a s2. serial_rx_pkts (rx_fragments 0 [take 5 (tlv_bytes RPC_EP_NAME_RSP [1, 2]),
        drop 5 (tlv_bytes RPC_EP_NAME_RSP [1, 2])]) (cp_rx demo_copro) =
      (r, [tlv_bytes RPC_EP_NAME_RSP [1, 2]]) \<and>
    protocomm_pserial_data_ready True (\<lambda>_. True) (tlv_bytes RPC_EP_NAME_RSP [1, 2]) 0 [] =
      Some (ESP_OK, [a]) \<and>
    pserial_task_step (serial_env demo_pm demo_answer) a (demo_copro\<lparr>cp_rx := r\<rparr>) = (Done ESP_OK, s2) \<and>
    messages [] (cp_written s2) = messages [] (cp_written demo_copro) @
      [tlv_bytes RPC_EP_NAME_RSP (demo_answer RPC_EP_NAME_RSP 0 [1, 2])] \<and>
    rx_pending s2 = None \<and> copro_ready demo_pm s2"
  by (rule fragmented_request_answered)
    (simp_all add: copro_ready_def link_open_def demo_copro_def demo_pm_def RPC_EP_NAME_RSP_def EPNAME_MAX_def
      R_SIZE_def)

theorem pipelined_request_cut_witness:
  "\<exists>r2. serial_rx_store (rem_buff_size \<lparr> r_valid = True, r_cur_seq_no = 0, r_data = replicate 8190 0 \<rparr>)
        (0, 0, tlv_bytes RPC_EP_NAME_RSP [1, 2])
      (snd (serial_read_data [] \<lparr> r_valid = True, r_cur_seq_no = 0, r_data = replicate 8190 0 \<rparr>)) =
        (r2, Some (take (rem_buff_size \<lparr> r_valid = True, r_cur_seq_no = 0, r_data = replicate 8190 0 \<rparr>)
          (tlv_bytes RPC_EP_NAME_RSP [1, 2]))) \<and>
    rem_buff_size \<lparr> r_valid = True, r_cur_seq_no = 0, r_data = replicate 8190 0 \<rparr>
      < length (tlv_bytes RPC_EP_NAME_RSP [1, 2]) \<and>
    rpc_req_handler demo_env (take (rem_buff_size
        \<lparr> r_valid = True, r_cur_seq_no = 0, r_data = replicate 8190 0 \<rparr>)
      (tlv_bytes RPC_EP_NAME_RSP [1, 2])) (rem_buff_size
        \<lparr> r_valid = True, r_cur_seq_no = 0, r_data = replicate 8190 0 \<rparr>) () = (Oob, ())"
  by (rule pipelined_request_cut)
    (simp_all add: RPC_EP_NAME_RSP_def EPNAME_MAX_def R_SIZE_def)

theorem closed_path_loses_answer_witness:
  "\<exists>q. serial_write_data demo_pm [1, 2] (demo_copro\<lparr>cp_datapath := False\<rparr>) =
     (ESP_OK, (demo_copro\<lparr>cp_datapath := False\<rparr>)\<lparr>cp_seq := q\<rparr>)"
  by (rule closed_path_loses_answer) simp

end
