(* ===== verification/Serial_Host.thy ===== *)
theory Serial_Host
  imports Transport_Frame Pserial
begin

section \<open>The serial channel of the host (serial_if.c, serial_drv.c, serial_ll_if.c)\<close>

text \<open>
  The host's end of the RPC channel: \<open>transport_pserial_send\<close> wraps a request in its envelope
  and \<open>serial_ll_write\<close> cuts it into packets for the bus; \<open>serial_ll_rx_handler\<close> joins the
  packets of an answer and \<open>serial_drv_read\<close> takes the envelope off. Pointers that matter for
  the behaviour after an error are explicit: the collecting buffer is null, a live block, or a
  freed block that is still pointed to. Using the last is the outcome \<open>LL_uaf\<close>.
\<close>

definition RET_OK :: int where "RET_OK = 0"
definition RET_FAIL :: int where "RET_FAIL = -1"
definition RET_INVALID :: int where "RET_INVALID = -2"

subsection \<open>Envelope\<close>

text \<open>\<open>compose_tlv\<close> of the host, which returns its 16-bit count, and \<open>parse_tlv\<close>, which reads the
  fixed part of twelve bytes and returns the length of the data.\<close>

definition h_compose_tlv :: "byte list \<Rightarrow> byte list \<times> u16" where
  "h_compose_tlv data =
     ([PROTO_PSER_TLV_T_EPNAME] @ le_put 2 (word_of_nat (length RPC_EP_NAME_RSP) :: u16) @
      RPC_EP_NAME_RSP @ [PROTO_PSER_TLV_T_DATA] @ le_put 2 (word_of_nat (length data) :: u16) @ data,
      word_of_nat (12 + length data))"

definition h_parse_tlv :: "byte list \<Rightarrow> int \<times> nat" where
  "h_parse_tlv b =
     (if rd8 0 b \<noteq> PROTO_PSER_TLV_T_EPNAME then (FAILURE, 0)
      else if unat (rd16 1 b) \<noteq> 6 then (FAILURE, 0)
      else if take 6 (drop 3 b) \<noteq> RPC_EP_NAME_RSP \<and> take 6 (drop 3 b) \<noteq> RPC_EP_NAME_EVT
      then (FAILURE, 0)
      else if rd8 9 b \<noteq> PROTO_PSER_TLV_T_DATA then (FAILURE, 0)
      else (SUCCESS, unat (rd16 10 b)))"

subsection \<open>Sending\<close>

text \<open>
  \<open>serial_ll_write\<close>: \<open>up k\<close> says whether the transport is up for the \<open>k\<close>-th packet. The packets
  that were queued are returned.
\<close>

definition ll_pkt :: "u8 \<Rightarrow> byte list \<Rightarrow> ibuf" where
  "ll_pkt flags b = \<lparr> ib_if_type = ESP_SERIAL_IF, ib_if_num = 0, ib_flag = flags, ib_seq = 0,
     ib_payload = b, ib_zcopy = False \<rparr>"

function ll_write_loop :: "(nat \<Rightarrow> bool) \<Rightarrow> nat \<Rightarrow> byte list \<Rightarrow> esp_err \<times> ibuf list" where
  "ll_write_loop up k b =
     (if b = [] then (0, [])
      else
        let more = MAX_PAYLOAD_SIZE < length b;
            frag = (if more then take MAX_PAYLOAD_SIZE b else b)
        in case esp_hosted_tx (up k) (ll_pkt (if more then MORE_FRAGMENT else 0) frag) of
             (ret, q) \<Rightarrow>
               if ret \<noteq> ESP_OK then (ret, [])
               else case ll_write_loop up (Suc k) (drop (length frag) b) of
                 (r, ps) \<Rightarrow> (r, (case q of Some (_, p) \<Rightarrow> p # ps | None \<Rightarrow> ps)))"
  by pat_completeness auto
termination
  by (relation "measure (\<lambda>(_, _, b). length b)") (auto simp: sdio_sizes)

declare ll_write_loop.simps [simp del]

definition MAX_FRAGMENTABLE_PAYLOAD_SIZE :: nat where "MAX_FRAGMENTABLE_PAYLOAD_SIZE = 8192"

definition serial_ll_write :: "bool \<Rightarrow> (nat \<Rightarrow> bool) \<Rightarrow> byte list \<Rightarrow> esp_err \<times> ibuf list" where
  "serial_ll_write active up b =
     (if \<not> active \<or> b = [] \<or> MAX_FRAGMENTABLE_PAYLOAD_SIZE < length b then (-1, [])
      else ll_write_loop up 0 b)"

definition serial_drv_write ::
  "bool \<Rightarrow> bool \<Rightarrow> (nat \<Rightarrow> bool) \<Rightarrow> byte list \<Rightarrow> int \<times> ibuf list" where
  "serial_drv_write handle active up b =
     (if \<not> handle \<or> b = [] then (RET_INVALID, [])
      else case serial_ll_write active up b of (ret, ps) \<Rightarrow>
        if ret \<noteq> RET_OK then (RET_FAIL, ps) else (RET_OK, ps))"

text \<open>
  \<open>transport_pserial_send\<close>: the block has \<open>buf_len\<close> bytes, a 16-bit number; \<open>None\<close> is the
  outcome of writing more than that.
\<close>

definition transport_pserial_send ::
  "(nat \<Rightarrow> bool) \<Rightarrow> bool \<Rightarrow> bool \<Rightarrow> (nat \<Rightarrow> bool) \<Rightarrow> byte list \<Rightarrow> (int \<times> ibuf list) option" where
  "transport_pserial_send alloc handle active up data =
     (let buf_len = (12 + length data) mod 65536 in
      if data = [] then Some (FAILURE, [])
      else if \<not> alloc buf_len then Some (FAILURE, [])
      else if \<not> handle then Some (FAILURE, [])
      else case h_compose_tlv data of (b, count) \<Rightarrow>
        if buf_len < length b then None
        else if count = 0 then Some (FAILURE, [])
        else case serial_drv_write handle active up (take (unat count) b) of (ret, ps) \<Rightarrow>
          Some (if ret \<noteq> SUCCESS then FAILURE else ret, ps))"

subsection \<open>Receiving\<close>

datatype r_ptr = R_null | R_block "byte list" | R_freed

text \<open>
  \<open>hs_handle\<close> is \<open>g_serial_drv_handle\<close>, \<open>hs_iface\<close> the state of the only interface there can be
  (\<open>MAX_SERIAL_INTF\<close> is 2 and \<open>conn_num + 1\<close> has to be below it), \<open>hs_queue\<close> the joined messages
  and \<open>hs_posts\<close> the count of \<open>readSemaphore\<close>.
\<close>

datatype ll_state = LL_INIT | LL_ACTIVE

record hserial =
  hs_handle :: bool
  hs_iface :: "ll_state option"
  hs_conn :: nat
  hs_r :: r_ptr
  hs_queue :: "byte list list"
  hs_posts :: nat

definition hs_active :: "hserial \<Rightarrow> bool" where
  "hs_active s \<longleftrightarrow> hs_iface s = Some LL_ACTIVE"

definition hserial_init :: hserial where
  "hserial_init = \<lparr> hs_handle = False, hs_iface = None, hs_conn = 0, hs_r = R_null,
     hs_queue = [], hs_posts = 0 \<rparr>"

text \<open>
  Set-up and shutdown. \<open>serial_ll_close\<close> drops the queued messages and the interface, and leaves
  the collecting buffer \<open>r\<close> as it is.
\<close>

definition MAX_SERIAL_INTF :: nat where "MAX_SERIAL_INTF = 2"

definition serial_ll_init :: "bool \<Rightarrow> hserial \<Rightarrow> bool \<times> hserial" where
  "serial_ll_init alloc s =
     (if hs_conn s + 1 < MAX_SERIAL_INTF \<and> alloc
      then (True, s\<lparr>hs_iface := Some LL_INIT, hs_conn := hs_conn s + 1\<rparr>)
      else (False, s))"

definition serial_ll_close :: "hserial \<Rightarrow> hserial" where
  "serial_ll_close s = s\<lparr>hs_iface := None, hs_queue := [], hs_conn := hs_conn s - 1\<rparr>"

definition serial_ll_open :: "bool \<Rightarrow> hserial \<Rightarrow> int \<times> hserial" where
  "serial_ll_open queue_ok s =
     (if queue_ok then (0, s\<lparr>hs_queue := [], hs_iface := Some LL_ACTIVE\<rparr>)
      else (-1, serial_ll_close s))"

text \<open>
  \<open>rpc_platform_init\<close> aborts when there is no interface; after a failed open the freed interface
  is closed again by \<open>transport_pserial_close\<close>. Both are \<open>None\<close>.
\<close>

definition transport_pserial_open :: "bool \<Rightarrow> bool \<Rightarrow> bool \<Rightarrow> hserial \<Rightarrow> (int \<times> hserial) option" where
  "transport_pserial_open alloc ll_alloc queue_ok s =
     (if hs_handle s then Some (SUCCESS, s)
      else if \<not> alloc then Some (FAILURE, s)
      else case serial_ll_init ll_alloc (s\<lparr>hs_handle := True, hs_posts := 0\<rparr>) of
        (False, _) \<Rightarrow> None
      | (True, s1) \<Rightarrow>
          (case serial_ll_open queue_ok s1 of
             (ret, s2) \<Rightarrow> if ret = RET_OK then Some (SUCCESS, s2) else None))"

definition transport_pserial_close :: "hserial \<Rightarrow> int \<times> hserial" where
  "transport_pserial_close s =
     (let s1 = (if hs_iface s \<noteq> None then serial_ll_close s else s)\<lparr>hs_posts := 0\<rparr> in
      if hs_handle s1 then (SUCCESS, s1\<lparr>hs_handle := False\<rparr>) else (FAILURE, s1))"

datatype ll_out = LL_ok | LL_err | LL_uaf

text \<open>The clean-up of \<open>serial_ll_rx_handler\<close> frees \<open>r.data\<close> and keeps the pointer.\<close>

definition serial_buff_cleanup :: "hserial \<Rightarrow> ll_out \<times> hserial" where
  "serial_buff_cleanup s =
     (case hs_r s of
        R_null \<Rightarrow> (LL_err, s)
      | R_block _ \<Rightarrow> (LL_err, s\<lparr>hs_r := R_freed\<rparr>)
      | R_freed \<Rightarrow> (LL_uaf, s))"

text \<open>\<open>grow\<close> and \<open>alloc\<close> say whether the (re)allocation of \<open>r.data\<close> and the one of the joined
  message succeed; a failed \<open>realloc\<close> leaves \<open>r.data\<close> null.\<close>

definition serial_ll_rx_handler ::
  "bool \<Rightarrow> bool \<Rightarrow> ibuf \<Rightarrow> hserial \<Rightarrow> ll_out \<times> hserial" where
  "serial_ll_rx_handler grow alloc ib s =
     (if ib_payload ib = [] then serial_buff_cleanup s
      else if \<not> hs_active s then serial_buff_cleanup s
      else case hs_r s of
        R_freed \<Rightarrow> (LL_uaf, s)
      | r \<Rightarrow>
          if \<not> grow then serial_buff_cleanup (s\<lparr>hs_r := R_null\<rparr>)
          else let b = (case r of R_block x \<Rightarrow> x | _ \<Rightarrow> []) @ ib_payload ib in
            if ib_flag ib AND MORE_FRAGMENT \<noteq> 0 then (LL_ok, s\<lparr>hs_r := R_block b\<rparr>)
            else if \<not> alloc then serial_buff_cleanup (s\<lparr>hs_r := R_block b\<rparr>)
            else (LL_ok, s\<lparr>hs_r := R_null, hs_queue := hs_queue s @ [b],
                           hs_posts := hs_posts s + 1\<rparr>))"

text \<open>
  \<open>serial_ll_read\<close> takes a message from the queue; its length is kept in 16 bits. The reader comes
  here after the semaphore, which is given once for each queued message (\<open>posts_match\<close>).
\<close>

definition serial_ll_read :: "hserial \<Rightarrow> (nat \<times> byte list) option \<times> hserial" where
  "serial_ll_read s =
     (if \<not> hs_active s then (None, s)
      else case hs_queue s of
        [] \<Rightarrow> (None, s)
      | m # q \<Rightarrow> (if length m mod 65536 = 0 then None else Some (length m mod 65536, m),
                  s\<lparr>hs_queue := q\<rparr>))"

definition serial_drv_read :: "(nat \<Rightarrow> bool) \<Rightarrow> hserial \<Rightarrow> byte list option \<times> hserial" where
  "serial_drv_read alloc s =
     (if \<not> hs_handle s \<or> hs_posts s = 0 then (None, s)
      else case serial_ll_read (s\<lparr>hs_posts := hs_posts s - 1\<rparr>) of
        (None, s1) \<Rightarrow> (None, s1)
      | (Some (n, m), s1) \<Rightarrow>
          if n < 12 \<or> \<not> alloc 12 then (None, s1)
          else case h_parse_tlv (take 12 m) of (ret, buf_len) \<Rightarrow>
            if ret \<noteq> SUCCESS \<or> buf_len = 0 then (None, s1)
            else if n < 12 + buf_len \<or> \<not> alloc buf_len then (None, s1)
            else (Some (take buf_len (drop 12 m)), s1))"

subsection \<open>Lemmas: sending\<close>

lemma h_compose_tlv_bytes:
  "fst (h_compose_tlv d) = tlv_bytes RPC_EP_NAME_RSP d"
  by (simp add: h_compose_tlv_def tlv_bytes_def RPC_EP_NAME_RSP_def)

function chunks :: "byte list \<Rightarrow> byte list list" where
  "chunks b = (if MAX_PAYLOAD_SIZE < length b
     then take MAX_PAYLOAD_SIZE b # chunks (drop MAX_PAYLOAD_SIZE b) else [b])"
  by pat_completeness auto
termination by (relation "measure length") (auto simp: sdio_sizes)

declare chunks.simps [simp del]

lemma chunks_concat: "concat (chunks b) = b"
proof (induction b rule: chunks.induct)
  case (1 b)
  then show ?case by (simp add: chunks.simps [of b])
qed

lemma chunks_nonempty: "chunks b \<noteq> []"
  by (subst chunks.simps) simp

lemma chunks_sizes: "b \<noteq> [] \<Longrightarrow> c \<in> set (chunks b) \<Longrightarrow> c \<noteq> [] \<and> length c \<le> MAX_PAYLOAD_SIZE"
proof (induction b rule: chunks.induct)
  case (1 b)
  then show ?case
    by (auto simp: chunks.simps [of b] sdio_sizes split: if_splits)
qed

fun ll_pkts :: "byte list list \<Rightarrow> ibuf list" where
  "ll_pkts [] = []"
| "ll_pkts [c] = [ll_pkt 0 c]"
| "ll_pkts (c # cs) = ll_pkt MORE_FRAGMENT c # ll_pkts cs"

lemma ll_pkts_Cons: "cs \<noteq> [] \<Longrightarrow> ll_pkts (c # cs) = ll_pkt MORE_FRAGMENT c # ll_pkts cs"
  by (cases cs) auto

lemma ll_pkts_payloads: "ib_payload ` set (ll_pkts cs) = set cs"
  by (induction cs rule: ll_pkts.induct) (auto simp: ll_pkt_def)

lemma ll_pkts_message:
  "cs \<noteq> [] \<Longrightarrow> messages acc (ll_pkts cs) = [acc @ concat cs] \<and> unfinished acc (ll_pkts cs) = []"
  by (induction cs arbitrary: acc rule: ll_pkts.induct) (auto simp: ll_pkt_def MORE_FRAGMENT_def)

lemma ll_write_chunks: "b \<noteq> [] \<Longrightarrow> ll_write_loop (\<lambda>_. True) k b = (0, ll_pkts (chunks b))"
proof (induction b arbitrary: k rule: chunks.induct)
  case (1 b)
  show ?case
  proof (cases "MAX_PAYLOAD_SIZE < length b")
    case True
    have "drop MAX_PAYLOAD_SIZE b \<noteq> []" using True by simp
    then have "ll_write_loop (\<lambda>_. True) (Suc k) (drop MAX_PAYLOAD_SIZE b) =
        (0, ll_pkts (chunks (drop MAX_PAYLOAD_SIZE b)))"
      using 1(1) True by simp
    moreover have "0 < MAX_PAYLOAD_SIZE" by (simp add: sdio_sizes)
    ultimately show ?thesis
      using True 1(2)
      by (simp add: ll_write_loop.simps [of _ k b] chunks.simps [of b] esp_hosted_tx_def Let_def
          ll_pkts_Cons chunks_nonempty ll_pkt_def ESP_OK_def min_def)
  next
    case False
    have "ll_write_loop (\<lambda>_. True) (Suc k) [] = (0, [])" by (simp add: ll_write_loop.simps)
    then show ?thesis
      using False 1(2)
      by (simp add: ll_write_loop.simps [of _ k b] chunks.simps [of b] esp_hosted_tx_def Let_def
          ll_pkt_def ESP_OK_def)
  qed
qed

lemma transport_pserial_send_ok:
  assumes "d \<noteq> []" "12 + length d \<le> MAX_FRAGMENTABLE_PAYLOAD_SIZE"
  shows "transport_pserial_send (\<lambda>_. True) True True (\<lambda>_. True) d =
    Some (SUCCESS, ll_pkts (chunks (tlv_bytes RPC_EP_NAME_RSP d)))"
proof -
  have n: "12 + length d < 65536" using assms(2) by (simp add: MAX_FRAGMENTABLE_PAYLOAD_SIZE_def)
  have c: "h_compose_tlv d = (tlv_bytes RPC_EP_NAME_RSP d, word_of_nat (12 + length d))"
    using h_compose_tlv_bytes [of d] by (simp add: h_compose_tlv_def)
  have len: "length (tlv_bytes RPC_EP_NAME_RSP d) = 12 + length d" by (simp add: RPC_EP_NAME_RSP_def)
  have u: "unat (word_of_nat (12 + length d) :: u16) = 12 + length d" by (rule unat_len16 [OF n])
  then have nz: "(word_of_nat (12 + length d) :: u16) \<noteq> 0" by (metis add_is_0 unat_0 zero_neq_numeral)
  have ne: "tlv_bytes RPC_EP_NAME_RSP d \<noteq> []" by (simp add: tlv_bytes_def)
  have "serial_drv_write True True (\<lambda>_. True) (tlv_bytes RPC_EP_NAME_RSP d) =
      (RET_OK, ll_pkts (chunks (tlv_bytes RPC_EP_NAME_RSP d)))"
    using ll_write_chunks [OF ne, of 0] ne assms(2) len
    by (simp add: serial_drv_write_def serial_ll_write_def RET_OK_def)
  then show ?thesis
    using assms n c len u nz
    by (simp add: transport_pserial_send_def Let_def SUCCESS_def RET_OK_def del: of_nat_add)
qed

subsection \<open>Lemmas: receiving\<close>

text \<open>A run of packets, all of which are stored.\<close>

fun ll_rx_run :: "ibuf list \<Rightarrow> hserial \<Rightarrow> hserial option" where
  "ll_rx_run [] s = Some s"
| "ll_rx_run (p # ps) s =
     (case serial_ll_rx_handler True True p s of
        (LL_ok, s1) \<Rightarrow> ll_rx_run ps s1
      | _ \<Rightarrow> None)"

definition r_of :: "byte list \<Rightarrow> r_ptr" where
  "r_of acc = (if acc = [] then R_null else R_block acc)"

lemma ll_rx_step:
  assumes "hs_active s" "hs_r s = r_of acc" "ib_payload p \<noteq> []"
  shows "serial_ll_rx_handler True True p s = (LL_ok,
    (if ib_flag p AND MORE_FRAGMENT \<noteq> 0 then s\<lparr>hs_r := r_of (acc @ ib_payload p)\<rparr>
     else s\<lparr>hs_r := R_null, hs_queue := hs_queue s @ [acc @ ib_payload p],
            hs_posts := hs_posts s + 1\<rparr>))"
  using assms by (auto simp: serial_ll_rx_handler_def r_of_def Let_def)

lemma ll_rx_messages:
  assumes "hs_active s" "hs_r s = r_of acc" "\<forall>p \<in> set ps. ib_payload p \<noteq> []"
  shows "ll_rx_run ps s = Some (s\<lparr>hs_r := r_of (unfinished acc ps),
    hs_queue := hs_queue s @ messages acc ps, hs_posts := hs_posts s + length (messages acc ps)\<rparr>)"
  using assms
proof (induction ps arbitrary: s acc)
  case (Cons p ps)
  have step: "serial_ll_rx_handler True True p s = (LL_ok,
    (if ib_flag p AND MORE_FRAGMENT \<noteq> 0 then s\<lparr>hs_r := r_of (acc @ ib_payload p)\<rparr>
     else s\<lparr>hs_r := R_null, hs_queue := hs_queue s @ [acc @ ib_payload p],
            hs_posts := hs_posts s + 1\<rparr>))"
    using Cons(2-4) by (intro ll_rx_step) auto
  show ?case
  proof (cases "ib_flag p AND MORE_FRAGMENT \<noteq> 0")
    case True
    then show ?thesis
      using Cons(1) [of "s\<lparr>hs_r := r_of (acc @ ib_payload p)\<rparr>" "acc @ ib_payload p"] Cons(2-4) step
      by (simp add: hs_active_def)
  next
    case False
    then show ?thesis
      using Cons(1) [of "s\<lparr>hs_r := R_null, hs_queue := hs_queue s @ [acc @ ib_payload p],
            hs_posts := hs_posts s + 1\<rparr>" "[]"] Cons(2-4) step
      by (simp add: hs_active_def r_of_def [of "[]"])
  qed
qed (simp add: r_of_def)

lemma le_put_6: "le_put 2 (6 :: u16) = [6, 0]"
  by code_simp

lemma heads:
  "tlv_head RPC_EP_NAME_RSP n = [1, 6, 0, 82, 80, 67, 82, 115, 112, 2] @ le_put 2 (word_of_nat n :: u16)"
  "tlv_head RPC_EP_NAME_EVT n = [1, 6, 0, 82, 80, 67, 69, 118, 116, 2] @ le_put 2 (word_of_nat n :: u16)"
  by (simp_all add: tlv_head_def RPC_EP_NAME_RSP_def RPC_EP_NAME_EVT_def le_put_6
      PROTO_PSER_TLV_T_EPNAME_def PROTO_PSER_TLV_T_DATA_def)

lemma rd16_6: "rd16 0 (6 # 0 # ys) = 6"
  using rd_here(1) [of 6 ys] by (simp add: le_put_6)

lemma h_parse_tlv_bytes:
  assumes "ep = RPC_EP_NAME_RSP \<or> ep = RPC_EP_NAME_EVT" "length d < 65536"
  shows "h_parse_tlv (take 12 (tlv_bytes ep d)) = (SUCCESS, length d)"
proof -
  have l: "length ep = 6" using assms(1) by (auto simp: RPC_EP_NAME_RSP_def RPC_EP_NAME_EVT_def)
  have "take 12 (tlv_bytes ep d) = tlv_head ep (length d)" by (simp add: tlv_bytes_head l)
  moreover have "h_parse_tlv (tlv_head RPC_EP_NAME_RSP (length d)) = (SUCCESS, length d)"
    "h_parse_tlv (tlv_head RPC_EP_NAME_EVT (length d)) = (SUCCESS, length d)"
    unfolding h_parse_tlv_def heads
    unfolding RPC_EP_NAME_RSP_def RPC_EP_NAME_EVT_def
      PROTO_PSER_TLV_T_EPNAME_def PROTO_PSER_TLV_T_DATA_def
    using unat_len16 [OF assms(2)] by (simp_all add: rd16_6 rd8_def rd_skip_Cons)
  ultimately show ?thesis using assms(1) by auto
qed

lemma serial_drv_read_message:
  assumes "hs_handle s" "hs_active s" "hs_queue s = tlv_bytes ep d # q" "hs_posts s = Suc n"
    "ep = RPC_EP_NAME_RSP \<or> ep = RPC_EP_NAME_EVT" "d \<noteq> []" "12 + length d < 65536"
  shows "serial_drv_read (\<lambda>_. True) s = (Some d, s\<lparr>hs_queue := q, hs_posts := n\<rparr>)"
proof -
  have l: "length ep = 6" using assms(5) by (auto simp: RPC_EP_NAME_RSP_def RPC_EP_NAME_EVT_def)
  have "serial_ll_read (s\<lparr>hs_posts := n\<rparr>) =
      (Some (12 + length d, tlv_bytes ep d), s\<lparr>hs_queue := q, hs_posts := n\<rparr>)"
    using assms l by (simp add: serial_ll_read_def hs_active_def)
  moreover have "h_parse_tlv (take 12 (tlv_bytes ep d)) = (SUCCESS, length d)"
    using assms by (intro h_parse_tlv_bytes) auto
  moreover have "drop 12 (tlv_bytes ep d) = d" by (simp add: tlv_bytes_head l)
  ultimately show ?thesis using assms by (simp add: serial_drv_read_def)
qed

text \<open>The semaphore is given once for each queued message.\<close>

definition posts_match :: "hserial \<Rightarrow> bool" where
  "posts_match s \<longleftrightarrow> hs_posts s = length (hs_queue s)"

lemma posts_match_rx:
  "posts_match s \<Longrightarrow> posts_match (snd (serial_ll_rx_handler grow alloc ib s))"
  by (auto simp: posts_match_def serial_ll_rx_handler_def serial_buff_cleanup_def Let_def
      split: r_ptr.splits)

lemma posts_match_read:
  "posts_match s \<Longrightarrow> hs_active s \<Longrightarrow> posts_match (snd (serial_drv_read alloc s))"
  by (auto simp: posts_match_def serial_drv_read_def serial_ll_read_def hs_active_def
      split: list.splits prod.splits if_splits)

subsection \<open>Properties\<close>

text \<open>C32: What \<open>transport_pserial_send\<close> does with a request by its length, on an open channel whose
  transport is up and whose memory suffices: up to 8180 bytes it is sent as one message in
  packets of at most 1524 bytes; up to 65523 it is refused; above that the 16-bit size of the
  buffer wraps and the envelope is written past a block that is too small.\<close>

theorem send_by_length:
  assumes "0 < length d" "length d < 65536"
  shows "(if length d \<le> 8180 then
      \<exists>ps. transport_pserial_send (\<lambda>_. True) True True (\<lambda>_. True) d = Some (SUCCESS, ps) \<and>
        messages [] ps = [tlv_bytes RPC_EP_NAME_RSP d] \<and> unfinished [] ps = [] \<and>
        list_all (\<lambda>p. 0 < length (ib_payload p) \<and> length (ib_payload p) \<le> MAX_PAYLOAD_SIZE) ps
    else if length d < 65524 then
      transport_pserial_send (\<lambda>_. True) True True (\<lambda>_. True) d = Some (FAILURE, [])
    else transport_pserial_send (\<lambda>_. True) True True (\<lambda>_. True) d = None)"
proof -
  let ?m = "tlv_bytes RPC_EP_NAME_RSP d"
  have c: "h_compose_tlv d = (?m, word_of_nat (12 + length d))"
    using h_compose_tlv_bytes [of d] by (simp add: h_compose_tlv_def)
  have len: "length ?m = 12 + length d" by (simp add: RPC_EP_NAME_RSP_def)
  consider "length d \<le> 8180" | "8180 < length d" "length d < 65524" | "65524 \<le> length d" by linarith
  then show ?thesis
  proof cases
    case 1
    have "?m \<noteq> []" by (simp add: tlv_bytes_def)
    then have "list_all (\<lambda>p. 0 < length (ib_payload p) \<and> length (ib_payload p) \<le> MAX_PAYLOAD_SIZE)
        (ll_pkts (chunks ?m))"
      using chunks_sizes [of ?m] ll_pkts_payloads [of "chunks ?m"] by (fastforce simp: list_all_iff)
    then show ?thesis
      using 1 assms(1) transport_pserial_send_ok [of d] ll_pkts_message [of "chunks ?m" "[]"]
      by (simp add: MAX_FRAGMENTABLE_PAYLOAD_SIZE_def chunks_nonempty chunks_concat)
  next
    case 2
    have u: "unat (word_of_nat (12 + length d) :: u16) = 12 + length d"
      using 2 by (intro unat_len16) simp
    then have nz: "(word_of_nat (12 + length d) :: u16) \<noteq> 0"
      by (metis add_is_0 unat_0 zero_neq_numeral)
    have "serial_drv_write True True (\<lambda>_. True) ?m = (RET_FAIL, []) \<or> ?m = []"
      using 2 len by (simp add: serial_drv_write_def serial_ll_write_def RET_OK_def
          MAX_FRAGMENTABLE_PAYLOAD_SIZE_def)
    then show ?thesis
      using 2 assms c len u nz
      by (auto simp: transport_pserial_send_def Let_def SUCCESS_def RET_FAIL_def
          tlv_bytes_def [of _ d] simp del: of_nat_add)
  next
    case 3
    then have "(12 + length d) mod 65536 = length d - 65524"
      using assms(2) by (simp add: mod_if)
    then show ?thesis
      using 3 assms c len by (auto simp: transport_pserial_send_def Let_def)
  qed
qed

text \<open>An error in the middle of an answer leaves a dangling pointer: when a packet is refused
  because the interface is down, or is empty, while fragments are collected, the collecting
  buffer is freed and still pointed to, and the next packet of a working interface is appended
  to freed memory.\<close>

theorem error_leaves_dangling_buffer:
  assumes "hs_r s = R_block b" "ib_payload ib0 = [] \<or> \<not> hs_active s" "ib_payload ib \<noteq> []"
  shows "\<exists>s1. serial_ll_rx_handler g0 a0 ib0 s = (LL_err, s1) \<and>
    fst (serial_ll_rx_handler g a ib (s1\<lparr>hs_iface := Some LL_ACTIVE\<rparr>)) = LL_uaf"
  using assms by (auto simp: serial_ll_rx_handler_def serial_buff_cleanup_def hs_active_def)

text \<open>Closing the channel in the middle of an answer and opening it again keeps what was
  collected: the first answer on the new channel is queued behind the old bytes.\<close>

theorem reopened_channel_keeps_old_bytes:
  assumes "hs_handle s" "hs_iface s = Some LL_ACTIVE" "hs_conn s = 1" "hs_r s = R_block b"
    "ib_flag ib AND MORE_FRAGMENT = 0" "ib_payload ib \<noteq> []"
  shows "\<exists>s2 s3. transport_pserial_open True True True (snd (transport_pserial_close s)) =
      Some (SUCCESS, s2) \<and>
    serial_ll_rx_handler True True ib s2 = (LL_ok, s3) \<and> hs_queue s3 = [b @ ib_payload ib]"
  using assms
  by (simp add: transport_pserial_open_def transport_pserial_close_def serial_ll_close_def
      serial_ll_init_def serial_ll_open_def MAX_SERIAL_INTF_def RET_OK_def Let_def
      serial_ll_rx_handler_def hs_active_def)

subsection \<open>Concrete instances\<close>

theorem send_by_length_witness:
  "(if length [1 :: byte, 2] \<le> 8180 then
      \<exists>ps. transport_pserial_send (\<lambda>_. True) True True (\<lambda>_. True) [1, 2] = Some (SUCCESS, ps) \<and>
        messages [] ps = [tlv_bytes RPC_EP_NAME_RSP [1, 2]] \<and> unfinished [] ps = [] \<and>
        list_all (\<lambda>p. 0 < length (ib_payload p) \<and> length (ib_payload p) \<le> MAX_PAYLOAD_SIZE) ps
    else if length [1 :: byte, 2] < 65524 then
      transport_pserial_send (\<lambda>_. True) True True (\<lambda>_. True) [1, 2] = Some (FAILURE, [])
    else transport_pserial_send (\<lambda>_. True) True True (\<lambda>_. True) [1, 2] = None)"
  by (rule send_by_length) simp_all

theorem error_leaves_dangling_buffer_witness:
  "\<exists>s1. serial_ll_rx_handler True True (ll_pkt 0 []) (hserial_init\<lparr>hs_r := R_block [1]\<rparr>) = (LL_err, s1) \<and>
    fst (serial_ll_rx_handler True True (ll_pkt 0 [2]) (s1\<lparr>hs_iface := Some LL_ACTIVE\<rparr>)) = LL_uaf"
  by (rule error_leaves_dangling_buffer) (simp_all add: ll_pkt_def)

theorem reopened_channel_keeps_old_bytes_witness:
  "\<exists>s2 s3. transport_pserial_open True True True (snd (transport_pserial_close
      (hserial_init\<lparr>hs_handle := True, hs_iface := Some LL_ACTIVE, hs_conn := 1, hs_r := R_block [1]\<rparr>))) =
      Some (SUCCESS, s2) \<and>
    serial_ll_rx_handler True True (ll_pkt 0 [2]) s2 = (LL_ok, s3) \<and>
    hs_queue s3 = [[1] @ ib_payload (ll_pkt 0 [2])]"
  by (rule reopened_channel_keeps_old_bytes) (simp_all add: ll_pkt_def)

end
