(* ===== verification/Serial_Link.thy ===== *)
theory Serial_Link
  imports Serial_Slave Serial_Host
begin

section \<open>RPC over the bus, end to end\<close>

text \<open>
  The two ends of the serial channel joined by the SDIO frames of \<open>Transport_Frame\<close>: a request
  goes from \<open>transport_pserial_send\<close> through frames to the co-processor's receive buffer, its
  RPC task answers, and the answer comes back through frames to \<open>serial_drv_read\<close>.
\<close>

text \<open>One packet carried over the bus, as the receiving side reads it.\<close>

definition to_slave :: "bool \<Rightarrow> ibuf \<Rightarrow> (u8 \<times> u16 \<times> byte list) option" where
  "to_slave chk ib =
     (let f = sdio_frame chk (length (ib_payload ib)) ib in
      map_option (\<lambda>(_, p). read_packet (ib_payload p)) (snd (sdio_rx_step chk f (length f))))"

definition to_host :: "bool \<Rightarrow> ibuf \<Rightarrow> ibuf option" where
  "to_host chk ib =
     (case sdio_write chk True False False True True ib of
        (_, None) \<Rightarrow> None
      | (_, Some f) \<Rightarrow> map_option snd (host_rx chk f))"

lemma to_slave_pkt:
  assumes "ib_payload ib \<noteq> []" "length (ib_payload ib) \<le> MAX_PAYLOAD_SIZE"
    "nibbles ib" "ib_if_type ib = ESP_SERIAL_IF"
  shows "to_slave chk ib = Some (ib_flag ib, ib_seq ib, ib_payload ib)"
proof -
  have body: "wire_body ib = ib_payload ib" using assms(4) by (simp add: wire_body_def esp_ifs)
  obtain pt where f: "sdio_frame chk (length (ib_payload ib)) ib =
      seal chk (tx_header ib (length (ib_payload ib)) pt) (ib_payload ib)"
    using sdio_frame_seal [of chk ib] by (auto simp: body)
  have "\<exists>p. sdio_rx_step chk (seal chk (tx_header ib (length (ib_payload ib)) pt)
      (ib_payload ib) @ []) (HDR + length (ib_payload ib)) = (ps_flag_event (ib_flag ib),
      Some (prio_of (ib_if_type ib),
        \<lparr> ib_if_type = ib_if_type ib, ib_if_num = ib_if_num ib, ib_flag = 0, ib_seq = 0,
          ib_payload = p, ib_zcopy = False \<rparr>)) \<and>
    read_packet p = (ib_flag ib, ib_seq ib, ib_payload ib)"
    by (rule sdio_rx_seal [of "tx_header ib (length (ib_payload ib)) pt" "ib_payload ib"
          "HDR + length (ib_payload ib)" "[]" chk])
      (use assms(1-3) in \<open>simp_all add: nibbles_def sdio_sizes\<close>)
  then obtain p where "sdio_rx_step chk (seal chk (tx_header ib (length (ib_payload ib)) pt)
      (ib_payload ib)) (HDR + length (ib_payload ib)) = (ps_flag_event (ib_flag ib),
      Some (prio_of (ib_if_type ib),
        \<lparr> ib_if_type = ib_if_type ib, ib_if_num = ib_if_num ib, ib_flag = 0, ib_seq = 0,
          ib_payload = p, ib_zcopy = False \<rparr>))"
    "read_packet p = (ib_flag ib, ib_seq ib, ib_payload ib)" by auto
  then show ?thesis by (simp add: to_slave_def f)
qed

lemma to_host_pkt:
  assumes "serial_ok ib"
  shows "to_host chk ib = Some (ib\<lparr>ib_zcopy := False\<rparr>)"
proof -
  have "host_rx chk (seal chk (tx_header ib (length (ib_payload ib)) 0) (ib_payload ib) @ []) =
      Some (prio_of (ib_if_type ib), \<lparr> ib_if_type = ib_if_type ib, ib_if_num = ib_if_num ib,
        ib_flag = ib_flag ib, ib_seq = ib_seq ib, ib_payload = ib_payload ib, ib_zcopy = False \<rparr>)"
    using assms
    by (subst host_rx_seal) (auto simp: serial_ok_def nibbles_def sdio_sizes ETH_DATA_LEN_def)
  moreover have "ib_payload ib \<noteq> []" using assms by (simp add: serial_ok_def)
  ultimately show ?thesis
    by (cases ib) (simp add: to_host_def sdio_write_def update_tx_header_seal)
qed

lemma ll_pkts_to_slave:
  assumes "\<forall>c \<in> set cs. c \<noteq> [] \<and> length c \<le> MAX_PAYLOAD_SIZE"
  shows "map (\<lambda>p. the (to_slave chk p)) (ll_pkts cs) = rx_fragments 0 cs"
  using assms
proof (induction cs rule: ll_pkts.induct)
  case (2 c)
  then show ?case
    using to_slave_pkt [of "ll_pkt 0 c" chk] by (simp add: ll_pkt_def nibbles_def esp_ifs)
next
  case (3 c c' cs)
  then show ?case
    using to_slave_pkt [of "ll_pkt MORE_FRAGMENT c" chk] by (simp add: ll_pkt_def nibbles_def esp_ifs)
qed simp

lemma messages_zcopy:
  "messages acc (map (ib_zcopy_update g) ps) = messages acc ps"
  "unfinished acc (map (ib_zcopy_update g) ps) = unfinished acc ps"
  by (induction ps arbitrary: acc) auto

lemma to_host_run:
  assumes "hs_active h" "hs_r h = R_null" "\<forall>p \<in> set ps. serial_ok p" "unfinished [] ps = []"
  shows "ll_rx_run (map (\<lambda>p. the (to_host chk p)) ps) h =
    Some (h\<lparr>hs_queue := hs_queue h @ messages [] ps, hs_posts := hs_posts h + length (messages [] ps)\<rparr>)"
proof -
  have m: "map (\<lambda>p. the (to_host chk p)) ps = map (ib_zcopy_update (\<lambda>_. False)) ps"
    using assms(3) by (simp add: to_host_pkt)
  have ne: "\<forall>p \<in> set (map (ib_zcopy_update (\<lambda>_. False)) ps). ib_payload p \<noteq> []"
    using assms(3) by (auto simp: serial_ok_def)
  have "ll_rx_run (map (ib_zcopy_update (\<lambda>_. False)) ps) h = Some (h\<lparr>hs_r := R_null,
      hs_queue := hs_queue h @ messages [] ps, hs_posts := hs_posts h + length (messages [] ps)\<rparr>)"
    using ll_rx_messages [of h "[]", OF assms(1) _ ne] assms(2,4)
    by (simp add: r_of_def messages_zcopy)
  moreover have "h\<lparr>hs_r := R_null\<rparr> = h" using assms(2) by (cases h) simp
  ultimately show ?thesis unfolding m by simp
qed

lemma RSP_props: "length RPC_EP_NAME_RSP = 6" "0 \<notin> set RPC_EP_NAME_RSP" "RPC_EP_NAME_RSP \<noteq> []"
  by (simp_all add: RPC_EP_NAME_RSP_def)

lemma rpc_trip:
  assumes "hs_handle h" "hs_active h" "hs_r h = R_null" "hs_queue h = []" "hs_posts h = 0"
    "copro_ready pm s" "cp_written s = []" "r_data (cp_rx s) = []"
    "d \<noteq> []" "length d \<le> 8180"
    "answer RPC_EP_NAME_RSP 0 d = ans" "ans \<noteq> []" "12 + length ans < 65536"
  shows "\<exists>ps r a s2 h2.
    transport_pserial_send (\<lambda>_. True) (hs_handle h) (hs_active h) (\<lambda>_. True) d = Some (SUCCESS, ps) \<and>
    serial_rx_pkts (map (\<lambda>p. the (to_slave chk p)) ps) (cp_rx s) = (r, [tlv_bytes RPC_EP_NAME_RSP d]) \<and>
    protocomm_pserial_data_ready True (\<lambda>_. True) (tlv_bytes RPC_EP_NAME_RSP d) 0 [] =
      Some (ESP_OK, [a]) \<and>
    pserial_task_step (serial_env pm answer) a (s\<lparr>cp_rx := r\<rparr>) = (Done ESP_OK, s2) \<and>
    ll_rx_run (map (\<lambda>p. the (to_host chk p)) (cp_written s2)) h = Some h2 \<and>
    serial_drv_read (\<lambda>_. True) h2 = (Some ans, h) \<and> rx_pending s2 = None"
proof -
  let ?m = "tlv_bytes RPC_EP_NAME_RSP d"
  let ?ps = "ll_pkts (chunks ?m)"
  have ne: "?m \<noteq> []" by (simp add: tlv_bytes_def)
  have len: "length ?m \<le> R_SIZE" using assms(10) by (simp add: RSP_props R_SIZE_def)
  have send: "transport_pserial_send (\<lambda>_. True) (hs_handle h) (hs_active h) (\<lambda>_. True) d =
      Some (SUCCESS, ?ps)"
    using transport_pserial_send_ok [OF assms(9)] assms(1,2,10)
    by (simp add: MAX_FRAGMENTABLE_PAYLOAD_SIZE_def)
  have carried: "map (\<lambda>p. the (to_slave chk p)) ?ps = rx_fragments 0 (chunks ?m)"
    using chunks_sizes [OF ne] by (intro ll_pkts_to_slave) blast
  obtain r a s2 where s2:
    "serial_rx_pkts (rx_fragments 0 (chunks ?m)) (cp_rx s) = (r, [?m])"
    "protocomm_pserial_data_ready True (\<lambda>_. True) ?m 0 [] = Some (ESP_OK, [a])"
    "pserial_task_step (serial_env pm answer) a (s\<lparr>cp_rx := r\<rparr>) = (Done ESP_OK, s2)"
    "messages [] (cp_written s2) = [tlv_bytes RPC_EP_NAME_RSP ans]"
    "rx_pending s2 = None" "copro_ready pm s2"
    using request_answered [OF assms(6,8) chunks_nonempty chunks_concat len RSP_props(2,3) _ assms(9),
        of 0 answer] assms(7,11)
    by (auto simp: RSP_props EPNAME_MAX_def)
  have run: "ll_rx_run (map (\<lambda>p. the (to_host chk p)) (cp_written s2)) h =
      Some (h\<lparr>hs_queue := [tlv_bytes RPC_EP_NAME_RSP ans], hs_posts := 1\<rparr>)"
    using to_host_run [OF assms(2,3), of "cp_written s2" chk] s2(4,6) assms(4,5)
    by (simp add: copro_ready_def)
  have "serial_drv_read (\<lambda>_. True) (h\<lparr>hs_queue := [tlv_bytes RPC_EP_NAME_RSP ans], hs_posts := 1\<rparr>) =
      (Some ans, h)"
    using serial_drv_read_message [of "h\<lparr>hs_queue := [tlv_bytes RPC_EP_NAME_RSP ans], hs_posts := 1\<rparr>"
        RPC_EP_NAME_RSP ans "[]" 0] assms(1-5,12,13)
    by (simp add: hs_active_def)
  then show ?thesis using send carried s2 run by auto
qed

text \<open>An RPC request of 1 to 8180 bytes makes the whole trip, with the frame checksum on or
  off: the host cuts it into packets, every frame is accepted, the co-processor joins the
  request, its handler is given exactly those bytes, the answer is cut, carried and joined, and
  the host's reader returns exactly the handler's answer, with both channels free again.\<close>

theorem rpc_round_trip:
  assumes "hs_handle h" "hs_active h" "hs_r h = R_null" "hs_queue h = []" "hs_posts h = 0"
    "copro_ready pm s" "cp_written s = []" "r_data (cp_rx s) = []"
    "d \<noteq> []" "length d \<le> 8180"
    "answer RPC_EP_NAME_RSP 0 d = ans" "ans \<noteq> []" "12 + length ans < 65536"
  shows "\<exists>ps r a s2 h2.
    transport_pserial_send (\<lambda>_. True) (hs_handle h) (hs_active h) (\<lambda>_. True) d = Some (SUCCESS, ps) \<and>
    serial_rx_pkts (map (\<lambda>p. the (to_slave chk p)) ps) (cp_rx s) = (r, [tlv_bytes RPC_EP_NAME_RSP d]) \<and>
    protocomm_pserial_data_ready True (\<lambda>_. True) (tlv_bytes RPC_EP_NAME_RSP d) 0 [] =
      Some (ESP_OK, [a]) \<and>
    pserial_task_step (serial_env pm answer) a (s\<lparr>cp_rx := r\<rparr>) = (Done ESP_OK, s2) \<and>
    ll_rx_run (map (\<lambda>p. the (to_host chk p)) (cp_written s2)) h = Some h2 \<and>
    serial_drv_read (\<lambda>_. True) h2 = (Some ans, h) \<and> rx_pending s2 = None"
  by (rule rpc_trip) (fact assms)+

definition demo_host :: hserial where
  "demo_host = hserial_init\<lparr>hs_handle := True, hs_iface := Some LL_ACTIVE, hs_conn := 1\<rparr>"

theorem rpc_round_trip_witness:
  "\<exists>ps r a s2 h2.
    transport_pserial_send (\<lambda>_. True) (hs_handle demo_host) (hs_active demo_host) (\<lambda>_. True) [1, 2] =
      Some (SUCCESS, ps) \<and>
    serial_rx_pkts (map (\<lambda>p. the (to_slave True p)) ps) (cp_rx demo_copro) =
      (r, [tlv_bytes RPC_EP_NAME_RSP [1, 2]]) \<and>
    protocomm_pserial_data_ready True (\<lambda>_. True) (tlv_bytes RPC_EP_NAME_RSP [1, 2]) 0 [] =
      Some (ESP_OK, [a]) \<and>
    pserial_task_step (serial_env demo_pm demo_answer) a (demo_copro\<lparr>cp_rx := r\<rparr>) = (Done ESP_OK, s2) \<and>
    ll_rx_run (map (\<lambda>p. the (to_host True p)) (cp_written s2)) demo_host = Some h2 \<and>
    serial_drv_read (\<lambda>_. True) h2 = (Some [1, 2, 0], demo_host) \<and> rx_pending s2 = None"
  by (rule rpc_round_trip)
    (simp_all add: demo_host_def hserial_init_def hs_active_def copro_ready_def link_open_def
      demo_copro_def demo_pm_def demo_answer_def)

end
