(* ===== verification/Rpc_Base.thy ===== *)
theory Rpc_Base
  imports Hosted_Prelude
begin

section \<open>The common shape of RPC handlers (slave_control.h)\<close>

text \<open>
  Every request handler of the co-processor opens with \<open>RPC_TEMPLATE\<close> or \<open>RPC_TEMPLATE_SIMPLE\<close>,
  leaves early by \<open>RPC_RET_FAIL_IF\<close> and copies strings and bytes by the \<open>RPC_RESP_COPY\<close> and
  \<open>RPC_REQ_COPY\<close> macros. They are functions here; a handler's answer is its return value and the
  payload it hung into the response, if it made one. \<open>ret\<close> injects an answer into the outcome
  of the handler, which is larger when the handler has state or may crash.
\<close>

type_synonym 'r answered = "esp_err \<times> 'r option"

definition rpc_template :: "('r answered \<Rightarrow> 'o) \<Rightarrow> bool \<Rightarrow> 'q option \<Rightarrow> ('q \<Rightarrow> 'o) \<Rightarrow> 'o" where
  "rpc_template ret alloc req body =
     (case req of
        None \<Rightarrow> ret (ESP_FAIL, None)
      | Some q \<Rightarrow> if \<not> alloc then ret (ESP_ERR_NO_MEM, None) else body q)"

definition rpc_template_simple :: "('r answered \<Rightarrow> 'o) \<Rightarrow> bool \<Rightarrow> 'o \<Rightarrow> 'o" where
  "rpc_template_simple ret alloc body = (if \<not> alloc then ret (ESP_ERR_NO_MEM, None) else body)"

text \<open>\<open>RPC_RET_FAIL_IF\<close>: \<open>failed\<close> makes the response with the error in its status field.\<close>

definition rpc_ret_fail_if :: "('r answered \<Rightarrow> 'o) \<Rightarrow> (esp_err \<Rightarrow> 'r) \<Rightarrow> esp_err \<Rightarrow> 'o \<Rightarrow> 'o" where
  "rpc_ret_fail_if ret failed e cont = (if e \<noteq> 0 then ret (ESP_OK, Some (failed e)) else cont)"

lemma rpc_template_simps [simp]:
  "rpc_template ret alloc None body = ret (ESP_FAIL, None)"
  "rpc_template ret False (Some q) body = ret (ESP_ERR_NO_MEM, None)"
  "rpc_template ret True (Some q) body = body q"
  "rpc_template_simple ret False out = ret (ESP_ERR_NO_MEM, None)"
  "rpc_template_simple ret True out = out"
  by (simp_all add: rpc_template_def rpc_template_simple_def)

lemma rpc_ret_fail_if_simps [simp]:
  "rpc_ret_fail_if ret failed 0 cont = cont"
  "e \<noteq> 0 \<Longrightarrow> rpc_ret_fail_if ret failed e cont = ret (ESP_OK, Some (failed e))"
  by (simp_all add: rpc_ret_fail_if_def)

definition RPC_ERR_MEMORY_FAILURE :: int where "RPC_ERR_MEMORY_FAILURE = 0x2f06"

subsection \<open>Copies between messages and C buffers\<close>

text \<open>
  \<open>RPC_RESP_COPY_STR\<close>: \<open>strndup\<close> of at most \<open>max_len\<close> characters, announced with its
  terminating zero unless the string fills the limit. The source is a C string, given without its
  zero; \<open>None\<close> is out of memory.
\<close>

definition rpc_resp_copy_str :: "bool \<Rightarrow> byte list \<Rightarrow> nat \<Rightarrow> byte list option" where
  "rpc_resp_copy_str alloc src max_len =
     (if \<not> alloc then None
      else Some (take (min max_len (length src + 1)) (take max_len src @ [0])))"

text \<open>\<open>RPC_RESP_COPY_BYTES\<close>: nothing is allocated for zero bytes.\<close>

definition rpc_resp_copy_bytes :: "bool \<Rightarrow> byte list \<Rightarrow> nat \<Rightarrow> byte list option" where
  "rpc_resp_copy_bytes alloc src num =
     (if num = 0 then Some [] else if \<not> alloc then None else Some (take num src))"

text \<open>\<open>RPC_REQ_COPY_BYTES\<close> into an array: bounded by the array, by \<open>num\<close> and by the message.\<close>

definition rpc_req_copy_bytes :: "byte list \<Rightarrow> byte list \<Rightarrow> nat \<Rightarrow> byte list" where
  "rpc_req_copy_bytes dest src num =
     (let n = min (min (length dest) num) (length src) in take n src @ drop n dest)"

lemma length_rpc_req_copy_bytes [simp]: "length (rpc_req_copy_bytes dest src num) = length dest"
  by (simp add: rpc_req_copy_bytes_def Let_def)

text \<open>The string a C reader finds at the front of an array; \<open>None\<close>: it has no zero byte.\<close>

definition c_str_in :: "byte list \<Rightarrow> byte list option" where
  "c_str_in b = (if 0 \<in> set b then Some (takeWhile (\<lambda>x. x \<noteq> 0) b) else None)"

lemma c_str_in_zero [simp]: "0 \<notin> set s \<Longrightarrow> c_str_in (s @ 0 # xs) = Some s"
  by (induction s) (auto simp: c_str_in_def)

text \<open>A copied string is found again in an array that has room for it and its zero.\<close>

lemma copied_string_found:
  assumes "0 \<notin> set s" "length s < length dest" "length s < max_len" "length s < num"
    "rpc_resp_copy_str True s max_len = Some m"
  shows "c_str_in (rpc_req_copy_bytes dest m num) = Some s"
proof -
  have m: "m = s @ [0]" using assms(3,5) by (simp add: rpc_resp_copy_str_def)
  have "rpc_req_copy_bytes dest m num = s @ 0 # drop (Suc (length s)) dest"
  proof -
    have n: "min (min (length dest) num) (length m) = Suc (length s)" using assms(2,4) by (simp add: m)
    show ?thesis unfolding rpc_req_copy_bytes_def Let_def n by (simp add: m)
  qed
  then show ?thesis using assms(1) by simp
qed

subsection \<open>Payloads\<close>

definition lift_answer :: "('a \<Rightarrow> 'r) \<Rightarrow> 'a answered \<Rightarrow> 'r answered" where
  "lift_answer f a = (fst a, map_option f (snd a))"

text \<open>
  The payload of a message is a union, and a handler reads the member of its own request (\<open>sel\<close>). Without
  a payload the handler's template refuses; a payload of another kind is only looked at after the
  response was allocated, and is a structure of the wrong type (\<open>None\<close>).
\<close>

definition with_payload ::
  "bool \<Rightarrow> ('q \<Rightarrow> 'p option) \<Rightarrow> 'q option \<Rightarrow> 's \<Rightarrow> ('p option \<Rightarrow> ('r answered \<times> 's) option)
    \<Rightarrow> ('r answered \<times> 's) option" where
  "with_payload alloc sel q s body =
     (case q of
        None \<Rightarrow> body None
      | Some p \<Rightarrow>
          (case sel p of
             Some x \<Rightarrow> body (Some x)
           | None \<Rightarrow> if alloc then None else Some ((ESP_ERR_NO_MEM, None), s)))"

lemma with_payload_cases:
  assumes "with_payload alloc sel q s body = Some r"
  shows "r = ((ESP_ERR_NO_MEM, None), s) \<or> (\<exists>x. body x = Some r)"
  using assms by (auto simp: with_payload_def split: option.splits if_splits)

end
