(* ===== verification/Rpc_Dispatch.thy ===== *)
theory Rpc_Dispatch
  imports Rpc_Base
begin

section \<open>Dispatch of RPC requests and events on the co-processor (slave_control.c)\<close>

text \<open>
  \<open>data_transfer_handler\<close> unpacks a request, finds its handler in \<open>req_table\<close>, and packs the
  response; \<open>rpc_evt_handler\<close> packs an event. The protobuf code is generated and a parameter
  (\<open>unpack\<close>, \<open>pack\<close>), and so are the handlers: \<open>run\<close> gives a handler's answer and the new state, or
  \<open>None\<close> when it crashes. The table depends on the build (\<open>rpc_build\<close>).
\<close>

subsection \<open>Message ids and handlers\<close>

abbreviation (input) RPC_ID__Req_OTABegin :: u32 where "RPC_ID__Req_OTABegin \<equiv> 272"
abbreviation (input) RPC_ID__Req_OTAWrite :: u32 where "RPC_ID__Req_OTAWrite \<equiv> 273"
abbreviation (input) RPC_ID__Req_OTAEnd :: u32 where "RPC_ID__Req_OTAEnd \<equiv> 274"
abbreviation (input) RPC_ID__Req_OTAActivate :: u32 where "RPC_ID__Req_OTAActivate \<equiv> 266"
abbreviation (input) RPC_ID__Req_ConfigHeartbeat :: u32 where "RPC_ID__Req_ConfigHeartbeat \<equiv> 277"
abbreviation (input) RPC_ID__Req_GetCoprocessorFwVersion :: u32 where "RPC_ID__Req_GetCoprocessorFwVersion \<equiv> 350"
abbreviation (input) RPC_ID__Req_IfaceMacAddrSetGet :: u32 where "RPC_ID__Req_IfaceMacAddrSetGet \<equiv> 385"
abbreviation (input) RPC_ID__Req_IfaceMacAddrLenGet :: u32 where "RPC_ID__Req_IfaceMacAddrLenGet \<equiv> 386"
abbreviation (input) RPC_ID__Req_FeatureControl :: u32 where "RPC_ID__Req_FeatureControl \<equiv> 387"
abbreviation (input) RPC_ID__Req_AppGetDesc :: u32 where "RPC_ID__Req_AppGetDesc \<equiv> 267"
abbreviation (input) RPC_ID__Req_GetMACAddress :: u32 where "RPC_ID__Req_GetMACAddress \<equiv> 257"
abbreviation (input) RPC_ID__Req_GetWifiMode :: u32 where "RPC_ID__Req_GetWifiMode \<equiv> 259"
abbreviation (input) RPC_ID__Req_SetWifiMode :: u32 where "RPC_ID__Req_SetWifiMode \<equiv> 260"
abbreviation (input) RPC_ID__Req_SetMacAddress :: u32 where "RPC_ID__Req_SetMacAddress \<equiv> 258"
abbreviation (input) RPC_ID__Req_WifiSetPs :: u32 where "RPC_ID__Req_WifiSetPs \<equiv> 270"
abbreviation (input) RPC_ID__Req_WifiGetPs :: u32 where "RPC_ID__Req_WifiGetPs \<equiv> 271"
abbreviation (input) RPC_ID__Req_WifiSetMaxTxPower :: u32 where "RPC_ID__Req_WifiSetMaxTxPower \<equiv> 275"
abbreviation (input) RPC_ID__Req_WifiGetMaxTxPower :: u32 where "RPC_ID__Req_WifiGetMaxTxPower \<equiv> 276"
abbreviation (input) RPC_ID__Req_WifiInit :: u32 where "RPC_ID__Req_WifiInit \<equiv> 278"
abbreviation (input) RPC_ID__Req_WifiDeinit :: u32 where "RPC_ID__Req_WifiDeinit \<equiv> 279"
abbreviation (input) RPC_ID__Req_WifiStart :: u32 where "RPC_ID__Req_WifiStart \<equiv> 280"
abbreviation (input) RPC_ID__Req_WifiStop :: u32 where "RPC_ID__Req_WifiStop \<equiv> 281"
abbreviation (input) RPC_ID__Req_WifiConnect :: u32 where "RPC_ID__Req_WifiConnect \<equiv> 282"
abbreviation (input) RPC_ID__Req_WifiDisconnect :: u32 where "RPC_ID__Req_WifiDisconnect \<equiv> 283"
abbreviation (input) RPC_ID__Req_WifiSetConfig :: u32 where "RPC_ID__Req_WifiSetConfig \<equiv> 284"
abbreviation (input) RPC_ID__Req_WifiScanParams :: u32 where "RPC_ID__Req_WifiScanParams \<equiv> 269"
abbreviation (input) RPC_ID__Req_WifiGetConfig :: u32 where "RPC_ID__Req_WifiGetConfig \<equiv> 285"
abbreviation (input) RPC_ID__Req_WifiScanStart :: u32 where "RPC_ID__Req_WifiScanStart \<equiv> 286"
abbreviation (input) RPC_ID__Req_WifiScanStop :: u32 where "RPC_ID__Req_WifiScanStop \<equiv> 287"
abbreviation (input) RPC_ID__Req_WifiScanGetApNum :: u32 where "RPC_ID__Req_WifiScanGetApNum \<equiv> 288"
abbreviation (input) RPC_ID__Req_WifiScanGetApRecord :: u32 where "RPC_ID__Req_WifiScanGetApRecord \<equiv> 351"
abbreviation (input) RPC_ID__Req_WifiScanGetApRecords :: u32 where "RPC_ID__Req_WifiScanGetApRecords \<equiv> 289"
abbreviation (input) RPC_ID__Req_WifiClearApList :: u32 where "RPC_ID__Req_WifiClearApList \<equiv> 290"
abbreviation (input) RPC_ID__Req_WifiRestore :: u32 where "RPC_ID__Req_WifiRestore \<equiv> 291"
abbreviation (input) RPC_ID__Req_WifiClearFastConnect :: u32 where "RPC_ID__Req_WifiClearFastConnect \<equiv> 292"
abbreviation (input) RPC_ID__Req_WifiStaGetApInfo :: u32 where "RPC_ID__Req_WifiStaGetApInfo \<equiv> 294"
abbreviation (input) RPC_ID__Req_WifiDeauthSta :: u32 where "RPC_ID__Req_WifiDeauthSta \<equiv> 293"
abbreviation (input) RPC_ID__Req_WifiSetStorage :: u32 where "RPC_ID__Req_WifiSetStorage \<equiv> 313"
abbreviation (input) RPC_ID__Req_WifiSetProtocol :: u32 where "RPC_ID__Req_WifiSetProtocol \<equiv> 297"
abbreviation (input) RPC_ID__Req_WifiGetProtocol :: u32 where "RPC_ID__Req_WifiGetProtocol \<equiv> 298"
abbreviation (input) RPC_ID__Req_WifiSetBandwidth :: u32 where "RPC_ID__Req_WifiSetBandwidth \<equiv> 299"
abbreviation (input) RPC_ID__Req_WifiGetBandwidth :: u32 where "RPC_ID__Req_WifiGetBandwidth \<equiv> 300"
abbreviation (input) RPC_ID__Req_WifiSetChannel :: u32 where "RPC_ID__Req_WifiSetChannel \<equiv> 301"
abbreviation (input) RPC_ID__Req_WifiGetChannel :: u32 where "RPC_ID__Req_WifiGetChannel \<equiv> 302"
abbreviation (input) RPC_ID__Req_WifiSetCountryCode :: u32 where "RPC_ID__Req_WifiSetCountryCode \<equiv> 334"
abbreviation (input) RPC_ID__Req_WifiGetCountryCode :: u32 where "RPC_ID__Req_WifiGetCountryCode \<equiv> 335"
abbreviation (input) RPC_ID__Req_WifiSetCountry :: u32 where "RPC_ID__Req_WifiSetCountry \<equiv> 303"
abbreviation (input) RPC_ID__Req_WifiGetCountry :: u32 where "RPC_ID__Req_WifiGetCountry \<equiv> 304"
abbreviation (input) RPC_ID__Req_WifiApGetStaList :: u32 where "RPC_ID__Req_WifiApGetStaList \<equiv> 311"
abbreviation (input) RPC_ID__Req_WifiApGetStaAid :: u32 where "RPC_ID__Req_WifiApGetStaAid \<equiv> 312"
abbreviation (input) RPC_ID__Req_WifiStaGetRssi :: u32 where "RPC_ID__Req_WifiStaGetRssi \<equiv> 341"
abbreviation (input) RPC_ID__Req_WifiStaGetAid :: u32 where "RPC_ID__Req_WifiStaGetAid \<equiv> 338"
abbreviation (input) RPC_ID__Req_WifiStaGetNegotiatedPhymode :: u32 where "RPC_ID__Req_WifiStaGetNegotiatedPhymode \<equiv> 339"
abbreviation (input) RPC_ID__Req_WifiSetProtocols :: u32 where "RPC_ID__Req_WifiSetProtocols \<equiv> 342"
abbreviation (input) RPC_ID__Req_WifiGetProtocols :: u32 where "RPC_ID__Req_WifiGetProtocols \<equiv> 343"
abbreviation (input) RPC_ID__Req_WifiSetBandwidths :: u32 where "RPC_ID__Req_WifiSetBandwidths \<equiv> 344"
abbreviation (input) RPC_ID__Req_WifiGetBandwidths :: u32 where "RPC_ID__Req_WifiGetBandwidths \<equiv> 345"
abbreviation (input) RPC_ID__Req_WifiSetBand :: u32 where "RPC_ID__Req_WifiSetBand \<equiv> 346"
abbreviation (input) RPC_ID__Req_WifiGetBand :: u32 where "RPC_ID__Req_WifiGetBand \<equiv> 347"
abbreviation (input) RPC_ID__Req_WifiSetBandMode :: u32 where "RPC_ID__Req_WifiSetBandMode \<equiv> 348"
abbreviation (input) RPC_ID__Req_WifiGetBandMode :: u32 where "RPC_ID__Req_WifiGetBandMode \<equiv> 349"
abbreviation (input) RPC_ID__Req_WifiSetInactiveTime :: u32 where "RPC_ID__Req_WifiSetInactiveTime \<equiv> 325"
abbreviation (input) RPC_ID__Req_WifiGetInactiveTime :: u32 where "RPC_ID__Req_WifiGetInactiveTime \<equiv> 326"
abbreviation (input) RPC_ID__Req_SetDhcpDnsStatus :: u32 where "RPC_ID__Req_SetDhcpDnsStatus \<equiv> 352"
abbreviation (input) RPC_ID__Req_GetDhcpDnsStatus :: u32 where "RPC_ID__Req_GetDhcpDnsStatus \<equiv> 353"
abbreviation (input) RPC_ID__Req_WifiStaTwtConfig :: u32 where "RPC_ID__Req_WifiStaTwtConfig \<equiv> 354"
abbreviation (input) RPC_ID__Req_WifiStaItwtSetup :: u32 where "RPC_ID__Req_WifiStaItwtSetup \<equiv> 355"
abbreviation (input) RPC_ID__Req_WifiStaItwtTeardown :: u32 where "RPC_ID__Req_WifiStaItwtTeardown \<equiv> 356"
abbreviation (input) RPC_ID__Req_WifiStaItwtSuspend :: u32 where "RPC_ID__Req_WifiStaItwtSuspend \<equiv> 357"
abbreviation (input) RPC_ID__Req_WifiStaItwtGetFlowIdStatus :: u32 where "RPC_ID__Req_WifiStaItwtGetFlowIdStatus \<equiv> 358"
abbreviation (input) RPC_ID__Req_WifiStaItwtSendProbeReq :: u32 where "RPC_ID__Req_WifiStaItwtSendProbeReq \<equiv> 359"
abbreviation (input) RPC_ID__Req_WifiStaItwtSetTargetWakeTimeOffset :: u32 where "RPC_ID__Req_WifiStaItwtSetTargetWakeTimeOffset \<equiv> 360"
abbreviation (input) RPC_ID__Req_WifiStaEnterpriseEnable :: u32 where "RPC_ID__Req_WifiStaEnterpriseEnable \<equiv> 361"
abbreviation (input) RPC_ID__Req_WifiStaEnterpriseDisable :: u32 where "RPC_ID__Req_WifiStaEnterpriseDisable \<equiv> 362"
abbreviation (input) RPC_ID__Req_EapSetIdentity :: u32 where "RPC_ID__Req_EapSetIdentity \<equiv> 363"
abbreviation (input) RPC_ID__Req_EapClearIdentity :: u32 where "RPC_ID__Req_EapClearIdentity \<equiv> 364"
abbreviation (input) RPC_ID__Req_EapSetUsername :: u32 where "RPC_ID__Req_EapSetUsername \<equiv> 365"
abbreviation (input) RPC_ID__Req_EapClearUsername :: u32 where "RPC_ID__Req_EapClearUsername \<equiv> 366"
abbreviation (input) RPC_ID__Req_EapSetPassword :: u32 where "RPC_ID__Req_EapSetPassword \<equiv> 367"
abbreviation (input) RPC_ID__Req_EapClearPassword :: u32 where "RPC_ID__Req_EapClearPassword \<equiv> 368"
abbreviation (input) RPC_ID__Req_EapSetNewPassword :: u32 where "RPC_ID__Req_EapSetNewPassword \<equiv> 369"
abbreviation (input) RPC_ID__Req_EapClearNewPassword :: u32 where "RPC_ID__Req_EapClearNewPassword \<equiv> 370"
abbreviation (input) RPC_ID__Req_EapSetCaCert :: u32 where "RPC_ID__Req_EapSetCaCert \<equiv> 371"
abbreviation (input) RPC_ID__Req_EapClearCaCert :: u32 where "RPC_ID__Req_EapClearCaCert \<equiv> 372"
abbreviation (input) RPC_ID__Req_EapSetCertificateAndKey :: u32 where "RPC_ID__Req_EapSetCertificateAndKey \<equiv> 373"
abbreviation (input) RPC_ID__Req_EapClearCertificateAndKey :: u32 where "RPC_ID__Req_EapClearCertificateAndKey \<equiv> 374"
abbreviation (input) RPC_ID__Req_EapGetDisableTimeCheck :: u32 where "RPC_ID__Req_EapGetDisableTimeCheck \<equiv> 375"
abbreviation (input) RPC_ID__Req_EapSetTtlsPhase2Method :: u32 where "RPC_ID__Req_EapSetTtlsPhase2Method \<equiv> 376"
abbreviation (input) RPC_ID__Req_EapSetSuitebCertification :: u32 where "RPC_ID__Req_EapSetSuitebCertification \<equiv> 377"
abbreviation (input) RPC_ID__Req_EapSetPacFile :: u32 where "RPC_ID__Req_EapSetPacFile \<equiv> 378"
abbreviation (input) RPC_ID__Req_EapSetFastParams :: u32 where "RPC_ID__Req_EapSetFastParams \<equiv> 379"
abbreviation (input) RPC_ID__Req_EapUseDefaultCertBundle :: u32 where "RPC_ID__Req_EapUseDefaultCertBundle \<equiv> 380"
abbreviation (input) RPC_ID__Req_WifiSetOkcSupport :: u32 where "RPC_ID__Req_WifiSetOkcSupport \<equiv> 381"
abbreviation (input) RPC_ID__Req_EapSetDomainName :: u32 where "RPC_ID__Req_EapSetDomainName \<equiv> 382"
abbreviation (input) RPC_ID__Req_EapSetDisableTimeCheck :: u32 where "RPC_ID__Req_EapSetDisableTimeCheck \<equiv> 383"
abbreviation (input) RPC_ID__Req_EapSetEapMethods :: u32 where "RPC_ID__Req_EapSetEapMethods \<equiv> 384"
abbreviation (input) RPC_ID__Req_SuppDppInit :: u32 where "RPC_ID__Req_SuppDppInit \<equiv> 261"
abbreviation (input) RPC_ID__Req_SuppDppDeinit :: u32 where "RPC_ID__Req_SuppDppDeinit \<equiv> 262"
abbreviation (input) RPC_ID__Req_SuppDppBootstrapGen :: u32 where "RPC_ID__Req_SuppDppBootstrapGen \<equiv> 263"
abbreviation (input) RPC_ID__Req_SuppDppStartListen :: u32 where "RPC_ID__Req_SuppDppStartListen \<equiv> 264"
abbreviation (input) RPC_ID__Req_SuppDppStopListen :: u32 where "RPC_ID__Req_SuppDppStopListen \<equiv> 265"
abbreviation (input) RPC_ID__Req_MemMonitor :: u32 where "RPC_ID__Req_MemMonitor \<equiv> 268"
abbreviation (input) RPC_ID__Req_CustomRpc :: u32 where "RPC_ID__Req_CustomRpc \<equiv> 388"
abbreviation (input) RPC_ID__Req_GpioConfig :: u32 where "RPC_ID__Req_GpioConfig \<equiv> 389"
abbreviation (input) RPC_ID__Req_GpioResetPin :: u32 where "RPC_ID__Req_GpioResetPin \<equiv> 390"
abbreviation (input) RPC_ID__Req_GpioSetLevel :: u32 where "RPC_ID__Req_GpioSetLevel \<equiv> 391"
abbreviation (input) RPC_ID__Req_GpioGetLevel :: u32 where "RPC_ID__Req_GpioGetLevel \<equiv> 392"
abbreviation (input) RPC_ID__Req_GpioSetDirection :: u32 where "RPC_ID__Req_GpioSetDirection \<equiv> 393"
abbreviation (input) RPC_ID__Req_GpioInputEnable :: u32 where "RPC_ID__Req_GpioInputEnable \<equiv> 394"
abbreviation (input) RPC_ID__Req_GpioSetPullMode :: u32 where "RPC_ID__Req_GpioSetPullMode \<equiv> 395"
abbreviation (input) RPC_ID__Req_ExtCoex :: u32 where "RPC_ID__Req_ExtCoex \<equiv> 396"

abbreviation (input) RPC_ID__Req_Base :: u32 where "RPC_ID__Req_Base \<equiv> 256"
abbreviation (input) RPC_ID__Req_Max :: u32 where "RPC_ID__Req_Max \<equiv> 397"
abbreviation (input) RPC_ID__Resp_Base :: u32 where "RPC_ID__Resp_Base \<equiv> 512"

datatype ctl_handler =
    Req_ota_begin_handler | Req_ota_write_handler | Req_ota_end_handler
  | Req_ota_activate_handler | Req_config_heartbeat | Req_get_coprocessor_fw_version
  | Req_iface_mac_addr_set_get | Req_iface_mac_addr_len_get | Req_feature_control
  | Req_app_get_desc | Req_mem_monitor | Req_custom_rpc_handler

datatype wifi_handler =
    Req_wifi_get_mac | Req_wifi_get_mode | Req_wifi_set_mode | Req_wifi_set_mac | Req_wifi_set_ps
  | Req_wifi_get_ps | Req_wifi_set_max_tx_power | Req_wifi_get_max_tx_power | Req_wifi_init
  | Req_wifi_deinit | Req_wifi_start | Req_wifi_stop | Req_wifi_connect | Req_wifi_disconnect
  | Req_wifi_set_config | Req_wifi_scan_params | Req_wifi_get_config | Req_wifi_scan_start
  | Req_wifi_scan_stop | Req_wifi_scan_get_ap_num | Req_wifi_scan_get_ap_record
  | Req_wifi_scan_get_ap_records | Req_wifi_clear_ap_list | Req_wifi_restore
  | Req_wifi_clear_fast_connect

datatype link_handler =
    Req_wifi_sta_get_ap_info | Req_wifi_deauth_sta | Req_wifi_set_storage | Req_wifi_set_protocol
  | Req_wifi_get_protocol | Req_wifi_set_bandwidth | Req_wifi_get_bandwidth
  | Req_wifi_set_channel | Req_wifi_get_channel | Req_wifi_set_country_code
  | Req_wifi_get_country_code | Req_wifi_set_country | Req_wifi_get_country
  | Req_wifi_ap_get_sta_list | Req_wifi_ap_get_sta_aid | Req_wifi_sta_get_rssi
  | Req_wifi_sta_get_aid | Req_wifi_sta_get_negotiated_phymode | Req_wifi_set_inactive_time
  | Req_wifi_get_inactive_time

datatype band_handler =
    Req_wifi_set_protocols | Req_wifi_get_protocols | Req_wifi_set_bandwidths
  | Req_wifi_get_bandwidths | Req_wifi_set_band | Req_wifi_get_band | Req_wifi_set_band_mode
  | Req_wifi_get_band_mode

datatype twt_handler =
    Req_wifi_sta_twt_config | Req_wifi_sta_itwt_setup | Req_wifi_sta_itwt_teardown
  | Req_wifi_sta_itwt_suspend | Req_wifi_sta_itwt_get_flow_id_status
  | Req_wifi_sta_itwt_send_probe_req | Req_wifi_sta_itwt_set_target_wake_time_offset

datatype dpp_handler =
    Req_supp_dpp_init | Req_supp_dpp_deinit | Req_supp_dpp_bootstrap_gen
  | Req_supp_dpp_start_listen | Req_supp_dpp_stop_listen

datatype net_handler =
    Req_set_dhcp_dns_status | Req_get_dhcp_dns_status

datatype eap_handler =
    Req_wifi_sta_enterprise_enable | Req_wifi_sta_enterprise_disable | Req_eap_set_identity
  | Req_eap_clear_identity | Req_eap_set_username | Req_eap_clear_username | Req_eap_set_password
  | Req_eap_clear_password | Req_eap_set_new_password | Req_eap_clear_new_password
  | Req_eap_set_ca_cert | Req_eap_clear_ca_cert | Req_eap_set_certificate_and_key
  | Req_eap_clear_certificate_and_key | Req_eap_get_disable_time_check
  | Req_eap_set_ttls_phase2_method | Req_eap_set_suiteb_certification | Req_eap_set_pac_file
  | Req_eap_set_fast_params | Req_eap_use_default_cert_bundle | Req_wifi_set_okc_support
  | Req_eap_set_domain_name | Req_eap_set_disable_time_check | Req_eap_set_eap_methods

datatype pin_handler =
    Req_gpio_config | Req_gpio_reset | Req_gpio_set_level | Req_gpio_get_level
  | Req_gpio_set_direction | Req_gpio_input_enable | Req_gpio_set_pull_mode | Req_ext_coex

datatype req_handler =
    Ctl ctl_handler | Wifi wifi_handler | Link link_handler | Band band_handler | Twt twt_handler
  | Net net_handler | Eap eap_handler | Dpp dpp_handler | Pin pin_handler

text \<open>
  The conditions of the table: features of the build and of the ESP-IDF version. No header or build
  file of the co-processor defines \<open>H_GOT_EAP_OKC_SUPPORT\<close>.
\<close>

record rpc_build =
  b_wifi :: bool
  b_idf_5_4 :: bool
  b_he :: bool
  b_he_idf_5_3 :: bool
  b_enterprise :: bool
  b_domain_name :: bool
  b_eap_methods :: bool
  b_dpp :: bool
  b_mem_monitor :: bool
  b_peer_data :: bool
  b_gpio :: bool
  b_ext_coex :: bool

definition H_GOT_EAP_OKC_SUPPORT :: bool where "H_GOT_EAP_OKC_SUPPORT = False"

definition built :: "bool \<Rightarrow> 'a list \<Rightarrow> 'a list" where
  "built c xs = (if c then xs else [])"

text \<open>The table, in its sections.\<close>

definition base_requests :: "(u32 \<times> req_handler) list" where
  "base_requests = [
      (RPC_ID__Req_OTABegin, Ctl Req_ota_begin_handler),
      (RPC_ID__Req_OTAWrite, Ctl Req_ota_write_handler),
      (RPC_ID__Req_OTAEnd, Ctl Req_ota_end_handler),
      (RPC_ID__Req_OTAActivate, Ctl Req_ota_activate_handler),
      (RPC_ID__Req_ConfigHeartbeat, Ctl Req_config_heartbeat),
      (RPC_ID__Req_GetCoprocessorFwVersion, Ctl Req_get_coprocessor_fw_version),
      (RPC_ID__Req_IfaceMacAddrSetGet, Ctl Req_iface_mac_addr_set_get),
      (RPC_ID__Req_IfaceMacAddrLenGet, Ctl Req_iface_mac_addr_len_get),
      (RPC_ID__Req_FeatureControl, Ctl Req_feature_control),
      (RPC_ID__Req_AppGetDesc, Ctl Req_app_get_desc)]"

definition wifi_requests :: "(u32 \<times> req_handler) list" where
  "wifi_requests = [
      (RPC_ID__Req_GetMACAddress, Wifi Req_wifi_get_mac),
      (RPC_ID__Req_GetWifiMode, Wifi Req_wifi_get_mode),
      (RPC_ID__Req_SetWifiMode, Wifi Req_wifi_set_mode),
      (RPC_ID__Req_SetMacAddress, Wifi Req_wifi_set_mac),
      (RPC_ID__Req_WifiSetPs, Wifi Req_wifi_set_ps),
      (RPC_ID__Req_WifiGetPs, Wifi Req_wifi_get_ps),
      (RPC_ID__Req_WifiSetMaxTxPower, Wifi Req_wifi_set_max_tx_power),
      (RPC_ID__Req_WifiGetMaxTxPower, Wifi Req_wifi_get_max_tx_power),
      (RPC_ID__Req_WifiInit, Wifi Req_wifi_init),
      (RPC_ID__Req_WifiDeinit, Wifi Req_wifi_deinit),
      (RPC_ID__Req_WifiStart, Wifi Req_wifi_start),
      (RPC_ID__Req_WifiStop, Wifi Req_wifi_stop),
      (RPC_ID__Req_WifiConnect, Wifi Req_wifi_connect),
      (RPC_ID__Req_WifiDisconnect, Wifi Req_wifi_disconnect),
      (RPC_ID__Req_WifiSetConfig, Wifi Req_wifi_set_config),
      (RPC_ID__Req_WifiScanParams, Wifi Req_wifi_scan_params),
      (RPC_ID__Req_WifiGetConfig, Wifi Req_wifi_get_config),
      (RPC_ID__Req_WifiScanStart, Wifi Req_wifi_scan_start),
      (RPC_ID__Req_WifiScanStop, Wifi Req_wifi_scan_stop),
      (RPC_ID__Req_WifiScanGetApNum, Wifi Req_wifi_scan_get_ap_num),
      (RPC_ID__Req_WifiScanGetApRecord, Wifi Req_wifi_scan_get_ap_record),
      (RPC_ID__Req_WifiScanGetApRecords, Wifi Req_wifi_scan_get_ap_records)]"

definition station_requests :: "(u32 \<times> req_handler) list" where
  "station_requests = [
      (RPC_ID__Req_WifiClearApList, Wifi Req_wifi_clear_ap_list),
      (RPC_ID__Req_WifiRestore, Wifi Req_wifi_restore),
      (RPC_ID__Req_WifiClearFastConnect, Wifi Req_wifi_clear_fast_connect),
      (RPC_ID__Req_WifiStaGetApInfo, Link Req_wifi_sta_get_ap_info),
      (RPC_ID__Req_WifiDeauthSta, Link Req_wifi_deauth_sta),
      (RPC_ID__Req_WifiSetStorage, Link Req_wifi_set_storage),
      (RPC_ID__Req_WifiSetProtocol, Link Req_wifi_set_protocol),
      (RPC_ID__Req_WifiGetProtocol, Link Req_wifi_get_protocol),
      (RPC_ID__Req_WifiSetBandwidth, Link Req_wifi_set_bandwidth),
      (RPC_ID__Req_WifiGetBandwidth, Link Req_wifi_get_bandwidth),
      (RPC_ID__Req_WifiSetChannel, Link Req_wifi_set_channel),
      (RPC_ID__Req_WifiGetChannel, Link Req_wifi_get_channel),
      (RPC_ID__Req_WifiSetCountryCode, Link Req_wifi_set_country_code),
      (RPC_ID__Req_WifiGetCountryCode, Link Req_wifi_get_country_code),
      (RPC_ID__Req_WifiSetCountry, Link Req_wifi_set_country),
      (RPC_ID__Req_WifiGetCountry, Link Req_wifi_get_country),
      (RPC_ID__Req_WifiApGetStaList, Link Req_wifi_ap_get_sta_list),
      (RPC_ID__Req_WifiApGetStaAid, Link Req_wifi_ap_get_sta_aid),
      (RPC_ID__Req_WifiStaGetRssi, Link Req_wifi_sta_get_rssi),
      (RPC_ID__Req_WifiStaGetAid, Link Req_wifi_sta_get_aid),
      (RPC_ID__Req_WifiStaGetNegotiatedPhymode, Link Req_wifi_sta_get_negotiated_phymode)]"

definition band_requests :: "(u32 \<times> req_handler) list" where
  "band_requests = [
      (RPC_ID__Req_WifiSetProtocols, Band Req_wifi_set_protocols),
      (RPC_ID__Req_WifiGetProtocols, Band Req_wifi_get_protocols),
      (RPC_ID__Req_WifiSetBandwidths, Band Req_wifi_set_bandwidths),
      (RPC_ID__Req_WifiGetBandwidths, Band Req_wifi_get_bandwidths),
      (RPC_ID__Req_WifiSetBand, Band Req_wifi_set_band),
      (RPC_ID__Req_WifiGetBand, Band Req_wifi_get_band),
      (RPC_ID__Req_WifiSetBandMode, Band Req_wifi_set_band_mode),
      (RPC_ID__Req_WifiGetBandMode, Band Req_wifi_get_band_mode)]"

definition more_wifi_requests :: "(u32 \<times> req_handler) list" where
  "more_wifi_requests = [
      (RPC_ID__Req_WifiSetInactiveTime, Link Req_wifi_set_inactive_time),
      (RPC_ID__Req_WifiGetInactiveTime, Link Req_wifi_get_inactive_time),
      (RPC_ID__Req_SetDhcpDnsStatus, Net Req_set_dhcp_dns_status),
      (RPC_ID__Req_GetDhcpDnsStatus, Net Req_get_dhcp_dns_status)]"

definition twt_requests :: "(u32 \<times> req_handler) list" where
  "twt_requests = [
      (RPC_ID__Req_WifiStaItwtSetup, Twt Req_wifi_sta_itwt_setup),
      (RPC_ID__Req_WifiStaItwtTeardown, Twt Req_wifi_sta_itwt_teardown),
      (RPC_ID__Req_WifiStaItwtSuspend, Twt Req_wifi_sta_itwt_suspend),
      (RPC_ID__Req_WifiStaItwtGetFlowIdStatus, Twt Req_wifi_sta_itwt_get_flow_id_status),
      (RPC_ID__Req_WifiStaItwtSendProbeReq, Twt Req_wifi_sta_itwt_send_probe_req),
      (RPC_ID__Req_WifiStaItwtSetTargetWakeTimeOffset, Twt Req_wifi_sta_itwt_set_target_wake_time_offset)]"

definition enterprise_requests :: "(u32 \<times> req_handler) list" where
  "enterprise_requests = [
      (RPC_ID__Req_WifiStaEnterpriseEnable, Eap Req_wifi_sta_enterprise_enable),
      (RPC_ID__Req_WifiStaEnterpriseDisable, Eap Req_wifi_sta_enterprise_disable),
      (RPC_ID__Req_EapSetIdentity, Eap Req_eap_set_identity),
      (RPC_ID__Req_EapClearIdentity, Eap Req_eap_clear_identity),
      (RPC_ID__Req_EapSetUsername, Eap Req_eap_set_username),
      (RPC_ID__Req_EapClearUsername, Eap Req_eap_clear_username),
      (RPC_ID__Req_EapSetPassword, Eap Req_eap_set_password),
      (RPC_ID__Req_EapClearPassword, Eap Req_eap_clear_password),
      (RPC_ID__Req_EapSetNewPassword, Eap Req_eap_set_new_password),
      (RPC_ID__Req_EapClearNewPassword, Eap Req_eap_clear_new_password),
      (RPC_ID__Req_EapSetCaCert, Eap Req_eap_set_ca_cert),
      (RPC_ID__Req_EapClearCaCert, Eap Req_eap_clear_ca_cert),
      (RPC_ID__Req_EapSetCertificateAndKey, Eap Req_eap_set_certificate_and_key),
      (RPC_ID__Req_EapClearCertificateAndKey, Eap Req_eap_clear_certificate_and_key),
      (RPC_ID__Req_EapGetDisableTimeCheck, Eap Req_eap_get_disable_time_check),
      (RPC_ID__Req_EapSetTtlsPhase2Method, Eap Req_eap_set_ttls_phase2_method),
      (RPC_ID__Req_EapSetSuitebCertification, Eap Req_eap_set_suiteb_certification),
      (RPC_ID__Req_EapSetPacFile, Eap Req_eap_set_pac_file),
      (RPC_ID__Req_EapSetFastParams, Eap Req_eap_set_fast_params),
      (RPC_ID__Req_EapUseDefaultCertBundle, Eap Req_eap_use_default_cert_bundle)]"

definition dpp_requests :: "(u32 \<times> req_handler) list" where
  "dpp_requests = [
      (RPC_ID__Req_SuppDppInit, Dpp Req_supp_dpp_init),
      (RPC_ID__Req_SuppDppDeinit, Dpp Req_supp_dpp_deinit),
      (RPC_ID__Req_SuppDppDeinit, Dpp Req_supp_dpp_deinit),
      (RPC_ID__Req_SuppDppBootstrapGen, Dpp Req_supp_dpp_bootstrap_gen),
      (RPC_ID__Req_SuppDppStartListen, Dpp Req_supp_dpp_start_listen),
      (RPC_ID__Req_SuppDppStopListen, Dpp Req_supp_dpp_stop_listen)]"

definition gpio_requests :: "(u32 \<times> req_handler) list" where
  "gpio_requests = [
      (RPC_ID__Req_GpioConfig, Pin Req_gpio_config),
      (RPC_ID__Req_GpioResetPin, Pin Req_gpio_reset),
      (RPC_ID__Req_GpioSetLevel, Pin Req_gpio_set_level),
      (RPC_ID__Req_GpioGetLevel, Pin Req_gpio_get_level),
      (RPC_ID__Req_GpioSetDirection, Pin Req_gpio_set_direction),
      (RPC_ID__Req_GpioInputEnable, Pin Req_gpio_input_enable),
      (RPC_ID__Req_GpioSetPullMode, Pin Req_gpio_set_pull_mode)]"

definition req_table :: "rpc_build \<Rightarrow> (u32 \<times> req_handler) list" where
  "req_table b =
     built True base_requests @
     built (b_wifi b) (wifi_requests @ station_requests) @
     built (b_wifi b \<and> b_idf_5_4 b) band_requests @
     built (b_wifi b) more_wifi_requests @
     built (b_wifi b \<and> b_he b \<and> b_he_idf_5_3 b) [(RPC_ID__Req_WifiStaTwtConfig, Twt Req_wifi_sta_twt_config)] @
     built (b_wifi b \<and> b_he b) twt_requests @
     built (b_enterprise b) enterprise_requests @
     built (b_enterprise b \<and> H_GOT_EAP_OKC_SUPPORT) [(RPC_ID__Req_WifiSetOkcSupport, Eap Req_wifi_set_okc_support)] @
     built (b_enterprise b \<and> b_domain_name b) [(RPC_ID__Req_EapSetDomainName, Eap Req_eap_set_domain_name)] @
     built (b_enterprise b) [(RPC_ID__Req_EapSetDisableTimeCheck, Eap Req_eap_set_disable_time_check)] @
     built (b_enterprise b \<and> b_eap_methods b) [(RPC_ID__Req_EapSetEapMethods, Eap Req_eap_set_eap_methods)] @
     built (b_dpp b) dpp_requests @
     built (b_mem_monitor b) [(RPC_ID__Req_MemMonitor, Ctl Req_mem_monitor)] @
     built (b_peer_data b) [(RPC_ID__Req_CustomRpc, Ctl Req_custom_rpc_handler)] @
     built (b_gpio b) gpio_requests @
     built (b_ext_coex b) [(RPC_ID__Req_ExtCoex, Pin Req_ext_coex)]"

lemmas req_table_sections = base_requests_def wifi_requests_def station_requests_def band_requests_def
  more_wifi_requests_def twt_requests_def enterprise_requests_def dpp_requests_def gpio_requests_def

definition lookup_req_handler :: "rpc_build \<Rightarrow> u32 \<Rightarrow> nat option" where
  "lookup_req_handler b i = find_slot (\<lambda>e. fst e = i) (req_table b)"

subsection \<open>Requests\<close>

record 'q rpc_request =
  rq_msg_id :: u32
  rq_uid :: u32
  rq_payload :: "'q option"

record 'r rpc_response =
  rs_msg_id :: u32
  rs_uid :: u32
  rs_case :: u32
  rs_payload :: "'r option"

type_synonym ('q, 'r, 's) handlers = "req_handler \<Rightarrow> 'q option \<Rightarrow> 's \<Rightarrow> ('r answered \<times> 's) option"

definition esp_rpc_command_dispatcher ::
  "rpc_build \<Rightarrow> ('q, 'r, 's) handlers \<Rightarrow> 'q rpc_request \<Rightarrow> 'r rpc_response \<Rightarrow> 's
    \<Rightarrow> (esp_err \<times> 'r rpc_response \<times> 's) option" where
  "esp_rpc_command_dispatcher b run req resp s =
     (if rq_msg_id req \<le> RPC_ID__Req_Base \<or> RPC_ID__Req_Max \<le> rq_msg_id req
      then Some (ESP_OK, resp\<lparr>rs_msg_id := RPC_ID__Resp_Base\<rparr>, s)
      else case lookup_req_handler b (rq_msg_id req) of
          None \<Rightarrow> Some (ESP_OK, resp\<lparr>rs_msg_id := RPC_ID__Resp_Base\<rparr>, s)
        | Some i \<Rightarrow>
            (case run (snd (req_table b ! i)) (rq_payload req) s of
               None \<Rightarrow> None
             | Some ((ret, payload), s1) \<Rightarrow> Some (ESP_OK, resp\<lparr>rs_payload := payload\<rparr>, s1)))"

text \<open>
  The outcome of a call: its result, the packed response, and the blocks it allocated and neither
  freed nor handed out. \<open>inbuf\<close> is \<open>None\<close> for a null pointer, \<open>outs\<close> says that \<open>outbuf\<close> and
  \<open>outlen\<close> are not null.
\<close>

datatype rpc_block = Blk_req | Blk_resp | Blk_ntfy

record dt_result =
  dt_ret :: esp_err
  dt_out :: "byte list option"
  dt_leaked :: "rpc_block list"

record ('q, 'r) rpc_env =
  re_build :: rpc_build
  re_unpack :: "byte list \<Rightarrow> 'q rpc_request option"
  re_pack :: "'r rpc_response \<Rightarrow> byte list"
  re_alloc_resp :: bool
  re_alloc_out :: "nat \<Rightarrow> bool"

definition first_response :: "'q rpc_request \<Rightarrow> 'r rpc_response" where
  "first_response req =
     (let i = rq_msg_id req - RPC_ID__Req_Base + RPC_ID__Resp_Base in
      \<lparr> rs_msg_id = i, rs_uid = rq_uid req, rs_case = i, rs_payload = None \<rparr>)"

definition dt_fail :: "esp_err \<Rightarrow> rpc_block list \<Rightarrow> dt_result" where
  "dt_fail e leaked = \<lparr> dt_ret = e, dt_out = None, dt_leaked = leaked \<rparr>"

definition dt_done :: "byte list \<Rightarrow> dt_result" where
  "dt_done out = \<lparr> dt_ret = ESP_OK, dt_out = Some out, dt_leaked = [] \<rparr>"

definition data_transfer_handler ::
  "('q, 'r) rpc_env \<Rightarrow> ('q, 'r, 's) handlers \<Rightarrow> byte list option \<Rightarrow> bool \<Rightarrow> 's
    \<Rightarrow> (dt_result \<times> 's) option" where
  "data_transfer_handler e run inbuf outs s =
     (if \<not> re_alloc_resp e then Some (dt_fail ESP_FAIL [], s)
      else if inbuf = None \<or> \<not> outs then Some (dt_fail ESP_FAIL [Blk_resp], s)
      else case re_unpack e (the inbuf) of
          None \<Rightarrow> Some (dt_fail ESP_FAIL [Blk_resp], s)
        | Some req \<Rightarrow>
            (case esp_rpc_command_dispatcher (re_build e) run req (first_response req) s of
               None \<Rightarrow> None
             | Some (ret, resp, s1) \<Rightarrow>
                 if ret \<noteq> 0 then Some (dt_fail ESP_FAIL [Blk_req], s1)
                 else let out = re_pack e resp in
                   if length out = 0 then Some (dt_fail ESP_FAIL [], s1)
                   else if \<not> re_alloc_out e (length out) then Some (dt_fail ESP_ERR_NO_MEM [], s1)
                   else Some (dt_done out, s1)))"

subsection \<open>Events\<close>

datatype rpc_event =
    Ev_ESPInit | Ev_Heartbeat | Ev_AP_StaConnected | Ev_AP_StaDisconnected | Ev_StaScanDone
  | Ev_StaConnected | Ev_StaDisconnected | Ev_StaItwtSetup | Ev_StaItwtTeardown
  | Ev_StaItwtSuspend | Ev_StaItwtProbe | Ev_WifiEventNoArgs | Ev_DhcpDnsStatus
  | Ev_SuppDppUriReady | Ev_SuppDppCfgRecvd | Ev_SuppDppFail
  | Ev_WifiDppUriReady | Ev_WifiDppCfgRecvd | Ev_WifiDppFail | Ev_CustomRpc | Ev_MemMonitor

record event_build =
  eb_wifi :: bool
  eb_he :: bool
  eb_split :: bool
  eb_supp_dpp :: bool
  eb_wifi_dpp :: bool
  eb_peer_data :: bool
  eb_mem_monitor :: bool

text \<open>The switch of \<open>rpc_evt_handler\<close>.\<close>

definition event_table :: "event_build \<Rightarrow> (int \<times> rpc_event) list" where
  "event_table b =
     built True [(769, Ev_ESPInit), (770, Ev_Heartbeat)] @
     built (eb_wifi b) [(771, Ev_AP_StaConnected), (772, Ev_AP_StaDisconnected), (774, Ev_StaScanDone),
       (775, Ev_StaConnected), (776, Ev_StaDisconnected)] @
     built (eb_wifi b \<and> eb_he b) [(778, Ev_StaItwtSetup), (779, Ev_StaItwtTeardown),
       (780, Ev_StaItwtSuspend), (781, Ev_StaItwtProbe)] @
     built True [(773, Ev_WifiEventNoArgs)] @
     built (eb_split b) [(777, Ev_DhcpDnsStatus)] @
     built (eb_supp_dpp b) [(782, Ev_SuppDppUriReady), (783, Ev_SuppDppCfgRecvd), (784, Ev_SuppDppFail)] @
     built (eb_wifi_dpp b) [(785, Ev_WifiDppUriReady), (786, Ev_WifiDppCfgRecvd), (787, Ev_WifiDppFail)] @
     built (eb_peer_data b) [(788, Ev_CustomRpc)] @
     built (eb_mem_monitor b) [(789, Ev_MemMonitor)]"

text \<open>
  \<open>encode\<close> are the \<open>rpc_evt_*\<close> functions: an answer in the sense of a handler, or \<open>None\<close> for a read
  behind the event's data. An event's response has the id of the event and no uid.
\<close>

definition ctl_rpc_evt_handler ::
  "event_build \<Rightarrow> (rpc_event \<Rightarrow> byte list \<Rightarrow> 'r answered option) \<Rightarrow> ('r rpc_response \<Rightarrow> byte list)
    \<Rightarrow> bool \<Rightarrow> (nat \<Rightarrow> bool) \<Rightarrow> int \<Rightarrow> byte list \<Rightarrow> bool \<Rightarrow> dt_result option" where
  "ctl_rpc_evt_handler b encode pack alloc alloc_out session_id inbuf outs =
     (if \<not> alloc then Some (dt_fail ESP_FAIL [])
      else if \<not> outs then Some (dt_fail ESP_FAIL [Blk_ntfy])
      else case map_of (event_table b) session_id of
          None \<Rightarrow> Some (dt_fail ESP_FAIL [])
        | Some ev \<Rightarrow>
            (case encode ev inbuf of
               None \<Rightarrow> None
             | Some (ret, payload) \<Rightarrow>
                 if ret \<noteq> 0 then Some (dt_fail ESP_FAIL [])
                 else let out = pack \<lparr> rs_msg_id = word_of_int session_id, rs_uid = 0,
                                  rs_case = word_of_int session_id, rs_payload = payload \<rparr> in
                   if length out = 0 then Some (dt_fail ESP_FAIL [])
                   else if \<not> alloc_out (length out) then Some (dt_fail ESP_ERR_NO_MEM [])
                   else Some (dt_done out)))"

subsection \<open>Lemmas\<close>

lemma built_simps [simp]: "built True xs = xs" "built False xs = []"
  by (simp_all add: built_def)

lemma list_all_built [simp]: "list_all P (built c xs) \<longleftrightarrow> (c \<longrightarrow> list_all P xs)"
  by (simp add: built_def)

lemma map_of_built [simp]: "map_of (built c xs) k = (if c then map_of xs k else None)"
  by (simp add: built_def)


text \<open>A first-match search by key is \<open>map_of\<close>.\<close>

lemma find_key_map_of:
  "map_of xs k = map_option (\<lambda>i. snd (xs ! i)) (find_slot (\<lambda>e. fst e = k) xs)"
  by (induction xs) (auto simp: option.map_comp comp_def)

text \<open>The build with every feature has the table every other build's is a part of.\<close>

definition full_build :: rpc_build where
  "full_build = \<lparr> b_wifi = True, b_idf_5_4 = True, b_he = True, b_he_idf_5_3 = True, b_enterprise = True,
     b_domain_name = True, b_eap_methods = True, b_dpp = True, b_mem_monitor = True,
     b_peer_data = True, b_gpio = True, b_ext_coex = True \<rparr>"

lemma full_table_consistent:
  "list_all (\<lambda>(n, h). map_of (req_table full_build) n = Some h) (req_table full_build)"
  by code_simp

lemma full_table_range: "list_all (\<lambda>(n, h). 256 < n \<and> n < 397) (req_table full_build)"
  by code_simp

lemma built_mono: "(c \<Longrightarrow> d) \<Longrightarrow> set (built c xs) \<subseteq> set (built d xs)"
  by (auto simp: built_def)

lemma table_subset: "set (req_table b) \<subseteq> set (req_table full_build)"
  unfolding req_table_def set_append
  by (intro Un_mono built_mono) (simp_all add: full_build_def)


lemma table_lookup:
  assumes "(n, h) \<in> set (req_table b)"
  shows "map_of (req_table b) n = Some h" "256 < n" "n < 397"
proof -
  have full: "(n, h) \<in> set (req_table full_build)" using assms table_subset by blast
  have same: "map_of (req_table full_build) m = Some k" if "(m, k) \<in> set (req_table full_build)" for m k
    using full_table_consistent that by (fastforce simp: list_all_iff)
  obtain h' where h': "map_of (req_table b) n = Some h'"
    using assms by (meson weak_map_of_SomeI)
  then have "(n, h') \<in> set (req_table full_build)" using table_subset by (meson map_of_SomeD subsetD)
  then show "map_of (req_table b) n = Some h" using same [OF full] same h' by fastforce
  show "256 < n" "n < 397" using full_table_range full by (auto simp: list_all_iff)
qed

text \<open>The range check of the dispatcher refuses nothing the table has.\<close>

lemma dispatcher_by_table:
  "esp_rpc_command_dispatcher b run req resp s =
     (case map_of (req_table b) (rq_msg_id req) of
        None \<Rightarrow> Some (ESP_OK, resp\<lparr>rs_msg_id := RPC_ID__Resp_Base\<rparr>, s)
      | Some h \<Rightarrow> map_option (\<lambda>((ret, payload), s1). (ESP_OK, resp\<lparr>rs_payload := payload\<rparr>, s1))
          (run h (rq_payload req) s))"
proof (cases "map_of (req_table b) (rq_msg_id req)")
  case None
  then have "lookup_req_handler b (rq_msg_id req) = None"
    by (simp add: lookup_req_handler_def find_key_map_of)
  then show ?thesis using None by (simp add: esp_rpc_command_dispatcher_def)
next
  case (Some h)
  then have r: "256 < rq_msg_id req" "rq_msg_id req < 397"
    using table_lookup(2,3) [OF map_of_SomeD] by blast+
  obtain i where i: "lookup_req_handler b (rq_msg_id req) = Some i" "snd (req_table b ! i) = h"
    using Some by (auto simp: lookup_req_handler_def find_key_map_of)
  have "\<not> (rq_msg_id req \<le> 256 \<or> 397 \<le> rq_msg_id req)" using r by (simp add: not_le)
  then show ?thesis using Some i
    by (simp add: esp_rpc_command_dispatcher_def split: option.split prod.split)
qed

text \<open>No build offers the request for OKC, which a host for a newer ESP-IDF sends.\<close>

lemma okc_unsupported: "map_of (req_table b) RPC_ID__Req_WifiSetOkcSupport = None"
proof (rule ccontr)
  assume "map_of (req_table b) RPC_ID__Req_WifiSetOkcSupport \<noteq> None"
  then obtain h where "(381, h) \<in> set (req_table full_build)"
    using table_subset by (meson map_of_SomeD not_None_eq subsetD)
  moreover have "list_all (\<lambda>e. fst e \<noteq> 381) (req_table full_build)" by code_simp
  ultimately show False by (auto simp: list_all_iff)
qed

lemma event_ids: "list_all (\<lambda>(i, ev). 768 < i \<and> i < 790) (event_table b)"
  by (simp add: event_table_def)

subsection \<open>Properties\<close>

text \<open>C11: In every build, a request that can be unpacked is answered by one message that carries its uid:
  if the build's table has its id, by the payload of the handler the table names, which is run
  once on the request's payload, under the id of the request plus 256; if not, by the id
  Resp_Base and no payload, and nothing is run. Nothing is leaked.\<close>

theorem request_answered_by_its_handler:
  assumes "re_alloc_resp e" "re_unpack e d = Some req" "\<And>n. re_alloc_out e n" "\<And>r. re_pack e r \<noteq> []"
  shows "data_transfer_handler e run (Some d) True s =
    (case map_of (req_table (re_build e)) (rq_msg_id req) of
       None \<Rightarrow> Some (dt_done (re_pack e
           \<lparr> rs_msg_id = 512, rs_uid = rq_uid req, rs_case = rq_msg_id req + 256, rs_payload = None \<rparr>), s)
     | Some h \<Rightarrow> map_option (\<lambda>((ret, payload), s1). (dt_done (re_pack e
           \<lparr> rs_msg_id = rq_msg_id req + 256, rs_uid = rq_uid req, rs_case = rq_msg_id req + 256,
             rs_payload = payload \<rparr>), s1)) (run h (rq_payload req) s))"
proof (cases "map_of (req_table (re_build e)) (rq_msg_id req)")
  case None
  then show ?thesis using assms
    by (simp add: data_transfer_handler_def dispatcher_by_table first_response_def Let_def ESP_OK_def ac_simps)
next
  case (Some h)
  then show ?thesis using assms
    by (cases "run h (rq_payload req) s")
      (auto simp: data_transfer_handler_def dispatcher_by_table first_response_def Let_def ESP_OK_def
        ac_simps split: prod.split)
qed

text \<open>A call of the request handler leaks exactly when it is given null pointers or bytes that cannot
  be unpacked: then the response it has allocated is lost, on every such message.\<close>

theorem bad_request_leaks_response:
  assumes "data_transfer_handler e run inbuf outs s = Some (r, s')"
  shows "dt_leaked r =
    (if re_alloc_resp e \<and> (\<not> outs \<or> inbuf = None \<or> re_unpack e (the inbuf) = None) then [Blk_resp] else [])"
proof (cases "re_alloc_resp e \<and> outs \<and> inbuf \<noteq> None \<and> re_unpack e (the inbuf) \<noteq> None")
  case True
  then obtain req where q: "re_unpack e (the inbuf) = Some req" by blast
  have "\<exists>resp s1. esp_rpc_command_dispatcher (re_build e) run req (first_response req) s = Some (ESP_OK, resp, s1)"
    using assms True q by (cases "map_of (req_table (re_build e)) (rq_msg_id req)")
      (auto simp: data_transfer_handler_def dispatcher_by_table split: option.splits prod.splits)
  then show ?thesis using assms True q
    by (auto simp: data_transfer_handler_def Let_def dt_fail_def dt_done_def ESP_OK_def split: if_splits)
next
  case False
  then show ?thesis using assms
    by (auto simp: data_transfer_handler_def dt_fail_def split: if_splits)
qed

subsection \<open>Concrete instances\<close>

definition demo_rpc_env :: "(unit, nat) rpc_env" where
  "demo_rpc_env = \<lparr> re_build = full_build,
     re_unpack = (\<lambda>b. if length b = 2 then Some \<lparr> rq_msg_id = 256 + ucast (b ! 0), rq_uid = ucast (b ! 1),
        rq_payload = None \<rparr> else None),
     re_pack = (\<lambda>r. le_put 4 (rs_msg_id r) @ [ucast (rs_uid r), word_of_nat (case_option 0 Suc (rs_payload r))]),
     re_alloc_resp = True, re_alloc_out = (\<lambda>_. True) \<rparr>"

theorem request_answered_by_its_handler_witness:
  "\<exists>r. data_transfer_handler demo_rpc_env (\<lambda>h q s. Some ((ESP_OK, Some 4), s + 1)) (Some [16, 7]) True (0 :: nat) =
      Some (r, 1) \<and> dt_out r = Some (le_put 4 (528 :: u32) @ [7, 5])"
proof -
  have m: "map_of (req_table full_build) 272 = Some (Ctl Req_ota_begin_handler)"
    by (simp add: req_table_def req_table_sections)
  show ?thesis
    using request_answered_by_its_handler [of demo_rpc_env "[16, 7]"
        "\<lparr> rq_msg_id = 272, rq_uid = 7, rq_payload = None \<rparr>"
        "\<lambda>h q s. Some ((ESP_OK, Some 4), s + 1)" "0 :: nat"] m
    by (auto simp: demo_rpc_env_def dt_done_def)
qed

theorem bad_request_leaks_response_witness:
  "\<exists>r s'. data_transfer_handler demo_rpc_env (\<lambda>h q s. None) (Some []) True (0 :: nat) = Some (r, s') \<and>
     dt_leaked r = [Blk_resp]"
proof -
  have d: "data_transfer_handler demo_rpc_env (\<lambda>h q s. None) (Some []) True (0 :: nat) =
      Some (dt_fail ESP_FAIL [Blk_resp], 0)"
    by (simp add: data_transfer_handler_def demo_rpc_env_def)
  show ?thesis using bad_request_leaks_response [OF d] d by (simp add: demo_rpc_env_def)
qed

end
