(* ===== verification/Wifi_Manager.thy ===== *)
theory Wifi_Manager
  imports Rpc_Base
begin

section \<open>The Wi-Fi connection of the co-processor (slave_wifi_std.c)\<close>

text \<open>
  The part of \<open>slave_wifi_std.c\<close> that keeps state: the wrapper of \<open>esp_wifi_init\<close>, the station
  configuration that waits for its turn, the connection flags, and the event handler that tells
  the host. What the Wi-Fi driver returns is a parameter; its calls and the events to the host are a
  log.
\<close>

subsection \<open>Initialisation\<close>

text \<open>
  An initialisation structure gives a value to each of its fields. The fields are those of the
  message, which the driver's structure has as well.
\<close>

datatype init_field =
    F_static_rx_buf_num | F_dynamic_rx_buf_num | F_tx_buf_type | F_static_tx_buf_num
  | F_dynamic_tx_buf_num | F_rx_mgmt_buf_type | F_rx_mgmt_buf_num | F_cache_tx_buf_num
  | F_feature_caps | F_csi_enable | F_ampdu_rx_enable | F_ampdu_tx_enable | F_amsdu_tx_enable
  | F_nvs_enable | F_nano_enable | F_rx_ba_win | F_wifi_task_core_id | F_beacon_max_len
  | F_mgmt_sbuf_num | F_sta_disconnected_pm | F_espnow_max_encrypt_num | F_tx_hetb_queue_num
  | F_dump_hesigb_enable | F_magic

type_synonym init_cfg = "init_field \<Rightarrow> int"

text \<open>\<open>USE_HOST_VALUE\<close> of several fields.\<close>

definition use_host_values :: "init_field list \<Rightarrow> init_cfg \<Rightarrow> init_cfg \<Rightarrow> init_cfg" where
  "use_host_values fs src dst = fold (\<lambda>f c. c(f := src f)) fs dst"

text \<open>\<open>cache_on\<close> is \<open>WIFI_ENABLE_CACHE_TX_BUFFER\<close>, \<open>def_cache\<close> and \<open>def_caps\<close> are the defaults of the build.\<close>

record init_build =
  ib_cache_on :: bool
  ib_cache_num :: int
  ib_caps :: int
  ib_esp32c2 :: bool
  ib_default :: init_cfg

definition get_merged_init_config :: "init_build \<Rightarrow> init_cfg \<Rightarrow> init_cfg \<Rightarrow> init_cfg" where
  "get_merged_init_config b dst src =
     (let d1 = use_host_values [F_static_rx_buf_num, F_dynamic_rx_buf_num, F_tx_buf_type,
            F_static_tx_buf_num, F_dynamic_tx_buf_num, F_rx_mgmt_buf_type, F_rx_mgmt_buf_num] src dst;
          d2 = (if ib_cache_on b then use_host_values [F_cache_tx_buf_num, F_feature_caps] src d1
                else if ib_caps b \<noteq> src F_feature_caps
                then d1(F_cache_tx_buf_num := ib_cache_num b, F_feature_caps := ib_caps b)
                else use_host_values [F_cache_tx_buf_num, F_feature_caps] src d1)
      in use_host_values [F_csi_enable, F_ampdu_rx_enable, F_ampdu_tx_enable, F_amsdu_tx_enable,
           F_nvs_enable, F_nano_enable, F_rx_ba_win, F_wifi_task_core_id, F_beacon_max_len,
           F_mgmt_sbuf_num, F_sta_disconnected_pm, F_espnow_max_encrypt_num, F_tx_hetb_queue_num,
           F_dump_hesigb_enable, F_magic] src d2)"

definition wifi_init_config_changed :: "init_cfg option \<Rightarrow> init_cfg option \<Rightarrow> bool" where
  "wifi_init_config_changed new_cfg cached_cfg =
     (case (new_cfg, cached_cfg) of
        (Some n, Some c) \<Rightarrow> list_ex (\<lambda>f. n f \<noteq> c f)
          [F_static_rx_buf_num, F_dynamic_rx_buf_num, F_tx_buf_type, F_static_tx_buf_num,
           F_dynamic_tx_buf_num, F_cache_tx_buf_num, F_csi_enable, F_ampdu_rx_enable, F_ampdu_tx_enable,
           F_amsdu_tx_enable, F_nvs_enable, F_nano_enable, F_rx_ba_win, F_wifi_task_core_id,
           F_beacon_max_len, F_mgmt_sbuf_num, F_feature_caps, F_sta_disconnected_pm,
           F_espnow_max_encrypt_num, F_magic]
      | _ \<Rightarrow> True)"

text \<open>Driver calls of the initialisation.\<close>

datatype init_call = Wifi_stop | Wifi_deinit | Real_init "init_cfg option"

record wifi_init =
  wi_initialized :: bool
  wi_has_cached :: bool
  wi_cached :: init_cfg
  wi_calls :: "init_call list"

definition wrap_esp_wifi_init :: "esp_err \<Rightarrow> init_cfg option \<Rightarrow> wifi_init \<Rightarrow> esp_err \<times> wifi_init" where
  "wrap_esp_wifi_init real config s =
     (let go = (\<lambda>s1. let s2 = (case config of None \<Rightarrow> s1
                          | Some c \<Rightarrow> s1\<lparr>wi_cached := c, wi_has_cached := True\<rparr>);
                        s3 = s2\<lparr>wi_calls := wi_calls s2 @ [Real_init config]\<rparr>
                    in (real, if real = ESP_OK then s3\<lparr>wi_initialized := True\<rparr> else s3))
      in if \<not> wi_initialized s then go s
         else if wi_has_cached s \<and> wifi_init_config_changed config (Some (wi_cached s))
         then go (s\<lparr>wi_calls := wi_calls s @ [Wifi_stop, Wifi_deinit], wi_initialized := False\<rparr>)
         else (ESP_OK, s))"

text \<open>
  The request: the message's fields over the defaults, on the ESP32-C2 with dynamic buffers, and then
  merged with the message again.
\<close>

definition init_request_cfg :: "init_build \<Rightarrow> init_cfg \<Rightarrow> init_cfg" where
  "init_request_cfg b src =
     (let c1 = use_host_values [F_static_rx_buf_num, F_dynamic_rx_buf_num, F_tx_buf_type,
            F_static_tx_buf_num, F_dynamic_tx_buf_num] src (ib_default b);
          c2 = (if ib_esp32c2 b \<and> c1 F_tx_buf_type = 0
                then (let d = c1(F_tx_buf_type := 1) in
                      if d F_dynamic_tx_buf_num = 0 then d(F_dynamic_tx_buf_num := 16) else d)
                else c1)
      in get_merged_init_config b (use_host_values [F_cache_tx_buf_num, F_csi_enable, F_ampdu_rx_enable,
           F_ampdu_tx_enable, F_amsdu_tx_enable, F_nvs_enable, F_nano_enable, F_rx_ba_win,
           F_wifi_task_core_id, F_beacon_max_len, F_mgmt_sbuf_num, F_feature_caps, F_sta_disconnected_pm,
           F_espnow_max_encrypt_num, F_magic] src c2) src)"

definition req_wifi_init ::
  "init_build \<Rightarrow> bool \<Rightarrow> esp_err \<Rightarrow> init_cfg option option \<Rightarrow> wifi_init \<Rightarrow> int answered \<times> wifi_init" where
  "req_wifi_init b alloc real req s =
     rpc_template (\<lambda>a. (a, s)) alloc req (\<lambda>cfg.
       case cfg of
         None \<Rightarrow> ((ESP_OK, Some 1), s)
       | Some src \<Rightarrow>
           (case wrap_esp_wifi_init real (Some (init_request_cfg b src)) s of (e, s1) \<Rightarrow>
              rpc_ret_fail_if (\<lambda>a. (a, s1)) (\<lambda>e. e) e ((ESP_OK, Some SUCCESS), s1)))"

definition req_wifi_deinit :: "bool \<Rightarrow> esp_err \<Rightarrow> wifi_init \<Rightarrow> int answered \<times> wifi_init" where
  "req_wifi_deinit alloc r s =
     rpc_template_simple (\<lambda>a. (a, s)) alloc
       (let s1 = s\<lparr>wi_initialized := False, wi_calls := wi_calls s @ [Wifi_deinit]\<rparr> in
        rpc_ret_fail_if (\<lambda>a. (a, s1)) (\<lambda>e. e) r ((ESP_OK, Some SUCCESS), s1))"

subsection \<open>Connection: state\<close>

text \<open>
  \<open>'g\<close> is a station configuration. \<open>wm_rx_sta\<close> and \<open>wm_rx_ap\<close> say whether the driver passes received
  frames on; \<open>wm_lkg\<close> is the last connect event.
\<close>

datatype 'g link_act =
    Tell int "byte list"
  | Set_config 'g esp_err
  | Connect esp_err
  | Disconnect

record 'g wifi_mgr =
  wm_new_config :: 'g
  wm_recvd :: bool
  wm_suppress :: bool
  wm_retries :: nat
  wm_connecting :: bool
  wm_connected :: bool
  wm_softap :: bool
  wm_lkg :: "byte list"
  wm_rx_sta :: bool
  wm_rx_ap :: bool
  wm_log :: "'g link_act list"

definition acts :: "'g link_act list \<Rightarrow> 'g wifi_mgr \<Rightarrow> 'g wifi_mgr" where
  "acts as s = s\<lparr>wm_log := wm_log s @ as\<rparr>"

text \<open>\<open>wb_reconnect\<close> is the number of automatic retries after a disconnect, if they are configured.\<close>

record wifi_build =
  wb_reconnect :: "nat option"
  wb_connect_on_start :: bool
  wb_he :: bool
  wb_dpp :: bool

definition RPC_ID__Event_StaConnected :: int where "RPC_ID__Event_StaConnected = 775"
definition RPC_ID__Event_StaDisconnected :: int where "RPC_ID__Event_StaDisconnected = 776"
definition RPC_ID__Event_WifiEventNoArgs :: int where "RPC_ID__Event_WifiEventNoArgs = 773"

subsection \<open>Connection: events of the driver\<close>

datatype wifi_event =
    E_ap_staconnected | E_ap_stadisconnected | E_scan_done | E_sta_connected | E_sta_disconnected
  | E_itwt_setup | E_itwt_teardown | E_itwt_suspend | E_itwt_probe
  | E_dpp_uri_ready | E_dpp_cfg_recvd | E_dpp_failed
  | E_ap_start | E_ap_stop | E_sta_start | E_sta_stop | E_other

text \<open>Events passed on as they are, under their RPC id.\<close>

definition relayed :: "wifi_build \<Rightarrow> wifi_event \<Rightarrow> int option" where
  "relayed b ev =
     (case ev of
        E_ap_staconnected \<Rightarrow> Some 771
      | E_ap_stadisconnected \<Rightarrow> Some 772
      | E_scan_done \<Rightarrow> Some 774
      | E_itwt_setup \<Rightarrow> if wb_he b then Some 778 else None
      | E_itwt_teardown \<Rightarrow> if wb_he b then Some 779 else None
      | E_itwt_suspend \<Rightarrow> if wb_he b then Some 780 else None
      | E_itwt_probe \<Rightarrow> if wb_he b then Some 781 else None
      | E_dpp_uri_ready \<Rightarrow> if wb_dpp b then Some 785 else None
      | E_dpp_cfg_recvd \<Rightarrow> if wb_dpp b then Some 786 else None
      | E_dpp_failed \<Rightarrow> if wb_dpp b then Some 787 else None
      | _ \<Rightarrow> None)"

text \<open>
  The two branches of the station, and the whole handler. \<open>num\<close> is the event's number as bytes,
  \<open>d\<close> its data; \<open>r_set\<close> and \<open>r_conn\<close> are the results of \<open>esp_wifi_set_config\<close> and
  \<open>esp_wifi_connect\<close>.
\<close>

definition sta_connected_event :: "esp_err \<Rightarrow> byte list \<Rightarrow> 'g wifi_mgr \<Rightarrow> 'g wifi_mgr" where
  "sta_connected_event r_set d s =
     (if wm_recvd s
      then (acts [Set_config (wm_new_config s) r_set, Disconnect] s)\<lparr>wm_suppress := True\<rparr>
      else (acts [Tell RPC_ID__Event_StaConnected d] s)\<lparr>wm_connecting := False, wm_retries := 0,
             wm_lkg := d, wm_rx_sta := True, wm_connected := True\<rparr>)"

definition sta_disconnected_event ::
  "wifi_build \<Rightarrow> esp_err \<Rightarrow> esp_err \<Rightarrow> byte list \<Rightarrow> 'g wifi_mgr \<Rightarrow> 'g wifi_mgr" where
  "sta_disconnected_event b r_set r_conn d s =
     (let pending = wm_recvd s \<and> r_set = ESP_OK;
          s1 = (if wm_recvd s then acts [Set_config (wm_new_config s) r_set] s else s);
          s2 = s1\<lparr>wm_recvd := (if pending then False else wm_recvd s1), wm_connected := False,
                  wm_rx_sta := False, wm_connecting := pending\<rparr>;
          s3 = (if pending then acts [Connect r_conn] s2 else s2)
      in if wm_suppress s3 then s3\<lparr>wm_suppress := False\<rparr>
         else let s4 = acts [Tell RPC_ID__Event_StaDisconnected d] s3 in
           (case wb_reconnect b of
              None \<Rightarrow> s4
            | Some n \<Rightarrow>
                if wm_retries s4 < n then (acts [Connect r_conn] s4)\<lparr>wm_retries := wm_retries s4 + 1\<rparr>
                else s4\<lparr>wm_retries := 0\<rparr>))"

definition event_handler_wifi ::
  "wifi_build \<Rightarrow> esp_err \<Rightarrow> esp_err \<Rightarrow> wifi_event \<Rightarrow> byte list \<Rightarrow> byte list \<Rightarrow> 'g wifi_mgr \<Rightarrow> 'g wifi_mgr" where
  "event_handler_wifi b r_set r_conn ev num d s =
     (case relayed b ev of
        Some i \<Rightarrow> acts [Tell i d] s
      | None \<Rightarrow>
          let plain = acts [Tell RPC_ID__Event_WifiEventNoArgs num] in
          (case ev of
             E_sta_connected \<Rightarrow> sta_connected_event r_set d s
           | E_sta_disconnected \<Rightarrow> sta_disconnected_event b r_set r_conn d s
           | E_ap_start \<Rightarrow> if wm_softap s then s else plain (s\<lparr>wm_rx_ap := True, wm_softap := True\<rparr>)
           | E_ap_stop \<Rightarrow> if wm_softap s then plain (s\<lparr>wm_rx_ap := False, wm_softap := False\<rparr>) else s
           | E_sta_start \<Rightarrow>
               if wm_connecting s then s
               else plain (if wb_connect_on_start b then acts [Connect r_conn] (s\<lparr>wm_connecting := True\<rparr>) else s)
           | E_sta_stop \<Rightarrow> plain (s\<lparr>wm_connecting := False\<rparr>)
           | _ \<Rightarrow> plain s))"

subsection \<open>Connection: requests\<close>

text \<open>\<open>mode\<close> is the result of \<open>esp_wifi_get_mode\<close>: 1 station, 2 access point, 3 both.\<close>

definition req_wifi_start ::
  "bool \<Rightarrow> esp_err \<Rightarrow> esp_err \<times> int \<Rightarrow> byte list \<Rightarrow> byte list \<Rightarrow> 'g wifi_mgr \<Rightarrow> int answered \<times> 'g wifi_mgr" where
  "req_wifi_start alloc r mode sta_num ap_num s =
     rpc_template_simple (\<lambda>a. (a, s)) alloc
       (rpc_ret_fail_if (\<lambda>a. (a, s)) (\<lambda>e. e) r
          ((ESP_OK, Some SUCCESS),
           acts ((if fst mode = ESP_OK \<and> (snd mode = 1 \<or> snd mode = 3)
                  then [Tell RPC_ID__Event_WifiEventNoArgs sta_num] else []) @
                 (if fst mode = ESP_OK \<and> (snd mode = 2 \<or> snd mode = 3)
                  then [Tell RPC_ID__Event_WifiEventNoArgs ap_num] else [])) s))"

definition ESP_ERR_WIFI_NOT_INIT :: esp_err where "ESP_ERR_WIFI_NOT_INIT = 0x3001"
definition ESP_ERR_WIFI_CONN :: esp_err where "ESP_ERR_WIFI_CONN = 0x3007"
definition ESP_ERR_WIFI_SSID :: esp_err where "ESP_ERR_WIFI_SSID = 0x300A"

text \<open>\<open>cfg\<close>: the driver's configuration can be read; \<open>ssid\<close>: its SSID is not empty.\<close>

definition req_wifi_connect ::
  "bool \<Rightarrow> bool \<Rightarrow> bool \<Rightarrow> esp_err \<Rightarrow> 'g wifi_mgr \<Rightarrow> int answered \<times> 'g wifi_mgr" where
  "req_wifi_connect alloc cfg ssid r_conn s =
     rpc_template_simple (\<lambda>a. (a, s)) alloc
       (if \<not> cfg then ((ESP_OK, Some ESP_ERR_WIFI_NOT_INIT), s)
        else if \<not> ssid then ((ESP_OK, Some ESP_ERR_WIFI_SSID), s)
        else if \<not> wm_connected s then
          ((ESP_OK, Some (if r_conn \<noteq> ESP_ERR_WIFI_CONN then r_conn else SUCCESS)),
           (acts [Connect r_conn] s)\<lparr>wm_connecting := (r_conn = ESP_OK \<or> r_conn = ESP_ERR_WIFI_CONN)\<rparr>)
        else ((ESP_OK, Some ESP_OK), acts [Tell RPC_ID__Event_StaConnected (wm_lkg s)] s))"

definition esp_hosted_set_sta_config :: "esp_err \<Rightarrow> 'g \<Rightarrow> 'g wifi_mgr \<Rightarrow> esp_err \<times> 'g wifi_mgr" where
  "esp_hosted_set_sta_config r_set cfg s =
     (if wm_connecting s then (ESP_OK, s\<lparr>wm_new_config := cfg, wm_recvd := True\<rparr>)
      else let s1 = acts [Set_config cfg r_set] s in
        if r_set \<noteq> ESP_OK then (ESP_OK, s1\<lparr>wm_new_config := cfg, wm_recvd := True\<rparr>)
        else (ESP_OK, s1\<lparr>wm_recvd := False\<rparr>))"

subsection \<open>All steps\<close>

text \<open>
  The driver reports a connection only after it was down (\<open>up\<close>); a disconnect may come at any time,
  for it also reports a failed attempt.
\<close>

inductive wm_step :: "bool \<times> 'g wifi_mgr \<Rightarrow> bool \<times> 'g wifi_mgr \<Rightarrow> bool" where
  ws_connected: "wm_step (False, s) (True, event_handler_wifi b r c E_sta_connected n d s)"
| ws_disconnected: "wm_step (up, s) (False, event_handler_wifi b r c E_sta_disconnected n d s)"
| ws_event: "ev \<noteq> E_sta_connected \<Longrightarrow> ev \<noteq> E_sta_disconnected \<Longrightarrow>
    wm_step (up, s) (up, event_handler_wifi b r c ev n d s)"
| ws_start: "req_wifi_start alloc r mode n1 n2 s = (a, s') \<Longrightarrow> wm_step (up, s) (up, s')"
| ws_connect: "req_wifi_connect alloc cfg ssid c s = (a, s') \<Longrightarrow> wm_step (up, s) (up, s')"
| ws_config: "esp_hosted_set_sta_config r g s = (e, s') \<Longrightarrow> wm_step (up, s) (up, s')"

inductive_cases wm_stepE: "wm_step x y"

inductive wm_reachable :: "bool \<times> 'g wifi_mgr \<Rightarrow> bool" where
  wm_start: "\<not> wm_recvd s \<Longrightarrow> \<not> wm_suppress s \<Longrightarrow> \<not> wm_connecting s \<Longrightarrow> \<not> wm_connected s \<Longrightarrow>
    \<not> wm_rx_sta s \<Longrightarrow> \<not> wm_rx_ap s \<Longrightarrow> \<not> wm_softap s \<Longrightarrow> wm_log s = [] \<Longrightarrow> wm_reachable (False, s)"
| wm_next: "wm_reachable x \<Longrightarrow> wm_step x y \<Longrightarrow> wm_reachable y"

text \<open>What the host knows from the events it was sent.\<close>

fun told_link :: "'g link_act list \<Rightarrow> bool \<Rightarrow> bool" where
  "told_link [] k = k"
| "told_link (Tell i d # as) k =
     told_link as (if i = RPC_ID__Event_StaConnected then True
                   else if i = RPC_ID__Event_StaDisconnected then False else k)"
| "told_link (_ # as) k = told_link as k"

subsection \<open>Lemmas\<close>

lemma told_link_append [simp]: "told_link (xs @ ys) k = told_link ys (told_link xs k)"
  by (induction xs k rule: told_link.induct) auto

lemma acts_simps [simp]:
  "wm_log (acts as s) = wm_log s @ as" "wm_new_config (acts as s) = wm_new_config s"
  "wm_recvd (acts as s) = wm_recvd s" "wm_suppress (acts as s) = wm_suppress s"
  "wm_retries (acts as s) = wm_retries s" "wm_connecting (acts as s) = wm_connecting s"
  "wm_connected (acts as s) = wm_connected s" "wm_softap (acts as s) = wm_softap s"
  "wm_lkg (acts as s) = wm_lkg s" "wm_rx_sta (acts as s) = wm_rx_sta s" "wm_rx_ap (acts as s) = wm_rx_ap s"
  by (simp_all add: acts_def)

lemmas event_ids_def = RPC_ID__Event_StaConnected_def RPC_ID__Event_StaDisconnected_def
  RPC_ID__Event_WifiEventNoArgs_def

definition wm_ok :: "bool \<times> 'g wifi_mgr \<Rightarrow> bool" where
  "wm_ok x \<longleftrightarrow> (case x of (up, s) \<Rightarrow>
     told_link (wm_log s) False = wm_connected s \<and> wm_rx_sta s = wm_connected s \<and>
     wm_rx_ap s = wm_softap s \<and> (wm_connected s \<longrightarrow> up \<and> \<not> wm_suppress s) \<and> (wm_suppress s \<longrightarrow> up))"

lemma relayed_other: "relayed b ev = Some i \<Longrightarrow> i \<noteq> 775 \<and> i \<noteq> 776"
  by (cases ev) (auto simp: relayed_def split: if_splits)

lemma relayed_sta [simp]: "relayed b E_sta_connected = None" "relayed b E_sta_disconnected = None"
  by (simp_all add: relayed_def)

lemma connected_ok: "wm_ok (False, s) \<Longrightarrow> wm_ok (True, event_handler_wifi b r c E_sta_connected n d s)"
  by (auto simp: wm_ok_def event_handler_wifi_def sta_connected_event_def event_ids_def)

lemma sta_disconnected_fields:
  fixes b r c d and s :: "'g wifi_mgr"
  defines "t \<equiv> sta_disconnected_event b r c d s"
  shows "\<not> wm_connected t" "\<not> wm_rx_sta t" "wm_rx_ap t = wm_rx_ap s" "wm_softap t = wm_softap s"
    "\<not> wm_suppress t"
  unfolding t_def sta_disconnected_event_def by (simp_all add: Let_def split: option.split)

lemma sta_disconnected_told:
  "told_link (wm_log (sta_disconnected_event b r c d s)) k = (wm_suppress s \<and> told_link (wm_log s) k)"
  by (cases "wb_reconnect b"; cases "wm_suppress s"; cases "wm_recvd s"; cases "r = ESP_OK")
    (simp_all add: sta_disconnected_event_def event_ids_def Let_def)

lemma disconnected_ok: "wm_ok (up, s) \<Longrightarrow> wm_ok (False, event_handler_wifi b r c E_sta_disconnected n d s)"
  by (auto simp: wm_ok_def event_handler_wifi_def sta_disconnected_fields sta_disconnected_told)

lemma other_ok:
  assumes "wm_ok (up, s)" "ev \<noteq> E_sta_connected" "ev \<noteq> E_sta_disconnected"
  shows "wm_ok (up, event_handler_wifi b r c ev n d s)"
proof (cases "relayed b ev")
  case (Some i)
  then show ?thesis using assms relayed_other [OF Some]
    by (simp add: wm_ok_def event_handler_wifi_def event_ids_def)
next
  case None
  then show ?thesis using assms
    by (cases ev) (simp_all add: wm_ok_def event_handler_wifi_def event_ids_def Let_def)
qed

lemma wm_ok_quiet:
  assumes "wm_ok (up, s)" "\<And>k. told_link as k = k"
  shows "wm_ok (up, acts as s)"
  using assms by (simp add: wm_ok_def)

lemma wm_ok_fields [simp]:
  "wm_ok (up, s\<lparr>wm_connecting := v\<rparr>) = wm_ok (up, s)"
  "wm_ok (up, s\<lparr>wm_new_config := g\<rparr>) = wm_ok (up, s)"
  "wm_ok (up, s\<lparr>wm_recvd := v\<rparr>) = wm_ok (up, s)"
  by (simp_all add: wm_ok_def)

lemma wm_start_ok: "wm_ok (up, s) \<Longrightarrow> wm_ok (up, snd (req_wifi_start alloc r mode n1 n2 s))"
  by (simp add: req_wifi_start_def rpc_template_simple_def rpc_ret_fail_if_def wm_ok_quiet event_ids_def)

lemma resend_ok:
  assumes "wm_ok (up, s)" "wm_connected s"
  shows "wm_ok (up, acts [Tell RPC_ID__Event_StaConnected d] s)"
  using assms by (simp add: wm_ok_def)

lemma connect_ok: "wm_ok (up, s) \<Longrightarrow> wm_ok (up, snd (req_wifi_connect alloc cfg ssid c s))"
  by (simp add: req_wifi_connect_def rpc_template_simple_def wm_ok_quiet resend_ok)

lemma set_config_ok: "wm_ok (up, s) \<Longrightarrow> wm_ok (up, snd (esp_hosted_set_sta_config r g s))"
  by (simp add: esp_hosted_set_sta_config_def Let_def wm_ok_quiet)

lemma wm_ok_step: "wm_step x y \<Longrightarrow> wm_ok x \<Longrightarrow> wm_ok y"
  by (erule wm_step.cases)
    (metis connected_ok disconnected_ok other_ok wm_start_ok connect_ok set_config_ok snd_conv)+

lemma wm_ok_reachable: "wm_reachable x \<Longrightarrow> wm_ok x"
proof (induction rule: wm_reachable.induct)
  case (wm_start s)
  then show ?case by (simp add: wm_ok_def)
next
  case (wm_next x y)
  then show ?case by (blast intro: wm_ok_step)
qed

text \<open>Initialisation.\<close>

lemma use_host_values_apply [simp]:
  "use_host_values fs src dst f = (if f \<in> set fs then src f else dst f)"
  unfolding use_host_values_def by (induction fs arbitrary: dst) auto

lemma merged_apply:
  "get_merged_init_config b dst src f =
     (if \<not> ib_cache_on b \<and> ib_caps b \<noteq> src F_feature_caps \<and> f = F_cache_tx_buf_num then ib_cache_num b
      else if \<not> ib_cache_on b \<and> f = F_feature_caps then ib_caps b
      else src f)"
  by (cases f) (simp_all add: get_merged_init_config_def Let_def)

text \<open>The fields a new configuration is not compared in.\<close>

lemma init_config_changed_iff:
  "wifi_init_config_changed (Some n) (Some c) =
     (\<exists>f. f \<notin> {F_rx_mgmt_buf_type, F_rx_mgmt_buf_num, F_tx_hetb_queue_num, F_dump_hesigb_enable} \<and> n f \<noteq> c f)"
proof
  assume "wifi_init_config_changed (Some n) (Some c)"
  then show "\<exists>f. f \<notin> {F_rx_mgmt_buf_type, F_rx_mgmt_buf_num, F_tx_hetb_queue_num, F_dump_hesigb_enable} \<and> n f \<noteq> c f"
    unfolding wifi_init_config_changed_def by (fastforce simp: list_ex_iff)
next
  assume "\<exists>f. f \<notin> {F_rx_mgmt_buf_type, F_rx_mgmt_buf_num, F_tx_hetb_queue_num, F_dump_hesigb_enable} \<and> n f \<noteq> c f"
  then obtain f where "f \<notin> {F_rx_mgmt_buf_type, F_rx_mgmt_buf_num, F_tx_hetb_queue_num, F_dump_hesigb_enable}"
    "n f \<noteq> c f" by blast
  then show "wifi_init_config_changed (Some n) (Some c)"
    by (cases f) (simp_all add: wifi_init_config_changed_def)
qed

lemma wifi_init_first:
  "\<not> wi_initialized s \<Longrightarrow> req_wifi_init b True ESP_OK (Some (Some src)) s =
     ((ESP_OK, Some SUCCESS), s\<lparr>wi_cached := init_request_cfg b src, wi_has_cached := True,
        wi_calls := wi_calls s @ [Real_init (Some (init_request_cfg b src))], wi_initialized := True\<rparr>)"
  by (simp add: req_wifi_init_def wrap_esp_wifi_init_def ESP_OK_def)

lemma wifi_init_again:
  assumes "wi_initialized s" "wi_has_cached s"
  shows "req_wifi_init b True ESP_OK (Some (Some src)) s =
     ((ESP_OK, Some SUCCESS),
      if wifi_init_config_changed (Some (init_request_cfg b src)) (Some (wi_cached s))
      then s\<lparr>wi_cached := init_request_cfg b src, wi_has_cached := True,
        wi_calls := wi_calls s @ [Wifi_stop, Wifi_deinit, Real_init (Some (init_request_cfg b src))],
        wi_initialized := True\<rparr>
      else s)"
  using assms by (simp add: req_wifi_init_def wrap_esp_wifi_init_def Let_def ESP_OK_def)

text \<open>Rounds of a connection and its end.\<close>

definition link_round ::
  "wifi_build \<Rightarrow> esp_err \<Rightarrow> esp_err \<Rightarrow> byte list \<Rightarrow> byte list \<Rightarrow> byte list \<Rightarrow> 'g wifi_mgr \<Rightarrow> 'g wifi_mgr" where
  "link_round b r c n d1 d2 s =
     event_handler_wifi b r c E_sta_disconnected n d2 (event_handler_wifi b r c E_sta_connected n d1 s)"

definition tells :: "'g link_act list \<Rightarrow> (int \<times> byte list) list" where
  "tells as = List.map_filter (\<lambda>a. case a of Tell i d \<Rightarrow> Some (i, d) | _ \<Rightarrow> None) as"

lemma tells_append: "tells (xs @ ys) = tells xs @ tells ys"
  by (simp add: tells_def List.map_filter_def)

lemma tells_simps:
  "tells [] = []" "tells (Tell i d # as) = (i, d) # tells as" "tells (Set_config g e # as) = tells as"
  "tells (Connect e # as) = tells as" "tells (Disconnect # as) = tells as"
  by (simp_all add: tells_def List.map_filter_def)

lemma round_refused:
  assumes "wm_recvd s" "r \<noteq> ESP_OK"
  shows "wm_recvd (link_round b r c n d1 d2 s)" "\<not> wm_connected (link_round b r c n d1 d2 s)"
    "tells (wm_log (link_round b r c n d1 d2 s)) = tells (wm_log s)"
  using assms by (simp_all add: link_round_def event_handler_wifi_def sta_connected_event_def
      sta_disconnected_event_def Let_def tells_append tells_simps)

lemma rounds_refused:
  assumes "wm_recvd s" "r \<noteq> ESP_OK"
  shows "wm_recvd ((link_round b r c n d1 d2 ^^ k) s) \<and>
    tells (wm_log ((link_round b r c n d1 d2 ^^ k) s)) = tells (wm_log s)"
proof (induction k)
  case 0
  then show ?case using assms by simp
next
  case (Suc k)
  then show ?case
    using round_refused(1,3) [of "(link_round b r c n d1 d2 ^^ k) s" r b c n d1 d2] assms(2) by simp
qed

lemma round_applied:
  assumes "wm_recvd s" "r = ESP_OK"
  shows "\<not> wm_recvd (link_round b r c n d1 d2 s)" "\<not> wm_suppress (link_round b r c n d1 d2 s)"
    "wm_connecting (link_round b r c n d1 d2 s)"
    "\<exists>as. wm_log (link_round b r c n d1 d2 s) = wm_log s @ as @ [Set_config (wm_new_config s) ESP_OK, Connect c]"
    "tells (wm_log (link_round b r c n d1 d2 s)) = tells (wm_log s)"
  using assms by (simp_all add: link_round_def event_handler_wifi_def sta_connected_event_def
      sta_disconnected_event_def Let_def tells_append tells_simps)

subsection \<open>Properties\<close>

text \<open>C4: whatever the Wi-Fi driver and the host do, the events sent to the host say what the station is:
  the last of connected and disconnected the host was told is the state of the link, frames are passed to
  the host exactly while it was told that it is connected, and those of the access point exactly while it
  was told it is started. A connection that is cut to apply a new configuration is not shown.
\<close>

theorem host_told_link_state:
  fixes s :: "'g wifi_mgr"
  assumes "wm_reachable (up, s)"
  shows "wm_connected s = told_link (wm_log s) False \<and> wm_rx_sta s = told_link (wm_log s) False \<and>
    wm_rx_ap s = wm_softap s \<and> (told_link (wm_log s) False \<longrightarrow> up)"
  using wm_ok_reachable [OF assms] by (auto simp: wm_ok_def)

definition idle_mgr :: "nat wifi_mgr" where
  "idle_mgr = \<lparr>wm_new_config = 0, wm_recvd = False, wm_suppress = False, wm_retries = 0, wm_connecting = False,
     wm_connected = False, wm_softap = False, wm_lkg = [], wm_rx_sta = False, wm_rx_ap = False, wm_log = []\<rparr>"

definition plain_build :: wifi_build where
  "plain_build = \<lparr>wb_reconnect = Some 3, wb_connect_on_start = False, wb_he = True, wb_dpp = False\<rparr>"

lemma idle_then_connected:
  "wm_reachable (True, event_handler_wifi plain_build ESP_OK ESP_OK E_sta_connected [] [7] idle_mgr)"
  by (rule wm_next [OF wm_start ws_connected]) (simp_all add: idle_mgr_def)

theorem host_told_link_state_witness:
  "wm_rx_sta (event_handler_wifi plain_build ESP_OK ESP_OK E_sta_connected [] [7] idle_mgr)"
  using host_told_link_state [OF idle_then_connected]
  by (simp add: event_handler_wifi_def sta_connected_event_def idle_mgr_def event_ids_def)

text \<open>a configuration that arrived while the station was connecting is applied at the next end of the
  connection: after one round of connecting and disconnecting the driver has been given it and told to
  connect, and the host has seen none of it. But when the driver refuses the configuration, it is tried
  again for ever: however often the station connects and disconnects, the connection is cut, the
  configuration still waits, and the host is told nothing at all.
\<close>

theorem unappliable_config_silences_host:
  fixes s :: "'g wifi_mgr"
  assumes "wm_recvd s"
  shows "(\<exists>as. wm_log (link_round b ESP_OK c n d1 d2 s) =
            wm_log s @ as @ [Set_config (wm_new_config s) ESP_OK, Connect c]) \<and>
    \<not> wm_recvd (link_round b ESP_OK c n d1 d2 s) \<and>
    tells (wm_log (link_round b ESP_OK c n d1 d2 s)) = tells (wm_log s) \<and>
    (r \<noteq> ESP_OK \<longrightarrow> wm_recvd ((link_round b r c n d1 d2 ^^ k) s) \<and>
       tells (wm_log ((link_round b r c n d1 d2 ^^ k) s)) = tells (wm_log s))"
  using rounds_refused [OF assms, where r = r and b = b and c = c and n = n and ?d1.0 = d1 and ?d2.0 = d2 and k = k] round_applied(1,4,5) [OF assms refl] by blast

theorem unappliable_config_silences_host_witness:
  "wm_recvd ((link_round plain_build ESP_FAIL ESP_OK [] [] [] ^^ 5) (idle_mgr\<lparr>wm_recvd := True\<rparr>)) \<and>
   tells (wm_log ((link_round plain_build ESP_FAIL ESP_OK [] [] [] ^^ 5) (idle_mgr\<lparr>wm_recvd := True\<rparr>))) = []"
proof -
  have "wm_recvd (idle_mgr\<lparr>wm_recvd := True\<rparr>)" by simp
  from unappliable_config_silences_host [OF this, where r = ESP_FAIL and b = plain_build and c = ESP_OK and n = "[]"
      and ?d1.0 = "[]" and ?d2.0 = "[]" and k = 5]
  show ?thesis by (simp add: ESP_FAIL_def ESP_OK_def idle_mgr_def tells_simps)
qed

text \<open>the configuration the driver is initialised with is the host's, field by field, except that a build
  without cached transmit buffers keeps its own capabilities, and its own number of such buffers when the
  host's capabilities differ. So the type of the transmit buffers is the host's on the ESP32-C2 too,
  where the request first replaces it.
\<close>

theorem init_config_is_hosts:
  "init_request_cfg b src f =
     (if \<not> ib_cache_on b \<and> f = F_feature_caps then ib_caps b
      else if \<not> ib_cache_on b \<and> f = F_cache_tx_buf_num \<and> ib_caps b \<noteq> src F_feature_caps then ib_cache_num b
      else src f)"
  by (auto simp: init_request_cfg_def merged_apply Let_def)

text \<open>a second request to initialise is answered with success, and restarts the driver exactly when the
  configurations differ in a compared field. A host that changes only the buffers of management frames, the
  HE-TB queues or the HE-SIG-B dump is told it succeeded, and the driver runs on with the old values.
\<close>

theorem reinit_compares_fields:
  fixes s0 :: wifi_init
  assumes "\<not> wi_initialized s0"
    and "req_wifi_init b True ESP_OK (Some (Some src1)) s0 = (a1, s1)"
    and "req_wifi_init b True ESP_OK (Some (Some src2)) s1 = (a2, s2)"
  shows "a2 = (ESP_OK, Some SUCCESS) \<and>
    wi_calls s2 = wi_calls s1 @
      (if \<exists>f. f \<notin> {F_rx_mgmt_buf_type, F_rx_mgmt_buf_num, F_tx_hetb_queue_num, F_dump_hesigb_enable} \<and>
             init_request_cfg b src2 f \<noteq> init_request_cfg b src1 f
       then [Wifi_stop, Wifi_deinit, Real_init (Some (init_request_cfg b src2))] else [])"
proof -
  have s1: "wi_initialized s1" "wi_has_cached s1" "wi_cached s1 = init_request_cfg b src1"
    using assms(2) by (auto simp: wifi_init_first [OF assms(1)])
  show ?thesis
    using assms(3) unfolding wifi_init_again [OF s1(1,2)] s1(3) init_config_changed_iff
    by (auto split: if_splits)
qed

definition cold_wifi :: wifi_init where
  "cold_wifi = \<lparr>wi_initialized = False, wi_has_cached = False, wi_cached = (\<lambda>_. 0), wi_calls = []\<rparr>"

definition c2_build :: init_build where
  "c2_build = \<lparr>ib_cache_on = True, ib_cache_num = 0, ib_caps = 1, ib_esp32c2 = True, ib_default = (\<lambda>_. 5)\<rparr>"

theorem reinit_compares_fields_witness:
  "wi_calls (snd (req_wifi_init c2_build True ESP_OK (Some (Some ((\<lambda>_. 9)(F_rx_mgmt_buf_num := 4))))
     (snd (req_wifi_init c2_build True ESP_OK (Some (Some (\<lambda>_. 9))) cold_wifi)))) =
   wi_calls (snd (req_wifi_init c2_build True ESP_OK (Some (Some (\<lambda>_. 9))) cold_wifi))"
proof -
  have "\<not> wi_initialized cold_wifi" by (simp add: cold_wifi_def)
  from reinit_compares_fields [OF this prod.collapse [symmetric] prod.collapse [symmetric],
      where b = c2_build and ?src1.0 = "\<lambda>_. 9" and ?src2.0 = "(\<lambda>_. 9)(F_rx_mgmt_buf_num := 4)"]
  show ?thesis by (auto simp: init_request_cfg_def merged_apply c2_build_def)
qed

end
