(* ===== verification/Wifi_Config.thy ===== *)
theory Wifi_Config
  imports Wifi_Manager
begin

section \<open>Wi-Fi configurations between messages and the driver (slave_wifi_std.c)\<close>

text \<open>
  The requests that set and read the configuration of the station and of the access point, for
  ESP-IDF 5.5. The messages carry the one-bit fields of the driver's structure in two words, whose bits are
  those of \<open>esp_hosted_bitmasks.h\<close>; the widths of the driver's fields are those the masks leave to them and
  the widths ESP-IDF documents for the others.
\<close>

subsection \<open>Bits\<close>

definition H_GET_BIT :: "nat \<Rightarrow> u32 \<Rightarrow> bool" where
  "H_GET_BIT pos val = (val AND push_bit pos 1 \<noteq> 0)"

definition H_SET_BIT :: "nat \<Rightarrow> u32 \<Rightarrow> u32" where
  "H_SET_BIT pos val = val OR push_bit pos 1"

definition set_if :: "bool \<Rightarrow> nat \<Rightarrow> u32 \<Rightarrow> u32" where
  "set_if b pos val = (if b then H_SET_BIT pos val else val)"

lemma H_GET_BIT_bit: "H_GET_BIT pos val = bit val pos"
proof -
  have "bit (val AND push_bit pos 1) n = (bit val pos \<and> pos = n)" for n
    by (auto simp: bit_simps dest: bit_imp_le_length)
  then show ?thesis unfolding H_GET_BIT_def by (metis bit_0_eq bot_apply bot_bool_def bit_eq_iff)
qed

lemma bit_set_if: "bit (set_if b pos val) n = (bit val n \<or> (b \<and> n = pos \<and> n < 32))"
  by (auto simp: set_if_def H_SET_BIT_def bit_simps)

subsection \<open>Station: the driver's structure and the message\<close>

record sta_cfg =
  sc_ssid :: "byte list"
  sc_password :: "byte list"
  sc_scan_method :: u32
  sc_bssid_set :: bool
  sc_bssid :: "byte list"
  sc_channel :: u8
  sc_listen_interval :: u16
  sc_sort_method :: u32
  sc_rssi :: "8 word"
  sc_authmode :: u32
  sc_rssi_5g :: u8
  sc_pmf_capable :: bool
  sc_pmf_required :: bool
  sc_rm :: bool
  sc_btm :: bool
  sc_mbo :: bool
  sc_ft :: bool
  sc_owe :: bool
  sc_transition_disable :: bool
  sc_reserved1 :: "26 word"
  sc_sae_pwe_h2e :: u32
  sc_sae_pk_mode :: u32
  sc_failure_retry :: u8
  sc_dcm_set :: bool
  sc_dcm_tx :: "2 word"
  sc_dcm_rx :: "2 word"
  sc_mcs9 :: bool
  sc_su_bf_off :: bool
  sc_trig_su_off :: bool
  sc_trig_mu_off :: bool
  sc_trig_cqi_off :: bool
  sc_vht_su_off :: bool
  sc_vht_mu_off :: bool
  sc_vht_mcs8 :: bool
  sc_reserved2 :: "19 word"
  sc_h2e_id :: "byte list"

record sta_msg =
  sm_ssid :: "byte list"
  sm_password :: "byte list"
  sm_scan_method :: u32
  sm_bssid_set :: bool
  sm_bssid :: "byte list"
  sm_channel :: u32
  sm_listen_interval :: u32
  sm_sort_method :: u32
  sm_threshold :: "(u32 \<times> u32 \<times> u32) option"
  sm_pmf :: "(bool \<times> bool) option"
  sm_bitmask :: u32
  sm_sae_pwe_h2e :: u32
  sm_failure_retry :: u32
  sm_he_bitmask :: u32
  sm_h2e_id :: "byte list"
  sm_sae_pk_mode :: u32

definition no_sta_msg :: sta_msg where
  "no_sta_msg = \<lparr> sm_ssid = [], sm_password = [], sm_scan_method = 0, sm_bssid_set = False, sm_bssid = [],
     sm_channel = 0, sm_listen_interval = 0, sm_sort_method = 0, sm_threshold = None, sm_pmf = None,
     sm_bitmask = 0, sm_sae_pwe_h2e = 0, sm_failure_retry = 0, sm_he_bitmask = 0, sm_h2e_id = [],
     sm_sae_pk_mode = 0 \<rparr>"

definition zeros :: "nat \<Rightarrow> byte list" where "zeros n = replicate n 0"

definition SSID_LENGTH :: nat where "SSID_LENGTH = 32"
definition PASSWORD_LENGTH :: nat where "PASSWORD_LENGTH = 64"
definition BSSID_BYTES_SIZE :: nat where "BSSID_BYTES_SIZE = 6"
definition SAE_H2E_IDENTIFIER_LEN :: nat where "SAE_H2E_IDENTIFIER_LEN = 32"

text \<open>The station's branch of \<open>req_wifi_set_config\<close>, into a structure that starts as zero.\<close>

definition sta_from_msg :: "sta_msg \<Rightarrow> sta_cfg" where
  "sta_from_msg m =
     (let bm = sm_bitmask m; he = sm_he_bitmask m in
      \<lparr> sc_ssid = rpc_req_copy_bytes (zeros 32) (sm_ssid m) SSID_LENGTH,
        sc_password = rpc_req_copy_bytes (zeros 64) (sm_password m) PASSWORD_LENGTH,
        sc_scan_method = sm_scan_method m,
        sc_bssid_set = sm_bssid_set m,
        sc_bssid = (if sm_bssid_set m then rpc_req_copy_bytes (zeros 6) (sm_bssid m) BSSID_BYTES_SIZE else zeros 6),
        sc_channel = ucast (sm_channel m),
        sc_listen_interval = ucast (sm_listen_interval m),
        sc_sort_method = sm_sort_method m,
        sc_rssi = (case sm_threshold m of None \<Rightarrow> 0 | Some (r, a, g) \<Rightarrow> ucast r),
        sc_authmode = (case sm_threshold m of None \<Rightarrow> 0 | Some (r, a, g) \<Rightarrow> a),
        sc_rssi_5g = (case sm_threshold m of None \<Rightarrow> 0 | Some (r, a, g) \<Rightarrow> ucast g),
        sc_pmf_capable = (case sm_pmf m of None \<Rightarrow> False | Some p \<Rightarrow> fst p),
        sc_pmf_required = (case sm_pmf m of None \<Rightarrow> False | Some p \<Rightarrow> snd p),
        sc_rm = H_GET_BIT 0 bm, sc_btm = H_GET_BIT 1 bm, sc_mbo = H_GET_BIT 2 bm, sc_ft = H_GET_BIT 3 bm,
        sc_owe = H_GET_BIT 4 bm, sc_transition_disable = H_GET_BIT 5 bm,
        sc_reserved1 = ucast (drop_bit 6 (bm AND 0xFFFFFFC0)),
        sc_sae_pwe_h2e = sm_sae_pwe_h2e m,
        sc_sae_pk_mode = sm_sae_pk_mode m,
        sc_failure_retry = ucast (sm_failure_retry m),
        sc_dcm_set = H_GET_BIT 0 he,
        sc_dcm_tx = ucast (drop_bit 1 he AND 3),
        sc_dcm_rx = ucast (drop_bit 3 he AND 3),
        sc_mcs9 = H_GET_BIT 5 he, sc_su_bf_off = H_GET_BIT 6 he, sc_trig_su_off = H_GET_BIT 7 he,
        sc_trig_mu_off = H_GET_BIT 8 he, sc_trig_cqi_off = H_GET_BIT 9 he,
        sc_vht_su_off = H_GET_BIT 10 he, sc_vht_mu_off = H_GET_BIT 11 he, sc_vht_mcs8 = H_GET_BIT 12 he,
        sc_reserved2 = ucast (drop_bit 13 (he AND 0xFFFFE000)),
        sc_h2e_id = rpc_req_copy_bytes (zeros 32) (sm_h2e_id m) SAE_H2E_IDENTIFIER_LEN \<rparr>)"

text \<open>The string at the front of an array that may fill it.\<close>

definition c_str :: "byte list \<Rightarrow> byte list" where "c_str b = takeWhile (\<lambda>x. x \<noteq> 0) b"

definition sta_bits_1 :: "sta_cfg \<Rightarrow> u32 \<Rightarrow> u32" where
  "sta_bits_1 c v =
     set_if (sc_transition_disable c) 5 (set_if (sc_owe c) 4 (set_if (sc_ft c) 3
       (set_if (sc_mbo c) 2 (set_if (sc_btm c) 1 (set_if (sc_rm c) 0 v))))) OR push_bit 6 (ucast (sc_reserved1 c))"

definition sta_bits_2 :: "sta_cfg \<Rightarrow> u32 \<Rightarrow> u32" where
  "sta_bits_2 c v =
     (let v1 = set_if (sc_dcm_set c) 0 v;
          tx = (ucast (sc_dcm_tx c) AND 3 :: u32); rx = (ucast (sc_dcm_rx c) AND 3 :: u32);
          v2 = (if tx \<noteq> 0 then v1 OR push_bit 1 tx else v1);
          v3 = (if rx \<noteq> 0 then v2 OR push_bit 3 rx else v2)
      in set_if (sc_vht_mcs8 c) 12 (set_if (sc_vht_mu_off c) 11 (set_if (sc_vht_su_off c) 10
           (set_if (sc_trig_cqi_off c) 9 (set_if (sc_trig_mu_off c) 8 (set_if (sc_trig_su_off c) 7
             (set_if (sc_su_bf_off c) 6 (set_if (sc_mcs9 c) 5 v3))))))) OR push_bit 13 (ucast (sc_reserved2 c)))"

text \<open>The fields written after the allocations; \<open>sae_h2e_identifier\<close> is not among them.\<close>

definition sta_to_msg :: "sta_cfg \<Rightarrow> sta_msg \<Rightarrow> sta_msg" where
  "sta_to_msg c m = m\<lparr>
     sm_scan_method := sc_scan_method c, sm_bssid_set := sc_bssid_set c,
     sm_channel := ucast (sc_channel c), sm_listen_interval := ucast (sc_listen_interval c),
     sm_sort_method := sc_sort_method c,
     sm_threshold := Some (scast (sc_rssi c), sc_authmode c, ucast (sc_rssi_5g c)),
     sm_pmf := Some (sc_pmf_capable c, sc_pmf_required c),
     sm_bitmask := sta_bits_1 c (sm_bitmask m),
     sm_sae_pwe_h2e := sc_sae_pwe_h2e c, sm_sae_pk_mode := sc_sae_pk_mode c,
     sm_failure_retry := ucast (sc_failure_retry c),
     sm_he_bitmask := sta_bits_2 c (sm_he_bitmask m) \<rparr>"

text \<open>
  The n-th allocation succeeds when \<open>mem n\<close>. The result is what the payload's status is set to, if it is,
  and the station part of the payload. Every failure returns \<open>ESP_OK\<close>.
\<close>

definition copy_wifi_sta_cfg_to_rpc_struct ::
  "(nat \<Rightarrow> bool) \<Rightarrow> sta_cfg \<Rightarrow> esp_err \<times> int option \<times> sta_msg option" where
  "copy_wifi_sta_cfg_to_rpc_struct mem c =
     (if \<not> mem 0 then (ESP_OK, Some RPC_ERR_MEMORY_FAILURE, None)
      else let m0 = no_sta_msg in
       case rpc_resp_copy_str (mem 1) (c_str (sc_ssid c)) SSID_LENGTH of
         None \<Rightarrow> (ESP_OK, Some FAILURE, Some m0)
       | Some ssid \<Rightarrow>
        (let m1 = m0\<lparr>sm_ssid := ssid\<rparr> in
         case rpc_resp_copy_str (mem 2) (c_str (sc_password c)) PASSWORD_LENGTH of
           None \<Rightarrow> (ESP_OK, Some FAILURE, Some m1)
         | Some pw \<Rightarrow>
          (let m2 = m1\<lparr>sm_password := pw\<rparr> in
           case rpc_resp_copy_bytes (mem 3) (sc_bssid c) BSSID_BYTES_SIZE of
             None \<Rightarrow> (ESP_OK, Some FAILURE, Some m2)
           | Some bssid \<Rightarrow>
            (let m3 = m2\<lparr>sm_bssid := bssid\<rparr> in
             if \<not> mem 4 then (ESP_OK, Some RPC_ERR_MEMORY_FAILURE, Some m3)
             else if \<not> mem 5 then (ESP_OK, Some RPC_ERR_MEMORY_FAILURE, Some (m3\<lparr>sm_threshold := Some (0, 0, 0)\<rparr>))
             else (ESP_OK, None, Some (sta_to_msg c m3))))))"

subsection \<open>Access point\<close>

record ap_cfg =
  ac_ssid :: "byte list"
  ac_password :: "byte list"
  ac_ssid_len :: u8
  ac_channel :: u8
  ac_authmode :: u32
  ac_ssid_hidden :: u8
  ac_max_connection :: u8
  ac_beacon_interval :: u16
  ac_csa_count :: u8
  ac_dtim_period :: u8
  ac_pairwise_cipher :: u32
  ac_ftm_responder :: bool
  ac_pmf_capable :: bool
  ac_pmf_required :: bool
  ac_sae_pwe_h2e :: u32
  ac_transition_disable :: bool
  ac_sae_ext :: bool
  ac_idle_period :: u16
  ac_idle_protected :: bool
  ac_gtk_rekey :: u16

record ap_msg =
  am_ssid :: "byte list"
  am_password :: "byte list"
  am_ssid_len :: u32
  am_channel :: u32
  am_authmode :: u32
  am_ssid_hidden :: u32
  am_max_connection :: u32
  am_beacon_interval :: u32
  am_csa_count :: u32
  am_dtim_period :: u32
  am_pairwise_cipher :: u32
  am_ftm_responder :: bool
  am_pmf :: "(bool \<times> bool) option"
  am_sae_pwe_h2e :: u32
  am_transition_disable :: u32
  am_sae_ext :: u32
  am_idle :: "(u32 \<times> bool) option"
  am_gtk_rekey :: u32

definition no_ap_msg :: ap_msg where
  "no_ap_msg = \<lparr> am_ssid = [], am_password = [], am_ssid_len = 0, am_channel = 0, am_authmode = 0,
     am_ssid_hidden = 0, am_max_connection = 0, am_beacon_interval = 0, am_csa_count = 0, am_dtim_period = 0,
     am_pairwise_cipher = 0, am_ftm_responder = False, am_pmf = None, am_sae_pwe_h2e = 0,
     am_transition_disable = 0, am_sae_ext = 0, am_idle = None, am_gtk_rekey = 0 \<rparr>"

definition ap_from_msg :: "ap_msg \<Rightarrow> ap_cfg" where
  "ap_from_msg m =
     \<lparr> ac_ssid = rpc_req_copy_bytes (zeros 32) (am_ssid m) SSID_LENGTH,
       ac_password = rpc_req_copy_bytes (zeros 64) (am_password m) PASSWORD_LENGTH,
       ac_ssid_len = ucast (am_ssid_len m),
       ac_channel = ucast (am_channel m), ac_authmode = am_authmode m,
       ac_ssid_hidden = ucast (am_ssid_hidden m), ac_max_connection = ucast (am_max_connection m),
       ac_beacon_interval = ucast (am_beacon_interval m), ac_csa_count = ucast (am_csa_count m),
       ac_dtim_period = ucast (am_dtim_period m), ac_pairwise_cipher = am_pairwise_cipher m,
       ac_ftm_responder = am_ftm_responder m,
       ac_pmf_capable = (case am_pmf m of None \<Rightarrow> False | Some p \<Rightarrow> fst p),
       ac_pmf_required = (case am_pmf m of None \<Rightarrow> False | Some p \<Rightarrow> snd p),
       ac_sae_pwe_h2e = am_sae_pwe_h2e m,
       ac_transition_disable = odd (am_transition_disable m),
       ac_sae_ext = odd (am_sae_ext m),
       ac_idle_period = (case am_idle m of None \<Rightarrow> 0 | Some p \<Rightarrow> ucast (fst p)),
       ac_idle_protected = (case am_idle m of None \<Rightarrow> False | Some p \<Rightarrow> snd p),
       ac_gtk_rekey = ucast (am_gtk_rekey m) \<rparr>"

text \<open>The access point's branch of \<open>req_wifi_get_config\<close>: the status, and the part of the message.\<close>

definition ap_to_msg :: "(nat \<Rightarrow> bool) \<Rightarrow> ap_cfg \<Rightarrow> int \<times> ap_msg option" where
  "ap_to_msg mem c =
     (if \<not> mem 0 then (RPC_ERR_MEMORY_FAILURE, None)
      else case rpc_resp_copy_str (mem 1) (c_str (ac_password c)) PASSWORD_LENGTH of
        None \<Rightarrow> (FAILURE, Some no_ap_msg)
      | Some pw \<Rightarrow>
       (let m1 = no_ap_msg\<lparr>am_password := pw, am_ssid_len := ucast (ac_ssid_len c)\<rparr> in
        case (if ac_ssid_len c \<noteq> 0 then rpc_resp_copy_str (mem 2) (c_str (ac_ssid c)) SSID_LENGTH else Some []) of
          None \<Rightarrow> (FAILURE, Some m1)
        | Some ssid \<Rightarrow>
         (let m2 = m1\<lparr>am_ssid := ssid, am_channel := ucast (ac_channel c), am_authmode := ac_authmode c,
                am_ssid_hidden := ucast (ac_ssid_hidden c), am_max_connection := ucast (ac_max_connection c),
                am_beacon_interval := ucast (ac_beacon_interval c), am_csa_count := ucast (ac_csa_count c),
                am_dtim_period := ucast (ac_dtim_period c), am_pairwise_cipher := ac_pairwise_cipher c,
                am_ftm_responder := ac_ftm_responder c\<rparr> in
          if \<not> mem 3 then (RPC_ERR_MEMORY_FAILURE, Some m2)
          else
           (let m3 = m2\<lparr>am_pmf := Some (ac_pmf_capable c, ac_pmf_required c), am_sae_pwe_h2e := ac_sae_pwe_h2e c,
                  am_transition_disable := of_bool (ac_transition_disable c), am_sae_ext := of_bool (ac_sae_ext c)\<rparr> in
            if \<not> mem 4 then (RPC_ERR_MEMORY_FAILURE, Some m3)
            else (SUCCESS, Some (m3\<lparr>am_idle := Some (ucast (ac_idle_period c), ac_idle_protected c),
                    am_gtk_rekey := ucast (ac_gtk_rekey c)\<rparr>))))))"

subsection \<open>The requests\<close>

text \<open>A configuration in a message: the union's member, which may be absent.\<close>

datatype cfg_msg = Msg_sta sta_msg | Msg_ap ap_msg | Msg_none

definition msg_sta :: "cfg_msg \<Rightarrow> sta_msg option" where
  "msg_sta c = (case c of Msg_sta m \<Rightarrow> Some m | _ \<Rightarrow> None)"

definition msg_ap :: "cfg_msg \<Rightarrow> ap_msg option" where
  "msg_ap c = (case c of Msg_ap m \<Rightarrow> Some m | _ \<Rightarrow> None)"

text \<open>
  The generated code keeps the member in a C union and the handler tests the pointer, not the kind: a
  configuration of the other kind is read as the wrong structure (\<open>None\<close>). \<open>r_sta\<close> and \<open>r_ap\<close> are the
  results of \<open>esp_wifi_set_config\<close>; the last component is what the driver was given for the access point.
\<close>

definition req_wifi_set_config ::
  "bool \<Rightarrow> esp_err \<Rightarrow> esp_err \<Rightarrow> (int \<times> cfg_msg option) option \<Rightarrow> sta_cfg wifi_mgr \<Rightarrow>
    (int answered \<times> sta_cfg wifi_mgr \<times> ap_cfg option) option" where
  "req_wifi_set_config alloc r_sta r_ap req s =
     rpc_template (\<lambda>a. Some (a, s, None)) alloc req (\<lambda>(iface, cfg).
       if iface \<noteq> 0 \<and> iface \<noteq> 1 then Some ((ESP_OK, Some 1), s, None)
       else case cfg of
         None \<Rightarrow> Some ((ESP_OK, Some 1), s, None)
       | Some Msg_none \<Rightarrow> Some ((ESP_OK, Some 1), s, None)
       | Some u \<Rightarrow>
           if iface = 0 then
             (case msg_sta u of
                None \<Rightarrow> None
              | Some m \<Rightarrow>
                  (case esp_hosted_set_sta_config r_sta (sta_from_msg m) s of (e, s1) \<Rightarrow>
                     rpc_ret_fail_if (\<lambda>a. Some (a, s1, None)) (\<lambda>e. e) e (Some ((ESP_OK, Some SUCCESS), s1, None))))
           else
             (case msg_ap u of
                None \<Rightarrow> None
              | Some m \<Rightarrow>
                  rpc_ret_fail_if (\<lambda>a. Some (a, s, Some (ap_from_msg m))) (\<lambda>e. e) r_ap
                    (Some ((ESP_OK, Some SUCCESS), s, Some (ap_from_msg m)))))"

record get_config_resp =
  gc_resp :: int
  gc_iface :: int
  gc_cfg :: "cfg_msg option"

text \<open>\<open>sta\<close> and \<open>ap\<close> are what \<open>esp_wifi_get_config\<close> gives for the two interfaces.\<close>

definition req_wifi_get_config ::
  "bool \<Rightarrow> (nat \<Rightarrow> bool) \<Rightarrow> bool \<Rightarrow> esp_err \<times> sta_cfg \<Rightarrow> esp_err \<times> ap_cfg \<Rightarrow> int option \<Rightarrow> get_config_resp answered" where
  "req_wifi_get_config alloc mem cfg_alloc sta ap req =
     rpc_template (\<lambda>a. a) alloc req (\<lambda>iface.
       let r = \<lparr> gc_resp = SUCCESS, gc_iface = iface, gc_cfg = None \<rparr> in
       if iface < 0 \<or> iface > 1 then (ESP_OK, Some (r\<lparr>gc_resp := 1\<rparr>))
       else rpc_ret_fail_if (\<lambda>a. a) (\<lambda>e. r\<lparr>gc_resp := e\<rparr>) (if iface = 0 then fst sta else fst ap)
        (if \<not> cfg_alloc then (ESP_OK, Some (r\<lparr>gc_resp := RPC_ERR_MEMORY_FAILURE\<rparr>))
         else if iface = 0 then
           (case copy_wifi_sta_cfg_to_rpc_struct mem (snd sta) of (ret, status, m) \<Rightarrow>
              (ret, Some \<lparr> gc_resp = (case status of None \<Rightarrow> SUCCESS | Some e \<Rightarrow> e), gc_iface = iface,
                gc_cfg = Some (case m of None \<Rightarrow> Msg_none | Some x \<Rightarrow> Msg_sta x) \<rparr>))
         else
           (case ap_to_msg mem (snd ap) of (status, m) \<Rightarrow>
              (ESP_OK, Some \<lparr> gc_resp = status, gc_iface = iface,
                gc_cfg = Some (case m of None \<Rightarrow> Msg_none | Some x \<Rightarrow> Msg_ap x) \<rparr>))))"

text \<open>
  The event that passes on a configuration received by DPP: \<open>copy_wifi_sta_cfg_to_rpc_struct\<close> puts its
  status into the event, and then the handler its own.
\<close>

definition rpc_evt_dpp_cfg_recvd ::
  "bool \<Rightarrow> bool \<Rightarrow> (nat \<Rightarrow> bool) \<Rightarrow> sta_cfg \<Rightarrow> (esp_err \<times> int option \<times> cfg_msg option)" where
  "rpc_evt_dpp_cfg_recvd alloc cfg_alloc mem c =
     (if \<not> alloc then (ESP_ERR_NO_MEM, None, None)
      else if \<not> cfg_alloc then (ESP_FAIL, Some RPC_ERR_MEMORY_FAILURE, None)
      else case copy_wifi_sta_cfg_to_rpc_struct mem c of (ret, status, m) \<Rightarrow>
        let cfg = Some (case m of None \<Rightarrow> Msg_none | Some x \<Rightarrow> Msg_sta x) in
        if ret = ESP_OK then (ESP_OK, Some SUCCESS, cfg)
        else (ret, status, cfg))"

subsection \<open>Lemmas: bit masks\<close>

lemma low_two: "bit (x AND 3) n = (n < 2 \<and> bit x n)" for x :: u32
proof -
  have m: "(3 :: u32) = mask 2" by (simp add: mask_numeral)
  show ?thesis unfolding m by (auto simp: bit_simps dest: bit_imp_le_length)
qed

lemma high_part:
  "bit (v AND 0xFFFFFFC0) n = (6 \<le> n \<and> bit v n)" "bit (v AND 0xFFFFE000) n = (13 \<le> n \<and> bit v n)" for v :: u32
proof -
  have m: "(0xFFFFFFC0 :: u32) = push_bit 6 (mask 26)" "(0xFFFFE000 :: u32) = push_bit 13 (mask 19)"
    by (simp_all add: mask_numeral)
  show "bit (v AND 0xFFFFFFC0) n = (6 \<le> n \<and> bit v n)"
    unfolding m by (auto simp: bit_simps dest: bit_imp_le_length)
  show "bit (v AND 0xFFFFE000) n = (13 \<le> n \<and> bit v n)"
    unfolding m by (auto simp: bit_simps dest: bit_imp_le_length)
qed

lemma or_if_nonzero: "(if t \<noteq> 0 then v OR push_bit k t else v) = v OR push_bit k t" for t v :: u32
  by simp

lemma bit_set_if_low: "pos < 32 \<Longrightarrow> bit (set_if b pos val) n = (bit val n \<or> n = pos \<and> b)"
  by (auto simp: bit_set_if)

lemma bit_reserved:
  "bit (push_bit 6 (ucast r1) :: u32) n = (6 \<le> n \<and> n < 32 \<and> bit r1 (n - 6))"
  "bit (push_bit 13 (ucast r2) :: u32) n = (13 \<le> n \<and> n < 32 \<and> bit r2 (n - 13))"
  for r1 :: "26 word" and r2 :: "19 word"
  by (auto simp: bit_push_bit_iff bit_unsigned_iff possible_bit_word dest: bit_imp_le_length)

lemma bit_two_field:
  "bit (push_bit 1 (ucast t AND 3) :: u32) n = (1 \<le> n \<and> n < 3 \<and> bit t (n - 1))"
  "bit (push_bit 3 (ucast t AND 3) :: u32) n = (3 \<le> n \<and> n < 5 \<and> bit t (n - 3))"
  for t :: "2 word"
  unfolding bit_push_bit_iff low_two bit_unsigned_iff possible_bit_word
  by (auto dest: bit_imp_le_length)

lemma bit_sta_bits_1:
  "bit (sta_bits_1 c v) n =
     (bit v n \<or> n = 0 \<and> sc_rm c \<or> n = 1 \<and> sc_btm c \<or> n = 2 \<and> sc_mbo c \<or> n = 3 \<and> sc_ft c \<or>
      n = 4 \<and> sc_owe c \<or> n = 5 \<and> sc_transition_disable c \<or> 6 \<le> n \<and> n < 32 \<and> bit (sc_reserved1 c) (n - 6))"
  unfolding sta_bits_1_def bit_or_iff bit_reserved by (simp only: bit_set_if_low disj_assoc)

lemma bit_sta_bits_2:
  "bit (sta_bits_2 c v) n =
     (bit v n \<or> n = 0 \<and> sc_dcm_set c \<or> 1 \<le> n \<and> n < 3 \<and> bit (sc_dcm_tx c) (n - 1) \<or>
      3 \<le> n \<and> n < 5 \<and> bit (sc_dcm_rx c) (n - 3) \<or> n = 5 \<and> sc_mcs9 c \<or> n = 6 \<and> sc_su_bf_off c \<or>
      n = 7 \<and> sc_trig_su_off c \<or> n = 8 \<and> sc_trig_mu_off c \<or> n = 9 \<and> sc_trig_cqi_off c \<or>
      n = 10 \<and> sc_vht_su_off c \<or> n = 11 \<and> sc_vht_mu_off c \<or> n = 12 \<and> sc_vht_mcs8 c \<or>
      13 \<le> n \<and> n < 32 \<and> bit (sc_reserved2 c) (n - 13))"
  unfolding sta_bits_2_def Let_def or_if_nonzero bit_or_iff bit_reserved
  by (simp only: bit_set_if_low bit_or_iff bit_two_field disj_assoc)

lemma bit_field_26: "bit (ucast (drop_bit 6 (v AND 0xFFFFFFC0)) :: 26 word) n = (n < 26 \<and> bit v (n + 6))" for v :: u32
  unfolding bit_unsigned_iff bit_drop_bit_eq comp_def high_part possible_bit_word
  by (auto simp: ac_simps dest: bit_imp_le_length)

lemma bit_field_19: "bit (ucast (drop_bit 13 (v AND 0xFFFFE000)) :: 19 word) n = (n < 19 \<and> bit v (n + 13))" for v :: u32
  unfolding bit_unsigned_iff bit_drop_bit_eq comp_def high_part possible_bit_word
  by (auto simp: ac_simps dest: bit_imp_le_length)

lemma bit_field_2: "bit (ucast (drop_bit k v AND 3) :: 2 word) n = (n < 2 \<and> bit v (n + k))" for v :: u32
  unfolding bit_unsigned_iff bit_drop_bit_eq comp_def low_two possible_bit_word
  by (auto simp: ac_simps dest: bit_imp_le_length)

lemma sta_from_msg_bits:
  "sc_rm (sta_from_msg m) = bit (sm_bitmask m) 0" "sc_btm (sta_from_msg m) = bit (sm_bitmask m) 1"
  "sc_mbo (sta_from_msg m) = bit (sm_bitmask m) 2" "sc_ft (sta_from_msg m) = bit (sm_bitmask m) 3"
  "sc_owe (sta_from_msg m) = bit (sm_bitmask m) 4" "sc_transition_disable (sta_from_msg m) = bit (sm_bitmask m) 5"
  "bit (sc_reserved1 (sta_from_msg m)) n = (n < 26 \<and> bit (sm_bitmask m) (n + 6))"
  "sc_dcm_set (sta_from_msg m) = bit (sm_he_bitmask m) 0"
  "bit (sc_dcm_tx (sta_from_msg m)) n = (n < 2 \<and> bit (sm_he_bitmask m) (n + 1))"
  "bit (sc_dcm_rx (sta_from_msg m)) n = (n < 2 \<and> bit (sm_he_bitmask m) (n + 3))"
  "sc_mcs9 (sta_from_msg m) = bit (sm_he_bitmask m) 5" "sc_su_bf_off (sta_from_msg m) = bit (sm_he_bitmask m) 6"
  "sc_trig_su_off (sta_from_msg m) = bit (sm_he_bitmask m) 7"
  "sc_trig_mu_off (sta_from_msg m) = bit (sm_he_bitmask m) 8"
  "sc_trig_cqi_off (sta_from_msg m) = bit (sm_he_bitmask m) 9"
  "sc_vht_su_off (sta_from_msg m) = bit (sm_he_bitmask m) 10"
  "sc_vht_mu_off (sta_from_msg m) = bit (sm_he_bitmask m) 11"
  "sc_vht_mcs8 (sta_from_msg m) = bit (sm_he_bitmask m) 12"
  "bit (sc_reserved2 (sta_from_msg m)) n = (n < 19 \<and> bit (sm_he_bitmask m) (n + 13))"
  by (simp_all only: sta_from_msg_def Let_def sta_cfg.simps H_GET_BIT_bit bit_field_26 bit_field_19 bit_field_2)

lemma sta_bits_1_roundtrip: "sta_bits_1 (sta_from_msg m) 0 = sm_bitmask m"
proof (rule bit_word_eqI)
  fix n assume n: "n < LENGTH(32)"
  have low: "\<forall>k \<in> set [0..<6]. bit (sta_bits_1 (sta_from_msg m) 0) k = bit (sm_bitmask m) k"
    unfolding bit_sta_bits_1 sta_from_msg_bits by (simp add: upt_rec eval_nat_numeral del: set_upt)
  show "bit (sta_bits_1 (sta_from_msg m) 0) n = bit (sm_bitmask m) n"
  proof (cases "n < 6")
    case True
    with low show ?thesis by simp
  next
    case False
    then show ?thesis using n unfolding bit_sta_bits_1 sta_from_msg_bits by auto
  qed
qed

lemma sta_bits_2_roundtrip: "sta_bits_2 (sta_from_msg m) 0 = sm_he_bitmask m"
proof (rule bit_word_eqI)
  fix n assume n: "n < LENGTH(32)"
  have low: "\<forall>k \<in> set [0..<13]. bit (sta_bits_2 (sta_from_msg m) 0) k = bit (sm_he_bitmask m) k"
    unfolding bit_sta_bits_2 sta_from_msg_bits by (simp add: upt_rec eval_nat_numeral del: set_upt)
  show "bit (sta_bits_2 (sta_from_msg m) 0) n = bit (sm_he_bitmask m) n"
  proof (cases "n < 13")
    case True
    with low show ?thesis by simp
  next
    case False
    then show ?thesis using n unfolding bit_sta_bits_2 sta_from_msg_bits by auto
  qed
qed

subsection \<open>Lemmas: strings\<close>

lemma copy_into_zeros: "rpc_req_copy_bytes (zeros n) m n = take n m @ zeros (n - length m)"
  by (simp add: rpc_req_copy_bytes_def Let_def zeros_def min_def)

lemma zeros_simps [simp]: "length (zeros n) = n" "take k (zeros n) = zeros (min k n)" "zeros 0 = []"
  by (simp_all add: zeros_def)

lemma c_str_zeros [simp]: "c_str (xs @ zeros n) = c_str xs"
  by (induction xs; cases n) (simp_all add: c_str_def zeros_def)

text \<open>What is left of a string that went through an array of \<open>n\<close> bytes and back.\<close>

definition seen_str :: "nat \<Rightarrow> byte list \<Rightarrow> byte list" where
  "seen_str n x = (let t = c_str (take n x) in take (min n (length t + 1)) (t @ [0]))"

lemma length_c_str: "length (c_str xs) \<le> length xs"
  by (simp add: c_str_def length_takeWhile_le)

lemma copy_str_back:
  "rpc_resp_copy_str True (c_str (rpc_req_copy_bytes (zeros n) x n)) n = Some (seen_str n x)"
proof -
  have "length (c_str (take n x)) \<le> n" using length_c_str [of "take n x"] by simp
  then show ?thesis by (simp add: copy_into_zeros rpc_resp_copy_str_def seen_str_def Let_def)
qed

lemma copy_bytes_back:
  "n > 0 \<Longrightarrow> rpc_resp_copy_bytes True (rpc_req_copy_bytes (zeros n) x n) n = Some (take n x @ zeros (n - length x))"
  by (cases "length x \<le> n") (simp_all add: copy_into_zeros rpc_resp_copy_bytes_def min_absorb1 min_absorb2)

lemma resp_zeros: "n > 0 \<Longrightarrow> rpc_resp_copy_bytes True (zeros n) n = Some (zeros n)"
  by (simp add: rpc_resp_copy_bytes_def)

subsection \<open>Lemmas: round trips\<close>

text \<open>A station's configuration as it is read back.\<close>

definition sta_seen :: "sta_msg \<Rightarrow> sta_msg" where
  "sta_seen m = m\<lparr>
     sm_ssid := seen_str 32 (sm_ssid m), sm_password := seen_str 64 (sm_password m),
     sm_bssid := (if sm_bssid_set m then take 6 (sm_bssid m) @ zeros (6 - length (sm_bssid m)) else zeros 6),
     sm_channel := take_bit 8 (sm_channel m), sm_listen_interval := take_bit 16 (sm_listen_interval m),
     sm_threshold := Some (case sm_threshold m of None \<Rightarrow> (0, 0, 0)
                            | Some (r, a, g) \<Rightarrow> (signed_take_bit 7 r, a, take_bit 8 g)),
     sm_pmf := Some (case sm_pmf m of None \<Rightarrow> (False, False) | Some p \<Rightarrow> p),
     sm_failure_retry := take_bit 8 (sm_failure_retry m),
     sm_h2e_id := [] \<rparr>"

lemma narrow_back:
  "ucast (ucast v :: u8) = take_bit 8 v" "ucast (ucast v :: u16) = take_bit 16 v" for v :: u32
  by (rule bit_word_eqI; auto simp: bit_simps)+

lemma narrow_signed_back: "scast (ucast v :: 8 word) = signed_take_bit 7 v" for v :: u32
  by (rule bit_word_eqI) (auto simp: bit_simps min_def)

lemma sta_roundtrip:
  "copy_wifi_sta_cfg_to_rpc_struct (\<lambda>_. True) (sta_from_msg m) = (ESP_OK, None, Some (sta_seen m))"
proof -
  have bits: "sta_bits_1 (sta_from_msg m) 0 = sm_bitmask m" "sta_bits_2 (sta_from_msg m) 0 = sm_he_bitmask m"
    by (rule sta_bits_1_roundtrip sta_bits_2_roundtrip)+
  have strs: "rpc_resp_copy_str True (c_str (sc_ssid (sta_from_msg m))) 32 = Some (seen_str 32 (sm_ssid m))"
    "rpc_resp_copy_str True (c_str (sc_password (sta_from_msg m))) 64 = Some (seen_str 64 (sm_password m))"
    "rpc_resp_copy_bytes True (sc_bssid (sta_from_msg m)) 6 = Some (sm_bssid (sta_seen m))"
    by (simp_all add: sta_from_msg_def Let_def SSID_LENGTH_def PASSWORD_LENGTH_def BSSID_BYTES_SIZE_def
        copy_str_back copy_bytes_back resp_zeros sta_seen_def)
  show ?thesis
    unfolding copy_wifi_sta_cfg_to_rpc_struct_def SSID_LENGTH_def PASSWORD_LENGTH_def BSSID_BYTES_SIZE_def strs
    by (simp add: sta_to_msg_def no_sta_msg_def bits sta_seen_def)
      (simp add: sta_from_msg_def Let_def narrow_back narrow_signed_back split: option.split)
qed

text \<open>An access point's configuration as it is read back.\<close>

definition ap_seen :: "ap_msg \<Rightarrow> ap_msg" where
  "ap_seen m = m\<lparr>
     am_ssid := (if take_bit 8 (am_ssid_len m) = 0 then [] else seen_str 32 (am_ssid m)),
     am_password := seen_str 64 (am_password m),
     am_ssid_len := take_bit 8 (am_ssid_len m), am_channel := take_bit 8 (am_channel m),
     am_ssid_hidden := take_bit 8 (am_ssid_hidden m), am_max_connection := take_bit 8 (am_max_connection m),
     am_beacon_interval := take_bit 16 (am_beacon_interval m), am_csa_count := take_bit 8 (am_csa_count m),
     am_dtim_period := take_bit 8 (am_dtim_period m),
     am_pmf := Some (case am_pmf m of None \<Rightarrow> (False, False) | Some p \<Rightarrow> p),
     am_transition_disable := am_transition_disable m AND 1, am_sae_ext := am_sae_ext m AND 1,
     am_idle := Some (case am_idle m of None \<Rightarrow> (0, False) | Some p \<Rightarrow> (take_bit 16 (fst p), snd p)),
     am_gtk_rekey := take_bit 16 (am_gtk_rekey m)\<rparr>"

lemma narrow_zero: "(ucast v :: u8) = 0 \<longleftrightarrow> take_bit 8 v = 0" for v :: u32
  by (simp add: word_unat_eq_iff unsigned_ucast_eq unsigned_take_bit_eq)

lemma ap_roundtrip: "ap_to_msg (\<lambda>_. True) (ap_from_msg m) = (SUCCESS, Some (ap_seen m))"
proof -
  have pw: "rpc_resp_copy_str True (c_str (ac_password (ap_from_msg m))) 64 = Some (seen_str 64 (am_password m))"
    and ssid: "rpc_resp_copy_str True (c_str (ac_ssid (ap_from_msg m))) 32 = Some (seen_str 32 (am_ssid m))"
    by (simp_all add: ap_from_msg_def SSID_LENGTH_def PASSWORD_LENGTH_def copy_str_back)
  have len: "ac_ssid_len (ap_from_msg m) = ucast (am_ssid_len m)" by (simp add: ap_from_msg_def)
  show ?thesis
    unfolding ap_to_msg_def SSID_LENGTH_def PASSWORD_LENGTH_def pw ssid len
    by (cases m) (simp add: no_ap_msg_def ap_seen_def narrow_zero,
      simp add: ap_from_msg_def narrow_back and_one_eq mod_2_eq_odd split: option.split)
qed

subsection \<open>Properties\<close>

text \<open>C5: a station configuration that the host sets while the station is not connecting reaches the driver,
  and reading it back gives the message again: every bit of both bit masks, and every field up to the
  width the driver has for it. Strings end at their first zero, an address that was not to be
  used is zero, and the SAE identifier is never sent back.
\<close>

theorem station_config_read_back:
  fixes s :: "sta_cfg wifi_mgr"
  assumes "\<not> wm_connecting s"
  shows "\<exists>(s1 :: sta_cfg wifi_mgr) c.
    req_wifi_set_config True ESP_OK r_ap (Some (0, Some (Msg_sta m))) s = Some ((ESP_OK, Some SUCCESS), s1, None) \<and>
    wm_log s1 = wm_log s @ [Set_config c ESP_OK] \<and>
    req_wifi_get_config True (\<lambda>_. True) True (ESP_OK, c) ap (Some 0) =
      (ESP_OK, Some \<lparr> gc_resp = SUCCESS, gc_iface = 0, gc_cfg = Some (Msg_sta (sta_seen m)) \<rparr>)"
proof (intro exI conjI)
  show "req_wifi_set_config True ESP_OK r_ap (Some (0, Some (Msg_sta m))) s =
    Some ((ESP_OK, Some SUCCESS), (acts [Set_config (sta_from_msg m) ESP_OK] s)\<lparr>wm_recvd := False\<rparr>, None)"
    using assms by (simp add: req_wifi_set_config_def esp_hosted_set_sta_config_def msg_sta_def Let_def
        rpc_ret_fail_if_def ESP_OK_def)
  show "wm_log ((acts [Set_config (sta_from_msg m) ESP_OK] s)\<lparr>wm_recvd := False\<rparr>) =
    wm_log s @ [Set_config (sta_from_msg m) ESP_OK]" by simp
  show "req_wifi_get_config True (\<lambda>_. True) True (ESP_OK, sta_from_msg m) ap (Some 0) =
      (ESP_OK, Some \<lparr> gc_resp = SUCCESS, gc_iface = 0, gc_cfg = Some (Msg_sta (sta_seen m)) \<rparr>)"
    by (simp add: req_wifi_get_config_def sta_roundtrip rpc_ret_fail_if_def ESP_OK_def)
qed

definition demo_sta :: "sta_cfg wifi_mgr" where
  "demo_sta = \<lparr> wm_new_config = sta_from_msg no_sta_msg, wm_recvd = False, wm_suppress = False, wm_retries = 0,
     wm_connecting = False, wm_connected = False, wm_softap = False, wm_lkg = [], wm_rx_sta = False,
     wm_rx_ap = False, wm_log = [] \<rparr>"

theorem station_config_read_back_witness:
  "\<exists>(s1 :: sta_cfg wifi_mgr) c.
    req_wifi_set_config True ESP_OK ESP_OK (Some (0, Some (Msg_sta (no_sta_msg\<lparr>sm_ssid := [97, 98], sm_bitmask := 0x81\<rparr>))))
      demo_sta = Some ((ESP_OK, Some SUCCESS), s1, None) \<and>
    wm_log s1 = [Set_config c ESP_OK] \<and>
    req_wifi_get_config True (\<lambda>_. True) True (ESP_OK, c) (ESP_FAIL, ap_from_msg no_ap_msg) (Some 0) =
      (ESP_OK, Some \<lparr> gc_resp = SUCCESS, gc_iface = 0,
         gc_cfg = Some (Msg_sta (sta_seen (no_sta_msg\<lparr>sm_ssid := [97, 98], sm_bitmask := 0x81\<rparr>))) \<rparr>)"
proof -
  have "\<not> wm_connecting demo_sta" "wm_log demo_sta = []" by (simp_all add: demo_sta_def)
  with station_config_read_back [OF this(1), where r_ap = ESP_OK and ap = "(ESP_FAIL, ap_from_msg no_ap_msg)" and
      m = "no_sta_msg\<lparr>sm_ssid := [97, 98], sm_bitmask := 0x81\<rparr>"]
  show ?thesis by simp
qed

text \<open>an access point configuration reaches the driver and is read back, every field up to the driver's
  width, the password up to its first zero, except for the name: it is sent back only when the length
  field is not zero, although a zero length means a name that ends with its zero byte.
\<close>

theorem softap_config_read_back:
  "\<exists>c. req_wifi_set_config True r_sta ESP_OK (Some (1, Some (Msg_ap m))) s = Some ((ESP_OK, Some SUCCESS), s, Some c) \<and>
    req_wifi_get_config True (\<lambda>_. True) True sta (ESP_OK, c) (Some 1) =
      (ESP_OK, Some \<lparr> gc_resp = SUCCESS, gc_iface = 1, gc_cfg = Some (Msg_ap (ap_seen m)) \<rparr>)"
  by (rule exI [of _ "ap_from_msg m"])
    (simp add: req_wifi_set_config_def msg_ap_def req_wifi_get_config_def ap_roundtrip rpc_ret_fail_if_def ESP_OK_def)

text \<open>
  a station configuration received by DPP whose password cannot be copied for lack of memory is sent to
  the host as a success with an empty password, because the event's handler overwrites the status the copy
  left; the request that reads the configuration reports the failure.
\<close>

theorem dpp_event_hides_failure:
  assumes "mem 0" "mem 1" "\<not> mem 2"
  shows "(\<exists>ssid. rpc_evt_dpp_cfg_recvd True True mem c =
      (ESP_OK, Some SUCCESS, Some (Msg_sta (no_sta_msg\<lparr>sm_ssid := ssid\<rparr>)))) \<and>
    (\<exists>r. req_wifi_get_config True mem True (ESP_OK, c) ap (Some 0) = (ESP_OK, Some r) \<and> gc_resp r = FAILURE)"
  using assms by (simp add: rpc_evt_dpp_cfg_recvd_def req_wifi_get_config_def copy_wifi_sta_cfg_to_rpc_struct_def
      rpc_resp_copy_str_def rpc_ret_fail_if_def ESP_OK_def Let_def) blast

theorem dpp_event_hides_failure_witness:
  "\<exists>ssid. rpc_evt_dpp_cfg_recvd True True (\<lambda>n. n < 2) (sta_from_msg no_sta_msg) =
     (ESP_OK, Some SUCCESS, Some (Msg_sta (no_sta_msg\<lparr>sm_ssid := ssid\<rparr>)))"
  using dpp_event_hides_failure [of "\<lambda>n. n < 2" "sta_from_msg no_sta_msg" "(ESP_FAIL, ap_from_msg no_ap_msg)"]
  by simp

end
