(* ===== verification/Wifi_Requests.thy ===== *)
theory Wifi_Requests
  imports Wifi_Config
begin

section \<open>Wi-Fi requests that call the driver (slave_wifi_std.c)\<close>

text \<open>
  The requests that pass a value to one function of the Wi-Fi driver or return what one function
  gives. A driver call is an entry of a log, with its arguments at the width the driver takes; its error and
  outputs are given by \<open>wifi_drv\<close>. The scalar fields of a message are 32 bits wide.
\<close>

subsection \<open>The driver\<close>

record country =
  co_cc :: "byte list"
  co_schan :: u8
  co_nchan :: u8
  co_max_tx_power :: "8 word"
  co_policy :: u32

record scan_cfg =
  sf_ssid :: "byte list option"
  sf_bssid :: "byte list option"
  sf_channel :: u8
  sf_show_hidden :: bool
  sf_scan_type :: u32
  sf_passive :: u32
  sf_active_min :: u32
  sf_active_max :: u32
  sf_dwell :: u8
  sf_bitmap :: "u16 \<times> u32"

record itwt_cfg =
  it_setup_cmd :: u32
  it_trigger :: bool
  it_flow_type :: bool
  it_flow_id :: "3 word"
  it_wake_invl_expn :: "5 word"
  it_wake_duration_unit :: bool
  it_reserved :: "5 word"
  it_min_wake_dura :: u8
  it_wake_invl_mant :: u16
  it_twt_id :: u16
  it_timeout_ms :: u16

text \<open>Calls on bands, individual target wake times and DPP.\<close>

datatype band_call =
    W_set_protocols u32 u16 u16
  | W_get_protocols u32
  | W_set_bandwidths u32 u32 u32
  | W_get_bandwidths u32
  | W_set_band u32
  | W_get_band
  | W_set_band_mode u32
  | W_get_band_mode

datatype twt_call =
    W_twt_config bool bool
  | W_itwt_setup itwt_cfg
  | W_itwt_teardown u32
  | W_itwt_suspend u32 u32
  | W_itwt_flow_id_status
  | W_itwt_probe u32
  | W_itwt_offset u32

datatype dpp_call =
    W_dpp_init bool
  | W_dpp_deinit
  | W_dpp_bootstrap "byte list option" u32 "byte list option" "byte list option"
  | W_dpp_start_listen
  | W_dpp_stop_listen

datatype wifi_call =
    W_get_mac u32 | W_get_mode | W_set_mode u32 | W_set_mac u32 "byte list" | W_set_ps u32 | W_get_ps
  | W_set_max_tx_power "8 word" | W_get_max_tx_power | W_stop | W_disconnect
  | W_scan_start "scan_cfg option" bool | W_scan_stop | W_scan_get_ap_num | W_scan_get_ap_record
  | W_scan_get_ap_records u16 | W_set_scan_parameters "(u32 \<times> u32 \<times> u32 \<times> u8) option"
  | W_get_scan_parameters | W_clear_ap_list | W_restore | W_clear_fast_connect | W_sta_get_ap_info
  | W_deauth_sta u16 | W_set_storage u32 | W_set_protocol u32 u8 | W_get_protocol u32
  | W_set_bandwidth u32 u32 | W_get_bandwidth u32 | W_set_channel u8 u32 | W_get_channel
  | W_set_country_code "byte list" bool | W_get_country_code | W_set_country country | W_get_country
  | W_ap_get_sta_list | W_ap_get_sta_aid "byte list" | W_sta_get_rssi | W_sta_get_aid | W_sta_get_phymode
  | W_set_inactive_time u32 u16 | W_get_inactive_time u32
  | Band_call band_call | Twt_call twt_call | Dpp_call dpp_call

text \<open>\<open>wd_num\<close> and \<open>wd_num2\<close> are the scalars a call writes, \<open>wd_bytes\<close> an address or string.\<close>

record wifi_drv =
  wd_err :: "wifi_call \<Rightarrow> esp_err"
  wd_num :: "wifi_call \<Rightarrow> u32"
  wd_num2 :: "wifi_call \<Rightarrow> u32"
  wd_bytes :: "wifi_call \<Rightarrow> byte list"
  wd_country :: country

type_synonym 'r wifi_out = "'r answered \<times> wifi_call list"

subsection \<open>Shapes of handlers\<close>

text \<open>
  A handler that makes one call and answers with its error, and one that answers with a value besides. A value
  that is not written is zero.
\<close>

definition call_status :: "wifi_drv \<Rightarrow> wifi_call \<Rightarrow> int wifi_out" where
  "call_status d c = rpc_ret_fail_if (\<lambda>a. (a, [c])) (\<lambda>e. e) (wd_err d c) ((ESP_OK, Some SUCCESS), [c])"

definition call_value :: "wifi_drv \<Rightarrow> wifi_call \<Rightarrow> 'v \<Rightarrow> 'v \<Rightarrow> (int \<times> 'v) wifi_out" where
  "call_value d c zero v =
     rpc_ret_fail_if (\<lambda>a. (a, [c])) (\<lambda>e. (e, zero)) (wd_err d c) ((ESP_OK, Some (SUCCESS, v)), [c])"

definition set_req :: "wifi_drv \<Rightarrow> bool \<Rightarrow> ('q \<Rightarrow> wifi_call) \<Rightarrow> 'q option \<Rightarrow> int wifi_out" where
  "set_req d alloc f req = rpc_template (\<lambda>a. (a, [])) alloc req (\<lambda>q. call_status d (f q))"

definition do_req :: "wifi_drv \<Rightarrow> bool \<Rightarrow> wifi_call \<Rightarrow> int wifi_out" where
  "do_req d alloc c = rpc_template_simple (\<lambda>a. (a, [])) alloc (call_status d c)"

definition get_req :: "wifi_drv \<Rightarrow> bool \<Rightarrow> wifi_call \<Rightarrow> 'v \<Rightarrow> 'v \<Rightarrow> (int \<times> 'v) wifi_out" where
  "get_req d alloc c zero v = rpc_template_simple (\<lambda>a. (a, [])) alloc (call_value d c zero v)"

definition ask_req ::
  "wifi_drv \<Rightarrow> bool \<Rightarrow> ('q \<Rightarrow> wifi_call) \<Rightarrow> 'v \<Rightarrow> ('q \<Rightarrow> 'v) \<Rightarrow> 'q option \<Rightarrow> (int \<times> 'v) wifi_out" where
  "ask_req d alloc f zero v req = rpc_template (\<lambda>a. (a, [])) alloc req (\<lambda>q. call_value d (f q) zero (v q))"

subsection \<open>Mode, address, power\<close>

text \<open>The payload is read without the check that the other handlers make: \<open>None\<close> is a null pointer read.\<close>

definition req_wifi_get_mac ::
  "wifi_drv \<Rightarrow> bool \<Rightarrow> bool \<Rightarrow> u32 option \<Rightarrow> (int \<times> byte list) wifi_out option" where
  "req_wifi_get_mac d alloc copy_ok req =
     rpc_template_simple (\<lambda>a. Some (a, [])) alloc
       (case req of
          None \<Rightarrow> None
        | Some mode \<Rightarrow>
           (let c = W_get_mac mode in
            rpc_ret_fail_if (\<lambda>a. Some (a, [c])) (\<lambda>e. (e, [])) (wd_err d c)
              (case rpc_resp_copy_bytes copy_ok (wd_bytes d c) BSSID_BYTES_SIZE of
                 None \<Rightarrow> Some ((ESP_OK, Some (FAILURE, [])), [c])
               | Some b \<Rightarrow> Some ((ESP_OK, Some (SUCCESS, b)), [c]))))"

definition req_wifi_get_mode :: "wifi_drv \<Rightarrow> bool \<Rightarrow> (int \<times> u32) wifi_out" where
  "req_wifi_get_mode d alloc = get_req d alloc W_get_mode 0 (wd_num d W_get_mode)"

definition req_wifi_set_mode :: "wifi_drv \<Rightarrow> bool \<Rightarrow> u32 option \<Rightarrow> int wifi_out" where
  "req_wifi_set_mode d alloc = set_req d alloc W_set_mode"

definition req_wifi_set_mac :: "wifi_drv \<Rightarrow> bool \<Rightarrow> (u32 \<times> byte list) option \<Rightarrow> int wifi_out" where
  "req_wifi_set_mac d alloc req =
     rpc_template (\<lambda>a. (a, [])) alloc req (\<lambda>(mode, mac).
       if length mac \<noteq> BSSID_BYTES_SIZE then ((ESP_OK, Some ESP_ERR_INVALID_ARG), [])
       else call_status d (W_set_mac mode mac))"

definition req_wifi_set_ps :: "wifi_drv \<Rightarrow> bool \<Rightarrow> u32 option \<Rightarrow> int wifi_out" where
  "req_wifi_set_ps d alloc = set_req d alloc W_set_ps"

definition req_wifi_get_ps :: "wifi_drv \<Rightarrow> bool \<Rightarrow> (int \<times> u32) wifi_out" where
  "req_wifi_get_ps d alloc = get_req d alloc W_get_ps 0 (wd_num d W_get_ps)"

definition req_wifi_set_max_tx_power :: "wifi_drv \<Rightarrow> bool \<Rightarrow> u32 option \<Rightarrow> int wifi_out" where
  "req_wifi_set_max_tx_power d alloc = set_req d alloc (\<lambda>p. W_set_max_tx_power (ucast p))"

definition req_wifi_get_max_tx_power :: "wifi_drv \<Rightarrow> bool \<Rightarrow> (int \<times> u32) wifi_out" where
  "req_wifi_get_max_tx_power d alloc =
     get_req d alloc W_get_max_tx_power 0 (scast (ucast (wd_num d W_get_max_tx_power) :: 8 word))"

definition req_wifi_stop :: "wifi_drv \<Rightarrow> bool \<Rightarrow> int wifi_out" where
  "req_wifi_stop d alloc = do_req d alloc W_stop"

definition req_wifi_disconnect :: "wifi_drv \<Rightarrow> bool \<Rightarrow> int wifi_out" where
  "req_wifi_disconnect d alloc = do_req d alloc W_disconnect"

subsection \<open>Settings of an interface\<close>

definition req_wifi_set_protocol :: "wifi_drv \<Rightarrow> bool \<Rightarrow> (u32 \<times> u32) option \<Rightarrow> int wifi_out" where
  "req_wifi_set_protocol d alloc = set_req d alloc (\<lambda>(ifx, bm). W_set_protocol ifx (ucast bm))"

text \<open>The driver writes one or two bytes into a zeroed word.\<close>

definition req_wifi_get_protocol :: "wifi_drv \<Rightarrow> bool \<Rightarrow> u32 option \<Rightarrow> (int \<times> u32) wifi_out" where
  "req_wifi_get_protocol d alloc =
     ask_req d alloc W_get_protocol 0 (\<lambda>ifx. ucast (ucast (wd_num d (W_get_protocol ifx)) :: u16))"

definition req_wifi_set_bandwidth :: "wifi_drv \<Rightarrow> bool \<Rightarrow> (u32 \<times> u32) option \<Rightarrow> int wifi_out" where
  "req_wifi_set_bandwidth d alloc = set_req d alloc (\<lambda>(ifx, bw). W_set_bandwidth ifx bw)"

definition req_wifi_get_bandwidth :: "wifi_drv \<Rightarrow> bool \<Rightarrow> u32 option \<Rightarrow> (int \<times> u32) wifi_out" where
  "req_wifi_get_bandwidth d alloc = ask_req d alloc W_get_bandwidth 0 (\<lambda>ifx. wd_num d (W_get_bandwidth ifx))"

definition req_wifi_set_channel :: "wifi_drv \<Rightarrow> bool \<Rightarrow> (u32 \<times> u32) option \<Rightarrow> int wifi_out" where
  "req_wifi_set_channel d alloc = set_req d alloc (\<lambda>(p, s). W_set_channel (ucast p) s)"

definition req_wifi_get_channel :: "wifi_drv \<Rightarrow> bool \<Rightarrow> (int \<times> u32 \<times> u32) wifi_out" where
  "req_wifi_get_channel d alloc =
     get_req d alloc W_get_channel (0, 0)
       (ucast (ucast (wd_num d W_get_channel) :: u8), wd_num2 d W_get_channel)"

definition req_wifi_set_storage :: "wifi_drv \<Rightarrow> bool \<Rightarrow> u32 option \<Rightarrow> int wifi_out" where
  "req_wifi_set_storage d alloc = set_req d alloc W_set_storage"

definition req_wifi_set_inactive_time :: "wifi_drv \<Rightarrow> bool \<Rightarrow> (u32 \<times> u32) option \<Rightarrow> int wifi_out" where
  "req_wifi_set_inactive_time d alloc = set_req d alloc (\<lambda>(ifx, sec). W_set_inactive_time ifx (ucast sec))"

definition req_wifi_get_inactive_time :: "wifi_drv \<Rightarrow> bool \<Rightarrow> u32 option \<Rightarrow> (int \<times> u32) wifi_out" where
  "req_wifi_get_inactive_time d alloc =
     ask_req d alloc W_get_inactive_time 0
       (\<lambda>ifx. ucast (ucast (wd_num d (W_get_inactive_time ifx)) :: u16))"

text \<open>The bands (ESP-IDF 5.4 and later); the answer repeats the interface.\<close>

definition echo_if :: "wifi_drv \<Rightarrow> wifi_call \<Rightarrow> u32 \<Rightarrow> (int \<times> u32) wifi_out" where
  "echo_if d c ifx =
     rpc_ret_fail_if (\<lambda>a. (a, [c])) (\<lambda>e. (e, ifx)) (wd_err d c) ((ESP_OK, Some (SUCCESS, ifx)), [c])"

definition req_wifi_set_protocols ::
  "wifi_drv \<Rightarrow> bool \<Rightarrow> (u32 \<times> (u32 \<times> u32) option) option \<Rightarrow> (int \<times> u32) wifi_out" where
  "req_wifi_set_protocols d alloc req =
     rpc_template (\<lambda>a. (a, [])) alloc req (\<lambda>(ifx, p). case p of
         None \<Rightarrow> ((ESP_OK, Some (1, 0)), [])
       | Some (g2, g5) \<Rightarrow> echo_if d (Band_call (W_set_protocols ifx (ucast g2) (ucast g5))) ifx)"

definition req_wifi_set_bandwidths ::
  "wifi_drv \<Rightarrow> bool \<Rightarrow> (u32 \<times> (u32 \<times> u32) option) option \<Rightarrow> (int \<times> u32) wifi_out" where
  "req_wifi_set_bandwidths d alloc req =
     rpc_template (\<lambda>a. (a, [])) alloc req (\<lambda>(ifx, p). case p of
         None \<Rightarrow> ((ESP_OK, Some (1, 0)), [])
       | Some (g2, g5) \<Rightarrow> echo_if d (Band_call (W_set_bandwidths ifx g2 g5)) ifx)"

text \<open>The two questions allocate a part of the answer: interface, and the values of the two bands.\<close>

definition ask_bands ::
  "wifi_drv \<Rightarrow> bool \<Rightarrow> bool \<Rightarrow> (u32 \<Rightarrow> band_call) \<Rightarrow> (u32 \<Rightarrow> u32) \<Rightarrow> u32 option \<Rightarrow>
    (int \<times> u32 \<times> (u32 \<times> u32) option) wifi_out" where
  "ask_bands d alloc part f w req =
     rpc_template (\<lambda>a. (a, [])) alloc req (\<lambda>ifx.
       let c = Band_call (f ifx) in
       rpc_ret_fail_if (\<lambda>a. (a, [c])) (\<lambda>e. (e, ifx, None)) (wd_err d c)
         (if \<not> part then ((ESP_OK, Some (RPC_ERR_MEMORY_FAILURE, ifx, None)), [c])
          else ((ESP_OK, Some (SUCCESS, ifx, Some (w (wd_num d c), w (wd_num2 d c)))), [c])))"

definition req_wifi_get_protocols ::
  "wifi_drv \<Rightarrow> bool \<Rightarrow> bool \<Rightarrow> u32 option \<Rightarrow> (int \<times> u32 \<times> (u32 \<times> u32) option) wifi_out" where
  "req_wifi_get_protocols d alloc part = ask_bands d alloc part W_get_protocols (\<lambda>v. ucast (ucast v :: u16))"

definition req_wifi_get_bandwidths ::
  "wifi_drv \<Rightarrow> bool \<Rightarrow> bool \<Rightarrow> u32 option \<Rightarrow> (int \<times> u32 \<times> (u32 \<times> u32) option) wifi_out" where
  "req_wifi_get_bandwidths d alloc part = ask_bands d alloc part W_get_bandwidths (\<lambda>v. v)"

definition req_wifi_set_band :: "wifi_drv \<Rightarrow> bool \<Rightarrow> u32 option \<Rightarrow> int wifi_out" where
  "req_wifi_set_band d alloc = set_req d alloc (\<lambda>b. Band_call (W_set_band b))"

definition req_wifi_get_band :: "wifi_drv \<Rightarrow> bool \<Rightarrow> (int \<times> u32) wifi_out" where
  "req_wifi_get_band d alloc = get_req d alloc (Band_call W_get_band) 0 (wd_num d (Band_call W_get_band))"

definition req_wifi_set_band_mode :: "wifi_drv \<Rightarrow> bool \<Rightarrow> u32 option \<Rightarrow> int wifi_out" where
  "req_wifi_set_band_mode d alloc = set_req d alloc (\<lambda>b. Band_call (W_set_band_mode b))"

definition req_wifi_get_band_mode :: "wifi_drv \<Rightarrow> bool \<Rightarrow> (int \<times> u32) wifi_out" where
  "req_wifi_get_band_mode d alloc =
     get_req d alloc (Band_call W_get_band_mode) 0 (wd_num d (Band_call W_get_band_mode))"

subsection \<open>Station, stations and country\<close>

definition req_wifi_clear_ap_list :: "wifi_drv \<Rightarrow> bool \<Rightarrow> int wifi_out" where
  "req_wifi_clear_ap_list d alloc = do_req d alloc W_clear_ap_list"

definition req_wifi_restore :: "wifi_drv \<Rightarrow> bool \<Rightarrow> int wifi_out" where
  "req_wifi_restore d alloc = do_req d alloc W_restore"

definition req_wifi_clear_fast_connect :: "wifi_drv \<Rightarrow> bool \<Rightarrow> int wifi_out" where
  "req_wifi_clear_fast_connect d alloc = do_req d alloc W_clear_fast_connect"

definition req_wifi_deauth_sta :: "wifi_drv \<Rightarrow> bool \<Rightarrow> u32 option \<Rightarrow> int wifi_out" where
  "req_wifi_deauth_sta d alloc = set_req d alloc (\<lambda>aid. W_deauth_sta (ucast aid))"

text \<open>\<open>stale\<close> is what the uninitialised array of six bytes holds.\<close>

definition req_wifi_ap_get_sta_aid ::
  "wifi_drv \<Rightarrow> bool \<Rightarrow> byte list \<Rightarrow> byte list option \<Rightarrow> (int \<times> u32) wifi_out" where
  "req_wifi_ap_get_sta_aid d alloc stale =
     ask_req d alloc (\<lambda>m. W_ap_get_sta_aid (rpc_req_copy_bytes stale m 6)) 0
       (\<lambda>m. ucast (ucast (wd_num d (W_ap_get_sta_aid (rpc_req_copy_bytes stale m 6))) :: u16))"

definition req_wifi_sta_get_rssi :: "wifi_drv \<Rightarrow> bool \<Rightarrow> (int \<times> u32) wifi_out" where
  "req_wifi_sta_get_rssi d alloc = get_req d alloc W_sta_get_rssi 0 (wd_num d W_sta_get_rssi)"

definition req_wifi_sta_get_aid :: "wifi_drv \<Rightarrow> bool \<Rightarrow> (int \<times> u32) wifi_out" where
  "req_wifi_sta_get_aid d alloc = get_req d alloc W_sta_get_aid 0 (ucast (ucast (wd_num d W_sta_get_aid) :: u16))"

definition req_wifi_sta_get_negotiated_phymode :: "wifi_drv \<Rightarrow> bool \<Rightarrow> (int \<times> u32) wifi_out" where
  "req_wifi_sta_get_negotiated_phymode d alloc = get_req d alloc W_sta_get_phymode 0 (wd_num d W_sta_get_phymode)"

text \<open>The code is an array of three zeroed bytes, of which two are filled.\<close>

definition req_wifi_set_country_code :: "wifi_drv \<Rightarrow> bool \<Rightarrow> (byte list \<times> bool) option \<Rightarrow> int wifi_out" where
  "req_wifi_set_country_code d alloc req =
     rpc_template (\<lambda>a. (a, [])) alloc req (\<lambda>(cc, ieee80211d).
       if cc = [] then ((ESP_OK, Some 1), [])
       else call_status d (W_set_country_code (rpc_req_copy_bytes (zeros 3) cc 2) ieee80211d))"

definition req_wifi_get_country_code :: "wifi_drv \<Rightarrow> bool \<Rightarrow> bool \<Rightarrow> (int \<times> byte list) wifi_out" where
  "req_wifi_get_country_code d alloc copy_ok =
     (let c = W_get_country_code in
      rpc_template_simple (\<lambda>a. (a, [])) alloc
       (rpc_ret_fail_if (\<lambda>a. (a, [c])) (\<lambda>e. (e, [])) (wd_err d c)
         (case rpc_resp_copy_str copy_ok (c_str (rpc_req_copy_bytes (zeros 3) (wd_bytes d c) 3)) 3 of
            None \<Rightarrow> ((ESP_OK, Some (FAILURE, [])), [c])
          | Some b \<Rightarrow> ((ESP_OK, Some (SUCCESS, b)), [c]))))"

record country_msg =
  cm_cc :: "byte list"
  cm_schan :: u32
  cm_nchan :: u32
  cm_max_tx_power :: u32
  cm_policy :: u32

definition country_from_msg :: "country_msg \<Rightarrow> country" where
  "country_from_msg m = \<lparr> co_cc = rpc_req_copy_bytes (zeros 3) (cm_cc m) 3, co_schan = ucast (cm_schan m),
     co_nchan = ucast (cm_nchan m), co_max_tx_power = ucast (cm_max_tx_power m), co_policy = cm_policy m \<rparr>"

definition country_to_msg :: "country \<Rightarrow> country_msg" where
  "country_to_msg c = \<lparr> cm_cc = co_cc c, cm_schan = ucast (co_schan c), cm_nchan = ucast (co_nchan c),
     cm_max_tx_power = scast (co_max_tx_power c), cm_policy = co_policy c \<rparr>"

definition no_country_msg :: country_msg where
  "no_country_msg = \<lparr> cm_cc = [], cm_schan = 0, cm_nchan = 0, cm_max_tx_power = 0, cm_policy = 0 \<rparr>"

definition req_wifi_set_country :: "wifi_drv \<Rightarrow> bool \<Rightarrow> country_msg option option \<Rightarrow> int wifi_out" where
  "req_wifi_set_country d alloc req =
     rpc_template (\<lambda>a. (a, [])) alloc req (\<lambda>m. case m of
         None \<Rightarrow> ((ESP_OK, Some 1), [])
       | Some q \<Rightarrow> call_status d (W_set_country (country_from_msg q)))"

definition req_wifi_get_country :: "wifi_drv \<Rightarrow> bool \<Rightarrow> bool \<Rightarrow> bool \<Rightarrow> (int \<times> country_msg option) wifi_out" where
  "req_wifi_get_country d alloc part copy_ok =
     (let c = W_get_country in
      rpc_template_simple (\<lambda>a. (a, [])) alloc
       (rpc_ret_fail_if (\<lambda>a. (a, [c])) (\<lambda>e. (e, None)) (wd_err d c)
         (if \<not> part then ((ESP_OK, Some (RPC_ERR_MEMORY_FAILURE, None)), [c])
          else case rpc_resp_copy_bytes copy_ok (co_cc (wd_country d)) 3 of
              None \<Rightarrow> ((ESP_OK, Some (FAILURE, Some no_country_msg)), [c])
            | Some b \<Rightarrow> ((ESP_OK, Some (SUCCESS, Some ((country_to_msg (wd_country d))\<lparr>cm_cc := b\<rparr>))), [c]))))"

subsection \<open>Target wake times\<close>

text \<open>The configuration's pointer is not checked: \<open>None\<close> is a null pointer read.\<close>

definition req_wifi_sta_twt_config ::
  "wifi_drv \<Rightarrow> bool \<Rightarrow> (bool \<times> bool) option option \<Rightarrow> int wifi_out option" where
  "req_wifi_sta_twt_config d alloc req =
     rpc_template (\<lambda>a. Some (a, [])) alloc req (\<lambda>cfg.
       map_option (\<lambda>(ev, alive). call_status d (Twt_call (W_twt_config ev alive))) cfg)"

record itwt_msg =
  im_setup_cmd :: u32
  im_bitmask_1 :: u32
  im_min_wake_dura :: u32
  im_wake_invl_mant :: u32
  im_twt_id :: u32
  im_timeout_ms :: u32

definition itwt_from_msg :: "itwt_msg \<Rightarrow> itwt_cfg" where
  "itwt_from_msg m =
     (let b = im_bitmask_1 m in
      \<lparr> it_setup_cmd = im_setup_cmd m, it_trigger = H_GET_BIT 0 b, it_flow_type = H_GET_BIT 1 b,
        it_flow_id = ucast (drop_bit 2 b AND 7), it_wake_invl_expn = ucast (drop_bit 5 b AND 0x1F),
        it_wake_duration_unit = H_GET_BIT 10 b, it_reserved = ucast (drop_bit 11 (b AND 0xFFFFF800)),
        it_min_wake_dura = ucast (im_min_wake_dura m), it_wake_invl_mant = ucast (im_wake_invl_mant m),
        it_twt_id = ucast (im_twt_id m), it_timeout_ms = ucast (im_timeout_ms m) \<rparr>)"

definition req_wifi_sta_itwt_setup :: "wifi_drv \<Rightarrow> bool \<Rightarrow> itwt_msg option option \<Rightarrow> int wifi_out option" where
  "req_wifi_sta_itwt_setup d alloc req =
     rpc_template (\<lambda>a. Some (a, [])) alloc req (\<lambda>cfg.
       map_option (\<lambda>m. call_status d (Twt_call (W_itwt_setup (itwt_from_msg m)))) cfg)"

definition req_wifi_sta_itwt_teardown :: "wifi_drv \<Rightarrow> bool \<Rightarrow> u32 option \<Rightarrow> int wifi_out" where
  "req_wifi_sta_itwt_teardown d alloc = set_req d alloc (\<lambda>i. Twt_call (W_itwt_teardown i))"

definition req_wifi_sta_itwt_suspend :: "wifi_drv \<Rightarrow> bool \<Rightarrow> (u32 \<times> u32) option \<Rightarrow> int wifi_out" where
  "req_wifi_sta_itwt_suspend d alloc = set_req d alloc (\<lambda>(i, ms). Twt_call (W_itwt_suspend i ms))"

definition req_wifi_sta_itwt_get_flow_id_status :: "wifi_drv \<Rightarrow> bool \<Rightarrow> (int \<times> u32) wifi_out" where
  "req_wifi_sta_itwt_get_flow_id_status d alloc =
     get_req d alloc (Twt_call W_itwt_flow_id_status) 0 (wd_num d (Twt_call W_itwt_flow_id_status))"

definition req_wifi_sta_itwt_send_probe_req :: "wifi_drv \<Rightarrow> bool \<Rightarrow> u32 option \<Rightarrow> int wifi_out" where
  "req_wifi_sta_itwt_send_probe_req d alloc = set_req d alloc (\<lambda>ms. Twt_call (W_itwt_probe ms))"

definition req_wifi_sta_itwt_set_target_wake_time_offset :: "wifi_drv \<Rightarrow> bool \<Rightarrow> u32 option \<Rightarrow> int wifi_out" where
  "req_wifi_sta_itwt_set_target_wake_time_offset d alloc = set_req d alloc (\<lambda>us. Twt_call (W_itwt_offset us))"

subsection \<open>Device provisioning\<close>

text \<open>\<open>supp\<close> is \<open>H_SUPP_DPP_SUPPORT\<close>: without it there is no callback to initialise with.\<close>

definition req_supp_dpp_init :: "wifi_drv \<Rightarrow> bool \<Rightarrow> bool \<Rightarrow> bool option \<Rightarrow> int wifi_out" where
  "req_supp_dpp_init d supp alloc req =
     rpc_template (\<lambda>a. (a, [])) alloc req (\<lambda>cb.
       if cb \<and> \<not> supp then ((ESP_OK, Some ESP_ERR_INVALID_ARG), [])
       else call_status d (Dpp_call (W_dpp_init cb)))"

definition req_supp_dpp_deinit :: "wifi_drv \<Rightarrow> bool \<Rightarrow> int wifi_out" where
  "req_supp_dpp_deinit d alloc = do_req d alloc (Dpp_call W_dpp_deinit)"

text \<open>An empty byte string of a message is a null pointer.\<close>

definition bytes_ptr :: "byte list \<Rightarrow> byte list option" where
  "bytes_ptr b = (if b = [] then None else Some b)"

definition req_supp_dpp_bootstrap_gen ::
  "wifi_drv \<Rightarrow> bool \<Rightarrow> (byte list \<times> u32 \<times> byte list \<times> byte list) option \<Rightarrow> int wifi_out" where
  "req_supp_dpp_bootstrap_gen d alloc = set_req d alloc (\<lambda>(chan, type, key, info).
     Dpp_call (W_dpp_bootstrap (bytes_ptr chan) type (bytes_ptr key) (bytes_ptr info)))"

definition req_supp_dpp_start_listen :: "wifi_drv \<Rightarrow> bool \<Rightarrow> int wifi_out" where
  "req_supp_dpp_start_listen d alloc = do_req d alloc (Dpp_call W_dpp_start_listen)"

definition req_supp_dpp_stop_listen :: "wifi_drv \<Rightarrow> bool \<Rightarrow> int wifi_out" where
  "req_supp_dpp_stop_listen d alloc = do_req d alloc (Dpp_call W_dpp_stop_listen)"

subsection \<open>Lemmas\<close>

named_theorems wifi_req "outcomes of the handlers when their answer can be allocated"

lemma call_status_eq [wifi_req]: "call_status d c = ((ESP_OK, Some (wd_err d c)), [c])"
  by (simp add: call_status_def rpc_ret_fail_if_def SUCCESS_def)

lemma call_value_eq [wifi_req]:
  "call_value d c zero v = ((ESP_OK, Some (wd_err d c, if wd_err d c = 0 then v else zero)), [c])"
  by (simp add: call_value_def rpc_ret_fail_if_def SUCCESS_def)

lemma shapes_eq [wifi_req]:
  "set_req d True f (Some q) = ((ESP_OK, Some (wd_err d (f q))), [f q])"
  "do_req d True c = ((ESP_OK, Some (wd_err d c)), [c])"
  "get_req d True c zero v = ((ESP_OK, Some (wd_err d c, if wd_err d c = 0 then v else zero)), [c])"
  "ask_req d True f zero w (Some q) =
     ((ESP_OK, Some (wd_err d (f q), if wd_err d (f q) = 0 then w q else zero)), [f q])"
  by (simp_all add: set_req_def do_req_def get_req_def ask_req_def call_status_eq call_value_eq)

lemma echo_if_eq [wifi_req]: "echo_if d c i = ((ESP_OK, Some (wd_err d c, i)), [c])"
  by (simp add: echo_if_def rpc_ret_fail_if_def SUCCESS_def)

end
