(* ===== verification/Wifi_Scan.thy ===== *)
theory Wifi_Scan
  imports Wifi_Requests
begin

section \<open>Scans and lists of stations (slave_wifi_std.c)\<close>

text \<open>
  The requests that start a scan and return what it found, and the list of stations of the access
  point. The records of the driver carry one-bit fields, the messages a bit mask each. \<open>mem i k\<close> says
  whether the \<open>k\<close>-th allocation for the \<open>i\<close>-th record succeeds.
\<close>

subsection \<open>Scan requests\<close>

record scan_msg =
  sq_ssid :: "byte list"
  sq_bssid :: "byte list"
  sq_channel :: u32
  sq_show_hidden :: bool
  sq_scan_type :: u32
  sq_scan_time :: "(u32 \<times> (u32 \<times> u32) option) option"
  sq_dwell :: u32
  sq_bitmap :: "(u32 \<times> u32) option"

text \<open>The pointers to the scan times are not checked (\<open>None\<close>); the strings of the message are passed as they are.\<close>

definition scan_from_msg :: "scan_msg \<Rightarrow> scan_cfg option" where
  "scan_from_msg m =
     (case sq_scan_time m of
        Some (passive, Some (mn, mx)) \<Rightarrow> Some
          \<lparr> sf_ssid = bytes_ptr (sq_ssid m), sf_bssid = bytes_ptr (sq_bssid m), sf_channel = ucast (sq_channel m),
            sf_show_hidden = sq_show_hidden m, sf_scan_type = sq_scan_type m, sf_passive = passive,
            sf_active_min = mn, sf_active_max = mx, sf_dwell = ucast (sq_dwell m),
            sf_bitmap = (case sq_bitmap m of None \<Rightarrow> (0, 0) | Some (g2, g5) \<Rightarrow> (ucast g2, g5)) \<rparr>
      | _ \<Rightarrow> None)"

record scan_start_req =
  sr_config :: "scan_msg option"
  sr_block :: bool
  sr_config_set :: u32

definition req_wifi_scan_start :: "wifi_drv \<Rightarrow> bool \<Rightarrow> scan_start_req option \<Rightarrow> int wifi_out option" where
  "req_wifi_scan_start d alloc req =
     rpc_template (\<lambda>a. Some (a, [])) alloc req (\<lambda>q.
       if sr_config q = None \<or> sr_config_set q = 0 then Some (call_status d (W_scan_start None (sr_block q)))
       else (case scan_from_msg (the (sr_config q)) of
               None \<Rightarrow> None
             | Some c \<Rightarrow> Some (call_status d (W_scan_start (Some c) (sr_block q)))))"

definition req_wifi_scan_stop :: "wifi_drv \<Rightarrow> bool \<Rightarrow> int wifi_out" where
  "req_wifi_scan_stop d alloc = do_req d alloc W_scan_stop"

definition req_wifi_scan_get_ap_num :: "wifi_drv \<Rightarrow> bool \<Rightarrow> (int \<times> u32) wifi_out" where
  "req_wifi_scan_get_ap_num d alloc =
     get_req d alloc W_scan_get_ap_num 0 (ucast (ucast (wd_num d W_scan_get_ap_num) :: u16))"

text \<open>Parameters of later scans: passive time, bounds of the active time, dwell time.\<close>

type_synonym params_msg = "(u32 \<times> (u32 \<times> u32) option) option \<times> u32"

record params_req =
  pq_cmd :: u32
  pq_config :: "params_msg option"
  pq_is_null :: bool

definition req_wifi_scan_params ::
  "wifi_drv \<Rightarrow> u32 \<times> u32 \<times> u32 \<times> u8 \<Rightarrow> bool \<Rightarrow> (nat \<Rightarrow> bool) \<Rightarrow> params_req option \<Rightarrow>
    (int \<times> params_msg option) wifi_out option" where
  "req_wifi_scan_params d cur alloc mem req =
     rpc_template (\<lambda>a. Some (a, [])) alloc req (\<lambda>q.
       let set_to = (\<lambda>p. let c = W_set_scan_parameters p in
             Some (rpc_ret_fail_if (\<lambda>a. (a, [c])) (\<lambda>e. (e, None)) (wd_err d c)
               ((ESP_OK, Some (SUCCESS, None)), [c])))
       in if pq_cmd q = 2 then
            (if \<not> pq_is_null q \<and> pq_config q \<noteq> None
             then (case the (pq_config q) of
                     (Some (passive, Some (mn, mx)), dwell) \<Rightarrow> set_to (Some (passive, mn, mx, ucast dwell))
                   | _ \<Rightarrow> None)
             else set_to None)
          else if pq_cmd q = 1 then
            (let c = W_get_scan_parameters in
             rpc_ret_fail_if (\<lambda>a. Some (a, [c])) (\<lambda>e. (e, None)) (wd_err d c)
              (if \<not> mem 0 then Some ((ESP_OK, Some (RPC_ERR_MEMORY_FAILURE, None)), [c])
               else if \<not> mem 1 then Some ((ESP_OK, Some (RPC_ERR_MEMORY_FAILURE, Some (None, 0))), [c])
               else if \<not> mem 2 then Some ((ESP_OK, Some (RPC_ERR_MEMORY_FAILURE, Some (Some (0, None), 0))), [c])
               else (case cur of (passive, mn, mx, dwell) \<Rightarrow>
                 Some ((ESP_OK, Some (SUCCESS, Some (Some (passive, Some (mn, mx)), ucast dwell))), [c]))))
          else Some ((ESP_OK, Some (ESP_ERR_INVALID_ARG, None)), []))"

subsection \<open>Records of access points\<close>

record ap_rec =
  ar_bssid :: "byte list"
  ar_ssid :: "byte list"
  ar_primary :: u8
  ar_second :: u32
  ar_rssi :: "8 word"
  ar_authmode :: u32
  ar_pairwise :: u32
  ar_group :: u32
  ar_ant :: u32
  ar_11b :: bool
  ar_11g :: bool
  ar_11n :: bool
  ar_lr :: bool
  ar_11a :: bool
  ar_11ac :: bool
  ar_11ax :: bool
  ar_wps :: bool
  ar_ftm_responder :: bool
  ar_ftm_initiator :: bool
  ar_reserved :: "22 word"
  ar_country :: country
  ar_bss_color :: "6 word"
  ar_partial_color :: bool
  ar_color_disabled :: bool
  ar_bssid_index :: u8
  ar_bandwidth :: u32
  ar_vht1 :: u8
  ar_vht2 :: u8

record ap_rec_msg =
  rm_bssid :: "byte list"
  rm_ssid :: "byte list"
  rm_primary :: u32
  rm_second :: u32
  rm_rssi :: u32
  rm_authmode :: u32
  rm_pairwise :: u32
  rm_group :: u32
  rm_ant :: u32
  rm_bitmask :: u32
  rm_country :: country_msg
  rm_he_bitmask :: u32
  rm_he_index :: u32
  rm_bandwidth :: u32
  rm_vht1 :: u32
  rm_vht2 :: u32

definition no_ap_rec_msg :: ap_rec_msg where
  "no_ap_rec_msg = \<lparr> rm_bssid = [], rm_ssid = [], rm_primary = 0, rm_second = 0, rm_rssi = 0, rm_authmode = 0,
     rm_pairwise = 0, rm_group = 0, rm_ant = 0, rm_bitmask = 0, rm_country = no_country_msg, rm_he_bitmask = 0,
     rm_he_index = 0, rm_bandwidth = 0, rm_vht1 = 0, rm_vht2 = 0 \<rparr>"

definition ap_rec_bits :: "ap_rec \<Rightarrow> u32 \<Rightarrow> u32" where
  "ap_rec_bits r v =
     set_if (ar_ftm_initiator r) 7 (set_if (ar_ftm_responder r) 6 (set_if (ar_wps r) 5 (set_if (ar_11ax r) 4
       (set_if (ar_11ac r) 9 (set_if (ar_11a r) 8 (set_if (ar_lr r) 3 (set_if (ar_11n r) 2
         (set_if (ar_11g r) 1 (set_if (ar_11b r) 0 v))))))))) OR push_bit 10 (ucast (ar_reserved r))"

definition he_bits :: "ap_rec \<Rightarrow> u32" where
  "he_bits r = set_if (ar_color_disabled r) 7 (set_if (ar_partial_color r) 6 (ucast (ar_bss_color r) AND 0x3F))"

text \<open>The result, and the message as far as it was filled; \<open>FAILURE\<close> stands for the result -1.\<close>

definition copy_ap_record_to_rpc_struct :: "(nat \<Rightarrow> bool) \<Rightarrow> ap_rec \<Rightarrow> int \<times> ap_rec_msg" where
  "copy_ap_record_to_rpc_struct mem r =
     (case rpc_resp_copy_str (mem 0) (c_str (ar_ssid r)) SSID_LENGTH of
        None \<Rightarrow> (FAILURE, no_ap_rec_msg)
      | Some ssid \<Rightarrow>
       (let m1 = no_ap_rec_msg\<lparr>rm_ssid := ssid\<rparr> in
        case rpc_resp_copy_bytes (mem 1) (ar_bssid r) BSSID_BYTES_SIZE of
          None \<Rightarrow> (FAILURE, m1)
        | Some bssid \<Rightarrow>
         (let m2 = m1\<lparr>rm_bssid := bssid, rm_primary := ucast (ar_primary r), rm_second := ar_second r,
                rm_rssi := scast (ar_rssi r), rm_authmode := ar_authmode r, rm_pairwise := ar_pairwise r,
                rm_group := ar_group r, rm_ant := ar_ant r, rm_bitmask := ap_rec_bits r (rm_bitmask m1)\<rparr> in
          case rpc_resp_copy_bytes (mem 2) (co_cc (ar_country r)) 3 of
            None \<Rightarrow> (FAILURE, m2)
          | Some cc \<Rightarrow> (0, m2\<lparr>rm_country := (country_to_msg (ar_country r))\<lparr>cm_cc := cc\<rparr>,
                rm_he_bitmask := he_bits r, rm_he_index := ucast (ar_bssid_index r),
                rm_bandwidth := ar_bandwidth r, rm_vht1 := ucast (ar_vht1 r), rm_vht2 := ucast (ar_vht2 r)\<rparr>))))"

text \<open>
  One record: the allocations of the record, its country and its HE part (3, 4, 5), then the copy. The
  status, and what the message holds of the record.
\<close>

definition put_ap_record :: "(nat \<Rightarrow> bool) \<Rightarrow> ap_rec \<Rightarrow> int \<times> ap_rec_msg option" where
  "put_ap_record mem r =
     (if \<not> mem 3 then (RPC_ERR_MEMORY_FAILURE, None)
      else if \<not> mem 4 \<or> \<not> mem 5 then (RPC_ERR_MEMORY_FAILURE, Some no_ap_rec_msg)
      else (case copy_ap_record_to_rpc_struct mem r of (e, m) \<Rightarrow> (e, Some m)))"

definition req_wifi_scan_get_ap_record ::
  "wifi_drv \<Rightarrow> ap_rec \<Rightarrow> bool \<Rightarrow> bool \<Rightarrow> (nat \<Rightarrow> bool) \<Rightarrow> (int \<times> ap_rec_msg option) wifi_out" where
  "req_wifi_scan_get_ap_record d r alloc tmp mem =
     (let c = W_scan_get_ap_record in
      rpc_template_simple (\<lambda>a. (a, [])) alloc
       (if \<not> tmp then ((ESP_OK, Some (1, None)), [])
        else if wd_err d c \<noteq> 0 then ((ESP_OK, Some (wd_err d c, None)), [c])
        else ((ESP_OK, Some (put_ap_record mem r)), [c])))"

definition req_wifi_sta_get_ap_info ::
  "wifi_drv \<Rightarrow> ap_rec \<Rightarrow> bool \<Rightarrow> (nat \<Rightarrow> bool) \<Rightarrow> (int \<times> ap_rec_msg option) wifi_out" where
  "req_wifi_sta_get_ap_info d r alloc mem =
     (let c = W_sta_get_ap_info in
      rpc_template_simple (\<lambda>a. (a, [])) alloc
       (rpc_ret_fail_if (\<lambda>a. (a, [c])) (\<lambda>e. (e, None)) (wd_err d c) ((ESP_OK, Some (put_ap_record mem r)), [c])))"

text \<open>The loop over the records; it stops at the first that cannot be copied, which is not counted.\<close>

fun put_ap_records :: "(nat \<Rightarrow> nat \<Rightarrow> bool) \<Rightarrow> nat \<Rightarrow> ap_rec list \<Rightarrow> int \<times> ap_rec_msg list" where
  "put_ap_records mem i [] = (SUCCESS, [])"
| "put_ap_records mem i (r # rs) =
     (case put_ap_record (mem i) r of
        (e, m) \<Rightarrow> if e \<noteq> 0 then (e, [])
                   else (case put_ap_records mem (Suc i) rs of (e', ms) \<Rightarrow> (e', the m # ms)))"

record scan_list =
  sl_resp :: int
  sl_number :: u32
  sl_records :: "ap_rec_msg list"

text \<open>
  The payload's pointer is not checked (\<open>None\<close>). \<open>found\<close> is what \<open>esp_wifi_scan_get_ap_records\<close> writes for a
  list with room for so many, \<open>tmp\<close> and \<open>arr\<close> whether the two arrays are allocated.
\<close>

definition req_wifi_scan_get_ap_records ::
  "wifi_drv \<Rightarrow> (u16 \<Rightarrow> ap_rec list) \<Rightarrow> bool \<Rightarrow> bool \<Rightarrow> bool \<Rightarrow> (nat \<Rightarrow> nat \<Rightarrow> bool) \<Rightarrow> u32 option \<Rightarrow>
    scan_list wifi_out option" where
  "req_wifi_scan_get_ap_records d found alloc tmp arr mem req =
     rpc_template_simple (\<lambda>a. Some (a, [])) alloc
      (case req of
         None \<Rightarrow> None
       | Some n \<Rightarrow>
        (let number = ucast n :: u16; c = W_scan_get_ap_records number;
             empty = \<lparr> sl_resp = SUCCESS, sl_number = 0, sl_records = [] \<rparr>;
             got = found number; cnt = word_of_nat (length got) :: u32 in
         if \<not> tmp then Some ((ESP_OK, Some (empty\<lparr>sl_resp := 1\<rparr>)), [])
         else if wd_err d W_scan_get_ap_num \<noteq> 0 \<or> (ucast (wd_num d W_scan_get_ap_num) :: u16) = 0
         then Some ((ESP_OK, Some empty), [W_scan_get_ap_num])
         else if wd_err d c \<noteq> 0 then Some ((ESP_OK, Some empty), [W_scan_get_ap_num, c])
         else if \<not> arr
         then Some ((ESP_OK, Some (empty\<lparr>sl_number := cnt, sl_resp := RPC_ERR_MEMORY_FAILURE\<rparr>)),
                [W_scan_get_ap_num, c])
         else (case put_ap_records mem 0 got of (e, ms) \<Rightarrow>
                Some ((ESP_OK, Some \<lparr> sl_resp = e, sl_number = cnt, sl_records = ms \<rparr>),
                  [W_scan_get_ap_num, c]))))"

subsection \<open>Stations of the access point\<close>

record sta_info =
  si_mac :: "byte list"
  si_rssi :: "8 word"
  si_11b :: bool
  si_11g :: bool
  si_11n :: bool
  si_lr :: bool
  si_11ax :: bool
  si_mesh :: bool
  si_reserved :: "26 word"

record sta_info_msg =
  tm_mac :: "byte list"
  tm_rssi :: u32
  tm_bitmask :: u32

definition sta_info_bits :: "sta_info \<Rightarrow> u32 \<Rightarrow> u32" where
  "sta_info_bits i v =
     set_if (si_mesh i) 5 (set_if (si_11ax i) 4 (set_if (si_lr i) 3 (set_if (si_11n i) 2
       (set_if (si_11g i) 1 (set_if (si_11b i) 0 v))))) OR push_bit 6 (ucast (si_reserved i))"

fun put_stations :: "(nat \<Rightarrow> nat \<Rightarrow> bool) \<Rightarrow> nat \<Rightarrow> sta_info list \<Rightarrow> int option \<times> sta_info_msg list" where
  "put_stations mem i [] = (None, [])"
| "put_stations mem i (s # ss) =
     (if \<not> mem i 0 then (Some RPC_ERR_MEMORY_FAILURE, [])
      else case rpc_resp_copy_bytes (mem i 1) (si_mac s) 6 of
        None \<Rightarrow> (Some FAILURE, [])
      | Some b \<Rightarrow> (case put_stations mem (Suc i) ss of (e, ms) \<Rightarrow>
          (e, \<lparr> tm_mac = b, tm_rssi = scast (si_rssi s), tm_bitmask = sta_info_bits s 0 \<rparr> # ms)))"

record sta_list_resp =
  lr_resp :: int
  lr_num :: u32
  lr_stations :: "sta_info_msg list"

definition ESP_WIFI_MAX_CONN_NUM :: nat where "ESP_WIFI_MAX_CONN_NUM = 15"

text \<open>
  The structure of the driver has room for 15 stations and is not initialised (\<open>stale\<close>); the driver writes
  the first ones and their number. The stations of the message count only when all 15 are in it.
\<close>

definition req_wifi_ap_get_sta_list ::
  "wifi_drv \<Rightarrow> sta_info list \<Rightarrow> sta_info list \<Rightarrow> bool \<Rightarrow> bool \<Rightarrow> bool \<Rightarrow> (nat \<Rightarrow> nat \<Rightarrow> bool) \<Rightarrow>
    sta_list_resp wifi_out" where
  "req_wifi_ap_get_sta_list d stas stale alloc part arr mem =
     (let c = W_ap_get_sta_list; empty = \<lparr> lr_resp = SUCCESS, lr_num = 0, lr_stations = [] \<rparr> in
      rpc_template_simple (\<lambda>a. (a, [])) alloc
       (rpc_ret_fail_if (\<lambda>a. (a, [c])) (\<lambda>e. empty\<lparr>lr_resp := e\<rparr>) (wd_err d c)
         (if \<not> part then ((ESP_OK, Some (empty\<lparr>lr_resp := RPC_ERR_MEMORY_FAILURE\<rparr>)), [c])
          else if \<not> arr then ((ESP_OK, Some empty), [c])
          else (case put_stations mem 0 (take ESP_WIFI_MAX_CONN_NUM (stas @ drop (length stas) stale)) of
              (Some e, ms) \<Rightarrow> ((ESP_OK, Some (empty\<lparr>lr_resp := e\<rparr>)), [c])
            | (None, ms) \<Rightarrow> ((ESP_OK, Some \<lparr> lr_resp = SUCCESS, lr_num = word_of_nat (length stas),
                                lr_stations = ms \<rparr>), [c])))))"

subsection \<open>The host's reader (rpc_rsp.c)\<close>

text \<open>
  \<open>rpc_copy_ap_record\<close> of the host, into a zeroed record. The lengths of the message are not compared with the
  arrays: \<open>None\<close> is a write behind the array.
\<close>

definition host_copy :: "nat \<Rightarrow> byte list \<Rightarrow> byte list option" where
  "host_copy n src = (if length src \<le> n then Some (src @ zeros (n - length src)) else None)"

definition rpc_copy_ap_record :: "ap_rec_msg \<Rightarrow> ap_rec option" where
  "rpc_copy_ap_record m =
     (case (host_copy 33 (rm_ssid m), host_copy 6 (rm_bssid m), host_copy 3 (cm_cc (rm_country m))) of
        (Some ssid, Some bssid, Some cc) \<Rightarrow>
         (let b = rm_bitmask m; h = rm_he_bitmask m; k = rm_country m in Some
          \<lparr> ar_bssid = bssid, ar_ssid = ssid, ar_primary = ucast (rm_primary m), ar_second = rm_second m,
            ar_rssi = ucast (rm_rssi m), ar_authmode = rm_authmode m, ar_pairwise = rm_pairwise m,
            ar_group = rm_group m, ar_ant = rm_ant m,
            ar_11b = H_GET_BIT 0 b, ar_11g = H_GET_BIT 1 b, ar_11n = H_GET_BIT 2 b, ar_lr = H_GET_BIT 3 b,
            ar_11a = H_GET_BIT 8 b, ar_11ac = H_GET_BIT 9 b, ar_11ax = H_GET_BIT 4 b, ar_wps = H_GET_BIT 5 b,
            ar_ftm_responder = H_GET_BIT 6 b, ar_ftm_initiator = H_GET_BIT 7 b,
            ar_reserved = ucast (drop_bit 10 (b AND 0xFC00)),
            ar_country = \<lparr> co_cc = cc, co_schan = ucast (cm_schan k), co_nchan = ucast (cm_nchan k),
              co_max_tx_power = ucast (cm_max_tx_power k), co_policy = cm_policy k \<rparr>,
            ar_bss_color = ucast (h AND 0x3F), ar_partial_color = H_GET_BIT 6 h, ar_color_disabled = H_GET_BIT 7 h,
            ar_bssid_index = 0, ar_bandwidth = rm_bandwidth m, ar_vht1 = ucast (rm_vht1 m),
            ar_vht2 = ucast (rm_vht2 m) \<rparr>)
      | _ \<Rightarrow> None)"

subsection \<open>Lemmas\<close>

lemma bit_ap_rec_bits:
  "bit (ap_rec_bits r v) n =
     (bit v n \<or> n = 0 \<and> ar_11b r \<or> n = 1 \<and> ar_11g r \<or> n = 2 \<and> ar_11n r \<or> n = 3 \<and> ar_lr r \<or>
      n = 8 \<and> ar_11a r \<or> n = 9 \<and> ar_11ac r \<or> n = 4 \<and> ar_11ax r \<or> n = 5 \<and> ar_wps r \<or>
      n = 6 \<and> ar_ftm_responder r \<or> n = 7 \<and> ar_ftm_initiator r \<or> 10 \<le> n \<and> bit (ar_reserved r) (n - 10))"
proof -
  have "bit (push_bit 10 (ucast (ar_reserved r)) :: u32) n = (10 \<le> n \<and> bit (ar_reserved r) (n - 10))"
    by (auto simp: bit_push_bit_iff bit_unsigned_iff possible_bit_word dest: bit_imp_le_length)
  then show ?thesis unfolding ap_rec_bits_def bit_or_iff by (simp only: bit_set_if_low disj_assoc)
qed

lemma low_six: "bit (x AND 0x3F) n = (n < 6 \<and> bit x n)" for x :: u32
proof -
  have m: "(0x3F :: u32) = mask 6" by (simp add: mask_numeral)
  show ?thesis unfolding m by (auto simp: bit_simps dest: bit_imp_le_length)
qed

lemma bit_he_bits:
  "bit (he_bits r) n = (n < 6 \<and> bit (ar_bss_color r) n \<or> n = 6 \<and> ar_partial_color r \<or> n = 7 \<and> ar_color_disabled r)"
  unfolding he_bits_def
  by (simp only: bit_set_if_low low_six disj_assoc) (auto simp: bit_unsigned_iff possible_bit_word)

lemma reserved_seen: "ucast (drop_bit 10 (ap_rec_bits r 0 AND 0xFC00)) = take_bit 6 (ar_reserved r)"
proof (rule bit_word_eqI)
  fix n assume n: "n < LENGTH(22)"
  have m: "(0xFC00 :: u32) = push_bit 10 (mask 6)" by (simp add: mask_numeral)
  show "bit (ucast (drop_bit 10 (ap_rec_bits r 0 AND 0xFC00)) :: 22 word) n = bit (take_bit 6 (ar_reserved r)) n"
    using n unfolding m bit_unsigned_iff bit_drop_bit_eq comp_def bit_and_iff bit_ap_rec_bits bit_push_bit_iff
      bit_mask_iff bit_take_bit_iff possible_bit_word by auto
qed

lemma color_seen: "ucast (he_bits r AND 0x3F) = ar_bss_color r"
proof (rule bit_word_eqI)
  fix n assume n: "n < LENGTH(6)"
  then show "bit (ucast (he_bits r AND 0x3F) :: 6 word) n = bit (ar_bss_color r) n"
    unfolding bit_unsigned_iff low_six bit_he_bits possible_bit_word by auto
qed

lemma narrow_widen [simp]:
  "ucast (ucast x :: u32) = x" "ucast (scast x :: u32) = x" for x :: "8 word"
  by (rule bit_word_eqI; auto simp: bit_simps)+

text \<open>What the host sees of a record.\<close>

definition host_seen :: "ap_rec \<Rightarrow> ap_rec" where
  "host_seen r = r\<lparr> ar_ssid := c_str (ar_ssid r) @ zeros (33 - length (c_str (ar_ssid r))),
     ar_reserved := take_bit 6 (ar_reserved r), ar_bssid_index := 0 \<rparr>"

definition rec_ok :: "ap_rec \<Rightarrow> bool" where
  "rec_ok r \<longleftrightarrow> length (ar_bssid r) = 6 \<and> length (co_cc (ar_country r)) = 3 \<and> length (c_str (ar_ssid r)) \<le> 32"

lemma str_padded:
  assumes "length s \<le> 32"
  shows "\<exists>m. rpc_resp_copy_str True s 32 = Some m \<and> host_copy 33 m = Some (s @ zeros (33 - length s))"
proof (cases "length s = 32")
  case True
  then show ?thesis by (simp add: rpc_resp_copy_str_def host_copy_def)
next
  case False
  then have "length s < 32" using assms by simp
  then show ?thesis by (simp add: rpc_resp_copy_str_def host_copy_def zeros_def replicate_Suc [symmetric] Suc_diff_Suc
        del: replicate_Suc)
qed

lemma ap_record_trip:
  assumes "rec_ok r"
  shows "\<exists>m. put_ap_record (\<lambda>_. True) r = (0, Some m) \<and> rpc_copy_ap_record m = Some (host_seen r)"
proof -
  obtain m where m: "rpc_resp_copy_str True (c_str (ar_ssid r)) 32 = Some m"
    "host_copy 33 m = Some (c_str (ar_ssid r) @ zeros (33 - length (c_str (ar_ssid r))))"
    using str_padded [of "c_str (ar_ssid r)"] assms by (auto simp: rec_ok_def)
  have c: "rpc_resp_copy_bytes True (ar_bssid r) 6 = Some (ar_bssid r)"
    "rpc_resp_copy_bytes True (co_cc (ar_country r)) 3 = Some (co_cc (ar_country r))"
    "host_copy 6 (ar_bssid r) = Some (ar_bssid r)" "host_copy 3 (co_cc (ar_country r)) = Some (co_cc (ar_country r))"
    using assms by (simp_all add: rec_ok_def rpc_resp_copy_bytes_def host_copy_def)
  show ?thesis
    unfolding put_ap_record_def copy_ap_record_to_rpc_struct_def SSID_LENGTH_def BSSID_BYTES_SIZE_def
    by (simp add: m c no_ap_rec_msg_def rpc_copy_ap_record_def country_to_msg_def)
      (cases r, simp add: host_seen_def H_GET_BIT_bit bit_ap_rec_bits bit_he_bits reserved_seen [simplified] color_seen)
qed

lemma ap_records_trip:
  assumes "list_all rec_ok rs"
  shows "\<exists>ms. put_ap_records (\<lambda>_ _. True) i rs = (SUCCESS, ms) \<and>
    map rpc_copy_ap_record ms = map (\<lambda>r. Some (host_seen r)) rs"
  using assms
proof (induction rs arbitrary: i)
  case Nil
  then show ?case by simp
next
  case (Cons r rs)
  then obtain ms where "put_ap_records (\<lambda>_ _. True) (Suc i) rs = (SUCCESS, ms)"
    "map rpc_copy_ap_record ms = map (\<lambda>r. Some (host_seen r)) rs" by fastforce
  moreover obtain m where "put_ap_record (\<lambda>_. True) r = (0, Some m)" "rpc_copy_ap_record m = Some (host_seen r)"
    using ap_record_trip Cons.prems by auto
  ultimately show ?case by auto
qed

text \<open>A list is cut at the first record that does not fit into memory.\<close>

lemma put_ap_records_cut:
  assumes "list_all rec_ok xs" "\<And>j k. j < i + length xs \<Longrightarrow> mem j k" "\<not> mem (i + length xs) 3"
  shows "\<exists>ms. put_ap_records mem i (xs @ r # rs) = (RPC_ERR_MEMORY_FAILURE, ms) \<and>
    map rpc_copy_ap_record ms = map (\<lambda>r. Some (host_seen r)) xs"
  using assms
proof (induction xs arbitrary: i)
  case Nil
  then show ?case by (simp add: put_ap_record_def RPC_ERR_MEMORY_FAILURE_def)
next
  case (Cons x xs)
  obtain ms where "put_ap_records mem (Suc i) (xs @ r # rs) = (RPC_ERR_MEMORY_FAILURE, ms)"
    "map rpc_copy_ap_record ms = map (\<lambda>r. Some (host_seen r)) xs"
    using Cons.IH [of "Suc i"] Cons.prems by fastforce
  moreover have "mem i = (\<lambda>_. True)" using Cons.prems(2) by auto
  moreover obtain m where "put_ap_record (\<lambda>_. True) x = (0, Some m)" "rpc_copy_ap_record m = Some (host_seen x)"
    using ap_record_trip Cons.prems(1) by auto
  ultimately show ?case by auto
qed

subsection \<open>Properties\<close>

text \<open>C7: The host reads every access point the driver found, in the order found: each record
  as it was, but for the bits of the reserved field above the sixth and the index in the multiple
  BSSID set, which the host's reader never takes over.\<close>

theorem scan_results_reach_host:
  assumes "list_all rec_ok (found (ucast n))" "wd_err d W_scan_get_ap_num = 0"
    "(ucast (wd_num d W_scan_get_ap_num) :: u16) \<noteq> 0" "wd_err d (W_scan_get_ap_records (ucast n)) = 0"
  shows "\<exists>out. req_wifi_scan_get_ap_records d found True True True (\<lambda>_ _. True) (Some n) =
      Some ((ESP_OK, Some out), [W_scan_get_ap_num, W_scan_get_ap_records (ucast n)]) \<and>
    sl_resp out = SUCCESS \<and> sl_number out = word_of_nat (length (found (ucast n))) \<and>
    map rpc_copy_ap_record (sl_records out) = map (\<lambda>r. Some (host_seen r)) (found (ucast n))"
proof -
  obtain ms where "put_ap_records (\<lambda>_ _. True) 0 (found (ucast n)) = (SUCCESS, ms)"
    "map rpc_copy_ap_record ms = map (\<lambda>r. Some (host_seen r)) (found (ucast n))"
    using ap_records_trip [OF assms(1)] by blast
  then show ?thesis using assms(2-4) by (simp add: req_wifi_scan_get_ap_records_def Let_def)
qed

definition demo_country :: country where
  "demo_country = \<lparr> co_cc = [68, 69, 0], co_schan = 1, co_nchan = 13, co_max_tx_power = 20, co_policy = 0 \<rparr>"

definition demo_ap_rec :: ap_rec where
  "demo_ap_rec = \<lparr> ar_bssid = [1, 2, 3, 4, 5, 6], ar_ssid = [97, 112] @ zeros 31, ar_primary = 6, ar_second = 0,
     ar_rssi = 200, ar_authmode = 3, ar_pairwise = 4, ar_group = 4, ar_ant = 0, ar_11b = True, ar_11g = True,
     ar_11n = True, ar_lr = False, ar_11a = False, ar_11ac = False, ar_11ax = True, ar_wps = False,
     ar_ftm_responder = True, ar_ftm_initiator = False, ar_reserved = 0x41, ar_country = demo_country,
     ar_bss_color = 33, ar_partial_color = False, ar_color_disabled = True, ar_bssid_index = 2, ar_bandwidth = 1,
     ar_vht1 = 0, ar_vht2 = 0 \<rparr>"

definition quiet_drv :: wifi_drv where
  "quiet_drv = \<lparr> wd_err = (\<lambda>_. 0), wd_num = (\<lambda>_. 1), wd_num2 = (\<lambda>_. 0), wd_bytes = (\<lambda>_. []),
     wd_country = demo_country \<rparr>"

lemma demo_ap_rec_ok: "rec_ok demo_ap_rec"
  by (simp add: rec_ok_def demo_ap_rec_def demo_country_def c_str_def zeros_def)

theorem scan_results_reach_host_witness:
  "\<exists>out. req_wifi_scan_get_ap_records quiet_drv (\<lambda>_. [demo_ap_rec]) True True True (\<lambda>_ _. True) (Some 10) =
     Some ((ESP_OK, Some out), [W_scan_get_ap_num, W_scan_get_ap_records 10]) \<and>
   map rpc_copy_ap_record (sl_records out) = [Some (host_seen demo_ap_rec)]"
proof -
  have "list_all rec_ok ((\<lambda>_. [demo_ap_rec]) (ucast (10 :: u32) :: u16))"
    "wd_err quiet_drv W_scan_get_ap_num = 0" "(ucast (wd_num quiet_drv W_scan_get_ap_num) :: u16) \<noteq> 0"
    "wd_err quiet_drv (W_scan_get_ap_records (ucast (10 :: u32))) = 0"
    by (simp_all add: quiet_drv_def demo_ap_rec_ok)
  from scan_results_reach_host [OF this] show ?thesis by auto
qed

end
