(* ===== verification/Wifi_Handle.thy ===== *)
theory Wifi_Handle
  imports Rpc_Dispatch Wifi_Scan
begin

section \<open>The Wi-Fi requests behind the dispatcher\<close>

text \<open>
  The Wi-Fi handlers of the dispatcher's table on one state: the initialisation, the connection
  manager, the log of driver calls, and whether the driver's station link is up (\<open>wy_up\<close>, known to the driver
  only). A payload is the request it belongs to with its arguments; a handler that is given the payload of
  another request reads a structure of the wrong type (\<open>None\<close>).
\<close>

subsection \<open>Messages, environment and state\<close>

datatype wifi_arg =
    A_none
  | A_num u32
  | A_two u32 u32
  | A_mac u32 "byte list"
  | A_init "init_cfg option"
  | A_config int "cfg_msg option"
  | A_iface int
  | A_scan scan_start_req
  | A_params params_req
  | A_bands u32 "(u32 \<times> u32) option"
  | A_code "byte list" bool
  | A_country "country_msg option"
  | A_bytes "byte list"
  | A_twt "(bool \<times> bool) option"
  | A_itwt "itwt_msg option"
  | A_cb bool
  | A_boot "byte list" u32 "byte list" "byte list"

type_synonym wifi_req = "req_handler \<times> wifi_arg"

text \<open>The arguments each shape of handler reads.\<close>

definition arg_num :: "wifi_arg \<Rightarrow> (u32) option" where
  "arg_num x = (case x of A_num n \<Rightarrow> Some n | _ \<Rightarrow> None)"
definition arg_two :: "wifi_arg \<Rightarrow> (u32 \<times> u32) option" where
  "arg_two x = (case x of A_two a b \<Rightarrow> Some (a, b) | _ \<Rightarrow> None)"
definition arg_mac :: "wifi_arg \<Rightarrow> (u32 \<times> byte list) option" where
  "arg_mac x = (case x of A_mac n b \<Rightarrow> Some (n, b) | _ \<Rightarrow> None)"
definition arg_init :: "wifi_arg \<Rightarrow> (init_cfg option) option" where
  "arg_init x = (case x of A_init c \<Rightarrow> Some c | _ \<Rightarrow> None)"
definition arg_config :: "wifi_arg \<Rightarrow> (int \<times> cfg_msg option) option" where
  "arg_config x = (case x of A_config i c \<Rightarrow> Some (i, c) | _ \<Rightarrow> None)"
definition arg_iface :: "wifi_arg \<Rightarrow> (int) option" where
  "arg_iface x = (case x of A_iface i \<Rightarrow> Some i | _ \<Rightarrow> None)"
definition arg_scan :: "wifi_arg \<Rightarrow> (scan_start_req) option" where
  "arg_scan x = (case x of A_scan r \<Rightarrow> Some r | _ \<Rightarrow> None)"
definition arg_params :: "wifi_arg \<Rightarrow> (params_req) option" where
  "arg_params x = (case x of A_params r \<Rightarrow> Some r | _ \<Rightarrow> None)"
definition arg_bands :: "wifi_arg \<Rightarrow> (u32 \<times> (u32 \<times> u32) option) option" where
  "arg_bands x = (case x of A_bands i p \<Rightarrow> Some (i, p) | _ \<Rightarrow> None)"
definition arg_code :: "wifi_arg \<Rightarrow> (byte list \<times> bool) option" where
  "arg_code x = (case x of A_code b e \<Rightarrow> Some (b, e) | _ \<Rightarrow> None)"
definition arg_country :: "wifi_arg \<Rightarrow> (country_msg option) option" where
  "arg_country x = (case x of A_country c \<Rightarrow> Some c | _ \<Rightarrow> None)"
definition arg_bytes :: "wifi_arg \<Rightarrow> (byte list) option" where
  "arg_bytes x = (case x of A_bytes b \<Rightarrow> Some b | _ \<Rightarrow> None)"
definition arg_twt :: "wifi_arg \<Rightarrow> ((bool \<times> bool) option) option" where
  "arg_twt x = (case x of A_twt t \<Rightarrow> Some t | _ \<Rightarrow> None)"
definition arg_itwt :: "wifi_arg \<Rightarrow> (itwt_msg option) option" where
  "arg_itwt x = (case x of A_itwt t \<Rightarrow> Some t | _ \<Rightarrow> None)"
definition arg_cb :: "wifi_arg \<Rightarrow> (bool) option" where
  "arg_cb x = (case x of A_cb b \<Rightarrow> Some b | _ \<Rightarrow> None)"
definition arg_boot :: "wifi_arg \<Rightarrow> (byte list \<times> u32 \<times> byte list \<times> byte list) option" where
  "arg_boot x = (case x of A_boot c t k i \<Rightarrow> Some (c, t, k, i) | _ \<Rightarrow> None)"

datatype wifi_resp =
    S_status int
  | S_num int u32
  | S_two int u32 u32
  | S_bytes int "byte list"
  | S_bands int u32 "(u32 \<times> u32) option"
  | S_country int "country_msg option"
  | S_config get_config_resp
  | S_params int "params_msg option"
  | S_record int "ap_rec_msg option"
  | S_scan scan_list
  | S_stations sta_list_resp

record wifi_env =
  we_drv :: wifi_drv
  we_alloc :: bool
  we_mem :: "nat \<Rightarrow> bool"
  we_rec_mem :: "nat \<Rightarrow> nat \<Rightarrow> bool"
  we_init :: init_build
  we_real_init :: esp_err
  we_deinit :: esp_err
  we_start :: "esp_err \<times> (esp_err \<times> int) \<times> byte list \<times> byte list"
  we_connect :: "bool \<times> bool \<times> esp_err"
  we_set_sta :: esp_err
  we_set_ap :: esp_err
  we_get_sta :: "esp_err \<times> sta_cfg"
  we_get_ap :: "esp_err \<times> ap_cfg"
  we_params :: "u32 \<times> u32 \<times> u32 \<times> u8"
  we_found :: "u16 \<Rightarrow> ap_rec list"
  we_record :: ap_rec
  we_stations :: "sta_info list \<times> sta_info list"
  we_stale_mac :: "byte list"
  we_supp :: bool

record wifi_sys =
  wy_up :: bool
  wy_init :: wifi_init
  wy_mgr :: "sta_cfg wifi_mgr"
  wy_ap :: "ap_cfg list"
  wy_calls :: "wifi_call list"

type_synonym wifi_outcome = "(wifi_resp answered \<times> wifi_sys) option"

text \<open>The outcome of a handler that only calls the driver.\<close>

definition ran :: "('r \<Rightarrow> wifi_resp) \<Rightarrow> 'r wifi_out \<Rightarrow> wifi_sys \<Rightarrow> wifi_outcome" where
  "ran f r s = Some (lift_answer f (fst r), s\<lparr>wy_calls := wy_calls s @ snd r\<rparr>)"

definition ran_opt :: "('r \<Rightarrow> wifi_resp) \<Rightarrow> 'r wifi_out option \<Rightarrow> wifi_sys \<Rightarrow> wifi_outcome" where
  "ran_opt f r s = (case r of None \<Rightarrow> None | Some x \<Rightarrow> ran f x s)"

definition wifi_read ::
  "wifi_env \<Rightarrow> req_handler \<Rightarrow> (wifi_arg \<Rightarrow> 'p option) \<Rightarrow> wifi_req option \<Rightarrow> wifi_sys \<Rightarrow>
    ('p option \<Rightarrow> wifi_outcome) \<Rightarrow> wifi_outcome" where
  "wifi_read e h sel q s body = with_payload (we_alloc e) (\<lambda>(k, a). if k = h then sel a else None) q s body"

definition S_num' :: "int \<times> u32 \<Rightarrow> wifi_resp" where "S_num' p = S_num (fst p) (snd p)"

subsection \<open>The handlers of the table\<close>

definition wifi_main :: "wifi_env \<Rightarrow> wifi_handler \<Rightarrow> wifi_req option \<Rightarrow> wifi_sys \<Rightarrow> wifi_outcome" where
  "wifi_main e h q s =
     (let d = we_drv e; al = we_alloc e; mem = we_mem e;
          set_num = (\<lambda>f. wifi_read e (Wifi h) arg_num q s (\<lambda>p. ran S_status (f p) s));
          mgr = (\<lambda>r. Some (lift_answer S_status (fst r), s\<lparr>wy_mgr := snd r\<rparr>)) in
      case h of
        Req_wifi_get_mac \<Rightarrow> wifi_read e (Wifi h) arg_num q s (\<lambda>p.
          ran_opt (\<lambda>(r, b). S_bytes r b) (req_wifi_get_mac d al (mem 0) p) s)
      | Req_wifi_get_mode \<Rightarrow> ran S_num' (req_wifi_get_mode d al) s
      | Req_wifi_set_mode \<Rightarrow> set_num (req_wifi_set_mode d al)
      | Req_wifi_set_mac \<Rightarrow> wifi_read e (Wifi h) arg_mac q s (\<lambda>p. ran S_status (req_wifi_set_mac d al p) s)
      | Req_wifi_set_ps \<Rightarrow> set_num (req_wifi_set_ps d al)
      | Req_wifi_get_ps \<Rightarrow> ran S_num' (req_wifi_get_ps d al) s
      | Req_wifi_set_max_tx_power \<Rightarrow> set_num (req_wifi_set_max_tx_power d al)
      | Req_wifi_get_max_tx_power \<Rightarrow> ran S_num' (req_wifi_get_max_tx_power d al) s
      | Req_wifi_init \<Rightarrow> wifi_read e (Wifi h) arg_init q s (\<lambda>p.
          case req_wifi_init (we_init e) al (we_real_init e) p (wy_init s) of
            (a, i) \<Rightarrow> Some (lift_answer S_status a, s\<lparr>wy_init := i\<rparr>))
      | Req_wifi_deinit \<Rightarrow> (case req_wifi_deinit al (we_deinit e) (wy_init s) of
            (a, i) \<Rightarrow> Some (lift_answer S_status a, s\<lparr>wy_init := i\<rparr>))
      | Req_wifi_start \<Rightarrow> (case we_start e of (r, mode, n1, n2) \<Rightarrow> mgr (req_wifi_start al r mode n1 n2 (wy_mgr s)))
      | Req_wifi_stop \<Rightarrow> ran S_status (req_wifi_stop d al) s
      | Req_wifi_connect \<Rightarrow> (case we_connect e of (cfg, ssid, r) \<Rightarrow> mgr (req_wifi_connect al cfg ssid r (wy_mgr s)))
      | Req_wifi_disconnect \<Rightarrow> ran S_status (req_wifi_disconnect d al) s
      | Req_wifi_set_config \<Rightarrow> wifi_read e (Wifi h) arg_config q s (\<lambda>p.
          case req_wifi_set_config al (we_set_sta e) (we_set_ap e) p (wy_mgr s) of
            None \<Rightarrow> None
          | Some (a, m, ap) \<Rightarrow> Some (lift_answer S_status a,
              s\<lparr>wy_mgr := m, wy_ap := wy_ap s @ (case ap of None \<Rightarrow> [] | Some c \<Rightarrow> [c])\<rparr>))
      | Req_wifi_scan_params \<Rightarrow> wifi_read e (Wifi h) arg_params q s (\<lambda>p.
          ran_opt (\<lambda>(r, c). S_params r c) (req_wifi_scan_params d (we_params e) al mem p) s)
      | Req_wifi_get_config \<Rightarrow> wifi_read e (Wifi h) arg_iface q s (\<lambda>p.
          Some (lift_answer S_config (req_wifi_get_config al mem (mem 6) (we_get_sta e) (we_get_ap e) p), s))
      | Req_wifi_scan_start \<Rightarrow> wifi_read e (Wifi h) arg_scan q s (\<lambda>p.
          ran_opt S_status (req_wifi_scan_start d al p) s)
      | Req_wifi_scan_stop \<Rightarrow> ran S_status (req_wifi_scan_stop d al) s
      | Req_wifi_scan_get_ap_num \<Rightarrow> ran S_num' (req_wifi_scan_get_ap_num d al) s
      | Req_wifi_scan_get_ap_record \<Rightarrow>
          ran (\<lambda>(r, m). S_record r m) (req_wifi_scan_get_ap_record d (we_record e) al (mem 6) mem) s
      | Req_wifi_scan_get_ap_records \<Rightarrow> wifi_read e (Wifi h) arg_num q s (\<lambda>p.
          ran_opt S_scan (req_wifi_scan_get_ap_records d (we_found e) al (mem 0) (mem 1) (we_rec_mem e) p) s)
      | Req_wifi_clear_ap_list \<Rightarrow> ran S_status (req_wifi_clear_ap_list d al) s
      | Req_wifi_restore \<Rightarrow> ran S_status (req_wifi_restore d al) s
      | Req_wifi_clear_fast_connect \<Rightarrow> ran S_status (req_wifi_clear_fast_connect d al) s)"

definition wifi_link :: "wifi_env \<Rightarrow> link_handler \<Rightarrow> wifi_req option \<Rightarrow> wifi_sys \<Rightarrow> wifi_outcome" where
  "wifi_link e h q s =
     (let d = we_drv e; al = we_alloc e; mem = we_mem e;
          set_num = (\<lambda>f. wifi_read e (Link h) arg_num q s (\<lambda>p. ran S_status (f p) s));
          set_two = (\<lambda>f. wifi_read e (Link h) arg_two q s (\<lambda>p. ran S_status (f p) s));
          ask_num = (\<lambda>f. wifi_read e (Link h) arg_num q s (\<lambda>p. ran S_num' (f p) s)) in
      case h of
        Req_wifi_sta_get_ap_info \<Rightarrow> ran (\<lambda>(r, m). S_record r m) (req_wifi_sta_get_ap_info d (we_record e) al mem) s
      | Req_wifi_deauth_sta \<Rightarrow> set_num (req_wifi_deauth_sta d al)
      | Req_wifi_set_storage \<Rightarrow> set_num (req_wifi_set_storage d al)
      | Req_wifi_set_protocol \<Rightarrow> set_two (req_wifi_set_protocol d al)
      | Req_wifi_get_protocol \<Rightarrow> ask_num (req_wifi_get_protocol d al)
      | Req_wifi_set_bandwidth \<Rightarrow> set_two (req_wifi_set_bandwidth d al)
      | Req_wifi_get_bandwidth \<Rightarrow> ask_num (req_wifi_get_bandwidth d al)
      | Req_wifi_set_channel \<Rightarrow> set_two (req_wifi_set_channel d al)
      | Req_wifi_get_channel \<Rightarrow> ran (\<lambda>(r, p, c). S_two r p c) (req_wifi_get_channel d al) s
      | Req_wifi_set_country_code \<Rightarrow> wifi_read e (Link h) arg_code q s (\<lambda>p.
          ran S_status (req_wifi_set_country_code d al p) s)
      | Req_wifi_get_country_code \<Rightarrow> ran (\<lambda>(r, b). S_bytes r b) (req_wifi_get_country_code d al (mem 0)) s
      | Req_wifi_set_country \<Rightarrow> wifi_read e (Link h) arg_country q s (\<lambda>p.
          ran S_status (req_wifi_set_country d al p) s)
      | Req_wifi_get_country \<Rightarrow> ran (\<lambda>(r, c). S_country r c) (req_wifi_get_country d al (mem 0) (mem 1)) s
      | Req_wifi_ap_get_sta_list \<Rightarrow>
          ran S_stations (req_wifi_ap_get_sta_list d (fst (we_stations e)) (snd (we_stations e)) al (mem 0) (mem 1)
            (we_rec_mem e)) s
      | Req_wifi_ap_get_sta_aid \<Rightarrow> wifi_read e (Link h) arg_bytes q s (\<lambda>p.
          ran S_num' (req_wifi_ap_get_sta_aid d al (we_stale_mac e) p) s)
      | Req_wifi_sta_get_rssi \<Rightarrow> ran S_num' (req_wifi_sta_get_rssi d al) s
      | Req_wifi_sta_get_aid \<Rightarrow> ran S_num' (req_wifi_sta_get_aid d al) s
      | Req_wifi_sta_get_negotiated_phymode \<Rightarrow> ran S_num' (req_wifi_sta_get_negotiated_phymode d al) s
      | Req_wifi_set_inactive_time \<Rightarrow> set_two (req_wifi_set_inactive_time d al)
      | Req_wifi_get_inactive_time \<Rightarrow> ask_num (req_wifi_get_inactive_time d al))"

definition wifi_band :: "wifi_env \<Rightarrow> band_handler \<Rightarrow> wifi_req option \<Rightarrow> wifi_sys \<Rightarrow> wifi_outcome" where
  "wifi_band e h q s =
     (let d = we_drv e; al = we_alloc e; part = we_mem e 0;
          set_pair = (\<lambda>f. wifi_read e (Band h) arg_bands q s (\<lambda>p. ran S_num' (f p) s));
          ask_pair = (\<lambda>f. wifi_read e (Band h) arg_num q s (\<lambda>p. ran (\<lambda>(r, i, b). S_bands r i b) (f p) s));
          set_num = (\<lambda>f. wifi_read e (Band h) arg_num q s (\<lambda>p. ran S_status (f p) s)) in
      case h of
        Req_wifi_set_protocols \<Rightarrow> set_pair (req_wifi_set_protocols d al)
      | Req_wifi_get_protocols \<Rightarrow> ask_pair (req_wifi_get_protocols d al part)
      | Req_wifi_set_bandwidths \<Rightarrow> set_pair (req_wifi_set_bandwidths d al)
      | Req_wifi_get_bandwidths \<Rightarrow> ask_pair (req_wifi_get_bandwidths d al part)
      | Req_wifi_set_band \<Rightarrow> set_num (req_wifi_set_band d al)
      | Req_wifi_get_band \<Rightarrow> ran S_num' (req_wifi_get_band d al) s
      | Req_wifi_set_band_mode \<Rightarrow> set_num (req_wifi_set_band_mode d al)
      | Req_wifi_get_band_mode \<Rightarrow> ran S_num' (req_wifi_get_band_mode d al) s)"

definition wifi_twt :: "wifi_env \<Rightarrow> twt_handler \<Rightarrow> wifi_req option \<Rightarrow> wifi_sys \<Rightarrow> wifi_outcome" where
  "wifi_twt e h q s =
     (let d = we_drv e; al = we_alloc e;
          set_num = (\<lambda>f. wifi_read e (Twt h) arg_num q s (\<lambda>p. ran S_status (f p) s)) in
      case h of
        Req_wifi_sta_twt_config \<Rightarrow> wifi_read e (Twt h) arg_twt q s (\<lambda>p.
          ran_opt S_status (req_wifi_sta_twt_config d al p) s)
      | Req_wifi_sta_itwt_setup \<Rightarrow> wifi_read e (Twt h) arg_itwt q s (\<lambda>p.
          ran_opt S_status (req_wifi_sta_itwt_setup d al p) s)
      | Req_wifi_sta_itwt_teardown \<Rightarrow> set_num (req_wifi_sta_itwt_teardown d al)
      | Req_wifi_sta_itwt_suspend \<Rightarrow> wifi_read e (Twt h) arg_two q s (\<lambda>p.
          ran S_status (req_wifi_sta_itwt_suspend d al p) s)
      | Req_wifi_sta_itwt_get_flow_id_status \<Rightarrow> ran S_num' (req_wifi_sta_itwt_get_flow_id_status d al) s
      | Req_wifi_sta_itwt_send_probe_req \<Rightarrow> set_num (req_wifi_sta_itwt_send_probe_req d al)
      | Req_wifi_sta_itwt_set_target_wake_time_offset \<Rightarrow>
          set_num (req_wifi_sta_itwt_set_target_wake_time_offset d al))"

definition wifi_dpp :: "wifi_env \<Rightarrow> dpp_handler \<Rightarrow> wifi_req option \<Rightarrow> wifi_sys \<Rightarrow> wifi_outcome" where
  "wifi_dpp e h q s =
     (let d = we_drv e; al = we_alloc e in
      case h of
        Req_supp_dpp_init \<Rightarrow> wifi_read e (Dpp h) arg_cb q s (\<lambda>p.
          ran S_status (req_supp_dpp_init d (we_supp e) al p) s)
      | Req_supp_dpp_deinit \<Rightarrow> ran S_status (req_supp_dpp_deinit d al) s
      | Req_supp_dpp_bootstrap_gen \<Rightarrow> wifi_read e (Dpp h) arg_boot q s (\<lambda>p.
          ran S_status (req_supp_dpp_bootstrap_gen d al p) s)
      | Req_supp_dpp_start_listen \<Rightarrow> ran S_status (req_supp_dpp_start_listen d al) s
      | Req_supp_dpp_stop_listen \<Rightarrow> ran S_status (req_supp_dpp_stop_listen d al) s)"

definition wifi_handle :: "wifi_env \<Rightarrow> req_handler \<Rightarrow> wifi_req option \<Rightarrow> wifi_sys \<Rightarrow> wifi_outcome" where
  "wifi_handle e h q s =
     (case h of
        Wifi w \<Rightarrow> wifi_main e w q s
      | Link l \<Rightarrow> wifi_link e l q s
      | Band b \<Rightarrow> wifi_band e b q s
      | Twt t \<Rightarrow> wifi_twt e t q s
      | Dpp p \<Rightarrow> wifi_dpp e p q s
      | _ \<Rightarrow> None)"

subsection \<open>Types of requests and answers\<close>

text \<open>
  The shape of the arguments of each request, with the parts the handlers read without a check present;
  and the kind of each answer.
\<close>

definition config_ok :: "int \<times> cfg_msg option \<Rightarrow> bool" where
  "config_ok p = (case p of
      (i, Some (Msg_sta _)) \<Rightarrow> i \<noteq> 1
    | (i, Some (Msg_ap _)) \<Rightarrow> i \<noteq> 0
    | _ \<Rightarrow> True)"

definition scan_ok :: "scan_start_req \<Rightarrow> bool" where
  "scan_ok q = (case sr_config q of
      None \<Rightarrow> True
    | Some m \<Rightarrow> sr_config_set q = 0 \<or> (\<exists>p t. sq_scan_time m = Some (p, Some t)))"

definition params_ok :: "params_req \<Rightarrow> bool" where
  "params_ok q = (case pq_config q of
      None \<Rightarrow> True
    | Some m \<Rightarrow> pq_is_null q \<or> pq_cmd q \<noteq> 2 \<or> (\<exists>p t. fst m = Some (p, Some t)))"

definition main_arg_ok :: "wifi_handler \<Rightarrow> wifi_arg \<Rightarrow> bool" where
  "main_arg_ok h a =
     (case h of
        Req_wifi_get_mac \<Rightarrow> arg_num a \<noteq> None | Req_wifi_set_mode \<Rightarrow> arg_num a \<noteq> None
      | Req_wifi_set_mac \<Rightarrow> arg_mac a \<noteq> None | Req_wifi_set_ps \<Rightarrow> arg_num a \<noteq> None
      | Req_wifi_set_max_tx_power \<Rightarrow> arg_num a \<noteq> None | Req_wifi_init \<Rightarrow> arg_init a \<noteq> None
      | Req_wifi_set_config \<Rightarrow> (\<exists>p. arg_config a = Some p \<and> config_ok p)
      | Req_wifi_scan_params \<Rightarrow> (\<exists>p. arg_params a = Some p \<and> params_ok p)
      | Req_wifi_get_config \<Rightarrow> arg_iface a \<noteq> None
      | Req_wifi_scan_start \<Rightarrow> (\<exists>p. arg_scan a = Some p \<and> scan_ok p)
      | Req_wifi_scan_get_ap_records \<Rightarrow> arg_num a \<noteq> None
      | _ \<Rightarrow> True)"

definition link_arg_ok :: "link_handler \<Rightarrow> wifi_arg \<Rightarrow> bool" where
  "link_arg_ok h a =
     (if h \<in> {Req_wifi_deauth_sta, Req_wifi_set_storage, Req_wifi_get_protocol, Req_wifi_get_bandwidth,
             Req_wifi_get_inactive_time} then arg_num a \<noteq> None
      else if h \<in> {Req_wifi_set_protocol, Req_wifi_set_bandwidth, Req_wifi_set_channel,
             Req_wifi_set_inactive_time} then arg_two a \<noteq> None
      else if h = Req_wifi_set_country_code then arg_code a \<noteq> None
      else if h = Req_wifi_set_country then arg_country a \<noteq> None
      else if h = Req_wifi_ap_get_sta_aid then arg_bytes a \<noteq> None
      else True)"

definition band_arg_ok :: "band_handler \<Rightarrow> wifi_arg \<Rightarrow> bool" where
  "band_arg_ok h a =
     (if h \<in> {Req_wifi_set_protocols, Req_wifi_set_bandwidths} then arg_bands a \<noteq> None
      else if h \<in> {Req_wifi_get_band, Req_wifi_get_band_mode} then True else arg_num a \<noteq> None)"

definition twt_arg_ok :: "twt_handler \<Rightarrow> wifi_arg \<Rightarrow> bool" where
  "twt_arg_ok h a =
     (case h of
        Req_wifi_sta_twt_config \<Rightarrow> (\<exists>t. arg_twt a = Some (Some t))
      | Req_wifi_sta_itwt_setup \<Rightarrow> (\<exists>t. arg_itwt a = Some (Some t))
      | Req_wifi_sta_itwt_suspend \<Rightarrow> arg_two a \<noteq> None
      | Req_wifi_sta_itwt_get_flow_id_status \<Rightarrow> True
      | _ \<Rightarrow> arg_num a \<noteq> None)"

definition dpp_arg_ok :: "dpp_handler \<Rightarrow> wifi_arg \<Rightarrow> bool" where
  "dpp_arg_ok h a =
     (case h of
        Req_supp_dpp_init \<Rightarrow> arg_cb a \<noteq> None
      | Req_supp_dpp_bootstrap_gen \<Rightarrow> arg_boot a \<noteq> None
      | _ \<Rightarrow> True)"

definition wifi_arg_ok :: "req_handler \<Rightarrow> wifi_arg \<Rightarrow> bool" where
  "wifi_arg_ok h a =
     (case h of Wifi w \<Rightarrow> main_arg_ok w a | Link l \<Rightarrow> link_arg_ok l a | Band b \<Rightarrow> band_arg_ok b a
      | Twt t \<Rightarrow> twt_arg_ok t a | Dpp p \<Rightarrow> dpp_arg_ok p a | _ \<Rightarrow> False)"

text \<open>The kind of answer to each request.\<close>

datatype answer_type = K_status | K_num | K_two | K_bytes | K_bands | K_country | K_config | K_params | K_record
  | K_scan | K_stations

fun resp_kind :: "wifi_resp \<Rightarrow> answer_type" where
  "resp_kind (S_status _) = K_status" | "resp_kind (S_num _ _) = K_num" | "resp_kind (S_two _ _ _) = K_two"
| "resp_kind (S_bytes _ _) = K_bytes" | "resp_kind (S_bands _ _ _) = K_bands"
| "resp_kind (S_country _ _) = K_country" | "resp_kind (S_config _) = K_config"
| "resp_kind (S_params _ _) = K_params" | "resp_kind (S_record _ _) = K_record"
| "resp_kind (S_scan _) = K_scan" | "resp_kind (S_stations _) = K_stations"

definition main_kind :: "wifi_handler \<Rightarrow> answer_type" where
  "main_kind h =
     (case h of
        Req_wifi_get_mac \<Rightarrow> K_bytes | Req_wifi_get_mode \<Rightarrow> K_num | Req_wifi_get_ps \<Rightarrow> K_num
      | Req_wifi_get_max_tx_power \<Rightarrow> K_num | Req_wifi_scan_get_ap_num \<Rightarrow> K_num
      | Req_wifi_get_config \<Rightarrow> K_config | Req_wifi_scan_params \<Rightarrow> K_params
      | Req_wifi_scan_get_ap_record \<Rightarrow> K_record | Req_wifi_scan_get_ap_records \<Rightarrow> K_scan
      | _ \<Rightarrow> K_status)"

definition link_kind :: "link_handler \<Rightarrow> answer_type" where
  "link_kind h =
     (case h of
        Req_wifi_sta_get_ap_info \<Rightarrow> K_record | Req_wifi_get_protocol \<Rightarrow> K_num | Req_wifi_get_bandwidth \<Rightarrow> K_num
      | Req_wifi_get_channel \<Rightarrow> K_two | Req_wifi_get_country_code \<Rightarrow> K_bytes | Req_wifi_get_country \<Rightarrow> K_country
      | Req_wifi_ap_get_sta_list \<Rightarrow> K_stations | Req_wifi_ap_get_sta_aid \<Rightarrow> K_num | Req_wifi_sta_get_rssi \<Rightarrow> K_num
      | Req_wifi_sta_get_aid \<Rightarrow> K_num | Req_wifi_sta_get_negotiated_phymode \<Rightarrow> K_num
      | Req_wifi_get_inactive_time \<Rightarrow> K_num
      | _ \<Rightarrow> K_status)"

definition band_kind :: "band_handler \<Rightarrow> answer_type" where
  "band_kind h =
     (case h of
        Req_wifi_get_protocols \<Rightarrow> K_bands | Req_wifi_get_bandwidths \<Rightarrow> K_bands
      | Req_wifi_set_band \<Rightarrow> K_status | Req_wifi_set_band_mode \<Rightarrow> K_status
      | _ \<Rightarrow> K_num)"

definition answer_kind :: "req_handler \<Rightarrow> answer_type" where
  "answer_kind h =
     (case h of Wifi w \<Rightarrow> main_kind w | Link l \<Rightarrow> link_kind l | Band b \<Rightarrow> band_kind b
      | Twt t \<Rightarrow> (if t = Req_wifi_sta_itwt_get_flow_id_status then K_num else K_status)
      | _ \<Rightarrow> K_status)"

definition answered_well :: "req_handler \<Rightarrow> wifi_outcome \<Rightarrow> bool" where
  "answered_well h out \<longleftrightarrow> (\<exists>r s'. out = Some ((ESP_OK, Some r), s') \<and> resp_kind r = answer_kind h)"

subsection \<open>Lemmas\<close>

lemma wifi_read_own:
  "we_alloc e \<Longrightarrow> sel a = Some p \<Longrightarrow> wifi_read e h sel (Some (h, a)) s body = body (Some p)"
  by (simp add: wifi_read_def with_payload_def)

lemma ran_well:
  "fst (fst r) = ESP_OK \<Longrightarrow> snd (fst r) = Some x \<Longrightarrow> resp_kind (f x) = answer_kind h \<Longrightarrow> answered_well h (ran f r s)"
  by (auto simp: ran_def answered_well_def lift_answer_def intro!: exI)

lemma ran_opt_well:
  "r = Some y \<Longrightarrow> fst (fst y) = ESP_OK \<Longrightarrow> snd (fst y) = Some x \<Longrightarrow> resp_kind (f x) = answer_kind h \<Longrightarrow>
    answered_well h (ran_opt f r s)"
  by (simp add: ran_opt_def ran_well)

lemma dpp_well:
  assumes "we_alloc e" "dpp_arg_ok h a"
  shows "answered_well (Dpp h) (wifi_dpp e h (Some (Dpp h, a)) s)"
  using assms
  by (cases h) (auto simp: wifi_dpp_def dpp_arg_ok_def wifi_read_own req_supp_dpp_init_def req_supp_dpp_deinit_def
      req_supp_dpp_bootstrap_gen_def req_supp_dpp_start_listen_def req_supp_dpp_stop_listen_def
      wifi_req Let_def answer_kind_def intro!: ran_well)

lemma twt_well:
  assumes "we_alloc e" "twt_arg_ok h a"
  shows "answered_well (Twt h) (wifi_twt e h (Some (Twt h, a)) s)"
  using assms
  by (cases h) (auto simp: wifi_twt_def twt_arg_ok_def wifi_read_own req_wifi_sta_twt_config_def
      req_wifi_sta_itwt_setup_def req_wifi_sta_itwt_teardown_def req_wifi_sta_itwt_suspend_def
      req_wifi_sta_itwt_get_flow_id_status_def req_wifi_sta_itwt_send_probe_req_def
      req_wifi_sta_itwt_set_target_wake_time_offset_def S_num'_def
      wifi_req Let_def answer_kind_def intro!: ran_well ran_opt_well)

lemma band_well:
  assumes "we_alloc e" "band_arg_ok h a"
  shows "answered_well (Band h) (wifi_band e h (Some (Band h, a)) s)"
  using assms
  by (cases h) (auto simp: wifi_band_def band_arg_ok_def wifi_read_own req_wifi_set_protocols_def
      req_wifi_get_protocols_def req_wifi_set_bandwidths_def req_wifi_get_bandwidths_def req_wifi_set_band_def
      req_wifi_get_band_def req_wifi_set_band_mode_def req_wifi_get_band_mode_def S_num'_def ask_bands_def
      rpc_ret_fail_if_def wifi_req Let_def answer_kind_def band_kind_def split: option.split intro!: ran_well)

lemma records_answered:
  "\<exists>x. req_wifi_sta_get_ap_info d r True mem = ((ESP_OK, Some x), [W_sta_get_ap_info])"
  "\<exists>x calls. req_wifi_scan_get_ap_record d r True tmp mem = ((ESP_OK, Some x), calls)"
  by (simp_all add: req_wifi_sta_get_ap_info_def req_wifi_scan_get_ap_record_def rpc_ret_fail_if_def)

lemma stations_answered:
  "\<exists>x. req_wifi_ap_get_sta_list d stas stale True part arr mem = ((ESP_OK, Some x), [W_ap_get_sta_list])"
  by (simp add: req_wifi_ap_get_sta_list_def rpc_ret_fail_if_def Let_def split: prod.split option.split)

lemma countries_answered:
  "\<exists>x. req_wifi_get_country_code d True copy_ok = ((ESP_OK, Some x), [W_get_country_code])"
  "\<exists>x. req_wifi_get_country d True part copy_ok = ((ESP_OK, Some x), [W_get_country])"
  by (simp_all add: req_wifi_get_country_code_def req_wifi_get_country_def rpc_ret_fail_if_def Let_def
      split: option.split)

lemma ran_two_well:
  "\<exists>x c. r = ((ESP_OK, Some x), c) \<Longrightarrow> (\<And>a b. resp_kind (f a b) = answer_kind h) \<Longrightarrow>
    answered_well h (ran (\<lambda>(a, b). f a b) r s)"
  by (auto simp: ran_def answered_well_def lift_answer_def)

lemma ran_ex_well:
  "\<exists>x c. r = ((ESP_OK, Some x), c) \<Longrightarrow> (\<And>x. resp_kind (f x) = answer_kind h) \<Longrightarrow> answered_well h (ran f r s)"
  by (auto simp: ran_def answered_well_def lift_answer_def)

lemma link_well:
  assumes "we_alloc e" "link_arg_ok h a"
  shows "answered_well (Link h) (wifi_link e h (Some (Link h, a)) s)"
proof (cases h)
  case Req_wifi_sta_get_ap_info
  show ?thesis unfolding Req_wifi_sta_get_ap_info wifi_link_def
    by (simp add: assms(1) Let_def) (rule ran_two_well,
      use records_answered(1) in \<open>blast, simp add: answer_kind_def link_kind_def\<close>)
next
  case Req_wifi_ap_get_sta_list
  show ?thesis unfolding Req_wifi_ap_get_sta_list wifi_link_def
    by (simp add: assms(1) Let_def) (rule ran_ex_well,
      use stations_answered in \<open>blast, simp add: answer_kind_def link_kind_def\<close>)
next
  case Req_wifi_get_country_code
  show ?thesis unfolding Req_wifi_get_country_code wifi_link_def
    by (simp add: assms(1) Let_def) (rule ran_two_well,
      use countries_answered(1) in \<open>blast, simp add: answer_kind_def link_kind_def\<close>)
next
  case Req_wifi_get_country
  show ?thesis unfolding Req_wifi_get_country wifi_link_def
    by (simp add: assms(1) Let_def) (rule ran_two_well,
      use countries_answered(2) in \<open>blast, simp add: answer_kind_def link_kind_def\<close>)
qed (use assms in \<open>auto simp: wifi_link_def link_arg_ok_def wifi_read_own req_wifi_deauth_sta_def
      req_wifi_set_storage_def req_wifi_set_protocol_def req_wifi_get_protocol_def req_wifi_set_bandwidth_def
      req_wifi_get_bandwidth_def req_wifi_set_channel_def req_wifi_get_channel_def req_wifi_set_country_code_def
      req_wifi_set_country_def req_wifi_ap_get_sta_aid_def req_wifi_sta_get_rssi_def req_wifi_sta_get_aid_def
      req_wifi_sta_get_negotiated_phymode_def req_wifi_set_inactive_time_def req_wifi_get_inactive_time_def
      S_num'_def wifi_req Let_def answer_kind_def link_kind_def split: option.split intro!: ran_well\<close>)

lemma mac_answered: "\<exists>x c. req_wifi_get_mac d True copy_ok (Some m) = Some ((ESP_OK, Some x), c)"
  by (simp add: req_wifi_get_mac_def rpc_ret_fail_if_def Let_def split: option.split)

lemma init_answered: "\<exists>r i. req_wifi_init b True real (Some c) s = ((ESP_OK, Some r), i)"
  by (cases c) (simp_all add: req_wifi_init_def rpc_ret_fail_if_def split: prod.split)

lemma set_config_answered:
  assumes "config_ok p" shows "\<exists>r m ap. req_wifi_set_config True rs ra (Some p) s = Some ((ESP_OK, Some r), m, ap)"
  using assms unfolding req_wifi_set_config_def config_ok_def
  by (auto simp: msg_sta_def msg_ap_def rpc_ret_fail_if_def split: prod.split option.splits cfg_msg.splits)

lemma params_answered:
  assumes "params_ok p" shows "\<exists>x c. req_wifi_scan_params d cur True mem (Some p) = Some ((ESP_OK, Some x), c)"
  using assms unfolding req_wifi_scan_params_def params_ok_def
  by (cases "pq_config p"; cases cur) (auto simp: rpc_ret_fail_if_def Let_def split: option.splits prod.splits)

lemma copy_sta_ret: "fst (copy_wifi_sta_cfg_to_rpc_struct mem c) = ESP_OK"
  by (simp add: copy_wifi_sta_cfg_to_rpc_struct_def Let_def split: option.split)

lemma get_config_answered: "\<exists>r. req_wifi_get_config True mem cfg sta ap (Some i) = (ESP_OK, Some r)"
  using copy_sta_ret [of mem "snd sta"]
  by (auto simp: req_wifi_get_config_def rpc_ret_fail_if_def Let_def split: prod.split)

lemma scan_answered:
  assumes "scan_ok q" shows "\<exists>x c. req_wifi_scan_start d True (Some q) = Some ((ESP_OK, Some x), c)"
  using assms by (cases "sr_config q")
    (auto simp: req_wifi_scan_start_def scan_ok_def scan_from_msg_def wifi_req)

lemma list_answered: "\<exists>x c. req_wifi_scan_get_ap_records d found True tmp arr mem (Some n) = Some ((ESP_OK, Some x), c)"
  by (simp add: req_wifi_scan_get_ap_records_def Let_def split: prod.split)

lemma deinit_answered: "\<exists>r i. req_wifi_deinit True e s = ((ESP_OK, Some r), i)"
  by (simp add: req_wifi_deinit_def rpc_ret_fail_if_def Let_def)

lemma start_answered: "\<exists>r i. req_wifi_start True e m n1 n2 s = ((ESP_OK, Some r), i)"
  by (simp add: req_wifi_start_def rpc_ret_fail_if_def)

lemma connect_answered: "\<exists>r i. req_wifi_connect True c ssid e s = ((ESP_OK, Some r), i)"
  by (simp add: req_wifi_connect_def)

lemma opt_two_well:
  "\<exists>x c. r = Some ((ESP_OK, Some x), c) \<Longrightarrow> (\<And>a b. resp_kind (f a b) = answer_kind h) \<Longrightarrow>
    answered_well h (ran_opt (\<lambda>(a, b). f a b) r s)"
  by (auto simp: ran_opt_def ran_def answered_well_def lift_answer_def)

lemma opt_ex_well:
  "\<exists>x c. r = Some ((ESP_OK, Some x), c) \<Longrightarrow> (\<And>x. resp_kind (f x) = answer_kind h) \<Longrightarrow>
    answered_well h (ran_opt f r s)"
  by (auto simp: ran_opt_def ran_def answered_well_def lift_answer_def)

lemmas main_kinds = answer_kind_def main_kind_def

lemma main_well:
  assumes "we_alloc e" "main_arg_ok h a"
  shows "answered_well (Wifi h) (wifi_main e h (Some (Wifi h, a)) s)"
proof (cases h)
  case Req_wifi_get_mac
  show ?thesis using assms mac_answered unfolding Req_wifi_get_mac
    by (auto simp: wifi_main_def main_arg_ok_def wifi_read_own Let_def main_kinds intro!: opt_two_well)
next
  case Req_wifi_init
  then obtain c where c: "arg_init a = Some c" using assms(2) by (auto simp: main_arg_ok_def)
  obtain r i where "req_wifi_init (we_init e) True (we_real_init e) (Some c) (wy_init s) = ((ESP_OK, Some r), i)"
    using init_answered by blast
  then show ?thesis using assms(1) c unfolding Req_wifi_init
    by (simp add: wifi_main_def wifi_read_own Let_def main_kinds answered_well_def lift_answer_def)
next
  case Req_wifi_deinit
  obtain r i where "req_wifi_deinit True (we_deinit e) (wy_init s) = ((ESP_OK, Some r), i)"
    using deinit_answered by blast
  then show ?thesis using assms(1) unfolding Req_wifi_deinit
    by (simp add: wifi_main_def Let_def main_kinds answered_well_def lift_answer_def)
next
  case Req_wifi_start
  obtain r m n1 n2 where st: "we_start e = (r, m, n1, n2)" by (cases "we_start e")
  obtain x i where "req_wifi_start True r m n1 n2 (wy_mgr s) = ((ESP_OK, Some x), i)"
    using start_answered by blast
  then show ?thesis using assms(1) st unfolding Req_wifi_start
    by (simp add: wifi_main_def Let_def main_kinds answered_well_def lift_answer_def)
next
  case Req_wifi_connect
  obtain c ssid r where co: "we_connect e = (c, ssid, r)" by (cases "we_connect e")
  obtain x i where "req_wifi_connect True c ssid r (wy_mgr s) = ((ESP_OK, Some x), i)"
    using connect_answered by blast
  then show ?thesis using assms(1) co unfolding Req_wifi_connect
    by (simp add: wifi_main_def Let_def main_kinds answered_well_def lift_answer_def)
next
  case Req_wifi_set_config
  then obtain p where p: "arg_config a = Some p" "config_ok p" using assms(2) by (auto simp: main_arg_ok_def)
  obtain r m ap where "req_wifi_set_config True (we_set_sta e) (we_set_ap e) (Some p) (wy_mgr s) =
      Some ((ESP_OK, Some r), m, ap)" using set_config_answered [OF p(2)] by blast
  then show ?thesis using assms(1) p(1) unfolding Req_wifi_set_config
    by (simp add: wifi_main_def wifi_read_own Let_def main_kinds answered_well_def lift_answer_def)
next
  case Req_wifi_scan_params
  then obtain p where p: "arg_params a = Some p" "params_ok p" using assms(2) by (auto simp: main_arg_ok_def)
  show ?thesis unfolding Req_wifi_scan_params wifi_main_def
    by (simp add: assms(1) wifi_read_own p(1) Let_def) (rule opt_two_well,
      use params_answered [OF p(2)] in \<open>blast, simp add: main_kinds\<close>)
next
  case Req_wifi_get_config
  then obtain i where i: "arg_iface a = Some i" using assms(2) by (auto simp: main_arg_ok_def)
  obtain r where "req_wifi_get_config True (we_mem e) (we_mem e 6) (we_get_sta e) (we_get_ap e) (Some i) = (ESP_OK, Some r)"
    using get_config_answered by blast
  then show ?thesis using assms(1) i unfolding Req_wifi_get_config
    by (simp add: wifi_main_def wifi_read_own Let_def main_kinds answered_well_def lift_answer_def)
next
  case Req_wifi_scan_start
  show ?thesis using assms scan_answered unfolding Req_wifi_scan_start
    by (auto simp: wifi_main_def main_arg_ok_def wifi_read_own Let_def main_kinds intro!: opt_ex_well)
next
  case Req_wifi_scan_get_ap_record
  show ?thesis using assms(1) records_answered(2) unfolding Req_wifi_scan_get_ap_record
    by (auto simp: wifi_main_def Let_def main_kinds intro!: ran_two_well)
next
  case Req_wifi_scan_get_ap_records
  show ?thesis using assms list_answered unfolding Req_wifi_scan_get_ap_records
    by (auto simp: wifi_main_def main_arg_ok_def wifi_read_own Let_def main_kinds intro!: opt_ex_well)
qed (use assms in \<open>auto simp: wifi_main_def main_arg_ok_def wifi_read_own req_wifi_get_mode_def req_wifi_set_mode_def
      req_wifi_set_mac_def req_wifi_set_ps_def req_wifi_get_ps_def req_wifi_set_max_tx_power_def
      req_wifi_get_max_tx_power_def req_wifi_stop_def req_wifi_disconnect_def req_wifi_scan_stop_def
      req_wifi_scan_get_ap_num_def req_wifi_clear_ap_list_def req_wifi_restore_def req_wifi_clear_fast_connect_def
      S_num'_def wifi_req Let_def main_kinds intro!: ran_well\<close>)

subsection \<open>The connection manager\<close>

definition wifi_ok :: "wifi_sys \<Rightarrow> bool" where
  "wifi_ok s \<longleftrightarrow> wm_ok (wy_up s, wy_mgr s)"

text \<open>Before the first request: no link, nothing under way, nothing told.\<close>

definition wifi_cold :: "wifi_sys \<Rightarrow> bool" where
  "wifi_cold s \<longleftrightarrow> \<not> wy_up s \<and> (let m = wy_mgr s in
     \<not> wm_recvd m \<and> \<not> wm_suppress m \<and> \<not> wm_connecting m \<and> \<not> wm_connected m \<and>
     \<not> wm_rx_sta m \<and> \<not> wm_rx_ap m \<and> \<not> wm_softap m \<and> wm_log m = [])"

lemma wifi_cold_ok: "wifi_cold s \<Longrightarrow> wifi_ok s"
  by (simp add: wifi_cold_def wifi_ok_def wm_ok_def Let_def)

lemma wifi_ok_fields [simp]:
  "wifi_ok (s\<lparr>wy_init := i\<rparr>) = wifi_ok s" "wifi_ok (s\<lparr>wy_ap := aps\<rparr>) = wifi_ok s"
  "wifi_ok (s\<lparr>wy_calls := c\<rparr>) = wifi_ok s" "wifi_ok (s\<lparr>wy_mgr := m\<rparr>) = wm_ok (wy_up s, m)"
  by (simp_all add: wifi_ok_def)

lemma ran_keeps [simp]:
  "ran f r s = Some (a, s') \<Longrightarrow> wifi_ok s' = wifi_ok s"
  "ran_opt f o' s = Some (a, s') \<Longrightarrow> wifi_ok s' = wifi_ok s"
  by (auto simp: ran_def ran_opt_def split: option.splits)

lemma wifi_read_keeps:
  assumes "wifi_read e h sel q s body = Some (a, s')" "wifi_ok s"
    "\<And>p. body p = Some (a, s') \<Longrightarrow> wifi_ok s'"
  shows "wifi_ok s'"
  using with_payload_cases [OF assms(1) [unfolded wifi_read_def]] assms(2,3) by auto

lemma set_config_mgr:
  assumes "req_wifi_set_config alloc rs ra q m = Some (a, m', ap)" "wm_ok (up, m)"
  shows "wm_ok (up, m')"
proof -
  have "m' = m \<or> (\<exists>g r. esp_hosted_set_sta_config rs g m = (r, m'))"
    using assms(1)
    by (auto simp: req_wifi_set_config_def rpc_template_def rpc_ret_fail_if_def
        split: option.splits if_splits cfg_msg.splits prod.splits)
  then show ?thesis using assms(2) set_config_ok [of up m rs] by (metis snd_conv)
qed

lemma main_keeps:
  assumes "wifi_main e h q s = Some (a, s')" "wifi_ok s"
  shows "wifi_ok s'"
proof (cases h)
  case Req_wifi_start
  obtain r m n1 n2 where "we_start e = (r, m, n1, n2)" by (cases "we_start e")
  then show ?thesis using assms Req_wifi_start wm_start_ok [of "wy_up s" "wy_mgr s" "we_alloc e" r m n1 n2]
    by (auto simp: wifi_main_def Let_def wifi_ok_def)
next
  case Req_wifi_connect
  obtain c ssid r where "we_connect e = (c, ssid, r)" by (cases "we_connect e")
  then show ?thesis using assms Req_wifi_connect connect_ok [of "wy_up s" "wy_mgr s" "we_alloc e" c ssid r]
    by (auto simp: wifi_main_def Let_def wifi_ok_def)
next
  case Req_wifi_set_config
  show ?thesis using assms(1) unfolding Req_wifi_set_config wifi_main_def Let_def
    by (simp, elim wifi_read_keeps) (use assms(2) set_config_mgr in
      \<open>auto simp: wifi_ok_def split: option.splits prod.splits\<close>)
qed (use assms in \<open>auto simp: wifi_main_def Let_def split: prod.splits elim!: wifi_read_keeps\<close>)

lemma link_keeps: "wifi_link e h q s = Some (a, s') \<Longrightarrow> wifi_ok s \<Longrightarrow> wifi_ok s'"
  by (cases h) (auto simp: wifi_link_def Let_def elim!: wifi_read_keeps)

lemma band_keeps: "wifi_band e h q s = Some (a, s') \<Longrightarrow> wifi_ok s \<Longrightarrow> wifi_ok s'"
  by (cases h) (auto simp: wifi_band_def Let_def elim!: wifi_read_keeps)

lemma twt_keeps: "wifi_twt e h q s = Some (a, s') \<Longrightarrow> wifi_ok s \<Longrightarrow> wifi_ok s'"
  by (cases h) (auto simp: wifi_twt_def Let_def elim!: wifi_read_keeps)

lemma dpp_keeps: "wifi_dpp e h q s = Some (a, s') \<Longrightarrow> wifi_ok s \<Longrightarrow> wifi_ok s'"
  by (cases h) (auto simp: wifi_dpp_def Let_def elim!: wifi_read_keeps)

lemma wifi_handle_keeps:
  assumes "wifi_handle e h q s = Some (a, s')" "wifi_ok s" shows "wifi_ok s'"
  using assms main_keeps link_keeps band_keeps twt_keeps dpp_keeps
  by (cases h) (auto simp: wifi_handle_def)

subsection \<open>Properties\<close>


definition demo_wifi_env :: wifi_env where
  "demo_wifi_env = \<lparr> we_drv = quiet_drv, we_alloc = True, we_mem = (\<lambda>_. True), we_rec_mem = (\<lambda>_ _. True),
     we_init = c2_build, we_real_init = 0, we_deinit = 0, we_start = (0, (0, 1), [], []),
     we_connect = (True, True, 0), we_set_sta = 0, we_set_ap = 0,
     we_get_sta = (0, sta_from_msg no_sta_msg), we_get_ap = (0, ap_from_msg no_ap_msg), we_params = (0, 0, 0, 0),
     we_found = (\<lambda>_. [demo_ap_rec]), we_record = demo_ap_rec, we_stations = ([], []), we_stale_mac = [],
     we_supp = True \<rparr>"

definition demo_wifi_sys :: wifi_sys where
  "demo_wifi_sys = \<lparr> wy_up = False, wy_init = cold_wifi,
     wy_mgr = \<lparr>wm_new_config = sta_from_msg no_sta_msg, wm_recvd = False, wm_suppress = False, wm_retries = 0,
       wm_connecting = False, wm_connected = False, wm_softap = False, wm_lkg = [], wm_rx_sta = False,
       wm_rx_ap = False, wm_log = []\<rparr>, wy_ap = [], wy_calls = [] \<rparr>"

lemma demo_wifi_cold: "wifi_cold demo_wifi_sys"
  by (simp add: wifi_cold_def demo_wifi_sys_def)


end
