(* ===== verification/Wifi_Enterprise.thy ===== *)
theory Wifi_Enterprise
  imports Rpc_Dispatch
begin

section \<open>Enterprise authentication (slave_wifi_enterprise.c)\<close>

text \<open>
  The requests that pass credentials to the EAP client. The client keeps the pointers to certificates and
  keys it is given, so the file keeps copies of them in the heap, in global variables. The heap is
  explicit: live blocks by address, and what each block held when it was freed. An access outside a block
  or to a freed block is \<open>None\<close>.
\<close>

subsection \<open>Calls and state\<close>

datatype cert_slot = Ca_cert | Client_cert | Private_key | Key_password

text \<open>
  The EAP client's functions. Data of a message is passed as it is with a length the message gives
  besides; an argument that is kept is an address.
\<close>

datatype eap_call =
    E_enable | E_disable
  | E_set_identity "byte list" int | E_clear_identity
  | E_set_username "byte list" int | E_clear_username
  | E_set_password "byte list" int | E_clear_password | E_clear_new_password
  | E_set_ca_cert "nat option" int | E_clear_ca_cert
  | E_set_cert_and_key "cert_slot \<Rightarrow> nat option \<times> int" | E_clear_cert_and_key
  | E_set_disable_time_check bool | E_get_disable_time_check
  | E_set_ttls_phase2_method int | E_set_suiteb_192bit bool
  | E_set_pac_file "byte list" int | E_set_fast_params int int bool
  | E_use_default_cert_bundle bool | E_set_okc_support bool
  | E_set_domain_name "byte list" | E_set_eap_methods int

text \<open>A variable is a pointer and a length: \<open>g_ca_cert\<close> with \<open>g_ca_cert_len\<close>, and so on.\<close>

record eap =
  ep_var :: "cert_slot \<Rightarrow> nat option \<times> int"
  ep_mem :: "nat \<Rightarrow> byte list option"
  ep_next :: nat
  ep_freed :: "byte list list"
  ep_log :: "(eap_call \<times> esp_err) list"

type_synonym 'r eap_out = "('r answered \<times> eap) option"

definition eap_start :: eap where
  "eap_start = \<lparr> ep_var = (\<lambda>_. (None, 0)), ep_mem = (\<lambda>_. None), ep_next = 0, ep_freed = [], ep_log = [] \<rparr>"

subsection \<open>The copies\<close>

text \<open>\<open>CLEAR_CERT\<close>: the block is overwritten with zeros before it is freed.\<close>

definition clear_cert :: "cert_slot \<Rightarrow> eap \<Rightarrow> eap option" where
  "clear_cert v s =
     (case ep_var s v of
        (None, n) \<Rightarrow> Some (s\<lparr>ep_var := (ep_var s)(v := (None, 0))\<rparr>)
      | (Some a, n) \<Rightarrow>
          (case ep_mem s a of
             None \<Rightarrow> None
           | Some b \<Rightarrow>
               if n < 0 \<or> int (length b) < n then None
               else Some (s\<lparr>ep_var := (ep_var s)(v := (None, 0)), ep_mem := (ep_mem s)(a := None),
                            ep_freed := ep_freed s @ [replicate (nat n) 0 @ drop (nat n) b]\<rparr>)))"

definition free_g_ca_cert :: "eap \<Rightarrow> eap option" where
  "free_g_ca_cert = clear_cert Ca_cert"

definition free_all_g_eap_cert_and_key :: "eap \<Rightarrow> eap option" where
  "free_all_g_eap_cert_and_key s =
     Option.bind (clear_cert Client_cert s) (\<lambda>s1. Option.bind (clear_cert Private_key s1) (clear_cert Key_password))"

text \<open>
  A new copy: the length is set first, and a length of zero makes no copy. A negative length is more
  than any heap has. The result says whether there was memory.
\<close>

definition store_cert :: "bool \<Rightarrow> cert_slot \<Rightarrow> byte list \<times> int \<Rightarrow> eap \<Rightarrow> (bool \<times> eap) option" where
  "store_cert mem v d s =
     (case d of (data, n) \<Rightarrow>
       let p = fst (ep_var s v) in
       if n = 0 then Some (True, s\<lparr>ep_var := (ep_var s)(v := (p, n))\<rparr>)
       else if n < 0 \<or> \<not> mem then Some (False, s\<lparr>ep_var := (ep_var s)(v := (None, n))\<rparr>)
       else if int (length data) < n then None
       else Some (True, s\<lparr>ep_var := (ep_var s)(v := (Some (ep_next s), n)),
                          ep_mem := (ep_mem s)(ep_next s := Some (take (nat n) data)),
                          ep_next := Suc (ep_next s)\<rparr>))"

subsection \<open>Shapes of handlers\<close>

record eap_env =
  ee_alloc :: bool
  ee_err :: "eap_call \<Rightarrow> esp_err"
  ee_mem :: "cert_slot \<Rightarrow> bool"
  ee_time_check :: bool

definition client_call :: "eap_env \<Rightarrow> eap_call \<Rightarrow> eap \<Rightarrow> int eap_out" where
  "client_call e c s =
     (let s1 = s\<lparr>ep_log := ep_log s @ [(c, ee_err e c)]\<rparr> in
      rpc_ret_fail_if (\<lambda>a. Some (a, s1)) (\<lambda>r. r) (ee_err e c) (Some ((ESP_OK, Some SUCCESS), s1)))"

text \<open>A function without a result.\<close>

definition client_void :: "eap_call \<Rightarrow> eap \<Rightarrow> int eap_out" where
  "client_void c s = Some ((ESP_OK, Some SUCCESS), s\<lparr>ep_log := ep_log s @ [(c, 0)]\<rparr>)"

definition eap_simple :: "eap_env \<Rightarrow> eap \<Rightarrow> 'r eap_out \<Rightarrow> 'r eap_out" where
  "eap_simple e s body = rpc_template_simple (\<lambda>a. Some (a, s)) (ee_alloc e) body"

definition eap_with :: "eap_env \<Rightarrow> 'q option \<Rightarrow> eap \<Rightarrow> ('q \<Rightarrow> 'r eap_out) \<Rightarrow> 'r eap_out" where
  "eap_with e q s body = rpc_template (\<lambda>a. Some (a, s)) (ee_alloc e) q body"

text \<open>\<open>RPC_RET_FAIL_IF\<close> on a condition answers 1.\<close>

definition fail_if :: "bool \<Rightarrow> eap \<Rightarrow> int eap_out \<Rightarrow> int eap_out" where
  "fail_if b s body = rpc_ret_fail_if (\<lambda>a. Some (a, s)) (\<lambda>r. r) (if b then 1 else 0) body"

definition no_data :: "byte list \<times> int \<Rightarrow> bool" where
  "no_data d \<longleftrightarrow> fst d = [] \<or> snd d \<le> 0"

definition give_bytes ::
  "eap_env \<Rightarrow> (byte list \<Rightarrow> int \<Rightarrow> eap_call) \<Rightarrow> (byte list \<times> int) option \<Rightarrow> eap \<Rightarrow> int eap_out" where
  "give_bytes e f q s = eap_with e q s (\<lambda>d. fail_if (no_data d) s (client_call e (f (fst d) (snd d)) s))"

definition give :: "eap_env \<Rightarrow> ('q \<Rightarrow> eap_call) \<Rightarrow> 'q option \<Rightarrow> eap \<Rightarrow> int eap_out" where
  "give e f q s = eap_with e q s (\<lambda>x. client_call e (f x) s)"

subsection \<open>Handlers\<close>

definition req_wifi_sta_enterprise_enable :: "eap_env \<Rightarrow> eap \<Rightarrow> int eap_out" where
  "req_wifi_sta_enterprise_enable e s = eap_simple e s (client_call e E_enable s)"

definition req_wifi_sta_enterprise_disable :: "eap_env \<Rightarrow> eap \<Rightarrow> int eap_out" where
  "req_wifi_sta_enterprise_disable e s =
     eap_simple e s (Option.bind (free_g_ca_cert s) (\<lambda>s1.
       Option.bind (free_all_g_eap_cert_and_key s1) (client_call e E_disable)))"

definition req_eap_set_identity :: "eap_env \<Rightarrow> (byte list \<times> int) option \<Rightarrow> eap \<Rightarrow> int eap_out" where
  "req_eap_set_identity e = give_bytes e E_set_identity"

definition req_eap_clear_identity :: "eap_env \<Rightarrow> eap \<Rightarrow> int eap_out" where
  "req_eap_clear_identity e s = eap_simple e s (client_void E_clear_identity s)"

definition req_eap_set_username :: "eap_env \<Rightarrow> (byte list \<times> int) option \<Rightarrow> eap \<Rightarrow> int eap_out" where
  "req_eap_set_username e = give_bytes e E_set_username"

definition req_eap_clear_username :: "eap_env \<Rightarrow> eap \<Rightarrow> int eap_out" where
  "req_eap_clear_username e s = eap_simple e s (client_void E_clear_username s)"

definition req_eap_set_password :: "eap_env \<Rightarrow> (byte list \<times> int) option \<Rightarrow> eap \<Rightarrow> int eap_out" where
  "req_eap_set_password e = give_bytes e E_set_password"

definition req_eap_clear_password :: "eap_env \<Rightarrow> eap \<Rightarrow> int eap_out" where
  "req_eap_clear_password e s = eap_simple e s (client_void E_clear_password s)"

text \<open>The new password goes to the function that sets the password.\<close>

definition req_eap_set_new_password :: "eap_env \<Rightarrow> (byte list \<times> int) option \<Rightarrow> eap \<Rightarrow> int eap_out" where
  "req_eap_set_new_password e = give_bytes e E_set_password"

definition req_eap_clear_new_password :: "eap_env \<Rightarrow> eap \<Rightarrow> int eap_out" where
  "req_eap_clear_new_password e s = eap_simple e s (client_void E_clear_new_password s)"

definition req_eap_set_ca_cert :: "eap_env \<Rightarrow> (byte list \<times> int) option \<Rightarrow> eap \<Rightarrow> int eap_out" where
  "req_eap_set_ca_cert e q s =
     eap_with e q s (\<lambda>d. fail_if (no_data d) s
       (Option.bind (free_g_ca_cert s) (\<lambda>s1.
         Option.bind (store_cert (ee_mem e Ca_cert) Ca_cert d s1) (\<lambda>(ok, s2).
           if \<not> ok then Some ((ESP_ERR_NO_MEM, Some SUCCESS), s2)
           else client_call e (E_set_ca_cert (fst (ep_var s2 Ca_cert)) (snd (ep_var s2 Ca_cert))) s2))))"

definition req_eap_clear_ca_cert :: "eap_env \<Rightarrow> eap \<Rightarrow> int eap_out" where
  "req_eap_clear_ca_cert e s =
     eap_simple e s (Option.bind (free_g_ca_cert s) (client_void E_clear_ca_cert))"

text \<open>The conditions on each of the three parts: data and length go together.\<close>

definition part_bad :: "byte list \<times> int \<Rightarrow> bool" where
  "part_bad d \<longleftrightarrow> (fst d \<noteq> [] \<and> snd d \<le> 0) \<or> (snd d > 0 \<and> fst d = [])"

text \<open>The remaining copies after the client certificate: all are freed when one does not fit.\<close>

definition store_or_free :: "bool \<Rightarrow> cert_slot \<Rightarrow> byte list \<times> int \<Rightarrow> eap \<Rightarrow> (eap \<Rightarrow> int eap_out) \<Rightarrow> int eap_out" where
  "store_or_free mem v d s next_step =
     Option.bind (store_cert mem v d s) (\<lambda>(ok, s1).
       if ok then next_step s1
       else map_option (\<lambda>s2. ((ESP_ERR_NO_MEM, Some SUCCESS), s2)) (free_all_g_eap_cert_and_key s1))"

definition req_eap_set_certificate_and_key ::
  "eap_env \<Rightarrow> ((byte list \<times> int) \<times> (byte list \<times> int) \<times> byte list \<times> int) option \<Rightarrow> eap \<Rightarrow> int eap_out" where
  "req_eap_set_certificate_and_key e q s =
     eap_with e q s (\<lambda>(cert, key, pass).
       fail_if (part_bad cert) s (fail_if (part_bad key) s (fail_if (part_bad pass) s
         (Option.bind (free_all_g_eap_cert_and_key s) (\<lambda>s1.
           Option.bind (store_cert (ee_mem e Client_cert) Client_cert cert s1) (\<lambda>(ok, s2).
             if \<not> ok then Some ((ESP_ERR_NO_MEM, Some SUCCESS), s2)
             else store_or_free (ee_mem e Private_key) Private_key key s2 (\<lambda>s3.
               store_or_free (ee_mem e Key_password) Key_password pass s3 (\<lambda>s4.
                 client_call e (E_set_cert_and_key ((ep_var s4)(Ca_cert := (None, 0)))) s4))))))))"

definition req_eap_clear_certificate_and_key :: "eap_env \<Rightarrow> eap \<Rightarrow> int eap_out" where
  "req_eap_clear_certificate_and_key e s =
     eap_simple e s (Option.bind (free_all_g_eap_cert_and_key s) (client_void E_clear_cert_and_key))"

definition req_eap_set_disable_time_check :: "eap_env \<Rightarrow> bool option \<Rightarrow> eap \<Rightarrow> int eap_out" where
  "req_eap_set_disable_time_check e = give e E_set_disable_time_check"

definition req_eap_get_disable_time_check :: "eap_env \<Rightarrow> eap \<Rightarrow> (int \<times> bool) eap_out" where
  "req_eap_get_disable_time_check e s =
     (let c = E_get_disable_time_check; s1 = s\<lparr>ep_log := ep_log s @ [(c, ee_err e c)]\<rparr> in
      eap_simple e s (rpc_ret_fail_if (\<lambda>a. Some (a, s1)) (\<lambda>r. (r, False)) (ee_err e c)
        (Some ((ESP_OK, Some (SUCCESS, ee_time_check e)), s1))))"

definition req_eap_set_ttls_phase2_method :: "eap_env \<Rightarrow> int option \<Rightarrow> eap \<Rightarrow> int eap_out" where
  "req_eap_set_ttls_phase2_method e = give e E_set_ttls_phase2_method"

definition req_eap_set_suiteb_certification :: "eap_env \<Rightarrow> bool option \<Rightarrow> eap \<Rightarrow> int eap_out" where
  "req_eap_set_suiteb_certification e = give e E_set_suiteb_192bit"

definition req_eap_set_pac_file :: "eap_env \<Rightarrow> (byte list \<times> int) option \<Rightarrow> eap \<Rightarrow> int eap_out" where
  "req_eap_set_pac_file e = give_bytes e E_set_pac_file"

text \<open>The pointer to the parameters is not checked (\<open>None\<close>).\<close>

definition req_eap_set_fast_params :: "eap_env \<Rightarrow> (int \<times> int \<times> bool) option option \<Rightarrow> eap \<Rightarrow> int eap_out" where
  "req_eap_set_fast_params e q s =
     eap_with e q s (\<lambda>p. Option.bind p (\<lambda>(prov, len, bin). client_call e (E_set_fast_params prov len bin) s))"

definition req_eap_use_default_cert_bundle :: "eap_env \<Rightarrow> bool option \<Rightarrow> eap \<Rightarrow> int eap_out" where
  "req_eap_use_default_cert_bundle e = give e E_use_default_cert_bundle"

definition req_wifi_set_okc_support :: "eap_env \<Rightarrow> bool option \<Rightarrow> eap \<Rightarrow> int eap_out" where
  "req_wifi_set_okc_support e q s = eap_with e q s (\<lambda>b. client_void (E_set_okc_support b) s)"

definition req_eap_set_domain_name :: "eap_env \<Rightarrow> byte list option \<Rightarrow> eap \<Rightarrow> int eap_out" where
  "req_eap_set_domain_name e q s =
     eap_with e q s (\<lambda>d. fail_if (d = []) s (client_call e (E_set_domain_name d) s))"

definition req_eap_set_eap_methods :: "eap_env \<Rightarrow> int option \<Rightarrow> eap \<Rightarrow> int eap_out" where
  "req_eap_set_eap_methods e = give e E_set_eap_methods"

subsection \<open>All requests\<close>

datatype eap_arg =
    EA_none
  | EA_bytes "byte list" int
  | EA_certs "byte list \<times> int" "byte list \<times> int" "byte list \<times> int"
  | EA_flag bool
  | EA_num int
  | EA_fast "(int \<times> int \<times> bool) option"
  | EA_name "byte list"

datatype eap_resp = SE_status int | SE_flag int bool

definition arg_ebytes :: "eap_arg \<Rightarrow> (byte list \<times> int) option" where
  "arg_ebytes x = (case x of EA_bytes b n \<Rightarrow> Some (b, n) | _ \<Rightarrow> None)"
definition arg_ecerts :: "eap_arg \<Rightarrow> ((byte list \<times> int) \<times> (byte list \<times> int) \<times> byte list \<times> int) option" where
  "arg_ecerts x = (case x of EA_certs c k p \<Rightarrow> Some (c, k, p) | _ \<Rightarrow> None)"
definition arg_eflag :: "eap_arg \<Rightarrow> bool option" where
  "arg_eflag x = (case x of EA_flag b \<Rightarrow> Some b | _ \<Rightarrow> None)"
definition arg_enum :: "eap_arg \<Rightarrow> int option" where
  "arg_enum x = (case x of EA_num n \<Rightarrow> Some n | _ \<Rightarrow> None)"
definition arg_efast :: "eap_arg \<Rightarrow> (int \<times> int \<times> bool) option option" where
  "arg_efast x = (case x of EA_fast p \<Rightarrow> Some p | _ \<Rightarrow> None)"
definition arg_ename :: "eap_arg \<Rightarrow> byte list option" where
  "arg_ename x = (case x of EA_name b \<Rightarrow> Some b | _ \<Rightarrow> None)"

definition eap_read ::
  "eap_env \<Rightarrow> eap_handler \<Rightarrow> (eap_arg \<Rightarrow> 'p option) \<Rightarrow> (req_handler \<times> eap_arg) option \<Rightarrow> eap \<Rightarrow>
    ('p option \<Rightarrow> eap \<Rightarrow> int eap_out) \<Rightarrow> eap_resp eap_out" where
  "eap_read e h sel q s f =
     with_payload (ee_alloc e) (\<lambda>(k, a). if k = Eap h then sel a else None) q s
       (\<lambda>p. map_option (\<lambda>(a, s1). (lift_answer SE_status a, s1)) (f p s))"

definition eap_do :: "(eap \<Rightarrow> int eap_out) \<Rightarrow> eap \<Rightarrow> eap_resp eap_out" where
  "eap_do f s = map_option (\<lambda>(a, s1). (lift_answer SE_status a, s1)) (f s)"

definition eap_handle ::
  "eap_env \<Rightarrow> eap_handler \<Rightarrow> (req_handler \<times> eap_arg) option \<Rightarrow> eap \<Rightarrow> eap_resp eap_out" where
  "eap_handle e h q s =
     (let bytes = (\<lambda>f. eap_read e h arg_ebytes q s f); flag = (\<lambda>f. eap_read e h arg_eflag q s f);
          num = (\<lambda>f. eap_read e h arg_enum q s f) in
      case h of
        Req_wifi_sta_enterprise_enable \<Rightarrow> eap_do (req_wifi_sta_enterprise_enable e) s
      | Req_wifi_sta_enterprise_disable \<Rightarrow> eap_do (req_wifi_sta_enterprise_disable e) s
      | Req_eap_set_identity \<Rightarrow> bytes (req_eap_set_identity e)
      | Req_eap_clear_identity \<Rightarrow> eap_do (req_eap_clear_identity e) s
      | Req_eap_set_username \<Rightarrow> bytes (req_eap_set_username e)
      | Req_eap_clear_username \<Rightarrow> eap_do (req_eap_clear_username e) s
      | Req_eap_set_password \<Rightarrow> bytes (req_eap_set_password e)
      | Req_eap_clear_password \<Rightarrow> eap_do (req_eap_clear_password e) s
      | Req_eap_set_new_password \<Rightarrow> bytes (req_eap_set_new_password e)
      | Req_eap_clear_new_password \<Rightarrow> eap_do (req_eap_clear_new_password e) s
      | Req_eap_set_ca_cert \<Rightarrow> bytes (req_eap_set_ca_cert e)
      | Req_eap_clear_ca_cert \<Rightarrow> eap_do (req_eap_clear_ca_cert e) s
      | Req_eap_set_certificate_and_key \<Rightarrow> eap_read e h arg_ecerts q s (req_eap_set_certificate_and_key e)
      | Req_eap_clear_certificate_and_key \<Rightarrow> eap_do (req_eap_clear_certificate_and_key e) s
      | Req_eap_get_disable_time_check \<Rightarrow>
          map_option (\<lambda>(a, s1). (lift_answer (\<lambda>(r, b). SE_flag r b) a, s1)) (req_eap_get_disable_time_check e s)
      | Req_eap_set_ttls_phase2_method \<Rightarrow> num (req_eap_set_ttls_phase2_method e)
      | Req_eap_set_suiteb_certification \<Rightarrow> flag (req_eap_set_suiteb_certification e)
      | Req_eap_set_pac_file \<Rightarrow> bytes (req_eap_set_pac_file e)
      | Req_eap_set_fast_params \<Rightarrow> eap_read e h arg_efast q s (req_eap_set_fast_params e)
      | Req_eap_use_default_cert_bundle \<Rightarrow> flag (req_eap_use_default_cert_bundle e)
      | Req_wifi_set_okc_support \<Rightarrow> flag (req_wifi_set_okc_support e)
      | Req_eap_set_domain_name \<Rightarrow> eap_read e h arg_ename q s (req_eap_set_domain_name e)
      | Req_eap_set_disable_time_check \<Rightarrow> flag (req_eap_set_disable_time_check e)
      | Req_eap_set_eap_methods \<Rightarrow> num (req_eap_set_eap_methods e))"

subsection \<open>The heap invariant\<close>

text \<open>
  Every variable that is not null has a live block of its own of the length it says, every live block
  belongs to a variable, and blocks were zero when they were freed.
\<close>

definition heap_ok ::
  "(cert_slot \<Rightarrow> nat option \<times> int) \<Rightarrow> (nat \<Rightarrow> byte list option) \<Rightarrow> nat \<Rightarrow> byte list list \<Rightarrow> bool" where
  "heap_ok var mem nxt freed \<longleftrightarrow>
     (\<forall>v a. fst (var v) = Some a \<longrightarrow> (\<exists>b. mem a = Some b \<and> int (length b) = snd (var v))) \<and>
     (\<forall>v w a. fst (var v) = Some a \<longrightarrow> fst (var w) = Some a \<longrightarrow> v = w) \<and>
     (\<forall>a b. mem a = Some b \<longrightarrow> a < nxt \<and> (\<exists>v. fst (var v) = Some a)) \<and>
     list_all (list_all (\<lambda>x. x = 0)) freed"

definition eap_ok :: "eap \<Rightarrow> bool" where
  "eap_ok s \<longleftrightarrow> heap_ok (ep_var s) (ep_mem s) (ep_next s) (ep_freed s)"

lemma eap_start_ok: "eap_ok eap_start"
  by (simp add: eap_ok_def heap_ok_def eap_start_def)

lemma eap_ok_log [simp]: "eap_ok (s\<lparr>ep_log := l\<rparr>) = eap_ok s"
  by (simp add: eap_ok_def)

lemma heap_okD:
  assumes "heap_ok var mem n fr"
  shows "\<And>v a. fst (var v) = Some a \<Longrightarrow> \<exists>b. mem a = Some b \<and> int (length b) = snd (var v)"
    "\<And>v w a. fst (var v) = Some a \<Longrightarrow> fst (var w) = Some a \<Longrightarrow> v = w"
    "\<And>a b. mem a = Some b \<Longrightarrow> a < n" "\<And>a b. mem a = Some b \<Longrightarrow> \<exists>v. fst (var v) = Some a"
    "list_all (list_all (\<lambda>x. x = 0)) fr"
  using assms unfolding heap_ok_def by blast+

lemma heap_okI:
  assumes "\<And>v a. fst (var v) = Some a \<Longrightarrow> \<exists>b. mem a = Some b \<and> int (length b) = snd (var v)"
    "\<And>v w a. fst (var v) = Some a \<Longrightarrow> fst (var w) = Some a \<Longrightarrow> v = w"
    "\<And>a b. mem a = Some b \<Longrightarrow> a < n" "\<And>a b. mem a = Some b \<Longrightarrow> \<exists>v. fst (var v) = Some a"
    "list_all (list_all (\<lambda>x. x = 0)) fr"
  shows "heap_ok var mem n fr"
  using assms unfolding heap_ok_def by blast

lemma heap_null:
  assumes ok: "heap_ok var mem n fr" and v: "fst (var v) = None"
  shows "heap_ok (var(v := (None, k))) mem n fr"
proof (rule heap_okI)
  fix a b assume "mem a = Some b"
  then obtain w where "fst (var w) = Some a" using heap_okD(4) [OF ok] by blast
  then show "\<exists>w. fst ((var(v := (None, k))) w) = Some a" using v by (intro exI [of _ w]) auto
qed (use heap_okD [OF ok] in \<open>auto split: if_splits\<close>)

lemma heap_free:
  assumes ok: "heap_ok var mem n fr" and v: "fst (var v) = Some a" and z: "list_all (\<lambda>x. x = 0) b"
  shows "heap_ok (var(v := (None, 0))) (mem(a := None)) n (fr @ [b])"
proof (rule heap_okI)
  fix w c assume w: "fst ((var(v := (None, 0))) w) = Some c"
  then have "w \<noteq> v" "fst (var w) = Some c" by (auto split: if_splits)
  moreover have "c \<noteq> a" using heap_okD(2) [OF ok v, of w] calculation by auto
  ultimately show "\<exists>b. (mem(a := None)) c = Some b \<and> int (length b) = snd ((var(v := (None, 0))) w)"
    using heap_okD(1) [OF ok, of w c] by simp
next
  fix c x assume "(mem(a := None)) c = Some x"
  then have "c \<noteq> a" "mem c = Some x" by (auto split: if_splits)
  moreover obtain w where "fst (var w) = Some c" using heap_okD(4) [OF ok calculation(2)] by blast
  ultimately show "\<exists>w. fst ((var(v := (None, 0))) w) = Some c" using v by (intro exI [of _ w]) auto
qed (use heap_okD(2,3,5) [OF ok] z in \<open>auto split: if_splits\<close>)

lemma heap_new:
  assumes ok: "heap_ok var mem n fr" and v: "fst (var v) = None" and l: "int (length b) = k"
  shows "heap_ok (var(v := (Some n, k))) (mem(n := Some b)) (Suc n) fr"
proof -
  have fresh: "fst (var w) \<noteq> Some n" for w using heap_okD(1,3) [OF ok] by blast
  show ?thesis
  proof (rule heap_okI)
    fix w c assume "fst ((var(v := (Some n, k))) w) = Some c"
    then show "\<exists>x. (mem(n := Some b)) c = Some x \<and> int (length x) = snd ((var(v := (Some n, k))) w)"
      using l fresh heap_okD(1) [OF ok, of w c] by (auto split: if_splits)
  next
    fix u w c assume "fst ((var(v := (Some n, k))) u) = Some c" "fst ((var(v := (Some n, k))) w) = Some c"
    then show "u = w" using fresh heap_okD(2) [OF ok, of u c w] by (auto split: if_splits)
  next
    fix c x assume "(mem(n := Some b)) c = Some x"
    then consider "c = n" | "mem c = Some x" by (auto split: if_splits)
    then show "\<exists>w. fst ((var(v := (Some n, k))) w) = Some c"
    proof cases
      case 2
      then obtain w where "fst (var w) = Some c" using heap_okD(4) [OF ok] by blast
      then show ?thesis using v by (intro exI [of _ w]) auto
    qed (auto intro!: exI [of _ v])
  qed (use heap_okD(3,5) [OF ok] in \<open>auto split: if_splits simp: less_SucI\<close>)
qed

lemma clear_ok:
  assumes ok: "eap_ok s"
  shows "\<exists>s'. clear_cert v s = Some s' \<and> eap_ok s' \<and> ep_var s' = (ep_var s)(v := (None, 0)) \<and> ep_log s' = ep_log s"
proof (cases "ep_var s v")
  case (Pair p n)
  show ?thesis
  proof (cases p)
    case None
    then show ?thesis using ok Pair by (simp add: clear_cert_def eap_ok_def heap_null)
  next
    case (Some a)
    then obtain b where "ep_mem s a = Some b" "int (length b) = n"
      using heap_okD(1) [OF ok [unfolded eap_ok_def], of v a] Pair by auto
    then show ?thesis using ok Pair Some
      by (auto simp: clear_cert_def eap_ok_def list_all_iff intro!: heap_free)
  qed
qed

lemma clear_all_ok:
  assumes "eap_ok s"
  shows "\<exists>s'. free_all_g_eap_cert_and_key s = Some s' \<and> eap_ok s' \<and> ep_log s' = ep_log s \<and>
    ep_var s' = (\<lambda>v. if v = Ca_cert then ep_var s Ca_cert else (None, 0))"
proof -
  obtain s1 where s1: "clear_cert Client_cert s = Some s1" "eap_ok s1" "ep_log s1 = ep_log s"
    "ep_var s1 = (ep_var s)(Client_cert := (None, 0))" using clear_ok [OF assms] by blast
  obtain s2 where s2: "clear_cert Private_key s1 = Some s2" "eap_ok s2" "ep_log s2 = ep_log s1"
    "ep_var s2 = (ep_var s1)(Private_key := (None, 0))" using clear_ok [OF s1(2)] by blast
  obtain s3 where s3: "clear_cert Key_password s2 = Some s3" "eap_ok s3" "ep_log s3 = ep_log s2"
    "ep_var s3 = (ep_var s2)(Key_password := (None, 0))" using clear_ok [OF s2(2)] by blast
  have "ep_var s3 v = (if v = Ca_cert then ep_var s Ca_cert else (None, 0))" for v
    by (cases v) (simp_all add: s1(4) s2(4) s3(4))
  then show ?thesis using s1 s2 s3 by (auto simp: free_all_g_eap_cert_and_key_def)
qed

lemma store_keeps:
  assumes ok: "eap_ok s" and free: "fst (ep_var s v) = None" and st: "store_cert mem v (data, n) s = Some (r, s')"
  shows "eap_ok s' \<and> (\<forall>w. w \<noteq> v \<longrightarrow> ep_var s' w = ep_var s w) \<and> ep_log s' = ep_log s"
  using assms
  by (auto simp: store_cert_def eap_ok_def Let_def heap_null heap_new split: if_splits)

lemma store_answers:
  assumes "n \<le> int (length data)" shows "\<exists>r s'. store_cert mem v (data, n) s = Some (r, s')"
  using assms by (auto simp: store_cert_def Let_def)

subsection \<open>Outcomes\<close>

text \<open>An outcome keeps the invariant; a \<open>strict\<close> one is not a crash either.\<close>

definition outcome_ok :: "bool \<Rightarrow> 'r eap_out \<Rightarrow> bool" where
  "outcome_ok strict out = (case out of None \<Rightarrow> \<not> strict | Some (r, s) \<Rightarrow> eap_ok s)"

definition sized :: "byte list \<times> int \<Rightarrow> bool" where
  "sized d \<longleftrightarrow> snd d \<le> int (length (fst d))"

named_theorems eap_outcome "outcomes of the parts of a handler"

lemma outcome_answer [eap_outcome]: "eap_ok s \<Longrightarrow> outcome_ok b (Some (r, s))"
  by (simp add: outcome_ok_def)

lemma outcome_call [eap_outcome]: "eap_ok s \<Longrightarrow> outcome_ok b (client_call e c s)"
  by (simp add: client_call_def rpc_ret_fail_if_def outcome_ok_def Let_def)

lemma outcome_void [eap_outcome]: "eap_ok s \<Longrightarrow> outcome_ok b (client_void c s)"
  by (simp add: client_void_def outcome_ok_def)

lemma outcome_simple [eap_outcome]: "eap_ok s \<Longrightarrow> outcome_ok b body \<Longrightarrow> outcome_ok b (eap_simple e s body)"
  by (simp add: eap_simple_def rpc_template_simple_def outcome_ok_def)

lemma outcome_with:
  "eap_ok s \<Longrightarrow> (\<And>x. q = Some x \<Longrightarrow> outcome_ok b (f x)) \<Longrightarrow> outcome_ok b (eap_with e q s f)"
  by (cases q) (simp_all add: eap_with_def rpc_template_def outcome_ok_def)

lemma outcome_fail_if:
  "eap_ok s \<Longrightarrow> (\<not> c \<Longrightarrow> outcome_ok b body) \<Longrightarrow> outcome_ok b (fail_if c s body)"
  by (simp add: fail_if_def rpc_ret_fail_if_def outcome_ok_def)

lemma outcome_clear:
  assumes "eap_ok s" "\<And>s1. eap_ok s1 \<Longrightarrow> ep_var s1 = (ep_var s)(Ca_cert := (None, 0)) \<Longrightarrow> outcome_ok b (f s1)"
  shows "outcome_ok b (Option.bind (free_g_ca_cert s) f)"
  using clear_ok [OF assms(1), of Ca_cert] assms(2) by (auto simp: free_g_ca_cert_def)

lemma outcome_clear_all:
  assumes "eap_ok s" "\<And>s1. eap_ok s1 \<Longrightarrow> \<forall>v. v \<noteq> Ca_cert \<longrightarrow> ep_var s1 v = (None, 0) \<Longrightarrow> outcome_ok b (f s1)"
  shows "outcome_ok b (Option.bind (free_all_g_eap_cert_and_key s) f)"
  using clear_all_ok [OF assms(1)] assms(2) by auto

lemma outcome_store:
  assumes "eap_ok s" "fst (ep_var s v) = None" "b \<Longrightarrow> sized d"
    "\<And>r s1. eap_ok s1 \<Longrightarrow> \<forall>w. w \<noteq> v \<longrightarrow> ep_var s1 w = ep_var s w \<Longrightarrow> outcome_ok b (f (r, s1))"
  shows "outcome_ok b (Option.bind (store_cert mem v d s) f)"
proof (cases "store_cert mem v d s")
  case None
  then show ?thesis using store_answers [of "snd d" "fst d" mem v s] assms(3)
    by (cases b) (auto simp: outcome_ok_def sized_def)
next
  case (Some x)
  then show ?thesis using store_keeps [OF assms(1,2), of mem "fst d" "snd d"] assms(4) by (cases x) auto
qed

lemma outcome_store_or_free:
  assumes "eap_ok s" "fst (ep_var s v) = None" "b \<Longrightarrow> sized d"
    "\<And>s1. eap_ok s1 \<Longrightarrow> \<forall>w. w \<noteq> v \<longrightarrow> ep_var s1 w = ep_var s w \<Longrightarrow> outcome_ok b (f s1)"
  shows "outcome_ok b (store_or_free mem v d s f)"
  unfolding store_or_free_def
proof (rule outcome_store [OF assms(1-3)])
  fix r s1 assume s1: "eap_ok s1" "\<forall>w. w \<noteq> v \<longrightarrow> ep_var s1 w = ep_var s w"
  show "outcome_ok b (case (r, s1) of (ok, s1) \<Rightarrow> if ok then f s1
      else map_option (\<lambda>s2. ((ESP_ERR_NO_MEM, Some SUCCESS), s2)) (free_all_g_eap_cert_and_key s1))"
    using assms(4) [OF s1] clear_all_ok [OF s1(1)] by (auto simp: outcome_ok_def)
qed simp_all

lemma outcome_give [eap_outcome]: "eap_ok s \<Longrightarrow> outcome_ok b (give e f q s)"
  unfolding give_def by (intro outcome_with eap_outcome)

lemma outcome_give_bytes [eap_outcome]: "eap_ok s \<Longrightarrow> outcome_ok b (give_bytes e f q s)"
  unfolding give_bytes_def by (intro outcome_with outcome_fail_if eap_outcome)

lemma outcome_set_ca_cert:
  assumes "eap_ok s" "\<And>d. b \<Longrightarrow> q = Some d \<Longrightarrow> sized d"
  shows "outcome_ok b (req_eap_set_ca_cert e q s)"
  unfolding req_eap_set_ca_cert_def
  by (intro outcome_with outcome_fail_if outcome_clear outcome_store)
    (use assms in \<open>auto intro!: eap_outcome\<close>)

lemma outcome_set_cert_and_key:
  assumes "eap_ok s" "\<And>c k p. b \<Longrightarrow> q = Some (c, k, p) \<Longrightarrow> sized c \<and> sized k \<and> sized p"
  shows "outcome_ok b (req_eap_set_certificate_and_key e q s)"
  unfolding req_eap_set_certificate_and_key_def
proof (rule outcome_with [OF assms(1)], goal_cases)
  case (1 x)
  obtain c k p where x: "x = (c, k, p)" by (cases x) auto
  have sz: "b \<Longrightarrow> sized c" "b \<Longrightarrow> sized k" "b \<Longrightarrow> sized p" using assms(2) 1 x by blast+
  show ?case unfolding x prod.case
  proof (intro outcome_fail_if outcome_clear_all assms(1))
    fix s1 assume s1: "eap_ok s1" "\<forall>v. v \<noteq> Ca_cert \<longrightarrow> ep_var s1 v = (None, 0)"
    show "outcome_ok b (Option.bind (store_cert (ee_mem e Client_cert) Client_cert c s1) (\<lambda>(ok, s2).
        if \<not> ok then Some ((ESP_ERR_NO_MEM, Some SUCCESS), s2)
        else store_or_free (ee_mem e Private_key) Private_key k s2 (\<lambda>s3.
          store_or_free (ee_mem e Key_password) Key_password p s3 (\<lambda>s4.
            client_call e (E_set_cert_and_key ((ep_var s4)(Ca_cert := (None, 0)))) s4))))"
      using s1 sz by (auto intro!: outcome_store outcome_store_or_free eap_outcome)
  qed
qed

text \<open>The arguments a request needs, with the lengths of the copied parts within the parts.\<close>

definition eap_arg_ok :: "eap_handler \<Rightarrow> eap_arg \<Rightarrow> bool" where
  "eap_arg_ok h a =
     (if h \<in> {Req_eap_set_identity, Req_eap_set_username, Req_eap_set_password, Req_eap_set_new_password,
             Req_eap_set_pac_file} then arg_ebytes a \<noteq> None
      else if h = Req_eap_set_ca_cert then (\<exists>d. arg_ebytes a = Some d \<and> sized d)
      else if h = Req_eap_set_certificate_and_key
        then (\<exists>c k p. arg_ecerts a = Some (c, k, p) \<and> sized c \<and> sized k \<and> sized p)
      else if h \<in> {Req_eap_set_ttls_phase2_method, Req_eap_set_eap_methods} then arg_enum a \<noteq> None
      else if h \<in> {Req_eap_set_suiteb_certification, Req_eap_use_default_cert_bundle, Req_wifi_set_okc_support,
             Req_eap_set_disable_time_check} then arg_eflag a \<noteq> None
      else if h = Req_eap_set_fast_params then (\<exists>p. arg_efast a = Some (Some p))
      else if h = Req_eap_set_domain_name then arg_ename a \<noteq> None
      else True)"

lemma outcome_map [eap_outcome]: "outcome_ok b out \<Longrightarrow> outcome_ok b (map_option (\<lambda>(a, s1). (g a, s1)) out)"
  by (simp add: outcome_ok_def split: option.splits prod.splits)

lemma outcome_do [eap_outcome]: "outcome_ok b (f s) \<Longrightarrow> outcome_ok b (eap_do f s)"
  unfolding eap_do_def by (rule outcome_map)

lemma outcome_read:
  assumes "eap_ok s" "b \<Longrightarrow> \<exists>a x. q = Some (Eap h, a) \<and> sel a = Some x"
    "\<And>p. (\<And>k a. q = Some (k, a) \<Longrightarrow> p = sel a) \<Longrightarrow> outcome_ok b (f p s)"
  shows "outcome_ok b (eap_read e h sel q s f)"
proof (cases q)
  case None
  then show ?thesis using assms(3) [of None] by (simp add: eap_read_def with_payload_def outcome_map)
next
  case (Some y)
  obtain k a where y: "y = (k, a)" by (cases y)
  show ?thesis
  proof (cases "k = Eap h \<and> sel a \<noteq> None")
    case True
    then show ?thesis using assms(3) [of "sel a"] Some y
      by (auto simp: eap_read_def with_payload_def outcome_map)
  next
    case False
    then show ?thesis using assms(1,2) Some y
      by (auto simp: eap_read_def with_payload_def outcome_ok_def split: option.splits)
  qed
qed

lemma outcome_time_check [eap_outcome]: "eap_ok s \<Longrightarrow> outcome_ok b (req_eap_get_disable_time_check e s)"
  by (simp add: req_eap_get_disable_time_check_def Let_def eap_simple_def rpc_template_simple_def
      rpc_ret_fail_if_def outcome_ok_def)

lemma outcome_domain_name [eap_outcome]: "eap_ok s \<Longrightarrow> outcome_ok b (req_eap_set_domain_name e q s)"
  unfolding req_eap_set_domain_name_def by (intro outcome_with outcome_fail_if eap_outcome)

lemma outcome_okc [eap_outcome]: "eap_ok s \<Longrightarrow> outcome_ok b (req_wifi_set_okc_support e q s)"
  unfolding req_wifi_set_okc_support_def by (intro outcome_with eap_outcome)

lemma outcome_fast_params:
  assumes "eap_ok s" "b \<Longrightarrow> \<exists>p. q = Some (Some p)"
  shows "outcome_ok b (req_eap_set_fast_params e q s)"
  unfolding req_eap_set_fast_params_def
proof (rule outcome_with [OF assms(1)])
  fix x assume "q = Some x"
  then show "outcome_ok b (Option.bind x (\<lambda>(prov, len, bin). client_call e (E_set_fast_params prov len bin) s))"
    using assms by (cases x) (auto simp: outcome_ok_def [of b None] outcome_call)
qed

lemma outcome_disable [eap_outcome]:
  assumes "eap_ok s" shows "outcome_ok b (req_wifi_sta_enterprise_disable e s)"
  unfolding req_wifi_sta_enterprise_disable_def
  by (intro outcome_simple outcome_clear outcome_clear_all outcome_call assms)

lemma outcome_clear_ca_cert [eap_outcome]:
  assumes "eap_ok s" shows "outcome_ok b (req_eap_clear_ca_cert e s)"
  unfolding req_eap_clear_ca_cert_def by (intro outcome_simple outcome_clear outcome_void assms)

lemma outcome_clear_cert_and_key [eap_outcome]:
  assumes "eap_ok s" shows "outcome_ok b (req_eap_clear_certificate_and_key e s)"
  unfolding req_eap_clear_certificate_and_key_def by (intro outcome_simple outcome_clear_all outcome_void assms)

lemmas eap_simple_defs = req_wifi_sta_enterprise_enable_def req_eap_clear_identity_def
  req_eap_clear_username_def req_eap_clear_password_def req_eap_clear_new_password_def
  req_eap_set_identity_def req_eap_set_username_def req_eap_set_password_def req_eap_set_new_password_def
  req_eap_set_disable_time_check_def req_eap_set_ttls_phase2_method_def req_eap_set_suiteb_certification_def
  req_eap_set_pac_file_def req_eap_use_default_cert_bundle_def req_eap_set_eap_methods_def

lemma outcome_handle:
  assumes ok: "eap_ok s" and q: "b \<Longrightarrow> \<exists>a. q = Some (Eap h, a) \<and> eap_arg_ok h a"
  shows "outcome_ok b (eap_handle e h q s)"
proof (cases h)
  case Req_eap_set_ca_cert
  have "outcome_ok b (eap_read e h arg_ebytes q s (req_eap_set_ca_cert e))"
    using q Req_eap_set_ca_cert
    by (intro outcome_read ok outcome_set_ca_cert) (force simp: eap_arg_ok_def)+
  then show ?thesis using Req_eap_set_ca_cert by (simp add: eap_handle_def)
next
  case Req_eap_set_certificate_and_key
  have "outcome_ok b (eap_read e h arg_ecerts q s (req_eap_set_certificate_and_key e))"
    using q Req_eap_set_certificate_and_key
    by (intro outcome_read ok outcome_set_cert_and_key) (force simp: eap_arg_ok_def)+
  then show ?thesis using Req_eap_set_certificate_and_key by (simp add: eap_handle_def)
next
  case Req_eap_set_fast_params
  have "outcome_ok b (eap_read e h arg_efast q s (req_eap_set_fast_params e))"
    using q Req_eap_set_fast_params
    by (intro outcome_read ok outcome_fast_params) (force simp: eap_arg_ok_def)+
  then show ?thesis using Req_eap_set_fast_params by (simp add: eap_handle_def)
qed (use q ok in \<open>auto simp: eap_handle_def Let_def eap_simple_defs eap_arg_ok_def
    intro!: outcome_read eap_outcome\<close>)

subsection \<open>What the client holds\<close>

text \<open>
  The pointers the EAP client was last given and was not told to clear: it does not copy what they point to,
  and may read there.
\<close>

definition client_takes :: "eap_call \<times> esp_err \<Rightarrow> (cert_slot \<Rightarrow> nat option) \<Rightarrow> cert_slot \<Rightarrow> nat option" where
  "client_takes x held =
     (case x of
        (E_set_ca_cert p n, r) \<Rightarrow> if r = 0 then held(Ca_cert := p) else held
      | (E_clear_ca_cert, r) \<Rightarrow> held(Ca_cert := None)
      | (E_set_cert_and_key f, r) \<Rightarrow> if r = 0 then (\<lambda>v. if v = Ca_cert then held v else fst (f v)) else held
      | (E_clear_cert_and_key, r) \<Rightarrow> (\<lambda>v. if v = Ca_cert then held v else None)
      | _ \<Rightarrow> held)"

definition client_holds :: "eap \<Rightarrow> cert_slot \<Rightarrow> nat option" where
  "client_holds s = fold client_takes (ep_log s) (\<lambda>_. None)"

inductive eap_reachable :: "eap \<Rightarrow> bool" where
  eap_begin: "eap_reachable eap_start"
| eap_request: "eap_reachable s \<Longrightarrow> eap_handle e h q s = Some (r, s') \<Longrightarrow> eap_reachable s'"

lemma eap_reachable_ok: "eap_reachable s \<Longrightarrow> eap_ok s"
proof (induction rule: eap_reachable.induct)
  case eap_begin
  then show ?case by (rule eap_start_ok)
next
  case (eap_request s e h q r s')
  then show ?case using outcome_handle [of s False q h e] by (simp add: outcome_ok_def)
qed

subsection \<open>Properties\<close>

text \<open>C8: Whatever enterprise requests arrive and whatever the EAP client and the heap answer, certificates and
  keys are kept in blocks of their own of the announced length, no block is lost, and what held a key was
  overwritten with zeros when it was freed. No request whose lengths are within its data crashes.\<close>

theorem key_material_kept_safe:
  assumes "eap_reachable s" "eap_arg_ok h a"
  shows "(\<forall>v p. fst (ep_var s v) = Some p \<longrightarrow> (\<exists>b. ep_mem s p = Some b \<and> int (length b) = snd (ep_var s v))) \<and>
    (\<forall>p. ep_mem s p \<noteq> None \<longrightarrow> (\<exists>!v. fst (ep_var s v) = Some p)) \<and>
    list_all (list_all (\<lambda>x. x = 0)) (ep_freed s) \<and> eap_handle e h (Some (Eap h, a)) s \<noteq> None"
proof -
  have ok: "eap_ok s" using eap_reachable_ok [OF assms(1)] .
  note heap = heap_okD [OF ok [unfolded eap_ok_def]]
  have "outcome_ok True (eap_handle e h (Some (Eap h, a)) s)"
    by (rule outcome_handle [OF ok]) (use assms(2) in blast)
  then have "eap_handle e h (Some (Eap h, a)) s \<noteq> None"
    by (cases "eap_handle e h (Some (Eap h, a)) s") (simp_all add: outcome_ok_def)
  then show ?thesis using heap by blast
qed

text \<open>A CA certificate that is set is a copy of the bytes sent, in a block that the EAP client holds and
  that is live. But the copy it held before is freed first: when there is no memory for the new one, or the client
  refuses it, the client is left with a pointer to freed memory.\<close>

theorem ca_cert_replaced:
  assumes "eap_reachable s" "ee_alloc e" "data \<noteq> []" "0 < n" "n \<le> int (length data)"
    "client_holds s Ca_cert = Some old" "fst (ep_var s Ca_cert) = Some old"
  shows "\<exists>r s'. req_eap_set_ca_cert e (Some (data, n)) s = Some (r, s') \<and>
    (if \<not> ee_mem e Ca_cert then fst r = ESP_ERR_NO_MEM \<and> client_holds s' Ca_cert = Some old \<and> ep_mem s' old = None
     else fst r = ESP_OK \<and>
      (\<exists>p. fst (ep_var s' Ca_cert) = Some p \<and> ep_mem s' p = Some (take (nat n) data) \<and>
        (if snd r = Some SUCCESS then client_holds s' Ca_cert = Some p
         else client_holds s' Ca_cert = Some old \<and> ep_mem s' old = None)))"
proof -
  note heap = heap_okD [OF eap_reachable_ok [OF assms(1), unfolded eap_ok_def]]
  obtain b where b: "ep_mem s old = Some b" "int (length b) = snd (ep_var s Ca_cert)"
    using heap(1) [OF assms(7)] by blast
  then have live: "old < ep_next s" using heap(3) by blast
  have var: "ep_var s Ca_cert = (Some old, int (length b))" using assms(7) b(2) by (simp add: prod_eq_iff)
  show ?thesis using assms(2-6) b(1) live var
    by (simp add: req_eap_set_ca_cert_def eap_with_def fail_if_def no_data_def free_g_ca_cert_def clear_cert_def
        store_cert_def Let_def client_call_def rpc_ret_fail_if_def client_holds_def client_takes_def SUCCESS_def
        ESP_OK_def ESP_ERR_NO_MEM_def)
qed

subsection \<open>Concrete instances\<close>

definition demo_eap_env :: "bool \<Rightarrow> eap_env" where
  "demo_eap_env mem = \<lparr> ee_alloc = True, ee_err = (\<lambda>_. 0), ee_mem = (\<lambda>_. mem), ee_time_check = False \<rparr>"

definition one_cert :: eap where
  "one_cert = \<lparr> ep_var = (\<lambda>v. if v = Ca_cert then (Some 0, 2) else (None, 0)), ep_mem = [0 \<mapsto> [7, 8]], ep_next = 1,
     ep_freed = [], ep_log = [(E_set_ca_cert (Some 0) 2, 0)] \<rparr>"

lemma one_cert_reachable: "eap_reachable one_cert"
proof (rule eap_request [OF eap_begin])
  show "eap_handle (demo_eap_env True) Req_eap_set_ca_cert (Some (Eap Req_eap_set_ca_cert, EA_bytes [7, 8] 2)) eap_start
      = Some ((ESP_OK, Some (SE_status SUCCESS)), one_cert)"
    by (simp add: eap_handle_def eap_read_def with_payload_def arg_ebytes_def demo_eap_env_def req_eap_set_ca_cert_def
        eap_with_def fail_if_def no_data_def free_g_ca_cert_def clear_cert_def store_cert_def eap_start_def
        client_call_def one_cert_def lift_answer_def fun_eq_iff)
qed

theorem key_material_kept_safe_witness:
  "eap_handle (demo_eap_env True) Req_eap_clear_ca_cert (Some (Eap Req_eap_clear_ca_cert, EA_none)) one_cert \<noteq> None \<and>
   (\<exists>!v. fst (ep_var one_cert v) = Some 0)"
proof -
  have "eap_arg_ok Req_eap_clear_ca_cert EA_none" by (simp add: eap_arg_ok_def)
  from key_material_kept_safe [OF one_cert_reachable this, of "demo_eap_env True"] show ?thesis
    by (simp add: one_cert_def)
qed

theorem ca_cert_replaced_witness:
  "\<exists>r s'. req_eap_set_ca_cert (demo_eap_env False) (Some ([1, 2, 3], 3)) one_cert = Some (r, s') \<and>
     fst r = ESP_ERR_NO_MEM \<and> client_holds s' Ca_cert = Some 0 \<and> ep_mem s' 0 = None"
  using ca_cert_replaced [OF one_cert_reachable, of "demo_eap_env False" "[1, 2, 3]" 3 0]
  by (simp add: demo_eap_env_def one_cert_def client_holds_def client_takes_def)

end
