(* ===== verification/Slave_Ota.thy ===== *)
theory Slave_Ota
  imports Hosted_Prelude
begin

section \<open>Firmware update of the co-processor (slave_control.c)\<close>

text \<open>
  The four requests of a firmware update: begin, write, end and activate. The flash functions of
  ESP-IDF are parameters (what each call returns) and entries of a log (the call with its
  arguments and result). \<open>alloc\<close> says whether the response can be allocated, \<open>check\<close> whether the build
  checks the image of the first chunk (\<open>H_OTA_CHECK_IMAGE_VALIDITY\<close>).
\<close>

subsection \<open>State and calls\<close>

datatype ota_status = OTA_NOT_STARTED | OTA_IN_PROGRESS | OTA_FAILED | OTA_COMPLETED | OTA_ACTIVATED

datatype ota_call =
    Ota_begin nat esp_err
  | Ota_check "byte list" esp_err
  | Ota_write nat "byte list" esp_err
  | Ota_end nat esp_err
  | Set_boot "nat option" esp_err
  | Restart_timer

text \<open>\<open>ot_first\<close> is \<open>first_ota_write\<close>; a partition is a number, \<open>None\<close> the null pointer.\<close>

record ota =
  ot_status :: ota_status
  ot_first :: bool
  ot_partition :: "nat option"
  ot_handle :: nat
  ot_log :: "ota_call list"

definition ota_init :: ota where
  "ota_init = \<lparr> ot_status = OTA_NOT_STARTED, ot_first = False, ot_partition = None, ot_handle = 0,
     ot_log = [] \<rparr>"

definition ota_did :: "ota_call \<Rightarrow> ota \<Rightarrow> ota" where
  "ota_did c s = s\<lparr>ot_log := ot_log s @ [c]\<rparr>"

text \<open>A handler's return value and the status in its response, if it made one.\<close>

type_synonym ota_answer = "esp_err \<times> int option"

subsection \<open>Handlers\<close>

definition req_ota_begin_handler ::
  "bool \<Rightarrow> nat option \<Rightarrow> esp_err \<Rightarrow> nat \<Rightarrow> ota \<Rightarrow> ota_answer \<times> ota" where
  "req_ota_begin_handler alloc next_part r_begin h s =
     (if \<not> alloc then ((ESP_ERR_NO_MEM, None), s)
      else let s1 = s\<lparr>ot_partition := next_part\<rparr> in
        case next_part of
          None \<Rightarrow> ((ESP_OK, Some (-1)), s1)
        | Some p \<Rightarrow>
            if r_begin \<noteq> 0 then ((ESP_OK, Some r_begin), ota_did (Ota_begin p r_begin) s1)
            else ((ESP_OK, Some SUCCESS), (ota_did (Ota_begin p 0) s1)
              \<lparr>ot_handle := h, ot_status := OTA_IN_PROGRESS, ot_first := True\<rparr>))"

text \<open>The size of the headers the check looks at, on a 32-bit target.\<close>

definition OTA_IMAGE_HEADER_SIZE :: nat where "OTA_IMAGE_HEADER_SIZE = 24 + 8 + 256"

definition ota_write_chunk :: "byte list \<Rightarrow> esp_err \<Rightarrow> ota \<Rightarrow> ota_answer \<times> ota" where
  "ota_write_chunk d r_write s =
     ((ESP_OK, Some (if r_write \<noteq> ESP_OK then r_write else SUCCESS)),
      ota_did (Ota_write (ot_handle s) d r_write) s)"

definition req_ota_write_handler ::
  "bool \<Rightarrow> bool \<Rightarrow> byte list \<Rightarrow> esp_err \<Rightarrow> esp_err \<Rightarrow> ota \<Rightarrow> ota_answer \<times> ota" where
  "req_ota_write_handler check alloc d r_check r_write s =
     (if \<not> alloc then ((ESP_ERR_NO_MEM, None), s)
      else if ot_first s then
        let s1 = s\<lparr>ot_first := False\<rparr> in
        if \<not> check then ota_write_chunk d r_write s1
        else if length d < OTA_IMAGE_HEADER_SIZE then ((ESP_OK, Some ESP_ERR_INVALID_SIZE), s1)
        else let s2 = ota_did (Ota_check d r_check) s1 in
          if r_check \<noteq> ESP_OK then ((ESP_OK, Some r_check), s2)
          else ota_write_chunk d r_write s2
      else ota_write_chunk d r_write s)"

definition req_ota_end_handler :: "bool \<Rightarrow> esp_err \<Rightarrow> ota \<Rightarrow> ota_answer \<times> ota" where
  "req_ota_end_handler alloc r_end s =
     (if \<not> alloc then ((ESP_ERR_NO_MEM, None), s)
      else let s1 = ota_did (Ota_end (ot_handle s) r_end) s in
        if r_end \<noteq> ESP_OK then ((ESP_OK, Some r_end), s1\<lparr>ot_status := OTA_FAILED\<rparr>)
        else ((ESP_OK, Some SUCCESS), s1\<lparr>ot_status := OTA_COMPLETED\<rparr>))"

definition req_ota_activate_handler ::
  "bool \<Rightarrow> esp_err \<Rightarrow> bool \<Rightarrow> bool \<Rightarrow> ota \<Rightarrow> ota_answer \<times> ota" where
  "req_ota_activate_handler alloc r_boot timer start s =
     (if \<not> alloc then ((ESP_ERR_NO_MEM, None), s)
      else if ot_status s \<noteq> OTA_COMPLETED then ((ESP_OK, Some ESP_OK), s)
      else let s1 = ota_did (Set_boot (ot_partition s) r_boot) s in
        if r_boot \<noteq> ESP_OK then ((ESP_OK, Some r_boot), s1)
        else let s2 = s1\<lparr>ot_status := OTA_ACTIVATED\<rparr> in
        if \<not> timer then ((ESP_OK, Some (-1)), s2)
        else if \<not> start then ((ESP_OK, Some (-2)), s2)
        else ((ESP_OK, Some SUCCESS), ota_did Restart_timer s2))"

text \<open>The handlers as steps, whatever the flash functions answer.\<close>

inductive ota_step :: "ota \<Rightarrow> ota \<Rightarrow> bool" where
  step_begin: "req_ota_begin_handler alloc next_part r h s = (a, s') \<Longrightarrow> ota_step s s'"
| step_write: "req_ota_write_handler check alloc d rc rw s = (a, s') \<Longrightarrow> ota_step s s'"
| step_end: "req_ota_end_handler alloc r s = (a, s') \<Longrightarrow> ota_step s s'"
| step_activate: "req_ota_activate_handler alloc r timer start s = (a, s') \<Longrightarrow> ota_step s s'"

inductive_cases ota_stepE: "ota_step s s'"

inductive ota_reachable :: "ota \<Rightarrow> bool" where
  ota_start: "ota_reachable ota_init"
| ota_next: "ota_reachable s \<Longrightarrow> ota_step s s' \<Longrightarrow> ota_reachable s'"

subsection \<open>What the log says\<close>

text \<open>
  The specification reads everything off the calls: the status they lead to, and the image that
  the accepted chunks since the last begin make up.
\<close>

fun status_after :: "ota_status \<Rightarrow> ota_call list \<Rightarrow> ota_status" where
  "status_after st [] = st"
| "status_after st (c # cs) = status_after (case c of
       Ota_begin p r \<Rightarrow> (if r = 0 then OTA_IN_PROGRESS else st)
     | Ota_end h r \<Rightarrow> (if r = ESP_OK then OTA_COMPLETED else OTA_FAILED)
     | Set_boot p r \<Rightarrow> (if r = ESP_OK then OTA_ACTIVATED else st)
     | _ \<Rightarrow> st) cs"

fun boots_completed :: "ota_status \<Rightarrow> ota_call list \<Rightarrow> bool" where
  "boots_completed st [] = True"
| "boots_completed st (c # cs) =
     ((case c of Set_boot p r \<Rightarrow> st = OTA_COMPLETED | _ \<Rightarrow> True) \<and> boots_completed (status_after st [c]) cs)"

fun image_of :: "byte list \<Rightarrow> ota_call list \<Rightarrow> byte list" where
  "image_of img [] = img"
| "image_of img (c # cs) = image_of (case c of
       Ota_begin p r \<Rightarrow> (if r = 0 then [] else img)
     | Ota_write h d r \<Rightarrow> (if r = ESP_OK then img @ d else img)
     | _ \<Rightarrow> img) cs"

lemma status_after_append [simp]: "status_after st (xs @ ys) = status_after (status_after st xs) ys"
  by (induction xs arbitrary: st) auto

lemma boots_completed_append [simp]:
  "boots_completed st (xs @ ys) \<longleftrightarrow> boots_completed st xs \<and> boots_completed (status_after st xs) ys"
  by (induction xs arbitrary: st) auto

lemma image_of_append [simp]: "image_of img (xs @ ys) = image_of (image_of img xs) ys"
  by (induction xs arbitrary: img) auto

definition ota_ok :: "ota \<Rightarrow> bool" where
  "ota_ok s \<longleftrightarrow> ot_status s = status_after OTA_NOT_STARTED (ot_log s) \<and>
     boots_completed OTA_NOT_STARTED (ot_log s)"

lemma ota_did_simps [simp]:
  "ot_log (ota_did c s) = ot_log s @ [c]" "ot_status (ota_did c s) = ot_status s"
  "ot_first (ota_did c s) = ot_first s" "ot_handle (ota_did c s) = ot_handle s"
  "ot_partition (ota_did c s) = ot_partition s"
  by (simp_all add: ota_did_def)

lemma ota_ok_step: "ota_step s s' \<Longrightarrow> ota_ok s \<Longrightarrow> ota_ok s'"
proof (erule ota_stepE)
  fix alloc n r h a
  assume "ota_ok s" "req_ota_begin_handler alloc n r h s = (a, s')"
  then show "ota_ok s'"
    by (auto simp: req_ota_begin_handler_def ota_ok_def Let_def split: if_splits option.splits)
next
  fix check alloc d rc rw a
  assume "ota_ok s" "req_ota_write_handler check alloc d rc rw s = (a, s')"
  then show "ota_ok s'"
    by (auto simp: req_ota_write_handler_def ota_write_chunk_def ota_ok_def Let_def split: if_splits)
next
  fix alloc r a
  assume "ota_ok s" "req_ota_end_handler alloc r s = (a, s')"
  then show "ota_ok s'"
    by (auto simp: req_ota_end_handler_def ota_ok_def Let_def split: if_splits)
next
  fix alloc r timer start a
  assume "ota_ok s" "req_ota_activate_handler alloc r timer start s = (a, s')"
  then show "ota_ok s'"
    by (auto simp: req_ota_activate_handler_def ota_ok_def Let_def split: if_splits)
qed

lemma ota_ok_reachable: "ota_reachable s \<Longrightarrow> ota_ok s"
proof (induction rule: ota_reachable.induct)
  case ota_start
  then show ?case by (simp add: ota_ok_def ota_init_def)
next
  case (ota_next s s')
  then show ?case by (blast intro: ota_ok_step)
qed

text \<open>A whole update: begin, chunks, end, activate, all answered with success.\<close>

fun ota_writes :: "bool \<Rightarrow> byte list list \<Rightarrow> ota \<Rightarrow> ota_answer list \<times> ota" where
  "ota_writes check [] s = ([], s)"
| "ota_writes check (d # ds) s =
     (case req_ota_write_handler check True d ESP_OK ESP_OK s of (a, s1) \<Rightarrow>
      case ota_writes check ds s1 of (as, s2) \<Rightarrow> (a # as, s2))"

lemma ota_writes_image:
  assumes "list_all (\<lambda>a. a = (ESP_OK, Some SUCCESS)) (fst (ota_writes check ds s))"
  shows "image_of img (ot_log (snd (ota_writes check ds s))) = image_of img (ot_log s) @ concat ds \<and>
    ot_status (snd (ota_writes check ds s)) = ot_status s \<and>
    ot_partition (snd (ota_writes check ds s)) = ot_partition s"
  using assms
proof (induction ds arbitrary: s)
  case (Cons d ds)
  obtain a s1 where w: "req_ota_write_handler check True d ESP_OK ESP_OK s = (a, s1)"
    by (meson surj_pair)
  obtain xs s2 where rest: "ota_writes check ds s1 = (xs, s2)" by (meson surj_pair)
  have a: "a = (ESP_OK, Some SUCCESS)" and xs: "list_all (\<lambda>a. a = (ESP_OK, Some SUCCESS)) xs"
    using Cons.prems w rest by auto
  have s1: "image_of img (ot_log s1) = image_of img (ot_log s) @ d" "ot_status s1 = ot_status s"
    "ot_partition s1 = ot_partition s"
    using w a
    by (auto simp: req_ota_write_handler_def ota_write_chunk_def Let_def SUCCESS_def
        ESP_ERR_INVALID_SIZE_def split: if_splits)
  show ?case using Cons.IH [of s1] xs rest w s1 by simp
qed simp

text \<open>Without the check, or with a first chunk that holds the headers, every chunk is accepted.\<close>

lemma ota_writes_later: "\<not> ot_first s \<Longrightarrow> list_all (\<lambda>a. a = (ESP_OK, Some SUCCESS)) (fst (ota_writes check ds s))"
proof (induction ds arbitrary: s)
  case (Cons d ds)
  then show ?case
    by (simp add: req_ota_write_handler_def ota_write_chunk_def split_beta)
qed simp

lemma ota_writes_accepted:
  assumes "check \<Longrightarrow> ds \<noteq> [] \<Longrightarrow> OTA_IMAGE_HEADER_SIZE \<le> length (ds ! 0)"
  shows "list_all (\<lambda>a. a = (ESP_OK, Some SUCCESS)) (fst (ota_writes check ds s))"
proof (cases ds)
  case (Cons d r)
  let ?w = "req_ota_write_handler check True d ESP_OK ESP_OK s"
  have w: "fst ?w = (ESP_OK, Some SUCCESS)" "\<not> ot_first (snd ?w)"
    using assms Cons by (auto simp: req_ota_write_handler_def ota_write_chunk_def Let_def)
  show ?thesis using w ota_writes_later [OF w(2), of check r] Cons by (simp add: split_beta)
qed simp

lemma begin_ok:
  "req_ota_begin_handler True (Some p) 0 h s = ((ESP_OK, Some SUCCESS),
     s\<lparr>ot_partition := Some p, ot_log := ot_log s @ [Ota_begin p 0], ot_handle := h,
       ot_status := OTA_IN_PROGRESS, ot_first := True\<rparr>)"
  by (simp add: req_ota_begin_handler_def ota_did_def)

lemma end_ok:
  "req_ota_end_handler True ESP_OK s = ((ESP_OK, Some SUCCESS),
     s\<lparr>ot_log := ot_log s @ [Ota_end (ot_handle s) ESP_OK], ot_status := OTA_COMPLETED\<rparr>)"
  by (simp add: req_ota_end_handler_def ota_did_def)

lemma activate_ok:
  "ot_status s = OTA_COMPLETED \<Longrightarrow> req_ota_activate_handler True ESP_OK True True s =
    ((ESP_OK, Some SUCCESS), s\<lparr>ot_log := ot_log s @ [Set_boot (ot_partition s) ESP_OK, Restart_timer],
      ot_status := OTA_ACTIVATED\<rparr>)"
  by (simp add: req_ota_activate_handler_def ota_did_def)

text \<open>An activation that is refused is answered with success all the same.\<close>

lemma refused_activation_says_success:
  "ot_status s \<noteq> OTA_COMPLETED \<Longrightarrow>
   req_ota_activate_handler True r t st s = ((ESP_OK, Some SUCCESS), s)"
  by (simp add: req_ota_activate_handler_def ESP_OK_def SUCCESS_def)

subsection \<open>Properties\<close>

text \<open>In every sequence of update requests, whatever the flash functions answer, the status is the
  one their calls lead to, and the boot partition is only switched while the last successful
  begin has been followed by a successful end and by no failed one.\<close>

theorem ota_status_tracks_flash:
  assumes "ota_reachable s"
  shows "ot_status s = status_after OTA_NOT_STARTED (ot_log s) \<and>
    boots_completed OTA_NOT_STARTED (ot_log s)"
  using ota_ok_reachable [OF assms] by (simp add: ota_ok_def)

text \<open>C26: An update of any number of chunks, the first long enough for the image headers when the build
  checks them, is answered with success throughout, writes the chunks in their order and nothing
  else, boots the partition it was written to and restarts.\<close>

theorem ota_installs_image:
  assumes "check \<Longrightarrow> ds \<noteq> [] \<Longrightarrow> OTA_IMAGE_HEADER_SIZE \<le> length (ds ! 0)"
    "req_ota_begin_handler True (Some p) 0 h s = (a1, s1)" "ota_writes check ds s1 = (xs, s2)"
    "req_ota_end_handler True ESP_OK s2 = (a3, s3)"
    "req_ota_activate_handler True ESP_OK True True s3 = (a4, s4)"
  shows "list_all (\<lambda>a. a = (ESP_OK, Some SUCCESS)) (a1 # xs @ [a3, a4]) \<and>
    image_of [] (ot_log s4) = concat ds \<and> ot_status s4 = OTA_ACTIVATED \<and>
    (\<exists>l. ot_log s4 = l @ [Set_boot (Some p) ESP_OK, Restart_timer])"
proof -
  have a1: "a1 = (ESP_OK, Some SUCCESS)" "ot_partition s1 = Some p" "image_of [] (ot_log s1) = []"
    using assms(2) unfolding begin_ok by auto
  have xs: "list_all (\<lambda>a. a = (ESP_OK, Some SUCCESS)) (fst (ota_writes check ds s1))"
    by (rule ota_writes_accepted) (use assms(1) in auto)
  have s2: "image_of [] (ot_log s2) = concat ds" "ot_partition s2 = Some p"
    using ota_writes_image [OF xs, of "[]"] a1 assms(3) by simp_all
  have s3: "a3 = (ESP_OK, Some SUCCESS)" "image_of [] (ot_log s3) = concat ds"
    "ot_partition s3 = Some p" "ot_status s3 = OTA_COMPLETED"
    using assms(4) s2 unfolding end_ok by auto
  have "a4 = (ESP_OK, Some SUCCESS) \<and> ot_log s4 = ot_log s3 @ [Set_boot (Some p) ESP_OK, Restart_timer] \<and>
      ot_status s4 = OTA_ACTIVATED"
    using assms(5) s3(3) unfolding activate_ok [OF s3(4)] by auto
  then show ?thesis using a1(1) xs assms(3) s3 by simp
qed

text \<open>A build that checks the image looks at the first chunk of an update only once: when it is
  refused, the host can send the same chunk again, which is written unchecked, and a successful
  end and activation then boot the refused image.\<close>

theorem refused_image_installs_on_retry:
  assumes "ot_first s" "OTA_IMAGE_HEADER_SIZE \<le> length d" "r_check \<noteq> ESP_OK" "ot_partition s = Some p"
  shows "\<exists>s1 s2 s3 s4. req_ota_write_handler True True d r_check ESP_OK s = ((ESP_OK, Some r_check), s1) \<and>
    req_ota_write_handler True True d r_check ESP_OK s1 = ((ESP_OK, Some SUCCESS), s2) \<and>
    req_ota_end_handler True ESP_OK s2 = ((ESP_OK, Some SUCCESS), s3) \<and>
    req_ota_activate_handler True ESP_OK True True s3 = ((ESP_OK, Some SUCCESS), s4) \<and>
    ot_log s4 = ot_log s @ [Ota_check d r_check, Ota_write (ot_handle s) d ESP_OK,
      Ota_end (ot_handle s) ESP_OK, Set_boot (Some p) ESP_OK, Restart_timer]"
proof -
  let ?s1 = "ota_did (Ota_check d r_check) (s\<lparr>ot_first := False\<rparr>)"
  let ?s2 = "ota_did (Ota_write (ot_handle s) d ESP_OK) ?s1"
  have 1: "req_ota_write_handler True True d r_check ESP_OK s = ((ESP_OK, Some r_check), ?s1)"
    using assms by (simp add: req_ota_write_handler_def Let_def)
  have 2: "req_ota_write_handler True True d r_check ESP_OK ?s1 = ((ESP_OK, Some SUCCESS), ?s2)"
    by (simp add: req_ota_write_handler_def ota_write_chunk_def)
  show ?thesis
    using 1 2 assms(4) end_ok [of ?s2] by (auto simp: activate_ok)
qed

subsection \<open>Concrete instances\<close>

definition demo_chunk :: "byte list" where "demo_chunk = replicate 288 0xE9"

lemma demo_begin: "ota_step ota_init (snd (req_ota_begin_handler True (Some 1) 0 7 ota_init))"
  by (rule step_begin) (rule prod.collapse [symmetric])

theorem ota_status_tracks_flash_witness:
  "ot_status (snd (req_ota_begin_handler True (Some 1) 0 7 ota_init)) =
    status_after OTA_NOT_STARTED (ot_log (snd (req_ota_begin_handler True (Some 1) 0 7 ota_init)))"
  using ota_status_tracks_flash [OF ota_next [OF ota_start demo_begin]] by blast

theorem ota_installs_image_witness:
  "\<exists>s4 :: ota. image_of [] (ot_log s4) = demo_chunk @ [1, 2] \<and> ot_status s4 = OTA_ACTIVATED"
proof -
  obtain a1 s1 where 1: "req_ota_begin_handler True (Some 1) 0 7 ota_init = (a1, s1)" by (meson surj_pair)
  obtain xs s2 where 2: "ota_writes True [demo_chunk, [1, 2]] s1 = (xs, s2)" by (meson surj_pair)
  obtain a3 s3 where 3: "req_ota_end_handler True ESP_OK s2 = (a3, s3)" by (meson surj_pair)
  obtain a4 s4 where 4: "req_ota_activate_handler True ESP_OK True True s3 = (a4, s4)" by (meson surj_pair)
  have "OTA_IMAGE_HEADER_SIZE \<le> length ([demo_chunk, [1, 2]] ! 0)"
    by (simp add: demo_chunk_def OTA_IMAGE_HEADER_SIZE_def)
  from ota_installs_image [OF this 1 2 3 4] show ?thesis by (intro exI [of _ s4]) simp
qed

theorem refused_image_installs_on_retry_witness:
  "\<exists>s4 :: ota. ot_log s4 = [Ota_begin 1 0, Ota_check demo_chunk ESP_FAIL, Ota_write 7 demo_chunk ESP_OK,
      Ota_end 7 ESP_OK, Set_boot (Some 1) ESP_OK, Restart_timer]"
  using refused_image_installs_on_retry [of "snd (req_ota_begin_handler True (Some 1) 0 7 ota_init)"
      demo_chunk ESP_FAIL 1]
  by (auto simp: begin_ok ota_init_def demo_chunk_def OTA_IMAGE_HEADER_SIZE_def esp_errs)

end
