(* ===== verification/Slave_Monitor.thy ===== *)
theory Slave_Monitor
  imports Rpc_Base
begin

section \<open>Heartbeat and memory monitor of the co-processor (slave_control.c)\<close>

text \<open>
  Two services the host switches on by a request and that report by a FreeRTOS timer: the
  heartbeat (\<open>configure_heartbeat\<close>, \<open>start_heartbeat\<close>, \<open>stop_heartbeat\<close>) and the memory monitor
  (\<open>req_mem_monitor\<close> with its checks, its timer callback and its event). Whether FreeRTOS can
  create and start a timer, and what the heap functions report, are parameters. \<open>hz\<close> is the tick
  rate.
\<close>

subsection \<open>Heartbeat\<close>

text \<open>
  \<open>hb_timers\<close> are all timers that were created for the heartbeat (\<open>None\<close> once deleted): period in
  ticks and whether it runs; \<open>hb_handle\<close> is \<open>handle_heartbeat_task\<close>.
\<close>

record soft_timer =
  st_period :: nat
  st_active :: bool

record heartbeat =
  hb_timers :: "soft_timer option list"
  hb_handle :: "nat option"
  hb_num :: u32

definition MIN_HEARTBEAT_INTERVAL :: int where "MIN_HEARTBEAT_INTERVAL = 1"
definition MAX_HEARTBEAT_INTERVAL :: int where "MAX_HEARTBEAT_INTERVAL = 24 * 60 * 60"

definition runs :: "soft_timer option \<Rightarrow> bool" where
  "runs t = (case t of None \<Rightarrow> False | Some x \<Rightarrow> st_active x)"

definition stop_heartbeat :: "heartbeat \<Rightarrow> heartbeat" where
  "stop_heartbeat s =
     (case hb_handle s of
        None \<Rightarrow> s\<lparr>hb_num := 0\<rparr>
      | Some h \<Rightarrow>
          if runs (hb_timers s ! h)
          then s\<lparr>hb_timers := (hb_timers s)[h := None], hb_handle := None, hb_num := 0\<rparr>
          else s\<lparr>hb_num := 0\<rparr>)"

definition start_heartbeat :: "nat \<Rightarrow> bool \<Rightarrow> bool \<Rightarrow> int \<Rightarrow> heartbeat \<Rightarrow> esp_err \<times> heartbeat" where
  "start_heartbeat hz create start duration s =
     (if \<not> create then (ESP_FAIL, s\<lparr>hb_handle := None\<rparr>)
      else let h = length (hb_timers s);
               t = (\<lambda>a. \<lparr> st_period = nat duration * hz, st_active = a \<rparr>) in
        if \<not> start then (ESP_FAIL, s\<lparr>hb_timers := hb_timers s @ [Some (t False)], hb_handle := Some h\<rparr>)
        else (ESP_OK, s\<lparr>hb_timers := hb_timers s @ [Some (t True)], hb_handle := Some h\<rparr>))"

definition configure_heartbeat ::
  "nat \<Rightarrow> bool \<Rightarrow> bool \<Rightarrow> bool \<Rightarrow> int \<Rightarrow> heartbeat \<Rightarrow> esp_err \<times> heartbeat" where
  "configure_heartbeat hz create start enable duration s =
     (if \<not> enable then (ESP_OK, stop_heartbeat s)
      else if duration < MIN_HEARTBEAT_INTERVAL \<or> MAX_HEARTBEAT_INTERVAL < duration
      then (ESP_ERR_INVALID_ARG, s)
      else start_heartbeat hz create start duration (stop_heartbeat s))"

definition req_config_heartbeat ::
  "nat \<Rightarrow> bool \<Rightarrow> bool \<Rightarrow> bool \<Rightarrow> (bool \<times> int) option \<Rightarrow> heartbeat \<Rightarrow> int answered \<times> heartbeat" where
  "req_config_heartbeat hz alloc create start req s =
     rpc_template (\<lambda>a. (a, s)) alloc req (\<lambda>(enable, duration).
       case configure_heartbeat hz create start enable duration s of
         (r, s1) \<Rightarrow> rpc_ret_fail_if (\<lambda>a. (a, s1)) (\<lambda>e. e) r ((ESP_OK, Some SUCCESS), s1))"

text \<open>The timer's callback; the event is sent by the RPC endpoint.\<close>

definition heartbeat_timer_cb :: "heartbeat \<Rightarrow> heartbeat" where
  "heartbeat_timer_cb s = s\<lparr>hb_num := hb_num s + 1\<rparr>"

inductive hb_reachable :: "nat \<Rightarrow> heartbeat \<Rightarrow> bool" for hz where
  hb_start: "hb_reachable hz \<lparr> hb_timers = [], hb_handle = None, hb_num = 0 \<rparr>"
| hb_config: "hb_reachable hz s \<Longrightarrow> configure_heartbeat hz create start enable duration s = (r, s') \<Longrightarrow>
    hb_reachable hz s'"
| hb_tick: "hb_reachable hz s \<Longrightarrow> hb_reachable hz (heartbeat_timer_cb s)"

subsection \<open>Memory monitor: configuration\<close>

record mem_params =
  internal_mem_dma :: u32
  internal_mem_8bit :: u32
  external_mem_dma :: u32
  external_mem_8bit :: u32

definition no_params :: mem_params where
  "no_params = \<lparr> internal_mem_dma = 0, internal_mem_8bit = 0, external_mem_dma = 0, external_mem_8bit = 0 \<rparr>"

datatype mem_config = MEMMONITOR_NO_CHANGE | MEMMONITOR_DISABLE | MEMMONITOR_ENABLE

text \<open>The request; a threshold message is its DMA and its 8-bit value, or missing.\<close>

record mem_req =
  mq_config :: mem_config
  mq_report_always :: bool
  mq_interval_sec :: u32
  mq_internal :: "(u32 \<times> u32) option"
  mq_external :: "(u32 \<times> u32) option"

text \<open>\<open>mm_timer\<close> is the period of the running timer in ticks.\<close>

record mem_monitor =
  mm_timer :: "nat option"
  mm_params :: mem_params
  mm_report_always :: bool
  mm_interval_sec :: u32

definition mem_monitor_check_params :: "mem_req \<Rightarrow> esp_err" where
  "mem_monitor_check_params q =
     (case (mq_internal q, mq_external q) of
        (Some i, Some e) \<Rightarrow>
          if mq_config q = MEMMONITOR_ENABLE \<and> mq_interval_sec q = 0 then ESP_ERR_INVALID_ARG
          else if mq_config q = MEMMONITOR_ENABLE \<and> \<not> mq_report_always q \<and>
            fst i = 0 \<and> snd i = 0 \<and> fst e = 0 \<and> snd e = 0 then ESP_ERR_INVALID_ARG
          else ESP_OK
      | _ \<Rightarrow> ESP_ERR_INVALID_ARG)"

text \<open>
  \<open>pdMS_TO_TICKS(interval * 1000)\<close>: the milliseconds are a 32-bit product, the ticks are computed in
  64 bits. FreeRTOS does not allow a period of no ticks (\<open>configASSERT\<close>): the outcome \<open>None\<close>.
\<close>

definition interval_ticks :: "nat \<Rightarrow> u32 \<Rightarrow> nat" where
  "interval_ticks hz sec = (unat (sec * 1000) * hz) div 1000"

definition mem_monitor_setup ::
  "nat \<Rightarrow> bool \<Rightarrow> bool \<Rightarrow> mem_req \<Rightarrow> mem_monitor \<Rightarrow> (esp_err \<times> mem_monitor) option" where
  "mem_monitor_setup hz create start q s =
     (let s1 = (if mq_config q = MEMMONITOR_NO_CHANGE then s else s\<lparr>mm_timer := None\<rparr>) in
      if mq_config q = MEMMONITOR_ENABLE then
        (case (mq_internal q, mq_external q) of
           (Some i, Some e) \<Rightarrow>
             let s2 = s1\<lparr>mm_params := \<lparr> internal_mem_dma = fst i, internal_mem_8bit = snd i,
                           external_mem_dma = fst e, external_mem_8bit = snd e \<rparr>,
                        mm_report_always := mq_report_always q, mm_interval_sec := mq_interval_sec q\<rparr>;
                 ticks = interval_ticks hz (mm_interval_sec s2) in
             if ticks = 0 then None
             else if \<not> create \<or> \<not> start then Some (ESP_FAIL, s2)
             else Some (ESP_OK, s2\<lparr>mm_timer := Some ticks\<rparr>)
         | _ \<Rightarrow> None)
      else Some (ESP_OK, s1))"

text \<open>The state an accepted request configures, before its timer is made.\<close>

definition enabled_monitor :: "mem_req \<Rightarrow> u32 \<times> u32 \<Rightarrow> u32 \<times> u32 \<Rightarrow> mem_monitor \<Rightarrow> mem_monitor" where
  "enabled_monitor q i e s = s\<lparr>mm_timer := None,
     mm_params := \<lparr> internal_mem_dma = fst i, internal_mem_8bit = snd i,
       external_mem_dma = fst e, external_mem_8bit = snd e \<rparr>,
     mm_report_always := mq_report_always q, mm_interval_sec := mq_interval_sec q\<rparr>"

text \<open>What the heap functions report, and the event made of it.\<close>

record mem_event =
  me_total_free :: u32
  me_min_free :: u32
  me_free :: mem_params
  me_largest :: mem_params

definition mem_monitor_timer_cb :: "bool \<Rightarrow> mem_event \<Rightarrow> mem_monitor \<Rightarrow> mem_event option" where
  "mem_monitor_timer_cb spiram heap s =
     (let c = me_free heap; p = mm_params s;
          exceeded = internal_mem_dma c < internal_mem_dma p \<or> internal_mem_8bit c < internal_mem_8bit p \<or>
            (spiram \<and> (external_mem_dma c < external_mem_dma p \<or> external_mem_8bit c < external_mem_8bit p))
      in if exceeded \<or> mm_report_always s then Some heap else None)"

text \<open>The response: status, configuration in force and heap statistics, if it got that far.\<close>

record mem_resp =
  mr_resp :: int
  mr_config :: mem_config
  mr_report_always :: bool
  mr_interval_sec :: u32
  mr_stats :: "(u32 \<times> mem_params \<times> mem_params) option"

definition mem_monitor_blank :: "int \<Rightarrow> mem_resp" where
  "mem_monitor_blank r = \<lparr> mr_resp = r, mr_config = MEMMONITOR_NO_CHANGE, mr_report_always = False,
     mr_interval_sec = 0, mr_stats = None \<rparr>"

definition mem_monitor_fill_resp_stats :: "mem_event \<Rightarrow> u32 \<times> mem_params \<times> mem_params" where
  "mem_monitor_fill_resp_stats heap = (me_total_free heap, me_free heap, me_largest heap)"

definition req_mem_monitor ::
  "nat \<Rightarrow> bool \<Rightarrow> bool \<Rightarrow> bool \<Rightarrow> bool \<Rightarrow> mem_event \<Rightarrow> mem_req option \<Rightarrow> mem_monitor
    \<Rightarrow> (mem_resp answered \<times> mem_monitor) option" where
  "req_mem_monitor hz alloc elems create start heap req s =
     rpc_template (\<lambda>a. Some (a, s)) alloc req (\<lambda>q.
       let res = mem_monitor_check_params q in
       if res \<noteq> ESP_OK then Some ((ESP_OK, Some (mem_monitor_blank res)), s)
       else case mem_monitor_setup hz create start q s of
           None \<Rightarrow> None
         | Some (res2, s1) \<Rightarrow>
             if res2 \<noteq> ESP_OK then Some ((ESP_OK, Some (mem_monitor_blank res2)), s1)
             else Some ((ESP_OK, Some \<lparr> mr_resp = (if elems then SUCCESS else RPC_ERR_MEMORY_FAILURE),
                 mr_config = mq_config q, mr_report_always = mm_report_always s1,
                 mr_interval_sec = mm_interval_sec s1,
                 mr_stats = (if elems then Some (mem_monitor_fill_resp_stats heap) else None) \<rparr>), s1))"

subsection \<open>Memory monitor: the event\<close>

text \<open>
  The timer's callback passes its structure as bytes; \<open>rpc_evt_mem_monitor\<close> reads it back whatever
  length it is told (\<open>None\<close>: behind the block).
\<close>

definition put_params :: "mem_params \<Rightarrow> byte list" where
  "put_params p = le_put 4 (internal_mem_dma p) @ le_put 4 (internal_mem_8bit p) @
     le_put 4 (external_mem_dma p) @ le_put 4 (external_mem_8bit p)"

definition put_mem_event :: "mem_event \<Rightarrow> byte list" where
  "put_mem_event e = le_put 4 (me_total_free e) @ le_put 4 (me_min_free e) @
     put_params (me_free e) @ put_params (me_largest e)"

definition get_params :: "nat \<Rightarrow> byte list \<Rightarrow> mem_params" where
  "get_params k b = \<lparr> internal_mem_dma = rd32 k b, internal_mem_8bit = rd32 (k + 4) b,
     external_mem_dma = rd32 (k + 8) b, external_mem_8bit = rd32 (k + 12) b \<rparr>"

definition rpc_evt_mem_monitor :: "bool \<Rightarrow> bool \<Rightarrow> byte list \<Rightarrow> (esp_err \<times> mem_event option) option" where
  "rpc_evt_mem_monitor alloc elems b =
     (if \<not> alloc then Some (ESP_ERR_NO_MEM, None)
      else if \<not> elems then Some (ESP_FAIL, None)
      else if length b < 40 then None
      else Some (ESP_OK, Some \<lparr> me_total_free = rd32 0 b, me_min_free = rd32 4 b,
             me_free = get_params 8 b, me_largest = get_params 24 b \<rparr>))"

subsection \<open>Lemmas: heartbeat\<close>

text \<open>A timer that runs is the one of the handle, so at most one runs.\<close>

definition hb_ok :: "heartbeat \<Rightarrow> bool" where
  "hb_ok s \<longleftrightarrow> (\<forall>i < length (hb_timers s). runs (hb_timers s ! i) \<longrightarrow> hb_handle s = Some i) \<and>
     (\<forall>h. hb_handle s = Some h \<longrightarrow> h < length (hb_timers s))"

definition hb_quiet :: "heartbeat \<Rightarrow> bool" where
  "hb_quiet s \<longleftrightarrow> (\<forall>i < length (hb_timers s). \<not> runs (hb_timers s ! i)) \<and>
     (\<forall>h. hb_handle s = Some h \<longrightarrow> h < length (hb_timers s))"

lemma runs_simps [simp]: "\<not> runs None" "runs (Some t) = st_active t"
  by (simp_all add: runs_def)

lemma stop_quiet: "hb_ok s \<Longrightarrow> hb_quiet (stop_heartbeat s)"
proof -
  assume ok: "hb_ok s"
  show ?thesis
  proof (cases "hb_handle s")
    case None
    then show ?thesis using ok by (auto simp: hb_ok_def hb_quiet_def stop_heartbeat_def)
  next
    case (Some h)
    show ?thesis
    proof (cases "runs (hb_timers s ! h)")
      case True
      have "\<not> runs ((hb_timers s)[h := None] ! i)" if "i < length (hb_timers s)" for i
        using ok Some that by (cases "i = h") (auto simp: hb_ok_def)
      then show ?thesis using True Some by (simp add: hb_quiet_def stop_heartbeat_def)
    next
      case False
      then show ?thesis using ok Some by (auto simp: hb_ok_def hb_quiet_def stop_heartbeat_def)
    qed
  qed
qed

lemma hb_quiet_ok: "hb_quiet s \<Longrightarrow> hb_ok s"
  by (simp add: hb_quiet_def hb_ok_def)

lemma start_ok:
  "hb_quiet s \<Longrightarrow> start_heartbeat hz create start d s = (r, s') \<Longrightarrow> hb_ok s' \<and>
    (r = ESP_OK \<longrightarrow> (\<exists>h. hb_handle s' = Some h \<and>
      hb_timers s' ! h = Some \<lparr> st_period = nat d * hz, st_active = True \<rparr>))"
  by (auto simp: hb_quiet_def hb_ok_def start_heartbeat_def Let_def nth_append esp_errs less_Suc_eq
      split: if_splits)

lemma config_ok: "hb_ok s \<Longrightarrow> configure_heartbeat hz create start enable d s = (r, s') \<Longrightarrow> hb_ok s'"
proof -
  assume ok: "hb_ok s" and c: "configure_heartbeat hz create start enable d s = (r, s')"
  have q: "hb_quiet (stop_heartbeat s)" by (rule stop_quiet [OF ok])
  consider "s' = stop_heartbeat s" | "s' = s" | "start_heartbeat hz create start d (stop_heartbeat s) = (r, s')"
    using c by (auto simp: configure_heartbeat_def split: if_splits)
  then show ?thesis
  proof cases
    case 1 then show ?thesis using hb_quiet_ok [OF q] by simp
  next
    case 2 then show ?thesis using ok by simp
  next
    case 3 then show ?thesis using start_ok [OF q] by blast
  qed
qed

lemma hb_ok_num: "hb_ok (s\<lparr>hb_num := n\<rparr>) = hb_ok s"
  by (simp only: hb_ok_def heartbeat.select_convs heartbeat.update_convs) (cases s, simp only: heartbeat.select_convs heartbeat.update_convs)

lemma hb_ok_only:
  assumes "hb_ok s" "hb_handle s = Some h" "i < length (hb_timers s)" "runs (hb_timers s ! i)"
  shows "i = h"
  using assms unfolding hb_ok_def by (metis option.inject)

lemma hb_ok_reachable: "hb_reachable hz s \<Longrightarrow> hb_ok s"
proof (induction rule: hb_reachable.induct)
  case hb_start
  then show ?case by (simp add: hb_ok_def)
next
  case (hb_config s create start enable duration r s')
  then show ?case using config_ok by blast
next
  case (hb_tick s)
  then show ?case by (simp only: heartbeat_timer_cb_def hb_ok_num)
qed

text \<open>A timer that could not be started is never deleted: every later request leaves it behind.\<close>

lemma failed_start_leaks:
  assumes "hb_handle s = Some h" "hb_timers s ! h = Some t" "\<not> st_active t" "h < length (hb_timers s)"
    "configure_heartbeat hz create start enable d s = (r, s')"
  shows "hb_timers s' ! h = Some t"
proof -
  have n: "\<not> runs (hb_timers s ! h)" using assms(2,3) by simp
  have stop: "stop_heartbeat s = s\<lparr>hb_num := 0\<rparr>"
    using n assms(1) by (simp add: stop_heartbeat_def)
  have "hb_timers (snd (start_heartbeat hz create start d (s\<lparr>hb_num := 0\<rparr>))) ! h = Some t"
    using assms(2,4) by (simp add: start_heartbeat_def Let_def nth_append)
  then have "hb_timers (snd (configure_heartbeat hz create start enable d s)) ! h = Some t"
    using assms(2) stop by (simp add: configure_heartbeat_def)
  then show ?thesis using assms(5) by simp
qed

subsection \<open>Lemmas: memory monitor\<close>

lemma get_put_params:
  "length pre = k \<Longrightarrow> get_params k (pre @ put_params p @ post) = p"
  by (simp add: get_params_def put_params_def wire)

lemma length_put_params [simp]: "length (put_params p) = 16"
  by (simp add: put_params_def)

lemma mem_event_read:
  "rpc_evt_mem_monitor True True (put_mem_event e @ post) = Some (ESP_OK, Some e)"
proof -
  let ?h = "le_put 4 (me_total_free e) @ le_put 4 (me_min_free e)"
  let ?b = "put_mem_event e @ post"
  have 1: "get_params 8 ?b = me_free e"
    using get_put_params [of ?h 8 "me_free e" "put_params (me_largest e) @ post"]
    by (simp add: put_mem_event_def)
  have 2: "get_params 24 ?b = me_largest e"
    using get_put_params [of "?h @ put_params (me_free e)" 24 "me_largest e" post]
    by (simp add: put_mem_event_def)
  have 3: "rd32 0 ?b = me_total_free e" "rd32 4 ?b = me_min_free e"
    by (simp_all add: put_mem_event_def wire)
  have "40 \<le> length ?b" by (simp add: put_mem_event_def)
  then show ?thesis using 1 2 3 by (simp add: rpc_evt_mem_monitor_def)
qed

lemma interval_ticks_exact:
  assumes "unat sec < 4294968" shows "interval_ticks hz sec = unat sec * hz"
proof -
  have "unat (sec * 1000) = unat sec * 1000"
    using assms by (subst unat_mult_lem [THEN iffD1]) simp_all
  then show ?thesis by (simp add: interval_ticks_def ac_simps)
qed

lemma interval_ticks_zero: "interval_ticks hz 536870912 = 0"
  by (simp add: interval_ticks_def)

lemma setup_enabled:
  assumes "mq_config q = MEMMONITOR_ENABLE" "mq_internal q = Some i" "mq_external q = Some e"
  shows "mem_monitor_setup hz create start q s =
    (if interval_ticks hz (mq_interval_sec q) = 0 then None
     else if \<not> create \<or> \<not> start then Some (ESP_FAIL, enabled_monitor q i e s)
     else Some (ESP_OK, (enabled_monitor q i e s)\<lparr>mm_timer := Some (interval_ticks hz (mq_interval_sec q))\<rparr>))"
  using assms by (simp add: mem_monitor_setup_def Let_def enabled_monitor_def)

subsection \<open>Properties\<close>

text \<open>Whatever heartbeat requests come, with whatever failures, at most one heartbeat timer runs and
  it is the one the handle names; a request to start it that succeeds leaves exactly the
  requested period running.\<close>

theorem one_heartbeat_runs:
  assumes "hb_reachable hz s" "configure_heartbeat hz create start True d s = (ESP_OK, s')"
  shows "1 \<le> d \<and> d \<le> 86400 \<and> (\<exists>h. hb_handle s' = Some h \<and>
    hb_timers s' ! h = Some \<lparr> st_period = nat d * hz, st_active = True \<rparr> \<and>
    (\<forall>i < length (hb_timers s'). runs (hb_timers s' ! i) \<longleftrightarrow> i = h))"
proof -
  have q: "hb_quiet (stop_heartbeat s)" by (rule stop_quiet [OF hb_ok_reachable [OF assms(1)]])
  have d: "1 \<le> d" "d \<le> 86400" and st: "start_heartbeat hz create start d (stop_heartbeat s) = (ESP_OK, s')"
    using assms(2) by (auto simp: configure_heartbeat_def MIN_HEARTBEAT_INTERVAL_def
        MAX_HEARTBEAT_INTERVAL_def esp_errs split: if_splits)
  obtain h where h: "hb_handle s' = Some h"
    "hb_timers s' ! h = Some \<lparr> st_period = nat d * hz, st_active = True \<rparr>" "hb_ok s'"
    using start_ok [OF q st] by blast
  have "\<forall>i < length (hb_timers s'). runs (hb_timers s' ! i) \<longleftrightarrow> i = h"
    using h(2) hb_ok_only [OF h(3,1)] by (metis runs_simps(2) soft_timer.select_convs(2))
  then show ?thesis using d h by blast
qed

text \<open>A memory monitor that is switched on by a valid request runs with the requested period when
  the interval is below 4294968 seconds. Above, the product of seconds and 1000 wraps in 32 bits:
  2^29 seconds make a period of no ticks, which stops the firmware.\<close>

theorem monitor_interval_wraps:
  assumes "mq_config q = MEMMONITOR_ENABLE" "mem_monitor_check_params q = ESP_OK" "0 < hz"
  shows "(unat (mq_interval_sec q) < 4294968 \<longrightarrow>
      (\<exists>s'. mem_monitor_setup hz True True q s = Some (ESP_OK, s') \<and>
        mm_timer s' = Some (unat (mq_interval_sec q) * hz))) \<and>
    (mq_interval_sec q = 536870912 \<longrightarrow> mem_monitor_setup hz create start q s = None)"
proof -
  obtain i e where ie: "mq_internal q = Some i" "mq_external q = Some e" "mq_interval_sec q \<noteq> 0"
    using assms(1,2) by (auto simp: mem_monitor_check_params_def esp_errs split: option.splits if_splits)
  have enabled: "mem_monitor_setup hz c st q s =
      (if interval_ticks hz (mq_interval_sec q) = 0 then None
       else if \<not> c \<or> \<not> st then Some (ESP_FAIL, enabled_monitor q i e s)
       else Some (ESP_OK, (enabled_monitor q i e s)\<lparr>mm_timer := Some (interval_ticks hz (mq_interval_sec q))\<rparr>))"
    for c st by (rule setup_enabled [OF assms(1) ie(1,2)])
  have pos: "0 < unat (mq_interval_sec q)" using ie(3) by (simp add: unat_gt_0)
  have "\<exists>s'. mem_monitor_setup hz True True q s = Some (ESP_OK, s') \<and>
        mm_timer s' = Some (unat (mq_interval_sec q) * hz)" if "unat (mq_interval_sec q) < 4294968"
    unfolding enabled interval_ticks_exact [OF that] using pos assms(3) by simp
  moreover have "mem_monitor_setup hz create start q s = None" if "mq_interval_sec q = 536870912"
    unfolding enabled that interval_ticks_zero by simp
  ultimately show ?thesis by blast
qed

text \<open>A request that gives thresholds for external memory only is accepted by a build without
  external memory, whose timer then never reports, whatever the heap does.\<close>

theorem external_thresholds_never_report:
  assumes "mq_config q = MEMMONITOR_ENABLE" "\<not> mq_report_always q" "unat (mq_interval_sec q) < 4294968"
    "0 < mq_interval_sec q" "0 < hz" "mq_internal q = Some (0, 0)" "mq_external q = Some (x, y)" "x \<noteq> 0 \<or> y \<noteq> 0"
  shows "\<exists>r s'. req_mem_monitor hz True True True True heap (Some q) s = Some ((ESP_OK, Some r), s') \<and>
    mr_resp r = SUCCESS \<and> (\<exists>t. mm_timer s' = Some t) \<and> (\<forall>h. mem_monitor_timer_cb False h s' = None)"
proof -
  have pos: "0 < unat (mq_interval_sec q)" using assms(4) by (simp add: word_less_nat_alt)
  have chk: "mem_monitor_check_params q = ESP_OK"
    using assms by (auto simp: mem_monitor_check_params_def)
  then show ?thesis
    using assms pos interval_ticks_exact [OF assms(3), of hz]
    by (simp add: req_mem_monitor_def mem_monitor_setup_def mem_monitor_timer_cb_def Let_def esp_errs)
qed

text \<open>The monitor's event carries the heap readings of its timer's callback unchanged to the RPC
  event, and is sent exactly when a threshold of a memory the build has is undercut, or always if
  so requested.\<close>

theorem mem_event_roundtrip:
  "(case mem_monitor_timer_cb spiram h s of
      None \<Rightarrow> \<not> mm_report_always s \<and> internal_mem_dma (mm_params s) \<le> internal_mem_dma (me_free h) \<and>
        internal_mem_8bit (mm_params s) \<le> internal_mem_8bit (me_free h)
    | Some e \<Rightarrow> rpc_evt_mem_monitor True True (put_mem_event e) = Some (ESP_OK, Some h))"
  using mem_event_read [of h "[]"] by (auto simp: mem_monitor_timer_cb_def Let_def split: option.split)

subsection \<open>Concrete instances\<close>

theorem one_heartbeat_runs_witness:
  "\<exists>s' h. configure_heartbeat 100 True True True 30 \<lparr> hb_timers = [], hb_handle = None, hb_num = 0 \<rparr> = (ESP_OK, s') \<and>
     hb_timers s' ! h = Some \<lparr> st_period = 3000, st_active = True \<rparr>"
proof -
  have c: "configure_heartbeat 100 True True True 30 \<lparr> hb_timers = [], hb_handle = None, hb_num = 0 \<rparr> =
      (ESP_OK, \<lparr> hb_timers = [Some \<lparr> st_period = 3000, st_active = True \<rparr>], hb_handle = Some 0, hb_num = 0 \<rparr>)"
    by (simp add: configure_heartbeat_def stop_heartbeat_def start_heartbeat_def
        MIN_HEARTBEAT_INTERVAL_def MAX_HEARTBEAT_INTERVAL_def)
  from one_heartbeat_runs [OF hb_start c] obtain h where
    "hb_timers \<lparr> hb_timers = [Some \<lparr> st_period = 3000, st_active = True \<rparr>], hb_handle = Some 0, hb_num = 0 \<rparr> ! h =
      Some \<lparr> st_period = nat 30 * 100, st_active = True \<rparr>" by blast
  then show ?thesis using c by (intro exI conjI) auto
qed

definition demo_mem_req :: mem_req where
  "demo_mem_req = \<lparr> mq_config = MEMMONITOR_ENABLE, mq_report_always = False, mq_interval_sec = 2 ^ 29,
     mq_internal = Some (0, 0), mq_external = Some (4096, 0) \<rparr>"

theorem monitor_interval_wraps_witness:
  "mem_monitor_setup 100 True True demo_mem_req
     \<lparr> mm_timer = None, mm_params = no_params, mm_report_always = False, mm_interval_sec = 0 \<rparr> = None"
  using monitor_interval_wraps [of demo_mem_req 100 "\<lparr> mm_timer = None, mm_params = no_params,
      mm_report_always = False, mm_interval_sec = 0 \<rparr>" True True]
  by (simp add: demo_mem_req_def mem_monitor_check_params_def)

theorem external_thresholds_never_report_witness:
  "\<exists>r s'. req_mem_monitor 100 True True True True
      \<lparr> me_total_free = 0, me_min_free = 0, me_free = no_params, me_largest = no_params \<rparr>
      (Some (demo_mem_req\<lparr>mq_interval_sec := 60\<rparr>))
      \<lparr> mm_timer = None, mm_params = no_params, mm_report_always = False, mm_interval_sec = 0 \<rparr> =
      Some ((ESP_OK, Some r), s') \<and> (\<forall>h. mem_monitor_timer_cb False h s' = None)"
  using external_thresholds_never_report [of "demo_mem_req\<lparr>mq_interval_sec := 60\<rparr>" 100 4096 0
      "\<lparr> me_total_free = 0, me_min_free = 0, me_free = no_params, me_largest = no_params \<rparr>"
      "\<lparr> mm_timer = None, mm_params = no_params, mm_report_always = False, mm_interval_sec = 0 \<rparr>"]
  by (fastforce simp: demo_mem_req_def)

end
