(* ===== verification/Slave_Info.thy ===== *)
theory Slave_Info
  imports Rpc_Base
begin

section \<open>Identity, MAC addresses and features of the co-processor (slave_control.c)\<close>

text \<open>
  The requests for the firmware version, the application description and the MAC addresses, and the
  switch of the Bluetooth controller. \<open>copy_ok n\<close> says whether the n-th copy of a string or of
  bytes into the response gets memory; what the calls of ESP-IDF return is a parameter.
\<close>

subsection \<open>Firmware version\<close>

record fw_version_resp =
  fv_major1 :: u32
  fv_minor1 :: u32
  fv_patch1 :: u32
  fv_revision :: int
  fv_prerelease :: int
  fv_build :: int
  fv_chip_id :: u32
  fv_idf_target :: "byte list"
  fv_resp :: int

definition PROJECT_VERSION :: "u32 \<times> u32 \<times> u32" where "PROJECT_VERSION = (2, 12, 6)"

text \<open>The target's name is copied with its length as the limit, so without its zero.\<close>

definition req_get_coprocessor_fw_version ::
  "u32 \<Rightarrow> byte list \<Rightarrow> bool \<Rightarrow> (nat \<Rightarrow> bool) \<Rightarrow> fw_version_resp answered" where
  "req_get_coprocessor_fw_version chip target alloc copy_ok =
     rpc_template_simple (\<lambda>a. a) alloc
       (let v = \<lparr> fv_major1 = fst PROJECT_VERSION, fv_minor1 = fst (snd PROJECT_VERSION),
              fv_patch1 = snd (snd PROJECT_VERSION), fv_revision = -1, fv_prerelease = -1, fv_build = -1,
              fv_chip_id = chip, fv_idf_target = [], fv_resp = SUCCESS \<rparr> in
        case rpc_resp_copy_str (copy_ok 0) target (length target) of
          None \<Rightarrow> (ESP_OK, Some (v\<lparr>fv_resp := FAILURE\<rparr>))
        | Some t \<Rightarrow> (ESP_OK, Some (v\<lparr>fv_idf_target := t, fv_resp := ESP_OK\<rparr>)))"

subsection \<open>MAC addresses\<close>

record mac_api =
  ma_len :: "u32 \<Rightarrow> nat"
  ma_set :: "byte list \<Rightarrow> u32 \<Rightarrow> esp_err"
  ma_read :: "u32 \<Rightarrow> esp_err \<times> byte list"

definition req_iface_mac_addr_len_get ::
  "mac_api \<Rightarrow> bool \<Rightarrow> u32 option \<Rightarrow> (u32 \<times> nat) answered" where
  "req_iface_mac_addr_len_get m alloc req =
     rpc_template (\<lambda>a. a) alloc req (\<lambda>type. (ESP_OK, Some (type, ma_len m type)))"

record iface_mac_req =
  mq_set :: bool
  mq_type :: u32
  mq_mac :: "byte list"

record iface_mac_resp =
  ms_set :: bool
  ms_type :: u32
  ms_mac :: "byte list"
  ms_resp :: int

definition IFACE_MAC_SIZE :: nat where "IFACE_MAC_SIZE = 8"

text \<open>
  The second component of an outcome is what was given to \<open>esp_iface_mac_addr_set\<close>. Reading fills the
  front of a zeroed array of eight bytes, whose first bytes are sent by the length of the type.
\<close>

definition req_iface_mac_addr_set_get ::
  "mac_api \<Rightarrow> bool \<Rightarrow> bool \<Rightarrow> iface_mac_req option \<Rightarrow> iface_mac_resp answered \<times> (byte list \<times> u32) list" where
  "req_iface_mac_addr_set_get m alloc copy_ok req =
     rpc_template (\<lambda>a. (a, [])) alloc req (\<lambda>q.
       let r = \<lparr> ms_set = mq_set q, ms_type = mq_type q, ms_mac = [], ms_resp = SUCCESS \<rparr>;
           len = ma_len m (mq_type q);
           copied = (\<lambda>src. case rpc_resp_copy_bytes copy_ok src len of
              None \<Rightarrow> ((ESP_OK, Some (r\<lparr>ms_resp := FAILURE\<rparr>)) :: iface_mac_resp answered)
            | Some b \<Rightarrow> (ESP_OK, Some (r\<lparr>ms_mac := b\<rparr>)))
       in if mq_set q then
            (if mq_mac q = [] then ((ESP_OK, Some (r\<lparr>ms_resp := ESP_ERR_INVALID_ARG\<rparr>)), [])
             else if length (mq_mac q) \<noteq> len then ((ESP_OK, Some (r\<lparr>ms_resp := ESP_ERR_INVALID_ARG\<rparr>)), [])
             else let call = [(mq_mac q, mq_type q)] in
               rpc_ret_fail_if (\<lambda>a. (a, call)) (\<lambda>e. r\<lparr>ms_resp := e\<rparr>) (ma_set m (mq_mac q) (mq_type q))
                 (copied (mq_mac q), call))
          else (case ma_read m (mq_type q) of (e, b) \<Rightarrow>
            rpc_ret_fail_if (\<lambda>a. (a, [])) (\<lambda>e. r\<lparr>ms_resp := e\<rparr>) e
              (copied (b @ drop (length b) (replicate IFACE_MAC_SIZE 0)), [])))"

subsection \<open>Feature control\<close>

datatype bt_call = Bt_init | Bt_deinit bool | Bt_enable | Bt_disable

record feature_req =
  fq_feature :: u32
  fq_command :: u32
  fq_option :: u32

record feature_resp =
  fr_echo :: feature_req
  fr_resp :: int

text \<open>\<open>bt_on\<close> is \<open>CONFIG_ESP_HOSTED_CP_BT\<close>, \<open>bt\<close> what the controller's functions return.\<close>

definition req_feature_control ::
  "bool \<Rightarrow> (bt_call \<Rightarrow> esp_err) \<Rightarrow> bool \<Rightarrow> feature_req option \<Rightarrow> feature_resp answered \<times> bt_call list" where
  "req_feature_control bt_on bt alloc req =
     rpc_template (\<lambda>a. (a, [])) alloc req (\<lambda>q.
       let done = (\<lambda>e. ((ESP_OK, Some \<lparr> fr_echo = q, fr_resp = e \<rparr>) :: feature_resp answered));
           call = (\<lambda>c. rpc_ret_fail_if (\<lambda>a. (a, [c])) (\<lambda>e. \<lparr> fr_echo = q, fr_resp = e \<rparr>) (bt c) (done SUCCESS, [c]))
       in if bt_on \<and> fq_feature q = 1 then
            (if fq_command q = 1 then call Bt_init
             else if fq_command q = 2 then call (Bt_deinit (fq_option q = 1))
             else if fq_command q = 3 then call Bt_enable
             else if fq_command q = 4 then call Bt_disable
             else (done ESP_ERR_INVALID_ARG, []))
          else (done ESP_ERR_INVALID_ARG, []))"

subsection \<open>Application description\<close>

record app_desc =
  ad_magic_word :: u32
  ad_secure_version :: u32
  ad_project_name :: "byte list"
  ad_version :: "byte list"
  ad_idf_ver :: "byte list"
  ad_time :: "byte list"
  ad_date :: "byte list"
  ad_app_elf_sha256 :: "byte list"
  ad_min_efuse_blk_rev_full :: u32
  ad_max_efuse_blk_rev_full :: u32
  ad_mmu_page_size :: u32

definition no_app_desc :: app_desc where
  "no_app_desc = \<lparr> ad_magic_word = 0, ad_secure_version = 0, ad_project_name = [], ad_version = [],
     ad_idf_ver = [], ad_time = [], ad_date = [], ad_app_elf_sha256 = [],
     ad_min_efuse_blk_rev_full = 0, ad_max_efuse_blk_rev_full = 0, ad_mmu_page_size = 0 \<rparr>"

text \<open>A step of the copying: \<open>Inl\<close> once a copy has failed.\<close>

definition ad_copy ::
  "bool \<Rightarrow> byte list option \<Rightarrow> (byte list \<Rightarrow> app_desc \<Rightarrow> app_desc) \<Rightarrow> app_desc + app_desc \<Rightarrow> app_desc + app_desc" where
  "ad_copy ok b upd d =
     (case d of
        Inl x \<Rightarrow> Inl x
      | Inr x \<Rightarrow> (case b of None \<Rightarrow> Inl x | Some t \<Rightarrow> Inr (upd t x)))"

record app_build =
  ab_full :: bool
  ab_efuse :: bool
  ab_mmu :: bool

text \<open>
  The strings of the description are C strings in arrays of 32 bytes (16 for time and date), the
  hash is 32 bytes. The response is the status and the description, if it was allocated.
\<close>

definition req_app_get_desc ::
  "app_build \<Rightarrow> bool \<Rightarrow> bool \<Rightarrow> (nat \<Rightarrow> bool) \<Rightarrow> app_desc option \<Rightarrow> (int \<times> app_desc option) answered" where
  "req_app_get_desc b alloc elem copy_ok desc =
     rpc_template_simple (\<lambda>a. a) alloc
       (if \<not> elem then (ESP_OK, Some (RPC_ERR_MEMORY_FAILURE, None))
        else case desc of
            None \<Rightarrow> (ESP_OK, Some (ESP_FAIL, Some no_app_desc))
          | Some d \<Rightarrow>
              let str = (\<lambda>n f m. rpc_resp_copy_str (copy_ok n) (f d) m);
                  basic = ad_copy True (str 2 ad_idf_ver 32) (\<lambda>t x. x\<lparr>ad_idf_ver := t\<rparr>)
                    (ad_copy True (str 1 ad_version 32) (\<lambda>t x. x\<lparr>ad_version := t\<rparr>)
                      (ad_copy True (str 0 ad_project_name 32) (\<lambda>t x. x\<lparr>ad_project_name := t\<rparr>) (Inr no_app_desc)));
                  nums = map_sum id (\<lambda>x. x\<lparr>ad_magic_word := ad_magic_word d, ad_secure_version := ad_secure_version d\<rparr>);
                  rest = (\<lambda>y. ad_copy True (rpc_resp_copy_bytes (copy_ok 5) (ad_app_elf_sha256 d) 32)
                      (\<lambda>t x. x\<lparr>ad_app_elf_sha256 := t\<rparr>)
                    (ad_copy True (str 4 ad_date 16) (\<lambda>t x. x\<lparr>ad_date := t\<rparr>)
                      (ad_copy True (str 3 ad_time 16) (\<lambda>t x. x\<lparr>ad_time := t\<rparr>) (nums y))));
                  efuse = map_sum id (\<lambda>x. if ab_efuse b then x\<lparr>ad_min_efuse_blk_rev_full := ad_min_efuse_blk_rev_full d,
                    ad_max_efuse_blk_rev_full := ad_max_efuse_blk_rev_full d\<rparr> else x);
                  mmu = map_sum id (\<lambda>x. if ab_mmu b then x\<lparr>ad_mmu_page_size := ad_mmu_page_size d\<rparr> else x)
              in case (if ab_full b then mmu (efuse (rest basic)) else basic) of
                   Inl x \<Rightarrow> (ESP_OK, Some (FAILURE, Some x))
                 | Inr x \<Rightarrow> (ESP_OK, Some (SUCCESS, Some x)))"

subsection \<open>Events\<close>

definition rpc_evt_ESPInit :: "bool \<Rightarrow> int \<Rightarrow> int answered" where
  "rpc_evt_ESPInit alloc reset_reason = (if \<not> alloc then (ESP_ERR_NO_MEM, None) else (ESP_OK, Some reset_reason))"

definition rpc_evt_heartbeat :: "bool \<Rightarrow> u32 \<Rightarrow> u32 answered" where
  "rpc_evt_heartbeat alloc hb_num = (if \<not> alloc then (ESP_ERR_NO_MEM, None) else (ESP_OK, Some hb_num))"

text \<open>The event's number is read from one byte; \<open>None\<close>: there is none.\<close>

definition rpc_evt_Event_WifiEventNoArgs :: "bool \<Rightarrow> byte list \<Rightarrow> int answered option" where
  "rpc_evt_Event_WifiEventNoArgs alloc b =
     (if \<not> alloc then Some (ESP_ERR_NO_MEM, None)
      else if b = [] then None else Some (ESP_OK, Some (uint (b ! 0))))"

subsection \<open>Lemmas\<close>

text \<open>The version reported is the one the start-up event carries.\<close>

lemma fw_version_answer:
  "req_get_coprocessor_fw_version chip target True (\<lambda>_. True) =
    (ESP_OK, Some \<lparr> fv_major1 = 2, fv_minor1 = 12, fv_patch1 = 6, fv_revision = -1, fv_prerelease = -1,
      fv_build = -1, fv_chip_id = chip, fv_idf_target = target, fv_resp = ESP_OK \<rparr>)"
  by (simp add: req_get_coprocessor_fw_version_def PROJECT_VERSION_def Let_def rpc_resp_copy_str_def)

text \<open>Nothing of the wrong length reaches the driver.\<close>

lemma mac_set_guarded:
  assumes "req_iface_mac_addr_set_get m alloc copy_ok req = (a, calls)"
  shows "list_all (\<lambda>(b, t). b \<noteq> [] \<and> length b = ma_len m t) calls"
  using assms by (cases req) (auto simp: req_iface_mac_addr_set_get_def rpc_template_def Let_def
      rpc_ret_fail_if_def split: if_splits prod.splits)

subsection \<open>Properties\<close>

text \<open>A MAC address that the host sets and reads back is the one it set, given that the chip returns
  the address last set for its type and that an address of the type has at most eight bytes.\<close>

theorem mac_set_then_get:
  assumes "length b = ma_len m t" "b \<noteq> []" "ma_len m t \<le> 8" "ma_set m b t = 0" "ma_read m t = (0, b)"
  shows "req_iface_mac_addr_set_get m True True (Some \<lparr> mq_set = True, mq_type = t, mq_mac = b \<rparr>) =
      ((ESP_OK, Some \<lparr> ms_set = True, ms_type = t, ms_mac = b, ms_resp = SUCCESS \<rparr>), [(b, t)]) \<and>
    req_iface_mac_addr_set_get m True True (Some \<lparr> mq_set = False, mq_type = t, mq_mac = [] \<rparr>) =
      ((ESP_OK, Some \<lparr> ms_set = False, ms_type = t, ms_mac = b, ms_resp = SUCCESS \<rparr>), [])"
  using assms by (auto simp: req_iface_mac_addr_set_get_def rpc_resp_copy_bytes_def Let_def
      assms(1) [symmetric])

subsection \<open>Concrete instances\<close>

definition demo_mac :: mac_api where
  "demo_mac = \<lparr> ma_len = (\<lambda>_. 6), ma_set = (\<lambda>_ _. 0), ma_read = (\<lambda>_. (0, [1, 2, 3, 4, 5, 6])) \<rparr>"

theorem mac_set_then_get_witness:
  "fst (req_iface_mac_addr_set_get demo_mac True True (Some \<lparr> mq_set = False, mq_type = 0, mq_mac = [] \<rparr>)) =
    (ESP_OK, Some \<lparr> ms_set = False, ms_type = 0, ms_mac = [1, 2, 3, 4, 5, 6], ms_resp = SUCCESS \<rparr>)"
  using mac_set_then_get [of "[1, 2, 3, 4, 5, 6]" demo_mac 0] by (simp add: demo_mac_def)

end
