(* ===== verification/Slave_Pins.thy ===== *)
theory Slave_Pins
  imports Rpc_Base
begin

section \<open>Pins lent to the host (slave_transport_gpio_pin_guard.c, slave_gpio_expander.c, slave_ext_coex.c)\<close>

text \<open>
  The host may use free pins of the co-processor. The guard knows the pins of the bus from the build
  (\<open>pin_build\<close>), and the requests ask it before they call the GPIO or coexistence driver. The
  driver's results are a parameter (\<open>drv\<close>), its calls an output. \<open>GPIO_NUM_MAX\<close> is the number of
  pins of the chip, at most 64.
\<close>

subsection \<open>The guard\<close>

text \<open>The pins of each bus in the order they are configured; \<open>None\<close>: the bus is not in the build.\<close>

record pin_build =
  pb_sdio :: "(int \<times> int \<times> int \<times> int \<times> int \<times> int) option"
  pb_spi :: "(int \<times> int \<times> int \<times> int \<times> int \<times> int \<times> int) option"
  pb_spi_hd :: "((int \<times> int \<times> int \<times> int) \<times> (int \<times> int) option \<times> int \<times> int) option"
  pb_uart :: "(int \<times> int \<times> int) option"

definition add_pin :: "nat \<Rightarrow> int \<Rightarrow> u64 \<Rightarrow> u64" where
  "add_pin GPIO_NUM_MAX pin m =
     (if 0 \<le> pin \<and> pin < int GPIO_NUM_MAX then m OR push_bit (nat pin) 1 else m)"

definition bus_pins :: "pin_build \<Rightarrow> int list" where
  "bus_pins b =
     (case pb_sdio b of None \<Rightarrow> []
      | Some (cmd, clk, d0, d1, d2, d3) \<Rightarrow> [cmd, clk, d0, d1, d2, d3]) @
     (case pb_spi b of None \<Rightarrow> []
      | Some (mosi, miso, clk, cs, handshake, data_ready, reset) \<Rightarrow>
          [mosi, miso, clk, cs, handshake, data_ready, reset]) @
     (case pb_spi_hd b of None \<Rightarrow> []
      | Some ((cs, clk, d0, d1), d23, data_ready, reset) \<Rightarrow>
          [cs, clk, d0, d1] @ (case d23 of None \<Rightarrow> [] | Some (d2, d3) \<Rightarrow> [d2, d3]) @ [data_ready, reset]) @
     (case pb_uart b of None \<Rightarrow> [] | Some (tx, rx, reset) \<Rightarrow> [tx, rx, reset])"

definition get_reserved_pin_mask :: "nat \<Rightarrow> pin_build \<Rightarrow> u64" where
  "get_reserved_pin_mask GPIO_NUM_MAX b = fold (add_pin GPIO_NUM_MAX) (bus_pins b) 0"

definition transport_gpio_pin_guard_is_eligible :: "nat \<Rightarrow> pin_build \<Rightarrow> int \<Rightarrow> bool" where
  "transport_gpio_pin_guard_is_eligible GPIO_NUM_MAX b pin =
     (if pin < 0 \<or> int GPIO_NUM_MAX \<le> pin then False
      else get_reserved_pin_mask GPIO_NUM_MAX b AND push_bit (nat pin) 1 = 0)"

subsection \<open>GPIO requests\<close>

text \<open>The driver's calls; those without effect on a pin carry no pin.\<close>

datatype pin_call =
    Gpio_config int u32 u32 u64
  | Gpio_reset_pin int
  | Gpio_set_level int u32
  | Gpio_get_level int
  | Gpio_set_direction int int
  | Gpio_input_enable int
  | Gpio_set_pull_mode int int
  | Coex_enable_gpio u32 int int int int
  | Coex_disable_gpio
  | Coex_set_work_mode u32
  | Coex_set_grant_delay u8
  | Coex_set_validate_high bool

definition call_pins :: "nat \<Rightarrow> pin_call \<Rightarrow> int list" where
  "call_pins GPIO_NUM_MAX c =
     (case c of
        Gpio_config _ _ _ m \<Rightarrow> map int (filter (bit m) [0..<GPIO_NUM_MAX])
      | Gpio_reset_pin p \<Rightarrow> [p]
      | Gpio_set_level p _ \<Rightarrow> [p]
      | Gpio_get_level p \<Rightarrow> [p]
      | Gpio_set_direction p _ \<Rightarrow> [p]
      | Gpio_input_enable p \<Rightarrow> [p]
      | Gpio_set_pull_mode p _ \<Rightarrow> [p]
      | Coex_enable_gpio _ a b c d \<Rightarrow> [a, b, c, d]
      | _ \<Rightarrow> [])"

text \<open>A response's status, and the level for the one request that reads one.\<close>

record pin_resp =
  pr_resp :: int
  pr_level :: u32

definition pin_status :: "int \<Rightarrow> pin_resp" where
  "pin_status r = \<lparr> pr_resp = r, pr_level = 0 \<rparr>"

type_synonym pin_out = "pin_resp answered \<times> pin_call list"

record gpio_cfg =
  gc_mode :: int
  gc_pull_up_en :: u32
  gc_pull_down_en :: u32
  gc_intr_type :: int
  gc_pin_bit_mask :: u64

definition GPIO_INTR_DISABLE :: int where "GPIO_INTR_DISABLE = 0"

text \<open>A call of the driver whose failure becomes the response's status.\<close>

definition pin_drive :: "(pin_call \<Rightarrow> esp_err) \<Rightarrow> pin_call \<Rightarrow> pin_out" where
  "pin_drive drv c =
     rpc_ret_fail_if (\<lambda>a. (a, [c])) pin_status (drv c) ((ESP_OK, Some (pin_status SUCCESS)), [c])"

definition pin_refuse :: "esp_err \<Rightarrow> pin_out" where
  "pin_refuse e = ((ESP_OK, Some (pin_status e)), [])"

text \<open>The configuration in the request is a pointer that is not checked: \<open>None\<close> is a crash.\<close>

definition req_gpio_config ::
  "nat \<Rightarrow> pin_build \<Rightarrow> (pin_call \<Rightarrow> esp_err) \<Rightarrow> bool \<Rightarrow> gpio_cfg option option \<Rightarrow> pin_out option" where
  "req_gpio_config GPIO_NUM_MAX b drv alloc req =
     rpc_template (\<lambda>a. Some (a, [])) alloc req (\<lambda>config. case config of
        None \<Rightarrow> None
      | Some c \<Rightarrow>
          if gc_intr_type c \<noteq> GPIO_INTR_DISABLE then Some (pin_refuse ESP_ERR_NOT_SUPPORTED)
          else if list_ex (\<lambda>pin. bit (gc_pin_bit_mask c) pin \<and>
              \<not> transport_gpio_pin_guard_is_eligible GPIO_NUM_MAX b (int pin)) [0..<GPIO_NUM_MAX]
          then Some (pin_refuse ESP_ERR_INVALID_ARG)
          else Some (pin_drive drv
            (Gpio_config (gc_mode c) (gc_pull_up_en c) (gc_pull_down_en c) (gc_pin_bit_mask c))))"

text \<open>The other requests guard one pin and call the driver once.\<close>

definition guarded ::
  "nat \<Rightarrow> pin_build \<Rightarrow> bool \<Rightarrow> 'q option \<Rightarrow> ('q \<Rightarrow> int) \<Rightarrow> ('q \<Rightarrow> pin_out) \<Rightarrow> pin_out" where
  "guarded GPIO_NUM_MAX b alloc req pin body =
     rpc_template (\<lambda>a. (a, [])) alloc req (\<lambda>q.
       if \<not> transport_gpio_pin_guard_is_eligible GPIO_NUM_MAX b (pin q)
       then pin_refuse ESP_ERR_INVALID_ARG else body q)"

definition req_gpio_reset ::
  "nat \<Rightarrow> pin_build \<Rightarrow> (pin_call \<Rightarrow> esp_err) \<Rightarrow> bool \<Rightarrow> int option \<Rightarrow> pin_out" where
  "req_gpio_reset GPIO_NUM_MAX b drv alloc req =
     guarded GPIO_NUM_MAX b alloc req (\<lambda>p. p) (\<lambda>p. pin_drive drv (Gpio_reset_pin p))"

definition req_gpio_set_level ::
  "nat \<Rightarrow> pin_build \<Rightarrow> (pin_call \<Rightarrow> esp_err) \<Rightarrow> bool \<Rightarrow> (int \<times> u32) option \<Rightarrow> pin_out" where
  "req_gpio_set_level GPIO_NUM_MAX b drv alloc req =
     guarded GPIO_NUM_MAX b alloc req fst (\<lambda>(p, level). pin_drive drv (Gpio_set_level p level))"

definition req_gpio_get_level ::
  "nat \<Rightarrow> pin_build \<Rightarrow> (int \<Rightarrow> u32) \<Rightarrow> bool \<Rightarrow> int option \<Rightarrow> pin_out" where
  "req_gpio_get_level GPIO_NUM_MAX b gpio_get_level alloc req =
     guarded GPIO_NUM_MAX b alloc req (\<lambda>p. p) (\<lambda>p.
       ((ESP_OK, Some \<lparr> pr_resp = SUCCESS, pr_level = gpio_get_level p \<rparr>), [Gpio_get_level p]))"

definition req_gpio_set_direction ::
  "nat \<Rightarrow> pin_build \<Rightarrow> (pin_call \<Rightarrow> esp_err) \<Rightarrow> bool \<Rightarrow> (int \<times> int) option \<Rightarrow> pin_out" where
  "req_gpio_set_direction GPIO_NUM_MAX b drv alloc req =
     guarded GPIO_NUM_MAX b alloc req fst (\<lambda>(p, mode). pin_drive drv (Gpio_set_direction p mode))"

definition req_gpio_input_enable ::
  "nat \<Rightarrow> pin_build \<Rightarrow> (pin_call \<Rightarrow> esp_err) \<Rightarrow> bool \<Rightarrow> int option \<Rightarrow> pin_out" where
  "req_gpio_input_enable GPIO_NUM_MAX b drv alloc req =
     guarded GPIO_NUM_MAX b alloc req (\<lambda>p. p) (\<lambda>p. pin_drive drv (Gpio_input_enable p))"

definition req_gpio_set_pull_mode ::
  "nat \<Rightarrow> pin_build \<Rightarrow> (pin_call \<Rightarrow> esp_err) \<Rightarrow> bool \<Rightarrow> (int \<times> int) option \<Rightarrow> pin_out" where
  "req_gpio_set_pull_mode GPIO_NUM_MAX b drv alloc req =
     guarded GPIO_NUM_MAX b alloc req fst (\<lambda>(p, pull). pin_drive drv (Gpio_set_pull_mode p pull))"

subsection \<open>External coexistence\<close>

record coex_req =
  cx_cmd :: u32
  cx_wire_type :: u32
  cx_request_pin :: int
  cx_priority_pin :: int
  cx_grant_pin :: int
  cx_tx_line_pin :: int
  cx_work_mode :: u32
  cx_grant_delay_us :: u32
  cx_validate_high :: bool

text \<open>\<open>enabled\<close> is \<open>CONFIG_EXTERNAL_COEX_ENABLE\<close>, \<open>advance\<close> is \<open>SOC_EXTERNAL_COEX_ADVANCE\<close>.\<close>

definition EXTERNAL_COEXIST_WIRE_4 :: u32 where "EXTERNAL_COEXIST_WIRE_4 = 3"

definition coex_pins :: "coex_req \<Rightarrow> int list" where
  "coex_pins q = [cx_request_pin q, cx_priority_pin q, cx_grant_pin q, cx_tx_line_pin q]"

definition req_ext_coex ::
  "nat \<Rightarrow> pin_build \<Rightarrow> bool \<Rightarrow> bool \<Rightarrow> (pin_call \<Rightarrow> esp_err) \<Rightarrow> bool \<Rightarrow> coex_req option \<Rightarrow> pin_out" where
  "req_ext_coex GPIO_NUM_MAX b enabled advance drv alloc req =
     rpc_template (\<lambda>a. (a, [])) alloc req (\<lambda>q.
       if \<not> enabled then pin_refuse ESP_ERR_NOT_SUPPORTED
       else if cx_cmd q = 0 then
         (if EXTERNAL_COEXIST_WIRE_4 < cx_wire_type q then pin_refuse ESP_ERR_INVALID_ARG
          else if list_ex (\<lambda>p. \<not> p < 0 \<and> \<not> transport_gpio_pin_guard_is_eligible GPIO_NUM_MAX b p) (coex_pins q)
          then pin_refuse ESP_ERR_INVALID_ARG
          else pin_drive drv (Coex_enable_gpio (cx_wire_type q) (cx_request_pin q) (cx_priority_pin q)
            (cx_grant_pin q) (cx_tx_line_pin q)))
       else if cx_cmd q = 1 then pin_drive drv Coex_disable_gpio
       else if cx_cmd q = 2 then pin_drive drv (Coex_set_work_mode (cx_work_mode q))
       else if cx_cmd q = 3 \<and> advance then pin_drive drv (Coex_set_grant_delay (ucast (cx_grant_delay_us q)))
       else if cx_cmd q = 4 \<and> advance then pin_drive drv (Coex_set_validate_high (cx_validate_high q))
       else if cx_cmd q = 3 \<or> cx_cmd q = 4 then pin_refuse ESP_ERR_NOT_SUPPORTED
       else pin_refuse ESP_ERR_INVALID_ARG)"

subsection \<open>All pin requests\<close>

datatype pin_req =
    Q_gpio_config "gpio_cfg option"
  | Q_gpio_reset int
  | Q_gpio_set_level int u32
  | Q_gpio_get_level int
  | Q_gpio_set_direction int int
  | Q_gpio_input_enable int
  | Q_gpio_set_pull_mode int int
  | Q_ext_coex coex_req

record pin_env =
  pe_max :: nat
  pe_build :: pin_build
  pe_coex :: bool
  pe_advance :: bool
  pe_drv :: "pin_call \<Rightarrow> esp_err"
  pe_level :: "int \<Rightarrow> u32"

definition pin_request :: "pin_env \<Rightarrow> bool \<Rightarrow> pin_req \<Rightarrow> pin_out option" where
  "pin_request e alloc q =
     (let n = pe_max e; b = pe_build e; drv = pe_drv e in
      case q of
        Q_gpio_config c \<Rightarrow> req_gpio_config n b drv alloc (Some c)
      | Q_gpio_reset p \<Rightarrow> Some (req_gpio_reset n b drv alloc (Some p))
      | Q_gpio_set_level p l \<Rightarrow> Some (req_gpio_set_level n b drv alloc (Some (p, l)))
      | Q_gpio_get_level p \<Rightarrow> Some (req_gpio_get_level n b (pe_level e) alloc (Some p))
      | Q_gpio_set_direction p m \<Rightarrow> Some (req_gpio_set_direction n b drv alloc (Some (p, m)))
      | Q_gpio_input_enable p \<Rightarrow> Some (req_gpio_input_enable n b drv alloc (Some p))
      | Q_gpio_set_pull_mode p m \<Rightarrow> Some (req_gpio_set_pull_mode n b drv alloc (Some (p, m)))
      | Q_ext_coex c \<Rightarrow> Some (req_ext_coex n b (pe_coex e) (pe_advance e) drv alloc (Some c)))"

subsection \<open>Lemmas\<close>

lemma bit_add_pin:
  assumes "n \<le> 64" "q < n"
  shows "bit (add_pin n p m) q \<longleftrightarrow> bit m q \<or> p = int q"
  using assms by (auto simp: add_pin_def bit_simps)

lemma bit_reserved_fold:
  assumes "n \<le> 64" "q < n"
  shows "bit (fold (add_pin n) ps m) q \<longleftrightarrow> bit m q \<or> int q \<in> set ps"
  by (induction ps arbitrary: m) (auto simp: bit_add_pin [OF assms])

lemma and_bit_zero:
  assumes "q < 64" shows "(m :: u64) AND push_bit q 1 = 0 \<longleftrightarrow> \<not> bit m q"
proof -
  have "m AND push_bit q 1 = (if bit m q then push_bit q 1 else 0)"
    by (rule bit_word_eqI) (auto simp: bit_simps)
  moreover have "push_bit q 1 \<noteq> (0 :: u64)" using assms by (simp add: push_bit_eq_0_iff)
  ultimately show ?thesis by simp
qed

text \<open>The guard refuses exactly the pins of the bus and the numbers that are no pins.\<close>

lemma eligible_iff:
  assumes "n \<le> 64"
  shows "transport_gpio_pin_guard_is_eligible n b p \<longleftrightarrow> 0 \<le> p \<and> p < int n \<and> p \<notin> set (bus_pins b)"
proof (cases "0 \<le> p \<and> p < int n")
  case True
  then have q: "nat p < n" "nat p < 64" "int (nat p) = p" using assms by auto
  have "get_reserved_pin_mask n b AND push_bit (nat p) 1 = 0 \<longleftrightarrow> p \<notin> set (bus_pins b)"
    unfolding and_bit_zero [OF q(2)] get_reserved_pin_mask_def bit_reserved_fold [OF assms q(1)] q(3)
    by simp
  then show ?thesis using True by (simp add: transport_gpio_pin_guard_is_eligible_def)
next
  case False
  then show ?thesis by (auto simp: transport_gpio_pin_guard_is_eligible_def)
qed

lemma pin_drive_calls [simp]: "snd (pin_drive drv c) = [c]" "snd (pin_refuse e) = []"
  by (simp_all add: pin_drive_def pin_refuse_def rpc_ret_fail_if_def)

text \<open>No call may name a pin of the bus.\<close>

definition spares_bus :: "pin_env \<Rightarrow> pin_out \<Rightarrow> bool" where
  "spares_bus e r \<longleftrightarrow> list_all (\<lambda>c. list_all (\<lambda>p. p < 0 \<or> int (pe_max e) \<le> p \<or> p \<notin> set (bus_pins (pe_build e)))
     (call_pins (pe_max e) c)) (snd r)"

lemma spares_simps [simp]:
  "spares_bus e (pin_refuse x)" "spares_bus e (a, [])"
  "spares_bus e (pin_drive drv c) \<longleftrightarrow>
    list_all (\<lambda>p. p < 0 \<or> int (pe_max e) \<le> p \<or> p \<notin> set (bus_pins (pe_build e))) (call_pins (pe_max e) c)"
  by (simp_all add: spares_bus_def)

lemma guarded_spares:
  assumes "pe_max e \<le> 64"
    "\<And>q. pin q \<notin> set (bus_pins (pe_build e)) \<Longrightarrow> spares_bus e (body q)"
  shows "spares_bus e (guarded (pe_max e) (pe_build e) alloc req pin body)"
  using assms by (cases req) (simp_all add: guarded_def rpc_template_def eligible_iff)

lemma config_spares:
  assumes "pe_max e \<le> 64" "req_gpio_config (pe_max e) (pe_build e) drv alloc (Some c) = Some r"
  shows "spares_bus e r"
proof (cases c)
  case (Some g)
  have "spares_bus e (pin_drive drv (Gpio_config (gc_mode g) (gc_pull_up_en g) (gc_pull_down_en g) (gc_pin_bit_mask g)))"
    if "\<not> list_ex (\<lambda>pin. bit (gc_pin_bit_mask g) pin \<and>
        \<not> transport_gpio_pin_guard_is_eligible (pe_max e) (pe_build e) (int pin)) [0..<pe_max e]"
    using that by (auto simp: call_pins_def list_all_iff list_ex_iff eligible_iff [OF assms(1)])
  then show ?thesis using assms(2) Some
    by (auto simp: req_gpio_config_def rpc_template_def split: if_splits)
next
  case None
  then show ?thesis using assms(2) by (auto simp: req_gpio_config_def rpc_template_def split: if_splits)
qed

lemma coex_spares:
  assumes "pe_max e \<le> 64"
  shows "spares_bus e (req_ext_coex (pe_max e) (pe_build e) en adv drv alloc (Some q))"
proof -
  have "spares_bus e (pin_drive drv (Coex_enable_gpio (cx_wire_type q) (cx_request_pin q) (cx_priority_pin q)
      (cx_grant_pin q) (cx_tx_line_pin q)))"
    if "\<not> list_ex (\<lambda>p. \<not> p < 0 \<and> \<not> transport_gpio_pin_guard_is_eligible (pe_max e) (pe_build e) p) (coex_pins q)"
    using that by (auto simp: call_pins_def coex_pins_def eligible_iff [OF assms])
  then show ?thesis by (simp add: req_ext_coex_def rpc_template_def call_pins_def)
qed

lemma requests_spare_bus:
  assumes "pe_max e \<le> 64" "pin_request e alloc q = Some (a, calls)"
  shows "spares_bus e (a, calls)"
  using assms(2) config_spares [OF assms(1)] coex_spares [OF assms(1)]
  by (cases q)
    (auto simp: pin_request_def Let_def req_gpio_reset_def req_gpio_set_level_def req_gpio_get_level_def
      req_gpio_set_direction_def req_gpio_input_enable_def req_gpio_set_pull_mode_def call_pins_def
      spares_bus_def [of e "((ESP_OK, x), y)" for x y] split_beta
      dest!: sym [of _ "(a, calls)"] intro!: guarded_spares [OF assms(1)])

subsection \<open>Properties\<close>

text \<open>Whatever pin request the host sends, GPIO or coexistence, no call of a driver names a pin of the
  configured bus.\<close>

theorem pin_requests_spare_bus:
  assumes "pe_max e \<le> 64" "pin_request e alloc q = Some (a, calls)"
    "p \<in> set (bus_pins (pe_build e))" "0 \<le> p" "p < int (pe_max e)"
  shows "\<not> list_ex (\<lambda>c. p \<in> set (call_pins (pe_max e) c)) calls"
  using requests_spare_bus [OF assms(1,2)] assms(3-5)
  by (fastforce simp: spares_bus_def list_all_iff list_ex_iff)

text \<open>A request for a free pin reaches the driver with the host's values, once, and the driver's
  result is the status the host gets; a request for a pin of the bus, or for no pin at all, is
  answered with ESP_ERR_INVALID_ARG.\<close>

theorem set_level_served:
  assumes "pe_max e \<le> 64"
  shows "pin_request e True (Q_gpio_set_level p l) =
    (if 0 \<le> p \<and> p < int (pe_max e) \<and> p \<notin> set (bus_pins (pe_build e))
     then Some ((ESP_OK, Some (pin_status (pe_drv e (Gpio_set_level p l)))), [Gpio_set_level p l])
     else Some ((ESP_OK, Some (pin_status ESP_ERR_INVALID_ARG)), []))"
  using assms by (simp add: pin_request_def Let_def req_gpio_set_level_def guarded_def eligible_iff
      pin_drive_def pin_refuse_def rpc_ret_fail_if_def SUCCESS_def)

subsection \<open>Concrete instances\<close>

definition demo_pins :: pin_env where
  "demo_pins = \<lparr> pe_max = 30, pe_build = \<lparr> pb_sdio = Some (18, 19, 20, 21, 22, 23), pb_spi = None,
     pb_spi_hd = None, pb_uart = None \<rparr>, pe_coex = True, pe_advance = True, pe_drv = (\<lambda>c. 0), pe_level = (\<lambda>p. 1) \<rparr>"

theorem pin_requests_spare_bus_witness:
  "\<not> list_ex (\<lambda>c. 20 \<in> set (call_pins 30 c)) [Gpio_set_level 3 1] \<and>
    pin_request demo_pins True (Q_gpio_set_level 3 1) =
      Some ((ESP_OK, Some (pin_status 0)), [Gpio_set_level 3 1])"
proof -
  have r: "pin_request demo_pins True (Q_gpio_set_level 3 1) =
      Some ((ESP_OK, Some (pin_status 0)), [Gpio_set_level 3 1])"
    by (simp add: pin_request_def req_gpio_set_level_def guarded_def eligible_iff demo_pins_def bus_pins_def
        pin_drive_def SUCCESS_def)
  show ?thesis
    using pin_requests_spare_bus [OF _ r, of 20] r by (simp add: demo_pins_def bus_pins_def)
qed

theorem set_level_served_witness:
  "pin_request demo_pins True (Q_gpio_set_level 20 1) = Some ((ESP_OK, Some (pin_status ESP_ERR_INVALID_ARG)), [])"
  using set_level_served [of demo_pins 20 1] by (simp add: demo_pins_def bus_pins_def)

end
