(* ===== verification/Slave_Netsplit.thy ===== *)
theory Slave_Netsplit
  imports Rpc_Base
begin

section \<open>Network configuration shared with the host (slave_network_split.c)\<close>

text \<open>
  With the network split the co-processor runs its own IP stack. It tells the host by an event what
  DHCP gave it, answers questions about it and takes a static configuration from the host. The
  functions of \<open>esp_netif\<close> and the conversions between addresses and text are parameters; a failed
  \<open>ESP_ERROR_CHECK\<close> restarts the firmware, as does a write through a null pointer (both \<open>None\<close>).
\<close>

subsection \<open>State\<close>

record dhcp_dns =
  dd_iface :: u32
  dd_net_link_up :: u32
  dd_dhcp_up :: u32
  dd_dhcp_ip :: "byte list"
  dd_dhcp_nm :: "byte list"
  dd_dhcp_gw :: "byte list"
  dd_dns_up :: u32
  dd_dns_ip :: "byte list"
  dd_dns_type :: u32

definition no_dhcp_dns :: dhcp_dns where
  "no_dhcp_dns = \<lparr> dd_iface = 0, dd_net_link_up = 0, dd_dhcp_up = 0, dd_dhcp_ip = replicate 64 0,
     dd_dhcp_nm = replicate 64 0, dd_dhcp_gw = replicate 64 0, dd_dns_up = 0,
     dd_dns_ip = replicate 64 0, dd_dns_type = 0 \<rparr>"

record net_split =
  ns_station_connected :: bool
  ns_station_got_ip :: bool
  ns_dhcp_dns :: dhcp_dns
  ns_got_handler :: "nat option"
  ns_lost_handler :: "nat option"

text \<open>\<open>strlcpy(dst, src, sizeof(dst))\<close> for a C string \<open>src\<close>, given without its zero.\<close>

definition strlcpy :: "byte list \<Rightarrow> byte list \<Rightarrow> byte list" where
  "strlcpy dst src =
     (let n = min (length src) (length dst - 1) in take n src @ 0 # drop (n + 1) dst)"

subsection \<open>The interface of the network stack\<close>

definition WIFI_IF_STA :: int where "WIFI_IF_STA = 0"
definition WIFI_IF_AP :: int where "WIFI_IF_AP = 1"

text \<open>
  \<open>ni_exists\<close>: \<open>esp_netif_get_handle_from_ifkey\<close> finds the interface. An IP configuration is address,
  mask and gateway; a DNS server is address and type.
\<close>

record netif =
  ni_exists :: "int \<Rightarrow> bool"
  ni_up :: "int \<Rightarrow> bool"
  ni_get_ip :: "int \<Rightarrow> esp_err \<times> (u32 \<times> u32 \<times> u32)"
  ni_get_dns :: "int \<Rightarrow> esp_err \<times> (u32 \<times> u32)"
  ni_set_sta_ip :: esp_err
  ni_set_ip :: "u32 \<times> u32 \<times> u32 \<Rightarrow> esp_err"
  ni_set_dns :: "int \<Rightarrow> u32 \<times> u8 \<Rightarrow> esp_err"
  ni_ntoa :: "u32 \<Rightarrow> byte list"
  ni_addr :: "byte list \<Rightarrow> u32"
  ni_str_to_ip4 :: "byte list \<Rightarrow> u32 option"

definition netif_of :: "netif \<Rightarrow> int \<Rightarrow> bool" where
  "netif_of ni iface = ((iface = WIFI_IF_STA \<or> iface = WIFI_IF_AP) \<and> ni_exists ni iface)"

definition get_slave_dns :: "netif \<Rightarrow> int \<Rightarrow> esp_err \<times> (u32 \<times> u32)" where
  "get_slave_dns ni iface = (if \<not> netif_of ni iface then (ESP_FAIL, (0, 0)) else ni_get_dns ni iface)"

datatype net_call =
    Set_ip_info u32 u32 u32
  | Reg_rxcb
  | Set_dns_info int u32 u8

text \<open>Texts are arrays here; one without a zero byte is read beyond its end (\<open>None\<close>).\<close>

definition set_slave_dns ::
  "netif \<Rightarrow> int \<Rightarrow> byte list \<Rightarrow> u8 \<Rightarrow> (esp_err \<times> net_call list) option" where
  "set_slave_dns ni iface ip type =
     (if \<not> netif_of ni iface then Some (ESP_FAIL, [])
      else case c_str_in ip of
          None \<Rightarrow> None
        | Some t \<Rightarrow>
            (case ni_str_to_ip4 ni t of
               None \<Rightarrow> Some (ESP_FAIL, [])
             | Some a \<Rightarrow> Some (ni_set_dns ni iface (a, type), [Set_dns_info iface a type])))"

text \<open>The IP configuration and whether the link is up.\<close>

definition get_slave_static_ip :: "netif \<Rightarrow> int \<Rightarrow> esp_err \<times> (u32 \<times> u32 \<times> u32) \<times> bool" where
  "get_slave_static_ip ni iface =
     (if \<not> netif_of ni iface then (ESP_FAIL, (0, 0, 0), False)
      else if ni_up ni iface then (case ni_get_ip ni iface of (e, ip) \<Rightarrow> (e, ip, True))
      else (ESP_OK, (0, 0, 0), False))"

definition set_slave_static_ip ::
  "netif \<Rightarrow> int \<Rightarrow> byte list \<Rightarrow> byte list \<Rightarrow> byte list \<Rightarrow> (esp_err \<times> net_call list) option" where
  "set_slave_static_ip ni iface ip nm gw =
     (if iface \<noteq> WIFI_IF_STA then Some (ESP_FAIL, [])
      else case (c_str_in ip, c_str_in nm, c_str_in gw) of
          (Some ip1, Some nm1, Some gw1) \<Rightarrow>
            (let a = ni_addr ni ip1; m = ni_addr ni nm1; g = ni_addr ni gw1 in
             if ni_set_ip ni (a, m, g) \<noteq> ESP_OK then None
             else Some (ESP_OK, [Set_ip_info a m g, Reg_rxcb]))
        | _ \<Rightarrow> None)"

subsection \<open>Events of the network stack\<close>

datatype ip_event = Sta_got_ip u32 u32 u32 | Sta_lost_ip

definition event_handler_ip :: "netif \<Rightarrow> ip_event \<Rightarrow> net_split \<Rightarrow> net_split option" where
  "event_handler_ip ni ev s =
     (case ev of
        Sta_got_ip ip nm gw \<Rightarrow>
          if ni_set_sta_ip ni \<noteq> ESP_OK then None
          else (case ni_get_dns ni WIFI_IF_STA of (e, (dns, type)) \<Rightarrow>
            if e \<noteq> ESP_OK then None
            else let d = ns_dhcp_dns s in
              Some (s\<lparr>ns_dhcp_dns := d\<lparr>dd_net_link_up := 1, dd_dhcp_up := 1, dd_dns_up := 1,
                        dd_dhcp_ip := strlcpy (dd_dhcp_ip d) (ni_ntoa ni ip),
                        dd_dhcp_nm := strlcpy (dd_dhcp_nm d) (ni_ntoa ni nm),
                        dd_dhcp_gw := strlcpy (dd_dhcp_gw d) (ni_ntoa ni gw),
                        dd_dns_ip := strlcpy (dd_dns_ip d) (ni_ntoa ni dns),
                        dd_dns_type := 0\<rparr>,
                      ns_station_got_ip := True\<rparr>))
      | Sta_lost_ip \<Rightarrow> Some (s\<lparr>ns_station_got_ip := False, ns_dhcp_dns := no_dhcp_dns\<rparr>))"

text \<open>
  Registration of the handler: an instance that exists is removed first. \<open>got\<close> and \<open>lost\<close> are the
  results and instances of the two registrations; a failed one leaves the null instance.
\<close>

definition esp_hosted_register_ip_event_handlers ::
  "esp_err \<times> nat \<Rightarrow> esp_err \<times> nat \<Rightarrow> net_split \<Rightarrow> esp_err \<times> net_split" where
  "esp_hosted_register_ip_event_handlers got lost s =
     (ESP_OK, s\<lparr>ns_got_handler := (if fst got = ESP_OK then Some (snd got) else None),
                ns_lost_handler := (if fst lost = ESP_OK then Some (snd lost) else None)\<rparr>)"

subsection \<open>The event to the host\<close>

definition put_dhcp_dns :: "dhcp_dns \<Rightarrow> byte list" where
  "put_dhcp_dns d = le_put 4 (dd_iface d) @ le_put 4 (dd_net_link_up d) @ le_put 4 (dd_dhcp_up d) @
     dd_dhcp_ip d @ dd_dhcp_nm d @ dd_dhcp_gw d @ le_put 4 (dd_dns_up d) @ dd_dns_ip d @ le_put 4 (dd_dns_type d)"

datatype net_event = Dhcp_dns_status "byte list" | Sta_connected_again

definition send_dhcp_dns_info_to_host :: "bool \<Rightarrow> bool \<Rightarrow> net_split \<Rightarrow> net_event list" where
  "send_dhcp_dns_info_to_host network_up send_wifi_connected s =
     (let d = ns_dhcp_dns s;
          evnt = (if network_up \<and> dd_dhcp_up d \<noteq> 0 \<and> dd_net_link_up d \<noteq> 0 \<and> dd_dns_up d \<noteq> 0
                  then d else no_dhcp_dns) in
      Dhcp_dns_status (put_dhcp_dns evnt) #
        (if send_wifi_connected \<and> ns_station_connected s then [Sta_connected_again] else []))"

text \<open>
  The RPC event reads the structure back, whatever length it is told (\<open>None\<close>: behind the block).
  A copy that fails leaves the status FAILURE and what was copied so far; it is sent all the same.
\<close>

record dhcp_event =
  de_status :: dhcp_dns
  de_resp :: int

definition sub_bytes :: "nat \<Rightarrow> nat \<Rightarrow> byte list \<Rightarrow> byte list" where
  "sub_bytes i n b = take n (drop i b)"

definition rpc_evt_Event_DhcpDnsStatus ::
  "bool \<Rightarrow> (nat \<Rightarrow> bool) \<Rightarrow> byte list \<Rightarrow> dhcp_event answered option" where
  "rpc_evt_Event_DhcpDnsStatus alloc copy_ok b =
     (if \<not> alloc then Some (ESP_ERR_NO_MEM, None)
      else if length b < 276 then None
      else let blank = \<lparr> dd_iface = rd32 0 b, dd_net_link_up = rd32 4 b, dd_dhcp_up = rd32 8 b,
             dd_dhcp_ip = [], dd_dhcp_nm = [], dd_dhcp_gw = [], dd_dns_up = rd32 204 b, dd_dns_ip = [],
             dd_dns_type = rd32 272 b \<rparr>;
           d1 = blank\<lparr>dd_dhcp_ip := sub_bytes 12 64 b\<rparr>;
           d2 = d1\<lparr>dd_dhcp_nm := sub_bytes 76 64 b\<rparr>;
           d3 = d2\<lparr>dd_dhcp_gw := sub_bytes 140 64 b\<rparr>;
           d4 = d3\<lparr>dd_dns_ip := sub_bytes 208 64 b\<rparr>
        in if \<not> copy_ok 0 then Some (ESP_OK, Some \<lparr> de_status = blank, de_resp = FAILURE \<rparr>)
           else if \<not> copy_ok 1 then Some (ESP_OK, Some \<lparr> de_status = d1, de_resp = FAILURE \<rparr>)
           else if \<not> copy_ok 2 then Some (ESP_OK, Some \<lparr> de_status = d2, de_resp = FAILURE \<rparr>)
           else if \<not> copy_ok 3 then Some (ESP_OK, Some \<lparr> de_status = d3, de_resp = FAILURE \<rparr>)
           else Some (ESP_OK, Some \<lparr> de_status = d4, de_resp = SUCCESS \<rparr>))"

subsection \<open>Requests\<close>

text \<open>
  The answer to the question for the network status. The text of an address is copied to the data
  pointer of a field of the new response, which is null.
\<close>

definition req_get_dhcp_dns_status ::
  "netif \<Rightarrow> bool \<Rightarrow> int option \<Rightarrow> (int \<times> dhcp_dns) answered option" where
  "req_get_dhcp_dns_status ni alloc req =
     rpc_template Some alloc req (\<lambda>iface.
       case (get_slave_static_ip ni iface, get_slave_dns ni iface) of
         ((ret1, ip_info, up), (ret2, dns)) \<Rightarrow>
           if ret1 \<noteq> 0 \<or> ret2 \<noteq> 0 then Some (ESP_OK, Some (ESP_FAIL, no_dhcp_dns\<lparr>dd_dhcp_ip := [],
             dd_dhcp_nm := [], dd_dhcp_gw := [], dd_dns_ip := []\<rparr>))
           else None)"

record net_req =
  nq_iface :: u32
  nq_net_link_up :: u32
  nq_dhcp_up :: u32
  nq_dhcp_ip :: "byte list"
  nq_dhcp_nm :: "byte list"
  nq_dhcp_gw :: "byte list"
  nq_dns_up :: u32
  nq_dns_ip :: "byte list"
  nq_dns_type :: u32

text \<open>The four texts are copied into zeroed arrays; what the two setters return is ignored.\<close>

definition text64 :: "byte list \<Rightarrow> byte list" where
  "text64 b = rpc_req_copy_bytes (replicate 64 0) b 64"

definition req_set_dhcp_dns_status ::
  "netif \<Rightarrow> bool \<Rightarrow> net_req option \<Rightarrow> (int answered \<times> net_call list) option" where
  "req_set_dhcp_dns_status ni alloc req =
     rpc_template (\<lambda>a. Some (a, [])) alloc req (\<lambda>q.
       let iface = uint (ucast (nq_iface q) :: u8) in
       case (if (ucast (nq_dhcp_up q) :: u8) \<noteq> 0
             then set_slave_static_ip ni iface (text64 (nq_dhcp_ip q)) (text64 (nq_dhcp_nm q)) (text64 (nq_dhcp_gw q))
             else Some (ESP_OK, [])) of
         None \<Rightarrow> None
       | Some (_, calls1) \<Rightarrow>
           (case (if (ucast (nq_dns_up q) :: u8) \<noteq> 0
                  then set_slave_dns ni iface (text64 (nq_dns_ip q)) (ucast (nq_dns_type q))
                  else Some (ESP_OK, [])) of
              None \<Rightarrow> None
            | Some (_, calls2) \<Rightarrow> Some ((ESP_OK, Some SUCCESS), calls1 @ calls2)))"

subsection \<open>Lemmas\<close>

definition dd_ok :: "dhcp_dns \<Rightarrow> bool" where
  "dd_ok d \<longleftrightarrow> length (dd_dhcp_ip d) = 64 \<and> length (dd_dhcp_nm d) = 64 \<and> length (dd_dhcp_gw d) = 64 \<and>
     length (dd_dns_ip d) = 64"

lemma length_strlcpy [simp]: "dst \<noteq> [] \<Longrightarrow> length (strlcpy dst src) = length dst"
  by (cases dst) (auto simp: strlcpy_def Let_def min_def)

lemma c_str_strlcpy: "0 \<notin> set src \<Longrightarrow> length src < length dst \<Longrightarrow> c_str_in (strlcpy dst src) = Some src"
  by (simp add: strlcpy_def)

lemma dd_ok_none [simp]: "dd_ok no_dhcp_dns"
  by (simp add: dd_ok_def no_dhcp_dns_def)

lemma dd_ok_event: "dd_ok (ns_dhcp_dns s) \<Longrightarrow> event_handler_ip ni ev s = Some s' \<Longrightarrow> dd_ok (ns_dhcp_dns s')"
proof (cases ev)
  case (Sta_got_ip ip nm gw)
  assume "dd_ok (ns_dhcp_dns s)" "event_handler_ip ni ev s = Some s'"
  then show ?thesis using Sta_got_ip
    by (auto simp: event_handler_ip_def dd_ok_def Let_def split_beta split: if_splits
        intro!: length_strlcpy [THEN trans])
next
  case Sta_lost_ip
  assume "event_handler_ip ni ev s = Some s'"
  then show ?thesis using Sta_lost_ip by (auto simp: event_handler_ip_def)
qed

lemma length_put_dhcp_dns: "dd_ok d \<Longrightarrow> length (put_dhcp_dns d) = 276"
  by (simp add: put_dhcp_dns_def dd_ok_def)

lemma sub_bytes_app:
  "length xs = i \<Longrightarrow> length ys = n \<Longrightarrow> sub_bytes i n (xs @ ys @ zs) = ys"
  by (simp add: sub_bytes_def)

lemma dhcp_event_read:
  assumes "dd_ok d"
  shows "rpc_evt_Event_DhcpDnsStatus True (\<lambda>_. True) (put_dhcp_dns d) =
    Some (ESP_OK, Some \<lparr> de_status = d, de_resp = SUCCESS \<rparr>)"
proof -
  let ?h = "le_put 4 (dd_iface d) @ le_put 4 (dd_net_link_up d) @ le_put 4 (dd_dhcp_up d)"
  let ?b = "put_dhcp_dns d"
  note len = assms [unfolded dd_ok_def]
  have w: "rd32 0 ?b = dd_iface d" "rd32 4 ?b = dd_net_link_up d" "rd32 8 ?b = dd_dhcp_up d"
    "rd32 204 ?b = dd_dns_up d" "rd32 272 ?b = dd_dns_type d"
    using len by (simp_all add: put_dhcp_dns_def wire)
  have 1: "sub_bytes 12 64 ?b = dd_dhcp_ip d"
    using len sub_bytes_app [of ?h 12 "dd_dhcp_ip d" 64] by (simp add: put_dhcp_dns_def)
  have 2: "sub_bytes 76 64 ?b = dd_dhcp_nm d"
    using len sub_bytes_app [of "?h @ dd_dhcp_ip d" 76 "dd_dhcp_nm d" 64] by (simp add: put_dhcp_dns_def)
  have 3: "sub_bytes 140 64 ?b = dd_dhcp_gw d"
    using len sub_bytes_app [of "?h @ dd_dhcp_ip d @ dd_dhcp_nm d" 140 "dd_dhcp_gw d" 64]
    by (simp add: put_dhcp_dns_def)
  have 4: "sub_bytes 208 64 ?b = dd_dns_ip d"
    using len sub_bytes_app [of "?h @ dd_dhcp_ip d @ dd_dhcp_nm d @ dd_dhcp_gw d @ le_put 4 (dd_dns_up d)" 208
        "dd_dns_ip d" 64] by (simp add: put_dhcp_dns_def)
  show ?thesis
    using length_put_dhcp_dns [OF assms] by (simp add: rpc_evt_Event_DhcpDnsStatus_def w 1 2 3 4)
qed


lemma text64_found: "0 \<notin> set t \<Longrightarrow> length t < 64 \<Longrightarrow> c_str_in (text64 (t @ [0])) = Some t"
  using copied_string_found [of t "replicate 64 0" 65 64 "t @ [0]"]
  by (simp add: text64_def rpc_resp_copy_str_def)

lemma text64_unterminated: "0 \<notin> set t \<Longrightarrow> length t = 64 \<Longrightarrow> c_str_in (text64 t) = None"
  by (simp add: text64_def rpc_req_copy_bytes_def c_str_in_def)

subsection \<open>Reachable states\<close>

inductive ns_reachable :: "net_split \<Rightarrow> bool" where
  ns_start: "ns_reachable \<lparr> ns_station_connected = c, ns_station_got_ip = False, ns_dhcp_dns = no_dhcp_dns,
     ns_got_handler = None, ns_lost_handler = None \<rparr>"
| ns_event: "ns_reachable s \<Longrightarrow> event_handler_ip ni ev s = Some s' \<Longrightarrow> ns_reachable s'"
| ns_register: "ns_reachable s \<Longrightarrow> esp_hosted_register_ip_event_handlers got lost s = (e, s') \<Longrightarrow> ns_reachable s'"
| ns_station: "ns_reachable s \<Longrightarrow> ns_reachable (s\<lparr>ns_station_connected := c\<rparr>)"

text \<open>While there is no address the structure is the zero one.\<close>

definition ns_ok :: "net_split \<Rightarrow> bool" where
  "ns_ok s \<longleftrightarrow> dd_ok (ns_dhcp_dns s) \<and> (\<not> ns_station_got_ip s \<longrightarrow> ns_dhcp_dns s = no_dhcp_dns) \<and>
     (ns_station_got_ip s \<longrightarrow> dd_net_link_up (ns_dhcp_dns s) = 1 \<and> dd_dhcp_up (ns_dhcp_dns s) = 1 \<and>
       dd_dns_up (ns_dhcp_dns s) = 1)"

lemma ns_ok_reachable: "ns_reachable s \<Longrightarrow> ns_ok s"
proof (induction rule: ns_reachable.induct)
  case (ns_start c)
  then show ?case by (simp add: ns_ok_def)
next
  case (ns_event s ni ev s')
  have "dd_ok (ns_dhcp_dns s')" using ns_event dd_ok_event by (auto simp: ns_ok_def)
  then show ?case using ns_event
    by (cases ev) (auto simp: ns_ok_def event_handler_ip_def Let_def split_beta split: if_splits)
next
  case (ns_register s got lost e s')
  then show ?case by (auto simp: ns_ok_def esp_hosted_register_ip_event_handlers_def)
next
  case (ns_station s c)
  then show ?case by (simp add: ns_ok_def)
qed

subsection \<open>Properties\<close>

text \<open>The status event the host decodes says what the co-processor's IP stack last reported: with an
  address, the stored configuration, unchanged; without one, or when the caller says the network is
  down, all zero. It is always sent, and the connect event only follows while the station is
  connected.\<close>

theorem dhcp_status_reaches_host:
  assumes "ns_reachable s"
  shows "\<exists>b. send_dhcp_dns_info_to_host up again s =
      Dhcp_dns_status b # (if again \<and> ns_station_connected s then [Sta_connected_again] else []) \<and>
    rpc_evt_Event_DhcpDnsStatus True (\<lambda>_. True) b =
      Some (ESP_OK, Some \<lparr> de_status = (if up \<and> ns_station_got_ip s then ns_dhcp_dns s else no_dhcp_dns),
        de_resp = SUCCESS \<rparr>)"
proof -
  have ok: "ns_ok s" by (rule ns_ok_reachable [OF assms])
  have read: "rpc_evt_Event_DhcpDnsStatus True (\<lambda>_. True) (put_dhcp_dns d) =
      Some (ESP_OK, Some \<lparr> de_status = d, de_resp = SUCCESS \<rparr>)" if "dd_ok d" for d
    by (rule dhcp_event_read [OF that])
  show ?thesis
  proof (cases "up \<and> ns_station_got_ip s")
    case True
    then show ?thesis using ok read [of "ns_dhcp_dns s"]
      by (auto simp: send_dhcp_dns_info_to_host_def Let_def ns_ok_def)
  next
    case False
    then show ?thesis using ok read [of no_dhcp_dns]
      by (auto simp: send_dhcp_dns_info_to_host_def Let_def ns_ok_def)
  qed
qed

text \<open>The question for the network status is never answered with a status: the answer is the failure
  status when the interface or its DNS server cannot be read, and otherwise the firmware writes
  through a null pointer.\<close>

theorem status_query_never_answered:
  "req_get_dhcp_dns_status ni True (Some iface) =
    (if fst (get_slave_static_ip ni iface) = 0 \<and> fst (get_slave_dns ni iface) = 0 then None
     else Some (ESP_OK, Some (ESP_FAIL, no_dhcp_dns\<lparr>dd_dhcp_ip := [], dd_dhcp_nm := [], dd_dhcp_gw := [],
       dd_dns_ip := []\<rparr>)))"
  by (simp add: req_get_dhcp_dns_status_def split_beta)

text \<open>A static configuration of the host with texts of less than 64 characters is given to the network
  stack of the station as the addresses the texts stand for, in one call each, and answered with
  success.\<close>

theorem static_config_reaches_stack:
  assumes "0 \<notin> set ip" "length ip < 64" "0 \<notin> set nm" "length nm < 64" "0 \<notin> set gw" "length gw < 64"
    "0 \<notin> set dns" "length dns < 64" "ni_str_to_ip4 ni dns = Some d" "ni_exists ni WIFI_IF_STA"
    "ni_set_ip ni (ni_addr ni ip, ni_addr ni nm, ni_addr ni gw) = ESP_OK"
    "q = \<lparr> nq_iface = 0, nq_net_link_up = 1, nq_dhcp_up = 1, nq_dhcp_ip = ip @ [0], nq_dhcp_nm = nm @ [0],
      nq_dhcp_gw = gw @ [0], nq_dns_up = 1, nq_dns_ip = dns @ [0], nq_dns_type = 0 \<rparr>"
  shows "req_set_dhcp_dns_status ni True (Some q) = Some ((ESP_OK, Some SUCCESS),
    [Set_ip_info (ni_addr ni ip) (ni_addr ni nm) (ni_addr ni gw), Reg_rxcb, Set_dns_info 0 d 0])"
  using assms text64_found
  by (simp add: req_set_dhcp_dns_status_def set_slave_static_ip_def set_slave_dns_def netif_of_def WIFI_IF_STA_def)

subsection \<open>Concrete instances\<close>

definition demo_netif :: netif where
  "demo_netif = \<lparr> ni_exists = (\<lambda>i. i = 0), ni_up = (\<lambda>_. True), ni_get_ip = (\<lambda>_. (ESP_OK, (1, 2, 3))),
     ni_get_dns = (\<lambda>_. (ESP_OK, (4, 0))), ni_set_sta_ip = ESP_OK, ni_set_ip = (\<lambda>_. ESP_OK),
     ni_set_dns = (\<lambda>_ _. ESP_OK), ni_ntoa = (\<lambda>a. [49]), ni_addr = (\<lambda>t. word_of_nat (length t)),
     ni_str_to_ip4 = (\<lambda>t. Some 8) \<rparr>"

definition demo_net :: net_split where
  "demo_net = \<lparr> ns_station_connected = True, ns_station_got_ip = False, ns_dhcp_dns = no_dhcp_dns,
     ns_got_handler = None, ns_lost_handler = None \<rparr>"

theorem dhcp_status_reaches_host_witness:
  "\<exists>s b. event_handler_ip demo_netif (Sta_got_ip 1 2 3) demo_net = Some s \<and>
     send_dhcp_dns_info_to_host True True s = [Dhcp_dns_status b, Sta_connected_again] \<and>
     rpc_evt_Event_DhcpDnsStatus True (\<lambda>_. True) b =
       Some (ESP_OK, Some \<lparr> de_status = ns_dhcp_dns s, de_resp = SUCCESS \<rparr>)"
proof -
  obtain s where s: "event_handler_ip demo_netif (Sta_got_ip 1 2 3) demo_net = Some s"
    "ns_station_got_ip s" "ns_station_connected s"
    by (auto simp: event_handler_ip_def demo_netif_def demo_net_def Let_def)
  have r: "ns_reachable s"
    using ns_event [OF ns_start s(1) [unfolded demo_net_def]] .
  show ?thesis using dhcp_status_reaches_host [OF r, of True True] s by auto
qed

theorem static_config_reaches_stack_witness:
  "req_set_dhcp_dns_status demo_netif True (Some \<lparr> nq_iface = 0, nq_net_link_up = 1, nq_dhcp_up = 1,
      nq_dhcp_ip = [49, 48, 0], nq_dhcp_nm = [50, 0], nq_dhcp_gw = [51, 0], nq_dns_up = 1,
      nq_dns_ip = [52, 0], nq_dns_type = 0 \<rparr>) =
    Some ((ESP_OK, Some SUCCESS), [Set_ip_info 2 1 1, Reg_rxcb, Set_dns_info 0 8 0])"
  using static_config_reaches_stack [of "[49, 48]" "[50]" "[51]" "[52]" demo_netif 8]
  by (simp add: demo_netif_def WIFI_IF_STA_def)

end
