(* ===== verification/Slave_Control.thy ===== *)
theory Slave_Control
  imports Rpc_Dispatch Wifi_Handle Wifi_Enterprise Slave_Ota Slave_Monitor Slave_Info Slave_Pins Slave_Netsplit Custom_Callbacks
begin

section \<open>The request handlers behind the dispatcher (slave_control.c)\<close>

text \<open>
  The handlers of the components as one table of functions for the dispatcher, on one state. The
  payload of a message is a union in the generated code, whose kind is not checked against the
  message id: a handler that reads the payload of another kind reads a structure of the wrong type
  (\<open>None\<close>). A Wi-Fi payload names the handler whose payload it is.
\<close>

subsection \<open>Messages\<close>

datatype ctl_req =
    Rq_ota_begin
  | Rq_ota_write "byte list"
  | Rq_ota_end
  | Rq_ota_activate
  | Rq_config_heartbeat bool int
  | Rq_fw_version
  | Rq_mac iface_mac_req
  | Rq_mac_len u32
  | Rq_feature feature_req
  | Rq_app_get_desc
  | Rq_mem_monitor mem_req
  | Rq_custom u32 "byte list"
  | Rq_pin pin_req
  | Rq_get_dhcp int
  | Rq_set_dhcp net_req
  | Rq_wifi req_handler wifi_arg
  | Rq_eap req_handler eap_arg

datatype ctl_resp =
    Rs_status int
  | Rs_fw_version fw_version_resp
  | Rs_mac iface_mac_resp
  | Rs_mac_len u32 nat
  | Rs_feature feature_resp
  | Rs_app_desc int "app_desc option"
  | Rs_mem_monitor mem_resp
  | Rs_pin pin_resp
  | Rs_dhcp int dhcp_dns
  | Rs_wifi wifi_resp
  | Rs_eap eap_resp

subsection \<open>Environment and state\<close>

record ota_env =
  oe_check :: bool
  oe_next :: "nat option"
  oe_handle :: nat
  oe_begin :: esp_err
  oe_valid :: esp_err
  oe_write :: esp_err
  oe_end :: esp_err
  oe_boot :: esp_err

record ctl_env =
  ce_alloc :: bool
  ce_copy :: "nat \<Rightarrow> bool"
  ce_timer :: bool
  ce_start :: bool
  ce_hz :: nat
  ce_ota :: ota_env
  ce_heap :: mem_event
  ce_chip :: "u32 \<times> byte list"
  ce_mac :: mac_api
  ce_bt :: "bool \<times> (bt_call \<Rightarrow> esp_err)"
  ce_app :: "app_build \<times> app_desc option"
  ce_pins :: pin_env
  ce_netif :: netif
  ce_rtos :: rtos
  ce_wifi :: wifi_env
  ce_eap :: eap_env

text \<open>The state of the components, and the calls they made to drivers and callbacks.\<close>

record 'c ctl =
  sl_ota :: ota
  sl_heartbeat :: heartbeat
  sl_monitor :: mem_monitor
  sl_custom :: "('c, nat) cb_table"
  sl_delivered :: "('c \<times> u32 \<times> byte list) list"
  sl_pin_calls :: "pin_call list"
  sl_net_calls :: "net_call list"
  sl_bt_calls :: "bt_call list"
  sl_mac_calls :: "(byte list \<times> u32) list"
  sl_wifi :: wifi_sys
  sl_eap :: eap

text \<open>The kinds of payload.\<close>

definition as_heartbeat :: "ctl_req \<Rightarrow> (bool \<times> int) option" where
  "as_heartbeat q = (case q of Rq_config_heartbeat b d \<Rightarrow> Some (b, d) | _ \<Rightarrow> None)"
definition as_ota_write :: "ctl_req \<Rightarrow> byte list option" where
  "as_ota_write q = (case q of Rq_ota_write d \<Rightarrow> Some d | _ \<Rightarrow> None)"
definition as_mac :: "ctl_req \<Rightarrow> iface_mac_req option" where
  "as_mac q = (case q of Rq_mac m \<Rightarrow> Some m | _ \<Rightarrow> None)"
definition as_mac_len :: "ctl_req \<Rightarrow> u32 option" where
  "as_mac_len q = (case q of Rq_mac_len t \<Rightarrow> Some t | _ \<Rightarrow> None)"
definition as_feature :: "ctl_req \<Rightarrow> feature_req option" where
  "as_feature q = (case q of Rq_feature f \<Rightarrow> Some f | _ \<Rightarrow> None)"
definition as_mem_monitor :: "ctl_req \<Rightarrow> mem_req option" where
  "as_mem_monitor q = (case q of Rq_mem_monitor m \<Rightarrow> Some m | _ \<Rightarrow> None)"
definition as_custom :: "ctl_req \<Rightarrow> (u32 \<times> byte list) option" where
  "as_custom q = (case q of Rq_custom i d \<Rightarrow> Some (i, d) | _ \<Rightarrow> None)"
definition as_get_dhcp :: "ctl_req \<Rightarrow> int option" where
  "as_get_dhcp q = (case q of Rq_get_dhcp i \<Rightarrow> Some i | _ \<Rightarrow> None)"
definition as_set_dhcp :: "ctl_req \<Rightarrow> net_req option" where
  "as_set_dhcp q = (case q of Rq_set_dhcp n \<Rightarrow> Some n | _ \<Rightarrow> None)"

subsection \<open>The handlers of slave_control.c\<close>

definition req_custom_rpc_handler ::
  "rtos \<Rightarrow> bool \<Rightarrow> (u32 \<times> byte list) option \<Rightarrow> 'c ctl \<Rightarrow> int answered \<times> 'c ctl" where
  "req_custom_rpc_handler os alloc req s =
     rpc_template (\<lambda>a. (a, s)) alloc req (\<lambda>(mid, d).
       case handle_custom_rpc_request os (sl_custom s) mid d of
         (ret, called) \<Rightarrow> ((ESP_OK, Some ret), (case called of
             None \<Rightarrow> s
           | Some (f, i, b, _) \<Rightarrow> s\<lparr>sl_delivered := sl_delivered s @ [(f, i, b)]\<rparr>)))"

definition run_ota :: "ota_answer \<times> ota \<Rightarrow> 'c ctl \<Rightarrow> (ctl_resp answered \<times> 'c ctl) option" where
  "run_ota r s = Some (lift_answer Rs_status (fst r), s\<lparr>sl_ota := snd r\<rparr>)"

definition ctl_handle ::
  "ctl_env \<Rightarrow> ctl_handler \<Rightarrow> ctl_req option \<Rightarrow> 'c ctl \<Rightarrow> (ctl_resp answered \<times> 'c ctl) option" where
  "ctl_handle e h q s =
     (let alloc = ce_alloc e; oe = ce_ota e in
      case h of
        Req_ota_begin_handler \<Rightarrow>
          run_ota (req_ota_begin_handler alloc (oe_next oe) (oe_begin oe) (oe_handle oe) (sl_ota s)) s
      | Req_ota_write_handler \<Rightarrow>
          if \<not> alloc then run_ota (req_ota_write_handler (oe_check oe) alloc [] 0 0 (sl_ota s)) s
          else (case q of
             None \<Rightarrow> None
           | Some p \<Rightarrow> with_payload alloc as_ota_write (Some p) s (\<lambda>d.
               run_ota (req_ota_write_handler (oe_check oe) alloc (the d) (oe_valid oe) (oe_write oe) (sl_ota s)) s))
      | Req_ota_end_handler \<Rightarrow> run_ota (req_ota_end_handler alloc (oe_end oe) (sl_ota s)) s
      | Req_ota_activate_handler \<Rightarrow>
          run_ota (req_ota_activate_handler alloc (oe_boot oe) (ce_timer e) (ce_start e) (sl_ota s)) s
      | Req_config_heartbeat \<Rightarrow> with_payload alloc as_heartbeat q s (\<lambda>p.
          case req_config_heartbeat (ce_hz e) alloc (ce_timer e) (ce_start e) p (sl_heartbeat s) of
            (a, h1) \<Rightarrow> Some (lift_answer Rs_status a, s\<lparr>sl_heartbeat := h1\<rparr>))
      | Req_get_coprocessor_fw_version \<Rightarrow>
          Some (lift_answer Rs_fw_version (req_get_coprocessor_fw_version (fst (ce_chip e)) (snd (ce_chip e))
            alloc (ce_copy e)), s)
      | Req_iface_mac_addr_set_get \<Rightarrow> with_payload alloc as_mac q s (\<lambda>p.
          case req_iface_mac_addr_set_get (ce_mac e) alloc (ce_copy e 0) p of
            (a, calls) \<Rightarrow> Some (lift_answer Rs_mac a, s\<lparr>sl_mac_calls := sl_mac_calls s @ calls\<rparr>))
      | Req_iface_mac_addr_len_get \<Rightarrow> with_payload alloc as_mac_len q s (\<lambda>p.
          Some (lift_answer (\<lambda>(t, n). Rs_mac_len t n) (req_iface_mac_addr_len_get (ce_mac e) alloc p), s))
      | Req_feature_control \<Rightarrow> with_payload alloc as_feature q s (\<lambda>p.
          case req_feature_control (fst (ce_bt e)) (snd (ce_bt e)) alloc p of
            (a, calls) \<Rightarrow> Some (lift_answer Rs_feature a, s\<lparr>sl_bt_calls := sl_bt_calls s @ calls\<rparr>))
      | Req_app_get_desc \<Rightarrow>
          Some (lift_answer (\<lambda>(r, d). Rs_app_desc r d) (req_app_get_desc (fst (ce_app e)) alloc
            (ce_copy e 6) (ce_copy e) (snd (ce_app e))), s)
      | Req_mem_monitor \<Rightarrow> with_payload alloc as_mem_monitor q s (\<lambda>p.
          map_option (\<lambda>(a, m1). (lift_answer Rs_mem_monitor a, s\<lparr>sl_monitor := m1\<rparr>))
            (req_mem_monitor (ce_hz e) alloc (ce_copy e 0) (ce_timer e) (ce_start e) (ce_heap e) p (sl_monitor s)))
      | Req_custom_rpc_handler \<Rightarrow> with_payload alloc as_custom q s (\<lambda>p.
          case req_custom_rpc_handler (ce_rtos e) alloc p s of (a, s1) \<Rightarrow> Some (lift_answer Rs_status a, s1)))"

subsection \<open>The handlers of the pins and of the network\<close>

text \<open>The pin request each handler reads.\<close>

definition as_pin :: "pin_handler \<Rightarrow> ctl_req \<Rightarrow> pin_req option" where
  "as_pin h q = (case q of
      Rq_pin p \<Rightarrow>
        if (case p of
              Q_gpio_config _ \<Rightarrow> h = Req_gpio_config
            | Q_gpio_reset _ \<Rightarrow> h = Req_gpio_reset
            | Q_gpio_set_level _ _ \<Rightarrow> h = Req_gpio_set_level
            | Q_gpio_get_level _ \<Rightarrow> h = Req_gpio_get_level
            | Q_gpio_set_direction _ _ \<Rightarrow> h = Req_gpio_set_direction
            | Q_gpio_input_enable _ \<Rightarrow> h = Req_gpio_input_enable
            | Q_gpio_set_pull_mode _ _ \<Rightarrow> h = Req_gpio_set_pull_mode
            | Q_ext_coex _ \<Rightarrow> h = Req_ext_coex) then Some p else None
    | _ \<Rightarrow> None)"

definition pin_handle ::
  "ctl_env \<Rightarrow> pin_handler \<Rightarrow> ctl_req option \<Rightarrow> 'c ctl \<Rightarrow> (ctl_resp answered \<times> 'c ctl) option" where
  "pin_handle e h q s =
     with_payload (ce_alloc e) (as_pin h) q s (\<lambda>p. case p of
        None \<Rightarrow> Some ((ESP_FAIL, None), s)
      | Some r \<Rightarrow> map_option (\<lambda>(a, calls). (lift_answer Rs_pin a, s\<lparr>sl_pin_calls := sl_pin_calls s @ calls\<rparr>))
          (pin_request (ce_pins e) (ce_alloc e) r))"

definition net_handle ::
  "ctl_env \<Rightarrow> net_handler \<Rightarrow> ctl_req option \<Rightarrow> 'c ctl \<Rightarrow> (ctl_resp answered \<times> 'c ctl) option" where
  "net_handle e h q s =
     (case h of
        Req_get_dhcp_dns_status \<Rightarrow> with_payload (ce_alloc e) as_get_dhcp q s (\<lambda>p.
          map_option (\<lambda>a. (lift_answer (\<lambda>(r, d). Rs_dhcp r d) a, s))
            (req_get_dhcp_dns_status (ce_netif e) (ce_alloc e) p))
      | Req_set_dhcp_dns_status \<Rightarrow> with_payload (ce_alloc e) as_set_dhcp q s (\<lambda>p.
          map_option (\<lambda>(a, calls). (lift_answer Rs_status a, s\<lparr>sl_net_calls := sl_net_calls s @ calls\<rparr>))
            (req_set_dhcp_dns_status (ce_netif e) (ce_alloc e) p)))"

subsection \<open>The Wi-Fi handlers\<close>

text \<open>A payload of another kind is one of a handler that is not among these.\<close>

definition as_wifi :: "ctl_req \<Rightarrow> wifi_req" where
  "as_wifi q = (case q of Rq_wifi h a \<Rightarrow> (h, a) | _ \<Rightarrow> (Ctl Req_ota_begin_handler, A_none))"

definition as_eap :: "ctl_req \<Rightarrow> req_handler \<times> eap_arg" where
  "as_eap q = (case q of Rq_eap h a \<Rightarrow> (h, a) | _ \<Rightarrow> (Ctl Req_ota_begin_handler, EA_none))"

definition wifi_run ::
  "ctl_env \<Rightarrow> req_handler \<Rightarrow> ctl_req option \<Rightarrow> 'c ctl \<Rightarrow> (ctl_resp answered \<times> 'c ctl) option" where
  "wifi_run e h q s =
     map_option (\<lambda>(a, w). (lift_answer Rs_wifi a, s\<lparr>sl_wifi := w\<rparr>))
       (wifi_handle (ce_wifi e) h (map_option as_wifi q) (sl_wifi s))"

definition eap_run ::
  "ctl_env \<Rightarrow> eap_handler \<Rightarrow> ctl_req option \<Rightarrow> 'c ctl \<Rightarrow> (ctl_resp answered \<times> 'c ctl) option" where
  "eap_run e h q s =
     map_option (\<lambda>(a, w). (lift_answer Rs_eap a, s\<lparr>sl_eap := w\<rparr>))
       (eap_handle (ce_eap e) h (map_option as_eap q) (sl_eap s))"

definition ctl_run :: "ctl_env \<Rightarrow> (ctl_req, ctl_resp, 'c ctl) handlers" where
  "ctl_run e h q s =
     (case h of
        Ctl c \<Rightarrow> ctl_handle e c q s
      | Net n \<Rightarrow> net_handle e n q s
      | Pin p \<Rightarrow> pin_handle e p q s
      | Eap x \<Rightarrow> eap_run e x q s
      | _ \<Rightarrow> wifi_run e h q s)"

subsection \<open>Reachable states\<close>

text \<open>
  Any messages, any results of the calls, ticks of the heartbeat timer, and steps of the Wi-Fi connection
  manager, which the driver's events drive. The build's pins \<open>p\<close> are fixed.
\<close>

inductive ctl_reachable :: "pin_env \<Rightarrow> 'c ctl \<Rightarrow> bool" for p where
  ctl_start: "sl_ota s = ota_init \<Longrightarrow> sl_heartbeat s = \<lparr> hb_timers = [], hb_handle = None, hb_num = 0 \<rparr> \<Longrightarrow>
    sl_pin_calls s = [] \<Longrightarrow> wifi_cold (sl_wifi s) \<Longrightarrow> sl_eap s = eap_start \<Longrightarrow> ctl_reachable p s"
| ctl_message: "ctl_reachable p s \<Longrightarrow> pe_max (ce_pins e) = pe_max p \<Longrightarrow> pe_build (ce_pins e) = pe_build p \<Longrightarrow>
    data_transfer_handler renv (ctl_run e) inbuf outs s = Some (r, s') \<Longrightarrow> ctl_reachable p s'"
| ctl_tick: "ctl_reachable p s \<Longrightarrow>
    ctl_reachable p (s\<lparr>sl_heartbeat := heartbeat_timer_cb (sl_heartbeat s)\<rparr>)"
| ctl_wifi: "ctl_reachable p s \<Longrightarrow> w = sl_wifi s \<Longrightarrow> wm_step (wy_up w, wy_mgr w) (up, m) \<Longrightarrow>
    ctl_reachable p (s\<lparr>sl_wifi := w\<lparr>wy_up := up, wy_mgr := m\<rparr>\<rparr>)"

subsection \<open>Lemmas\<close>

definition free_pins :: "pin_env \<Rightarrow> pin_call list \<Rightarrow> bool" where
  "free_pins p calls \<longleftrightarrow> list_all (\<lambda>c. list_all (\<lambda>q. q < 0 \<or> int (pe_max p) \<le> q \<or> q \<notin> set (bus_pins (pe_build p)))
     (call_pins (pe_max p) c)) calls"

definition ctl_inv :: "pin_env \<Rightarrow> 'c ctl \<Rightarrow> bool" where
  "ctl_inv p s \<longleftrightarrow> ota_ok (sl_ota s) \<and> hb_ok (sl_heartbeat s) \<and> free_pins p (sl_pin_calls s) \<and>
     wifi_ok (sl_wifi s) \<and> eap_ok (sl_eap s)"

lemma free_pins_append [simp]: "free_pins p (xs @ ys) \<longleftrightarrow> free_pins p xs \<and> free_pins p ys"
  by (simp add: free_pins_def)

lemma ota_begin_ok: "ota_ok s \<Longrightarrow> ota_ok (snd (req_ota_begin_handler alloc n r h s))"
  by (rule ota_ok_step [OF step_begin [OF prod.collapse [symmetric]]])

lemma ota_write_ok: "ota_ok s \<Longrightarrow> ota_ok (snd (req_ota_write_handler check alloc d rc rw s))"
  by (rule ota_ok_step [OF step_write [OF prod.collapse [symmetric]]])

lemma ota_end_ok: "ota_ok s \<Longrightarrow> ota_ok (snd (req_ota_end_handler alloc r s))"
  by (rule ota_ok_step [OF step_end [OF prod.collapse [symmetric]]])

lemma ota_activate_ok: "ota_ok s \<Longrightarrow> ota_ok (snd (req_ota_activate_handler alloc r t st s))"
  by (rule ota_ok_step [OF step_activate [OF prod.collapse [symmetric]]])

lemma heartbeat_request_ok: "hb_ok s \<Longrightarrow> hb_ok (snd (req_config_heartbeat hz alloc create start q s))"
  by (cases q) (auto simp: req_config_heartbeat_def rpc_template_def rpc_ret_fail_if_def
      split: prod.split intro: config_ok)

lemma pin_request_free:
  assumes "pe_max e \<le> 64" "pin_request e alloc q = Some (a, calls)"
  shows "free_pins e calls"
  using requests_spare_bus [OF assms] by (simp add: free_pins_def spares_bus_def)


text \<open>A handler leaves the state as it was, but for one component, or for a log.\<close>

lemma ctl_inv_simps [simp]:
  "ctl_inv p s \<Longrightarrow> ctl_inv p (s\<lparr>sl_ota := x\<rparr>) = ota_ok x"
  "ctl_inv p s \<Longrightarrow> ctl_inv p (s\<lparr>sl_heartbeat := y\<rparr>) = hb_ok y"
  "ctl_inv p s \<Longrightarrow> ctl_inv p (s\<lparr>sl_pin_calls := z\<rparr>) = free_pins p z"
  "ctl_inv p s \<Longrightarrow> ctl_inv p (s\<lparr>sl_wifi := w\<rparr>) = wifi_ok w"
  "ctl_inv p s \<Longrightarrow> ctl_inv p (s\<lparr>sl_eap := v\<rparr>) = eap_ok v"
  "ctl_inv p (s\<lparr>sl_monitor := m\<rparr>) = ctl_inv p s" "ctl_inv p (s\<lparr>sl_delivered := d\<rparr>) = ctl_inv p s"
  "ctl_inv p (s\<lparr>sl_net_calls := n\<rparr>) = ctl_inv p s" "ctl_inv p (s\<lparr>sl_bt_calls := b\<rparr>) = ctl_inv p s"
  "ctl_inv p (s\<lparr>sl_mac_calls := c\<rparr>) = ctl_inv p s"
  by (simp_all add: ctl_inv_def)

lemma custom_inv: "ctl_inv p s \<Longrightarrow> ctl_inv p (snd (req_custom_rpc_handler os alloc q s))"
  by (cases q) (auto simp: req_custom_rpc_handler_def rpc_template_def split: prod.split option.split)

lemma run_ota_inv:
  "run_ota r s = Some (a, s') \<Longrightarrow> ctl_inv p s \<Longrightarrow> ota_ok (snd r) \<Longrightarrow> ctl_inv p s'"
  by (auto simp: run_ota_def ctl_inv_def)

lemma ctl_handle_inv:
  assumes inv: "ctl_inv p s" and run: "ctl_handle e h q s = Some (a, s')"
  shows "ctl_inv p s'"
proof -
  have ok: "ota_ok (sl_ota s)" "hb_ok (sl_heartbeat s)" using inv by (simp_all add: ctl_inv_def)
  show ?thesis
  proof (cases h)
    case Req_ota_write_handler
    then show ?thesis using run inv ota_write_ok [OF ok(1)]
      by (auto simp: ctl_handle_def Let_def split: if_splits option.splits
          dest!: with_payload_cases elim!: run_ota_inv)
  next
    case Req_config_heartbeat
    then show ?thesis using run inv heartbeat_request_ok [OF ok(2)]
      by (fastforce simp: ctl_handle_def Let_def split_beta ctl_inv_def dest!: with_payload_cases)
  next
    case Req_custom_rpc_handler
    then show ?thesis using run inv custom_inv [OF inv]
      by (fastforce simp: ctl_handle_def Let_def split_beta dest!: with_payload_cases)
  qed (use run inv ok in \<open>auto simp: ctl_handle_def Let_def split_beta ota_begin_ok ota_end_ok ota_activate_ok
      dest!: with_payload_cases elim!: run_ota_inv\<close>)
qed

lemma ctl_run_inv:
  assumes "pe_max p \<le> 64" "pe_max (ce_pins e) = pe_max p" "pe_build (ce_pins e) = pe_build p"
    "ctl_inv p s" "ctl_run e h q s = Some (a, s')"
  shows "ctl_inv p s'"
proof (cases h)
  case (Ctl c)
  then have "ctl_handle e c q s = Some (a, s')" using assms(5) by (simp add: ctl_run_def)
  then show ?thesis by (rule ctl_handle_inv [OF assms(4)])
next
  case (Net n)
  then show ?thesis using assms(4,5)
    by (auto simp: ctl_run_def net_handle_def split: net_handler.splits dest!: with_payload_cases)
next
  case (Pin r)
  have free: "free_pins p calls" if "pin_request (ce_pins e) alloc x = Some (b, calls)" for alloc x b calls
    using pin_request_free [OF _ that] assms(1-3) by (simp add: free_pins_def)
  show ?thesis using Pin assms(4,5) free
    by (auto simp: ctl_run_def pin_handle_def ctl_inv_def split: option.splits dest!: with_payload_cases)
next
  case (Eap x)
  have "eap_ok w" if "eap_handle (ce_eap e) x r (sl_eap s) = Some (b, w)" for r b w
    using outcome_handle [of "sl_eap s" False r x "ce_eap e"] that assms(4) by (simp add: outcome_ok_def ctl_inv_def)
  then show ?thesis using Eap assms(4,5) by (auto simp: ctl_run_def eap_run_def)
qed (use assms(4,5) wifi_handle_keeps in \<open>auto simp: ctl_run_def wifi_run_def ctl_inv_def\<close>)

lemma data_transfer_state:
  assumes "data_transfer_handler renv run inbuf outs s = Some (r, s')"
  shows "s' = s \<or> (\<exists>h q a. run h q s = Some (a, s'))"
  using assms
  by (auto simp: data_transfer_handler_def dispatcher_by_table Let_def
      split: if_splits option.splits prod.splits)

lemma ctl_inv_reachable:
  assumes "pe_max p \<le> 64" "ctl_reachable p s" shows "ctl_inv p s"
  using assms(2)
proof (induction rule: ctl_reachable.induct)
  case (ctl_start s)
  then show ?case
    by (simp add: ctl_inv_def ota_ok_def ota_init_def hb_ok_def free_pins_def wifi_cold_ok eap_start_ok)
next
  case (ctl_message s e renv inbuf outs r s')
  then show ?case using data_transfer_state [OF ctl_message.hyps(4)] ctl_run_inv [OF assms(1)] by blast
next
  case (ctl_tick s)
  then show ?case by (simp add: ctl_inv_def heartbeat_timer_cb_def hb_ok_num)
next
  case (ctl_wifi s w up m)
  then have "wm_ok (up, m)" using wm_ok_step [OF ctl_wifi.hyps(3)] by (simp add: ctl_inv_def wifi_ok_def)
  then show ?case using ctl_wifi by (simp add: wifi_ok_def)
qed


text \<open>The entries every build has.\<close>

lemma base_entries:
  "map_of (req_table b) 272 = Some (Ctl Req_ota_begin_handler)"
  "map_of (req_table b) 273 = Some (Ctl Req_ota_write_handler)"
  "map_of (req_table b) 277 = Some (Ctl Req_config_heartbeat)"
  "map_of (req_table b) 385 = Some (Ctl Req_iface_mac_addr_set_get)"
  "map_of (req_table b) 386 = Some (Ctl Req_iface_mac_addr_len_get)"
  "map_of (req_table b) 387 = Some (Ctl Req_feature_control)"
  by (rule table_lookup(1), simp add: req_table_def req_table_sections)+

subsection \<open>Properties\<close>

text \<open>C10: Whatever bytes arrive at the RPC endpoint, in whatever order, and whatever the flash, the timers
  and the drivers answer: while the firmware does not crash, the update status is the one the flash
  calls lead to and only a completed update is made bootable, no heartbeat timer runs but the one
  that can be stopped, no driver call names a pin of the bus, the host was told the state of the Wi-Fi
  link, and no freed memory holds a key.\<close>

theorem endpoint_keeps_invariants:
  assumes "ctl_reachable p s" "pe_max p \<le> 64"
  shows "ot_status (sl_ota s) = status_after OTA_NOT_STARTED (ot_log (sl_ota s)) \<and>
    boots_completed OTA_NOT_STARTED (ot_log (sl_ota s)) \<and>
    (\<forall>i < length (hb_timers (sl_heartbeat s)).
      runs (hb_timers (sl_heartbeat s) ! i) \<longrightarrow> hb_handle (sl_heartbeat s) = Some i) \<and>
    list_all (\<lambda>c. list_all (\<lambda>q. q < 0 \<or> int (pe_max p) \<le> q \<or> q \<notin> set (bus_pins (pe_build p)))
      (call_pins (pe_max p) c)) (sl_pin_calls s) \<and>
    wm_connected (wy_mgr (sl_wifi s)) = told_link (wm_log (wy_mgr (sl_wifi s))) False \<and>
    list_all (list_all (\<lambda>x. x = 0)) (ep_freed (sl_eap s))"
proof -
  have inv: "ctl_inv p s" by (rule ctl_inv_reachable [OF assms(2,1)])
  then have "wm_connected (wy_mgr (sl_wifi s)) = told_link (wm_log (wy_mgr (sl_wifi s))) False"
    "list_all (list_all (\<lambda>x. x = 0)) (ep_freed (sl_eap s))"
    by (auto simp: ctl_inv_def wifi_ok_def wm_ok_def eap_ok_def heap_ok_def)
  then show ?thesis using inv unfolding ctl_inv_def ota_ok_def hb_ok_def free_pins_def by blast
qed


subsection \<open>Concrete instances\<close>

definition demo_ctl_env :: ctl_env where
  "demo_ctl_env = \<lparr> ce_alloc = True, ce_copy = (\<lambda>_. True), ce_timer = True, ce_start = True, ce_hz = 100,
     ce_ota = \<lparr> oe_check = True, oe_next = Some 1, oe_handle = 7, oe_begin = 0, oe_valid = 0, oe_write = 0,
       oe_end = 0, oe_boot = 0 \<rparr>,
     ce_heap = \<lparr> me_total_free = 0, me_min_free = 0, me_free = no_params, me_largest = no_params \<rparr>,
     ce_chip = (13, [101]), ce_mac = demo_mac, ce_bt = (True, \<lambda>_. 0),
     ce_app = (\<lparr> ab_full = True, ab_efuse = True, ab_mmu = True \<rparr>, None), ce_pins = demo_pins,
     ce_netif = demo_netif, ce_rtos = good_rtos, ce_wifi = demo_wifi_env, ce_eap = demo_eap_env True \<rparr>"

definition demo_control :: "nat ctl" where
  "demo_control = \<lparr> sl_ota = ota_init, sl_heartbeat = \<lparr> hb_timers = [], hb_handle = None, hb_num = 0 \<rparr>,
     sl_monitor = \<lparr> mm_timer = None, mm_params = no_params, mm_report_always = False, mm_interval_sec = 0 \<rparr>,
     sl_custom = cb_init 3, sl_delivered = [], sl_pin_calls = [], sl_net_calls = [], sl_bt_calls = [],
     sl_mac_calls = [], sl_wifi = demo_wifi_sys, sl_eap = eap_start \<rparr>"

definition demo_ctl_rpc :: "ctl_req rpc_request \<Rightarrow> (ctl_req, ctl_resp) rpc_env" where
  "demo_ctl_rpc q = \<lparr> re_build = full_build, re_unpack = (\<lambda>_. Some q), re_pack = (\<lambda>r. [1]),
     re_alloc_resp = True, re_alloc_out = (\<lambda>_. True) \<rparr>"

theorem endpoint_keeps_invariants_witness:
  "\<exists>r s. data_transfer_handler (demo_ctl_rpc \<lparr> rq_msg_id = 272, rq_uid = 1, rq_payload = Some Rq_ota_begin \<rparr>)
      (ctl_run demo_ctl_env) (Some [0]) True demo_control = Some (r, s) \<and> ot_log (sl_ota s) = [Ota_begin 1 0] \<and>
    ot_status (sl_ota s) = status_after OTA_NOT_STARTED (ot_log (sl_ota s))"
proof -
  obtain r s where m: "data_transfer_handler (demo_ctl_rpc \<lparr> rq_msg_id = 272, rq_uid = 1,
      rq_payload = Some Rq_ota_begin \<rparr>) (ctl_run demo_ctl_env) (Some [0]) True demo_control = Some (r, s)"
    and l: "ot_log (sl_ota s) = [Ota_begin 1 0]"
    by (auto simp: data_transfer_handler_def dispatcher_by_table base_entries demo_ctl_rpc_def ctl_run_def
        ctl_handle_def demo_ctl_env_def run_ota_def begin_ok demo_control_def ota_init_def ESP_OK_def
        lift_answer_def Let_def)
  have "ctl_reachable demo_pins s"
    by (rule ctl_message [OF ctl_start _ _ m]) (simp_all add: demo_control_def demo_ctl_env_def demo_wifi_cold)
  then show ?thesis using endpoint_keeps_invariants [of demo_pins s] m l by (auto simp: demo_pins_def)
qed


end
