(* ===== verification/Rpc_EndToEnd.thy ===== *)
theory Rpc_EndToEnd
  imports Serial_Link Slave_Control
begin

section \<open>RPC calls from end to end\<close>

text \<open>
  The serial channel of both sides, the dispatcher of the co-processor and its handlers together:
  the endpoint registered for requests is \<open>data_transfer_handler\<close>.
\<close>

text \<open>The endpoint as the answering function of the serial channel, in a given state of the control component.\<close>

definition control_endpoint ::
  "(ctl_req, ctl_resp) rpc_env \<Rightarrow> ctl_env \<Rightarrow> 'c ctl \<Rightarrow> byte list \<Rightarrow> int \<Rightarrow> byte list \<Rightarrow> byte list" where
  "control_endpoint renv e c ep i d =
     (case data_transfer_handler renv (ctl_run e) (Some d) True c of
        None \<Rightarrow> []
      | Some (r, c') \<Rightarrow> (case dt_out r of None \<Rightarrow> [] | Some out \<Rightarrow> out))"

lemma endpoint_answers:
  assumes "re_alloc_resp renv" "re_unpack renv d = Some req"
    "map_of (req_table (re_build renv)) (rq_msg_id req) = Some h"
    "ctl_run e h (rq_payload req) c = Some ((ret, payload), c')"
    "ans = re_pack renv \<lparr> rs_msg_id = rq_msg_id req + 256, rs_uid = rq_uid req,
       rs_case = rq_msg_id req + 256, rs_payload = payload \<rparr>"
    "ans \<noteq> []" "re_alloc_out renv (length ans)"
  shows "data_transfer_handler renv (ctl_run e) (Some d) True c = Some (dt_done ans, c')"
  using assms
  by (simp add: data_transfer_handler_def dispatcher_by_table first_response_def Let_def ESP_OK_def ac_simps)

text \<open>C3: A request of the host to the co-processor's control makes the whole trip over the serial
  channel, with the frame checksum on or off: the message that the host packed is unpacked,
  handled once by the handler of the build's table, and the response the host reads is the packed
  answer of that handler, under the matching id and uid.\<close>

theorem control_call_end_to_end:
  assumes "hs_handle h" "hs_active h" "hs_r h = R_null" "hs_queue h = []" "hs_posts h = 0"
    "copro_ready pm s" "cp_written s = []" "r_data (cp_rx s) = []" "d \<noteq> []" "length d \<le> 8180"
    "re_alloc_resp renv" "re_unpack renv d = Some req"
    "map_of (req_table (re_build renv)) (rq_msg_id req) = Some f"
    "ctl_run e f (rq_payload req) c = Some ((ret, payload), c')"
    "ans = re_pack renv \<lparr> rs_msg_id = rq_msg_id req + 256, rs_uid = rq_uid req,
       rs_case = rq_msg_id req + 256, rs_payload = payload \<rparr>"
    "ans \<noteq> []" "12 + length ans < 65536" "re_alloc_out renv (length ans)"
  shows "data_transfer_handler renv (ctl_run e) (Some d) True c = Some (dt_done ans, c') \<and>
    (\<exists>ps r a s2 h2.
      transport_pserial_send (\<lambda>_. True) (hs_handle h) (hs_active h) (\<lambda>_. True) d = Some (SUCCESS, ps) \<and>
      serial_rx_pkts (map (\<lambda>p. the (to_slave chk p)) ps) (cp_rx s) = (r, [tlv_bytes RPC_EP_NAME_RSP d]) \<and>
      protocomm_pserial_data_ready True (\<lambda>_. True) (tlv_bytes RPC_EP_NAME_RSP d) 0 [] = Some (ESP_OK, [a]) \<and>
      pserial_task_step (serial_env pm (control_endpoint renv e c)) a (s\<lparr>cp_rx := r\<rparr>) = (Done ESP_OK, s2) \<and>
      ll_rx_run (map (\<lambda>p. the (to_host chk p)) (cp_written s2)) h = Some h2 \<and>
      serial_drv_read (\<lambda>_. True) h2 = (Some ans, h) \<and> rx_pending s2 = None)"
proof -
  have served: "data_transfer_handler renv (ctl_run e) (Some d) True c = Some (dt_done ans, c')"
    by (rule endpoint_answers [OF assms(11-16,18)])
  have ep: "control_endpoint renv e c RPC_EP_NAME_RSP 0 d = ans"
    by (simp add: control_endpoint_def served dt_done_def)
  show ?thesis
    using rpc_trip [where chk = chk, OF assms(1-10), of "control_endpoint renv e c" ans, OF ep assms(16,17)] served
    by blast
qed

subsection \<open>Concrete instance\<close>

theorem control_call_end_to_end_witness:
  "\<exists>c' ps r a s2 h2.
    data_transfer_handler (demo_ctl_rpc \<lparr> rq_msg_id = 272, rq_uid = 1, rq_payload = Some Rq_ota_begin \<rparr>)
      (ctl_run demo_ctl_env) (Some [5]) True demo_control = Some (dt_done [1], c') \<and>
    ot_log (sl_ota c') = [Ota_begin 1 0] \<and>
    transport_pserial_send (\<lambda>_. True) (hs_handle demo_host) (hs_active demo_host) (\<lambda>_. True) [5] = Some (SUCCESS, ps) \<and>
    serial_rx_pkts (map (\<lambda>p. the (to_slave True p)) ps) (cp_rx demo_copro) = (r, [tlv_bytes RPC_EP_NAME_RSP [5]]) \<and>
    pserial_task_step (serial_env demo_pm (control_endpoint (demo_ctl_rpc \<lparr> rq_msg_id = 272, rq_uid = 1,
      rq_payload = Some Rq_ota_begin \<rparr>) demo_ctl_env demo_control)) a (demo_copro\<lparr>cp_rx := r\<rparr>) = (Done ESP_OK, s2) \<and>
    ll_rx_run (map (\<lambda>p. the (to_host True p)) (cp_written s2)) demo_host = Some h2 \<and>
    serial_drv_read (\<lambda>_. True) h2 = (Some [1], demo_host)"
proof -
  let ?q = "\<lparr> rq_msg_id = 272, rq_uid = 1, rq_payload = Some Rq_ota_begin \<rparr> :: ctl_req rpc_request"
  let ?r = "demo_ctl_rpc ?q"
  obtain x c' where run: "ctl_run demo_ctl_env (Ctl Req_ota_begin_handler) (rq_payload ?q) demo_control = Some ((0, Some x), c')"
    and l: "ot_log (sl_ota c') = [Ota_begin 1 0]"
    by (auto simp: ctl_run_def ctl_handle_def demo_ctl_env_def run_ota_def begin_ok demo_control_def ota_init_def
        ESP_OK_def lift_answer_def Let_def)
  have e: "re_alloc_resp ?r" "re_unpack ?r [5] = Some ?q"
    "map_of (req_table (re_build ?r)) (rq_msg_id ?q) = Some (Ctl Req_ota_begin_handler)"
    "[1] = re_pack ?r \<lparr> rs_msg_id = rq_msg_id ?q + 256, rs_uid = rq_uid ?q,
       rs_case = rq_msg_id ?q + 256, rs_payload = Some x \<rparr>"
    "re_alloc_out ?r (length [1 :: byte])"
    using base_entries by (simp_all add: demo_ctl_rpc_def)
  have h: "hs_handle demo_host" "hs_active demo_host" "hs_r demo_host = R_null" "hs_queue demo_host = []"
    "hs_posts demo_host = 0" "copro_ready demo_pm demo_copro" "cp_written demo_copro = []"
    "r_data (cp_rx demo_copro) = []" "[5 :: byte] \<noteq> []" "length [5 :: byte] \<le> 8180" "[1 :: byte] \<noteq> []"
    "12 + length [1 :: byte] < 65536"
    by (simp_all add: demo_host_def hserial_init_def hs_active_def copro_ready_def link_open_def
        demo_copro_def demo_pm_def)
  show ?thesis
    using control_call_end_to_end [OF h(1-10) e(1-3) run e(4) h(11,12) e(5), of True] l by blast
qed

end
