(* ===== verification/Nw_Split.thy ===== *)
theory Nw_Split
  imports Hosted_Prelude "HOL-Library.Monad_Syntax"
begin

section \<open>Routing of received packets (nw_split_router.c)\<close>

text \<open>
  With the network split, the co-processor decides for every frame from the station interface
  whether it goes to its own IP stack, to the host's, to both, or is dropped:
  \<open>nw_split_filter_and_route_packet\<close>, the reserved port lists it uses (\<open>init_allowed_ports\<close>,
  \<open>nw_split_config_host_static_port_fwd_rules\<close>) and its two caches of listening ports. The code
  reads header fields at fixed places without looking at the frame's length; a read behind the
  frame is the result \<open>None\<close>. lwIP's list of sockets and its macro \<open>TCPH_FLAGS\<close> are parameters.
\<close>

datatype bridge = SLAVE_LWIP_BRIDGE | HOST_LWIP_BRIDGE | BOTH_LWIP_BRIDGE | INVALID_BRIDGE

subsection \<open>Reserved ports\<close>

text \<open>
  A C string is the list of its bytes up to the terminator; \<open>None\<close> is the null pointer. One list
  of ports is the array up to its count, and the static flag that makes later calls do nothing.
\<close>

record port_list =
  pl_ports :: "u16 list"
  pl_initialized :: bool

definition MAX_ALLOWED_PORTS :: nat where "MAX_ALLOWED_PORTS = 10"

definition is_digit :: "byte \<Rightarrow> bool" where
  "is_digit c \<longleftrightarrow> 48 \<le> c \<and> c \<le> 57"

text \<open>\<open>atoi\<close> on digits, and its result in a \<open>uint16_t\<close>.\<close>

definition atoi :: "byte list \<Rightarrow> nat" where
  "atoi ds = foldl (\<lambda>n d. 10 * n + (unat d - 48)) 0 ds"

definition port_of :: "byte list \<Rightarrow> u16" where
  "port_of ds = word_of_nat (atoi ds)"

text \<open>
  The loop over the string with its buffer of six characters: the index is pulled back from
  five to four, so the next character or the terminator overwrites the fifth digit.
\<close>

fun parse_ports :: "nat \<Rightarrow> u16 list \<Rightarrow> byte list \<Rightarrow> byte list \<Rightarrow> u16 list \<times> byte list" where
  "parse_ports n acc buf [] = (acc, buf)"
| "parse_ports n acc buf (c # cs) =
     (if n \<le> length acc then (acc, buf)
      else if is_digit c then
        parse_ports n acc (if 5 \<le> length (buf @ [c]) then take 4 (buf @ [c]) else buf @ [c]) cs
      else if c = 44 then
        (if buf \<noteq> [] then parse_ports n (acc @ [port_of buf]) [] cs else parse_ports n acc buf cs)
      else parse_ports n acc buf cs)"

text \<open>The last port, if no comma follows it.\<close>

definition flush_ports :: "u16 list \<times> byte list \<Rightarrow> u16 list" where
  "flush_ports r = (case r of (acc, buf) \<Rightarrow> if buf \<noteq> [] then acc @ [port_of buf] else acc)"

definition init_allowed_ports :: "byte list option \<Rightarrow> port_list \<Rightarrow> int \<times> port_list" where
  "init_allowed_ports str pl =
     (if pl_initialized pl then (0, pl)
      else case str of
        None \<Rightarrow> (0, pl\<lparr>pl_ports := []\<rparr>)
      | Some s \<Rightarrow>
          if s = [] then (0, pl\<lparr>pl_ports := []\<rparr>)
          else (0, \<lparr> pl_ports = flush_ports (parse_ports MAX_ALLOWED_PORTS [] [] s),
                     pl_initialized = True \<rparr>))"

subsection \<open>State and configuration\<close>

record port_cache =
  pc_last_check_time :: u64
  pc_last_result :: bool
  pc_last_port :: u16

record router =
  rt_tcp_src :: port_list
  rt_tcp_dst :: port_list
  rt_udp_src :: port_list
  rt_udp_dst :: port_list
  rt_tcp_cache :: port_cache
  rt_udp_cache :: port_cache

definition router_init :: router where
  "router_init =
     (let p = \<lparr> pl_ports = [], pl_initialized = False \<rparr>;
          c = \<lparr> pc_last_check_time = 0, pc_last_result = False, pc_last_port = 0 \<rparr>
      in \<lparr> rt_tcp_src = p, rt_tcp_dst = p, rt_udp_src = p, rt_udp_dst = p,
           rt_tcp_cache = c, rt_udp_cache = c \<rparr>)"

definition init_port_pair ::
  "byte list option \<Rightarrow> byte list option \<Rightarrow> port_list \<Rightarrow> port_list \<Rightarrow> int \<times> port_list \<times> port_list" where
  "init_port_pair s d ps pd =
     (case (if s = None \<or> s = Some [] then (0, ps) else init_allowed_ports s ps) of (r1, ps1) \<Rightarrow>
      case (if d = None \<or> d = Some [] then (0, pd) else init_allowed_ports d pd) of (r2, pd1) \<Rightarrow>
        (if r1 \<noteq> 0 then r1 else r2, ps1, pd1))"

definition init_allowed_tcp_ports ::
  "byte list option \<Rightarrow> byte list option \<Rightarrow> router \<Rightarrow> int \<times> router" where
  "init_allowed_tcp_ports s d r =
     (case init_port_pair s d (rt_tcp_src r) (rt_tcp_dst r) of
        (e, ps, pd) \<Rightarrow> (e, r\<lparr>rt_tcp_src := ps, rt_tcp_dst := pd\<rparr>))"

definition init_allowed_udp_ports ::
  "byte list option \<Rightarrow> byte list option \<Rightarrow> router \<Rightarrow> int \<times> router" where
  "init_allowed_udp_ports s d r =
     (case init_port_pair s d (rt_udp_src r) (rt_udp_dst r) of
        (e, ps, pd) \<Rightarrow> (e, r\<lparr>rt_udp_src := ps, rt_udp_dst := pd\<rparr>))"

definition nw_split_config_host_static_port_fwd_rules ::
  "byte list option \<Rightarrow> byte list option \<Rightarrow> byte list option \<Rightarrow> byte list option \<Rightarrow> router
    \<Rightarrow> int \<times> router" where
  "nw_split_config_host_static_port_fwd_rules ts td us ud r =
     (case init_allowed_tcp_ports ts td r of (r1, s1) \<Rightarrow>
      case init_allowed_udp_ports us ud s1 of (r2, s2) \<Rightarrow>
        (if r1 \<noteq> 0 then r1 else r2, s2))"

text \<open>The four loops over the arrays.\<close>

definition is_port_allowed :: "u16 \<Rightarrow> port_list \<Rightarrow> bool" where
  "is_port_allowed port pl = list_ex (\<lambda>p. port = p) (pl_ports pl)"

text \<open>
  What a decision depends on besides the frame: the build configuration (default bridge and port
  ranges of \<open>esp_hosted_lwip_src_port_hook.h\<close>), whether the host saves power, the time in
  microseconds, and lwIP's sockets and flag macro.
\<close>

record split_env =
  se_default :: bridge
  se_remote_tcp :: "u16 \<times> u16"
  se_local_tcp :: "u16 \<times> u16"
  se_remote_udp :: "u16 \<times> u16"
  se_local_udp :: "u16 \<times> u16"
  se_saving :: bool
  se_time_us :: u64
  se_tcp_listen :: "u16 \<Rightarrow> bool"
  se_udp_open :: "u16 \<Rightarrow> bool"
  se_tcph_flags :: "u16 \<Rightarrow> u16"

definition in_range :: "u16 \<Rightarrow> u16 \<times> u16 \<Rightarrow> bool" where
  "in_range p r \<longleftrightarrow> fst r \<le> p \<and> p \<le> snd r"

subsection \<open>Caches of listening ports\<close>

definition is_local_port_open :: "u64 \<Rightarrow> (u16 \<Rightarrow> bool) \<Rightarrow> u16 \<Rightarrow> port_cache \<Rightarrow> bool \<times> port_cache" where
  "is_local_port_open t_us sockets port c =
     (let now = drop_bit 10 t_us in
      if pc_last_port c = port \<and> now - pc_last_check_time c < 1000
      then (pc_last_result c, c\<lparr>pc_last_check_time := now\<rparr>)
      else (sockets port, \<lparr> pc_last_check_time = now, pc_last_result = sockets port,
                            pc_last_port = port \<rparr>))"

definition is_local_tcp_port_open :: "split_env \<Rightarrow> u16 \<Rightarrow> router \<Rightarrow> bool \<times> router" where
  "is_local_tcp_port_open e port r =
     (case is_local_port_open (se_time_us e) (se_tcp_listen e) port (rt_tcp_cache r) of
        (b, c) \<Rightarrow> (b, r\<lparr>rt_tcp_cache := c\<rparr>))"

definition is_local_udp_port_open :: "split_env \<Rightarrow> u16 \<Rightarrow> router \<Rightarrow> bool \<times> router" where
  "is_local_udp_port_open e port r =
     (case is_local_port_open (se_time_us e) (se_udp_open e) port (rt_udp_cache r) of
        (b, c) \<Rightarrow> (b, r\<lparr>rt_udp_cache := c\<rparr>))"

subsection \<open>The router\<close>

definition byte_at :: "byte list \<Rightarrow> nat \<Rightarrow> byte option" where
  "byte_at f i = (if i < length f then Some (f ! i) else None)"

definition be16_at :: "byte list \<Rightarrow> nat \<Rightarrow> u16 option" where
  "be16_at f i = do { a \<leftarrow> byte_at f i; b \<leftarrow> byte_at f (i + 1);
                      Some (push_bit 8 (ucast a) OR ucast b) }"

definition slice_at :: "byte list \<Rightarrow> nat \<Rightarrow> nat \<Rightarrow> byte list option" where
  "slice_at f i n = (if i + n \<le> length f then Some (take n (drop i f)) else None)"

definition MQTT_PORT :: u16 where "MQTT_PORT = 1883"
definition DEFAULT_IPERF_PORT :: u16 where "DEFAULT_IPERF_PORT = 5001"
definition DHCP_CLIENT_PORT :: u16 where "DHCP_CLIENT_PORT = 68"

text \<open>``wakeup-host''\<close>

definition WAKEUP_HOST_STRING :: "byte list" where
  "WAKEUP_HOST_STRING = [119, 97, 107, 101, 117, 112, 45, 104, 111, 115, 116]"

definition host_mqtt_wakeup_triggered :: "byte list \<Rightarrow> nat \<Rightarrow> nat \<Rightarrow> bool option" where
  "host_mqtt_wakeup_triggered f off len =
     (if length WAKEUP_HOST_STRING \<le> len then do {
        p \<leftarrow> slice_at f off (length WAKEUP_HOST_STRING);
        Some (p = WAKEUP_HOST_STRING) }
      else Some False)"

text \<open>The decision on a TCP segment whose header starts at \<open>h\<close>.\<close>

definition route_tcp :: "split_env \<Rightarrow> byte list \<Rightarrow> nat \<Rightarrow> router \<Rightarrow> (bridge \<times> router) option" where
  "route_tcp e f h r = do {
     dst \<leftarrow> be16_at f (h + 2);
     src \<leftarrow> be16_at f h;
     if is_port_allowed src (rt_tcp_src r) \<or> is_port_allowed dst (rt_tcp_dst r)
     then Some (HOST_LWIP_BRIDGE, r)
     else let (opn, r1) = (if dst = DEFAULT_IPERF_PORT then is_local_tcp_port_open e dst r
                           else (False, r)) in
       if dst = DEFAULT_IPERF_PORT \<and> opn then Some (SLAVE_LWIP_BRIDGE, r1)
       else if dst = DEFAULT_IPERF_PORT \<and> \<not> se_saving e then Some (HOST_LWIP_BRIDGE, r1)
       else if in_range dst (se_remote_tcp e) then
         (if \<not> se_saving e then Some (HOST_LWIP_BRIDGE, r1)
          else if src = MQTT_PORT then do {
            fl \<leftarrow> be16_at f (h + 12);
            wnd \<leftarrow> be16_at f (h + 14);
            wake \<leftarrow> host_mqtt_wakeup_triggered f
                      (h + unat (drop_bit 12 (se_tcph_flags e fl)) * 4) (unat wnd);
            Some (if wake then HOST_LWIP_BRIDGE else INVALID_BRIDGE, r1) }
          else Some (INVALID_BRIDGE, r1))
       else if in_range dst (se_local_tcp e) then Some (SLAVE_LWIP_BRIDGE, r1)
       else Some (se_default e, r1) }"

definition route_udp :: "split_env \<Rightarrow> byte list \<Rightarrow> nat \<Rightarrow> router \<Rightarrow> (bridge \<times> router) option" where
  "route_udp e f h r = do {
     dst \<leftarrow> be16_at f (h + 2);
     src \<leftarrow> be16_at f h;
     if is_port_allowed src (rt_udp_src r) \<or> is_port_allowed dst (rt_udp_dst r)
     then Some (HOST_LWIP_BRIDGE, r)
     else let (opn, r1) = (if dst = DEFAULT_IPERF_PORT then is_local_udp_port_open e dst r
                           else (False, r)) in
       if dst = DEFAULT_IPERF_PORT \<and> opn then Some (SLAVE_LWIP_BRIDGE, r1)
       else if dst = DEFAULT_IPERF_PORT \<and> \<not> se_saving e then Some (HOST_LWIP_BRIDGE, r1)
       else if dst = DHCP_CLIENT_PORT then Some (BOTH_LWIP_BRIDGE, r1)
       else if in_range dst (se_remote_udp e) then
         Some (if se_saving e then INVALID_BRIDGE else HOST_LWIP_BRIDGE, r1)
       else if in_range dst (se_local_udp e) then Some (SLAVE_LWIP_BRIDGE, r1)
       else Some (se_default e, r1) }"

definition route_icmp :: "split_env \<Rightarrow> byte list \<Rightarrow> nat \<Rightarrow> bridge option" where
  "route_icmp e f h = do {
     ty \<leftarrow> byte_at f h;
     Some (if ty = 8 then SLAVE_LWIP_BRIDGE
           else if ty = 0 then (if se_saving e then SLAVE_LWIP_BRIDGE else BOTH_LWIP_BRIDGE)
           else se_default e) }"

text \<open>
  The whole decision. Offset 14 is the end of the Ethernet header; the protocol is the tenth byte
  of the IP header and its length the low half of the first.
\<close>

definition ETHTYPE_IP :: u16 where "ETHTYPE_IP = 0x0800"
definition ETHTYPE_ARP :: u16 where "ETHTYPE_ARP = 0x0806"

definition nw_split_filter_and_route_packet ::
  "split_env \<Rightarrow> byte list \<Rightarrow> router \<Rightarrow> (bridge \<times> router) option" where
  "nw_split_filter_and_route_packet e f r = do {
     d0 \<leftarrow> byte_at f 0;
     if d0 AND 1 \<noteq> 0 then Some (SLAVE_LWIP_BRIDGE, r)
     else do {
       ty \<leftarrow> be16_at f 12;
       if ty = ETHTYPE_IP then do {
         proto \<leftarrow> byte_at f (14 + 9);
         if proto = 6 \<or> proto = 17 \<or> proto = 1 then do {
           b0 \<leftarrow> byte_at f 14;
           let h = 14 + unat (b0 AND 15) * 4;
           if proto = 6 then route_tcp e f h r
           else if proto = 17 then route_udp e f h r
           else do { b \<leftarrow> route_icmp e f h; Some (b, r) } }
         else Some (se_default e, r) }
       else if ty = ETHTYPE_ARP then do {
         op \<leftarrow> be16_at f (14 + 6);
         Some (if op = 1 then SLAVE_LWIP_BRIDGE
               else if se_saving e then SLAVE_LWIP_BRIDGE else BOTH_LWIP_BRIDGE, r) }
       else Some (se_default e, r) } }"

subsection \<open>Lemmas: reserved ports\<close>

text \<open>Decimal writing of a port, and a list of them with commas.\<close>

fun dec :: "nat \<Rightarrow> byte list" where
  "dec n = (if n < 10 then [word_of_nat (48 + n)] else dec (n div 10) @ [word_of_nat (48 + n mod 10)])"

declare dec.simps [simp del]

fun comma_list :: "nat list \<Rightarrow> byte list" where
  "comma_list [] = []"
| "comma_list [p] = dec p"
| "comma_list (p # ps) = dec p @ 44 # comma_list ps"

lemma digit_unat: "d < 10 \<Longrightarrow> unat (word_of_nat (48 + d) :: byte) = 48 + d"
  by (simp add: unsigned_of_nat take_bit_nat_eq_self del: of_nat_add)

lemma digit_is_digit: "d < 10 \<Longrightarrow> is_digit (word_of_nat (48 + d))"
  using digit_unat [of d] by (simp add: is_digit_def word_le_nat_alt del: of_nat_add)

lemma atoi_snoc: "atoi (ds @ [d]) = 10 * atoi ds + (unat d - 48)"
  by (simp add: atoi_def)

lemma dec_props: "atoi (dec n) = n \<and> list_all is_digit (dec n) \<and> dec n \<noteq> []"
proof (induction n rule: dec.induct)
  case (1 n)
  show ?case
  proof (cases "n < 10")
    case True
    then show ?thesis
      using digit_unat [of n] digit_is_digit [of n]
      by (simp add: dec.simps [of n] atoi_def del: of_nat_add)
  next
    case False
    then show ?thesis
      using 1 digit_unat [of "n mod 10"] digit_is_digit [of "n mod 10"]
      by (simp add: dec.simps [of n] atoi_snoc del: of_nat_add)
  qed
qed

lemma dec_length: "n < 10 ^ k \<Longrightarrow> 0 < k \<Longrightarrow> length (dec n) \<le> k"
proof (induction n arbitrary: k rule: dec.induct)
  case (1 n)
  show ?case
  proof (cases "n < 10")
    case True
    then show ?thesis using 1(3) by (simp add: dec.simps [of n])
  next
    case False
    then obtain j where j: "k = Suc j" "0 < j"
      using 1(2,3) by (cases k; cases "k - 1") auto
    have "n div 10 < 10 ^ j" using 1(2) j by (simp add: less_mult_imp_div_less)
    then have "length (dec (n div 10)) \<le> j" using 1(1) False j(2) by blast
    then show ?thesis using False j(1) by (simp add: dec.simps [of n])
  qed
qed

lemma dec_length_ge: "10 ^ k \<le> n \<Longrightarrow> k < length (dec n)"
proof (induction n arbitrary: k rule: dec.induct)
  case (1 n)
  show ?case
  proof (cases "n < 10")
    case True
    have "k = 0"
    proof (rule ccontr)
      assume "k \<noteq> 0"
      then have "(10 :: nat) ^ 1 \<le> 10 ^ k" by (intro power_increasing) auto
      then show False using 1(2) True by simp
    qed
    then show ?thesis using dec_props [of n] by simp
  next
    case False
    show ?thesis
    proof (cases k)
      case (Suc j)
      have "10 ^ j \<le> n div 10" using 1(2) Suc by (simp add: less_eq_div_iff_mult_less_eq)
      then have "j < length (dec (n div 10))" using 1(1) False by blast
      then show ?thesis using False Suc by (simp add: dec.simps [of n])
    qed (use dec_props [of n] in simp)
  qed
qed

text \<open>What the digits of one port leave in the buffer.\<close>

definition seen_port :: "nat \<Rightarrow> nat" where
  "seen_port p = (if p < 10000 then p else p div 10)"

lemma parse_digits:
  assumes "list_all is_digit ds" "length acc < n" "length buf + length ds \<le> 4"
  shows "parse_ports n acc buf (ds @ cs) = parse_ports n acc (buf @ ds) cs"
  using assms by (induction ds arbitrary: buf) auto

lemma parse_dec:
  assumes "p < 65536" "length acc < n"
  shows "\<exists>buf. parse_ports n acc [] (dec p @ cs) = parse_ports n acc buf cs \<and> buf \<noteq> [] \<and>
    port_of buf = word_of_nat (seen_port p)"
proof (cases "p < 10000")
  case True
  then have "length (dec p) \<le> 4" using dec_length [of p 4] by simp
  then have "parse_ports n acc [] (dec p @ cs) = parse_ports n acc (dec p) cs"
    using parse_digits [of "dec p" acc n "[]" cs] dec_props [of p] assms(2) by simp
  then show ?thesis using dec_props [of p] True by (auto simp: port_of_def seen_port_def)
next
  case False
  let ?q = "p div 10" and ?d = "word_of_nat (48 + p mod 10) :: byte"
  have dp: "dec p = dec ?q @ [?d]" using False by (simp add: dec.simps [of p] del: of_nat_add)
  have q: "1000 \<le> ?q" "?q < 10000" using False assms(1) by auto
  have len: "length (dec ?q) = 4"
    using dec_length [of ?q 4] dec_length_ge [of 3 ?q] q by simp
  have "parse_ports n acc [] (dec ?q @ ?d # cs) = parse_ports n acc (dec ?q) (?d # cs)"
    using parse_digits [of "dec ?q" acc n "[]" "?d # cs"] dec_props [of ?q] assms(2) len by simp
  moreover have "is_digit ?d" by (rule digit_is_digit) simp
  ultimately have "parse_ports n acc [] (dec p @ cs) = parse_ports n acc (dec ?q) cs"
    using assms(2) len by (simp add: dp del: of_nat_add)
  then show ?thesis using dec_props [of ?q] False by (auto simp: port_of_def seen_port_def)
qed

lemma parse_comma_list:
  assumes "\<forall>p \<in> set ps. p < 65536" "length acc + length ps \<le> n" "ps \<noteq> []"
  shows "flush_ports (parse_ports n acc [] (comma_list ps)) =
    acc @ map (\<lambda>p. word_of_nat (seen_port p)) ps"
  using assms
proof (induction ps arbitrary: acc rule: comma_list.induct)
  case (2 p)
  then obtain buf where "parse_ports n acc [] (dec p @ []) = parse_ports n acc buf []" "buf \<noteq> []"
    "port_of buf = word_of_nat (seen_port p)"
    using parse_dec [of p acc n "[]"] by auto
  then show ?case by (simp add: flush_ports_def)
next
  case (3 p p' ps)
  let ?rest = "comma_list (p' # ps)"
  obtain buf where b: "parse_ports n acc [] (dec p @ 44 # ?rest) = parse_ports n acc buf (44 # ?rest)"
    "buf \<noteq> []" "port_of buf = word_of_nat (seen_port p)"
    using parse_dec [of p acc n "44 # ?rest"] 3(2,3) by auto
  have "parse_ports n acc buf (44 # ?rest) = parse_ports n (acc @ [port_of buf]) [] ?rest"
    using b(2) 3(3) by (simp add: is_digit_def)
  then show ?case using 3(1) [of "acc @ [port_of buf]"] 3(2,3) b by simp
qed simp

lemma parse_ports_bound:
  "length acc \<le> n \<Longrightarrow> (length acc = n \<longrightarrow> buf = []) \<Longrightarrow>
   length (fst (parse_ports n acc buf cs)) \<le> n \<and>
   (length (fst (parse_ports n acc buf cs)) = n \<longrightarrow> snd (parse_ports n acc buf cs) = [])"
  by (induction n acc buf cs rule: parse_ports.induct) (auto split: if_splits)

lemma init_allowed_ports_bound:
  assumes "length (pl_ports pl) \<le> MAX_ALLOWED_PORTS"
  shows "length (pl_ports (snd (init_allowed_ports str pl))) \<le> MAX_ALLOWED_PORTS"
proof -
  have "length (flush_ports (parse_ports MAX_ALLOWED_PORTS [] [] s)) \<le> MAX_ALLOWED_PORTS" for s
    using parse_ports_bound [of "[]" MAX_ALLOWED_PORTS "[]" s]
    by (auto simp: flush_ports_def MAX_ALLOWED_PORTS_def split: prod.splits)
  then show ?thesis
    using assms by (auto simp: init_allowed_ports_def split: option.splits)
qed

lemma comma_list_nonempty: "ps \<noteq> [] \<Longrightarrow> comma_list ps \<noteq> []"
  using dec_props by (cases ps rule: comma_list.cases) auto

lemma init_allowed_ports_list:
  assumes "\<forall>p \<in> set ps. p < 65536" "ps \<noteq> []" "length ps \<le> MAX_ALLOWED_PORTS"
    "\<not> pl_initialized pl"
  shows "init_allowed_ports (Some (comma_list ps)) pl =
    (0, \<lparr> pl_ports = map (\<lambda>p. word_of_nat (seen_port p)) ps, pl_initialized = True \<rparr>)"
  using parse_comma_list [of ps "[]" MAX_ALLOWED_PORTS] assms comma_list_nonempty [of ps]
  by (simp add: init_allowed_ports_def)

subsection \<open>Lemmas: decisions\<close>

text \<open>The ports of a unicast IPv4 frame of a protocol, where the code reads them.\<close>

definition ip_ports :: "byte list \<Rightarrow> byte \<Rightarrow> (u16 \<times> u16) option" where
  "ip_ports f proto = do {
     d0 \<leftarrow> byte_at f 0;
     ty \<leftarrow> be16_at f 12;
     pr \<leftarrow> byte_at f 23;
     b0 \<leftarrow> byte_at f 14;
     let h = 14 + unat (b0 AND 15) * 4;
     src \<leftarrow> be16_at f h;
     dst \<leftarrow> be16_at f (h + 2);
     if d0 AND 1 = 0 \<and> ty = ETHTYPE_IP \<and> pr = proto then Some (src, dst) else None }"

definition reserved :: "port_list \<Rightarrow> port_list \<Rightarrow> (u16 \<times> u16) option \<Rightarrow> bool" where
  "reserved ps pd x =
     (case x of None \<Rightarrow> False
      | Some (src, dst) \<Rightarrow> is_port_allowed src ps \<or> is_port_allowed dst pd)"

lemmas route_defs = nw_split_filter_and_route_packet_def route_tcp_def route_udp_def route_icmp_def

text \<open>The first two bytes of a TCP header are its source port.\<close>

lemma be16_bytes:
  assumes "be16_at f i = Some w"
  shows "\<exists>a b. byte_at f i = Some a \<and> byte_at f (i + 1) = Some b \<and>
    w = push_bit 8 (ucast a) OR ucast b"
  using assms by (auto simp: be16_at_def split: Option.bind_splits)

lemma be16_first_byte:
  assumes "be16_at f i = Some w"
  shows "byte_at f i = Some (ucast (drop_bit 8 w))"
proof -
  obtain a b where a: "byte_at f i = Some a" and w: "w = push_bit 8 (ucast a) OR ucast (b :: byte)"
    using be16_bytes [OF assms] by blast
  have "ucast (drop_bit 8 w) = a"
    unfolding w by (rule bit_word_eqI) (auto simp: bit_simps dest: bit_imp_le_length)
  then show ?thesis using a by simp
qed

lemma no_mqtt_wakeup:
  assumes "be16_at f h = Some MQTT_PORT" "host_mqtt_wakeup_triggered f h n = Some x"
  shows "\<not> x"
proof -
  have b: "h < length f" "f ! h = 7"
    using be16_first_byte [OF assms(1)] by (auto simp: byte_at_def MQTT_PORT_def split: if_splits)
  have "take (length WAKEUP_HOST_STRING) (drop h f) \<noteq> WAKEUP_HOST_STRING"
  proof
    assume "take (length WAKEUP_HOST_STRING) (drop h f) = WAKEUP_HOST_STRING"
    then have "take (length WAKEUP_HOST_STRING) (drop h f) ! 0 = WAKEUP_HOST_STRING ! 0" by simp
    then show False using b by (simp add: WAKEUP_HOST_STRING_def)
  qed
  then show ?thesis
    using assms(2)
    by (auto simp: host_mqtt_wakeup_triggered_def slice_at_def split: if_splits Option.bind_splits)
qed

lemma tcp_asleep:
  assumes "se_saving e" "\<And>w. se_tcph_flags e w < 4096" "route_tcp e f h r = Some (b, r')"
    "be16_at f h = Some src" "be16_at f (h + 2) = Some dst" "b = HOST_LWIP_BRIDGE \<or> b = BOTH_LWIP_BRIDGE"
    "b \<noteq> se_default e"
  shows "is_port_allowed src (rt_tcp_src r) \<or> is_port_allowed dst (rt_tcp_dst r)"
proof -
  have "drop_bit 12 (se_tcph_flags e w) = 0" for w
    using assms(2) [of w] by (simp add: drop_bit_eq_div word_less_nat_alt word_unat_eq_iff unat_div)
  then show ?thesis
    using assms no_mqtt_wakeup [of f h]
    by (auto simp: route_tcp_def Let_def split: if_splits Option.bind_splits prod.splits)
qed

lemma udp_asleep:
  assumes "se_saving e" "route_udp e f h r = Some (b, r')"
    "be16_at f h = Some src" "be16_at f (h + 2) = Some dst" "b = HOST_LWIP_BRIDGE \<or> b = BOTH_LWIP_BRIDGE"
    "b \<noteq> se_default e"
  shows "(is_port_allowed src (rt_udp_src r) \<or> is_port_allowed dst (rt_udp_dst r)) \<or>
    (b = BOTH_LWIP_BRIDGE \<and> dst = DHCP_CLIENT_PORT)"
  using assms by (auto simp: route_udp_def Let_def split: if_splits prod.splits)

text \<open>The ways a frame takes through the router.\<close>

lemma route_ports:
  assumes "nw_split_filter_and_route_packet e f r = Some (b, r')" "b \<noteq> SLAVE_LWIP_BRIDGE"
    "b \<noteq> se_default e" "se_saving e"
  shows "\<exists>h. (\<exists>src dst. route_tcp e f h r = Some (b, r') \<and> ip_ports f 6 = Some (src, dst) \<and>
        be16_at f h = Some src \<and> be16_at f (h + 2) = Some dst) \<or>
      (\<exists>src dst. route_udp e f h r = Some (b, r') \<and> ip_ports f 17 = Some (src, dst) \<and>
        be16_at f h = Some src \<and> be16_at f (h + 2) = Some dst)"
proof -
  obtain d0 ty where f: "byte_at f 0 = Some d0" "d0 AND 1 = 0" "be16_at f 12 = Some ty"
    using assms(1,2)
    by (auto simp: nw_split_filter_and_route_packet_def split: if_splits Option.bind_splits)
  have ip: "ty = ETHTYPE_IP"
    using assms f
    by (auto simp: nw_split_filter_and_route_packet_def split: if_splits Option.bind_splits)
  obtain pr b0 where p: "byte_at f 23 = Some pr" "byte_at f 14 = Some b0" "pr = 6 \<or> pr = 17 \<or> pr = 1"
    using assms f ip
    by (auto simp: nw_split_filter_and_route_packet_def split: if_splits Option.bind_splits)
  let ?h = "14 + unat (b0 AND 15) * 4"
  have n1: "pr \<noteq> 1"
    using assms f ip p
    by (auto simp: nw_split_filter_and_route_packet_def route_icmp_def split: if_splits Option.bind_splits)
  then consider "pr = 6" | "pr = 17" using p(3) by auto
  then show ?thesis
  proof cases
    case 1
    then have t: "route_tcp e f ?h r = Some (b, r')"
      using assms(1) f ip p by (simp add: nw_split_filter_and_route_packet_def)
    then obtain src dst where "be16_at f ?h = Some src" "be16_at f (?h + 2) = Some dst"
      by (auto simp: route_tcp_def split: Option.bind_splits)
    then show ?thesis using t f ip p 1 by (auto simp: ip_ports_def Let_def)
  next
    case 2
    then have t: "route_udp e f ?h r = Some (b, r')"
      using assms(1) f ip p by (simp add: nw_split_filter_and_route_packet_def)
    then obtain src dst where "be16_at f ?h = Some src" "be16_at f (?h + 2) = Some dst"
      by (auto simp: route_udp_def split: Option.bind_splits)
    then show ?thesis using t f ip p 2 by (auto simp: ip_ports_def Let_def)
  qed
qed

lemma asleep_only_reserved:
  assumes "se_saving e" "\<And>w. se_tcph_flags e w < 4096"
    "nw_split_filter_and_route_packet e f r = Some (b, r')"
    "b = HOST_LWIP_BRIDGE \<or> b = BOTH_LWIP_BRIDGE" "b \<noteq> se_default e"
  shows "reserved (rt_tcp_src r) (rt_tcp_dst r) (ip_ports f 6) \<or>
    reserved (rt_udp_src r) (rt_udp_dst r) (ip_ports f 17) \<or>
    (b = BOTH_LWIP_BRIDGE \<and> map_option snd (ip_ports f 17) = Some DHCP_CLIENT_PORT)"
proof -
  have ns: "b \<noteq> SLAVE_LWIP_BRIDGE" using assms(4) by auto
  obtain h where "(\<exists>src dst. route_tcp e f h r = Some (b, r') \<and> ip_ports f 6 = Some (src, dst) \<and>
        be16_at f h = Some src \<and> be16_at f (h + 2) = Some dst) \<or>
      (\<exists>src dst. route_udp e f h r = Some (b, r') \<and> ip_ports f 17 = Some (src, dst) \<and>
        be16_at f h = Some src \<and> be16_at f (h + 2) = Some dst)"
    using route_ports [OF assms(3) ns assms(5,1)] by blast
  then show ?thesis
  proof
    assume "\<exists>src dst. route_tcp e f h r = Some (b, r') \<and> ip_ports f 6 = Some (src, dst) \<and>
        be16_at f h = Some src \<and> be16_at f (h + 2) = Some dst"
    then show ?thesis using tcp_asleep [OF assms(1,2), of f h r b r'] assms(4,5)
      by (auto simp: reserved_def)
  next
    assume "\<exists>src dst. route_udp e f h r = Some (b, r') \<and> ip_ports f 17 = Some (src, dst) \<and>
        be16_at f h = Some src \<and> be16_at f (h + 2) = Some dst"
    then obtain src dst where u: "route_udp e f h r = Some (b, r')" "ip_ports f 17 = Some (src, dst)"
      "be16_at f h = Some src" "be16_at f (h + 2) = Some dst" by blast
    show ?thesis
      using udp_asleep [OF assms(1) u(1,3,4) assms(4,5)] u(2) by (auto simp: reserved_def)
  qed
qed

text \<open>Questions to the cache, each with its time and the sockets open then.\<close>

fun ask_ports :: "(u64 \<times> (u16 \<Rightarrow> bool)) list \<Rightarrow> u16 \<Rightarrow> port_cache \<Rightarrow> bool list" where
  "ask_ports [] port c = []"
| "ask_ports ((t, sockets) # qs) port c =
     (case is_local_port_open t sockets port c of (b, c1) \<Rightarrow> b # ask_ports qs port c1)"

fun close_together :: "u64 \<Rightarrow> (u64 \<times> (u16 \<Rightarrow> bool)) list \<Rightarrow> bool" where
  "close_together prev [] = True"
| "close_together prev ((t, _) # qs) =
     (drop_bit 10 t - prev < 1000 \<and> close_together (drop_bit 10 t) qs)"

text \<open>A cached answer renews itself: as long as the same port is asked for again within a second, every
  answer is the first one, whatever sockets were opened or closed in between.\<close>

lemma stale_answers:
  assumes "pc_last_port c = port" "close_together (pc_last_check_time c) qs"
  shows "ask_ports qs port c = replicate (length qs) (pc_last_result c)"
  using assms
proof (induction qs arbitrary: c)
  case (Cons q qs)
  obtain t sockets where q: "q = (t, sockets)" by (cases q)
  show ?case using Cons by (simp add: q is_local_port_open_def Let_def)
qed simp

subsection \<open>Properties\<close>

text \<open>The wake-up by an MQTT message never happens. A segment from the MQTT port to a port of
  the host is dropped while the host saves power, whatever it carries: \<open>TCPH_FLAGS\<close> is already
  masked to the flag bits, so the header length computed from its high bits is zero and the
  text is looked for in the TCP header.\<close>

theorem mqtt_message_never_wakes_host:
  assumes "se_saving e" "\<And>w. se_tcph_flags e w < 4096"
    "nw_split_filter_and_route_packet e f r = Some (b, r')"
    "ip_ports f 6 = Some (MQTT_PORT, dst)" "dst \<noteq> DEFAULT_IPERF_PORT" "in_range dst (se_remote_tcp e)"
    "\<not> reserved (rt_tcp_src r) (rt_tcp_dst r) (ip_ports f 6)"
  shows "b = INVALID_BRIDGE"
proof -
  have hl: "drop_bit 12 (se_tcph_flags e w) = 0" for w
    using assms(2) [of w] by (simp add: drop_bit_eq_div word_less_nat_alt word_unat_eq_iff unat_div)
  obtain d0 b0 h where f: "byte_at f 0 = Some d0" "d0 AND 1 = 0" "be16_at f 12 = Some ETHTYPE_IP"
    "byte_at f 23 = Some 6" "byte_at f 14 = Some b0" "h = 14 + unat (b0 AND 15) * 4"
    "be16_at f h = Some MQTT_PORT" "be16_at f (h + 2) = Some dst"
    using assms(4) by (auto simp: ip_ports_def Let_def split: Option.bind_splits if_splits)
  have t: "route_tcp e f h r = Some (b, r')"
    using assms(3) f by (simp add: nw_split_filter_and_route_packet_def)
  show ?thesis
    using t f(7,8) assms(1,4-7) hl no_mqtt_wakeup [OF f(7)]
    by (auto simp: route_tcp_def reserved_def split: Option.bind_splits if_splits)
qed

text \<open>A list of up to ten ports in decimal with commas is read as those ports, except that a
  port of five digits loses its last one: 10000 to 65535 are reserved as a tenth of themselves.\<close>

theorem five_digit_ports_truncated:
  assumes "\<forall>p \<in> set ps. p < 65536" "ps \<noteq> []" "length ps \<le> MAX_ALLOWED_PORTS"
    "\<not> pl_initialized pl"
  shows "init_allowed_ports (Some (comma_list ps)) pl =
    (0, \<lparr> pl_ports = map (\<lambda>p. word_of_nat (if p < 10000 then p else p div 10)) ps,
          pl_initialized = True \<rparr>)"
  using init_allowed_ports_list [OF assms] by (simp add: seen_port_def [abs_def])

subsection \<open>Concrete instances\<close>

text \<open>A TCP segment with the given ports and a window of 512 bytes, and a sleeping host with
  port 22 reserved.\<close>

definition demo_tcp :: "byte \<Rightarrow> byte \<Rightarrow> byte \<Rightarrow> byte \<Rightarrow> byte list" where
  "demo_tcp s1 s0 d1 d0 = replicate 12 0 @ [8, 0, 0x45] @ replicate 8 0 @ [6] @ replicate 10 0 @
     [s1, s0, d1, d0, 0, 0, 0, 0, 0, 0, 0, 0, 0x50, 0x18, 2, 0, 0, 0, 0, 0] @ WAKEUP_HOST_STRING"

definition demo_split :: split_env where
  "demo_split = \<lparr> se_default = SLAVE_LWIP_BRIDGE, se_remote_tcp = (49152, 61439),
     se_local_tcp = (61440, 65535), se_remote_udp = (49152, 61439), se_local_udp = (61440, 65535),
     se_saving = True, se_time_us = 0, se_tcp_listen = (\<lambda>_. False), se_udp_open = (\<lambda>_. False),
     se_tcph_flags = (\<lambda>w. w AND 0x3F) \<rparr>"

definition demo_router :: router where
  "demo_router = router_init\<lparr>rt_tcp_src := \<lparr> pl_ports = [22], pl_initialized = True \<rparr>\<rparr>"

lemma demo_split_flags: "se_tcph_flags demo_split w < 4096"
proof -
  have "se_tcph_flags demo_split w \<le> 0x3F" by (simp add: demo_split_def word_and_le1)
  then show ?thesis by (rule order.strict_trans1) simp
qed

lemma demo_split_saving: "se_saving demo_split"
  by (simp add: demo_split_def)

theorem mqtt_message_never_wakes_host_witness:
  "map_option fst (nw_split_filter_and_route_packet demo_split (demo_tcp 7 91 0xC0 0) demo_router) =
     Some INVALID_BRIDGE"
proof -
  have "nw_split_filter_and_route_packet demo_split (demo_tcp 7 91 0xC0 0) demo_router \<noteq> None"
    by code_simp
  then obtain b r' where r: "nw_split_filter_and_route_packet demo_split (demo_tcp 7 91 0xC0 0)
      demo_router = Some (b, r')" by auto
  have "b = INVALID_BRIDGE"
    by (rule mqtt_message_never_wakes_host [OF demo_split_saving demo_split_flags r, of "0xC000"];
        code_simp)
  then show ?thesis using r by simp
qed

theorem five_digit_ports_truncated_witness:
  "init_allowed_ports (Some (comma_list [22, 12345])) \<lparr> pl_ports = [], pl_initialized = False \<rparr> =
    (0, \<lparr> pl_ports = map (\<lambda>p. word_of_nat (if p < 10000 then p else p div 10)) [22, 12345],
          pl_initialized = True \<rparr>)"
  by (rule five_digit_ports_truncated) (simp_all add: MAX_ALLOWED_PORTS_def)


end
