(* ===== verification/Host_Power.thy ===== *)
theory Host_Power
  imports Serial_Slave
begin

section \<open>Power save of the host (host_power_save.c)\<close>

text \<open>
  The co-processor's view of a sleeping host: configuration and callbacks, the alert that enters
  and leaves power save, the decision which packets are worth a wake-up, and the wake-up loop
  that raises a GPIO until the host gives the wake-up semaphore. Power save is allowed by the
  build (\<open>H_HOST_PS_ALLOWED\<close>); \<open>deep\<close> is \<open>H_HOST_PS_DEEP_SLEEP_ALLOWED\<close>. Dereferencing the null
  \<open>if_handle\<close> and waiting for ever on the semaphore are the outcomes \<open>Hp_null\<close> and \<open>Hp_blocked\<close>.
\<close>

subsection \<open>State\<close>

datatype if_state = DEINIT | DEACTIVE | ACTIVE

datatype ps_cb = On_prepare | On_ready | Off_prepare | Off_ready

text \<open>
  \<open>hp_cbs\<close> are the callbacks that are set, \<open>hp_called\<close> the calls made so far; \<open>hp_sem\<close> is the binary
  semaphore (\<open>None\<close> before it is created), \<open>hp_if\<close> the state behind \<open>if_handle\<close> (\<open>None\<close> when null)
  and \<open>hp_gpio_on\<close> whether the wake-up line is at its active level.
\<close>

record hps =
  hp_enable :: bool
  hp_gpio :: int
  hp_cbs :: "ps_cb \<Rightarrow> bool"
  hp_saving :: bool
  hp_sem :: "bool option"
  hp_if :: "if_state option"
  hp_gpio_on :: bool
  hp_called :: "ps_cb list"

record hps_config =
  hc_enable :: bool
  hc_gpio :: int
  hc_cbs :: "ps_cb \<Rightarrow> bool"

datatype hp_out = Hp_ret int hps | Hp_null | Hp_blocked | Hp_abort

definition is_host_power_saving :: "hps \<Rightarrow> bool" where
  "is_host_power_saving s = hp_saving s"

definition call_cb :: "ps_cb \<Rightarrow> hps \<Rightarrow> hps" where
  "call_cb c s = (if hp_cbs s c then s\<lparr>hp_called := hp_called s @ [c]\<rparr> else s)"

subsection \<open>Which packets wake the host\<close>

definition ESP_TEST_IF :: u8 where "ESP_TEST_IF = 6"

definition is_host_wakeup_needed :: "bool \<Rightarrow> ibuf \<Rightarrow> bool" where
  "is_host_wakeup_needed null ib =
     (\<not> null \<and> ib_if_type ib \<in> {ESP_SERIAL_IF, ESP_HCI_IF, ESP_PRIV_IF, ESP_TEST_IF, ESP_STA_IF,
        ESP_AP_IF})"

subsection \<open>Set-up\<close>

text \<open>The results of \<open>gpio_config\<close> and of setting the pull.\<close>

definition configure_host_wakeup_gpio :: "esp_err \<Rightarrow> esp_err \<Rightarrow> esp_err" where
  "configure_host_wakeup_gpio r_config r_pull = (if r_config \<noteq> ESP_OK then r_config else r_pull)"

definition host_power_save_init ::
  "bool \<Rightarrow> int \<Rightarrow> esp_err \<Rightarrow> esp_err \<Rightarrow> hps_config option \<Rightarrow> hps \<Rightarrow> hp_out" where
  "host_power_save_init deep def_gpio r_config r_pull cfg s =
     (let s1 = (case cfg of
                  Some c \<Rightarrow> s\<lparr>hp_enable := hc_enable c, hp_gpio := hc_gpio c, hp_cbs := hc_cbs c\<rparr>
                | None \<Rightarrow> s\<lparr>hp_enable := True, hp_gpio := def_gpio, hp_cbs := (\<lambda>_. False)\<rparr>)
      in if \<not> hp_enable s1 then Hp_ret ESP_OK s1
         else if \<not> deep then Hp_ret ESP_OK s1
         else if hp_gpio s1 = -1 then Hp_abort
         else let ret = configure_host_wakeup_gpio r_config r_pull in
           if ret \<noteq> ESP_OK then Hp_ret ret s1
           else let s2 = s1\<lparr>hp_gpio_on := False\<rparr> in
             Hp_ret ret (if hp_sem s2 = None then s2\<lparr>hp_sem := Some True\<rparr> else s2))"

definition host_power_save_deinit :: "bool \<Rightarrow> hps \<Rightarrow> hp_out" where
  "host_power_save_deinit deep s =
     (if deep \<and> hp_sem s = Some False then Hp_blocked
      else Hp_ret 0 ((if deep then s\<lparr>hp_sem := None\<rparr> else s)\<lparr>hp_cbs := (\<lambda>_. False)\<rparr>))"

definition host_power_save_set_callbacks :: "(ps_cb \<Rightarrow> bool) option \<Rightarrow> hps \<Rightarrow> int \<times> hps" where
  "host_power_save_set_callbacks new s =
     (case new of None \<Rightarrow> (-1, s) | Some c \<Rightarrow> (0, s\<lparr>hp_cbs := c\<rparr>))"

subsection \<open>Entering and leaving power save\<close>

text \<open>
  \<open>ops_deinit\<close> says whether the driver has a \<open>deinit\<close> operation, \<open>ctx\<close> whether \<open>if_context\<close> is set.
  On entry the missing interface is reported and then dereferenced all the same; on leaving it
  is dereferenced by the log line.
\<close>

datatype ps_evt = PS_ON | PS_OFF | PS_OPEN_DATA_PATH | PS_OTHER

definition host_power_save_alert :: "bool \<Rightarrow> bool \<Rightarrow> ps_evt \<Rightarrow> hps \<Rightarrow> hp_out" where
  "host_power_save_alert deep ops_deinit evt s =
     (if \<not> hp_enable s then Hp_ret 0 s
      else case evt of
        PS_ON \<Rightarrow>
          (let s1 = call_cb On_prepare s;
               s2 = (if deep then s1\<lparr>hp_sem := map_option (\<lambda>_. False) (hp_sem s1)\<rparr> else s1);
               s3 = s2\<lparr>hp_saving := True\<rparr>
           in case hp_if s3 of
                None \<Rightarrow> Hp_null
              | Some st \<Rightarrow>
                  Hp_ret 0 (call_cb On_ready
                    (if st \<noteq> DEINIT \<and> ops_deinit then s3\<lparr>hp_if := Some DEINIT\<rparr> else s3)))
      | PS_OTHER \<Rightarrow> Hp_ret 0 s
      | _ \<Rightarrow>
          (if hp_if s = None then Hp_null
           else let s1 = (call_cb Off_prepare s)\<lparr>hp_saving := False\<rparr>;
                    s2 = (if deep then s1\<lparr>hp_sem := map_option (\<lambda>_. True) (hp_sem s1)\<rparr> else s1)
                in Hp_ret 0 (call_cb Off_ready s2)))"

subsection \<open>Waking the host\<close>

text \<open>
  One round of the wake-up loop: whether the timer could be created and started, whether the
  semaphore came within its 100 ms, and the clock in microseconds at the end of the round. The
  macro \<open>GET_CURR_TIME_IN_MS\<close> divides by 100. The loop need not end, so it is a partial function;
  its result is whether the host answered.
\<close>

record wake_round =
  wr_create :: bool
  wr_start :: bool
  wr_sem :: bool
  wr_now_us :: nat

definition GET_CURR_TIME_IN_MS :: "nat \<Rightarrow> nat" where
  "GET_CURR_TIME_IN_MS us = us div 100"

partial_function (option) wake_loop :: "(nat \<Rightarrow> wake_round) \<Rightarrow> nat \<Rightarrow> nat \<Rightarrow> bool \<Rightarrow> nat \<Rightarrow> bool option" where
  "wake_loop rd start timeout timer k =
     (if \<not> timer \<and> \<not> wr_create (rd k) then Some False
      else if \<not> wr_start (rd k) then Some False
      else if wr_sem (rd k) then Some True
      else if timeout < GET_CURR_TIME_IN_MS (wr_now_us (rd k)) - start then Some False
      else wake_loop rd start timeout True (Suc k))"

definition trigger_host_wakeup :: "(nat \<Rightarrow> wake_round) \<Rightarrow> nat \<Rightarrow> nat \<Rightarrow> bool option" where
  "trigger_host_wakeup rd start_us timeout =
     wake_loop rd (GET_CURR_TIME_IN_MS start_us) timeout False 0"

definition wakeup_host_mandate ::
  "bool \<Rightarrow> esp_err \<Rightarrow> esp_err \<Rightarrow> (nat \<Rightarrow> wake_round) \<Rightarrow> nat \<Rightarrow> nat \<Rightarrow> int option" where
  "wakeup_host_mandate deep r_config r_pull rd start_us timeout =
     (if \<not> deep then Some 1
      else let ret = configure_host_wakeup_gpio r_config r_pull in
        if ret \<noteq> ESP_OK then Some ret
        else map_option of_bool (trigger_host_wakeup rd start_us timeout))"

text \<open>\<open>reinit\<close> is what the driver's \<open>init\<close> gives: the new handle's state, or null.\<close>

definition wakeup_host ::
  "bool \<Rightarrow> if_state option \<Rightarrow> (nat \<Rightarrow> wake_round) \<Rightarrow> nat \<Rightarrow> nat \<Rightarrow> hps \<Rightarrow> (int \<times> hps) option" where
  "wakeup_host ctx reinit rd start_us timeout s =
     (if \<not> hp_saving s then Some (1, s)
      else if \<not> hp_enable s then Some (1, s)
      else case hp_if s of
        None \<Rightarrow> Some (0, s)
      | Some st \<Rightarrow>
          if \<not> ctx then Some (0, s)
          else let s1 = (if st = DEINIT then s\<lparr>hp_if := reinit\<rparr> else s) in
            if hp_if s1 = None then Some (ESP_FAIL, s1)
            else map_option (\<lambda>b. (of_bool b, s1)) (trigger_host_wakeup rd start_us timeout))"

text \<open>What the packet path asks of this component, for one packet.\<close>

definition pm_of :: "(ibuf \<Rightarrow> bool) \<Rightarrow> int \<Rightarrow> hps \<Rightarrow> pm_env" where
  "pm_of null woken s = \<lparr> pm_saving = is_host_power_saving s,
     pm_wakeup_needed = (\<lambda>ib. is_host_wakeup_needed (null ib) ib), pm_wakeup_host = (woken \<noteq> 0) \<rparr>"

subsection \<open>Lemmas: the wake-up loop\<close>

lemma wake_round_on:
  assumes "timer \<or> wr_create (rd k)" "wr_start (rd k)" "\<not> wr_sem (rd k)"
    "GET_CURR_TIME_IN_MS (wr_now_us (rd k)) - start \<le> timeout"
  shows "wake_loop rd start timeout timer k = wake_loop rd start timeout True (Suc k)"
  by (subst wake_loop.simps) (use assms in auto)

lemma wake_round_end:
  assumes "timer \<or> wr_create (rd k)" "wr_start (rd k)"
    "wr_sem (rd k) \<or> timeout < GET_CURR_TIME_IN_MS (wr_now_us (rd k)) - start"
  shows "wake_loop rd start timeout timer k = Some (wr_sem (rd k))"
  by (subst wake_loop.simps) (use assms in auto)

text \<open>A round is the last one if the host answers in it or the clock has passed the limit.\<close>

definition last_round :: "(nat \<Rightarrow> wake_round) \<Rightarrow> nat \<Rightarrow> nat \<Rightarrow> nat \<Rightarrow> bool" where
  "last_round rd start timeout k \<longleftrightarrow>
     wr_sem (rd k) \<or> timeout < GET_CURR_TIME_IN_MS (wr_now_us (rd k)) - start"

lemma wake_loop_until:
  assumes "last_round rd start timeout (k + n)" "\<forall>j < n. \<not> last_round rd start timeout (k + j)"
    "timer \<or> wr_create (rd k)" "\<And>j. wr_start (rd j)"
  shows "wake_loop rd start timeout timer k = Some (wr_sem (rd (k + n)))"
  using assms
proof (induction n arbitrary: k timer)
  case 0
  then show ?case using wake_round_end [of timer rd k timeout start] by (simp add: last_round_def)
next
  case (Suc n)
  have "\<not> last_round rd start timeout k" using Suc.prems(2) by force
  then have "wake_loop rd start timeout timer k = wake_loop rd start timeout True (Suc k)"
    using Suc.prems(3,4) by (intro wake_round_on) (auto simp: last_round_def)
  also have "\<dots> = Some (wr_sem (rd (Suc k + n)))"
    using Suc.prems by (intro Suc.IH) force+
  finally show ?case by simp
qed

lemma clock_passes:
  assumes "0 < d" "\<And>k. start_us + Suc k * d \<le> wr_now_us (rd k)"
  shows "\<exists>k. last_round rd (GET_CURR_TIME_IN_MS start_us) timeout k"
proof -
  let ?k = "100 * (timeout + 2)"
  define m where "m = Suc ?k * d"
  have "Suc ?k * 1 \<le> m" unfolding m_def by (rule mult_le_mono) (use assms(1) in auto)
  moreover have "start_us + m \<le> wr_now_us (rd ?k)" unfolding m_def by (rule assms(2))
  ultimately have "start_us + 100 * (timeout + 2) \<le> wr_now_us (rd ?k)" by simp
  then have "(start_us + 100 * (timeout + 2)) div 100 \<le> GET_CURR_TIME_IN_MS (wr_now_us (rd ?k))"
    unfolding GET_CURR_TIME_IN_MS_def by (rule div_le_mono)
  then show ?thesis by (intro exI [of _ ?k]) (auto simp: last_round_def GET_CURR_TIME_IN_MS_def)
qed

subsection \<open>Steps of the state\<close>

text \<open>
  What happens to the state over time with deep sleep allowed: alerts, configuration, and the
  interface coming and going. Setting up again while the host sleeps and the semaphore was deleted
  is no step here: it would create the semaphore given (\<open>init_while_asleep\<close>).
\<close>

inductive hp_step :: "hps \<Rightarrow> hps \<Rightarrow> bool" where
  hp_alert: "host_power_save_alert True ops_deinit evt s = Hp_ret r s' \<Longrightarrow> hp_step s s'"
| hp_init: "\<not> hp_saving s \<or> hp_sem s \<noteq> None \<Longrightarrow>
    host_power_save_init True g rc rp cfg s = Hp_ret r s' \<Longrightarrow> hp_step s s'"
| hp_deinit: "host_power_save_deinit True s = Hp_ret r s' \<Longrightarrow> hp_step s s'"
| hp_set_cbs: "host_power_save_set_callbacks new s = (r, s') \<Longrightarrow> hp_step s s'"
| hp_wakeup: "wakeup_host ctx reinit rd t timeout s = Some (r, s') \<Longrightarrow> hp_step s s'"

definition hps_start :: hps where
  "hps_start = \<lparr> hp_enable = False, hp_gpio = -1, hp_cbs = (\<lambda>_. False), hp_saving = False,
     hp_sem = None, hp_if = None, hp_gpio_on = False, hp_called = [] \<rparr>"

inductive hp_reachable :: "hps \<Rightarrow> bool" where
  hp_reach_start: "hp_reachable (hps_start\<lparr>hp_if := x\<rparr>)"
| hp_reach_step: "hp_reachable s \<Longrightarrow> hp_step s s' \<Longrightarrow> hp_reachable s'"

definition hp_ok :: "hps \<Rightarrow> bool" where
  "hp_ok s \<longleftrightarrow> (case hp_sem s of None \<Rightarrow> True | Some b \<Rightarrow> b \<longleftrightarrow> \<not> hp_saving s)"

lemma call_cb_simps [simp]:
  "hp_sem (call_cb c s) = hp_sem s" "hp_saving (call_cb c s) = hp_saving s"
  "hp_if (call_cb c s) = hp_if s" "hp_enable (call_cb c s) = hp_enable s"
  by (simp_all add: call_cb_def)

lemma hp_ok_alert: "hp_ok s \<Longrightarrow> host_power_save_alert True od evt s = Hp_ret r s' \<Longrightarrow> hp_ok s'"
  by (auto simp: host_power_save_alert_def hp_ok_def Let_def
      split: if_splits ps_evt.splits option.splits)

lemma hp_ok_init:
  "hp_ok s \<Longrightarrow> \<not> hp_saving s \<or> hp_sem s \<noteq> None \<Longrightarrow>
   host_power_save_init True g rc rp cfg s = Hp_ret r s' \<Longrightarrow> hp_ok s'"
  by (auto simp: host_power_save_init_def hp_ok_def Let_def split: if_splits option.splits)

lemma hp_ok_step: "hp_step s s' \<Longrightarrow> hp_ok s \<Longrightarrow> hp_ok s'"
proof (induction rule: hp_step.induct)
  case (hp_alert od evt s r s')
  then show ?case using hp_ok_alert by blast
next
  case (hp_init s g rc rp cfg r s')
  then show ?case using hp_ok_init by blast
next
  case (hp_deinit s r s')
  then show ?case by (auto simp: host_power_save_deinit_def hp_ok_def split: if_splits)
next
  case (hp_set_cbs new s r s')
  then show ?case by (auto simp: host_power_save_set_callbacks_def hp_ok_def split: option.splits)
next
  case (hp_wakeup ctx reinit rd t timeout s r s')
  then show ?case
    by (auto simp: wakeup_host_def hp_ok_def Let_def split: if_splits option.splits)
qed

lemma hp_ok_reachable: "hp_reachable s \<Longrightarrow> hp_ok s"
proof (induction rule: hp_reachable.induct)
  case (hp_reach_start x)
  then show ?case by (simp add: hp_ok_def hps_start_def)
next
  case (hp_reach_step s s')
  then show ?case by (blast intro: hp_ok_step)
qed

lemma init_while_asleep:
  assumes "hp_saving s" "hp_sem s = None" "g \<noteq> -1"
  shows "\<exists>s'. host_power_save_init True g ESP_OK ESP_OK None s = Hp_ret ESP_OK s' \<and> \<not> hp_ok s'"
  using assms
  by (simp add: host_power_save_init_def configure_host_wakeup_gpio_def Let_def hp_ok_def)

text \<open>An alert without an interface handle is not survived, on entering or leaving power save.\<close>

lemma alert_without_interface:
  assumes "hp_enable s" "hp_if s = None" "evt \<noteq> PS_OTHER"
  shows "host_power_save_alert deep od evt s = Hp_null"
  using assms by (cases evt) (auto simp: host_power_save_alert_def Let_def)

subsection \<open>Properties\<close>

text \<open>Whatever alerts, set-ups, shutdowns and wake-ups happen, while the wake-up semaphore
  exists it is available exactly when the host is not in power save.\<close>

theorem wakeup_semaphore_mirrors_power_save:
  assumes "hp_reachable s" "hp_sem s = Some b"
  shows "b \<longleftrightarrow> \<not> hp_saving s"
  using hp_ok_reachable [OF assms(1)] assms(2) by (simp add: hp_ok_def)

text \<open>C33: When the timer works and every round of the wake-up loop takes time, the loop ends; it
  reports success exactly if the host answered in the last round, and it goes on only while the
  clock is at most \<open>timeout_ms / 10\<close> milliseconds (and one tenth) past its start, since the clock
  is divided by 100 and compared with milliseconds: a host that answers later is given up.\<close>

theorem wakeup_loop_ends_at_a_tenth:
  assumes "wr_create (rd 0)" "\<And>k. wr_start (rd k)" "0 < d"
    "\<And>k. start_us + Suc k * d \<le> wr_now_us (rd k)"
  shows "\<exists>k. trigger_host_wakeup rd start_us timeout = Some (wr_sem (rd k)) \<and>
    (\<forall>j < k. \<not> wr_sem (rd j) \<and> wr_now_us (rd j) < start_us + 100 * (timeout + 2)) \<and>
    (wr_sem (rd k) \<or> start_us + 100 * timeout < wr_now_us (rd k))"
proof -
  let ?last = "last_round rd (GET_CURR_TIME_IN_MS start_us) timeout"
  obtain k0 where "?last k0" using clock_passes [OF assms(3,4)] by blast
  then obtain k where k: "?last k" "\<forall>j < k. \<not> ?last j"
    using exists_least_iff [of ?last] by blast
  then have "trigger_host_wakeup rd start_us timeout = Some (wr_sem (rd k))"
    using wake_loop_until [of rd "GET_CURR_TIME_IN_MS start_us" timeout 0 k False] assms(1,2)
    by (simp add: trigger_host_wakeup_def)
  moreover have "\<not> wr_sem (rd j) \<and> wr_now_us (rd j) < start_us + 100 * (timeout + 2)" if "j < k" for j
    using k(2) that by (auto simp: last_round_def GET_CURR_TIME_IN_MS_def)
  moreover have "wr_sem (rd k) \<or> start_us + 100 * timeout < wr_now_us (rd k)"
    using k(1) by (auto simp: last_round_def GET_CURR_TIME_IN_MS_def)
  ultimately show ?thesis by blast
qed

subsection \<open>Concrete instances\<close>

theorem wakeup_semaphore_mirrors_power_save_witness:
  "hp_sem (hps_start\<lparr>hp_if := Some ACTIVE, hp_enable := True, hp_gpio := 5, hp_sem := Some True\<rparr>) =
     Some True \<and>
   (True \<longleftrightarrow> \<not> hp_saving (hps_start\<lparr>hp_if := Some ACTIVE, hp_enable := True, hp_gpio := 5,
      hp_sem := Some True\<rparr>))"
proof -
  let ?s = "hps_start\<lparr>hp_if := Some ACTIVE, hp_enable := True, hp_gpio := 5, hp_sem := Some True\<rparr>"
  have "host_power_save_init True 5 ESP_OK ESP_OK None (hps_start\<lparr>hp_if := Some ACTIVE\<rparr>) = Hp_ret ESP_OK ?s"
    by (simp add: host_power_save_init_def hps_start_def configure_host_wakeup_gpio_def)
  then have "hp_step (hps_start\<lparr>hp_if := Some ACTIVE\<rparr>) ?s"
    by (rule hp_init [rotated]) (simp add: hps_start_def)
  then have r: "hp_reachable ?s" by (rule hp_reach_step [OF hp_reach_start])
  show ?thesis using wakeup_semaphore_mirrors_power_save [OF r, of True] by simp
qed

theorem wakeup_loop_ends_at_a_tenth_witness:
  "\<exists>k. trigger_host_wakeup (\<lambda>k. \<lparr> wr_create = True, wr_start = True, wr_sem = (k = 3),
        wr_now_us = 200000 * Suc k \<rparr>) 0 5000 =
      Some (wr_sem \<lparr> wr_create = True, wr_start = True, wr_sem = (k = 3), wr_now_us = 200000 * Suc k \<rparr>)"
proof -
  let ?rd = "\<lambda>k. \<lparr> wr_create = True, wr_start = True, wr_sem = (k = 3), wr_now_us = 200000 * Suc k \<rparr>"
  have "wr_create (?rd 0)" "\<And>k. wr_start (?rd k)" "(0 :: nat) < 200000"
    "\<And>k. 0 + Suc k * 200000 \<le> wr_now_us (?rd k)"
    by simp_all
  from wakeup_loop_ends_at_a_tenth [of ?rd, OF this, of 5000] show ?thesis by blast
qed

end
