(* ===== verification/Startup.thy ===== *)
theory Startup
  imports Transport_Frame
begin

section \<open>Start-up handshake (generate_startup_event, transport_drv.c, host_to_slave_reconfig)\<close>

text \<open>
  After a reset the co-processor sends one private event that describes it, and the host answers
  with one that configures it. Both are lists of tag, length and value bytes. The co-processor's
  side is \<open>generate_startup_event\<close> of its four bus drivers and \<open>host_to_slave_reconfig\<close>; the host's is
  \<open>process_init_event\<close> and \<open>send_slave_config\<close>. The two readers walk the bytes with a length
  counter of eight bits that they never compare with the end; a read behind the buffer is the
  outcome \<open>Tlv_oob\<close>, a failed \<open>assert\<close> is \<open>Tlv_abort\<close>. Raw throughput tests are not built in.
\<close>

subsection \<open>Tags\<close>

definition ESP_PACKET_TYPE_EVENT :: u8 where "ESP_PACKET_TYPE_EVENT = 0x33"
definition ESP_PRIV_EVENT_INIT :: byte where "ESP_PRIV_EVENT_INIT = 0x22"

definition ESP_PRIV_CAPABILITY :: byte where "ESP_PRIV_CAPABILITY = 0x11"
definition ESP_PRIV_FIRMWARE_CHIP_ID :: byte where "ESP_PRIV_FIRMWARE_CHIP_ID = 0x12"
definition ESP_PRIV_TEST_RAW_TP :: byte where "ESP_PRIV_TEST_RAW_TP = 0x13"
definition ESP_PRIV_RX_Q_SIZE :: byte where "ESP_PRIV_RX_Q_SIZE = 0x14"
definition ESP_PRIV_TX_Q_SIZE :: byte where "ESP_PRIV_TX_Q_SIZE = 0x15"
definition ESP_PRIV_CAP_EXT :: byte where "ESP_PRIV_CAP_EXT = 0x16"
definition ESP_PRIV_FIRMWARE_VERSION :: byte where "ESP_PRIV_FIRMWARE_VERSION = 0x17"
definition ESP_PRIV_TRANS_SDIO_MODE :: byte where "ESP_PRIV_TRANS_SDIO_MODE = 0x18"

definition HOST_CAPABILITIES :: byte where "HOST_CAPABILITIES = 0x44"
definition RCVD_ESP_FIRMWARE_CHIP_ID :: byte where "RCVD_ESP_FIRMWARE_CHIP_ID = 0x45"
definition SLV_CONFIG_TEST_RAW_TP :: byte where "SLV_CONFIG_TEST_RAW_TP = 0x46"
definition SLV_CONFIG_THROTTLE_HIGH_THRESHOLD :: byte where "SLV_CONFIG_THROTTLE_HIGH_THRESHOLD = 0x47"
definition SLV_CONFIG_THROTTLE_LOW_THRESHOLD :: byte where "SLV_CONFIG_THROTTLE_LOW_THRESHOLD = 0x48"

lemmas priv_tags = ESP_PRIV_CAPABILITY_def ESP_PRIV_FIRMWARE_CHIP_ID_def ESP_PRIV_TEST_RAW_TP_def
  ESP_PRIV_RX_Q_SIZE_def ESP_PRIV_TX_Q_SIZE_def ESP_PRIV_CAP_EXT_def ESP_PRIV_FIRMWARE_VERSION_def
  ESP_PRIV_TRANS_SDIO_MODE_def
lemmas config_tags = HOST_CAPABILITIES_def RCVD_ESP_FIRMWARE_CHIP_ID_def SLV_CONFIG_TEST_RAW_TP_def
  SLV_CONFIG_THROTTLE_HIGH_THRESHOLD_def SLV_CONFIG_THROTTLE_LOW_THRESHOLD_def

subsection \<open>The walk over tags and values\<close>

datatype 's tlv_out = Tlv_done 's | Tlv_oob | Tlv_abort

text \<open>
  The loop of both readers: \<open>buf\<close> is the memory from the start of the event's data to the end of its
  block, \<open>left\<close> the 8-bit counter. The tag's length is read before the tag is looked at.
\<close>

function tlv_walk ::
  "(byte list \<Rightarrow> nat \<Rightarrow> 's \<Rightarrow> 's tlv_out) \<Rightarrow> byte list \<Rightarrow> nat \<Rightarrow> u8 \<Rightarrow> 's \<Rightarrow> 's tlv_out" where
  "tlv_walk f buf pos left s =
     (if left = 0 then Tlv_done s
      else if length buf \<le> pos + 1 then Tlv_oob
      else case f buf pos s of
          Tlv_done s1 \<Rightarrow> tlv_walk f buf (pos + (unat (buf ! (pos + 1)) + 2))
                                 (left - (buf ! (pos + 1) + 2)) s1
        | Tlv_oob \<Rightarrow> Tlv_oob
        | Tlv_abort \<Rightarrow> Tlv_abort)"
  by pat_completeness auto
termination by (relation "measure (\<lambda>(_, buf, pos, _, _). length buf - pos)") auto

declare tlv_walk.simps [simp del]

text \<open>Reading one byte, or four as a little-endian number.\<close>

definition need :: "byte list \<Rightarrow> nat \<Rightarrow> (byte \<Rightarrow> 's tlv_out) \<Rightarrow> 's tlv_out" where
  "need b i k = (if i < length b then k (b ! i) else Tlv_oob)"

definition need4 :: "byte list \<Rightarrow> nat \<Rightarrow> (byte list \<Rightarrow> 's tlv_out) \<Rightarrow> 's tlv_out" where
  "need4 b i k = (if i + 4 \<le> length b then k (take 4 (drop i b)) else Tlv_oob)"

subsection \<open>Co-processor: the configuration from the host\<close>

record slv_cfg =
  throttle_high_threshold :: u8
  throttle_low_threshold :: u8

definition slave_tlv :: "byte list \<Rightarrow> nat \<Rightarrow> slv_cfg \<Rightarrow> slv_cfg tlv_out" where
  "slave_tlv b p s =
     (let t = b ! p in
      if t = HOST_CAPABILITIES then Tlv_done s
      else if t = RCVD_ESP_FIRMWARE_CHIP_ID then need b (p + 2) (\<lambda>_. Tlv_done s)
      else if t = SLV_CONFIG_TEST_RAW_TP then need b (p + 2) (\<lambda>_. Tlv_done s)
      else if t = SLV_CONFIG_THROTTLE_HIGH_THRESHOLD then
        need b (p + 2) (\<lambda>v. Tlv_done (s\<lparr>throttle_high_threshold := v\<rparr>))
      else if t = SLV_CONFIG_THROTTLE_LOW_THRESHOLD then
        need b (p + 2) (\<lambda>v. Tlv_done (s\<lparr>throttle_low_threshold := v\<rparr>))
      else Tlv_done s)"

definition with_result :: "int \<Rightarrow> 's tlv_out \<Rightarrow> (int \<times> 's) tlv_out" where
  "with_result r x = (case x of Tlv_done s \<Rightarrow> Tlv_done (r, s) | Tlv_oob \<Rightarrow> Tlv_oob | Tlv_abort \<Rightarrow> Tlv_abort)"

definition host_to_slave_reconfig ::
  "byte list option \<Rightarrow> u16 \<Rightarrow> slv_cfg \<Rightarrow> (int \<times> slv_cfg) tlv_out" where
  "host_to_slave_reconfig evt len s =
     (case evt of
        None \<Rightarrow> Tlv_done (ESP_FAIL, s)
      | Some b \<Rightarrow>
          if 64 < len then Tlv_abort
          else with_result ESP_OK (tlv_walk slave_tlv b 0 (ucast len) s))"

text \<open>\<open>payload\<close> reaches to the end of the receive buffer, \<open>payload_len\<close> is the length in the header.\<close>

definition process_priv_pkt :: "byte list \<Rightarrow> u16 \<Rightarrow> slv_cfg \<Rightarrow> slv_cfg tlv_out" where
  "process_priv_pkt payload payload_len s =
     (if payload_len = 0 then Tlv_done s
      else need payload 0 (\<lambda>ty.
        if ty = ESP_PRIV_EVENT_INIT then need payload 1 (\<lambda>n.
          case host_to_slave_reconfig (Some (drop 2 payload)) (ucast n) s of
            Tlv_done (_, s1) \<Rightarrow> Tlv_done s1 | Tlv_oob \<Rightarrow> Tlv_oob | Tlv_abort \<Rightarrow> Tlv_abort)
        else Tlv_done s))"

subsection \<open>Co-processor: the start-up event\<close>

text \<open>
  What the event reports: chip, firmware version, SDIO mode, queue sizes and raw-throughput setting,
  and whether the build adds a checksum.
\<close>

record startup_env =
  su_chip :: byte
  su_fw :: u32
  su_streaming :: bool
  su_raw_tp :: byte
  su_tx_q :: byte
  su_rx_q :: byte
  su_chk :: bool

definition ESP_HOSTED_VERSION_VAL :: "u32 \<Rightarrow> u32 \<Rightarrow> u32 \<Rightarrow> u32" where
  "ESP_HOSTED_VERSION_VAL major minor patch = push_bit 16 major OR push_bit 8 minor OR patch"

text \<open>The event's type, length and data, and the frame around it.\<close>

definition priv_event :: "byte list \<Rightarrow> byte list" where
  "priv_event tlvs = [ESP_PRIV_EVENT_INIT, word_of_nat (length tlvs)] @ tlvs"

definition startup_frame :: "bool \<Rightarrow> byte list \<Rightarrow> byte list" where
  "startup_frame chk tlvs =
     (let e = priv_event tlvs;
          f = put_header \<lparr> h_if_type = ESP_PRIV_IF, h_if_num = 0, h_flags = 0,
                h_len = word_of_nat (length e), h_offset = word_of_nat HDR, h_checksum = 0,
                h_seq_num = 0, h_throttle_cmd = 0, h_pkt_type = ESP_PACKET_TYPE_EVENT \<rparr> @ e
      in if chk then set_checksum (compute_checksum f (HDR + length e)) f else f)"

definition pad4 :: "byte list \<Rightarrow> byte list" where
  "pad4 f = (if length f mod 4 \<noteq> 0 then f @ replicate (4 - length f mod 4) 0 else f)"

definition sdio_startup_event :: "startup_env \<Rightarrow> byte \<Rightarrow> u32 \<Rightarrow> byte list" where
  "sdio_startup_event e cap ext_cap = startup_frame (su_chk e) (
     [ESP_PRIV_FIRMWARE_CHIP_ID, 1, su_chip e] @
     [ESP_PRIV_TRANS_SDIO_MODE, 1, of_bool (su_streaming e)] @
     [ESP_PRIV_CAPABILITY, 1, cap] @
     [ESP_PRIV_TEST_RAW_TP, 1, su_raw_tp e] @
     [ESP_PRIV_TX_Q_SIZE, 1, su_tx_q e] @
     [ESP_PRIV_RX_Q_SIZE, 1, su_rx_q e] @
     [ESP_PRIV_FIRMWARE_VERSION, 4] @ le_put 4 (su_fw e))"

definition spi_startup_event :: "startup_env \<Rightarrow> byte \<Rightarrow> u32 \<Rightarrow> byte list" where
  "spi_startup_event e cap ext_cap = pad4 (startup_frame (su_chk e) (
     [ESP_PRIV_FIRMWARE_CHIP_ID, 1, su_chip e] @
     [ESP_PRIV_CAPABILITY, 1, cap] @
     [ESP_PRIV_TEST_RAW_TP, 1, su_raw_tp e] @
     [ESP_PRIV_RX_Q_SIZE, 1, su_rx_q e] @
     [ESP_PRIV_TX_Q_SIZE, 1, su_tx_q e] @
     [ESP_PRIV_FIRMWARE_VERSION, 4] @ le_put 4 (su_fw e)))"

definition uart_startup_event :: "startup_env \<Rightarrow> byte \<Rightarrow> u32 \<Rightarrow> byte list" where
  "uart_startup_event e cap ext_cap = startup_frame (su_chk e) (
     [ESP_PRIV_FIRMWARE_CHIP_ID, 1, su_chip e] @
     [ESP_PRIV_CAPABILITY, 1, cap] @
     [ESP_PRIV_CAP_EXT, 4] @ le_put 4 ext_cap @
     [ESP_PRIV_TEST_RAW_TP, 1, su_raw_tp e] @
     [ESP_PRIV_RX_Q_SIZE, 1, su_rx_q e] @
     [ESP_PRIV_TX_Q_SIZE, 1, su_tx_q e] @
     [ESP_PRIV_FIRMWARE_VERSION, 4] @ le_put 4 (su_fw e))"

definition spi_hd_startup_event :: "startup_env \<Rightarrow> byte \<Rightarrow> u32 \<Rightarrow> byte list" where
  "spi_hd_startup_event e cap ext_cap = pad4 (startup_frame (su_chk e) (
     [ESP_PRIV_FIRMWARE_CHIP_ID, 1, su_chip e] @
     [ESP_PRIV_CAPABILITY, 1, cap] @
     [ESP_PRIV_CAP_EXT, 4] @ le_put 4 ext_cap @
     [ESP_PRIV_TEST_RAW_TP, 1, su_raw_tp e] @
     [ESP_PRIV_RX_Q_SIZE, 1, su_rx_q e] @
     [ESP_PRIV_TX_Q_SIZE, 1, su_tx_q e] @
     [ESP_PRIV_FIRMWARE_VERSION, 4] @ le_put 4 (su_fw e)))"

subsection \<open>Host: the start-up event\<close>

text \<open>
  The build configuration of the host, and what the event sets: \<open>hu_chip_type\<close> and the two
  capability words and version of this event, the data lines chosen for SPI-HD, the state of the
  transport, the packet queued in answer, and whether the RPC layer was started.
\<close>

record host_conf =
  hk_chip :: byte
  hk_sdio :: bool
  hk_sdio_streaming :: bool
  hk_spi_hd_lines :: "nat option"
  hk_raw_tp_dir :: byte
  hk_thr_low :: byte
  hk_thr_high :: byte
  hk_version :: u32

record host_link =
  hu_chip_type :: byte
  hu_caps :: byte
  hu_ext_cap :: u32
  hu_fw :: u32
  hu_lines :: "nat option"
  hu_tx_active :: bool
  hu_sent :: "(prio_q \<times> ibuf) option"
  hu_started :: bool

definition ESP_PRIV_FIRMWARE_CHIP_UNRECOGNIZED :: byte where
  "ESP_PRIV_FIRMWARE_CHIP_UNRECOGNIZED = 0xff"

definition known_chips :: "byte list" where
  "known_chips = [0x0, 0x2, 0x9, 0xC, 0x5, 0xD, 0x17, 0x14, 0x10, 0x1C]"

definition process_ext_capabilities :: "byte list \<Rightarrow> u32" where
  "process_ext_capabilities p =
     ucast (p ! 0) + push_bit 8 (ucast (p ! 1)) + push_bit 16 (ucast (p ! 2)) + push_bit 24 (ucast (p ! 3))"

definition fw_version_of :: "byte list \<Rightarrow> u32" where
  "fw_version_of p =
     ucast (p ! 0) OR push_bit 8 (ucast (p ! 1)) OR push_bit 16 (ucast (p ! 2)) OR push_bit 24 (ucast (p ! 3))"

text \<open>Zero for the same major and minor version; the caller only gets the log lines.\<close>

definition compare_fw_version :: "u32 \<Rightarrow> u32 \<Rightarrow> int" where
  "compare_fw_version host slave =
     (let h = host AND 0xFFFFFF00; s = slave AND 0xFFFFFF00 in
      if h = s then 0 else if s < h then -1 else 1)"

definition send_slave_config ::
  "byte \<Rightarrow> byte \<Rightarrow> byte \<Rightarrow> byte \<Rightarrow> byte \<Rightarrow> esp_err \<times> (prio_q \<times> ibuf) option" where
  "send_slave_config host_cap chip raw_tp low high =
     esp_hosted_tx True \<lparr> ib_if_type = ESP_PRIV_IF, ib_if_num = 0, ib_flag = 0, ib_seq = 0,
       ib_payload = priv_event (
         [HOST_CAPABILITIES, 1, host_cap] @
         [RCVD_ESP_FIRMWARE_CHIP_ID, 1, chip] @
         [SLV_CONFIG_TEST_RAW_TP, 1, raw_tp] @
         [SLV_CONFIG_THROTTLE_HIGH_THRESHOLD, 1, high] @
         [SLV_CONFIG_THROTTLE_LOW_THRESHOLD, 1, low]),
       ib_zcopy = False \<rparr>"

definition host_tlv :: "host_conf \<Rightarrow> byte list \<Rightarrow> nat \<Rightarrow> host_link \<Rightarrow> host_link tlv_out" where
  "host_tlv c b p s =
     (let t = b ! p in
      if t = ESP_PRIV_CAPABILITY then need b (p + 2) (\<lambda>v. Tlv_done (s\<lparr>hu_caps := v\<rparr>))
      else if t = ESP_PRIV_CAP_EXT then
        need4 b (p + 2) (\<lambda>v. Tlv_done (s\<lparr>hu_ext_cap := process_ext_capabilities v\<rparr>))
      else if t = ESP_PRIV_FIRMWARE_CHIP_ID then
        need b (p + 2) (\<lambda>v. if v \<noteq> hk_chip c then Tlv_abort else Tlv_done (s\<lparr>hu_chip_type := v\<rparr>))
      else if t = ESP_PRIV_TEST_RAW_TP \<or> t = ESP_PRIV_RX_Q_SIZE \<or> t = ESP_PRIV_TX_Q_SIZE then
        need b (p + 2) (\<lambda>_. Tlv_done s)
      else if t = ESP_PRIV_FIRMWARE_VERSION then
        need4 b (p + 2) (\<lambda>v. Tlv_done (s\<lparr>hu_fw := fw_version_of v\<rparr>))
      else if t = ESP_PRIV_TRANS_SDIO_MODE then
        (if hk_sdio c then
           need b (p + 2) (\<lambda>v. if v \<noteq> 0 \<and> \<not> hk_sdio_streaming c then Tlv_abort else Tlv_done s)
         else Tlv_done s)
      else Tlv_done s)"

definition spi_hd_lines :: "host_conf \<Rightarrow> u32 \<Rightarrow> nat option \<Rightarrow> nat option" where
  "spi_hd_lines c ext old =
     (case hk_spi_hd_lines c of
        None \<Rightarrow> old
      | Some n \<Rightarrow> if ext = 0 then old else Some (if n = 4 \<and> ext AND 2 \<noteq> 0 then 4 else 2))"

definition process_init_event ::
  "host_conf \<Rightarrow> byte list option \<Rightarrow> u16 \<Rightarrow> host_link \<Rightarrow> (int \<times> host_link) tlv_out" where
  "process_init_event c evt len s =
     (case evt of
        None \<Rightarrow> Tlv_done (ESP_FAIL, s)
      | Some b \<Rightarrow>
          if 64 < len then Tlv_abort
          else case tlv_walk (host_tlv c) b 0 (ucast len) (s\<lparr>hu_ext_cap := 0, hu_fw := 0\<rparr>) of
              Tlv_oob \<Rightarrow> Tlv_oob
            | Tlv_abort \<Rightarrow> Tlv_abort
            | Tlv_done s1 \<Rightarrow>
                if hu_chip_type s1 \<notin> set known_chips
                then Tlv_done (-1, s1\<lparr>hu_chip_type := ESP_PRIV_FIRMWARE_CHIP_UNRECOGNIZED\<rparr>)
                else let s2 = s1\<lparr>hu_lines := spi_hd_lines c (hu_ext_cap s1) (hu_lines s1),
                                hu_tx_active := True\<rparr>
                  in case send_slave_config 0 (hu_chip_type s2) (hk_raw_tp_dir c) (hk_thr_low c) (hk_thr_high c) of
                      (ret, q) \<Rightarrow> if ret \<noteq> ESP_OK then Tlv_abort
                                else Tlv_done (0, s2\<lparr>hu_sent := q, hu_started := True\<rparr>))"

definition process_event :: "host_conf \<Rightarrow> byte list \<Rightarrow> u16 \<Rightarrow> host_link \<Rightarrow> host_link tlv_out" where
  "process_event c payload len s =
     (if len = 0 then Tlv_done s
      else need payload 0 (\<lambda>ty.
        if ty = ESP_PRIV_EVENT_INIT then need payload 1 (\<lambda>n.
          case process_init_event c (Some (drop 2 payload)) (ucast n) s of
            Tlv_done (_, s1) \<Rightarrow> Tlv_done s1 | Tlv_oob \<Rightarrow> Tlv_oob | Tlv_abort \<Rightarrow> Tlv_abort)
        else Tlv_done s))"

subsection \<open>A reader of tags and values\<close>

text \<open>
  What both readers promise: on a value long enough for its tag, the loop's body has the effect
  \<open>eff\<close> of tag and value alone. The reference reader \<open>tlvs\<close> splits a list of bytes into tags and
  values, if they tile it.
\<close>

fun tlvs :: "byte list \<Rightarrow> (byte \<times> byte list) list option" where
  "tlvs [] = Some []"
| "tlvs [t] = None"
| "tlvs (t # l # r) =
     (if unat l \<le> length r then map_option (Cons (t, take (unat l) r)) (tlvs (drop (unat l) r)) else None)"

fun tlv_effects :: "(byte \<Rightarrow> byte list \<Rightarrow> 's \<Rightarrow> 's tlv_out) \<Rightarrow> (byte \<times> byte list) list \<Rightarrow> 's \<Rightarrow> 's tlv_out" where
  "tlv_effects eff [] s = Tlv_done s"
| "tlv_effects eff ((t, v) # ts) s =
     (case eff t v s of Tlv_done s1 \<Rightarrow> tlv_effects eff ts s1 | Tlv_oob \<Rightarrow> Tlv_oob | Tlv_abort \<Rightarrow> Tlv_abort)"

lemma small_nonzero: "0 < n \<Longrightarrow> n < 256 \<Longrightarrow> (word_of_nat n :: u8) \<noteq> 0"
proof
  assume a: "0 < n" "n < 256" "(word_of_nat n :: u8) = 0"
  have "unat (word_of_nat n :: u8) = n" using a(2) by (simp add: unsigned_of_nat take_bit_nat_eq_self)
  then show False using a(1,3) by simp
qed

locale tlv_reader =
  fixes step :: "byte list \<Rightarrow> nat \<Rightarrow> 's \<Rightarrow> 's tlv_out"
    and eff :: "byte \<Rightarrow> byte list \<Rightarrow> 's \<Rightarrow> 's tlv_out"
    and enough :: "byte \<Rightarrow> nat \<Rightarrow> bool"
  assumes step_value: "enough t (length v) \<Longrightarrow> length pre = pos \<Longrightarrow>
      step (pre @ t # l # v @ post) pos s = eff t v s"
begin

lemma walk_tlvs:
  "tlvs b = Some ts \<Longrightarrow> list_all (\<lambda>(t, v). enough t (length v)) ts \<Longrightarrow> length b < 256 \<Longrightarrow>
   tlv_walk step (pre @ b @ post) (length pre) (word_of_nat (length b)) s = tlv_effects eff ts s"
proof (induction b arbitrary: pre ts s rule: tlvs.induct)
  case (1 pre)
  then show ?case by (simp add: tlv_walk.simps)
next
  case (3 t l r pre)
  let ?n = "unat l" and ?buf = "pre @ (t # l # r) @ post"
  obtain ts' where fit: "?n \<le> length r" and ts': "tlvs (drop ?n r) = Some ts'"
    and ts: "ts = (t, take ?n r) # ts'"
    using 3(2) by (auto split: if_splits)
  have left: "(word_of_nat (length (t # l # r)) :: u8) \<noteq> 0"
    by (rule small_nonzero) (use 3(4) in simp_all)
  have split: "?buf = pre @ t # l # take ?n r @ (drop ?n r @ post)" by simp
  have st: "step ?buf (length pre) s = eff t (take ?n r) s"
    unfolding split by (rule step_value) (use 3(3) ts in auto)
  have at: "?buf ! (length pre + 1) = l" by (simp add: nth_append)
  have left': "(word_of_nat (length (t # l # r)) :: u8) - (l + 2) = word_of_nat (length (drop ?n r))"
    using fit by (simp add: of_nat_diff algebra_simps)
  have pos': "length pre + (?n + 2) = length (pre @ t # l # take ?n r)" using fit by simp
  have buf': "(pre @ t # l # take ?n r) @ drop ?n r @ post = ?buf"
    by (simp add: append_assoc [symmetric, of "take ?n r"] del: append_assoc)
       (simp only: append_assoc append_Cons append_take_drop_id)
  show ?case
  proof (cases "eff t (take ?n r) s")
    case (Tlv_done s1)
    have "tlv_walk step ?buf (length pre) (word_of_nat (length (t # l # r))) s =
        tlv_walk step ?buf (length pre + (?n + 2)) (word_of_nat (length (drop ?n r))) s1"
      using left st at left' Tlv_done by (subst tlv_walk.simps) simp
    also have "\<dots> = tlv_walk step ((pre @ t # l # take ?n r) @ drop ?n r @ post)
        (length (pre @ t # l # take ?n r)) (word_of_nat (length (drop ?n r))) s1"
      by (simp only: buf' pos')
    also have "\<dots> = tlv_effects eff ts' s1"
      using 3(1) [OF fit ts', of "pre @ t # l # take ?n r" s1] 3(3,4) ts by simp
    finally show ?thesis using ts Tlv_done by simp
  qed (use left st ts in \<open>subst tlv_walk.simps; simp\<close>)+
qed simp

end

text \<open>A reader that never fails an assertion runs off the end of bytes that no tags and values tile.\<close>

locale tlv_careless = tlv_reader +
  assumes no_abort: "step b p s \<noteq> Tlv_abort"
begin

lemma walk_oob:
  "tlvs b = None \<Longrightarrow> length b < 256 \<Longrightarrow>
   tlv_walk step (pre @ b) (length pre) (word_of_nat (length b)) s = Tlv_oob"
proof (induction b arbitrary: pre s rule: tlvs.induct)
  case (2 t pre)
  then show ?case by (simp add: tlv_walk.simps)
next
  case (3 t l r pre)
  let ?n = "unat l" and ?buf = "pre @ t # l # r"
  have left: "(word_of_nat (length (t # l # r)) :: u8) \<noteq> 0"
    by (rule small_nonzero) (use 3(3) in simp_all)
  have at: "?buf ! (length pre + 1) = l" by (simp add: nth_append)
  have left': "(word_of_nat (length (t # l # r)) :: u8) - (l + 2) = word_of_nat (length r) - l"
    by (simp add: algebra_simps)
  show ?case
  proof (cases "step ?buf (length pre) s")
    case (Tlv_done s1)
    have step1: "tlv_walk step ?buf (length pre) (word_of_nat (length (t # l # r))) s =
        tlv_walk step ?buf (length pre + (?n + 2)) (word_of_nat (length r) - l) s1"
      using left at left' Tlv_done by (subst tlv_walk.simps) simp
    show ?thesis
    proof (cases "?n \<le> length r")
      case True
      have d: "(word_of_nat (length r) :: u8) - l = word_of_nat (length (drop ?n r))"
        using True by (simp add: of_nat_diff)
      have b: "?buf = (pre @ t # l # take ?n r) @ drop ?n r" by simp
      have p: "length pre + (?n + 2) = length (pre @ t # l # take ?n r)" using True by simp
      have "tlvs (drop ?n r) = None" using 3(2) True by simp
      then have "tlv_walk step ((pre @ t # l # take ?n r) @ drop ?n r)
          (length (pre @ t # l # take ?n r)) (word_of_nat (length (drop ?n r))) s1 = Tlv_oob"
        using 3(1) [OF True, of "pre @ t # l # take ?n r" s1] 3(3) by simp
      then show ?thesis using step1 unfolding d b p [symmetric] by metis
    next
      case False
      have "unat (word_of_nat (length r) :: u8) = length r"
        using 3(3) by (simp add: unsigned_of_nat take_bit_nat_eq_self)
      then have "(word_of_nat (length r) :: u8) - l \<noteq> 0" using False by auto
      then show ?thesis using step1 False by (simp add: tlv_walk.simps)
    qed
  next
    case Tlv_oob
    then show ?thesis using left by (subst tlv_walk.simps) simp
  next
    case Tlv_abort
    then show ?thesis using no_abort by blast
  qed
qed simp

end

subsection \<open>Both readers read tags and values\<close>

definition slave_eff :: "byte \<Rightarrow> byte list \<Rightarrow> slv_cfg \<Rightarrow> slv_cfg tlv_out" where
  "slave_eff t v s = Tlv_done (
     if t = SLV_CONFIG_THROTTLE_HIGH_THRESHOLD then s\<lparr>throttle_high_threshold := v ! 0\<rparr>
     else if t = SLV_CONFIG_THROTTLE_LOW_THRESHOLD then s\<lparr>throttle_low_threshold := v ! 0\<rparr>
     else s)"

definition slave_enough :: "byte \<Rightarrow> nat \<Rightarrow> bool" where
  "slave_enough t n \<longleftrightarrow> 0 < n \<or> t \<notin> {RCVD_ESP_FIRMWARE_CHIP_ID, SLV_CONFIG_TEST_RAW_TP,
     SLV_CONFIG_THROTTLE_HIGH_THRESHOLD, SLV_CONFIG_THROTTLE_LOW_THRESHOLD}"

lemma need_value:
  "length pre = p \<Longrightarrow> 0 < length v \<Longrightarrow> need (pre @ t # l # v @ post) (p + 2) k = k (v ! 0)"
  by (simp add: need_def nth_append)

lemma need4_value:
  "length pre = p \<Longrightarrow> 4 \<le> length v \<Longrightarrow> need4 (pre @ t # l # v @ post) (p + 2) k = k (take 4 v)"
  by (simp add: need4_def)

interpretation slave_tlvs: tlv_careless slave_tlv slave_eff slave_enough
proof unfold_locales
  fix t :: byte and v :: "byte list" and pre pos l post s
  assume "slave_enough t (length v)" "length (pre :: byte list) = pos"
  then show "slave_tlv (pre @ t # l # v @ post) pos s = slave_eff t v s"
    using need_value [of pre pos v]
    by (auto simp: slave_tlv_def slave_eff_def slave_enough_def nth_append config_tags Let_def)
next
  fix b p s show "slave_tlv b p s \<noteq> Tlv_abort" by (simp add: slave_tlv_def need_def Let_def)
qed

definition host_eff :: "host_conf \<Rightarrow> byte \<Rightarrow> byte list \<Rightarrow> host_link \<Rightarrow> host_link tlv_out" where
  "host_eff c t v s =
     (if t = ESP_PRIV_CAPABILITY then Tlv_done (s\<lparr>hu_caps := v ! 0\<rparr>)
      else if t = ESP_PRIV_CAP_EXT then Tlv_done (s\<lparr>hu_ext_cap := process_ext_capabilities (take 4 v)\<rparr>)
      else if t = ESP_PRIV_FIRMWARE_CHIP_ID then
        (if v ! 0 \<noteq> hk_chip c then Tlv_abort else Tlv_done (s\<lparr>hu_chip_type := v ! 0\<rparr>))
      else if t = ESP_PRIV_FIRMWARE_VERSION then Tlv_done (s\<lparr>hu_fw := fw_version_of (take 4 v)\<rparr>)
      else if t = ESP_PRIV_TRANS_SDIO_MODE \<and> hk_sdio c \<and> v ! 0 \<noteq> 0 \<and> \<not> hk_sdio_streaming c
      then Tlv_abort else Tlv_done s)"

definition host_enough :: "byte \<Rightarrow> nat \<Rightarrow> bool" where
  "host_enough t n \<longleftrightarrow>
     (if t \<in> {ESP_PRIV_CAP_EXT, ESP_PRIV_FIRMWARE_VERSION} then 4 \<le> n else 0 < n)"

interpretation host_tlvs: tlv_reader "host_tlv c" "host_eff c" host_enough for c
proof unfold_locales
  fix t :: byte and v :: "byte list" and pre pos l post s
  assume a: "host_enough t (length v)" "length (pre :: byte list) = pos"
  have "t = ESP_PRIV_CAP_EXT \<or> t = ESP_PRIV_FIRMWARE_VERSION \<or>
      (t \<noteq> ESP_PRIV_CAP_EXT \<and> t \<noteq> ESP_PRIV_FIRMWARE_VERSION \<and> 0 < length v)"
    using a(1) by (auto simp: host_enough_def split: if_splits)
  then show "host_tlv c (pre @ t # l # v @ post) pos s = host_eff c t v s"
    using need_value [of pre pos v] need4_value [of pre pos v] a
    by (elim disjE)
       (auto simp: host_tlv_def host_eff_def host_enough_def nth_append Let_def priv_tags)
qed

subsection \<open>Lemmas: the two events\<close>

lemma four_bytes: "le_put 4 (w :: u32) =
    [ucast w, ucast (drop_bit 8 w), ucast (drop_bit 16 w), ucast (drop_bit 24 w)]"
  by (simp add: numeral_eq_Suc)

lemma fw_version_le [simp]: "fw_version_of (le_put 4 w) = w"
  unfolding four_bytes fw_version_of_def
  by (rule bit_word_eqI) (auto simp: bit_simps, rule ccontr, simp)

lemma ext_is_or: "process_ext_capabilities p = fw_version_of p"
proof -
  let ?a = "ucast (p ! 0) :: u32" and ?b = "push_bit 8 (ucast (p ! 1)) :: u32"
    and ?c = "push_bit 16 (ucast (p ! 2)) :: u32" and ?d = "push_bit 24 (ucast (p ! 3)) :: u32"
  have lt8: "bit (x :: byte) n \<Longrightarrow> n < 8" for x n using bit_imp_le_length [of x n] by simp
  have 1: "?a + ?b = ?a OR ?b"
    by (rule disjunctive_add) (auto simp: bit_simps dest: lt8)
  have 2: "(?a OR ?b) + ?c = (?a OR ?b) OR ?c"
    by (rule disjunctive_add) (auto simp: bit_simps dest: lt8)
  have 3: "((?a OR ?b) OR ?c) + ?d = ((?a OR ?b) OR ?c) OR ?d"
    by (rule disjunctive_add) (auto simp: bit_simps dest: lt8)
  show ?thesis unfolding process_ext_capabilities_def fw_version_of_def 1 2 3 by (simp only: or.assoc)
qed

lemma process_ext_le [simp]: "process_ext_capabilities (le_put 4 w) = w"
  by (simp add: ext_is_or)

text \<open>Values of one byte and of four, and how they read.\<close>

lemma tlvs_1 [simp]: "tlvs (t # 1 # v # r) = map_option (Cons (t, [v])) (tlvs r)"
  by simp

lemma tlvs_4 [simp]: "length q = 4 \<Longrightarrow> tlvs (t # 4 # q @ r) = map_option (Cons (t, q)) (tlvs r)"
  by simp

lemma tlvs_4_end [simp]: "length q = 4 \<Longrightarrow> tlvs (t # 4 # q) = Some [(t, q)]"
  using tlvs_4 [of q t "[]"] by simp

text \<open>The frame carries the event behind its header, whatever pads it.\<close>

definition startup_header :: "byte list \<Rightarrow> esp_payload_header" where
  "startup_header tb = \<lparr> h_if_type = ESP_PRIV_IF, h_if_num = 0, h_flags = 0,
     h_len = word_of_nat (length (priv_event tb)), h_offset = word_of_nat HDR, h_checksum = 0,
     h_seq_num = 0, h_throttle_cmd = 0, h_pkt_type = ESP_PACKET_TYPE_EVENT \<rparr>"

lemma startup_frame_seal: "startup_frame chk tb = seal chk (startup_header tb) (priv_event tb)"
  by (simp add: startup_frame_def seal_def startup_header_def Let_def compute_checksum_def)

lemma pad4_pads: "\<exists>pad. pad4 f = f @ pad"
  by (simp add: pad4_def)

lemma byte_back [simp]: "ucast (ucast (b :: byte) :: u16) = b"
  by (rule bit_word_eqI) (auto simp: bit_simps)

lemma process_event_init:
  assumes "tlvs tb = Some ts" "list_all (\<lambda>(t, v). host_enough t (length v)) ts" "length tb \<le> 64"
    "tlv_effects (host_eff c) ts (s\<lparr>hu_ext_cap := 0, hu_fw := 0\<rparr>) = Tlv_done s1"
    "hu_chip_type s1 \<in> set known_chips" "len \<noteq> 0"
  shows "process_event c (priv_event tb @ pad) len s = Tlv_done (s1\<lparr>hu_tx_active := True,
    hu_lines := spi_hd_lines c (hu_ext_cap s1) (hu_lines s1),
    hu_sent := snd (send_slave_config 0 (hu_chip_type s1) (hk_raw_tp_dir c) (hk_thr_low c) (hk_thr_high c)),
    hu_started := True\<rparr>)"
proof -
  have n: "unat (word_of_nat (length tb) :: byte) = length tb"
    using assms(3) by (simp add: unsigned_of_nat take_bit_nat_eq_self)
  have walk: "tlv_walk (host_tlv c) (tb @ pad) 0 (word_of_nat (length tb)) (s\<lparr>hu_ext_cap := 0, hu_fw := 0\<rparr>) =
      Tlv_done s1"
    using host_tlvs.walk_tlvs [OF assms(1,2), where pre = "[]" and post = pad] assms(3,4) by simp
  have short: "\<not> 64 < (ucast (word_of_nat (length tb) :: byte) :: u16)"
    using n assms(3) by (simp add: word_less_nat_alt unsigned_ucast_eq take_bit_nat_eq_self)
  have ok: "fst (send_slave_config a b d e f) = ESP_OK" for a b d e f
    by (simp add: send_slave_config_def esp_hosted_tx_def priv_event_def sdio_sizes)
  have "process_init_event c (Some (tb @ pad)) (ucast (word_of_nat (length tb) :: byte)) s =
      Tlv_done (0, s1\<lparr>hu_tx_active := True,
        hu_lines := spi_hd_lines c (hu_ext_cap s1) (hu_lines s1),
        hu_sent := snd (send_slave_config 0 (hu_chip_type s1) (hk_raw_tp_dir c) (hk_thr_low c) (hk_thr_high c)),
        hu_started := True\<rparr>)"
    using walk short assms(5) ok
    by (simp add: process_init_event_def Let_def split_beta)
  then show ?thesis using assms(6) by (simp add: process_event_def need_def priv_event_def)
qed

lemma process_priv_init:
  assumes "tlvs tb = Some ts" "list_all (\<lambda>(t, v). slave_enough t (length v)) ts" "length tb \<le> 64"
    "tlv_effects slave_eff ts s = Tlv_done s1" "len \<noteq> 0"
  shows "process_priv_pkt (priv_event tb @ pad) len s = Tlv_done s1"
proof -
  have n: "unat (word_of_nat (length tb) :: byte) = length tb"
    using assms(3) by (simp add: unsigned_of_nat take_bit_nat_eq_self)
  have walk: "tlv_walk slave_tlv (tb @ pad) 0 (word_of_nat (length tb)) s = Tlv_done s1"
    using slave_tlvs.walk_tlvs [OF assms(1,2), where pre = "[]" and post = pad] assms(3,4) by simp
  have short: "\<not> 64 < (ucast (word_of_nat (length tb) :: byte) :: u16)"
    using n assms(3) by (simp add: word_less_nat_alt unsigned_ucast_eq take_bit_nat_eq_self)
  have "host_to_slave_reconfig (Some (tb @ pad)) (ucast (word_of_nat (length tb) :: byte)) s =
      Tlv_done (ESP_OK, s1)"
    using walk short by (simp add: host_to_slave_reconfig_def with_result_def)
  then show ?thesis using assms(5) by (simp add: process_priv_pkt_def need_def priv_event_def)
qed

text \<open>The bus drivers of the co-processor, one of which is built in.\<close>

datatype bus_driver = Sdio_driver | Spi_driver | Uart_driver | Spi_hd_driver

definition generate_startup_event :: "bus_driver \<Rightarrow> startup_env \<Rightarrow> byte \<Rightarrow> u32 \<Rightarrow> byte list" where
  "generate_startup_event d = (case d of Sdio_driver \<Rightarrow> sdio_startup_event
     | Spi_driver \<Rightarrow> spi_startup_event | Uart_driver \<Rightarrow> uart_startup_event
     | Spi_hd_driver \<Rightarrow> spi_hd_startup_event)"

definition sends_ext :: "bus_driver \<Rightarrow> bool" where
  "sends_ext d \<longleftrightarrow> d \<in> {Uart_driver, Spi_hd_driver}"

text \<open>The tags and values of each driver's event.\<close>

definition startup_tlvs :: "bus_driver \<Rightarrow> startup_env \<Rightarrow> byte \<Rightarrow> u32 \<Rightarrow> (byte \<times> byte list) list" where
  "startup_tlvs d e cap ext = [(ESP_PRIV_FIRMWARE_CHIP_ID, [su_chip e])] @
     (if d = Sdio_driver then [(ESP_PRIV_TRANS_SDIO_MODE, [of_bool (su_streaming e)])] else []) @
     [(ESP_PRIV_CAPABILITY, [cap])] @
     (if sends_ext d then [(ESP_PRIV_CAP_EXT, le_put 4 ext)] else []) @
     [(ESP_PRIV_TEST_RAW_TP, [su_raw_tp e])] @
     (if d = Sdio_driver then [(ESP_PRIV_TX_Q_SIZE, [su_tx_q e]), (ESP_PRIV_RX_Q_SIZE, [su_rx_q e])]
      else [(ESP_PRIV_RX_Q_SIZE, [su_rx_q e]), (ESP_PRIV_TX_Q_SIZE, [su_tx_q e])]) @
     [(ESP_PRIV_FIRMWARE_VERSION, le_put 4 (su_fw e))]"

definition carries :: "bool \<Rightarrow> byte list \<Rightarrow> (byte \<times> byte list) list \<Rightarrow> bool" where
  "carries chk f ts \<longleftrightarrow> (\<exists>b pad. f = seal chk (startup_header b) (priv_event b) @ pad \<and>
     tlvs b = Some ts \<and> length b \<le> 64)"

lemma carriesI:
  "f = startup_frame chk b \<Longrightarrow> tlvs b = Some ts \<Longrightarrow> length b \<le> 64 \<Longrightarrow> carries chk f ts"
  "f = pad4 (startup_frame chk b) \<Longrightarrow> tlvs b = Some ts \<Longrightarrow> length b \<le> 64 \<Longrightarrow> carries chk f ts"
  using pad4_pads [of "startup_frame chk b"]
  by (auto simp: carries_def startup_frame_seal intro: exI [of _ "[]"])

lemma startup_event_tlvs:
  "carries (su_chk e) (generate_startup_event d e cap ext) (startup_tlvs d e cap ext)"
proof (cases d)
  case Sdio_driver
  show ?thesis unfolding Sdio_driver generate_startup_event_def bus_driver.case
    by (rule carriesI(1) [OF sdio_startup_event_def]) (simp_all add: startup_tlvs_def sends_ext_def)
next
  case Spi_driver
  show ?thesis unfolding Spi_driver generate_startup_event_def bus_driver.case
    by (rule carriesI(2) [OF spi_startup_event_def]) (simp_all add: startup_tlvs_def sends_ext_def)
next
  case Uart_driver
  show ?thesis unfolding Uart_driver generate_startup_event_def bus_driver.case
    by (rule carriesI(1) [OF uart_startup_event_def]) (simp_all add: startup_tlvs_def sends_ext_def)
next
  case Spi_hd_driver
  show ?thesis unfolding Spi_hd_driver generate_startup_event_def bus_driver.case
    by (rule carriesI(2) [OF spi_hd_startup_event_def]) (simp_all add: startup_tlvs_def sends_ext_def)
qed

text \<open>What the host makes of it, and what it answers.\<close>

definition host_after :: "host_conf \<Rightarrow> bus_driver \<Rightarrow> startup_env \<Rightarrow> byte \<Rightarrow> u32 \<Rightarrow> host_link \<Rightarrow> host_link" where
  "host_after c d e cap ext s = s\<lparr>hu_chip_type := su_chip e, hu_caps := cap,
     hu_ext_cap := (if sends_ext d then ext else 0), hu_fw := su_fw e\<rparr>"

lemma host_reads_startup:
  assumes "su_chip e = hk_chip c" "hk_sdio c \<Longrightarrow> su_streaming e \<Longrightarrow> hk_sdio_streaming c"
  shows "tlv_effects (host_eff c) (startup_tlvs d e cap ext) (s\<lparr>hu_ext_cap := 0, hu_fw := 0\<rparr>) =
    Tlv_done (host_after c d e cap ext s)"
  using assms
  by (cases d) (auto simp: startup_tlvs_def sends_ext_def host_eff_def priv_tags host_after_def)

lemma startup_values_enough: "list_all (\<lambda>(t, v). host_enough t (length v)) (startup_tlvs d e cap ext)"
  by (simp add: startup_tlvs_def host_enough_def priv_tags)

definition config_tlvs :: "host_conf \<Rightarrow> byte \<Rightarrow> byte list" where
  "config_tlvs c chip = [HOST_CAPABILITIES, 1, 0, RCVD_ESP_FIRMWARE_CHIP_ID, 1, chip,
     SLV_CONFIG_TEST_RAW_TP, 1, hk_raw_tp_dir c, SLV_CONFIG_THROTTLE_HIGH_THRESHOLD, 1, hk_thr_high c,
     SLV_CONFIG_THROTTLE_LOW_THRESHOLD, 1, hk_thr_low c]"

lemma slave_reads_config:
  "n \<noteq> 0 \<Longrightarrow> process_priv_pkt (priv_event (config_tlvs c chip) @ pad) n t =
     Tlv_done (t\<lparr>throttle_high_threshold := hk_thr_high c, throttle_low_threshold := hk_thr_low c\<rparr>)"
  by (rule process_priv_init, simp add: config_tlvs_def)
     (simp_all add: config_tlvs_def slave_enough_def slave_eff_def config_tags)

definition config_pkt :: "host_conf \<Rightarrow> byte \<Rightarrow> ibuf" where
  "config_pkt c chip = \<lparr> ib_if_type = ESP_PRIV_IF, ib_if_num = 0, ib_flag = 0, ib_seq = 0,
     ib_payload = priv_event (config_tlvs c chip), ib_zcopy = False \<rparr>"

lemma send_slave_config_sent:
  "snd (send_slave_config 0 chip (hk_raw_tp_dir c) (hk_thr_low c) (hk_thr_high c)) =
     Some (PRIO_Q_OTHERS, config_pkt c chip)"
  by (simp add: send_slave_config_def esp_hosted_tx_def priv_event_def sdio_sizes config_pkt_def
      config_tlvs_def prio_of_def esp_ifs)

text \<open>The host after the event, with the packet queued.\<close>

definition host_final :: "host_conf \<Rightarrow> bus_driver \<Rightarrow> startup_env \<Rightarrow> byte \<Rightarrow> u32 \<Rightarrow> host_link \<Rightarrow> host_link" where
  "host_final c d e cap ext s =
     (let s1 = host_after c d e cap ext s in
      s1\<lparr>hu_tx_active := True, hu_lines := spi_hd_lines c (hu_ext_cap s1) (hu_lines s1),
         hu_sent := Some (PRIO_Q_OTHERS, config_pkt c (su_chip e)), hu_started := True\<rparr>)"

lemma host_reads_event:
  assumes "tlvs b = Some (startup_tlvs d e cap ext)" "length b \<le> 64"
    "su_chip e = hk_chip c" "su_chip e \<in> set known_chips"
    "hk_sdio c \<Longrightarrow> su_streaming e \<Longrightarrow> hk_sdio_streaming c" "n \<noteq> 0"
  shows "process_event c (priv_event b @ mem) n s = Tlv_done (host_final c d e cap ext s)"
proof -
  have chip: "hu_chip_type (host_after c d e cap ext s) = su_chip e" by (simp add: host_after_def)
  show ?thesis
    using process_event_init [OF assms(1) startup_values_enough assms(2)
        host_reads_startup [OF assms(3,5)], where len = n and pad = mem] assms(4,6)
    by (simp add: chip send_slave_config_sent host_final_def Let_def)
qed

subsection \<open>Properties\<close>

text \<open>C34: Over each of the four buses the start-up event of a co-processor that fits the host's
  configuration tells the host its chip, capabilities and firmware version (the extended
  capabilities over UART and SPI-HD only), opens the transport and starts the RPC layer; and the
  packet the host queues in answer, read with whatever follows it in the co-processor's buffer,
  sets both flow-control thresholds to the host's.\<close>

theorem startup_handshake:
  assumes "su_chip e = hk_chip c" "su_chip e \<in> set known_chips"
    "hk_sdio c \<Longrightarrow> su_streaming e \<Longrightarrow> hk_sdio_streaming c" "n \<noteq> 0"
  shows "\<exists>s' q. process_event c (drop HDR (generate_startup_event d e cap ext) @ mem) n s = Tlv_done s' \<and>
    hu_chip_type s' = su_chip e \<and> hu_caps s' = cap \<and> hu_fw s' = su_fw e \<and>
    hu_ext_cap s' = (if sends_ext d then ext else 0) \<and> hu_tx_active s' \<and> hu_started s' \<and>
    hu_sent s' = Some (PRIO_Q_OTHERS, q) \<and>
    process_priv_pkt (ib_payload q @ mem) n t =
      Tlv_done (t\<lparr>throttle_high_threshold := hk_thr_high c, throttle_low_threshold := hk_thr_low c\<rparr>)"
proof -
  obtain b pad where f: "generate_startup_event d e cap ext =
      seal (su_chk e) (startup_header b) (priv_event b) @ pad"
    and b: "tlvs b = Some (startup_tlvs d e cap ext)" "length b \<le> 64"
    using startup_event_tlvs [of e d cap ext] by (auto simp: carries_def)
  have "process_event c (drop HDR (generate_startup_event d e cap ext) @ mem) n s =
      Tlv_done (host_final c d e cap ext s)"
    using host_reads_event [OF b assms, of "pad @ mem"] by (simp add: f)
  moreover have "process_priv_pkt (ib_payload (config_pkt c (su_chip e)) @ mem) n t =
      Tlv_done (t\<lparr>throttle_high_threshold := hk_thr_high c, throttle_low_threshold := hk_thr_low c\<rparr>)"
    using slave_reads_config [OF assms(4)] by (simp add: config_pkt_def)
  ultimately show ?thesis
    by (intro exI [of _ "host_final c d e cap ext s"] exI [of _ "config_pkt c (su_chip e)"])
      (simp add: host_final_def host_after_def Let_def)
qed

text \<open>Reading the host's configuration agrees with a reference reader that first splits the
  event into tags and values: the effects of the values in their order, and a read behind the
  buffer exactly when they do not tile the event's length (the buffer ends with the event, the
  values the code reads are not empty).\<close>

theorem config_reader_reference:
  assumes "length b \<le> 64"
    "case tlvs b of None \<Rightarrow> True | Some ts \<Rightarrow> list_all (\<lambda>(t, v). slave_enough t (length v)) ts"
  shows "host_to_slave_reconfig (Some b) (word_of_nat (length b)) s =
    (case tlvs b of None \<Rightarrow> Tlv_oob | Some ts \<Rightarrow> with_result ESP_OK (tlv_effects slave_eff ts s))"
proof -
  have n: "unat (word_of_nat (length b) :: u16) = length b"
    using assms(1) by (simp add: unsigned_of_nat take_bit_nat_eq_self)
  have short: "\<not> 64 < (word_of_nat (length b) :: u16)"
    using n assms(1) by (simp add: word_less_nat_alt)
  have u: "(ucast (word_of_nat (length b) :: u16) :: u8) = word_of_nat (length b)"
    using assms(1) by (simp add: word_eq_iff_unsigned unsigned_ucast_eq unsigned_of_nat take_bit_nat_eq_self)
  show ?thesis
  proof (cases "tlvs b")
    case None
    then show ?thesis
      using slave_tlvs.walk_oob [OF None, where pre = "[]"] assms(1) short u
      by (simp add: host_to_slave_reconfig_def with_result_def)
  next
    case (Some x)
    then show ?thesis
      using slave_tlvs.walk_tlvs [OF Some, where pre = "[]" and post = "[]"] assms short u
      by (simp add: host_to_slave_reconfig_def)
  qed
qed

subsection \<open>Concrete instances\<close>

definition demo_startup :: startup_env where
  "demo_startup = \<lparr> su_chip = 0xD, su_fw = ESP_HOSTED_VERSION_VAL 2 9 3, su_streaming = True,
     su_raw_tp = 0, su_tx_q = 20, su_rx_q = 20, su_chk = True \<rparr>"

definition demo_host_conf :: host_conf where
  "demo_host_conf = \<lparr> hk_chip = 0xD, hk_sdio = True, hk_sdio_streaming = True, hk_spi_hd_lines = None,
     hk_raw_tp_dir = 0, hk_thr_low = 60, hk_thr_high = 80, hk_version = 0x20903 \<rparr>"

definition demo_host_up :: host_link where
  "demo_host_up = \<lparr> hu_chip_type = 0xff, hu_caps = 0, hu_ext_cap = 0, hu_fw = 0, hu_lines = None,
     hu_tx_active = False, hu_sent = None, hu_started = False \<rparr>"

theorem startup_handshake_witness:
  "\<exists>s' q. process_event demo_host_conf (drop HDR (generate_startup_event Sdio_driver demo_startup 0x8D 0) @ [9, 9])
      40 demo_host_up = Tlv_done s' \<and> hu_chip_type s' = 0xD \<and> hu_caps s' = 0x8D \<and>
    hu_sent s' = Some (PRIO_Q_OTHERS, q) \<and>
    process_priv_pkt (ib_payload q @ [9, 9]) 40 \<lparr> throttle_high_threshold = 0, throttle_low_threshold = 0 \<rparr> =
      Tlv_done \<lparr> throttle_high_threshold = 80, throttle_low_threshold = 60 \<rparr>"
  using startup_handshake [of demo_startup demo_host_conf 40 Sdio_driver "0x8D" 0 "[9, 9]" demo_host_up
      "\<lparr> throttle_high_threshold = 0, throttle_low_threshold = 0 \<rparr>"]
  by (auto simp: demo_startup_def demo_host_conf_def known_chips_def)

theorem config_reader_reference_witness:
  "host_to_slave_reconfig (Some [0x47, 1, 80, 0x48, 3, 60]) 6
      \<lparr> throttle_high_threshold = 0, throttle_low_threshold = 0 \<rparr> = Tlv_oob \<and>
   host_to_slave_reconfig (Some [0x47, 1, 80, 0x48, 1, 60]) 6
      \<lparr> throttle_high_threshold = 0, throttle_low_threshold = 0 \<rparr> =
      Tlv_done (ESP_OK, \<lparr> throttle_high_threshold = 80, throttle_low_threshold = 60 \<rparr>)"
  using config_reader_reference [of "[0x47, 1, 80, 0x48, 3, 60]"
      "\<lparr> throttle_high_threshold = 0, throttle_low_threshold = 0 \<rparr>"]
    config_reader_reference [of "[0x47, 1, 80, 0x48, 1, 60]"
      "\<lparr> throttle_high_threshold = 0, throttle_low_threshold = 0 \<rparr>"]
  by (simp add: slave_enough_def slave_eff_def config_tags with_result_def)

end
