(* ===== verification/Coprocessor.thy ===== *)
theory Coprocessor
  imports Nw_Split Host_Power Startup
begin

section \<open>The co-processor's main component (esp_hosted_coprocessor.c)\<close>

text \<open>
  What \<open>esp_hosted_coprocessor.c\<close> does besides the serial channel of theory \<open>Serial_Slave\<close>: the
  capability words, the callbacks that take frames from the Wi-Fi driver, the dispatch of packets
  from the host, the events of the bus driver, the task that answers a host reset with a start-up
  event, and the initialisation. Calls into ESP-IDF are parameters (their results) and entries of
  a log (their order and arguments).
\<close>

subsection \<open>Capabilities\<close>

text \<open>The build options the capability words depend on.\<close>

datatype bt_link = Bt_hci | Bt_uart | Bt_no_link
datatype bt_mode = Ble | Br_edr | Dual_mode | Bt_no_mode

record build =
  bd_bus :: bus_driver
  bd_wifi :: bool
  bd_bt :: bool
  bd_bt_enabled :: bool
  bd_bt_link :: bt_link
  bd_bt_mode :: bt_mode
  bd_checksum :: bool
  bd_four_lines :: bool

definition ESP_WLAN_SDIO_SUPPORT :: u8 where "ESP_WLAN_SDIO_SUPPORT = 1"
definition ESP_BT_UART_SUPPORT :: u8 where "ESP_BT_UART_SUPPORT = 2"
definition ESP_BT_SDIO_SUPPORT :: u8 where "ESP_BT_SDIO_SUPPORT = 4"
definition ESP_BLE_ONLY_SUPPORT :: u8 where "ESP_BLE_ONLY_SUPPORT = 8"
definition ESP_BR_EDR_ONLY_SUPPORT :: u8 where "ESP_BR_EDR_ONLY_SUPPORT = 16"
definition ESP_WLAN_SPI_SUPPORT :: u8 where "ESP_WLAN_SPI_SUPPORT = 32"
definition ESP_BT_SPI_SUPPORT :: u8 where "ESP_BT_SPI_SUPPORT = 64"
definition ESP_CHECKSUM_ENABLED :: u8 where "ESP_CHECKSUM_ENABLED = 128"

definition ESP_SPI_HD_INTERFACE_SUPPORT_2_DATA_LINES :: u32 where
  "ESP_SPI_HD_INTERFACE_SUPPORT_2_DATA_LINES = 1"
definition ESP_SPI_HD_INTERFACE_SUPPORT_4_DATA_LINES :: u32 where
  "ESP_SPI_HD_INTERFACE_SUPPORT_4_DATA_LINES = 2"
definition ESP_WLAN_SUPPORT :: u32 where "ESP_WLAN_SUPPORT = 16"
definition ESP_BT_INTERFACE_SUPPORT :: u32 where "ESP_BT_INTERFACE_SUPPORT = 32"
definition ESP_WLAN_UART_SUPPORT :: u32 where "ESP_WLAN_UART_SUPPORT = 256"
definition ESP_BT_VHCI_UART_SUPPORT :: u32 where "ESP_BT_VHCI_UART_SUPPORT = 512"

lemmas capability_bits = ESP_WLAN_SDIO_SUPPORT_def ESP_BT_UART_SUPPORT_def ESP_BT_SDIO_SUPPORT_def
  ESP_BLE_ONLY_SUPPORT_def ESP_BR_EDR_ONLY_SUPPORT_def ESP_WLAN_SPI_SUPPORT_def
  ESP_BT_SPI_SUPPORT_def ESP_CHECKSUM_ENABLED_def ESP_SPI_HD_INTERFACE_SUPPORT_2_DATA_LINES_def
  ESP_SPI_HD_INTERFACE_SUPPORT_4_DATA_LINES_def ESP_WLAN_SUPPORT_def ESP_BT_INTERFACE_SUPPORT_def
  ESP_WLAN_UART_SUPPORT_def ESP_BT_VHCI_UART_SUPPORT_def

definition get_wifi_std_capabilities :: "build \<Rightarrow> u8" where
  "get_wifi_std_capabilities b =
     (case bd_bus b of Spi_driver \<Rightarrow> ESP_WLAN_SPI_SUPPORT | Sdio_driver \<Rightarrow> ESP_WLAN_SDIO_SUPPORT | _ \<Rightarrow> 0)"

definition get_bluetooth_capabilities :: "build \<Rightarrow> u8" where
  "get_bluetooth_capabilities b =
     (if \<not> bd_bt_enabled b then 0
      else (case bd_bt_link b of
              Bt_hci \<Rightarrow> (case bd_bus b of Spi_driver \<Rightarrow> ESP_BT_SPI_SUPPORT
                         | Sdio_driver \<Rightarrow> ESP_BT_SDIO_SUPPORT | _ \<Rightarrow> 0)
            | Bt_uart \<Rightarrow> ESP_BT_UART_SUPPORT
            | Bt_no_link \<Rightarrow> 0) OR
           (case bd_bt_mode b of
              Ble \<Rightarrow> ESP_BLE_ONLY_SUPPORT
            | Br_edr \<Rightarrow> ESP_BR_EDR_ONLY_SUPPORT
            | Dual_mode \<Rightarrow> ESP_BLE_ONLY_SUPPORT OR ESP_BR_EDR_ONLY_SUPPORT
            | Bt_no_mode \<Rightarrow> 0))"

definition get_bluetooth_ext_capabilities :: "build \<Rightarrow> u32" where
  "get_bluetooth_ext_capabilities b =
     (if bd_bt_enabled b \<and> bd_bt_link b = Bt_hci \<and> bd_bus b \<in> {Spi_hd_driver, Uart_driver}
      then ESP_BT_INTERFACE_SUPPORT else 0)"

definition get_capabilities :: "build \<Rightarrow> u8" where
  "get_capabilities b =
     (if bd_wifi b then get_wifi_std_capabilities b else 0) OR
     (if bd_checksum b then ESP_CHECKSUM_ENABLED else 0) OR
     (if bd_bt b then get_bluetooth_capabilities b else 0)"

definition get_capabilities_ext :: "build \<Rightarrow> u32" where
  "get_capabilities_ext b =
     (if bd_bus b = Spi_hd_driver then
        (if bd_four_lines b then ESP_SPI_HD_INTERFACE_SUPPORT_4_DATA_LINES
         else ESP_SPI_HD_INTERFACE_SUPPORT_2_DATA_LINES) OR
        (if bd_wifi b then ESP_WLAN_SUPPORT else 0)
      else 0) OR
     (if bd_bus b = Uart_driver \<and> bd_wifi b then ESP_WLAN_UART_SUPPORT else 0) OR
     (if bd_bt b then get_bluetooth_ext_capabilities b else 0)"

subsection \<open>Frames from the Wi-Fi driver\<close>

text \<open>
  What happens to the memory behind a frame: the driver's buffer \<open>eb\<close> or a copy is freed, or the
  network interface takes the frame and frees \<open>eb\<close> itself.
\<close>

datatype rx_owner = Eb | Copy_buff
datatype wifi_act = Freed rx_owner | To_netif "byte list"

definition wifi_pkt :: "u8 \<Rightarrow> byte list \<Rightarrow> ibuf" where
  "wifi_pkt ty b = \<lparr> ib_if_type = ty, ib_if_num = 0, ib_flag = 0, ib_seq = 0, ib_payload = b,
     ib_zcopy = False \<rparr>"

text \<open>
  Both ends of \<open>process_tx_pkt\<close> free the memory behind the packet, whether it was written, dropped
  for a sleeping host or kept from a closed data path.
\<close>

definition send_owned :: "pm_env \<Rightarrow> ibuf \<Rightarrow> rx_owner \<Rightarrow> copro \<Rightarrow> esp_err \<times> copro \<times> wifi_act list" where
  "send_owned pm ib own s = (case send_to_host_queue pm ib s of (ret, s1) \<Rightarrow> (ret, s1, [Freed own]))"

definition wlan_ap_rx_callback ::
  "pm_env \<Rightarrow> byte list option \<Rightarrow> bool \<Rightarrow> copro \<Rightarrow> esp_err \<times> copro \<times> wifi_act list" where
  "wlan_ap_rx_callback pm buffer eb s =
     (case buffer of
        None \<Rightarrow> (ESP_OK, s, if eb then [Freed Eb] else [])
      | Some b \<Rightarrow>
          if \<not> eb \<or> \<not> cp_datapath s then (ESP_OK, s, if eb then [Freed Eb] else [])
          else case send_owned pm (wifi_pkt ESP_AP_IF b) Eb s of (ret, s1, a) \<Rightarrow>
            (ESP_OK, s1, if ret \<noteq> ESP_OK then a @ [Freed Eb] else a))"

text \<open>
  \<open>split\<close> is the network split's environment when it is built in, \<open>netif\<close> whether the local station
  interface exists, \<open>alloc\<close> whether a copy can be allocated.
\<close>

datatype sta_out = Sta_done copro router "wifi_act list" | Sta_oob | Sta_abort

definition sta_to_host :: "pm_env \<Rightarrow> byte list \<Rightarrow> router \<Rightarrow> copro \<Rightarrow> sta_out" where
  "sta_to_host pm b r s =
     (if \<not> cp_datapath s then Sta_done s r [Freed Eb]
      else case send_owned pm (wifi_pkt ESP_STA_IF b) Eb s of (ret, s1, a) \<Rightarrow>
        Sta_done s1 r (if ret \<noteq> ESP_OK then a @ [Freed Eb] else a))"

definition wlan_sta_rx_callback ::
  "pm_env \<Rightarrow> split_env option \<Rightarrow> bool \<Rightarrow> bool \<Rightarrow> byte list option \<Rightarrow> bool \<Rightarrow> router \<Rightarrow> copro \<Rightarrow> sta_out" where
  "wlan_sta_rx_callback pm split netif alloc buffer eb r s =
     (case buffer of
        None \<Rightarrow> Sta_done s r (if eb then [Freed Eb] else [])
      | Some b \<Rightarrow>
          if \<not> eb then Sta_done s r []
          else case split of
            None \<Rightarrow> sta_to_host pm b r s
          | Some e \<Rightarrow>
              (case nw_split_filter_and_route_packet e b r of
                 None \<Rightarrow> Sta_oob
               | Some (HOST_LWIP_BRIDGE, r1) \<Rightarrow> sta_to_host pm b r1 s
               | Some (SLAVE_LWIP_BRIDGE, r1) \<Rightarrow>
                   Sta_done s r1 (if netif then [To_netif b] else [Freed Eb])
               | Some (BOTH_LWIP_BRIDGE, r1) \<Rightarrow>
                   if \<not> alloc then Sta_abort
                   else case send_owned pm (wifi_pkt ESP_STA_IF b) Copy_buff s of (ret, s1, a) \<Rightarrow>
                     Sta_done s1 r1 ((if netif then [To_netif b] else [Freed Eb]) @ a @
                       (if ret \<noteq> ESP_OK then [Freed Copy_buff] else []))
               | Some (INVALID_BRIDGE, r1) \<Rightarrow> Sta_done s r1 [Freed Eb]))"

subsection \<open>Packets from the host\<close>

datatype wifi_if = WIFI_IF_STA | WIFI_IF_AP

text \<open>
  \<open>cs_cfg\<close> is the configuration from the host, \<open>cs_wifi_tx\<close> the frames given to the Wi-Fi driver
  (one entry per attempt), \<open>cs_requests\<close> the messages given to the RPC endpoint, \<open>cs_hci\<close> the packets
  given to the controller and \<open>cs_freed\<close> how many packets were released.
\<close>

record cp_sys =
  cs_cp :: copro
  cs_cfg :: slv_cfg
  cs_station_connected :: bool
  cs_softap_started :: bool
  cs_wifi_tx :: "(wifi_if \<times> byte list) list"
  cs_requests :: "byte list list"
  cs_hci :: "byte list list"
  cs_freed :: nat

datatype rx_out = Rx_done cp_sys | Rx_waits | Rx_oob | Rx_abort

text \<open>
  The retry loop: \<open>res k\<close> is what \<open>esp_wifi_internal_tx\<close> returns at its \<open>k\<close>-th call, \<open>n\<close> the retries
  left. The result is the last status and the number of calls.
\<close>

definition MAX_WIFI_STA_TX_RETRY :: nat where "MAX_WIFI_STA_TX_RETRY = 2"

fun sta_tx :: "(nat \<Rightarrow> int) \<Rightarrow> nat \<Rightarrow> nat \<Rightarrow> int \<times> nat" where
  "sta_tx res k n =
     (if res k \<noteq> 0 \<and> 1 < n then sta_tx res (Suc k) (n - 1) else (res k, Suc k))"

declare sta_tx.simps [simp del]

definition rx_release :: "cp_sys \<Rightarrow> cp_sys" where
  "rx_release s = s\<lparr>cs_freed := Suc (cs_freed s)\<rparr>"

text \<open>\<open>hci\<close> says whether Bluetooth over the transport is built in.\<close>

definition process_rx_pkt :: "bool \<Rightarrow> bool \<Rightarrow> (nat \<Rightarrow> int) \<Rightarrow> ibuf \<Rightarrow> cp_sys \<Rightarrow> rx_out" where
  "process_rx_pkt retry hci res ib s =
     (let b = ib_payload ib; h = get_header b; off = unat (h_offset h); len = unat (h_len h);
          payload = take len (drop off b);
          fits = HDR \<le> length b \<and> off + len \<le> length b;
          guarded = (\<lambda>s'. if fits then Rx_done (rx_release s') else Rx_oob)
      in if ib_if_type ib = ESP_STA_IF \<and> cs_station_connected s then
           (let n = snd (sta_tx res 0 (if retry then MAX_WIFI_STA_TX_RETRY else 1))
            in guarded (s\<lparr>cs_wifi_tx := cs_wifi_tx s @ replicate n (WIFI_IF_STA, payload)\<rparr>))
         else if ib_if_type ib = ESP_AP_IF \<and> cs_softap_started s then
           guarded (s\<lparr>cs_wifi_tx := cs_wifi_tx s @ [(WIFI_IF_AP, payload)]\<rparr>)
         else if ib_if_type ib = ESP_SERIAL_IF then
           (if r_valid (cp_rx (cs_cp s)) then Rx_waits
            else case process_serial_rx_pkt (read_packet b) (cp_rx (cs_cp s)) of (r, m) \<Rightarrow>
              guarded (s\<lparr>cs_cp := (cs_cp s)\<lparr>cp_rx := r\<rparr>,
                         cs_requests := cs_requests s @ (case m of None \<Rightarrow> [] | Some x \<Rightarrow> [x])\<rparr>))
         else if ib_if_type ib = ESP_PRIV_IF then
           (case process_priv_pkt (drop off b) (h_len h) (cs_cfg s) of
              Tlv_done cfg \<Rightarrow> Rx_done (rx_release (s\<lparr>cs_cfg := cfg\<rparr>))
            | Tlv_oob \<Rightarrow> Rx_oob
            | Tlv_abort \<Rightarrow> Rx_abort)
         else if ib_if_type ib = ESP_HCI_IF \<and> hci then
           guarded (s\<lparr>cs_hci := cs_hci s @ [payload]\<rparr>)
         else Rx_done (rx_release s))"

text \<open>One round of \<open>recv_task\<close>: \<open>rd\<close> is what the driver's \<open>read\<close> gives.\<close>

definition recv_round ::
  "bool \<Rightarrow> bool \<Rightarrow> bool \<Rightarrow> (nat \<Rightarrow> int) \<Rightarrow> (int \<times> ibuf) \<Rightarrow> cp_sys \<Rightarrow> rx_out" where
  "recv_round saving retry hci res rd s =
     (if saving \<or> \<not> cp_datapath (cs_cp s) then Rx_done s
      else if fst rd \<le> 0 then Rx_done s
      else process_rx_pkt retry hci res (snd rd) s)"

subsection \<open>Events of the bus driver and their tasks\<close>

text \<open>
  \<open>cc_hps\<close> is the power-save state with the driver's state behind \<open>if_handle\<close>, \<open>cc_reset_sem\<close> the
  binary semaphore (\<open>None\<close> before it is created), \<open>cc_alerts\<close> the alert tasks that were created and
  did not run yet, \<open>cc_startups\<close> the start-up events sent and \<open>cc_events\<close> the RPC events sent.
\<close>

record cp_ctl =
  cc_hps :: hps
  cc_datapath :: bool
  cc_reset_sem :: "bool option"
  cc_alerts :: "ps_evt list"
  cc_startups :: "byte list list"
  cc_events :: "int list"

datatype bus_event = Ev_open_data_path | Ev_close_data_path | Ev_power_save_on | Ev_power_save_off | Ev_other

definition give_reset :: "cp_ctl \<Rightarrow> cp_ctl" where
  "give_reset s = s\<lparr>cc_reset_sem := map_option (\<lambda>_. True) (cc_reset_sem s)\<rparr>"

definition set_if_state :: "if_state \<Rightarrow> cp_ctl \<Rightarrow> cp_ctl" where
  "set_if_state x s = s\<lparr>cc_hps := (cc_hps s)\<lparr>hp_if := map_option (\<lambda>_. x) (hp_if (cc_hps s))\<rparr>\<rparr>"

text \<open>\<open>None\<close>: the null \<open>if_handle\<close> is dereferenced.\<close>

definition event_handler :: "bus_event \<Rightarrow> cp_ctl \<Rightarrow> cp_ctl option" where
  "event_handler ev s =
     (case ev of
        Ev_open_data_path \<Rightarrow>
          Some (if hp_if (cc_hps s) = None then s
                else give_reset ((set_if_state ACTIVE s)\<lparr>cc_datapath := True\<rparr>))
      | Ev_close_data_path \<Rightarrow>
          Some (let s1 = s\<lparr>cc_datapath := False\<rparr> in
                if hp_if (cc_hps s1) = Some ACTIVE then set_if_state DEACTIVE s1 else s1)
      | Ev_power_save_on \<Rightarrow> Some (s\<lparr>cc_alerts := cc_alerts s @ [PS_ON]\<rparr>)
      | Ev_power_save_off \<Rightarrow>
          (if hp_if (cc_hps s) = None then None
           else Some ((set_if_state ACTIVE s)\<lparr>cc_datapath := True, cc_alerts := cc_alerts s @ [PS_OFF]\<rparr>))
      | Ev_other \<Rightarrow> Some s)"

text \<open>\<open>power_save_alert_task\<close>, run as one step.\<close>

definition power_save_alert_task :: "bool \<Rightarrow> bool \<Rightarrow> ps_evt \<Rightarrow> cp_ctl \<Rightarrow> cp_ctl option" where
  "power_save_alert_task deep ops_deinit evt s =
     (case host_power_save_alert deep ops_deinit evt (cc_hps s) of
        Hp_ret _ h \<Rightarrow> Some (if evt = PS_OFF then give_reset (s\<lparr>cc_hps := h\<rparr>) else s\<lparr>cc_hps := h\<rparr>)
      | _ \<Rightarrow> None)"

definition RPC_ID__Event_ESPInit :: int where "RPC_ID__Event_ESPInit = 769"

text \<open>One round of \<open>host_reset_task\<close>; it waits (no change) while the semaphore is not given.\<close>

definition host_reset_round :: "build \<Rightarrow> startup_env \<Rightarrow> cp_ctl \<Rightarrow> cp_ctl" where
  "host_reset_round b e s =
     (if cc_reset_sem s = Some True then
        s\<lparr>cc_reset_sem := Some False,
          cc_startups := cc_startups s @ [generate_startup_event (bd_bus b) e (get_capabilities b) (get_capabilities_ext b)],
          cc_events := cc_events s @ [RPC_ID__Event_ESPInit]\<rparr>
      else s)"

text \<open>The interrupts and tasks together; tasks created one after the other may run in any order.\<close>

inductive ctl_step :: "bool \<Rightarrow> bool \<Rightarrow> build \<Rightarrow> startup_env \<Rightarrow> cp_ctl \<Rightarrow> cp_ctl \<Rightarrow> bool"
  for deep ops_deinit b e where
  ctl_event: "event_handler ev s = Some s' \<Longrightarrow> ctl_step deep ops_deinit b e s s'"
| ctl_alert: "cc_alerts s = xs @ evt # ys \<Longrightarrow>
    power_save_alert_task deep ops_deinit evt (s\<lparr>cc_alerts := xs @ ys\<rparr>) = Some s' \<Longrightarrow>
    ctl_step deep ops_deinit b e s s'"
| ctl_reset: "cc_reset_sem s = Some True \<Longrightarrow> ctl_step deep ops_deinit b e s (host_reset_round b e s)"

text \<open>The reset pin: level and clock of an edge, and the time of the last falling one.\<close>

definition gpio_resetpin_isr_handler :: "bool \<Rightarrow> u32 \<Rightarrow> u32 \<Rightarrow> bool \<times> u32" where
  "gpio_resetpin_isr_handler level now last_us =
     (if \<not> level then (False, now) else (500 \<le> now - last_us, last_us))"

fun reset_edges :: "(bool \<times> u32) list \<Rightarrow> u32 \<Rightarrow> bool" where
  "reset_edges [] last_us = False"
| "reset_edges ((level, now) # es) last_us =
     (case gpio_resetpin_isr_handler level now last_us of (restart, l) \<Rightarrow> restart \<or> reset_edges es l)"

subsection \<open>Set-up of the station\<close>

text \<open>
  \<open>create_slave_sta_netif\<close> without the reuse of the default interface: the calls made, and whether
  it ended; a null interface or a failed call stops the firmware.
\<close>

datatype idf_call = Netif_new bool | Attach_station | Default_handlers | Dhcpc_stop | Wifi_init
  | Wifi_storage_flash | Register_event_handlers | Wifi_mode_sta | Set_sta_config | Wifi_ps_none
  | Wifi_start

text \<open>\<open>ESP_ERROR_CHECK\<close> on calls in order: those made, and whether all succeeded.\<close>

fun checked :: "(idf_call \<Rightarrow> esp_err) \<Rightarrow> idf_call list \<Rightarrow> idf_call list \<times> bool" where
  "checked res [] = ([], True)"
| "checked res (c # cs) =
     (if res c \<noteq> ESP_OK then ([c], False)
      else case checked res cs of (ds, ok) \<Rightarrow> (c # ds, ok))"

definition create_slave_sta_netif :: "(idf_call \<Rightarrow> esp_err) \<Rightarrow> bool \<Rightarrow> bool \<Rightarrow> idf_call list \<times> bool" where
  "create_slave_sta_netif res exists dhcp_at_slave =
     (if exists then ([], True)
      else checked res ([Netif_new dhcp_at_slave, Attach_station, Default_handlers] @
             (if \<not> dhcp_at_slave then [Dhcpc_stop] else [])))"

text \<open>\<open>stored\<close> is the SSID the driver has stored, \<open>None\<close> if it cannot be read.\<close>

definition wifi_is_provisioned :: "byte list option \<Rightarrow> bool" where
  "wifi_is_provisioned stored = (case stored of None \<Rightarrow> False | Some ssid \<Rightarrow> c_string ssid \<noteq> [])"

definition connect_sta :: "(idf_call \<Rightarrow> esp_err) \<Rightarrow> bool \<Rightarrow> byte list option \<Rightarrow> idf_call list \<times> bool" where
  "connect_sta res example_cfg stored =
     checked (res(Register_event_handlers := ESP_OK))
       ([Wifi_init, Wifi_storage_flash, Register_event_handlers, Wifi_mode_sta] @
        (if example_cfg \<and> \<not> wifi_is_provisioned stored then [Set_sta_config] else []) @
        [Wifi_ps_none, Wifi_start])"

subsection \<open>Initialisation\<close>

text \<open>
  What the steps of \<open>esp_hosted_coprocessor_init\<close> return. \<open>bt_split\<close> and \<open>bt_ports\<close>: the network split and
  its reserved ports are built in; \<open>bt_example\<close>: the example's Wi-Fi configuration.
\<close>

record init_env =
  bt_spi :: bool
  bt_split :: bool
  bt_ports :: bool
  bt_example :: bool
  bt_reset_pin :: bool
  bt_sem :: bool
  bt_driver :: bool
  bt_handle :: bool
  bt_recv_task :: bool
  bt_netif_init :: esp_err
  bt_loop :: esp_err
  bt_protocomm :: bool
  bt_ep_rsp :: esp_err
  bt_ep_evt :: esp_err
  bt_calls :: "idf_call \<Rightarrow> esp_err"
  bt_ssid :: "byte list option"
  bt_reset_task :: bool

datatype boot_step = B_reset_sem | B_driver | B_handle | B_recv_task | B_datapath | B_event_loop
  | B_reset_pin | B_port_rules | B_protocomm | B_endpoint_rsp | B_endpoint_evt | B_pserial
  | B_sta_netif | B_sta | B_wakeup | B_reset_task

text \<open>The static flag, and the steps done so far.\<close>

record boot_state =
  bs_init_done :: bool
  bs_steps :: "boot_step list"

datatype boot_out = Boot_ret esp_err boot_state | Boot_abort

definition did :: "boot_step list \<Rightarrow> boot_state \<Rightarrow> boot_state" where
  "did xs s = s\<lparr>bs_steps := bs_steps s @ xs\<rparr>"

definition when_built :: "bool \<Rightarrow> boot_step \<Rightarrow> boot_step list" where
  "when_built c x = (if c then [x] else [])"

definition boot_tail :: "init_env \<Rightarrow> boot_state \<Rightarrow> boot_out" where
  "boot_tail e s =
     (let s1 = did (when_built (bt_reset_pin e) B_reset_pin @
                    when_built (bt_split e \<and> bt_ports e) B_port_rules) s
      in if \<not> bt_protocomm e then Boot_ret ESP_FAIL s1
         else let s2 = did [B_protocomm] s1 in
         if bt_ep_rsp e \<noteq> ESP_OK then Boot_ret ESP_FAIL s2
         else let s3 = did [B_endpoint_rsp] s2 in
         if bt_ep_evt e \<noteq> ESP_OK then Boot_ret ESP_FAIL s3
         else let s4 = did [B_endpoint_evt, B_pserial] s3 in
         if bt_split e \<and> \<not> snd (create_slave_sta_netif (bt_calls e) False True) then Boot_abort
         else let s5 = did (when_built (bt_split e) B_sta_netif) s4 in
         if (bt_split e \<or> bt_example e) \<and> \<not> snd (connect_sta (bt_calls e) (bt_example e) (bt_ssid e))
         then Boot_abort
         else let s6 = did (when_built (bt_split e \<or> bt_example e) B_sta @ [B_wakeup]) s5 in
         if \<not> bt_reset_task e then Boot_abort else Boot_ret ESP_OK (did [B_reset_task] s6))"

definition esp_hosted_coprocessor_init :: "init_env \<Rightarrow> boot_state \<Rightarrow> boot_out" where
  "esp_hosted_coprocessor_init e s =
     (if bs_init_done s then Boot_ret ESP_OK s
      else let s0 = s\<lparr>bs_init_done := True\<rparr> in
      if \<not> bt_sem e then Boot_abort
      else let s1 = did [B_reset_sem] s0 in
      if \<not> bt_driver e then Boot_ret ESP_FAIL s1
      else let s2 = did [B_driver] s1 in
      if \<not> bt_handle e then Boot_ret ESP_FAIL s2
      else let s3 = did [B_handle] s2 in
      if \<not> bt_recv_task e then Boot_abort
      else let s4 = did (B_recv_task # when_built (bt_spi e) B_datapath) s3 in
      if bt_split e \<and> bt_netif_init e \<noteq> ESP_OK then Boot_abort
      else if bt_loop e \<noteq> ESP_OK \<and> bt_loop e \<noteq> ESP_ERR_INVALID_STATE then Boot_ret (bt_loop e) s4
      else boot_tail e (did [B_event_loop] s4))"

subsection \<open>Lemmas\<close>

text \<open>The driver's buffer is given away by an entry of the log.\<close>

fun eb_gone :: "wifi_act \<Rightarrow> bool" where
  "eb_gone (Freed Eb) = True"
| "eb_gone (To_netif b) = True"
| "eb_gone (Freed Copy_buff) = False"

definition gone_once :: "wifi_act list \<Rightarrow> bool" where
  "gone_once as \<longleftrightarrow> length (filter eb_gone as) = 1"

lemma gone_once_simps [simp]:
  "gone_once [Freed Eb]" "gone_once [To_netif b]" "gone_once [To_netif b, Freed Copy_buff]"
  "gone_once [Freed Eb, Freed Copy_buff]"
  by (simp_all add: gone_once_def)

lemma send_owned_ok: "send_owned pm ib own s = (ESP_OK, process_tx_pkt pm ib s, [Freed own])"
  by (simp add: send_owned_def send_to_host_queue_def)

lemma sta_to_host_done:
  "\<exists>s1. sta_to_host pm b r s = Sta_done s1 r [Freed Eb] \<and>
     (cp_written s1 = cp_written s \<or> cp_datapath s)"
  by (simp add: sta_to_host_def send_owned_ok)

text \<open>A frame that reaches the bus was routed to the host.\<close>

lemma sta_written_routed:
  assumes "wlan_sta_rx_callback pm (Some e) netif alloc (Some b) True r s = Sta_done s' r' acts"
    "cp_written s' \<noteq> cp_written s"
  shows "\<exists>br. nw_split_filter_and_route_packet e b r = Some (br, r') \<and>
    (br = HOST_LWIP_BRIDGE \<or> br = BOTH_LWIP_BRIDGE)"
  using assms
  by (auto simp: wlan_sta_rx_callback_def sta_to_host_def send_owned_ok
      split: option.splits bridge.splits if_splits prod.splits)

lemma sta_released:
  assumes "wlan_sta_rx_callback pm split netif alloc (Some b) True r s = Sta_done s' r' acts"
  shows "gone_once acts"
  using assms
  by (auto simp: wlan_sta_rx_callback_def sta_to_host_def send_owned_ok
      split: option.splits bridge.splits if_splits prod.splits)

text \<open>The Wi-Fi driver gets a frame at most twice.\<close>

lemma sta_tx_two: "sta_tx res 0 MAX_WIFI_STA_TX_RETRY = (if res 0 \<noteq> 0 then (res 1, 2) else (res 0, 1))"
  by (simp add: sta_tx.simps [of res 0 2] sta_tx.simps [of res 1 1] MAX_WIFI_STA_TX_RETRY_def
      numeral_2_eq_2 [symmetric] sta_tx.simps [of res "Suc 0" "Suc 0"])

text \<open>A low pulse restarts the co-processor exactly when it lasts half a millisecond, also across
  the wrap of the clock.\<close>

lemma reset_pulse:
  assumes "w < 2 ^ 32"
  shows "reset_edges [(False, t), (True, t + word_of_nat w)] l \<longleftrightarrow> 500 \<le> w"
proof -
  have "unat (word_of_nat w :: u32) = w" using assms by (simp add: unsigned_of_nat take_bit_nat_eq_self)
  then show ?thesis by (simp add: gpio_resetpin_isr_handler_def word_le_nat_alt)
qed

text \<open>The bit the host looks for to announce Bluetooth over UART is never set.\<close>

lemma no_vhci_bit: "get_capabilities_ext b AND ESP_BT_VHCI_UART_SUPPORT = 0"
  by (simp add: get_capabilities_ext_def get_bluetooth_ext_capabilities_def capability_bits
      bit.conj_disj_distrib2 and.commute)

text \<open>A failed initialisation.\<close>

lemma did_simps [simp]:
  "bs_init_done (did xs s) = bs_init_done s" "bs_steps (did xs s) = bs_steps s @ xs"
  by (simp_all add: did_def)

lemma when_built_set [simp]: "y \<in> set (when_built c x) \<longleftrightarrow> c \<and> y = x"
  unfolding when_built_def by (cases c) simp_all

lemma failed_tail:
  assumes "boot_tail e s = Boot_ret err s'" "err \<noteq> ESP_OK" "B_reset_task \<notin> set (bs_steps s)"
  shows "bs_init_done s' = bs_init_done s \<and> B_reset_task \<notin> set (bs_steps s')"
  using assms
  by (auto simp: boot_tail_def Let_def split: if_split_asm)

lemma failed_init:
  assumes "esp_hosted_coprocessor_init e \<lparr> bs_init_done = False, bs_steps = [] \<rparr> = Boot_ret err s"
    "err \<noteq> ESP_OK"
  shows "bs_init_done s \<and> B_reset_task \<notin> set (bs_steps s)"
  using assms
  by (auto simp: esp_hosted_coprocessor_init_def Let_def
      split: if_split_asm dest!: failed_tail)

text \<open>One alert task, when it is its turn.\<close>

definition alerts_ready :: "ps_evt list \<Rightarrow> if_state \<Rightarrow> cp_ctl \<Rightarrow> bool" where
  "alerts_ready xs st s \<longleftrightarrow> cc_alerts s = xs \<and> hp_enable (cc_hps s) \<and> hp_if (cc_hps s) = Some st"

lemma alert_on:
  assumes "hp_enable h" "hp_if h = Some st"
  shows "\<exists>h'. host_power_save_alert deep True PS_ON h = Hp_ret 0 h' \<and> hp_enable h' \<and> hp_saving h' \<and>
    hp_if h' = Some DEINIT"
  using assms by (cases deep; cases st) (simp_all add: host_power_save_alert_def Let_def)

lemma alert_off:
  assumes "hp_enable h" "hp_if h = Some st"
  shows "\<exists>h'. host_power_save_alert deep od PS_OFF h = Hp_ret 0 h' \<and> hp_enable h' \<and> \<not> hp_saving h' \<and>
    hp_if h' = Some st"
  using assms by (cases deep) (simp_all add: host_power_save_alert_def Let_def)

lemma run_on:
  assumes "alerts_ready (xs @ PS_ON # ys) st s"
  shows "\<exists>a. ctl_step deep True bld e s a \<and> alerts_ready (xs @ ys) DEINIT a \<and> hp_saving (cc_hps a) \<and>
    cc_datapath a = cc_datapath s"
proof -
  obtain h where h: "host_power_save_alert deep True PS_ON (cc_hps s) = Hp_ret 0 h"
    "hp_enable h" "hp_saving h" "hp_if h = Some DEINIT"
    using assms alert_on [of "cc_hps s" st deep] by (auto simp: alerts_ready_def)
  let ?a = "s\<lparr>cc_alerts := xs @ ys, cc_hps := h\<rparr>"
  have "power_save_alert_task deep True PS_ON (s\<lparr>cc_alerts := xs @ ys\<rparr>) = Some ?a"
    using h by (simp add: power_save_alert_task_def)
  with assms have "ctl_step deep True bld e s ?a" unfolding alerts_ready_def by (blast intro: ctl_alert)
  then show ?thesis using h by (intro exI [of _ ?a]) (simp add: alerts_ready_def)
qed

lemma run_off:
  assumes "alerts_ready (xs @ PS_OFF # ys) st s"
  shows "\<exists>a. ctl_step deep True bld e s a \<and> alerts_ready (xs @ ys) st a \<and> \<not> hp_saving (cc_hps a) \<and>
    cc_datapath a = cc_datapath s"
proof -
  obtain h where h: "host_power_save_alert deep True PS_OFF (cc_hps s) = Hp_ret 0 h"
    "hp_enable h" "\<not> hp_saving h" "hp_if h = Some st"
    using assms alert_off [of "cc_hps s" st deep True] by (auto simp: alerts_ready_def)
  let ?a = "give_reset (s\<lparr>cc_alerts := xs @ ys, cc_hps := h\<rparr>)"
  have "power_save_alert_task deep True PS_OFF (s\<lparr>cc_alerts := xs @ ys\<rparr>) = Some ?a"
    using h by (simp add: power_save_alert_task_def)
  with assms have "ctl_step deep True bld e s ?a" unfolding alerts_ready_def by (blast intro: ctl_alert)
  then show ?thesis using h by (intro exI [of _ ?a]) (simp add: alerts_ready_def give_reset_def)
qed

text \<open>What survives of a frame in the receive buffer: its body, whatever follows.\<close>

lemma read_packet_body:
  assumes "read_packet p = (f, q, body)"
  shows "\<exists>pad. drop (unat (h_offset (get_header p))) p = body @ pad"
proof -
  let ?d = "drop (unat (h_offset (get_header p))) p" and ?n = "unat (h_len (get_header p))"
  have "body = take ?n ?d" using assms by (simp add: read_packet_def Let_def)
  then have "?d = body @ drop ?n ?d" by (simp only: append_take_drop_id)
  then show ?thesis by blast
qed

lemma read_packet_fits:
  assumes "read_packet p = (f, q, body)" "length body = unat (h_len (get_header p))"
    "0 < length body"
  shows "unat (h_offset (get_header p)) + unat (h_len (get_header p)) \<le> length p"
proof -
  have "take (unat (h_len (get_header p))) (drop (unat (h_offset (get_header p))) p) = body"
    using assms(1) by (simp add: read_packet_def Let_def)
  then have "length body = min (unat (h_len (get_header p))) (length p - unat (h_offset (get_header p)))"
    by auto
  then show ?thesis using assms(2,3) by linarith
qed

text \<open>The co-processor's side of the handshake, from the bus to its configuration.\<close>

lemma slave_takes_config:
  assumes "HDR + length (ib_payload (config_pkt c chip)) \<le> n" "n < 65536"
    "n \<le> HDR + length (ib_payload (config_pkt c chip)) + length pad"
  obtains ib where "sdio_rx_step chk (sdio_frame chk (length (ib_payload (config_pkt c chip))) (config_pkt c chip) @ pad) n =
      (None, Some (PRIO_Q_OTHERS, ib))"
    "process_rx_pkt retry hci res ib s = Rx_done (rx_release (s\<lparr>cs_cfg := (cs_cfg s)
      \<lparr>throttle_high_threshold := hk_thr_high c, throttle_low_threshold := hk_thr_low c\<rparr>\<rparr>))"
proof -
  let ?q = "config_pkt c chip" and ?body = "priv_event (config_tlvs c chip)"
  have body: "wire_body ?q = ?body" "ib_payload ?q = ?body"
    by (simp_all add: wire_body_def config_pkt_def esp_ifs)
  have len: "length ?body = 17" by (simp add: priv_event_def config_tlvs_def)
  obtain pt where f: "sdio_frame chk (length (ib_payload ?q)) ?q = seal chk (tx_header ?q (length ?body) pt) ?body"
    using sdio_frame_seal [of chk ?q] body by auto
  obtain p where p: "sdio_rx_step chk (seal chk (tx_header ?q (length ?body) pt) ?body @ pad) n =
      (ps_flag_event 0, Some (prio_of ESP_PRIV_IF, \<lparr> ib_if_type = ESP_PRIV_IF, ib_if_num = 0, ib_flag = 0,
         ib_seq = 0, ib_payload = p, ib_zcopy = False \<rparr>))"
    "length p = n" "read_packet p = (0, 0, ?body)"
    by (rule sdio_rx_seal [of "tx_header ?q (length ?body) pt" ?body n pad chk])
      (use assms len body in \<open>auto simp: config_pkt_def esp_ifs sdio_sizes\<close>)
  obtain rest where rest: "drop (unat (h_offset (get_header p))) p = ?body @ rest"
    using read_packet_body [OF p(3)] by blast
  have "take (unat (h_len (get_header p))) (?body @ rest) = ?body"
    using p(3) rest by (simp add: read_packet_def Let_def)
  then have ne: "h_len (get_header p) \<noteq> 0" using len by auto
  have cfg: "process_priv_pkt (?body @ rest) (h_len (get_header p)) (cs_cfg s) = Tlv_done ((cs_cfg s)
      \<lparr>throttle_high_threshold := hk_thr_high c, throttle_low_threshold := hk_thr_low c\<rparr>)"
    by (rule slave_reads_config [OF ne])
  let ?ib = "\<lparr> ib_if_type = ESP_PRIV_IF, ib_if_num = 0, ib_flag = 0, ib_seq = 0, ib_payload = p,
    ib_zcopy = False \<rparr>"
  have 1: "sdio_rx_step chk (sdio_frame chk (length (ib_payload ?q)) ?q @ pad) n = (None, Some (PRIO_Q_OTHERS, ?ib))"
    using p(1) f by (simp add: ps_flag_event_def prio_of_def esp_ifs)
  have 2: "process_rx_pkt retry hci res ?ib s = Rx_done (rx_release (s\<lparr>cs_cfg := (cs_cfg s)
      \<lparr>throttle_high_threshold := hk_thr_high c, throttle_low_threshold := hk_thr_low c\<rparr>\<rparr>))"
    using cfg rest by (simp add: process_rx_pkt_def Let_def esp_ifs)
  show ?thesis by (rule that [OF 1 2])
qed

text \<open>The host's side, from the bus to its state.\<close>

lemma host_takes_startup:
  assumes "su_chip e = hk_chip c" "su_chip e \<in> set known_chips"
    "hk_sdio c \<Longrightarrow> su_streaming e \<Longrightarrow> hk_sdio_streaming c"
  obtains p where "host_rx (su_chk e) (generate_startup_event Sdio_driver e cap ext @ pad) = Some (PRIO_Q_OTHERS, p)"
    "process_event c (ib_payload p @ mem) (word_of_nat (length (ib_payload p))) s =
      Tlv_done (host_final c Sdio_driver e cap ext s)"
proof -
  obtain b pd where f: "generate_startup_event Sdio_driver e cap ext =
      seal (su_chk e) (startup_header b) (priv_event b) @ pd"
    and b: "tlvs b = Some (startup_tlvs Sdio_driver e cap ext)" "length b \<le> 64"
    using startup_event_tlvs [of e Sdio_driver cap ext] by (auto simp: carries_def)
  let ?p = "\<lparr> ib_if_type = ESP_PRIV_IF, ib_if_num = 0, ib_flag = 0, ib_seq = 0,
    ib_payload = priv_event b, ib_zcopy = False \<rparr>"
  have l: "length (priv_event b) = length b + 2" by (simp add: priv_event_def)
  have 1: "host_rx (su_chk e) (generate_startup_event Sdio_driver e cap ext @ pad) = Some (PRIO_Q_OTHERS, ?p)"
    using host_rx_seal [of "startup_header b" "priv_event b" "su_chk e" "pd @ pad"] l b(2)
    by (simp add: f startup_header_def esp_ifs sdio_sizes prio_of_def)
  have "length (priv_event b) < 65536" using l b(2) by simp
  then have "unat (word_of_nat (length (priv_event b)) :: u16) = length (priv_event b)"
    by (simp add: unsigned_of_nat take_bit_nat_eq_self)
  moreover have "length (priv_event b) \<noteq> 0" using l by simp
  ultimately have ne: "(word_of_nat (length (priv_event b)) :: u16) \<noteq> 0" by auto
  have 2: "process_event c (ib_payload ?p @ mem) (word_of_nat (length (ib_payload ?p))) s =
      Tlv_done (host_final c Sdio_driver e cap ext s)"
    using host_reads_event [OF b assms ne] by simp
  show ?thesis by (rule that [OF 1 2])
qed

subsection \<open>Properties\<close>


text \<open>The whole handshake over SDIO: the start-up event of a build crosses the bus, whatever follows
  it in the host's buffer; the host learns chip, version and the build's capability byte and
  queues its configuration; that crosses the bus the other way, and the co-processor's receive
  task sets its flow-control thresholds to the host's and releases the packet.\<close>

theorem sdio_handshake_configures:
  assumes "su_chip e = hk_chip c" "su_chip e \<in> set known_chips"
    "hk_sdio c \<Longrightarrow> su_streaming e \<Longrightarrow> hk_sdio_streaming c"
    "29 \<le> n" "n < 65536" "n \<le> 29 + length pad"
  shows "\<exists>p s' q ib. host_rx (su_chk e) (generate_startup_event Sdio_driver e (get_capabilities b)
        (get_capabilities_ext b) @ pad0) = Some (PRIO_Q_OTHERS, p) \<and>
    process_event c (ib_payload p @ mem) (word_of_nat (length (ib_payload p))) s = Tlv_done s' \<and>
    hu_chip_type s' = su_chip e \<and> hu_fw s' = su_fw e \<and> hu_caps s' = get_capabilities b \<and> hu_started s' \<and>
    hu_sent s' = Some (PRIO_Q_OTHERS, q) \<and>
    sdio_rx_step chk (sdio_frame chk (length (ib_payload q)) q @ pad) n = (None, Some (PRIO_Q_OTHERS, ib)) \<and>
    process_rx_pkt retry hci res ib cs = Rx_done (rx_release (cs\<lparr>cs_cfg := (cs_cfg cs)
      \<lparr>throttle_high_threshold := hk_thr_high c, throttle_low_threshold := hk_thr_low c\<rparr>\<rparr>))"
proof -
  let ?q = "config_pkt c (su_chip e)"
  have len: "length (ib_payload ?q) = 17"
    by (simp add: config_pkt_def priv_event_def config_tlvs_def)
  obtain ib where ib: "sdio_rx_step chk (sdio_frame chk (length (ib_payload ?q)) ?q @ pad) n = (None, Some (PRIO_Q_OTHERS, ib))"
    "process_rx_pkt retry hci res ib cs = Rx_done (rx_release (cs\<lparr>cs_cfg := (cs_cfg cs)
      \<lparr>throttle_high_threshold := hk_thr_high c, throttle_low_threshold := hk_thr_low c\<rparr>\<rparr>))"
    by (rule slave_takes_config [of c "su_chip e" n pad chk retry hci res cs])
      (use assms(4-6) len in \<open>simp_all add: HDR_def\<close>)
  obtain p where p: "host_rx (su_chk e) (generate_startup_event Sdio_driver e (get_capabilities b)
        (get_capabilities_ext b) @ pad0) = Some (PRIO_Q_OTHERS, p)"
    "process_event c (ib_payload p @ mem) (word_of_nat (length (ib_payload p))) s =
      Tlv_done (host_final c Sdio_driver e (get_capabilities b) (get_capabilities_ext b) s)"
    by (rule host_takes_startup [OF assms(1-3)])
  show ?thesis
    by (rule exI [of _ p], rule exI [of _ "host_final c Sdio_driver e (get_capabilities b) (get_capabilities_ext b) s"],
        rule exI [of _ ?q], rule exI [of _ ib])
      (use ib p in \<open>simp add: host_final_def host_after_def Let_def\<close>)
qed

text \<open>C14: Whatever the router, the data path, the sleeping host and the local interface decide, a
  frame from the station or the access point that is handled to its end gives the Wi-Fi driver's
  buffer back exactly once, freed or handed to the network interface.\<close>

theorem wifi_frame_released_once:
  assumes "wlan_sta_rx_callback pm split netif alloc (Some b) True r s = Sta_done s' r' acts"
  shows "length (filter eb_gone acts) = 1 \<and>
    length (filter eb_gone (snd (snd (wlan_ap_rx_callback pm (Some b) True s)))) = 1"
  using sta_released [OF assms]
  by (simp add: gone_once_def wlan_ap_rx_callback_def send_owned_ok)


text \<open>A first initialisation that fails leaves its static flag set: every later call returns
  success and does nothing, with the task that answers a host reset never created.\<close>

theorem failed_init_reports_success:
  assumes "esp_hosted_coprocessor_init e \<lparr> bs_init_done = False, bs_steps = [] \<rparr> = Boot_ret err s"
    "err \<noteq> ESP_OK"
  shows "esp_hosted_coprocessor_init e' s = Boot_ret ESP_OK s \<and> B_reset_task \<notin> set (bs_steps s)"
  using failed_init [OF assms] by (simp add: esp_hosted_coprocessor_init_def)

text \<open>Two alert tasks may swap. A host that announces power save and leaves it again is seen
  awake when the tasks run in order, but asleep, with its driver shut down and the data path open,
  when the second runs first.\<close>

theorem swapped_alerts_lose_host:
  assumes "cc_alerts s = []" "hp_enable (cc_hps s)" "hp_if (cc_hps s) = Some ACTIVE"
  shows "\<exists>s1 s2 a b c d. event_handler Ev_power_save_on s = Some s1 \<and>
    event_handler Ev_power_save_off s1 = Some s2 \<and>
    ctl_step deep True bld e s2 a \<and> ctl_step deep True bld e a b \<and> cc_alerts b = [] \<and>
    \<not> hp_saving (cc_hps b) \<and>
    ctl_step deep True bld e s2 c \<and> ctl_step deep True bld e c d \<and> cc_alerts d = [] \<and>
    hp_saving (cc_hps d) \<and> hp_if (cc_hps d) = Some DEINIT \<and> cc_datapath d"
proof -
  let ?s1 = "s\<lparr>cc_alerts := [PS_ON]\<rparr>"
  let ?s2 = "(set_if_state ACTIVE ?s1)\<lparr>cc_datapath := True, cc_alerts := [PS_ON, PS_OFF]\<rparr>"
  have ev: "event_handler Ev_power_save_on s = Some ?s1" "event_handler Ev_power_save_off ?s1 = Some ?s2"
    using assms by (simp_all add: event_handler_def)
  have s2: "alerts_ready [PS_ON, PS_OFF] ACTIVE ?s2" "cc_datapath ?s2"
    using assms by (simp_all add: alerts_ready_def set_if_state_def)
  obtain a where a: "ctl_step deep True bld e ?s2 a" "alerts_ready [PS_OFF] DEINIT a"
    using run_on [of "[]" "[PS_OFF]" ACTIVE ?s2] s2 by fastforce
  obtain b where b: "ctl_step deep True bld e a b" "alerts_ready [] DEINIT b" "\<not> hp_saving (cc_hps b)"
    using run_off [of "[]" "[]" DEINIT a] a by fastforce
  obtain c where c: "ctl_step deep True bld e ?s2 c" "alerts_ready [PS_ON] ACTIVE c" "cc_datapath c"
    using run_off [of "[PS_ON]" "[]" ACTIVE ?s2] s2 by fastforce
  obtain d where d: "ctl_step deep True bld e c d" "alerts_ready [] DEINIT d" "hp_saving (cc_hps d)"
    "cc_datapath d"
    using run_on [of "[]" "[]" ACTIVE c] c by fastforce
  show ?thesis
    using ev a b c d unfolding alerts_ready_def by blast
qed

subsection \<open>Concrete instances\<close>

definition sleeping_pm :: pm_env where
  "sleeping_pm = \<lparr> pm_saving = True, pm_wakeup_needed = (\<lambda>_. True), pm_wakeup_host = True \<rparr>"

definition demo_build :: build where
  "demo_build = \<lparr> bd_bus = Sdio_driver, bd_wifi = True, bd_bt = True, bd_bt_enabled = True,
     bd_bt_link = Bt_hci, bd_bt_mode = Ble, bd_checksum = True, bd_four_lines = False \<rparr>"

definition demo_sys :: cp_sys where
  "demo_sys = \<lparr> cs_cp = demo_copro, cs_cfg = \<lparr> throttle_high_threshold = 0, throttle_low_threshold = 0 \<rparr>,
     cs_station_connected = False, cs_softap_started = False, cs_wifi_tx = [], cs_requests = [],
     cs_hci = [], cs_freed = 0 \<rparr>"

text \<open>A frame for the reserved port 22 wakes the host.\<close>

lemma demo_ssh: "wlan_sta_rx_callback sleeping_pm (Some demo_split) True True
    (Some (demo_tcp 0 22 0 1)) True demo_router demo_copro =
    Sta_done (process_tx_pkt sleeping_pm (wifi_pkt ESP_STA_IF (demo_tcp 0 22 0 1)) demo_copro) demo_router [Freed Eb]"
proof -
  have r: "nw_split_filter_and_route_packet demo_split (demo_tcp 0 22 0 1) demo_router =
      Some (HOST_LWIP_BRIDGE, demo_router)" by code_simp
  show ?thesis by (simp add: wlan_sta_rx_callback_def r sta_to_host_def send_owned_ok demo_copro_def)
qed

lemma demo_ssh_written:
  "cp_written (process_tx_pkt sleeping_pm (wifi_pkt ESP_STA_IF b) demo_copro) \<noteq> cp_written demo_copro"
  by (simp add: process_tx_pkt_def demo_copro_def sleeping_pm_def)

theorem wifi_frame_released_once_witness:
  "\<exists>s' r' acts. wlan_sta_rx_callback sleeping_pm (Some demo_split) True True
    (Some (demo_tcp 0 22 0 1)) True demo_router demo_copro = Sta_done s' r' acts \<and>
    length (filter eb_gone acts) = 1"
  using demo_ssh wifi_frame_released_once [OF demo_ssh] by blast


theorem failed_init_reports_success_witness:
  "\<exists>e s. esp_hosted_coprocessor_init e \<lparr> bs_init_done = False, bs_steps = [] \<rparr> = Boot_ret ESP_FAIL s \<and>
    esp_hosted_coprocessor_init e s = Boot_ret ESP_OK s"
proof -
  let ?e = "\<lparr> bt_spi = False, bt_split = False, bt_ports = False, bt_example = False, bt_reset_pin = False,
    bt_sem = True, bt_driver = True, bt_handle = False, bt_recv_task = True, bt_netif_init = ESP_OK,
    bt_loop = ESP_OK, bt_protocomm = True, bt_ep_rsp = ESP_OK, bt_ep_evt = ESP_OK,
    bt_calls = (\<lambda>_. ESP_OK), bt_ssid = None, bt_reset_task = True \<rparr>"
  have "esp_hosted_coprocessor_init ?e \<lparr> bs_init_done = False, bs_steps = [] \<rparr> =
      Boot_ret ESP_FAIL \<lparr> bs_init_done = True, bs_steps = [B_reset_sem, B_driver] \<rparr>"
    by (simp add: esp_hosted_coprocessor_init_def did_def)
  moreover have "ESP_FAIL \<noteq> ESP_OK" by (simp add: esp_errs)
  ultimately show ?thesis using failed_init_reports_success by blast
qed

definition demo_ctl :: cp_ctl where
  "demo_ctl = \<lparr> cc_hps = hps_start\<lparr>hp_enable := True, hp_if := Some ACTIVE\<rparr>, cc_datapath = True,
     cc_reset_sem = Some False, cc_alerts = [], cc_startups = [], cc_events = [] \<rparr>"

theorem swapped_alerts_lose_host_witness:
  "\<exists>s2 c d. ctl_step True True demo_build demo_startup s2 c \<and> ctl_step True True demo_build demo_startup c d \<and>
    hp_saving (cc_hps d) \<and> cc_datapath d"
  using swapped_alerts_lose_host [of demo_ctl True demo_build demo_startup]
  by (auto simp: demo_ctl_def)

theorem sdio_handshake_configures_witness:
  "\<exists>p s' q ib. host_rx True (generate_startup_event Sdio_driver demo_startup (get_capabilities demo_build)
        (get_capabilities_ext demo_build) @ [9]) = Some (PRIO_Q_OTHERS, p) \<and>
    process_event demo_host_conf (ib_payload p @ [9]) (word_of_nat (length (ib_payload p))) demo_host_up = Tlv_done s' \<and>
    hu_sent s' = Some (PRIO_Q_OTHERS, q) \<and>
    process_rx_pkt True True (\<lambda>_. 0) ib demo_sys =
      Rx_done (rx_release (demo_sys\<lparr>cs_cfg := \<lparr> throttle_high_threshold = 80, throttle_low_threshold = 60 \<rparr>\<rparr>))"
  using sdio_handshake_configures [of demo_startup demo_host_conf 30 "[0, 0]" demo_build "[9]" "[9]" demo_host_up
      True True True "\<lambda>_. 0" demo_sys]
  by (fastforce simp: demo_startup_def demo_host_conf_def known_chips_def demo_sys_def)

end
