(* ===== verification/Wifi_Events.thy ===== *)
theory Wifi_Events
  imports Wifi_Scan
begin

section \<open>Wi-Fi events on their way to the host (slave_wifi_std.c, rpc_evt.c)\<close>

text \<open>
  The handlers that turn an event of the Wi-Fi driver into an RPC event, and the host's parser that turns
  it back. The driver's structures have narrow fields, the messages 32-bit ones. \<open>mem k\<close> says whether the
  \<open>k\<close>-th allocation of a handler succeeds.
\<close>

subsection \<open>Events\<close>

record sta_conn =
  cn_ssid :: "byte list"
  cn_ssid_len :: u8
  cn_bssid :: "byte list"
  cn_channel :: u8
  cn_authmode :: u32
  cn_aid :: u16

record sta_disc =
  dn_ssid :: "byte list"
  dn_ssid_len :: u8
  dn_bssid :: "byte list"
  dn_reason :: u8
  dn_rssi :: "8 word"

record itwt_event =
  tv_config :: itwt_cfg
  tv_status :: u32
  tv_reason :: u8
  tv_target_wake_time :: "64 word"

datatype wifi_evt =
    V_scan_done u32 u8 u8
  | V_connected sta_conn
  | V_disconnected sta_disc
  | V_ap_staconnected "byte list" u8 bool
  | V_ap_stadisconnected "byte list" u8 bool u16
  | V_itwt_setup itwt_event
  | V_itwt_teardown u8 u32
  | V_itwt_suspend u32 u8 "u32 list"
  | V_itwt_probe u32 u8
  | V_dpp_uri "byte list"
  | V_dpp_fail u32

record sta_conn_msg =
  nm_ssid :: "byte list"
  nm_ssid_len :: u32
  nm_bssid :: "byte list"
  nm_channel :: u32
  nm_authmode :: u32
  nm_aid :: u32

record sta_disc_msg =
  xm_ssid :: "byte list"
  xm_ssid_len :: u32
  xm_bssid :: "byte list"
  xm_reason :: u32
  xm_rssi :: u32

record itwt_evt_msg =
  tm_config :: "itwt_msg option"
  tm_status :: u32
  tm_reason :: u32
  tm_target_wake_time :: "64 word"

datatype evt_msg =
    N_scan_done "(u32 \<times> u32 \<times> u32) option"
  | N_connected "sta_conn_msg option"
  | N_disconnected "sta_disc_msg option"
  | N_ap_staconnected "byte list" u32 bool
  | N_ap_stadisconnected "byte list" u32 bool u32
  | N_itwt_setup itwt_evt_msg
  | N_itwt_teardown u32 u32
  | N_itwt_suspend u32 u32 "u32 list"
  | N_itwt_probe u32 u32
  | N_dpp_uri "byte list"
  | N_dpp_fail u32

text \<open>The answer: the status field of the message and the message.\<close>

type_synonym ntfy = "(int \<times> evt_msg) answered"

subsection \<open>The macros of the event handlers (slave_control.h)\<close>

definition ntfy_template :: "bool \<Rightarrow> ntfy \<Rightarrow> ntfy" where
  "ntfy_template ok body = (if ok then body else (ESP_ERR_NO_MEM, None))"

definition ntfy_alloc_element :: "bool \<Rightarrow> evt_msg \<Rightarrow> ntfy \<Rightarrow> ntfy" where
  "ntfy_alloc_element ok m body = (if ok then body else (ESP_OK, Some (RPC_ERR_MEMORY_FAILURE, m)))"

definition ntfy_copy_bytes :: "bool \<Rightarrow> byte list \<Rightarrow> nat \<Rightarrow> evt_msg \<Rightarrow> (byte list \<Rightarrow> ntfy) \<Rightarrow> ntfy" where
  "ntfy_copy_bytes ok src num m body =
     (if num = 0 then body []
      else if \<not> ok then (ESP_OK, Some (FAILURE, m)) else body (take num src))"

subsection \<open>The handlers of the co-processor\<close>

definition rpc_evt_sta_scan_done :: "(nat \<Rightarrow> bool) \<Rightarrow> u32 \<Rightarrow> u8 \<Rightarrow> u8 \<Rightarrow> ntfy" where
  "rpc_evt_sta_scan_done mem status number scan_id =
     ntfy_template (mem 0) (ntfy_alloc_element (mem 1) (N_scan_done None)
       (ESP_OK, Some (SUCCESS, N_scan_done (Some (status, ucast number, ucast scan_id)))))"

definition no_conn_msg :: sta_conn_msg where
  "no_conn_msg = \<lparr> nm_ssid = [], nm_ssid_len = 0, nm_bssid = [], nm_channel = 0, nm_authmode = 0, nm_aid = 0 \<rparr>"

definition rpc_evt_sta_connected :: "(nat \<Rightarrow> bool) \<Rightarrow> sta_conn \<Rightarrow> ntfy" where
  "rpc_evt_sta_connected mem e =
     ntfy_template (mem 0) (ntfy_alloc_element (mem 1) (N_connected None)
      (ntfy_copy_bytes (mem 2) (cn_ssid e) 32 (N_connected (Some no_conn_msg)) (\<lambda>ssid.
        let m = no_conn_msg\<lparr>nm_ssid := ssid, nm_ssid_len := ucast (cn_ssid_len e)\<rparr> in
        ntfy_copy_bytes (mem 3) (cn_bssid e) 6 (N_connected (Some m)) (\<lambda>bssid.
          (ESP_OK, Some (SUCCESS, N_connected (Some (m\<lparr>nm_bssid := bssid, nm_channel := ucast (cn_channel e),
            nm_authmode := cn_authmode e, nm_aid := ucast (cn_aid e)\<rparr>))))))))"

definition no_disc_msg :: sta_disc_msg where
  "no_disc_msg = \<lparr> xm_ssid = [], xm_ssid_len = 0, xm_bssid = [], xm_reason = 0, xm_rssi = 0 \<rparr>"

definition rpc_evt_sta_disconnected :: "(nat \<Rightarrow> bool) \<Rightarrow> sta_disc \<Rightarrow> ntfy" where
  "rpc_evt_sta_disconnected mem e =
     ntfy_template (mem 0) (ntfy_alloc_element (mem 1) (N_disconnected None)
      (ntfy_copy_bytes (mem 2) (dn_ssid e) 32 (N_disconnected (Some no_disc_msg)) (\<lambda>ssid.
        let m = no_disc_msg\<lparr>xm_ssid := ssid, xm_ssid_len := ucast (dn_ssid_len e)\<rparr> in
        ntfy_copy_bytes (mem 3) (dn_bssid e) 6 (N_disconnected (Some m)) (\<lambda>bssid.
          (ESP_OK, Some (SUCCESS, N_disconnected (Some (m\<lparr>xm_bssid := bssid,
            xm_reason := ucast (dn_reason e), xm_rssi := scast (dn_rssi e)\<rparr>))))))))"

text \<open>One handler for both events of a station of the access point; any other event is refused.\<close>

definition rpc_evt_ap_staconn_conn_disconn :: "(nat \<Rightarrow> bool) \<Rightarrow> wifi_evt \<Rightarrow> ntfy" where
  "rpc_evt_ap_staconn_conn_disconn mem ev =
     (case ev of
        V_ap_staconnected mac aid mesh \<Rightarrow>
          ntfy_template (mem 0) (ntfy_copy_bytes (mem 1) mac 6 (N_ap_staconnected [] 0 False) (\<lambda>b.
            (ESP_OK, Some (SUCCESS, N_ap_staconnected b (ucast aid) mesh))))
      | V_ap_stadisconnected mac aid mesh reason \<Rightarrow>
          ntfy_template (mem 0) (ntfy_copy_bytes (mem 1) mac 6 (N_ap_stadisconnected [] 0 False 0) (\<lambda>b.
            (ESP_OK, Some (SUCCESS, N_ap_stadisconnected b (ucast aid) mesh (ucast reason)))))
      | _ \<Rightarrow> (ESP_FAIL, None))"

definition itwt_bits :: "itwt_cfg \<Rightarrow> u32" where
  "itwt_bits c =
     (set_if (it_wake_duration_unit c) 10
       (set_if (it_flow_type c) 1 (set_if (it_trigger c) 0 0)
         OR push_bit 2 (ucast (it_flow_id c) AND 7) OR push_bit 5 (ucast (it_wake_invl_expn c) AND 0x1F)))
      OR push_bit 11 (ucast (it_reserved c))"

definition itwt_to_msg :: "itwt_cfg \<Rightarrow> itwt_msg" where
  "itwt_to_msg c = \<lparr> im_setup_cmd = it_setup_cmd c, im_bitmask_1 = itwt_bits c,
     im_min_wake_dura = ucast (it_min_wake_dura c), im_wake_invl_mant = ucast (it_wake_invl_mant c),
     im_twt_id = ucast (it_twt_id c), im_timeout_ms = ucast (it_timeout_ms c) \<rparr>"

definition rpc_evt_itwt_setup :: "(nat \<Rightarrow> bool) \<Rightarrow> itwt_event \<Rightarrow> ntfy" where
  "rpc_evt_itwt_setup mem e =
     ntfy_template (mem 0) (ntfy_alloc_element (mem 1)
       (N_itwt_setup \<lparr> tm_config = None, tm_status = 0, tm_reason = 0, tm_target_wake_time = 0 \<rparr>)
       (ESP_OK, Some (SUCCESS, N_itwt_setup
         \<lparr> tm_config = Some (itwt_to_msg (tv_config e)), tm_status = tv_status e,
           tm_reason = ucast (tv_reason e), tm_target_wake_time = tv_target_wake_time e \<rparr>)))"

definition rpc_evt_itwt_teardown :: "(nat \<Rightarrow> bool) \<Rightarrow> u8 \<Rightarrow> u32 \<Rightarrow> ntfy" where
  "rpc_evt_itwt_teardown mem flow status =
     ntfy_template (mem 0) (ESP_OK, Some (SUCCESS, N_itwt_teardown (ucast flow) status))"

definition rpc_evt_itwt_suspend :: "(nat \<Rightarrow> bool) \<Rightarrow> u32 \<Rightarrow> u8 \<Rightarrow> u32 list \<Rightarrow> ntfy" where
  "rpc_evt_itwt_suspend mem status bitmap ts =
     ntfy_template (mem 0) (ntfy_alloc_element (mem 1) (N_itwt_suspend status (ucast bitmap) [])
       (ESP_OK, Some (SUCCESS, N_itwt_suspend status (ucast bitmap) ts)))"

definition rpc_evt_itwt_probe :: "(nat \<Rightarrow> bool) \<Rightarrow> u32 \<Rightarrow> u8 \<Rightarrow> ntfy" where
  "rpc_evt_itwt_probe mem status reason =
     ntfy_template (mem 0) (ESP_OK, Some (SUCCESS, N_itwt_probe status (ucast reason)))"

definition rpc_evt_supp_dpp_uri_ready :: "(nat \<Rightarrow> bool) \<Rightarrow> byte list \<Rightarrow> ntfy" where
  "rpc_evt_supp_dpp_uri_ready mem uri =
     ntfy_template (mem 0) (ntfy_copy_bytes (mem 1) uri (length uri) (N_dpp_uri []) (\<lambda>b.
       (ESP_OK, Some (SUCCESS, N_dpp_uri b))))"

definition rpc_evt_supp_dpp_fail :: "(nat \<Rightarrow> bool) \<Rightarrow> u32 \<Rightarrow> ntfy" where
  "rpc_evt_supp_dpp_fail mem reason = ntfy_template (mem 0) (ESP_OK, Some (SUCCESS, N_dpp_fail reason))"

text \<open>The choice of the handler by the event (\<open>rpc_evt_handler\<close>).\<close>

definition wifi_ntfy :: "(nat \<Rightarrow> bool) \<Rightarrow> wifi_evt \<Rightarrow> ntfy" where
  "wifi_ntfy mem ev =
     (case ev of
        V_scan_done status number scan_id \<Rightarrow> rpc_evt_sta_scan_done mem status number scan_id
      | V_connected e \<Rightarrow> rpc_evt_sta_connected mem e
      | V_disconnected e \<Rightarrow> rpc_evt_sta_disconnected mem e
      | V_ap_staconnected _ _ _ \<Rightarrow> rpc_evt_ap_staconn_conn_disconn mem ev
      | V_ap_stadisconnected _ _ _ _ \<Rightarrow> rpc_evt_ap_staconn_conn_disconn mem ev
      | V_itwt_setup e \<Rightarrow> rpc_evt_itwt_setup mem e
      | V_itwt_teardown flow status \<Rightarrow> rpc_evt_itwt_teardown mem flow status
      | V_itwt_suspend status bitmap ts \<Rightarrow> rpc_evt_itwt_suspend mem status bitmap ts
      | V_itwt_probe status reason \<Rightarrow> rpc_evt_itwt_probe mem status reason
      | V_dpp_uri uri \<Rightarrow> rpc_evt_supp_dpp_uri_ready mem uri
      | V_dpp_fail reason \<Rightarrow> rpc_evt_supp_dpp_fail mem reason)"

text \<open>The callback of the supplicant: a text is sent with its terminating zero, a reason as it is.\<close>

datatype supp_dpp_event = Supp_uri_ready "byte list option" | Supp_cfg_recvd "sta_cfg option" | Supp_fail u32

datatype dpp_sent = Sent_event wifi_evt | Sent_config sta_cfg | Sent_nothing

definition dpp_enrollee_event_cb :: "supp_dpp_event \<Rightarrow> dpp_sent" where
  "dpp_enrollee_event_cb ev =
     (case ev of
        Supp_uri_ready None \<Rightarrow> Sent_nothing
      | Supp_uri_ready (Some s) \<Rightarrow> Sent_event (V_dpp_uri (c_str s @ [0]))
      | Supp_cfg_recvd None \<Rightarrow> Sent_nothing
      | Supp_cfg_recvd (Some c) \<Rightarrow> Sent_config c
      | Supp_fail r \<Rightarrow> Sent_event (V_dpp_fail r))"

subsection \<open>The host's parser (rpc_parse_evt)\<close>

text \<open>
  The parser copies by the length of the message and does not look at the status of most events: a null
  pointer read or a write behind an array is a crash. \<open>Parsed\<close> has the status and, when it was filled, the
  event. \<open>uri_max\<close> is \<open>DPP_URI_LEN_MAX\<close>.
\<close>

datatype parsed = Parse_crash | Parse_fail | Parsed int "wifi_evt option"

definition host_bytes :: "nat \<Rightarrow> byte list \<Rightarrow> (byte list \<Rightarrow> parsed) \<Rightarrow> parsed" where
  "host_bytes n src f =
     (if src = [] then Parse_fail else (case host_copy n src of None \<Rightarrow> Parse_crash | Some b \<Rightarrow> f b))"

definition itwt_host :: "itwt_msg \<Rightarrow> itwt_cfg" where
  "itwt_host m =
     (let b = im_bitmask_1 m in
      \<lparr> it_setup_cmd = im_setup_cmd m, it_trigger = H_GET_BIT 0 b, it_flow_type = H_GET_BIT 1 b,
        it_flow_id = ucast (drop_bit 2 b AND 7), it_wake_invl_expn = ucast (drop_bit 5 b AND 0x1F),
        it_wake_duration_unit = H_GET_BIT 10 b, it_reserved = ucast (drop_bit 11 b AND 0xFFFFF800),
        it_min_wake_dura = ucast (im_min_wake_dura m), it_wake_invl_mant = ucast (im_wake_invl_mant m),
        it_twt_id = ucast (im_twt_id m), it_timeout_ms = ucast (im_timeout_ms m) \<rparr>)"

definition rpc_parse_evt :: "nat \<Rightarrow> int \<times> evt_msg \<Rightarrow> parsed" where
  "rpc_parse_evt uri_max x =
     (case x of (resp, msg) \<Rightarrow>
      (case msg of
        N_scan_done None \<Rightarrow> Parse_crash
      | N_scan_done (Some (s, n, i)) \<Rightarrow> Parsed resp (Some (V_scan_done s (ucast n) (ucast i)))
      | N_connected None \<Rightarrow> Parse_fail
      | N_connected (Some m) \<Rightarrow>
          if resp \<noteq> SUCCESS then Parsed resp None
          else host_bytes 32 (nm_ssid m) (\<lambda>ssid. host_bytes 6 (nm_bssid m) (\<lambda>bssid.
            Parsed resp (Some (V_connected \<lparr> cn_ssid = ssid, cn_ssid_len = ucast (nm_ssid_len m), cn_bssid = bssid,
              cn_channel = ucast (nm_channel m), cn_authmode = nm_authmode m, cn_aid = ucast (nm_aid m) \<rparr>))))
      | N_disconnected None \<Rightarrow> Parse_fail
      | N_disconnected (Some m) \<Rightarrow>
          if resp \<noteq> SUCCESS then Parsed resp None
          else host_bytes 32 (xm_ssid m) (\<lambda>ssid. host_bytes 6 (xm_bssid m) (\<lambda>bssid.
            Parsed resp (Some (V_disconnected \<lparr> dn_ssid = ssid, dn_ssid_len = ucast (xm_ssid_len m),
              dn_bssid = bssid, dn_reason = ucast (xm_reason m), dn_rssi = ucast (xm_rssi m) \<rparr>))))
      | N_ap_staconnected mac aid mesh \<Rightarrow>
          if resp \<noteq> SUCCESS then Parsed resp (Some (V_ap_staconnected (zeros 6) (ucast aid) mesh))
          else host_bytes 6 mac (\<lambda>b. Parsed resp (Some (V_ap_staconnected b (ucast aid) mesh)))
      | N_ap_stadisconnected mac aid mesh reason \<Rightarrow>
          if resp \<noteq> SUCCESS then Parsed resp (Some (V_ap_stadisconnected (zeros 6) (ucast aid) mesh (ucast reason)))
          else host_bytes 6 mac (\<lambda>b. Parsed resp (Some (V_ap_stadisconnected b (ucast aid) mesh (ucast reason))))
      | N_itwt_setup m \<Rightarrow>
          (case tm_config m of
             None \<Rightarrow> Parse_crash
           | Some c \<Rightarrow> Parsed resp (Some (V_itwt_setup \<lparr> tv_config = itwt_host c, tv_status = tm_status m,
               tv_reason = ucast (tm_reason m), tv_target_wake_time = tm_target_wake_time m \<rparr>)))
      | N_itwt_teardown flow status \<Rightarrow> Parsed resp (Some (V_itwt_teardown (ucast flow) status))
      | N_itwt_suspend status bitmap ts \<Rightarrow>
          Parsed resp (Some (V_itwt_suspend status (ucast bitmap)
            (take 8 ts @ replicate (8 - length ts) 0)))
      | N_itwt_probe status reason \<Rightarrow> Parsed resp (Some (V_itwt_probe status (ucast reason)))
      | N_dpp_uri uri \<Rightarrow> Parsed resp (Some (V_dpp_uri (if length uri \<le> uri_max then uri else [])))
      | N_dpp_fail reason \<Rightarrow> Parsed resp (Some (V_dpp_fail reason))))"

subsection \<open>Lemmas\<close>

definition evt_ok :: "nat \<Rightarrow> wifi_evt \<Rightarrow> bool" where
  "evt_ok uri_max ev \<longleftrightarrow>
     (case ev of
        V_connected e \<Rightarrow> length (cn_ssid e) = 32 \<and> length (cn_bssid e) = 6
      | V_disconnected e \<Rightarrow> length (dn_ssid e) = 32 \<and> length (dn_bssid e) = 6
      | V_ap_staconnected mac aid mesh \<Rightarrow> length mac = 6
      | V_ap_stadisconnected mac aid mesh reason \<Rightarrow> length mac = 6
      | V_itwt_suspend status bitmap ts \<Rightarrow> length ts = 8
      | V_dpp_uri uri \<Rightarrow> length uri \<le> uri_max
      | _ \<Rightarrow> True)"

text \<open>What the host makes of an event: the reserved bits of a target wake time are always read as zero.\<close>

definition host_event :: "wifi_evt \<Rightarrow> wifi_evt" where
  "host_event ev =
     (case ev of
        V_itwt_setup e \<Rightarrow> V_itwt_setup (e\<lparr>tv_config := (tv_config e)\<lparr>it_reserved := 0\<rparr>\<rparr>)
      | _ \<Rightarrow> ev)"

lemma ntfy_simps [simp]:
  "ntfy_template True body = body" "ntfy_alloc_element True m body = body"
  "n > 0 \<Longrightarrow> ntfy_copy_bytes True src n m f = f (take n src)"
  by (simp_all add: ntfy_template_def ntfy_alloc_element_def ntfy_copy_bytes_def)

lemma ntfy_copy_all [simp]: "ntfy_copy_bytes True src (length src) m f = f src"
  by (simp add: ntfy_copy_bytes_def)

lemma narrow_16 [simp]: "ucast (ucast x :: u32) = x" for x :: "16 word"
  by (rule bit_word_eqI) (auto simp: bit_simps)

lemma host_bytes_full: "length b = n \<Longrightarrow> n > 0 \<Longrightarrow> host_bytes n b f = f b"
  by (auto simp: host_bytes_def host_copy_def zeros_def)

lemma scast_ucast_back: "ucast (scast (x :: 8 word) :: u32) = x"
  by (rule bit_word_eqI) (auto simp: bit_simps)

lemma low_three: "bit (x AND 7) n = (n < 3 \<and> bit x n)" for x :: u32
proof -
  have m: "(7 :: u32) = mask 3" by (simp add: mask_numeral)
  show ?thesis unfolding m by (auto simp: bit_simps dest: bit_imp_le_length)
qed

lemma low_five: "bit (x AND 0x1F) n = (n < 5 \<and> bit x n)" for x :: u32
proof -
  have m: "(0x1F :: u32) = mask 5" by (simp add: mask_numeral)
  show ?thesis unfolding m by (auto simp: bit_simps dest: bit_imp_le_length)
qed

lemmas low_bits = low_three low_five

lemma high_bits: "bit (x AND 0xFFFFF800) n = (11 \<le> n \<and> bit x n)" for x :: u32
proof -
  have m: "(0xFFFFF800 :: u32) = push_bit 11 (mask 21)" by (simp add: mask_numeral)
  show ?thesis unfolding m by (auto simp: bit_simps dest: bit_imp_le_length)
qed

lemma bit_flow_id: "bit (push_bit 2 (ucast f AND 7) :: u32) n = (2 \<le> n \<and> n < 5 \<and> bit f (n - 2))" for f :: "3 word"
  unfolding bit_push_bit_iff low_bits bit_unsigned_iff possible_bit_word by (auto dest: bit_imp_le_length)

lemma bit_expn: "bit (push_bit 5 (ucast x AND 0x1F) :: u32) n = (5 \<le> n \<and> n < 10 \<and> bit x (n - 5))" for x :: "5 word"
  unfolding bit_push_bit_iff low_bits bit_unsigned_iff possible_bit_word by (auto dest: bit_imp_le_length)

lemma bit_itwt_reserved: "bit (push_bit 11 (ucast r) :: u32) n = (11 \<le> n \<and> bit r (n - 11))" for r :: "5 word"
  unfolding bit_push_bit_iff bit_unsigned_iff possible_bit_word by (auto dest: bit_imp_le_length)

lemma bit_itwt_bits:
  "bit (itwt_bits c) n =
     (n = 10 \<and> it_wake_duration_unit c \<or> n = 1 \<and> it_flow_type c \<or> n = 0 \<and> it_trigger c \<or>
      2 \<le> n \<and> n < 5 \<and> bit (it_flow_id c) (n - 2) \<or> 5 \<le> n \<and> n < 10 \<and> bit (it_wake_invl_expn c) (n - 5) \<or>
      11 \<le> n \<and> bit (it_reserved c) (n - 11))"
  unfolding itwt_bits_def bit_or_iff bit_flow_id bit_expn bit_itwt_reserved
  by (simp only: bit_set_if_low bit_or_iff bit_flow_id bit_expn) auto

lemma itwt_fields:
  "(ucast (drop_bit 2 (itwt_bits c) AND 7) :: 3 word) = it_flow_id c"
  "(ucast (drop_bit 5 (itwt_bits c) AND 0x1F) :: 5 word) = it_wake_invl_expn c"
  "(ucast (drop_bit 11 (itwt_bits c AND 0xFFFFF800)) :: 5 word) = it_reserved c"
  "(ucast (drop_bit 11 (itwt_bits c) AND 0xFFFFF800) :: 5 word) = 0"
  by (rule bit_word_eqI; simp only: bit_unsigned_iff bit_drop_bit_eq comp_def low_bits high_bits bit_itwt_bits
      possible_bit_word bit_0_eq bot_apply; auto)+

lemma itwt_flags:
  "H_GET_BIT 0 (itwt_bits c) = it_trigger c" "H_GET_BIT 1 (itwt_bits c) = it_flow_type c"
  "H_GET_BIT 10 (itwt_bits c) = it_wake_duration_unit c"
  unfolding H_GET_BIT_bit bit_itwt_bits by auto

lemma itwt_host_back: "itwt_host (itwt_to_msg c) = c\<lparr>it_reserved := 0\<rparr>"
  unfolding itwt_host_def itwt_to_msg_def Let_def itwt_msg.simps itwt_fields itwt_flags
  by (cases c) simp

text \<open>The co-processor reads all of it, the reserved bits too.\<close>

lemma itwt_read_back: "itwt_from_msg (itwt_to_msg c) = c"
  unfolding itwt_from_msg_def itwt_to_msg_def Let_def itwt_msg.simps itwt_fields itwt_flags
  by (cases c) simp

subsection \<open>Properties\<close>


text \<open>When memory runs out on the co-processor while it makes an event, the host gets the event without its
  details, refuses it, or gets a status; but for the end of a scan and for a wake time agreement it reads
  the missing part of the message through a null pointer.\<close>

theorem event_without_part_crashes_host:
  assumes "evt_ok uri_max ev" "wifi_ntfy mem ev = (r, Some m)"
  shows "rpc_parse_evt uri_max m = Parse_crash \<longleftrightarrow>
    \<not> mem 1 \<and> ((\<exists>s n i. ev = V_scan_done s n i) \<or> (\<exists>e. ev = V_itwt_setup e))"
  using assms
  by (cases ev; cases "mem 0"; cases "mem 1"; cases "mem 2"; cases "mem 3")
    (auto simp: wifi_ntfy_def evt_ok_def rpc_evt_sta_scan_done_def ntfy_template_def ntfy_alloc_element_def
      ntfy_copy_bytes_def rpc_evt_sta_connected_def rpc_evt_sta_disconnected_def
      rpc_evt_ap_staconn_conn_disconn_def rpc_evt_itwt_setup_def rpc_evt_itwt_teardown_def
      rpc_evt_itwt_suspend_def rpc_evt_itwt_probe_def rpc_evt_supp_dpp_uri_ready_def rpc_evt_supp_dpp_fail_def
      rpc_parse_evt_def host_bytes_full Let_def SUCCESS_def FAILURE_def RPC_ERR_MEMORY_FAILURE_def
      split: if_splits)

definition demo_conn :: sta_conn where
  "demo_conn = \<lparr> cn_ssid = [97, 112] @ zeros 30, cn_ssid_len = 2, cn_bssid = [1, 2, 3, 4, 5, 6], cn_channel = 6,
     cn_authmode = 3, cn_aid = 0x1234 \<rparr>"


theorem event_without_part_crashes_host_witness:
  "rpc_parse_evt 100 (RPC_ERR_MEMORY_FAILURE, N_scan_done None) = Parse_crash"
  using event_without_part_crashes_host [of 100 "V_scan_done 0 3 1" "\<lambda>k. k = 0"]
  by (simp add: evt_ok_def wifi_ntfy_def rpc_evt_sta_scan_done_def ntfy_template_def ntfy_alloc_element_def)

end
