(* ===== verification/Uart_Link.thy ===== *)
theory Uart_Link
  imports Transport_Frame
begin

section \<open>Frames on the serial line (uart_slave_api.c, uart_drv.c)\<close>

text \<open>
  The UART carries the frames of \<open>Transport_Frame\<close> back to back. Both readers take twelve bytes, trust the
  length they find there, and take that many more; both wait until the bytes are there. The line is the
  list of bytes not yet read. Data throttling is compiled out on both sides.
\<close>

definition UART_BUFFER_SIZE :: nat where "UART_BUFFER_SIZE = 1600"

lemmas uart_sizes = HDR_def UART_BUFFER_SIZE_def

subsection \<open>Co-processor\<close>

text \<open>One pass of the loop of \<open>uart_rx_task\<close>: \<open>None\<close> waits for bytes.\<close>

type_synonym uart_seen = "ps_event option \<times> (prio_q \<times> ibuf) option"

definition uart_rx_round :: "bool \<Rightarrow> byte list \<Rightarrow> (uart_seen \<times> byte list) option" where
  "uart_rx_round chk s =
     (if length s < HDR then None
      else
       (let h = get_header s; len = unat (h_len h) in
        if unat (h_offset h) \<noteq> HDR \<or> UART_BUFFER_SIZE < HDR + len then Some ((None, None), drop HDR s)
        else if length s < HDR + len then None
        else
         (let f = take (HDR + len) s; f0 = (if chk then set_checksum 0 f else f) in
          Some ((ps_flag_event (h_flags h),
            if chk \<and> compute_checksum f0 (HDR + len) \<noteq> h_checksum h then None
            else Some (prio_of (h_if_type h),
              \<lparr> ib_if_type = h_if_type h, ib_if_num = h_if_num h, ib_flag = 0, ib_seq = 0,
                ib_payload = f0, ib_zcopy = False \<rparr>)), drop (HDR + len) s))))"

lemma uart_rx_round_shorter: "uart_rx_round chk s = Some (x, s') \<Longrightarrow> length s' < length s"
  by (auto simp: uart_rx_round_def Let_def HDR_def split: if_splits)

function uart_rx :: "bool \<Rightarrow> byte list \<Rightarrow> uart_seen list \<times> byte list" where
  "uart_rx chk s =
     (case uart_rx_round chk s of
        None \<Rightarrow> ([], s)
      | Some (x, s') \<Rightarrow> (case uart_rx chk s' of (xs, rest) \<Rightarrow> (x # xs, rest)))"
  by pat_completeness auto
termination by (relation "measure (\<lambda>(chk, s). length s)") (auto dest: uart_rx_round_shorter)

declare uart_rx.simps [simp del]

text \<open>
  \<open>h_uart_write\<close>: the count it returns, and what goes out. \<open>sent\<close> says whether the driver takes all
  bytes; the length is not compared with the buffer.
\<close>

definition h_uart_write :: "bool \<Rightarrow> bool \<Rightarrow> bool \<Rightarrow> bool \<Rightarrow> ibuf \<Rightarrow> int \<times> byte list option" where
  "h_uart_write chk active alloc sent ib =
     (if \<not> active \<or> ib_payload ib = [] \<or> \<not> alloc \<or> \<not> sent then (ESP_FAIL, None)
      else (int (length (ib_payload ib)), Some (update_tx_header chk ib)))"

text \<open>\<open>h_uart_read\<close>: the queues in the order of their priority.\<close>

definition h_uart_read :: "bool \<Rightarrow> (prio_q \<Rightarrow> ibuf list) \<Rightarrow> int \<times> ibuf option \<times> (prio_q \<Rightarrow> ibuf list)" where
  "h_uart_read active q =
     (let pick = (\<lambda>k. (int (length (ib_payload (hd (q k)))), Some (hd (q k)), q(k := tl (q k)))) in
      if \<not> active then (ESP_FAIL, None, q)
      else if q PRIO_Q_SERIAL \<noteq> [] then pick PRIO_Q_SERIAL
      else if q PRIO_Q_BT \<noteq> [] then pick PRIO_Q_BT
      else if q PRIO_Q_OTHERS \<noteq> [] then pick PRIO_Q_OTHERS
      else (ESP_FAIL, None, q))"

subsection \<open>Host\<close>

text \<open>
  \<open>h_uart_write_packet\<close>; \<open>None\<close> is the copy of an HCI packet without payload, whose length less one wraps.
\<close>

definition h_uart_write_packet :: "bool \<Rightarrow> bool \<Rightarrow> bool \<Rightarrow> ibuf \<Rightarrow> (esp_err \<times> byte list option) option" where
  "h_uart_write_packet chk alloc sent ib =
     (let n = length (ib_payload ib) in
      if ib_flag ib = 0 \<and> n = 0 then Some (ESP_FAIL, None)
      else if \<not> ib_zcopy ib \<and> \<not> alloc then Some (ESP_FAIL, None)
      else if UART_BUFFER_SIZE - HDR < n then Some (ESP_FAIL, None)
      else if n = 0 \<and> ib_if_type ib = ESP_HCI_IF \<and> \<not> ib_zcopy ib then None
      else if \<not> sent then Some (ESP_FAIL, None)
      else Some (ESP_OK, Some (sdio_frame chk n ib)))"

text \<open>
  A round of \<open>h_uart_write_task\<close> on the packet dequeued, or none: \<open>tx_needed\<close> is never set again.
\<close>

definition uart_write_round ::
  "bool \<Rightarrow> bool \<Rightarrow> bool \<Rightarrow> bool \<Rightarrow> ibuf option \<Rightarrow> (bool \<times> byte list option) option" where
  "uart_write_round chk alloc sent needed msg =
     (case (needed \<and> msg \<noteq> None, msg) of
        (True, Some ib) \<Rightarrow> map_option (\<lambda>(_, f). (True, f)) (h_uart_write_packet chk alloc sent ib)
      | _ \<Rightarrow> Some (needed \<and> msg \<noteq> None, None))"

text \<open>The bytes \<open>h_uart_write_task\<close> puts on the line for what it dequeues, one round each.\<close>

fun uart_write :: "bool \<Rightarrow> bool \<Rightarrow> ibuf option list \<Rightarrow> byte list option" where
  "uart_write chk needed [] = Some []"
| "uart_write chk needed (m # ms) =
     (case uart_write_round chk True True needed m of
        None \<Rightarrow> None
      | Some (needed', f) \<Rightarrow>
          map_option (\<lambda>s. (case f of None \<Rightarrow> s | Some b \<Rightarrow> b @ s)) (uart_write chk needed' ms))"

definition is_valid_uart_rx_packet :: "bool \<Rightarrow> byte list \<Rightarrow> bool" where
  "is_valid_uart_rx_packet chk f =
     (let h = get_header f; len = unat (h_len h) in
      0 < len \<and> len \<le> UART_BUFFER_SIZE - HDR \<and> unat (h_offset h) = HDR \<and>
      (chk \<longrightarrow> compute_checksum (set_checksum 0 f) (len + HDR) = h_checksum h))"

text \<open>One pass of the loop of \<open>h_uart_read_task\<close>, with \<open>push_to_rx_queue\<close>.\<close>

definition uart_read_round :: "bool \<Rightarrow> byte list \<Rightarrow> ((prio_q \<times> ibuf) option \<times> byte list) option" where
  "uart_read_round chk s =
     (if length s < HDR then None
      else
       (let h = get_header s; len = unat (h_len h) in
        if unat (h_offset h) \<noteq> HDR \<or> UART_BUFFER_SIZE < HDR + len then Some (None, drop HDR s)
        else if length s < HDR + len then None
        else
         (let f = take (HDR + len) s in
          Some (if is_valid_uart_rx_packet chk f then Some (sdio_push_pkt_to_queue f len HDR) else None,
            drop (HDR + len) s))))"

lemma uart_read_round_shorter: "uart_read_round chk s = Some (x, s') \<Longrightarrow> length s' < length s"
  by (auto simp: uart_read_round_def Let_def HDR_def split: if_splits)

function uart_read :: "bool \<Rightarrow> byte list \<Rightarrow> (prio_q \<times> ibuf) option list \<times> byte list" where
  "uart_read chk s =
     (case uart_read_round chk s of
        None \<Rightarrow> ([], s)
      | Some (x, s') \<Rightarrow> (case uart_read chk s' of (xs, rest) \<Rightarrow> (x # xs, rest)))"
  by pat_completeness auto
termination by (relation "measure (\<lambda>(chk, s). length s)") (auto dest: uart_read_round_shorter)

declare uart_read.simps [simp del]

subsection \<open>Lemmas\<close>

text \<open>A header that both sides accept for a body.\<close>

definition uart_header :: "esp_payload_header \<Rightarrow> byte list \<Rightarrow> bool" where
  "uart_header h body \<longleftrightarrow> h_if_type h < 16 \<and> h_if_num h < 16 \<and> h_throttle_cmd h = 0 \<and>
     h_len h = word_of_nat (length body) \<and> h_offset h = word_of_nat HDR \<and>
     length body \<le> UART_BUFFER_SIZE - HDR"

lemma uart_header_sizes:
  assumes "uart_header h body"
  shows "unat (h_len h) = length body" "unat (h_offset h) = HDR" "HDR + length body \<le> UART_BUFFER_SIZE"
  using assms by (simp_all add: uart_header_def uart_sizes unsigned_of_nat take_bit_nat_eq_self)

lemma uart_seal_fields:
  assumes "uart_header h body"
  shows "unat (h_len (get_header (seal chk h body @ rest))) = length body"
    "unat (h_offset (get_header (seal chk h body @ rest))) = HDR"
    "h_flags (get_header (seal chk h body @ rest)) = h_flags h"
    "h_if_type (get_header (seal chk h body @ rest)) = h_if_type h"
    "h_if_num (get_header (seal chk h body @ rest)) = h_if_num h"
    "h_seq_num (get_header (seal chk h body @ rest)) = h_seq_num h"
    "h_checksum (get_header (seal chk h body @ rest)) =
       (if chk then checksum_from 0 (put_header (h\<lparr>h_checksum := 0\<rparr>) @ body) else 0)"
  using assms uart_header_sizes [OF assms] get_header_seal [of h chk body rest]
  by (simp_all add: uart_header_def)

text \<open>What the co-processor queues of a frame.\<close>

definition uart_queued :: "bool \<Rightarrow> esp_payload_header \<Rightarrow> byte list \<Rightarrow> uart_seen" where
  "uart_queued chk h body = (ps_flag_event (h_flags h), Some (prio_of (h_if_type h),
     \<lparr> ib_if_type = h_if_type h, ib_if_num = h_if_num h, ib_flag = 0, ib_seq = 0,
       ib_payload = put_header (h\<lparr>h_checksum := 0\<rparr>) @ body, ib_zcopy = False \<rparr>))"

lemma seal_unchecked: "seal False h body = put_header (h\<lparr>h_checksum := 0\<rparr>) @ body"
  by (simp add: seal_def)

lemma set_checksum_seal: "set_checksum 0 (seal chk h body) = put_header (h\<lparr>h_checksum := 0\<rparr>) @ body"
  by (simp add: seal_def)

lemma uart_rx_round_seal:
  assumes "uart_header h body"
  shows "uart_rx_round chk (seal chk h body @ rest) = Some (uart_queued chk h body, rest)"
proof -
  note f = uart_seal_fields [OF assms, of chk rest] uart_header_sizes [OF assms]
  have t: "take (HDR + length body) (seal chk h body @ rest) = seal chk h body" by simp
  have c: "compute_checksum (put_header (h\<lparr>h_checksum := 0\<rparr>) @ body) (HDR + length body) =
      checksum_from 0 (put_header (h\<lparr>h_checksum := 0\<rparr>) @ body)" by (simp add: compute_checksum_def)
  show ?thesis
    using f c unfolding uart_rx_round_def Let_def f t set_checksum_seal uart_queued_def
    by (cases chk) (simp_all add: seal_unchecked)
qed

lemma read_uart_queued:
  assumes "uart_header h body"
  shows "read_packet (put_header (h\<lparr>h_checksum := 0\<rparr>) @ body) = (h_flags h, h_seq_num h, body)"
  using uart_seal_fields [OF assms, of False "[]"]
  by (simp add: read_packet_def seal_unchecked [symmetric] Let_def)

lemma uart_rx_seal:
  assumes "uart_header h body" "uart_rx chk rest = (xs, tail)"
  shows "uart_rx chk (seal chk h body @ rest) = (uart_queued chk h body # xs, tail)"
  by (subst uart_rx.simps) (simp add: uart_rx_round_seal [OF assms(1)] assms(2))

lemma uart_rx_frames:
  assumes "list_all (\<lambda>(h, b). uart_header h b) hs" "uart_rx chk rest = (xs, tail)"
  shows "uart_rx chk (concat (map (\<lambda>(h, b). seal chk h b) hs) @ rest) =
    (map (\<lambda>(h, b). uart_queued chk h b) hs @ xs, tail)"
  using assms by (induction hs) (auto simp: uart_rx_seal)

text \<open>A frame whose length and offset are right and whose checksum is not is dropped alone.\<close>

lemma uart_rx_round_damaged:
  assumes f: "sealed f" "length f \<le> UART_BUFFER_SIZE" and i: "i < length f" "i < 2 \<or> 6 \<le> i" "f ! i \<noteq> v"
  shows "uart_rx_round True (f[i := v] @ rest) = Some ((ps_flag_event (h_flags (get_header (f[i := v]))), None), rest)"
proof -
  let ?g = "f[i := v]"
  note d = damage_breaks_checksum [OF f(1) i]
  have len: "HDR < length f" "HDR + unat (h_len (get_header f)) = length f" "unat (h_offset (get_header f)) = HDR"
    using f by (simp_all add: sealed_def)
  have g: "get_header (?g @ rest) = get_header ?g" using len by (simp add: get_header_pad HDR_def)
  have c: "compute_checksum (set_checksum 0 ?g) (length f) = checksum_from 0 (set_checksum 0 ?g)"
    using len by (simp add: compute_checksum_def HDR_def)
  have "h_len (get_header ?g) = h_len (get_header f)" "h_offset (get_header ?g) = h_offset (get_header f)"
    by (rule d(1), rule d(2))
  moreover have "take (length f) (?g @ rest) = ?g" by simp
  ultimately show ?thesis using d(3) len f(2) c by (simp add: uart_rx_round_def g Let_def)
qed

text \<open>The host's reader.\<close>

definition uart_pushed :: "esp_payload_header \<Rightarrow> byte list \<Rightarrow> prio_q \<times> ibuf" where
  "uart_pushed h body = (prio_of (h_if_type h), \<lparr> ib_if_type = h_if_type h, ib_if_num = h_if_num h,
     ib_flag = h_flags h, ib_seq = h_seq_num h, ib_payload = body, ib_zcopy = False \<rparr>)"

lemma uart_read_round_seal:
  assumes h: "uart_header h body" and ne: "body \<noteq> []"
  shows "uart_read_round chk (seal chk h body @ rest) = Some (Some (uart_pushed h body), rest)"
proof -
  note f = uart_seal_fields [OF h, of chk rest] uart_header_sizes [OF h]
  note g = uart_seal_fields [OF h, of chk "[]", simplified]
  have t: "take (HDR + length body) (seal chk h body @ rest) = seal chk h body" by simp
  have c: "compute_checksum (put_header (h\<lparr>h_checksum := 0\<rparr>) @ body) (length body + HDR) =
      checksum_from 0 (put_header (h\<lparr>h_checksum := 0\<rparr>) @ body)" by (simp add: compute_checksum_def)
  have v: "is_valid_uart_rx_packet chk (seal chk h body)"
    using f(10) ne unfolding is_valid_uart_rx_packet_def Let_def g set_checksum_seal c
    by (simp add: uart_sizes)
  have p: "sdio_push_pkt_to_queue (seal chk h body) (length body) HDR = uart_pushed h body"
    by (simp add: sdio_push_pkt_to_queue_def uart_pushed_def Let_def g)
  show ?thesis using f(10) v p unfolding uart_read_round_def Let_def f t by simp
qed

lemma uart_read_seal:
  assumes "uart_header h body" "body \<noteq> []" "uart_read chk rest = (xs, tail)"
  shows "uart_read chk (seal chk h body @ rest) = (Some (uart_pushed h body) # xs, tail)"
  by (subst uart_read.simps) (simp add: uart_read_round_seal [OF assms(1,2)] assms(3))

lemma uart_read_frames:
  assumes "list_all (\<lambda>(h, b). uart_header h b \<and> b \<noteq> []) hs" "uart_read chk rest = (xs, tail)"
  shows "uart_read chk (concat (map (\<lambda>(h, b). seal chk h b) hs) @ rest) =
    (map (\<lambda>(h, b). Some (uart_pushed h b)) hs @ xs, tail)"
  using assms by (induction hs) (auto simp: uart_read_seal)

lemma uart_read_round_damaged:
  assumes f: "sealed f" "length f \<le> UART_BUFFER_SIZE" and i: "i < length f" "i < 2 \<or> 6 \<le> i" "f ! i \<noteq> v"
  shows "uart_read_round True (f[i := v] @ rest) = Some (None, rest)"
proof -
  let ?g = "f[i := v]"
  note d = damage_breaks_checksum [OF f(1) i]
  have len: "HDR < length f" "HDR + unat (h_len (get_header f)) = length f" "unat (h_offset (get_header f)) = HDR"
    using f by (simp_all add: sealed_def)
  have g: "get_header (?g @ rest) = get_header ?g" using len by (simp add: get_header_pad HDR_def)
  have c: "compute_checksum (set_checksum 0 ?g) (length f) = checksum_from 0 (set_checksum 0 ?g)"
    using len by (simp add: compute_checksum_def HDR_def)
  have e: "h_len (get_header ?g) = h_len (get_header f)" "h_offset (get_header ?g) = h_offset (get_header f)"
    by (rule d(1), rule d(2))
  have t: "take (length f) (?g @ rest) = ?g" by simp
  have "\<not> is_valid_uart_rx_packet True ?g"
    using d(3) len c by (simp add: is_valid_uart_rx_packet_def Let_def e add.commute)
  then show ?thesis using e t len f(2) by (simp add: uart_read_round_def g Let_def)
qed

text \<open>Nothing is read from less than a header.\<close>

lemma uart_rest_waits:
  assumes "length tail < HDR"
  shows "uart_rx chk tail = ([], tail)" "uart_read chk tail = ([], tail)"
  using assms by (subst uart_rx.simps uart_read.simps, simp add: uart_rx_round_def uart_read_round_def)+

text \<open>The packets a writer frames without change, and the header it gives them.\<close>

definition uart_packet :: "ibuf \<Rightarrow> bool" where
  "uart_packet ib \<longleftrightarrow> nibbles ib \<and> ib_payload ib \<noteq> [] \<and> length (ib_payload ib) \<le> UART_BUFFER_SIZE - HDR \<and>
     ib_if_type ib \<noteq> ESP_HCI_IF"

definition plain_header :: "ibuf \<Rightarrow> esp_payload_header" where
  "plain_header ib = tx_header ib (length (ib_payload ib)) 0"

lemma uart_header_plain: "uart_packet ib \<Longrightarrow> uart_header (plain_header ib) (ib_payload ib)"
  by (simp add: uart_packet_def uart_header_def plain_header_def nibbles_def)

lemma plain_frames:
  assumes "uart_packet ib"
  shows "sdio_frame chk (length (ib_payload ib)) ib = seal chk (plain_header ib) (ib_payload ib)"
    "update_tx_header chk ib = seal chk (plain_header ib) (ib_payload ib)"
  using assms
  by (auto simp: update_tx_header_seal plain_header_def uart_packet_def sdio_frame_def seal_def tx_header_def
      Let_def compute_checksum_def)

definition framed :: "bool \<Rightarrow> ibuf list \<Rightarrow> byte list" where
  "framed chk ps = concat (map (\<lambda>ib. seal chk (plain_header ib) (ib_payload ib)) ps)"

lemma uart_write_framed:
  assumes "list_all uart_packet ps"
  shows "uart_write chk True (map Some ps) = Some (framed chk ps)"
  using assms
proof (induction ps)
  case (Cons p ps)
  then show ?case using plain_frames(1) [of p chk]
    by (auto simp: uart_write_round_def h_uart_write_packet_def framed_def uart_packet_def Let_def)
qed (simp add: framed_def)

text \<open>What reaches the layers above of a packet.\<close>

definition uart_rx_view :: "uart_seen \<Rightarrow> ps_event option \<times> (prio_q \<times> u8 \<times> u8 \<times> u8 \<times> u16 \<times> byte list) option" where
  "uart_rx_view = map_prod id (map_option (\<lambda>(k, q). (k, ib_if_type q, ib_if_num q, read_packet (ib_payload q))))"

definition uart_view :: "ibuf \<Rightarrow> ps_event option \<times> (prio_q \<times> u8 \<times> u8 \<times> u8 \<times> u16 \<times> byte list) option" where
  "uart_view ib = (ps_flag_event (ib_flag ib), Some (prio_of (ib_if_type ib), ib_if_type ib, ib_if_num ib,
     ib_flag ib, ib_seq ib, ib_payload ib))"

lemma uart_rx_view_plain:
  "uart_packet ib \<Longrightarrow> uart_rx_view (uart_queued chk (plain_header ib) (ib_payload ib)) = uart_view ib"
  using read_uart_queued [OF uart_header_plain [of ib]]
  by (simp add: uart_rx_view_def uart_queued_def uart_view_def) (simp add: plain_header_def)

lemma uart_pushed_plain:
  "uart_pushed (plain_header ib) (ib_payload ib) = (prio_of (ib_if_type ib), ib\<lparr>ib_zcopy := False\<rparr>)"
  by (simp add: uart_pushed_def plain_header_def)

lemma uart_rx_framed:
  assumes "list_all uart_packet ps"
  shows "\<exists>qs. uart_rx chk (framed chk ps @ rest) = (qs @ fst (uart_rx chk rest), snd (uart_rx chk rest)) \<and>
    map uart_rx_view qs = map uart_view ps"
proof -
  let ?hs = "map (\<lambda>ib. (plain_header ib, ib_payload ib)) ps"
  let ?qs = "map (\<lambda>(h, b). uart_queued chk h b) ?hs"
  have "list_all (\<lambda>(h, b). uart_header h b) ?hs"
    using assms by (auto simp: list_all_iff uart_header_plain)
  then have "uart_rx chk (concat (map (\<lambda>(h, b). seal chk h b) ?hs) @ rest) =
      (?qs @ fst (uart_rx chk rest), snd (uart_rx chk rest))"
    by (rule uart_rx_frames) simp
  moreover have "concat (map (\<lambda>(h, b). seal chk h b) ?hs) = framed chk ps"
    by (simp add: framed_def o_def)
  moreover have "map uart_rx_view ?qs = map uart_view ps"
    using assms by (auto simp: list_all_iff uart_rx_view_plain)
  ultimately show ?thesis by (intro exI [of _ ?qs] conjI) (simp_all only:)
qed

lemma uart_read_framed:
  assumes "list_all uart_packet ps"
  shows "uart_read chk (framed chk ps @ rest) =
    (map (\<lambda>ib. Some (prio_of (ib_if_type ib), ib\<lparr>ib_zcopy := False\<rparr>)) ps @ fst (uart_read chk rest),
     snd (uart_read chk rest))"
proof -
  let ?hs = "map (\<lambda>ib. (plain_header ib, ib_payload ib)) ps"
  have "list_all (\<lambda>(h, b). uart_header h b \<and> b \<noteq> []) ?hs"
    using assms by (auto simp: list_all_iff uart_header_plain uart_packet_def)
  then have "uart_read chk (concat (map (\<lambda>(h, b). seal chk h b) ?hs) @ rest) =
      (map (\<lambda>(h, b). Some (uart_pushed h b)) ?hs @ fst (uart_read chk rest), snd (uart_read chk rest))"
    by (rule uart_read_frames) simp
  then show ?thesis by (simp add: framed_def o_def uart_pushed_plain)
qed

lemma framed_sealed:
  assumes "uart_packet ib"
  shows "sealed (seal True (plain_header ib) (ib_payload ib))"
    "length (seal True (plain_header ib) (ib_payload ib)) \<le> UART_BUFFER_SIZE"
  using assms by (auto simp: uart_packet_def plain_header_def nibbles_def uart_sizes intro!: sealed_seal)

lemma framed_sent:
  assumes "list_all uart_packet ps"
  shows "concat (map (update_tx_header chk) ps) = framed chk ps"
  using assms by (auto simp: framed_def list_all_iff plain_frames(2) intro: arg_cong [where f = concat])

text \<open>A header that is refused costs its twelve bytes, and what follows is read as the next header.\<close>

lemma uart_bad_header_skipped:
  assumes "length hb = HDR"
    "unat (h_offset (get_header hb)) \<noteq> HDR \<or> UART_BUFFER_SIZE < HDR + unat (h_len (get_header hb))"
  shows "uart_rx chk (hb @ rest) = ((None, None) # fst (uart_rx chk rest), snd (uart_rx chk rest))"
    "uart_read chk (hb @ rest) = (None # fst (uart_read chk rest), snd (uart_read chk rest))"
proof -
  have g: "get_header (hb @ rest) = get_header hb" using assms(1) by (simp add: get_header_pad HDR_def)
  show "uart_rx chk (hb @ rest) = ((None, None) # fst (uart_rx chk rest), snd (uart_rx chk rest))"
    using assms by (subst uart_rx.simps) (simp add: uart_rx_round_def g Let_def split: prod.split)
  show "uart_read chk (hb @ rest) = (None # fst (uart_read chk rest), snd (uart_read chk rest))"
    using assms by (subst uart_read.simps) (simp add: uart_read_round_def g Let_def split: prod.split)
qed

subsection \<open>Properties\<close>

text \<open>C39: What one side writes to the line the other reads, packet by packet: every list of packets, none of
  them of the HCI interface, that the host's write task dequeues arrives on the co-processor with its interface,
  number, flags, sequence number and bytes, in order and in the queue of its priority; every list the
  co-processor writes arrives on the host unchanged; and a part of a header behind them is left for later.\<close>

theorem uart_stream_arrives:
  assumes "list_all uart_packet ps" "length tail < HDR"
  shows "(\<exists>s qs. uart_write chk True (map Some ps) = Some s \<and> uart_rx chk (s @ tail) = (qs, tail) \<and>
      map uart_rx_view qs = map uart_view ps) \<and>
    uart_read chk (concat (map (\<lambda>ib. the (snd (h_uart_write chk True True True ib))) ps) @ tail) =
      (map (\<lambda>ib. Some (prio_of (ib_if_type ib), ib\<lparr>ib_zcopy := False\<rparr>)) ps, tail)"
proof (rule conjI)
  show "\<exists>s qs. uart_write chk True (map Some ps) = Some s \<and> uart_rx chk (s @ tail) = (qs, tail) \<and>
      map uart_rx_view qs = map uart_view ps"
    using uart_rx_framed [OF assms(1), of chk tail]
    by (simp add: uart_write_framed [OF assms(1)] uart_rest_waits [OF assms(2)])
  have m: "map (\<lambda>ib. the (snd (h_uart_write chk True True True ib))) ps = map (update_tx_header chk) ps"
    using assms(1) by (auto simp: list_all_iff h_uart_write_def uart_packet_def)
  show "uart_read chk (concat (map (\<lambda>ib. the (snd (h_uart_write chk True True True ib))) ps) @ tail) =
      (map (\<lambda>ib. Some (prio_of (ib_if_type ib), ib\<lparr>ib_zcopy := False\<rparr>)) ps, tail)"
    unfolding m framed_sent [OF assms(1)] uart_read_framed [OF assms(1)] uart_rest_waits [OF assms(2)] by simp
qed

text \<open>With the checksum on, one wrong byte outside the length and offset fields costs the packet it hits and
  no other: the packets before and behind it are delivered on either side.\<close>

theorem uart_damage_is_contained:
  assumes "list_all uart_packet ps" "list_all uart_packet qs" "uart_packet ib" "f = update_tx_header True ib"
    "i < length f" "i < 2 \<or> 6 \<le> i" "f ! i \<noteq> v"
    "s = concat (map (update_tx_header True) ps) @ f[i := v] @ concat (map (update_tx_header True) qs)"
  shows "(\<exists>e. map uart_rx_view (fst (uart_rx True s)) = map uart_view ps @ (e, None) # map uart_view qs) \<and>
    fst (uart_read True s) = map (\<lambda>p. Some (prio_of (ib_if_type p), p\<lparr>ib_zcopy := False\<rparr>)) ps @
      None # map (\<lambda>p. Some (prio_of (ib_if_type p), p\<lparr>ib_zcopy := False\<rparr>)) qs"
proof -
  have s: "s = framed True ps @ f[i := v] @ framed True qs @ []"
    using assms(1,2,8) by (simp add: framed_sent)
  have f: "sealed f" "length f \<le> UART_BUFFER_SIZE"
    using framed_sealed [OF assms(3)] by (simp_all add: assms(4) plain_frames(2) [OF assms(3)])
  have w: "uart_rx True [] = ([], [])" "uart_read True [] = ([], [])"
    using uart_rest_waits [of "[]"] by (simp_all add: HDR_def)
  let ?e = "ps_flag_event (h_flags (get_header (f[i := v])))"
  note dmg = uart_rx_round_damaged [OF f assms(5-7)] uart_read_round_damaged [OF f assms(5-7)]
  have rx: "uart_rx True (f[i := v] @ rest) = ((?e, None) # fst (uart_rx True rest), snd (uart_rx True rest))" for rest
    by (subst uart_rx.simps) (simp add: dmg split: prod.split)
  have rd: "uart_read True (f[i := v] @ rest) = (None # fst (uart_read True rest), snd (uart_read True rest))" for rest
    by (subst uart_read.simps) (simp add: dmg split: prod.split)
  obtain xs where x: "uart_rx True (framed True ps @ f[i := v] @ framed True qs @ []) =
      (xs @ fst (uart_rx True (f[i := v] @ framed True qs @ [])), snd (uart_rx True (f[i := v] @ framed True qs @ [])))"
      "map uart_rx_view xs = map uart_view ps"
    using uart_rx_framed [OF assms(1)] by blast
  obtain ys where y: "uart_rx True (framed True qs @ []) = (ys @ fst (uart_rx True []), snd (uart_rx True []))"
      "map uart_rx_view ys = map uart_view qs"
    using uart_rx_framed [OF assms(2)] by blast
  have "\<exists>e. map uart_rx_view (fst (uart_rx True s)) = map uart_view ps @ (e, None) # map uart_view qs"
    unfolding s x(1) rx y(1) w using x(2) y(2) by (intro exI [of _ ?e]) (simp add: uart_rx_view_def)
  moreover have "fst (uart_read True s) = map (\<lambda>p. Some (prio_of (ib_if_type p), p\<lparr>ib_zcopy := False\<rparr>)) ps @
      None # map (\<lambda>p. Some (prio_of (ib_if_type p), p\<lparr>ib_zcopy := False\<rparr>)) qs"
    unfolding s uart_read_framed [OF assms(1)] rd uart_read_framed [OF assms(2)] w by simp
  ultimately show ?thesis by blast
qed

text \<open>Neither reader looks for the start of a frame: when a byte of its offset is wrong, a frame is dropped
  for its header alone, with the checksum on or off, and its payload is read as frames. Bytes that another
  device chose are so taken for packets of any interface.\<close>

theorem uart_payload_taken_for_frames:
  assumes "uart_packet ib" "ib_payload ib = concat (map (update_tx_header chk) ps)" "list_all uart_packet ps"
    "i = 4 \<or> i = 5" "update_tx_header chk ib ! i \<noteq> v"
  shows "\<exists>qs. uart_rx chk ((update_tx_header chk ib)[i := v] @ rest) =
      ((None, None) # qs @ fst (uart_rx chk rest), snd (uart_rx chk rest)) \<and>
      map uart_rx_view qs = map uart_view ps \<and>
    uart_read chk ((update_tx_header chk ib)[i := v] @ rest) =
      (None # map (\<lambda>p. Some (prio_of (ib_if_type p), p\<lparr>ib_zcopy := False\<rparr>)) ps @ fst (uart_read chk rest),
       snd (uart_read chk rest))"
proof -
  let ?f = "update_tx_header chk ib" and ?h = "plain_header ib"
  define g where "g = take HDR (?f[i := v])"
  have f: "?f = seal chk ?h (ib_payload ib)" by (rule plain_frames(2) [OF assms(1)])
  have "drop HDR (?f[i := v]) = drop HDR ?f" using assms(4) by (auto simp: HDR_def)
  then have "drop HDR (?f[i := v]) = ib_payload ib" by (simp add: f)
  then have g: "?f[i := v] = g @ ib_payload ib" "length g = HDR"
    using append_take_drop_id [of HDR "?f[i := v]"] by (simp_all add: g_def f)
  have "rd16 4 (?f[i := v]) \<noteq> rd16 4 ?f"
    using assms(4,5) by (intro rd16_update_here) (auto simp: f HDR_def)
  then have "h_offset (get_header g) \<noteq> h_offset (get_header ?f)"
    using g(2) get_header_pad [of g "ib_payload ib"] by (simp add: g(1) [symmetric] get_header_def HDR_def)
  moreover have o: "unat (h_offset (get_header ?f)) = HDR"
    using uart_seal_fields(2) [OF uart_header_plain [OF assms(1)], of chk "[]"] by (simp add: f)
  ultimately have bad: "unat (h_offset (get_header g)) \<noteq> HDR" using word_unat_eq_iff by metis
  note skip = uart_bad_header_skipped [OF g(2) disjI1 [OF bad], of chk "ib_payload ib @ rest"]
  have body: "ib_payload ib = framed chk ps" using assms(2,3) by (simp add: framed_sent)
  show ?thesis
    using skip uart_rx_framed [OF assms(3), of chk rest] uart_read_framed [OF assms(3), of chk rest]
    by (auto simp: g(1) body)
qed

subsection \<open>Witnesses\<close>

definition tunnel_pkt :: ibuf where
  "tunnel_pkt = demo_pkt\<lparr>ib_payload := update_tx_header True demo_pkt\<rparr>"

lemma demo_uart_packets: "uart_packet demo_pkt" "uart_packet tunnel_pkt"
  by (simp_all add: uart_packet_def tunnel_pkt_def demo_pkt_ok demo_pkt_def nibbles_def esp_ifs uart_sizes
      update_tx_header_seal seal_def put_header_def)

theorem uart_stream_arrives_witness:
  "(\<exists>s qs. uart_write True True (map Some [demo_pkt, tunnel_pkt]) = Some s \<and>
      uart_rx True (s @ [3, 0]) = (qs, [3, 0]) \<and> map uart_rx_view qs = map uart_view [demo_pkt, tunnel_pkt]) \<and>
    uart_read True (concat (map (\<lambda>ib. the (snd (h_uart_write True True True True ib))) [demo_pkt, tunnel_pkt]) @
        [3, 0]) =
      (map (\<lambda>ib. Some (prio_of (ib_if_type ib), ib\<lparr>ib_zcopy := False\<rparr>)) [demo_pkt, tunnel_pkt], [3, 0])"
  by (rule uart_stream_arrives) (simp_all add: demo_uart_packets HDR_def)

theorem uart_damage_is_contained_witness:
  "(\<exists>e. map uart_rx_view (fst (uart_rx True (concat (map (update_tx_header True) [demo_pkt]) @
        (update_tx_header True demo_pkt)[13 := 5] @ concat (map (update_tx_header True) [tunnel_pkt])))) =
      map uart_view [demo_pkt] @ (e, None) # map uart_view [tunnel_pkt]) \<and>
    fst (uart_read True (concat (map (update_tx_header True) [demo_pkt]) @
        (update_tx_header True demo_pkt)[13 := 5] @ concat (map (update_tx_header True) [tunnel_pkt]))) =
      map (\<lambda>p. Some (prio_of (ib_if_type p), p\<lparr>ib_zcopy := False\<rparr>)) [demo_pkt] @
      None # map (\<lambda>p. Some (prio_of (ib_if_type p), p\<lparr>ib_zcopy := False\<rparr>)) [tunnel_pkt]"
proof (rule uart_damage_is_contained [OF _ _ demo_uart_packets(1) refl _ _ _ refl])
  show "13 < length (update_tx_header True demo_pkt)" "update_tx_header True demo_pkt ! 13 \<noteq> 5" by code_simp+
qed (simp_all add: demo_uart_packets)

theorem uart_payload_taken_for_frames_witness:
  "\<exists>qs. uart_rx True ((update_tx_header True tunnel_pkt)[4 := 7] @ [9]) =
      ((None, None) # qs @ fst (uart_rx True [9]), snd (uart_rx True [9])) \<and>
      map uart_rx_view qs = map uart_view [demo_pkt] \<and>
    uart_read True ((update_tx_header True tunnel_pkt)[4 := 7] @ [9]) =
      (None # map (\<lambda>p. Some (prio_of (ib_if_type p), p\<lparr>ib_zcopy := False\<rparr>)) [demo_pkt] @
        fst (uart_read True [9]), snd (uart_read True [9]))"
proof (rule uart_payload_taken_for_frames [OF demo_uart_packets(2) _ _ disjI1 [OF refl]])
  show "ib_payload tunnel_pkt = concat (map (update_tx_header True) [demo_pkt])" by (simp add: tunnel_pkt_def)
  show "update_tx_header True tunnel_pkt ! 4 \<noteq> 7" by code_simp
qed (simp add: demo_uart_packets)

end
