(* ===== verification/Prio_Queue.thy ===== *)
theory Prio_Queue
  imports Transport_Frame "HOL-Library.Multiset"
begin

section \<open>The three priority queues of a transport\<close>

text \<open>
  Every bus driver of both sides has an array of three queues, puts a packet in the queue of its interface
  and takes from the serial one first, then from the Bluetooth one, then from the rest. The array is a record
  of three lists.
\<close>

record 'a pq =
  pq_serial :: "'a list"
  pq_bt :: "'a list"
  pq_others :: "'a list"

definition pq_empty :: "'a pq" where
  "pq_empty = \<lparr> pq_serial = [], pq_bt = [], pq_others = [] \<rparr>"

fun pq_get :: "prio_q \<Rightarrow> 'a pq \<Rightarrow> 'a list" where
  "pq_get PRIO_Q_SERIAL q = pq_serial q"
| "pq_get PRIO_Q_BT q = pq_bt q"
| "pq_get PRIO_Q_OTHERS q = pq_others q"

fun pq_put :: "prio_q \<Rightarrow> 'a \<Rightarrow> 'a pq \<Rightarrow> 'a pq" where
  "pq_put PRIO_Q_SERIAL x q = q\<lparr>pq_serial := pq_serial q @ [x]\<rparr>"
| "pq_put PRIO_Q_BT x q = q\<lparr>pq_bt := pq_bt q @ [x]\<rparr>"
| "pq_put PRIO_Q_OTHERS x q = q\<lparr>pq_others := pq_others q @ [x]\<rparr>"

definition pq_take :: "'a pq \<Rightarrow> ('a \<times> 'a pq) option" where
  "pq_take q =
     (case pq_serial q of x # xs \<Rightarrow> Some (x, q\<lparr>pq_serial := xs\<rparr>)
      | [] \<Rightarrow> (case pq_bt q of x # xs \<Rightarrow> Some (x, q\<lparr>pq_bt := xs\<rparr>)
        | [] \<Rightarrow> (case pq_others q of x # xs \<Rightarrow> Some (x, q\<lparr>pq_others := xs\<rparr>)
          | [] \<Rightarrow> None)))"

text \<open>What is queued, in the order in which it comes out.\<close>

definition pq_items :: "'a pq \<Rightarrow> 'a list" where
  "pq_items q = pq_serial q @ pq_bt q @ pq_others q"

text \<open>No queue holds more than \<open>n\<close>.\<close>

definition pq_bounded :: "nat \<Rightarrow> 'a pq \<Rightarrow> bool" where
  "pq_bounded n q \<longleftrightarrow> length (pq_serial q) \<le> n \<and> length (pq_bt q) \<le> n \<and> length (pq_others q) \<le> n"

subsection \<open>What the drivers rely on\<close>

text \<open>
  A buffer of packets and the counting semaphore beside it: a packet is put and the semaphore given, the
  semaphore is taken and then a packet. A semaphore that counts what is queued never leads to an empty queue,
  and taking as often as it counts yields everything in order.
\<close>

locale counted_buffer =
  fixes put :: "'k \<Rightarrow> 'a \<Rightarrow> 'q \<Rightarrow> 'q" and take_one :: "'q \<Rightarrow> ('a \<times> 'q) option" and items :: "'q \<Rightarrow> 'a list"
  assumes items_put: "mset (items (put k x q)) = add_mset x (mset (items q))"
    and take_None: "take_one q = None \<longleftrightarrow> items q = []"
    and take_Some: "take_one q = Some (x, q') \<Longrightarrow> items q = x # items q'"
begin

lemma size_put: "length (items (put k x q)) = Suc (length (items q))"
  using arg_cong [OF items_put, of size k x q] by simp

lemma take_counted:
  assumes "length (items q) = Suc n"
  obtains x q' where "take_one q = Some (x, q')" "length (items q') = n"
proof (cases "take_one q")
  case None then show ?thesis using assms by (simp add: take_None)
next
  case (Some p)
  then show ?thesis using assms take_Some that by (cases p) fastforce
qed

lemma take_mset: "take_one q = Some (x, q') \<Longrightarrow> mset (items q) = add_mset x (mset (items q'))"
  by (simp add: take_Some)

lemma take_size: "take_one q = Some (x, q') \<Longrightarrow> length (items q) = Suc (length (items q'))"
  by (simp add: take_Some)

end

interpretation pq: counted_buffer pq_put pq_take pq_items
proof
  fix k and x :: 'a and q q' :: "'a pq"
  show "mset (pq_items (pq_put k x q)) = add_mset x (mset (pq_items q))" by (cases k) (simp_all add: pq_items_def)
  show "pq_take q = None \<longleftrightarrow> pq_items q = []" by (simp add: pq_take_def pq_items_def split: list.splits)
  show "pq_take q = Some (x, q') \<Longrightarrow> pq_items q = x # pq_items q'"
    by (auto simp: pq_take_def pq_items_def split: list.splits)
qed

lemma pq_items_empty [simp]: "pq_items pq_empty = []" by (simp add: pq_items_def pq_empty_def)

lemma pq_bounded_empty [simp]: "pq_bounded n pq_empty" by (simp add: pq_bounded_def pq_empty_def)

lemma pq_bounded_put: "pq_bounded n q \<Longrightarrow> length (pq_get k q) < n \<Longrightarrow> pq_bounded n (pq_put k x q)"
  by (cases k) (simp_all add: pq_bounded_def)

lemma pq_bounded_take: "pq_bounded n q \<Longrightarrow> pq_take q = Some (x, q') \<Longrightarrow> pq_bounded n q'"
  by (auto simp: pq_bounded_def pq_take_def split: list.splits)

lemma pq_bounded_size: "pq_bounded n q \<Longrightarrow> length (pq_items q) \<le> 3 * n"
  by (simp add: pq_bounded_def pq_items_def)

lemma set_pq_put [simp]: "set (pq_items (pq_put k x q)) = insert x (set (pq_items q))"
  using arg_cong [OF pq.items_put, of set_mset k x q] by simp

end
