(* ===== verification/Spi_Slave.thy ===== *)
theory Spi_Slave
  imports Prio_Queue
begin

section \<open>The SPI driver of the co-processor (spi_slave_api.c)\<close>

text \<open>
  On a full-duplex SPI bus the co-processor always has one transaction queued with its driver: a buffer to send,
  a dummy one when there is nothing, and a buffer to receive into. The handshake line is high while a
  transaction is queued; the data-ready line tells the host that a packet waits. \<open>alloc\<close> arguments say whether
  a buffer is to be had; \<open>None\<close> is a failed assertion.
\<close>

definition SPI_BUFFER_SIZE :: nat where "SPI_BUFFER_SIZE = 1600"
definition ESP_MAX_IF :: u8 where "ESP_MAX_IF = 8"

lemmas spi_sizes = HDR_def SPI_BUFFER_SIZE_def

text \<open>Thresholds of the throttling in percent, sizes of the queues, and whether a checksum is built in.\<close>

record spi_cfg =
  sc_high :: nat
  sc_low :: nat
  sc_rx_q :: nat
  sc_tx_q :: nat
  sc_chk :: bool

text \<open>A packet waiting to be sent (\<open>interface_buffer_handle_t\<close>), with its framed buffer.\<close>

record spi_tx =
  tb_if_type :: u8
  tb_if_num :: u8
  tb_len :: nat
  tb_flow :: bool
  tb_buf :: "byte list"

text \<open>
  The state: queues and semaphores, the data-ready line (\<open>data_ready_flag\<close> mirrors it), the transmit buffers of
  the queued transactions, \<open>slv_state_g.current_throttling\<close>, and the counts of buffers allocated.
\<close>

record spi_slave =
  ss_tx_q :: "spi_tx pq"
  ss_tx_sem :: nat
  ss_dr :: bool
  ss_trans :: "byte list list"
  ss_throttling :: bool
  ss_rx_q :: "ibuf pq"
  ss_rx_sem :: nat
  ss_tx_bufs :: int
  ss_rx_bufs :: int

definition spi_slave_init :: spi_slave where
  "spi_slave_init = \<lparr> ss_tx_q = pq_empty, ss_tx_sem = 0, ss_dr = False, ss_trans = [], ss_throttling = False,
     ss_rx_q = pq_empty, ss_rx_sem = 0, ss_tx_bufs = 0, ss_rx_bufs = 0 \<rparr>"

definition find_wifi_tx_throttling :: "spi_cfg \<Rightarrow> spi_slave \<Rightarrow> bool \<times> spi_slave" where
  "find_wifi_tx_throttling c s =
     (if sc_high c = 0 then (False, s)
      else
       (let load = length (pq_others (ss_rx_q s)) mod 65536 * 100 div sc_rx_q c mod 256;
            t1 = (ss_throttling s \<or> sc_high c < load);
            t2 = (if load < sc_low c then False else t1)
        in (t2, s\<lparr>ss_throttling := t2\<rparr>)))"

subsection \<open>Sending\<close>

definition spi_aligned :: "nat \<Rightarrow> nat" where
  "spi_aligned n = (if n mod 4 \<noteq> 0 then n + (4 - n mod 4) else n)"

text \<open>The transmit buffer: it is cleared when it is allocated, and sent whole.\<close>

definition spi_padded :: "byte list \<Rightarrow> byte list" where
  "spi_padded f = f @ replicate (SPI_BUFFER_SIZE - length f) 0"

text \<open>
  \<open>esp_spi_write\<close>, up to the queue, and its two last calls. The flow control flag stays in the handle; the
  header, made by the same code as on SDIO, does not get it.
\<close>

definition spi_write_enqueue :: "spi_cfg \<Rightarrow> bool \<Rightarrow> bool \<Rightarrow> ibuf \<Rightarrow> spi_slave \<Rightarrow> (int \<times> spi_slave) option" where
  "spi_write_enqueue c active alloc ib s =
     (let n = length (ib_payload ib); total = spi_aligned (n + HDR) in
      if \<not> active \<or> n = 0 \<or> SPI_BUFFER_SIZE < total then Some (ESP_FAIL, s)
      else if \<not> alloc then None
      else
       (case find_wifi_tx_throttling c (s\<lparr>ss_tx_bufs := ss_tx_bufs s + 1\<rparr>) of (flow, s1) \<Rightarrow>
          Some (int n, s1\<lparr>ss_tx_q := pq_put (prio_of (ib_if_type ib))
            \<lparr> tb_if_type = ib_if_type ib, tb_if_num = ib_if_num ib, tb_len = total, tb_flow = flow,
              tb_buf = spi_padded (update_tx_header (sc_chk c) ib) \<rparr> (ss_tx_q s1)\<rparr>)))"

definition set_dataready :: "spi_slave \<Rightarrow> spi_slave" where
  "set_dataready s = s\<lparr>ss_dr := True\<rparr>"

definition reset_dataready :: "spi_slave \<Rightarrow> spi_slave" where
  "reset_dataready s = s\<lparr>ss_dr := False\<rparr>"

definition give_tx_sem :: "spi_cfg \<Rightarrow> spi_slave \<Rightarrow> spi_slave" where
  "give_tx_sem c s = s\<lparr>ss_tx_sem := min (Suc (ss_tx_sem s)) (3 * sc_tx_q c)\<rparr>"

definition esp_spi_write :: "spi_cfg \<Rightarrow> bool \<Rightarrow> bool \<Rightarrow> ibuf \<Rightarrow> spi_slave \<Rightarrow> (int \<times> spi_slave) option" where
  "esp_spi_write c active alloc ib s = map_option
     (\<lambda>(r, s1). (r, if r = ESP_FAIL then s1 else give_tx_sem c (set_dataready s1)))
     (spi_write_enqueue c active alloc ib s)"

text \<open>
  \<open>get_next_tx_buffer\<close> in its two parts: the semaphore and the queues, and the dummy buffer. The count of
  buffers goes up before the allocation, also when that fails.
\<close>

definition spi_take_tx :: "spi_slave \<Rightarrow> byte list option \<times> spi_slave" where
  "spi_take_tx s =
     (if ss_tx_sem s = 0 then (None, s)
      else
       (let s1 = s\<lparr>ss_tx_sem := ss_tx_sem s - 1\<rparr> in
        case pq_take (ss_tx_q s1) of
          None \<Rightarrow> (None, s1)
        | Some (t, q) \<Rightarrow> (Some (tb_buf t), s1\<lparr>ss_tx_q := q\<rparr>)))"

definition spi_dummy_frame :: "bool \<Rightarrow> byte list" where
  "spi_dummy_frame throttle = spi_padded (put_header \<lparr> h_if_type = ESP_MAX_IF, h_if_num = 15, h_flags = 0,
     h_len = 0, h_offset = 0, h_checksum = 0, h_seq_num = 0, h_throttle_cmd = of_bool throttle, h_pkt_type = 0 \<rparr>)"

definition spi_make_dummy :: "spi_cfg \<Rightarrow> bool \<Rightarrow> spi_slave \<Rightarrow> byte list option \<times> spi_slave" where
  "spi_make_dummy c alloc s =
     (let s1 = (reset_dataready s)\<lparr>ss_tx_bufs := ss_tx_bufs s + 1\<rparr> in
      if \<not> alloc then (None, s1)
      else (case find_wifi_tx_throttling c s1 of (t, s2) \<Rightarrow> (Some (spi_dummy_frame t), s2)))"

definition spi_next_tx_buffer :: "spi_cfg \<Rightarrow> bool \<Rightarrow> spi_slave \<Rightarrow> byte list option \<times> spi_slave" where
  "spi_next_tx_buffer c alloc s =
     (case spi_take_tx s of
        (Some b, s1) \<Rightarrow> (Some b, s1)
      | (None, s1) \<Rightarrow> spi_make_dummy c alloc s1)"

text \<open>A transaction with a transmit buffer: it gets a receive buffer and is queued.\<close>

definition spi_attach :: "bool \<Rightarrow> byte list \<Rightarrow> spi_slave \<Rightarrow> spi_slave option" where
  "spi_attach alloc_rx b s =
     (if alloc_rx then Some (s\<lparr>ss_rx_bufs := ss_rx_bufs s + 1, ss_trans := ss_trans s @ [b]\<rparr>) else None)"

definition queue_next_transaction :: "spi_cfg \<Rightarrow> bool \<Rightarrow> bool \<Rightarrow> spi_slave \<Rightarrow> spi_slave option" where
  "queue_next_transaction c alloc alloc_rx s =
     (case spi_next_tx_buffer c alloc s of
        (None, s1) \<Rightarrow> Some s1
      | (Some b, s1) \<Rightarrow> spi_attach alloc_rx b s1)"

text \<open>\<open>generate_startup_event\<close>, given the event it builds.\<close>

definition spi_queue_startup :: "spi_cfg \<Rightarrow> byte list \<Rightarrow> spi_slave \<Rightarrow> spi_slave option" where
  "spi_queue_startup c ev s =
     queue_next_transaction c True True
      (set_dataready (give_tx_sem c (s\<lparr>ss_tx_bufs := ss_tx_bufs s + 1, ss_tx_q := pq_put PRIO_Q_OTHERS
         \<lparr> tb_if_type = 0, tb_if_num = 0, tb_len = length ev, tb_flow = False, tb_buf = spi_padded ev \<rparr>
         (ss_tx_q s)\<rparr>)))"

subsection \<open>Receiving\<close>

definition process_spi_rx :: "spi_cfg \<Rightarrow> byte list \<Rightarrow> spi_slave \<Rightarrow> ps_event option \<times> bool \<times> spi_slave" where
  "process_spi_rx c rx s =
     (let h = get_header rx; len = unat (h_len h); off = unat (h_offset h);
          rx0 = (if sc_chk c then set_checksum 0 rx else rx)
      in (ps_flag_event (h_flags h),
          if len = 0 \<or> SPI_BUFFER_SIZE < len + off \<or>
             sc_chk c \<and> compute_checksum rx0 (len + off) \<noteq> h_checksum h then (False, s)
          else (True, s\<lparr>ss_rx_q := pq_put (prio_of (h_if_type h))
             \<lparr> ib_if_type = h_if_type h, ib_if_num = h_if_num h, ib_flag = 0, ib_seq = 0,
               ib_payload = take (len + off) rx0, ib_zcopy = False \<rparr> (ss_rx_q s),
             ss_rx_sem := min (Suc (ss_rx_sem s)) (3 * sc_rx_q c)\<rparr>)))"

text \<open>The end of a round of \<open>spi_transaction_post_process_task\<close>: the transmit buffer is freed, what was received
  processed, and its buffer freed when nothing keeps it. Then the round.\<close>

definition spi_finish_transaction :: "spi_cfg \<Rightarrow> byte list \<Rightarrow> spi_slave \<Rightarrow> ps_event option \<times> spi_slave" where
  "spi_finish_transaction c rx s =
     (case process_spi_rx c rx (s\<lparr>ss_tx_bufs := ss_tx_bufs s - 1\<rparr>) of
        (e, kept, s1) \<Rightarrow> (e, if kept then s1 else s1\<lparr>ss_rx_bufs := ss_rx_bufs s1 - 1\<rparr>))"

definition spi_post_process :: "spi_cfg \<Rightarrow> bool \<Rightarrow> bool \<Rightarrow> byte list \<Rightarrow> spi_slave \<Rightarrow> (ps_event option \<times> spi_slave) option" where
  "spi_post_process c alloc alloc_rx rx s =
     map_option (spi_finish_transaction c rx) (queue_next_transaction c alloc alloc_rx s)"

text \<open>\<open>esp_spi_read\<close>: \<open>None\<close> waits for the semaphore, which is taken before the state is looked at. And
  \<open>esp_spi_read_done\<close>, when the reader gives the buffer back.\<close>

definition esp_spi_read :: "bool \<Rightarrow> spi_slave \<Rightarrow> (int \<times> ibuf option \<times> spi_slave) option" where
  "esp_spi_read up s =
     (if ss_rx_sem s = 0 then None
      else
       (let s1 = s\<lparr>ss_rx_sem := ss_rx_sem s - 1\<rparr> in
        if \<not> up then Some (ESP_FAIL, None, s1)
        else (case pq_take (ss_rx_q s1) of
           None \<Rightarrow> Some (ESP_FAIL, None, s1)
         | Some (ib, q) \<Rightarrow> Some (int (length (ib_payload ib)), Some ib, s1\<lparr>ss_rx_q := q\<rparr>))))"

definition esp_spi_read_done :: "spi_slave \<Rightarrow> spi_slave" where
  "esp_spi_read_done s = s\<lparr>ss_rx_bufs := ss_rx_bufs s - 1\<rparr>"

end
