(* ===== verification/Spi_Host.thy ===== *)
theory Spi_Host
  imports Spi_Slave
begin

section \<open>The SPI driver of the host (spi_drv.c)\<close>

text \<open>
  The host clocks every transaction. One task waits for \<open>spi_trans_ready_sem\<close>, which the interrupts of both
  lines and every packet to send give, looks at the lines and runs a transaction when there is a reason for
  one; a second task hands received packets on. The checksum is always computed and compared.
\<close>

text \<open>
  \<open>sh_dr_isr\<close> is \<open>dr_isr_triggered\<close>, \<open>sh_dummy_rx\<close> and \<open>sh_dummy_tx\<close> are \<open>schedule_dummy_rx\<close> and
  \<open>schedule_dummy_tx\<close>, \<open>sh_throttle\<close> is \<open>wifi_tx_throttling\<close>.
\<close>

record spi_host =
  sh_tx_q :: "ibuf pq"
  sh_tx_sem :: nat
  sh_ready :: bool
  sh_dr_isr :: bool
  sh_dummy_rx :: bool
  sh_dummy_tx :: bool
  sh_throttle :: u8
  sh_rx_q :: "ibuf pq"
  sh_rx_sem :: nat

definition spi_host_init :: spi_host where
  "spi_host_init = \<lparr> sh_tx_q = pq_empty, sh_tx_sem = 0, sh_ready = False, sh_dr_isr = False,
     sh_dummy_rx = False, sh_dummy_tx = False, sh_throttle = 0, sh_rx_q = pq_empty, sh_rx_sem = 0 \<rparr>"

definition SPI_MAX_PAYLOAD :: nat where "SPI_MAX_PAYLOAD = SPI_BUFFER_SIZE - HDR"

text \<open>\<open>gpio_hs_isr_handler\<close> and \<open>gpio_dr_isr_handler\<close>.\<close>

definition gpio_hs_isr_handler :: "spi_host \<Rightarrow> spi_host" where
  "gpio_hs_isr_handler s = s\<lparr>sh_ready := True\<rparr>"

definition gpio_dr_isr_handler :: "spi_host \<Rightarrow> spi_host" where
  "gpio_dr_isr_handler s = s\<lparr>sh_ready := True, sh_dr_isr := True\<rparr>"

text \<open>\<open>esp_hosted_tx\<close>; \<open>n\<close> is the size of a queue.\<close>

definition spi_hosted_tx :: "nat \<Rightarrow> ibuf \<Rightarrow> spi_host \<Rightarrow> int \<times> spi_host" where
  "spi_hosted_tx n ib s =
     (let len = length (ib_payload ib) in
      if (ib_flag ib = 0 \<or> ib_flag ib = MORE_FRAGMENT) \<and> (len = 0 \<or> SPI_MAX_PAYLOAD < len) then (-1, s)
      else (0, s\<lparr>sh_tx_q := pq_put (prio_of (ib_if_type ib)) (ib\<lparr>ib_seq := 0\<rparr>) (sh_tx_q s),
                 sh_tx_sem := min (Suc (sh_tx_sem s)) (3 * n), sh_ready := True\<rparr>))"

text \<open>
  \<open>get_next_tx_buffer\<close>. The whole buffer is sent: behind a copied packet it is cleared, behind a packet sent in
  place lie the bytes \<open>behind\<close>. \<open>None\<close> is a copy from an HCI packet without payload or of more bytes than fit.
\<close>

definition spi_get_next_tx_buffer :: "byte list \<Rightarrow> spi_host \<Rightarrow> (byte list option \<times> spi_host) option" where
  "spi_get_next_tx_buffer behind s =
     (if sh_tx_sem s = 0 then Some (None, s)
      else
       (let s1 = s\<lparr>sh_tx_sem := sh_tx_sem s - 1\<rparr> in
        case pq_take (sh_tx_q s1) of
          None \<Rightarrow> Some (None, s1)
        | Some (ib, q) \<Rightarrow>
           (let n = length (ib_payload ib); s2 = s1\<lparr>sh_tx_q := q\<rparr> in
            if ib_flag ib = 0 \<and> n = 0 then Some (None, s2)
            else if \<not> ib_zcopy ib \<and> (SPI_MAX_PAYLOAD < n \<or> n = 0 \<and> ib_if_type ib = ESP_HCI_IF) then None
            else
             (let f = sdio_frame True n ib in
              Some (Some (if ib_zcopy ib then f @ behind else spi_padded f), s2)))))"

definition spi_host_dummy :: "byte list" where
  "spi_host_dummy = spi_padded (put_header \<lparr> h_if_type = ESP_MAX_IF, h_if_num = 0, h_flags = 0, h_len = 0,
     h_offset = 0, h_checksum = 0, h_seq_num = 0, h_throttle_cmd = 0, h_pkt_type = 0 \<rparr>)"

text \<open>\<open>process_spi_rx_buf\<close>, and the packet it queues; \<open>n\<close> is the size of a queue.\<close>

definition spi_rx_accepts :: "byte list \<Rightarrow> bool" where
  "spi_rx_accepts rx =
     (let h = get_header rx; len = unat (h_len h); off = unat (h_offset h) in
      len \<noteq> 0 \<and> len \<le> SPI_MAX_PAYLOAD \<and> off = HDR \<and>
      compute_checksum (set_checksum 0 rx) (len + off) = h_checksum h)"

definition spi_rx_packet :: "byte list \<Rightarrow> prio_q \<times> ibuf" where
  "spi_rx_packet rx = sdio_push_pkt_to_queue rx (unat (h_len (get_header rx))) HDR"

definition process_spi_rx_buf :: "nat \<Rightarrow> byte list \<Rightarrow> spi_host \<Rightarrow> spi_host" where
  "process_spi_rx_buf n rx s =
     (let h = get_header rx; len = unat (h_len h);
          s1 = (if h_if_type h = ESP_MAX_IF then s\<lparr>sh_dummy_rx := False\<rparr> else s)
      in if len = 0 then s1\<lparr>sh_throttle := h_throttle_cmd h\<rparr>
         else if SPI_MAX_PAYLOAD < len \<or> unat (h_offset h) \<noteq> HDR then s1
         else if \<not> spi_rx_accepts rx then s1\<lparr>sh_dr_isr := False\<rparr>
         else s1\<lparr>sh_dr_isr := False, sh_throttle := h_throttle_cmd h,
           sh_rx_q := pq_put (fst (spi_rx_packet rx)) (snd (spi_rx_packet rx)) (sh_rx_q s1),
           sh_rx_sem := min (Suc (sh_rx_sem s1)) (3 * n)\<rparr>)"

text \<open>
  \<open>check_and_execute_spi_transaction\<close>, after the semaphore was taken: what it sends, if it runs a transaction.
  \<open>hs\<close> and \<open>dr\<close> are the lines it reads, \<open>ok\<close> and \<open>rx\<close> the result of the transfer.
\<close>

definition check_and_execute_spi_transaction ::
  "nat \<Rightarrow> byte list \<Rightarrow> bool \<Rightarrow> bool \<Rightarrow> bool \<Rightarrow> byte list \<Rightarrow> spi_host \<Rightarrow> (byte list option \<times> spi_host) option" where
  "check_and_execute_spi_transaction n behind hs dr ok rx s =
     (let again = (\<lambda>s. if sh_dummy_tx s \<or> sh_dummy_rx s then s\<lparr>sh_ready := True\<rparr> else s) in
      if \<not> hs then Some (None, s\<lparr>sh_ready := True\<rparr>)
      else
       (case spi_get_next_tx_buffer behind s of
          None \<Rightarrow> None
        | Some (tx, s1) \<Rightarrow>
            if dr \<or> sh_dr_isr s \<or> tx \<noteq> None \<or> sh_dummy_tx s1 \<or> sh_dummy_rx s1
            then
             (let s2 = s1\<lparr>sh_dummy_tx := (tx \<noteq> None)\<rparr>;
                  s3 = (if ok then process_spi_rx_buf n rx s2 else s2)
              in Some (Some (case tx of None \<Rightarrow> spi_host_dummy | Some f \<Rightarrow> f), again s3))
            else Some (None, again s1)))"

text \<open>\<open>spi_process_rx_task\<close>: the packet it hands on, and the dummy transaction it asks for.\<close>

definition spi_process_rx :: "spi_host \<Rightarrow> (ibuf option \<times> spi_host) option" where
  "spi_process_rx s =
     (if sh_rx_sem s = 0 then None
      else
       (let s1 = s\<lparr>sh_rx_sem := sh_rx_sem s - 1\<rparr> in
        case pq_take (sh_rx_q s1) of
          None \<Rightarrow> Some (None, s1)
        | Some (ib, q) \<Rightarrow>
           (let s2 = s1\<lparr>sh_rx_q := q\<rparr> in
            Some (Some ib, if ib_if_type ib \<in> {ESP_SERIAL_IF, ESP_STA_IF, ESP_AP_IF}
              then s2\<lparr>sh_dummy_rx := True\<rparr> else s2))))"

subsection \<open>Frames\<close>

lemma get_header_spi_padded [simp]: "HDR \<le> length f \<Longrightarrow> get_header (spi_padded f) = get_header f"
  by (simp add: spi_padded_def get_header_pad HDR_def)

lemma length_spi_padded: "length f \<le> SPI_BUFFER_SIZE \<Longrightarrow> length (spi_padded f) = SPI_BUFFER_SIZE"
  by (simp add: spi_padded_def)

lemma spi_dummy_header:
  "get_header (spi_dummy_frame t) = \<lparr> h_if_type = ESP_MAX_IF, h_if_num = 15, h_flags = 0, h_len = 0, h_offset = 0,
     h_checksum = 0, h_seq_num = 0, h_throttle_cmd = of_bool t, h_pkt_type = 0 \<rparr>"
  unfolding spi_dummy_frame_def spi_padded_def
  by (cases t) (subst get_put_header; simp add: ESP_MAX_IF_def)+

lemma spi_host_dummy_header:
  "get_header spi_host_dummy = \<lparr> h_if_type = ESP_MAX_IF, h_if_num = 0, h_flags = 0, h_len = 0, h_offset = 0,
     h_checksum = 0, h_seq_num = 0, h_throttle_cmd = 0, h_pkt_type = 0 \<rparr>"
  unfolding spi_host_dummy_def spi_padded_def by (subst get_put_header; simp add: ESP_MAX_IF_def)

lemma spi_dummy_not_accepted [simp]: "\<not> spi_rx_accepts (spi_dummy_frame t)"
  by (simp add: spi_rx_accepts_def spi_dummy_header Let_def)

text \<open>A packet both sides frame as it is.\<close>

definition spi_packet :: "ibuf \<Rightarrow> bool" where
  "spi_packet ib \<longleftrightarrow> nibbles ib \<and> ib_payload ib \<noteq> [] \<and> length (ib_payload ib) \<le> SPI_MAX_PAYLOAD"

lemma spi_seal_header:
  assumes "spi_packet ib"
  shows "get_header (spi_padded (update_tx_header chk ib)) =
      (tx_header ib (length (ib_payload ib)) 0)\<lparr>h_checksum := (if chk
        then checksum_from 0 (put_header (tx_header ib (length (ib_payload ib)) 0) @ ib_payload ib) else 0)\<rparr>"
  using assms get_header_seal [of "tx_header ib (length (ib_payload ib)) 0" chk "ib_payload ib"
      "replicate (SPI_BUFFER_SIZE - (HDR + length (ib_payload ib))) 0"]
  by (simp add: spi_packet_def nibbles_def update_tx_header_seal spi_padded_def)
     (simp add: tx_header_def)

lemma spi_packet_len:
  assumes "spi_packet ib"
  shows "unat (word_of_nat (length (ib_payload ib)) :: u16) = length (ib_payload ib)"
    "unat (word_of_nat HDR :: u16) = HDR"
  using assms by (simp_all add: spi_packet_def SPI_MAX_PAYLOAD_def spi_sizes unsigned_of_nat take_bit_nat_eq_self)

text \<open>A frame with a checksum is accepted by the host as the packet it was made of; one without usually not.\<close>

lemma spi_frame_accepted:
  assumes "spi_packet ib"
  shows "spi_rx_accepts (spi_padded (update_tx_header True ib))"
    "spi_rx_packet (spi_padded (update_tx_header True ib)) =
      (prio_of (ib_if_type ib), ib\<lparr>ib_zcopy := False\<rparr>)"
    "h_if_type (get_header (spi_padded (update_tx_header True ib))) = ib_if_type ib"
    "h_throttle_cmd (get_header (spi_padded (update_tx_header True ib))) = 0"
proof -
  note h = spi_seal_header [OF assms, of True] spi_packet_len [OF assms]
  have c: "compute_checksum (set_checksum 0 (spi_padded (update_tx_header True ib))) (length (ib_payload ib) + HDR) =
      checksum_from 0 (put_header (tx_header ib (length (ib_payload ib)) 0) @ ib_payload ib)"
    using compute_checksum_seal [of "ib_payload ib" "length (ib_payload ib)" True
        "tx_header ib (length (ib_payload ib)) 0"]
    by (simp add: update_tx_header_seal spi_padded_def) (simp add: tx_header_def)
  have d: "drop HDR (spi_padded (update_tx_header True ib)) =
      ib_payload ib @ replicate (SPI_BUFFER_SIZE - (HDR + length (ib_payload ib))) 0"
    by (simp add: spi_padded_def update_tx_header_seal)
  show "spi_rx_accepts (spi_padded (update_tx_header True ib))"
    using assms h c by (simp add: spi_rx_accepts_def Let_def spi_packet_def)
  show "spi_rx_packet (spi_padded (update_tx_header True ib)) =
      (prio_of (ib_if_type ib), ib\<lparr>ib_zcopy := False\<rparr>)"
    using h d by (simp add: spi_rx_packet_def sdio_push_pkt_to_queue_def Let_def)
  show "h_if_type (get_header (spi_padded (update_tx_header True ib))) = ib_if_type ib"
    "h_throttle_cmd (get_header (spi_padded (update_tx_header True ib))) = 0"
    using h by simp_all
qed

lemma process_spi_rx_buf_accepted:
  assumes "spi_rx_accepts rx" "h_if_type (get_header rx) \<noteq> ESP_MAX_IF"
  shows "process_spi_rx_buf n rx s = s\<lparr>sh_dr_isr := False, sh_throttle := h_throttle_cmd (get_header rx),
     sh_rx_q := pq_put (fst (spi_rx_packet rx)) (snd (spi_rx_packet rx)) (sh_rx_q s),
     sh_rx_sem := min (Suc (sh_rx_sem s)) (3 * n)\<rparr>"
  using assms by (auto simp: process_spi_rx_buf_def spi_rx_accepts_def Let_def)

lemma process_spi_rx_buf_dummy:
  "process_spi_rx_buf n (spi_dummy_frame t) s = s\<lparr>sh_dummy_rx := False, sh_throttle := of_bool t\<rparr>"
  by (simp add: process_spi_rx_buf_def spi_dummy_header Let_def)

end
