(* ===== verification/Spi_Bus.thy ===== *)
theory Spi_Bus
  imports Spi_Host
begin

section \<open>Both SPI drivers on one bus\<close>

text \<open>
  The co-processor's writers, its post-processing task, its reader and the host's two tasks run at the same
  time. A state holds both drivers; the transactions that are complete and not yet fetched by the
  post-processing task (what the host sent in them); where that task is; the writers that have queued a packet
  and not yet raised the line, and those that have raised it and not yet given the semaphore; the receive
  buffers that readers hold; and two histories: the packets written, as the host is to see them, and the packets
  the host has queued. Raising a line runs the host's interrupt handler.
\<close>

text \<open>The task waits for a transaction, has found no packet and is about to lower the line, or has queued
  the next transaction and is about to process what was received.\<close>

datatype spi_pc = Waiting | Late "byte list" | Processing "byte list"

record spi_sys =
  sy_sl :: spi_slave
  sy_ho :: spi_host
  sy_done :: "byte list list"
  sy_pc :: spi_pc
  sy_to_raise :: nat
  sy_to_give :: nat
  sy_held :: nat
  sy_written :: "ibuf list"
  sy_got :: "ibuf list"

datatype spi_act =
  Wr_queue ibuf | Wr_raise | Wr_give | Task_take | Task_dummy bool | Task_process
| Host_tx ibuf | Host_round | Host_rx | Slave_read | Slave_release

text \<open>
  A transaction is queued: the handshake line goes high (\<open>spi_post_setup_cb\<close>). It goes low when the
  transaction is over (\<open>spi_post_trans_cb\<close>), so it is high exactly while one is queued.
\<close>

definition spi_stage :: "byte list \<Rightarrow> spi_pc \<Rightarrow> spi_sys \<Rightarrow> spi_sys option" where
  "spi_stage b pc s = map_option
     (\<lambda>sl. s\<lparr>sy_sl := sl, sy_ho := gpio_hs_isr_handler (sy_ho s), sy_pc := pc\<rparr>)
     (spi_attach True b (sy_sl s))"

text \<open>
  The steps. Buffers whose allocation is asserted are there, transfers succeed, \<open>n\<close> is the size of the host's
  queues. A step that would wait for room in a queue is not possible until there is room; the host waits
  before the round and not within it.
\<close>

fun spi_do :: "spi_cfg \<Rightarrow> nat \<Rightarrow> spi_act \<Rightarrow> spi_sys \<Rightarrow> spi_sys option" where
  "spi_do c n (Wr_queue ib) s =
     (if length (pq_get (prio_of (ib_if_type ib)) (ss_tx_q (sy_sl s))) < sc_tx_q c
      then (case spi_write_enqueue c True True ib (sy_sl s) of
         None \<Rightarrow> None
       | Some (r, sl) \<Rightarrow> if r = ESP_FAIL then None
           else Some (s\<lparr>sy_sl := sl, sy_to_raise := Suc (sy_to_raise s),
             sy_written := sy_written s @ [ib\<lparr>ib_zcopy := False\<rparr>]\<rparr>))
      else None)"
| "spi_do c n Wr_raise s =
     (if sy_to_raise s = 0 then None
      else Some (s\<lparr>sy_sl := set_dataready (sy_sl s),
        sy_ho := (if ss_dr (sy_sl s) then sy_ho s else gpio_dr_isr_handler (sy_ho s)),
        sy_to_raise := sy_to_raise s - 1, sy_to_give := Suc (sy_to_give s)\<rparr>))"
| "spi_do c n Wr_give s =
     (if sy_to_give s = 0 then None
      else Some (s\<lparr>sy_sl := give_tx_sem c (sy_sl s), sy_to_give := sy_to_give s - 1\<rparr>))"
| "spi_do c n Task_take s =
     (case (sy_pc s, sy_done s) of
        (Waiting, rx # rxs) \<Rightarrow>
         (case spi_take_tx (sy_sl s) of
            (None, sl) \<Rightarrow> Some (s\<lparr>sy_sl := sl, sy_done := rxs, sy_pc := Late rx\<rparr>)
          | (Some b, sl) \<Rightarrow> spi_stage b (Processing rx) (s\<lparr>sy_sl := sl, sy_done := rxs\<rparr>))
      | _ \<Rightarrow> None)"
| "spi_do c n (Task_dummy alloc) s =
     (case sy_pc s of
        Late rx \<Rightarrow>
         (case spi_make_dummy c alloc (sy_sl s) of
            (None, sl) \<Rightarrow> Some (s\<lparr>sy_sl := sl, sy_pc := Processing rx\<rparr>)
          | (Some b, sl) \<Rightarrow> spi_stage b (Processing rx) (s\<lparr>sy_sl := sl\<rparr>))
      | _ \<Rightarrow> None)"
| "spi_do c n Task_process s =
     (case sy_pc s of
        Processing rx \<Rightarrow>
          if length (pq_get (prio_of (h_if_type (get_header rx))) (ss_rx_q (sy_sl s))) < sc_rx_q c
          then Some (s\<lparr>sy_sl := snd (spi_finish_transaction c rx (sy_sl s)), sy_pc := Waiting\<rparr>)
          else None
      | _ \<Rightarrow> None)"
| "spi_do c n (Host_tx ib) s =
     (if length (pq_get (prio_of (ib_if_type ib)) (sh_tx_q (sy_ho s))) < n
      then Some (s\<lparr>sy_ho := snd (spi_hosted_tx n ib (sy_ho s))\<rparr>) else None)"
| "spi_do c n Host_round s =
     (let b = (case ss_trans (sy_sl s) of [] \<Rightarrow> [] | b # _ \<Rightarrow> b) in
      if \<not> sh_ready (sy_ho s) \<or>
        ss_trans (sy_sl s) \<noteq> [] \<and> n \<le> length (pq_get (fst (spi_rx_packet b)) (sh_rx_q (sy_ho s))) then None
      else
       (case check_and_execute_spi_transaction n [] (ss_trans (sy_sl s) \<noteq> []) (ss_dr (sy_sl s)) True b
          ((sy_ho s)\<lparr>sh_ready := False\<rparr>) of
          None \<Rightarrow> None
        | Some (None, h) \<Rightarrow> Some (s\<lparr>sy_ho := h\<rparr>)
        | Some (Some f, h) \<Rightarrow>
            Some (s\<lparr>sy_sl := (sy_sl s)\<lparr>ss_trans := tl (ss_trans (sy_sl s))\<rparr>, sy_ho := h, sy_done := sy_done s @ [f],
              sy_got := sy_got s @ (if spi_rx_accepts b then [snd (spi_rx_packet b)] else [])\<rparr>)))"
| "spi_do c n Host_rx s = map_option (\<lambda>(_, h). s\<lparr>sy_ho := h\<rparr>) (spi_process_rx (sy_ho s))"
| "spi_do c n Slave_read s =
     (case esp_spi_read True (sy_sl s) of
        Some (_, Some _, sl) \<Rightarrow> Some (s\<lparr>sy_sl := sl, sy_held := Suc (sy_held s)\<rparr>)
      | _ \<Rightarrow> None)"
| "spi_do c n Slave_release s =
     (if sy_held s = 0 then None
      else Some (s\<lparr>sy_sl := esp_spi_read_done (sy_sl s), sy_held := sy_held s - 1\<rparr>))"

fun spi_run :: "spi_cfg \<Rightarrow> nat \<Rightarrow> spi_act list \<Rightarrow> spi_sys \<Rightarrow> spi_sys option" where
  "spi_run c n [] s = Some s"
| "spi_run c n (a # as) s = (case spi_do c n a s of None \<Rightarrow> None | Some s' \<Rightarrow> spi_run c n as s')"

text \<open>After \<open>generate_startup_event\<close>: its event is the first transaction, and both lines went high.\<close>

definition spi_start :: "spi_cfg \<Rightarrow> byte list \<Rightarrow> spi_sys" where
  "spi_start c ev = \<lparr> sy_sl = the (spi_queue_startup c ev spi_slave_init),
     sy_ho = gpio_hs_isr_handler (gpio_dr_isr_handler spi_host_init), sy_done = [], sy_pc = Waiting,
     sy_to_raise = 0, sy_to_give = 0, sy_held = 0, sy_written = [snd (spi_rx_packet (spi_padded ev))], sy_got = [] \<rparr>"

text \<open>The steps that need no new packet from above.\<close>

definition spi_internal :: "spi_act list" where
  "spi_internal = [Wr_raise, Wr_give, Task_take, Task_dummy True, Task_dummy False, Task_process, Host_round,
     Host_rx, Slave_read, Slave_release]"

definition spi_quiet :: "spi_cfg \<Rightarrow> nat \<Rightarrow> spi_sys \<Rightarrow> bool" where
  "spi_quiet c n s \<longleftrightarrow> list_all (\<lambda>a. spi_do c n a s = None) spi_internal"

text \<open>Proper packets, and memory for dummy buffers.\<close>

fun spi_act_ok :: "spi_act \<Rightarrow> bool" where
  "spi_act_ok (Wr_queue ib) = spi_packet ib"
| "spi_act_ok (Host_tx ib) = spi_packet ib"
| "spi_act_ok (Task_dummy alloc) = alloc"
| "spi_act_ok _ = True"

lemma spi_run_append: "spi_run c n (as @ bs) s = (case spi_run c n as s of None \<Rightarrow> None | Some t \<Rightarrow> spi_run c n bs t)"
  by (induction as arbitrary: s) (auto split: option.splits)

text \<open>An invariant of every step holds after every run.\<close>

lemma spi_run_induct:
  assumes step: "\<And>a s t. I s \<Longrightarrow> ok a \<Longrightarrow> spi_do c n a s = Some t \<Longrightarrow> I t"
    and "I s" "list_all ok as" "spi_run c n as s = Some t"
  shows "I t"
  using assms(2-4) by (induction as arbitrary: s) (auto split: option.splits dest: step)

subsection \<open>The invariant of every interleaving\<close>

definition spi_queued :: "spi_slave \<Rightarrow> ibuf list" where
  "spi_queued sl = map (\<lambda>t. snd (spi_rx_packet (tb_buf t))) (pq_items (ss_tx_q sl))"

definition spi_staged :: "spi_slave \<Rightarrow> ibuf list" where
  "spi_staged sl = map (\<lambda>b. snd (spi_rx_packet b)) (filter spi_rx_accepts (ss_trans sl))"

definition spi_pc_open :: "spi_pc \<Rightarrow> nat" where
  "spi_pc_open pc = (case pc of Waiting \<Rightarrow> 0 | _ \<Rightarrow> 1)"

definition spi_pc_late :: "spi_pc \<Rightarrow> nat" where
  "spi_pc_late pc = (case pc of Late _ \<Rightarrow> 1 | _ \<Rightarrow> 0)"

text \<open>Queues and semaphores of the co-processor.\<close>

definition spi_counts :: "spi_cfg \<Rightarrow> spi_sys \<Rightarrow> bool" where
  "spi_counts c s \<longleftrightarrow> (let sl = sy_sl s in
     length (ss_trans sl) + length (sy_done s) + spi_pc_late (sy_pc s) = 1 \<and>
     ss_tx_sem sl + sy_to_raise s + sy_to_give s = length (pq_items (ss_tx_q sl)) \<and>
     pq_bounded (sc_tx_q c) (ss_tx_q sl) \<and>
     ss_rx_sem sl = length (pq_items (ss_rx_q sl)) \<and> pq_bounded (sc_rx_q c) (ss_rx_q sl))"

text \<open>Where the buffers are.\<close>

definition spi_buffers :: "spi_sys \<Rightarrow> bool" where
  "spi_buffers s \<longleftrightarrow> (let sl = sy_sl s; flying = length (ss_trans sl) + length (sy_done s) + spi_pc_open (sy_pc s) in
     ss_tx_bufs sl = int (length (pq_items (ss_tx_q sl)) + flying) \<and>
     ss_rx_bufs sl = int (length (pq_items (ss_rx_q sl)) + flying + sy_held s))"

text \<open>Where the packets are.\<close>

definition spi_packets :: "spi_sys \<Rightarrow> bool" where
  "spi_packets s \<longleftrightarrow> list_all (\<lambda>t. spi_rx_accepts (tb_buf t)) (pq_items (ss_tx_q (sy_sl s))) \<and>
     mset (sy_written s) = mset (spi_queued (sy_sl s)) + mset (spi_staged (sy_sl s)) + mset (sy_got s)"

text \<open>The host's queues.\<close>

definition spi_host_counts :: "nat \<Rightarrow> spi_host \<Rightarrow> bool" where
  "spi_host_counts n h \<longleftrightarrow> sh_tx_sem h = length (pq_items (sh_tx_q h)) \<and> pq_bounded n (sh_tx_q h) \<and>
     list_all spi_packet (pq_items (sh_tx_q h)) \<and>
     sh_rx_sem h = length (pq_items (sh_rx_q h)) \<and> pq_bounded n (sh_rx_q h)"

lemmas spi_inv_defs = spi_counts_def spi_buffers_def spi_packets_def spi_host_counts_def spi_queued_def
  spi_staged_def spi_pc_open_def spi_pc_late_def

subsection \<open>What the operations change\<close>

lemma throttling_changes: "\<exists>t v. find_wifi_tx_throttling c s = (t, s\<lparr>ss_throttling := v\<rparr>)"
  by (cases "sc_high c = 0") (auto simp: find_wifi_tx_throttling_def Let_def intro: exI [of _ "ss_throttling s"])

lemma spi_write_changes:
  assumes "spi_packet ib"
  obtains T v where "spi_write_enqueue c True True ib s = Some (int (length (ib_payload ib)),
      s\<lparr>ss_tx_bufs := ss_tx_bufs s + 1, ss_throttling := v, ss_tx_q := pq_put (prio_of (ib_if_type ib)) T (ss_tx_q s)\<rparr>)"
    "tb_buf T = spi_padded (update_tx_header (sc_chk c) ib)" "int (length (ib_payload ib)) \<noteq> ESP_FAIL"
proof -
  have "spi_aligned (length (ib_payload ib) + HDR) \<le> SPI_BUFFER_SIZE" "ib_payload ib \<noteq> []"
    using assms by (auto simp: spi_packet_def SPI_MAX_PAYLOAD_def spi_aligned_def spi_sizes) presburger
  moreover obtain t v where "find_wifi_tx_throttling c (s\<lparr>ss_tx_bufs := ss_tx_bufs s + 1\<rparr>) =
      (t, s\<lparr>ss_tx_bufs := ss_tx_bufs s + 1, ss_throttling := v\<rparr>)"
    using throttling_changes [of c "s\<lparr>ss_tx_bufs := ss_tx_bufs s + 1\<rparr>"] by auto
  ultimately show ?thesis
    by (intro that) (auto simp: spi_write_enqueue_def Let_def ESP_FAIL_def)
qed

lemma spi_dummy_changes:
  obtains t v where "spi_make_dummy c True s =
    (Some (spi_dummy_frame t), s\<lparr>ss_dr := False, ss_tx_bufs := ss_tx_bufs s + 1, ss_throttling := v\<rparr>)"
  using throttling_changes [of c "s\<lparr>ss_dr := False, ss_tx_bufs := ss_tx_bufs s + 1\<rparr>"]
  by (auto simp: spi_make_dummy_def reset_dataready_def Let_def)

lemma process_spi_rx_changes:
  "(\<exists>e. process_spi_rx c rx s = (e, False, s)) \<or>
   (\<exists>e p. process_spi_rx c rx s = (e, True, s\<lparr>ss_rx_q := pq_put (prio_of (h_if_type (get_header rx))) p (ss_rx_q s),
     ss_rx_sem := min (Suc (ss_rx_sem s)) (3 * sc_rx_q c)\<rparr>))"
  unfolding process_spi_rx_def Let_def by (simp split: if_split) blast

lemma spi_finish_changes:
  assumes "ss_rx_sem s = length (pq_items (ss_rx_q s))" "pq_bounded (sc_rx_q c) (ss_rx_q s)"
    "length (pq_get (prio_of (h_if_type (get_header rx))) (ss_rx_q s)) < sc_rx_q c"
  obtains e where "spi_finish_transaction c rx s = (e, s\<lparr>ss_tx_bufs := ss_tx_bufs s - 1, ss_rx_bufs := ss_rx_bufs s - 1\<rparr>)"
  | e p where "spi_finish_transaction c rx s = (e, s\<lparr>ss_tx_bufs := ss_tx_bufs s - 1,
      ss_rx_q := pq_put (prio_of (h_if_type (get_header rx))) p (ss_rx_q s), ss_rx_sem := Suc (ss_rx_sem s)\<rparr>)"
proof -
  have "length (pq_items (ss_rx_q s)) < 3 * sc_rx_q c"
    using pq_bounded_size [OF pq_bounded_put [OF assms(2,3), of undefined]] by (simp add: pq.size_put)
  then show ?thesis
    using that assms(1) process_spi_rx_changes [of c rx "s\<lparr>ss_tx_bufs := ss_tx_bufs s - 1\<rparr>"]
    by (auto simp: spi_finish_transaction_def)
qed

lemma spi_host_tx_changes:
  assumes "spi_packet ib" "length (pq_get (prio_of (ib_if_type ib)) (sh_tx_q h)) < n"
    "sh_tx_sem h = length (pq_items (sh_tx_q h))" "pq_bounded n (sh_tx_q h)"
  shows "spi_hosted_tx n ib h = (0, h\<lparr>sh_tx_q := pq_put (prio_of (ib_if_type ib)) (ib\<lparr>ib_seq := 0\<rparr>) (sh_tx_q h),
     sh_tx_sem := Suc (sh_tx_sem h), sh_ready := True\<rparr>)"
proof -
  have "length (pq_items (sh_tx_q h)) < 3 * n"
    using pq_bounded_size [OF pq_bounded_put [OF assms(4,2), of undefined]] by (simp add: pq.size_put)
  then show ?thesis using assms by (simp add: spi_hosted_tx_def spi_packet_def Let_def)
qed

lemma spi_rx_buf_changes:
  assumes "sh_rx_sem h = length (pq_items (sh_rx_q h))" "pq_bounded n (sh_rx_q h)"
    "length (pq_get (fst (spi_rx_packet b)) (sh_rx_q h)) < n"
  obtains i d t where "process_spi_rx_buf n b h = h\<lparr>sh_dr_isr := i, sh_dummy_rx := d, sh_throttle := t\<rparr>"
      "\<not> spi_rx_accepts b"
  | d where "process_spi_rx_buf n b h = h\<lparr>sh_dr_isr := False, sh_dummy_rx := d, sh_throttle := h_throttle_cmd (get_header b),
      sh_rx_q := pq_put (fst (spi_rx_packet b)) (snd (spi_rx_packet b)) (sh_rx_q h), sh_rx_sem := Suc (sh_rx_sem h)\<rparr>"
      "spi_rx_accepts b"
proof -
  have n: "length (pq_items (sh_rx_q h)) < 3 * n"
    using pq_bounded_size [OF pq_bounded_put [OF assms(2,3), of undefined]] by (simp add: pq.size_put)
  show ?thesis
  proof (cases "spi_rx_accepts b")
    case True
    then show ?thesis using n assms(1)
      by (intro that(2) [of "sh_dummy_rx h \<and> h_if_type (get_header b) \<noteq> ESP_MAX_IF"])
        (auto simp: process_spi_rx_buf_def Let_def spi_rx_accepts_def)
  next
    case False
    then show ?thesis
      by (intro that(1) [where i = "sh_dr_isr (process_spi_rx_buf n b h)" and d = "sh_dummy_rx (process_spi_rx_buf n b h)"
            and t = "sh_throttle (process_spi_rx_buf n b h)"])
        (auto simp: process_spi_rx_buf_def Let_def)
  qed
qed

lemma spi_get_next_changes:
  assumes "sh_tx_sem h = length (pq_items (sh_tx_q h))" "list_all spi_packet (pq_items (sh_tx_q h))"
  obtains "spi_get_next_tx_buffer [] h = Some (None, h)" "pq_items (sh_tx_q h) = []"
  | f ib q where "spi_get_next_tx_buffer [] h = Some (Some f, h\<lparr>sh_tx_sem := sh_tx_sem h - 1, sh_tx_q := q\<rparr>)"
      "pq_take (sh_tx_q h) = Some (ib, q)"
proof (cases "sh_tx_sem h")
  case 0 then show ?thesis using that(1) assms(1) by (simp add: spi_get_next_tx_buffer_def)
next
  case (Suc m)
  then obtain ib q where t: "pq_take (sh_tx_q h) = Some (ib, q)"
    using assms(1) pq.take_None [of "sh_tx_q h"] by (cases "pq_take (sh_tx_q h)") auto
  then have "spi_packet ib" using assms(2) pq.take_Some [OF t] by simp
  then show ?thesis using Suc t that(2) by (auto simp: spi_get_next_tx_buffer_def spi_packet_def Let_def)
qed

lemma spi_take_changes:
  assumes "ss_tx_sem s \<le> length (pq_items (ss_tx_q s))"
  obtains "spi_take_tx s = (None, s)" "ss_tx_sem s = 0"
  | t q where "spi_take_tx s = (Some (tb_buf t), s\<lparr>ss_tx_sem := ss_tx_sem s - 1, ss_tx_q := q\<rparr>)"
      "pq_take (ss_tx_q s) = Some (t, q)" "ss_tx_sem s \<noteq> 0"
proof (cases "ss_tx_sem s")
  case 0 then show ?thesis using that(1) by (simp add: spi_take_tx_def)
next
  case (Suc m)
  then obtain t q where "pq_take (ss_tx_q s) = Some (t, q)"
    using assms pq.take_None [of "ss_tx_q s"] by (cases "pq_take (ss_tx_q s)") auto
  then show ?thesis using Suc that(2) by (simp add: spi_take_tx_def Let_def)
qed

subsection \<open>Every step keeps the invariant\<close>

definition spi_inv :: "spi_cfg \<Rightarrow> nat \<Rightarrow> spi_sys \<Rightarrow> bool" where
  "spi_inv c n s \<longleftrightarrow> spi_counts c s \<and> spi_buffers s \<and> spi_packets s \<and> spi_host_counts n (sy_ho s)"

lemma spi_inv_write:
  assumes "spi_inv c n s" "sc_chk c" "spi_packet ib" "spi_do c n (Wr_queue ib) s = Some t"
  shows "spi_inv c n t"
proof -
  obtain T v where w: "spi_write_enqueue c True True ib (sy_sl s) = Some (int (length (ib_payload ib)),
      (sy_sl s)\<lparr>ss_tx_bufs := ss_tx_bufs (sy_sl s) + 1, ss_throttling := v,
        ss_tx_q := pq_put (prio_of (ib_if_type ib)) T (ss_tx_q (sy_sl s))\<rparr>)"
    "tb_buf T = spi_padded (update_tx_header (sc_chk c) ib)" "int (length (ib_payload ib)) \<noteq> ESP_FAIL"
    using spi_write_changes [OF assms(3)] .
  note f = spi_frame_accepted [OF assms(3)]
  have room: "length (pq_get (prio_of (ib_if_type ib)) (ss_tx_q (sy_sl s))) < sc_tx_q c"
    and t: "t = s\<lparr>sy_sl := (sy_sl s)\<lparr>ss_tx_bufs := ss_tx_bufs (sy_sl s) + 1, ss_throttling := v,
        ss_tx_q := pq_put (prio_of (ib_if_type ib)) T (ss_tx_q (sy_sl s))\<rparr>,
      sy_to_raise := Suc (sy_to_raise s), sy_written := sy_written s @ [ib\<lparr>ib_zcopy := False\<rparr>]\<rparr>"
    using assms(4) w(1,3) by (auto split: if_splits)
  show ?thesis
    using assms(1,2) room f w(2)
    by (auto simp: t spi_inv_def spi_inv_defs Let_def pq.size_put pq.items_put pq_bounded_put list_all_iff)
qed

lemma spi_inv_signal:
  assumes "spi_inv c n s" "spi_do c n a s = Some t" "a = Wr_raise \<or> a = Wr_give"
  shows "spi_inv c n t"
proof -
  have "length (pq_items (ss_tx_q (sy_sl s))) \<le> 3 * sc_tx_q c"
    using assms(1) by (auto simp: spi_inv_def spi_counts_def Let_def intro: pq_bounded_size)
  then show ?thesis
    using assms by (auto simp: spi_inv_def spi_inv_defs Let_def set_dataready_def give_tx_sem_def
      gpio_dr_isr_handler_def split: if_splits)
qed

lemma spi_inv_take:
  assumes "spi_inv c n s" "spi_do c n Task_take s = Some t"
  shows "spi_inv c n t"
proof -
  obtain rx rxs where d: "sy_pc s = Waiting" "sy_done s = rx # rxs"
    using assms(2) by (auto split: spi_pc.splits list.splits)
  have sem: "ss_tx_sem (sy_sl s) \<le> length (pq_items (ss_tx_q (sy_sl s)))"
    using assms(1) by (auto simp: spi_inv_def spi_counts_def Let_def)
  show ?thesis
  proof (cases rule: spi_take_changes [OF sem])
    case 1
    then show ?thesis using assms d by (auto simp: spi_inv_def spi_inv_defs Let_def)
  next
    case (2 e q)
    then show ?thesis using assms d pq.take_Some [OF 2(2)] pq_bounded_take [OF _ 2(2)]
      by (auto simp: spi_inv_def spi_inv_defs Let_def spi_stage_def spi_attach_def gpio_hs_isr_handler_def)
  qed
qed

lemma spi_inv_dummy:
  assumes "spi_inv c n s" "spi_do c n (Task_dummy True) s = Some t"
  shows "spi_inv c n t"
proof -
  obtain rx where d: "sy_pc s = Late rx" using assms(2) by (auto split: spi_pc.splits)
  obtain u v where m: "spi_make_dummy c True (sy_sl s) = (Some (spi_dummy_frame u),
      (sy_sl s)\<lparr>ss_dr := False, ss_tx_bufs := ss_tx_bufs (sy_sl s) + 1, ss_throttling := v\<rparr>)"
    using spi_dummy_changes .
  show ?thesis using assms d m
    by (auto simp: spi_inv_def spi_inv_defs Let_def spi_stage_def spi_attach_def gpio_hs_isr_handler_def)
qed

lemma spi_inv_process:
  assumes "spi_inv c n s" "spi_do c n Task_process s = Some t"
  shows "spi_inv c n t"
proof -
  obtain rx where d: "sy_pc s = Processing rx" using assms(2) by (auto split: spi_pc.splits)
  have room: "length (pq_get (prio_of (h_if_type (get_header rx))) (ss_rx_q (sy_sl s))) < sc_rx_q c"
    using assms(2) d by (auto split: if_splits)
  have q: "ss_rx_sem (sy_sl s) = length (pq_items (ss_rx_q (sy_sl s)))" "pq_bounded (sc_rx_q c) (ss_rx_q (sy_sl s))"
    using assms(1) by (auto simp: spi_inv_def spi_counts_def Let_def)
  show ?thesis
  proof (cases rule: spi_finish_changes [OF q room])
    case (1 e)
    then show ?thesis using assms d room by (auto simp: spi_inv_def spi_inv_defs Let_def)
  next
    case (2 e p)
    then show ?thesis using assms d room
      by (auto simp: spi_inv_def spi_inv_defs Let_def pq.size_put pq_bounded_put)
  qed
qed

lemma spi_inv_host_tx:
  assumes "spi_inv c n s" "spi_packet ib" "spi_do c n (Host_tx ib) s = Some t"
  shows "spi_inv c n t"
proof -
  have room: "length (pq_get (prio_of (ib_if_type ib)) (sh_tx_q (sy_ho s))) < n"
    using assms(3) by (simp split: if_splits)
  have "spi_packet (ib\<lparr>ib_seq := 0\<rparr>)" using assms(2) by (simp add: spi_packet_def nibbles_def)
  then show ?thesis using assms room spi_host_tx_changes [OF assms(2) room]
    by (auto simp: spi_inv_def spi_inv_defs Let_def pq.size_put pq_bounded_put list_all_iff)
qed

text \<open>A round of the host changes its own state, and moves the staged buffer when it runs the transaction.\<close>

lemma spi_round_changes:
  assumes i: "spi_inv c n s" and t: "spi_do c n Host_round s = Some t" and ne: "ss_trans (sy_sl s) = b # bs"
  obtains h where "t = s\<lparr>sy_ho := h\<rparr>" "spi_host_counts n h" "\<not> ss_dr (sy_sl s)" "sh_tx_sem (sy_ho s) = 0"
      "sh_tx_sem h = 0"
  | h f where "t = s\<lparr>sy_sl := (sy_sl s)\<lparr>ss_trans := bs\<rparr>, sy_ho := h, sy_done := sy_done s @ [f],
      sy_got := sy_got s @ (if spi_rx_accepts b then [snd (spi_rx_packet b)] else [])\<rparr>" "spi_host_counts n h"
proof -
  let ?h = "(sy_ho s)\<lparr>sh_ready := False\<rparr>"
  have h: "sh_tx_sem ?h = length (pq_items (sh_tx_q ?h))" "list_all spi_packet (pq_items (sh_tx_q ?h))"
    "spi_host_counts n ?h"
    using i by (simp_all add: spi_inv_def spi_host_counts_def)
  have room: "length (pq_get (fst (spi_rx_packet b)) (sh_rx_q (sy_ho s))) < n"
    using t ne by (auto simp: Let_def split: if_splits)
  have step0: "(case check_and_execute_spi_transaction n [] True (ss_dr (sy_sl s)) True b ?h of
          None \<Rightarrow> None
        | Some (None, h) \<Rightarrow> Some (s\<lparr>sy_ho := h\<rparr>)
        | Some (Some f, h) \<Rightarrow>
            Some (s\<lparr>sy_sl := (sy_sl s)\<lparr>ss_trans := tl (ss_trans (sy_sl s))\<rparr>, sy_ho := h, sy_done := sy_done s @ [f],
              sy_got := sy_got s @ (if spi_rx_accepts b then [snd (spi_rx_packet b)] else [])\<rparr>)) = Some t"
    using t ne by (simp add: Let_def split: if_splits)
  note step = step0 [unfolded ne list.sel]
  have rx: "spi_host_counts n (process_spi_rx_buf n b g)" if "spi_host_counts n g" "sh_rx_q g = sh_rx_q (sy_ho s)" for g
  proof -
    have g: "sh_rx_sem g = length (pq_items (sh_rx_q g))" "pq_bounded n (sh_rx_q g)"
      "length (pq_get (fst (spi_rx_packet b)) (sh_rx_q g)) < n"
      using that room by (auto simp: spi_host_counts_def)
    show ?thesis
      by (cases rule: spi_rx_buf_changes [OF g])
        (use that(1) g in \<open>auto simp: spi_host_counts_def pq.size_put pq_bounded_put\<close>)
  qed
  show ?thesis
  proof (cases rule: spi_get_next_changes [OF h(1,2)])
    case 1
    show ?thesis
    proof (cases "ss_dr (sy_sl s) \<or> sh_dr_isr ?h \<or> sh_dummy_tx ?h \<or> sh_dummy_rx ?h")
      case True
      have "spi_host_counts n (process_spi_rx_buf n b (?h\<lparr>sh_dummy_tx := False\<rparr>))"
        using h(3) by (intro rx) (simp_all add: spi_host_counts_def)
      then show ?thesis using step True 1(1) that(2)
        by (auto simp: check_and_execute_spi_transaction_def Let_def spi_host_counts_def split: if_splits)
    next
      case False
      then show ?thesis using step 1 that(1) h
        by (auto simp: check_and_execute_spi_transaction_def Let_def split: if_splits)
    qed
  next
    case (2 f ib q)
    have "spi_host_counts n (?h\<lparr>sh_tx_sem := sh_tx_sem ?h - 1, sh_tx_q := q\<rparr>)"
      using h(3) pq.take_Some [OF 2(2)] pq_bounded_take [OF _ 2(2)] by (simp add: spi_host_counts_def)
    then have "spi_host_counts n (process_spi_rx_buf n b
        (?h\<lparr>sh_tx_sem := sh_tx_sem ?h - 1, sh_tx_q := q, sh_dummy_tx := True\<rparr>))"
      by (intro rx) (simp_all add: spi_host_counts_def)
    then show ?thesis using step 2(1) that(2)
      by (auto simp: check_and_execute_spi_transaction_def Let_def spi_host_counts_def split: if_splits)
  qed
qed

lemma spi_round_waits:
  assumes "spi_do c n Host_round s = Some t" "ss_trans (sy_sl s) = []"
  shows "t = s"
  using assms by (auto simp: check_and_execute_spi_transaction_def Let_def split: if_splits)

lemma spi_inv_round:
  assumes i: "spi_inv c n s" and t: "spi_do c n Host_round s = Some t"
  shows "spi_inv c n t"
proof (cases "ss_trans (sy_sl s)")
  case Nil
  then show ?thesis using spi_round_waits [OF t] i by simp
next
  case (Cons b bs)
  show ?thesis
    by (cases rule: spi_round_changes [OF i t Cons])
      (use i Cons in \<open>auto simp: spi_inv_def spi_counts_def spi_buffers_def spi_packets_def spi_queued_def
        spi_staged_def Let_def\<close>)
qed

lemma spi_inv_reads:
  assumes "spi_inv c n s" "spi_do c n a s = Some t" "a \<in> {Host_rx, Slave_read, Slave_release}"
  shows "spi_inv c n t"
proof -
  consider "a = Host_rx" | "a = Slave_read" | "a = Slave_release" using assms(3) by blast
  then show ?thesis
  proof cases
    case 1
    then show ?thesis using assms(1,2)
      by (auto simp: spi_process_rx_def Let_def spi_inv_def spi_inv_defs pq.take_None dest: pq.take_Some pq_bounded_take
          split: if_splits option.splits)
  next
    case 2
    then obtain p q where t: "pq_take (ss_rx_q (sy_sl s)) = Some (p, q)" "t = s\<lparr>sy_sl :=
        (sy_sl s)\<lparr>ss_rx_sem := ss_rx_sem (sy_sl s) - 1, ss_rx_q := q\<rparr>, sy_held := Suc (sy_held s)\<rparr>"
      using assms(2) by (auto simp: esp_spi_read_def Let_def split: if_splits option.splits)
    show ?thesis using assms(1) pq.take_Some [OF t(1)] pq_bounded_take [OF _ t(1)]
      by (auto simp: t(2) spi_inv_def spi_inv_defs Let_def)
  next
    case 3
    then show ?thesis using assms(1,2)
      by (auto simp: esp_spi_read_done_def Let_def spi_inv_def spi_inv_defs split: if_splits)
  qed
qed

lemma spi_inv_step:
  assumes "spi_inv c n s" "sc_chk c" "spi_act_ok a" "spi_do c n a s = Some t"
  shows "spi_inv c n t"
proof (cases a)
  case Wr_queue then show ?thesis using assms spi_inv_write by simp
next
  case Wr_raise then show ?thesis using assms spi_inv_signal by blast
next
  case Wr_give then show ?thesis using assms spi_inv_signal by blast
next
  case Task_take then show ?thesis using assms spi_inv_take by blast
next
  case (Task_dummy x6) then show ?thesis using assms spi_inv_dummy by simp
next
  case Task_process then show ?thesis using assms spi_inv_process by blast
next
  case (Host_tx x) then show ?thesis using assms spi_inv_host_tx by simp
next
  case Host_round then show ?thesis using assms spi_inv_round by blast
qed (use assms spi_inv_reads in blast)+

text \<open>The start.\<close>

definition spi_first :: "byte list \<Rightarrow> spi_slave" where
  "spi_first b = \<lparr> ss_tx_q = pq_empty, ss_tx_sem = 0, ss_dr = True, ss_trans = [b], ss_throttling = False,
     ss_rx_q = pq_empty, ss_rx_sem = 0, ss_tx_bufs = 1, ss_rx_bufs = 1 \<rparr>"

lemma spi_start_slave:
  assumes "0 < sc_tx_q c"
  shows "sy_sl (spi_start c ev) = spi_first (spi_padded ev)"
proof -
  have m: "min (Suc 0) (3 * sc_tx_q c) = Suc 0" using assms by simp
  show ?thesis
    by (simp add: spi_start_def spi_queue_startup_def spi_slave_init_def set_dataready_def give_tx_sem_def m
      queue_next_transaction_def spi_next_tx_buffer_def spi_take_tx_def pq_take_def pq_empty_def spi_attach_def
      spi_first_def Let_def)
qed

lemma spi_inv_start:
  assumes "0 < sc_tx_q c" "spi_rx_accepts (spi_padded ev)"
  shows "spi_inv c n (spi_start c ev)"
  using assms(2) unfolding spi_inv_def spi_inv_defs spi_start_slave [OF assms(1)] Let_def
  by (simp add: spi_start_def spi_first_def spi_host_init_def gpio_dr_isr_handler_def gpio_hs_isr_handler_def)

lemma spi_inv_run:
  assumes "sc_chk c" "0 < sc_tx_q c" "spi_rx_accepts (spi_padded ev)" "list_all spi_act_ok as"
    "spi_run c n as (spi_start c ev) = Some s"
  shows "spi_inv c n s"
  by (rule spi_run_induct [of "spi_inv c n" spi_act_ok, OF _ spi_inv_start [OF assms(2,3)] assms(4,5)])
    (use assms(1) spi_inv_step in blast)

text \<open>Uninterrupted, the steps of a writer are \<open>esp_spi_write\<close>, and those of the task a round of it.\<close>

lemma spi_write_steps:
  assumes "spi_packet ib" "length (pq_get (prio_of (ib_if_type ib)) (ss_tx_q (sy_sl s))) < sc_tx_q c"
  shows "map_option sy_sl (spi_run c n [Wr_queue ib, Wr_raise, Wr_give] s) =
    map_option snd (esp_spi_write c True True ib (sy_sl s))"
proof -
  obtain T v where "spi_write_enqueue c True True ib (sy_sl s) = Some (int (length (ib_payload ib)),
      (sy_sl s)\<lparr>ss_tx_bufs := ss_tx_bufs (sy_sl s) + 1, ss_throttling := v,
        ss_tx_q := pq_put (prio_of (ib_if_type ib)) T (ss_tx_q (sy_sl s))\<rparr>)"
    "int (length (ib_payload ib)) \<noteq> ESP_FAIL"
    using spi_write_changes [OF assms(1)] .
  then show ?thesis using assms(2) by (simp add: esp_spi_write_def)
qed

lemma spi_task_steps:
  assumes "spi_inv c n s" "sy_pc s = Waiting" "sy_done s = rx # rxs"
    "length (pq_get (prio_of (h_if_type (get_header rx))) (ss_rx_q (sy_sl s))) < sc_rx_q c"
  shows "map_option sy_sl (spi_run c n (if ss_tx_sem (sy_sl s) = 0 then [Task_take, Task_dummy True, Task_process]
      else [Task_take, Task_process]) s) = map_option snd (spi_post_process c True True rx (sy_sl s))"
proof -
  have sem: "ss_tx_sem (sy_sl s) \<le> length (pq_items (ss_tx_q (sy_sl s)))"
    using assms(1) by (auto simp: spi_inv_def spi_counts_def Let_def)
  show ?thesis
  proof (cases rule: spi_take_changes [OF sem])
    case 1
    obtain u v where "spi_make_dummy c True (sy_sl s) = (Some (spi_dummy_frame u),
        (sy_sl s)\<lparr>ss_dr := False, ss_tx_bufs := ss_tx_bufs (sy_sl s) + 1, ss_throttling := v\<rparr>)"
      using spi_dummy_changes .
    then show ?thesis using 1 assms(2-4)
      by (simp add: spi_stage_def spi_attach_def spi_post_process_def queue_next_transaction_def spi_next_tx_buffer_def)
  next
    case (2 b q)
    then show ?thesis using assms(2-4)
      by (simp add: spi_stage_def spi_attach_def spi_post_process_def queue_next_transaction_def spi_next_tx_buffer_def)
  qed
qed

subsection \<open>A writer at the wrong moment\<close>

text \<open>
  The run: the first transaction is over and its event received; the task finds no packet; a writer queues
  one, finds the line still high, and gives the semaphore; the task lowers the line and queues a dummy buffer.
\<close>

definition spi_stalling_run :: "ibuf \<Rightarrow> spi_act list" where
  "spi_stalling_run ib = [Host_round, Host_rx, Task_take, Wr_queue ib, Wr_raise, Wr_give, Task_dummy True,
     Task_process, Host_round]"

lemma spi_first_round:
  assumes "spi_rx_accepts (spi_padded ev)" "h_if_type (get_header (spi_padded ev)) = ESP_PRIV_IF"
    "0 < n" "0 < sc_tx_q c"
  shows "\<exists>t. spi_run c n [Host_round, Host_rx, Task_take] (spi_start c ev) = Some
    \<lparr> sy_sl = (spi_first (spi_padded ev))\<lparr>ss_trans := []\<rparr>, sy_ho = spi_host_init\<lparr>sh_throttle := t\<rparr>,
      sy_done = [], sy_pc = Late spi_host_dummy, sy_to_raise = 0, sy_to_give = 0, sy_held = 0,
      sy_written = [snd (spi_rx_packet (spi_padded ev))], sy_got = [snd (spi_rx_packet (spi_padded ev))] \<rparr>"
proof -
  let ?b = "spi_padded ev" and ?e = "snd (spi_rx_packet (spi_padded ev))"
  have p: "fst (spi_rx_packet ?b) = PRIO_Q_OTHERS" "ib_if_type ?e = ESP_PRIV_IF"
    using assms(2) by (simp_all add: spi_rx_packet_def sdio_push_pkt_to_queue_def Let_def prio_of_def esp_ifs)
  have ne: "h_if_type (get_header ?b) \<noteq> ESP_MAX_IF" using assms(2) by (simp add: esp_ifs ESP_MAX_IF_def)
  have m: "min (Suc 0) (3 * n) = Suc 0" using assms(3) by simp
  note start = spi_start_slave [OF assms(4), of ev]
  have h: "sy_ho (spi_start c ev) = spi_host_init\<lparr>sh_ready := True, sh_dr_isr := True\<rparr>"
    by (simp add: spi_start_def gpio_dr_isr_handler_def gpio_hs_isr_handler_def)
  have r: "check_and_execute_spi_transaction n [] True True True ?b
      (spi_host_init\<lparr>sh_ready := False, sh_dr_isr := True\<rparr>) = Some (Some spi_host_dummy,
      spi_host_init\<lparr>sh_throttle := h_throttle_cmd (get_header ?b),
        sh_rx_q := pq_put PRIO_Q_OTHERS ?e pq_empty, sh_rx_sem := 1\<rparr>)"
    by (simp add: check_and_execute_spi_transaction_def spi_get_next_tx_buffer_def spi_host_init_def
        process_spi_rx_buf_accepted [OF assms(1) ne] p(1) m Let_def)
  have one: "spi_do c n Host_round (spi_start c ev) = Some ((spi_start c ev)\<lparr>
      sy_sl := (spi_first ?b)\<lparr>ss_trans := []\<rparr>,
      sy_ho := spi_host_init\<lparr>sh_throttle := h_throttle_cmd (get_header ?b),
        sh_rx_q := pq_put PRIO_Q_OTHERS ?e pq_empty, sh_rx_sem := 1\<rparr>,
      sy_done := [spi_host_dummy], sy_got := [?e]\<rparr>)"
    using r assms(1,3) unfolding spi_do.simps start h Let_def
    by (simp add: spi_first_def p(1)) (simp add: spi_host_init_def spi_start_def pq_empty_def spi_first_def)
  show ?thesis
    unfolding spi_run.simps one option.case
    by (simp add: spi_process_rx_def pq_take_def pq_empty_def spi_host_init_def p(2) esp_ifs spi_take_tx_def
        spi_first_def spi_start_def)
qed

lemma spi_late_writer:
  assumes ib: "spi_packet ib" "sc_chk c" and q: "0 < sc_tx_q c" "0 < sc_rx_q c" "0 < n"
    and s: "s = \<lparr> sy_sl = (spi_first b)\<lparr>ss_trans := []\<rparr>, sy_ho = spi_host_init\<lparr>sh_throttle := t\<rparr>,
      sy_done = [], sy_pc = Late spi_host_dummy, sy_to_raise = 0, sy_to_give = 0, sy_held = 0,
      sy_written = w, sy_got = g \<rparr>"
  shows "\<exists>s'. spi_run c n [Wr_queue ib, Wr_raise, Wr_give, Task_dummy True, Task_process, Host_round] s = Some s' \<and>
    spi_quiet c n s' \<and> spi_queued (sy_sl s') = [ib\<lparr>ib_zcopy := False\<rparr>] \<and>
    sy_written s' = w @ [ib\<lparr>ib_zcopy := False\<rparr>] \<and> sy_got s' = g"
proof -
  let ?sl = "(spi_first b)\<lparr>ss_trans := []\<rparr>" and ?k = "prio_of (ib_if_type ib)"
  obtain T v where w: "spi_write_enqueue c True True ib ?sl = Some (int (length (ib_payload ib)),
      ?sl\<lparr>ss_tx_bufs := 2, ss_throttling := v, ss_tx_q := pq_put ?k T pq_empty\<rparr>)"
    "tb_buf T = spi_padded (update_tx_header (sc_chk c) ib)" "int (length (ib_payload ib)) \<noteq> ESP_FAIL"
    using spi_write_changes [OF ib(1), of c ?sl] by (auto simp: spi_first_def)
  have m: "min (Suc 0) (3 * sc_tx_q c) = Suc 0" using q by simp
  have e: "length (pq_get ?k (pq_empty :: spi_tx pq)) = 0" "length (pq_get PRIO_Q_OTHERS (pq_empty :: ibuf pq)) = 0"
    by (cases ?k; simp add: pq_empty_def)+
  let ?q = "pq_put ?k T pq_empty"
  define s3 where "s3 = s\<lparr>sy_sl := ?sl\<lparr>ss_tx_bufs := 2, ss_throttling := v, ss_tx_q := ?q, ss_tx_sem := 1\<rparr>,
      sy_written := w @ [ib\<lparr>ib_zcopy := False\<rparr>]\<rparr>"
  have three: "spi_run c n [Wr_queue ib, Wr_raise, Wr_give] s = Some s3"
    using w(3) q e m by (simp add: s s3_def w(1)) (simp add: spi_first_def set_dataready_def give_tx_sem_def m)
  obtain u v' where d: "spi_make_dummy c True (sy_sl s3) = (Some (spi_dummy_frame u),
      (sy_sl s3)\<lparr>ss_dr := False, ss_tx_bufs := ss_tx_bufs (sy_sl s3) + 1, ss_throttling := v'\<rparr>)"
    using spi_dummy_changes .
  define s5 where "s5 = s3\<lparr>sy_sl := ?sl\<lparr>ss_dr := False, ss_tx_bufs := 2, ss_rx_bufs := 1, ss_throttling := v',
      ss_tx_q := ?q, ss_tx_sem := 1, ss_trans := [spi_dummy_frame u]\<rparr>, sy_pc := Waiting\<rparr>"
  have fin: "snd (spi_finish_transaction c spi_host_dummy sl) =
      sl\<lparr>ss_tx_bufs := ss_tx_bufs sl - 1, ss_rx_bufs := ss_rx_bufs sl - 1\<rparr>" for sl
    by (simp add: spi_finish_transaction_def process_spi_rx_def spi_host_dummy_header Let_def)
  have room: "length (pq_get (prio_of (h_if_type (get_header spi_host_dummy))) (pq_empty :: ibuf pq)) = 0"
    using e by (simp add: spi_host_dummy_header prio_of_def esp_ifs ESP_MAX_IF_def)
  have five: "spi_run c n [Task_dummy True, Task_process] s3 = Some (s5\<lparr>sy_ho := gpio_hs_isr_handler (sy_ho s3)\<rparr>)"
    using q room d by (simp add: s3_def s s5_def spi_stage_def spi_attach_def fin) (simp add: spi_first_def)
  have p: "fst (spi_rx_packet (spi_dummy_frame u)) = PRIO_Q_OTHERS"
    by (simp add: spi_rx_packet_def sdio_push_pkt_to_queue_def spi_dummy_header prio_of_def esp_ifs ESP_MAX_IF_def Let_def)
  have ho: "sy_ho s3 = spi_host_init\<lparr>sh_throttle := t\<rparr>" by (simp add: s3_def s)
  have six: "spi_do c n Host_round (s5\<lparr>sy_ho := gpio_hs_isr_handler (sy_ho s3)\<rparr>) = Some s5"
    using q e(2) by (simp add: s5_def ho p gpio_hs_isr_handler_def spi_host_init_def
      check_and_execute_spi_transaction_def spi_get_next_tx_buffer_def Let_def s3_def s)
  have run: "spi_run c n [Wr_queue ib, Wr_raise, Wr_give, Task_dummy True, Task_process, Host_round] s = Some s5"
    using three five six spi_run_append [of c n "[Wr_queue ib, Wr_raise, Wr_give]" "[Task_dummy True, Task_process, Host_round]" s]
      spi_run_append [of c n "[Task_dummy True, Task_process]" "[Host_round]" s3] by simp
  have "spi_quiet c n s5"
    by (simp add: spi_quiet_def spi_internal_def s5_def s3_def s spi_host_init_def spi_process_rx_def
        esp_spi_read_def spi_first_def)
  moreover have "spi_queued (sy_sl s5) = [ib\<lparr>ib_zcopy := False\<rparr>]"
    using spi_frame_accepted(2) [OF ib(1)] w(2) ib(2)
    by (cases ?k) (simp_all add: spi_queued_def s5_def pq_items_def pq_empty_def)
  ultimately show ?thesis using run by (auto simp: s5_def s3_def s)
qed

subsection \<open>Without that moment\<close>

text \<open>
  Runs in which a write is not interrupted, nor is the task between the queue and the line.
\<close>

inductive spi_calm :: "spi_cfg \<Rightarrow> nat \<Rightarrow> byte list \<Rightarrow> spi_sys \<Rightarrow> bool" for c n ev where
  calm_start: "spi_calm c n ev (spi_start c ev)"
| calm_write: "spi_calm c n ev s \<Longrightarrow> spi_packet ib \<Longrightarrow>
    spi_run c n [Wr_queue ib, Wr_raise, Wr_give] s = Some t \<Longrightarrow> spi_calm c n ev t"
| calm_take: "spi_calm c n ev s \<Longrightarrow> spi_do c n Task_take s = Some t \<Longrightarrow> spi_pc_late (sy_pc t) = 0 \<Longrightarrow>
    spi_calm c n ev t"
| calm_dummy: "spi_calm c n ev s \<Longrightarrow> spi_run c n [Task_take, Task_dummy True] s = Some t \<Longrightarrow> spi_calm c n ev t"
| calm_host_tx: "spi_calm c n ev s \<Longrightarrow> spi_packet ib \<Longrightarrow> spi_do c n (Host_tx ib) s = Some t \<Longrightarrow> spi_calm c n ev t"
| calm_round: "spi_calm c n ev s \<Longrightarrow> spi_do c n Host_round s = Some t \<Longrightarrow> spi_calm c n ev t"
| calm_other: "spi_calm c n ev s \<Longrightarrow> a \<in> {Task_process, Host_rx, Slave_read, Slave_release} \<Longrightarrow>
    spi_do c n a s = Some t \<Longrightarrow> spi_calm c n ev t"

text \<open>A packet that waits keeps the line high, and a reason for a transaction keeps the host awake.\<close>

definition spi_awake :: "spi_sys \<Rightarrow> bool" where
  "spi_awake s \<longleftrightarrow> (let sl = sy_sl s; h = sy_ho s in
     sy_to_raise s = 0 \<and> sy_to_give s = 0 \<and> spi_pc_late (sy_pc s) = 0 \<and>
     (spi_staged sl \<noteq> [] \<or> ss_tx_sem sl \<noteq> 0 \<longrightarrow> ss_dr sl) \<and>
     (ss_trans sl \<noteq> [] \<and> (ss_dr sl \<or> sh_tx_sem h \<noteq> 0) \<longrightarrow> sh_ready h))"

lemma spi_inv_steps:
  assumes "spi_inv c n s" "sc_chk c" "list_all spi_act_ok as" "spi_run c n as s = Some t"
  shows "spi_inv c n t"
  by (rule spi_run_induct [of "spi_inv c n" spi_act_ok, OF _ assms(1,3,4)]) (use assms(2) spi_inv_step in blast)

lemma spi_awake_write:
  assumes "spi_awake s" "spi_packet ib" "spi_run c n [Wr_queue ib, Wr_raise, Wr_give] s = Some t"
  shows "spi_awake t"
proof -
  obtain T v where w: "spi_write_enqueue c True True ib (sy_sl s) = Some (int (length (ib_payload ib)),
      (sy_sl s)\<lparr>ss_tx_bufs := ss_tx_bufs (sy_sl s) + 1, ss_throttling := v,
        ss_tx_q := pq_put (prio_of (ib_if_type ib)) T (ss_tx_q (sy_sl s))\<rparr>)"
    "int (length (ib_payload ib)) \<noteq> ESP_FAIL"
    using spi_write_changes [OF assms(2)] .
  show ?thesis using assms(1,3) w
    by (auto simp: spi_awake_def Let_def spi_staged_def set_dataready_def give_tx_sem_def gpio_dr_isr_handler_def
        split: if_splits)
qed

lemma spi_awake_task:
  assumes "spi_inv c n s" "spi_awake s"
  shows "spi_do c n Task_take s = Some t \<Longrightarrow> spi_pc_late (sy_pc t) = 0 \<Longrightarrow> spi_awake t"
    "spi_run c n [Task_take, Task_dummy True] s = Some t \<Longrightarrow> spi_awake t"
proof -
  have sem: "ss_tx_sem (sy_sl s) \<le> length (pq_items (ss_tx_q (sy_sl s)))"
    using assms(1) by (auto simp: spi_inv_def spi_counts_def Let_def)
  have one: "length (ss_trans (sy_sl s)) + length (sy_done s) + spi_pc_late (sy_pc s) = 1"
    using assms(1) by (auto simp: spi_inv_def spi_counts_def Let_def)
  have d: "\<exists>rx. sy_pc s = Waiting \<and> sy_done s = [rx] \<and> ss_trans (sy_sl s) = []"
    if "spi_do c n Task_take s = Some t'" for t'
    using that one by (auto simp: spi_pc_late_def split: spi_pc.splits list.splits)
  show "spi_awake t" if t: "spi_do c n Task_take s = Some t" "spi_pc_late (sy_pc t) = 0"
    using d [OF t(1)] t assms(2)
    by (cases rule: spi_take_changes [OF sem])
      (auto simp: spi_awake_def Let_def spi_staged_def spi_stage_def spi_attach_def gpio_hs_isr_handler_def
        spi_pc_late_def split: if_splits)
  show "spi_awake t" if t: "spi_run c n [Task_take, Task_dummy True] s = Some t"
  proof -
    obtain s1 where s1: "spi_do c n Task_take s = Some s1" "spi_do c n (Task_dummy True) s1 = Some t"
      using t by (auto simp del: spi_do.simps split: option.splits)
    obtain rx where rx: "sy_pc s = Waiting" "sy_done s = [rx]" "ss_trans (sy_sl s) = []" using d [OF s1(1)] by blast
    show ?thesis
    proof (cases rule: spi_take_changes [OF sem])
      case 1
      then have e: "s1 = s\<lparr>sy_done := [], sy_pc := Late rx\<rparr>" using s1(1) rx by simp
      obtain u v where m: "spi_make_dummy c True (sy_sl s) = (Some (spi_dummy_frame u),
          (sy_sl s)\<lparr>ss_dr := False, ss_tx_bufs := ss_tx_bufs (sy_sl s) + 1, ss_throttling := v\<rparr>)"
        using spi_dummy_changes .
      show ?thesis using s1(2) assms(2) rx 1(2) m
        by (auto simp: e spi_awake_def Let_def spi_staged_def spi_stage_def spi_attach_def gpio_hs_isr_handler_def
            spi_pc_late_def)
    next
      case (2 b q)
      then show ?thesis using s1 rx by (auto simp: spi_stage_def spi_attach_def)
    qed
  qed
qed

lemma spi_awake_other:
  assumes "spi_inv c n s" "spi_awake s" "spi_do c n a s = Some t"
    "a \<in> {Task_process, Host_rx, Slave_read, Slave_release}"
  shows "spi_awake t"
proof -
  have p: "ss_tx_sem (snd (spi_finish_transaction c rx sl)) = ss_tx_sem sl"
    "ss_dr (snd (spi_finish_transaction c rx sl)) = ss_dr sl"
    "ss_trans (snd (spi_finish_transaction c rx sl)) = ss_trans sl" for rx sl
    using process_spi_rx_changes [of c rx "sl\<lparr>ss_tx_bufs := ss_tx_bufs sl - 1\<rparr>"]
    by (auto simp: spi_finish_transaction_def)
  consider "a = Task_process" | "a = Host_rx" | "a = Slave_read" | "a = Slave_release" using assms(4) by blast
  then show ?thesis
  proof cases
    case 1
    then obtain rx where "t = s\<lparr>sy_sl := snd (spi_finish_transaction c rx (sy_sl s)), sy_pc := Waiting\<rparr>"
      using assms(3) by (auto split: spi_pc.splits if_splits)
    then show ?thesis using assms(2) p
      by (auto simp: spi_awake_def Let_def spi_staged_def spi_pc_late_def)
  next
    case 2
    then show ?thesis using assms(2,3)
      by (auto simp: spi_awake_def Let_def spi_process_rx_def split: if_splits option.splits)
  next
    case 3
    then show ?thesis using assms(2,3)
      by (auto simp: spi_awake_def Let_def esp_spi_read_def spi_staged_def split: if_splits option.splits)
  next
    case 4
    then show ?thesis using assms(2,3)
      by (auto simp: spi_awake_def Let_def esp_spi_read_done_def spi_staged_def split: if_splits)
  qed
qed

lemma spi_awake_host:
  assumes "spi_inv c n s" "spi_awake s"
  shows "spi_packet ib \<Longrightarrow> spi_do c n (Host_tx ib) s = Some t \<Longrightarrow> spi_awake t"
    "spi_do c n Host_round s = Some t \<Longrightarrow> spi_awake t"
proof -
  show "spi_awake t" if t: "spi_packet ib" "spi_do c n (Host_tx ib) s = Some t"
  proof -
    have room: "length (pq_get (prio_of (ib_if_type ib)) (sh_tx_q (sy_ho s))) < n"
      using t(2) by (simp split: if_splits)
    show ?thesis using assms t room spi_host_tx_changes [OF t(1) room]
      by (auto simp: spi_inv_def spi_host_counts_def spi_awake_def Let_def)
  qed
  show "spi_awake t" if t: "spi_do c n Host_round s = Some t"
  proof (cases "ss_trans (sy_sl s)")
    case Nil
    then show ?thesis using spi_round_waits [OF t] assms(2) by simp
  next
    case (Cons b bs)
    have "bs = []" using assms(1) Cons by (auto simp: spi_inv_def spi_counts_def Let_def)
    then show ?thesis using assms(2) Cons
      by (cases rule: spi_round_changes [OF assms(1) t Cons])
        (auto simp: spi_awake_def Let_def spi_staged_def)
  qed
qed

lemma spi_calm_inv:
  assumes "sc_chk c" "0 < sc_tx_q c" "spi_rx_accepts (spi_padded ev)" "spi_calm c n ev s"
  shows "spi_inv c n s \<and> spi_awake s"
  using assms(4)
proof induction
  case calm_start
  have "spi_awake (spi_start c ev)"
    unfolding spi_awake_def Let_def spi_start_slave [OF assms(2)]
    by (simp add: spi_first_def spi_start_def gpio_hs_isr_handler_def gpio_dr_isr_handler_def spi_pc_late_def)
  then show ?case using spi_inv_start [OF assms(2,3)] by simp
next
  case (calm_write s ib t)
  then show ?case
    using spi_inv_steps [OF _ assms(1), of n s "[Wr_queue ib, Wr_raise, Wr_give]" t] spi_awake_write
    by (metis list.pred_inject spi_act_ok.simps(1,4,5))
next
  case (calm_take s t)
  then show ?case using spi_inv_take spi_awake_task(1) by blast
next
  case (calm_dummy s t)
  then show ?case
    using spi_inv_steps [OF _ assms(1), of n s "[Task_take, Task_dummy True]" t] spi_awake_task(2)
    by (metis list.pred_inject spi_act_ok.simps(3,6))
next
  case (calm_host_tx s ib t)
  then show ?case using spi_inv_host_tx spi_awake_host(1) by blast
next
  case (calm_round s t)
  then show ?case using spi_inv_round spi_awake_host(2) by blast
next
  case (calm_other s a t)
  then have "spi_act_ok a" by auto
  then show ?case using calm_other spi_inv_step [OF _ assms(1)] spi_awake_other by blast
qed

lemma spi_quiet_awake:
  assumes i: "spi_inv c n s" and w: "spi_awake s" and q: "spi_quiet c n s" and n: "0 < n" "0 < sc_rx_q c"
  shows "pq_items (ss_tx_q (sy_sl s)) = []" "spi_staged (sy_sl s) = []" "pq_items (sh_tx_q (sy_ho s)) = []"
    "pq_items (sh_rx_q (sy_ho s)) = []" "pq_items (ss_rx_q (sy_sl s)) = []"
proof -
  have none: "spi_do c n Task_take s = None" "spi_do c n Task_process s = None" "spi_do c n Host_round s = None"
    "spi_do c n Host_rx s = None" "spi_do c n Slave_read s = None"
    using q by (simp_all add: spi_quiet_def spi_internal_def del: spi_do.simps)
  note c = i [unfolded spi_inv_def spi_counts_def spi_host_counts_def Let_def]
  have hq: "sh_rx_sem (sy_ho s) = 0"
    using none(4) by (auto simp: spi_process_rx_def Let_def split: if_splits option.splits)
  then show h: "pq_items (sh_rx_q (sy_ho s)) = []" using c by simp
  have "ss_rx_sem (sy_sl s) = 0"
  proof (rule ccontr)
    assume a: "ss_rx_sem (sy_sl s) \<noteq> 0"
    then obtain p q' where "pq_take (ss_rx_q (sy_sl s)) = Some (p, q')"
      using c pq.take_None [of "ss_rx_q (sy_sl s)"] by (cases "pq_take (ss_rx_q (sy_sl s))") auto
    then show False using none(5) a by (simp add: esp_spi_read_def Let_def)
  qed
  then show r: "pq_items (ss_rx_q (sy_sl s)) = []" using c by simp
  have g: "length (pq_get k (ss_rx_q (sy_sl s))) = 0" "length (pq_get k (sh_rx_q (sy_ho s))) = 0" for k
    using r h by (cases k; simp add: pq_items_def)+
  have pc: "sy_pc s = Waiting"
  proof (cases "sy_pc s")
    case (Late rx) then show ?thesis using w by (simp add: spi_awake_def spi_pc_late_def Let_def)
  next
    case (Processing rx) then show ?thesis using none(2) g n by simp
  qed simp
  have "sy_done s = []"
    using none(1) pc by (auto simp: spi_stage_def spi_attach_def split: list.splits prod.splits option.splits)
  then obtain b where b: "ss_trans (sy_sl s) = [b]"
    using c pc by (auto simp: spi_pc_late_def length_Suc_conv)
  have "\<not> sh_ready (sy_ho s)"
  proof
    assume r: "sh_ready (sy_ho s)"
    let ?h = "(sy_ho s)\<lparr>sh_ready := False\<rparr>"
    have h: "sh_tx_sem ?h = length (pq_items (sh_tx_q ?h))" "list_all spi_packet (pq_items (sh_tx_q ?h))"
      using c by simp_all
    have "check_and_execute_spi_transaction n [] True (ss_dr (sy_sl s)) True b ?h \<noteq> None"
      by (cases rule: spi_get_next_changes [OF h]) (auto simp: check_and_execute_spi_transaction_def Let_def)
    then show False using none(3) r g n b by (auto simp: Let_def split: option.splits)
  qed
  then have "\<not> ss_dr (sy_sl s)" "sh_tx_sem (sy_ho s) = 0"
    using w b by (auto simp: spi_awake_def Let_def)
  then show "pq_items (ss_tx_q (sy_sl s)) = []" "spi_staged (sy_sl s) = []" "pq_items (sh_tx_q (sy_ho s)) = []"
    using w c by (auto simp: spi_awake_def Let_def)
qed

subsection \<open>No memory for a dummy buffer\<close>

definition spi_dead :: "ibuf list \<Rightarrow> spi_sys \<Rightarrow> bool" where
  "spi_dead g s \<longleftrightarrow> ss_trans (sy_sl s) = [] \<and> sy_done s = [] \<and> spi_pc_late (sy_pc s) = 0 \<and> sy_got s = g"

lemma write_enqueue_trans:
  "spi_write_enqueue c active alloc ib s = Some (r, s') \<Longrightarrow> ss_trans s' = ss_trans s"
  using throttling_changes [of c "s\<lparr>ss_tx_bufs := ss_tx_bufs s + 1\<rparr>"]
  by (auto simp: spi_write_enqueue_def Let_def split: if_splits)

lemma spi_dead_step:
  assumes "spi_dead g s" "spi_do c n a s = Some t"
  shows "spi_dead g t"
proof -
  have p: "ss_trans (snd (spi_finish_transaction c rx sl)) = ss_trans sl" for rx sl
    using process_spi_rx_changes [of c rx "sl\<lparr>ss_tx_bufs := ss_tx_bufs sl - 1\<rparr>"]
    by (auto simp: spi_finish_transaction_def)
  show ?thesis
  proof (cases a)
    case (Wr_queue ib)
    then show ?thesis using assms write_enqueue_trans
      by (auto simp: spi_dead_def split: if_splits option.splits dest!: write_enqueue_trans)
  next
    case Host_round
    then show ?thesis using assms spi_round_waits [of c n s t] by (auto simp: spi_dead_def)
  next
    case Task_process
    then show ?thesis using assms p by (auto simp: spi_dead_def spi_pc_late_def split: spi_pc.splits if_splits)
  qed (use assms in \<open>auto simp: spi_dead_def set_dataready_def give_tx_sem_def spi_pc_late_def esp_spi_read_def
      esp_spi_read_done_def Let_def split: if_splits option.splits spi_pc.splits list.splits prod.splits\<close>)
qed

subsection \<open>Properties\<close>

text \<open>C16: Under every interleaving of writers, tasks and readers on both sides, no packet for the host is lost or
  doubled: each one written is still queued, in the transmit buffer of the queued transaction, or has been
  queued by the host, and one transaction is under way at any time. Every buffer is accounted for: those for
  transmission are queued or in a transaction, those for reception in a transaction, queued or held by a reader.\<close>

theorem spi_nothing_lost:
  assumes "sc_chk c" "0 < sc_tx_q c" "spi_rx_accepts (spi_padded ev)" "list_all spi_act_ok as"
    "spi_run c n as (spi_start c ev) = Some s"
  shows "mset (sy_written s) = mset (spi_queued (sy_sl s)) + mset (spi_staged (sy_sl s)) + mset (sy_got s) \<and>
    length (ss_trans (sy_sl s)) + length (sy_done s) + spi_pc_late (sy_pc s) = 1 \<and>
    ss_tx_bufs (sy_sl s) = int (length (pq_items (ss_tx_q (sy_sl s))) + length (ss_trans (sy_sl s)) +
      length (sy_done s) + spi_pc_open (sy_pc s)) \<and>
    ss_rx_bufs (sy_sl s) = int (length (pq_items (ss_rx_q (sy_sl s))) + length (ss_trans (sy_sl s)) +
      length (sy_done s) + spi_pc_open (sy_pc s) + sy_held s)"
  using spi_inv_run [OF assms] by (simp add: spi_inv_def spi_counts_def spi_buffers_def spi_packets_def Let_def)

text \<open>C18: A packet can wait without end. \<open>esp_spi_write\<close> raises the data-ready line before it gives the semaphore,
  and the task lowers the line after it found the semaphore taken: a writer between the two finds the line
  high, and the task lowers it behind the writer. From the start, without any fault, a run of nine steps ends
  where nothing on either side moves without a new packet, and the packet is still queued.\<close>

theorem spi_wakeup_lost:
  assumes "spi_packet ib" "sc_chk c" "0 < sc_tx_q c" "0 < sc_rx_q c" "0 < n"
    "spi_rx_accepts (spi_padded ev)" "h_if_type (get_header (spi_padded ev)) = ESP_PRIV_IF"
  shows "\<exists>s. spi_run c n (spi_stalling_run ib) (spi_start c ev) = Some s \<and> spi_quiet c n s \<and>
    spi_queued (sy_sl s) = [ib\<lparr>ib_zcopy := False\<rparr>] \<and>
    sy_written s = [snd (spi_rx_packet (spi_padded ev)), ib\<lparr>ib_zcopy := False\<rparr>] \<and>
    sy_got s = [snd (spi_rx_packet (spi_padded ev))]"
proof -
  obtain t where r: "spi_run c n [Host_round, Host_rx, Task_take] (spi_start c ev) = Some
    \<lparr> sy_sl = (spi_first (spi_padded ev))\<lparr>ss_trans := []\<rparr>, sy_ho = spi_host_init\<lparr>sh_throttle := t\<rparr>,
      sy_done = [], sy_pc = Late spi_host_dummy, sy_to_raise = 0, sy_to_give = 0, sy_held = 0,
      sy_written = [snd (spi_rx_packet (spi_padded ev))], sy_got = [snd (spi_rx_packet (spi_padded ev))] \<rparr>"
    using spi_first_round [OF assms(6,7,5,3)] by blast
  have e: "spi_stalling_run ib = [Host_round, Host_rx, Task_take] @
      [Wr_queue ib, Wr_raise, Wr_give, Task_dummy True, Task_process, Host_round]"
    by (simp add: spi_stalling_run_def)
  obtain s where "spi_run c n (spi_stalling_run ib) (spi_start c ev) = Some s" "spi_quiet c n s"
    "spi_queued (sy_sl s) = [ib\<lparr>ib_zcopy := False\<rparr>]"
    "sy_written s = [snd (spi_rx_packet (spi_padded ev))] @ [ib\<lparr>ib_zcopy := False\<rparr>]"
    "sy_got s = [snd (spi_rx_packet (spi_padded ev))]"
    unfolding e spi_run_append r option.case using spi_late_writer [OF assms(1-5) refl] by blast
  then show ?thesis by auto
qed

text \<open>C17: As long as no write is interrupted, nor the task between the queue and the line, every state in which nothing moves is one in which all has arrived: the host has queued every packet
  written, and both transmit queues are empty.\<close>

theorem spi_calm_never_stalls:
  assumes "sc_chk c" "0 < sc_tx_q c" "0 < sc_rx_q c" "0 < n" "spi_rx_accepts (spi_padded ev)"
    "spi_calm c n ev s" "spi_quiet c n s"
  shows "mset (sy_got s) = mset (sy_written s) \<and> pq_items (ss_tx_q (sy_sl s)) = [] \<and>
    pq_items (sh_tx_q (sy_ho s)) = []"
proof -
  have i: "spi_inv c n s" "spi_awake s" using spi_calm_inv [OF assms(1,2,5,6)] by auto
  note q = spi_quiet_awake [OF i assms(7,4,3)]
  show ?thesis using i(1) q by (simp add: spi_inv_def spi_packets_def spi_queued_def)
qed

text \<open>Without memory for one dummy buffer the bus is dead: \<open>queue_next_transaction\<close> returns without a
  transaction, only the end of a transaction would queue another, and whatever happens then, no transaction
  is ever queued again and the host gets nothing more.\<close>

theorem spi_dead_without_dummy:
  assumes "sc_chk c" "0 < sc_tx_q c" "spi_rx_accepts (spi_padded ev)" "list_all spi_act_ok as"
    "spi_run c n (as @ [Task_dummy False]) (spi_start c ev) = Some s" "spi_run c n bs s = Some t"
  shows "ss_trans (sy_sl t) = [] \<and> sy_done t = [] \<and> sy_got t = sy_got s"
proof -
  obtain s0 where s0: "spi_run c n as (spi_start c ev) = Some s0" "spi_do c n (Task_dummy False) s0 = Some s"
    using assms(5) by (auto simp: spi_run_append simp del: spi_do.simps split: option.splits)
  have "spi_inv c n s0" by (rule spi_inv_run [OF assms(1-4) s0(1)])
  then have "spi_dead (sy_got s) s"
    using s0(2) by (auto simp: spi_dead_def spi_inv_def spi_counts_def spi_pc_late_def spi_make_dummy_def
      reset_dataready_def Let_def split: spi_pc.splits)
  then have "spi_dead (sy_got s) t"
    using spi_run_induct [of "spi_dead (sy_got s)" "\<lambda>_. True" c n s bs t] spi_dead_step assms(6)
    by (auto simp: list_all_iff)
  then show ?thesis by (simp add: spi_dead_def)
qed

text \<open>A throttled host is released by the next packet. \<open>esp_spi_write\<close> decides to throttle and keeps the
  decision out of the header, only dummy buffers carry it, and the host takes the field of every frame it
  accepts: while the queue of the co-processor is above its threshold, a packet to the host switches the
  throttling off that the dummy buffer before switched on.\<close>

theorem spi_packet_ends_throttling:
  assumes "spi_packet ib" "sc_chk c" "ib_if_type ib \<noteq> ESP_MAX_IF" "sc_high c \<noteq> 0"
    "sc_low c \<le> sc_high c" "sc_high c < length (pq_others (ss_rx_q s)) mod 65536 * 100 div sc_rx_q c mod 256"
  shows "\<exists>T. pq_get (prio_of (ib_if_type ib)) (ss_tx_q (snd (the (spi_write_enqueue c True True ib s)))) =
      pq_get (prio_of (ib_if_type ib)) (ss_tx_q s) @ [T] \<and> tb_flow T \<and>
    sh_throttle (process_spi_rx_buf m (tb_buf T) h) = 0 \<and>
    sh_throttle (process_spi_rx_buf m (the (fst (spi_make_dummy c True s))) h) = 1"
proof -
  have "spi_aligned (length (ib_payload ib) + HDR) \<le> SPI_BUFFER_SIZE" "ib_payload ib \<noteq> []"
    using assms(1) by (auto simp: spi_packet_def SPI_MAX_PAYLOAD_def spi_aligned_def spi_sizes) presburger
  moreover have f: "fst (find_wifi_tx_throttling c s')"  if "ss_rx_q s' = ss_rx_q s" for s'
    using assms(4-6) that by (simp add: find_wifi_tx_throttling_def Let_def)
  moreover have p: "pq_get k (pq_put k x q) = pq_get k q @ [x]" for k x and q :: "spi_tx pq" by (cases k) simp_all
  moreover have "ss_tx_q (snd (find_wifi_tx_throttling c s')) = ss_tx_q s'" for s'
    by (simp add: find_wifi_tx_throttling_def Let_def)
  ultimately obtain T where "pq_get (prio_of (ib_if_type ib)) (ss_tx_q (snd (the (spi_write_enqueue c True True ib s)))) =
      pq_get (prio_of (ib_if_type ib)) (ss_tx_q s) @ [T]" "tb_flow T"
      "tb_buf T = spi_padded (update_tx_header (sc_chk c) ib)"
    by (auto simp: spi_write_enqueue_def Let_def split_beta)
  moreover have "sh_throttle (process_spi_rx_buf m (spi_padded (update_tx_header True ib)) h) = 0"
    using spi_frame_accepted [OF assms(1)] assms(3) by (simp add: process_spi_rx_buf_accepted)
  moreover have "sh_throttle (process_spi_rx_buf m (the (fst (spi_make_dummy c True s))) h) = 1"
    using f [of "(reset_dataready s)\<lparr>ss_tx_bufs := ss_tx_bufs s + 1\<rparr>"]
    by (simp add: spi_make_dummy_def Let_def split_beta process_spi_rx_buf_dummy) (simp add: reset_dataready_def)
  ultimately show ?thesis using assms(2) by (intro exI [of _ T]) simp
qed

subsection \<open>Witnesses\<close>

definition spi_demo_cfg :: spi_cfg where
  "spi_demo_cfg = \<lparr> sc_high = 80, sc_low = 60, sc_rx_q = 10, sc_tx_q = 10, sc_chk = True \<rparr>"

definition spi_demo_event :: "byte list" where
  "spi_demo_event = update_tx_header True (demo_pkt\<lparr>ib_if_type := ESP_PRIV_IF\<rparr>)"

lemma spi_demo:
  "sc_chk spi_demo_cfg" "0 < sc_tx_q spi_demo_cfg" "0 < sc_rx_q spi_demo_cfg" "spi_packet demo_pkt"
  "spi_rx_accepts (spi_padded spi_demo_event)" "h_if_type (get_header (spi_padded spi_demo_event)) = ESP_PRIV_IF"
proof -
  show "sc_chk spi_demo_cfg" "0 < sc_tx_q spi_demo_cfg" "0 < sc_rx_q spi_demo_cfg" by (simp_all add: spi_demo_cfg_def)
  show "spi_packet demo_pkt"
    by (simp add: spi_packet_def demo_pkt_def nibbles_def esp_ifs SPI_MAX_PAYLOAD_def spi_sizes)
  have "spi_packet (demo_pkt\<lparr>ib_if_type := ESP_PRIV_IF\<rparr>)"
    by (simp add: spi_packet_def demo_pkt_def nibbles_def esp_ifs SPI_MAX_PAYLOAD_def spi_sizes)
  from spi_frame_accepted [OF this]
  show "spi_rx_accepts (spi_padded spi_demo_event)" "h_if_type (get_header (spi_padded spi_demo_event)) = ESP_PRIV_IF"
    by (simp_all add: spi_demo_event_def)
qed

text \<open>The first transaction, and the idle one behind it.\<close>

lemma spi_first_idle:
  assumes "spi_rx_accepts (spi_padded ev)" "h_if_type (get_header (spi_padded ev)) = ESP_PRIV_IF"
    "0 < n" "0 < sc_tx_q c" "0 < sc_rx_q c"
  shows "\<exists>s. spi_calm c n ev s \<and> spi_quiet c n s"
proof -
  obtain t where r: "spi_run c n [Host_round, Host_rx, Task_take] (spi_start c ev) = Some
    \<lparr> sy_sl = (spi_first (spi_padded ev))\<lparr>ss_trans := []\<rparr>, sy_ho = spi_host_init\<lparr>sh_throttle := t\<rparr>,
      sy_done = [], sy_pc = Late spi_host_dummy, sy_to_raise = 0, sy_to_give = 0, sy_held = 0,
      sy_written = [snd (spi_rx_packet (spi_padded ev))], sy_got = [snd (spi_rx_packet (spi_padded ev))] \<rparr>"
    (is "_ = Some ?s3") using spi_first_round [OF assms(1-4)] by blast
  obtain s1 s2 where s: "spi_do c n Host_round (spi_start c ev) = Some s1" "spi_do c n Host_rx s1 = Some s2"
    "spi_do c n Task_take s2 = Some ?s3"
    using r by (auto simp del: spi_do.simps split: option.splits)
  obtain u v where d: "spi_make_dummy c True (sy_sl ?s3) = (Some (spi_dummy_frame u),
      (sy_sl ?s3)\<lparr>ss_dr := False, ss_tx_bufs := ss_tx_bufs (sy_sl ?s3) + 1, ss_throttling := v\<rparr>)"
    using spi_dummy_changes .
  define s4 where "s4 = the (spi_do c n (Task_dummy True) ?s3)"
  have d4: "spi_do c n (Task_dummy True) ?s3 = Some s4"
    using d by (simp add: s4_def spi_stage_def spi_attach_def)
  define s6 where "s6 = ?s3\<lparr>sy_sl := (spi_first (spi_padded ev))\<lparr>ss_dr := False, ss_throttling := v,
      ss_trans := [spi_dummy_frame u]\<rparr>, sy_pc := Waiting\<rparr>"
  have fin: "snd (spi_finish_transaction c spi_host_dummy sl) =
      sl\<lparr>ss_tx_bufs := ss_tx_bufs sl - 1, ss_rx_bufs := ss_rx_bufs sl - 1\<rparr>" for sl
    by (simp add: spi_finish_transaction_def process_spi_rx_def spi_host_dummy_header Let_def)
  have five: "spi_do c n Task_process s4 = Some (s6\<lparr>sy_ho := gpio_hs_isr_handler (sy_ho ?s3)\<rparr>)"
    using d assms(5) by (simp add: s4_def s6_def spi_stage_def spi_attach_def fin spi_host_dummy_header prio_of_def
      esp_ifs ESP_MAX_IF_def) (simp add: spi_first_def pq_empty_def)
  have six: "spi_do c n Host_round (s6\<lparr>sy_ho := gpio_hs_isr_handler (sy_ho ?s3)\<rparr>) = Some s6"
    using assms(3) by (simp add: s6_def spi_rx_packet_def sdio_push_pkt_to_queue_def spi_dummy_header prio_of_def
      esp_ifs ESP_MAX_IF_def gpio_hs_isr_handler_def spi_host_init_def check_and_execute_spi_transaction_def
      spi_get_next_tx_buffer_def Let_def pq_empty_def)
  have "spi_run c n [Task_take, Task_dummy True] s2 = Some s4" using s(3) d4 by simp
  then have "spi_calm c n ev s6"
    using calm_start [of c n ev] s five six by (meson calm_round calm_other calm_dummy insertI1 insertI2)
  moreover have "spi_quiet c n s6"
    by (simp add: spi_quiet_def spi_internal_def s6_def spi_host_init_def spi_process_rx_def esp_spi_read_def
      spi_first_def)
  ultimately show ?thesis by blast
qed

theorem spi_nothing_lost_witness:
  "\<exists>s. spi_run spi_demo_cfg 4 [Host_round, Host_rx, Task_take] (spi_start spi_demo_cfg spi_demo_event) = Some s \<and>
    mset (sy_written s) = mset (spi_queued (sy_sl s)) + mset (spi_staged (sy_sl s)) + mset (sy_got s) \<and>
    length (ss_trans (sy_sl s)) + length (sy_done s) + spi_pc_late (sy_pc s) = 1 \<and>
    ss_tx_bufs (sy_sl s) = int (length (pq_items (ss_tx_q (sy_sl s))) + length (ss_trans (sy_sl s)) +
      length (sy_done s) + spi_pc_open (sy_pc s)) \<and>
    ss_rx_bufs (sy_sl s) = int (length (pq_items (ss_rx_q (sy_sl s))) + length (ss_trans (sy_sl s)) +
      length (sy_done s) + spi_pc_open (sy_pc s) + sy_held s)"
proof -
  obtain s where s: "spi_run spi_demo_cfg 4 [Host_round, Host_rx, Task_take]
      (spi_start spi_demo_cfg spi_demo_event) = Some s"
    using spi_first_round [OF spi_demo(5,6) _ spi_demo(2), of 4] by fastforce
  have "list_all spi_act_ok [Host_round, Host_rx, Task_take]" by simp
  from spi_nothing_lost [OF spi_demo(1,2,5) this s] s show ?thesis by blast
qed

theorem spi_wakeup_lost_witness:
  "\<exists>s. spi_run spi_demo_cfg 4 (spi_stalling_run demo_pkt) (spi_start spi_demo_cfg spi_demo_event) = Some s \<and>
    spi_quiet spi_demo_cfg 4 s \<and> spi_queued (sy_sl s) = [demo_pkt\<lparr>ib_zcopy := False\<rparr>] \<and>
    sy_written s = [snd (spi_rx_packet (spi_padded spi_demo_event)), demo_pkt\<lparr>ib_zcopy := False\<rparr>] \<and>
    sy_got s = [snd (spi_rx_packet (spi_padded spi_demo_event))]"
  by (rule spi_wakeup_lost [OF spi_demo(4,1,2,3) _ spi_demo(5,6)]) simp

theorem spi_calm_never_stalls_witness:
  "\<exists>s. spi_calm spi_demo_cfg 4 spi_demo_event s \<and> spi_quiet spi_demo_cfg 4 s \<and>
    mset (sy_got s) = mset (sy_written s) \<and> pq_items (ss_tx_q (sy_sl s)) = [] \<and>
    pq_items (sh_tx_q (sy_ho s)) = []"
proof -
  obtain s where s: "spi_calm spi_demo_cfg 4 spi_demo_event s" "spi_quiet spi_demo_cfg 4 s"
    using spi_first_idle [OF spi_demo(5,6) _ spi_demo(2,3), of 4] by auto
  from spi_calm_never_stalls [OF spi_demo(1-3) _ spi_demo(5) s] s show ?thesis by auto
qed

theorem spi_dead_without_dummy_witness:
  "\<exists>s. spi_run spi_demo_cfg 4 ([Host_round, Host_rx, Task_take] @ [Task_dummy False])
      (spi_start spi_demo_cfg spi_demo_event) = Some s \<and>
    (\<exists>t. spi_run spi_demo_cfg 4 [Task_process] s = Some t \<and> ss_trans (sy_sl t) = [] \<and> sy_done t = [] \<and>
      sy_got t = sy_got s)"
proof -
  obtain r s t where s: "spi_run spi_demo_cfg 4 [Host_round, Host_rx, Task_take]
      (spi_start spi_demo_cfg spi_demo_event) = Some r"
    "spi_do spi_demo_cfg 4 (Task_dummy False) r = Some s" "spi_do spi_demo_cfg 4 Task_process s = Some t"
    using spi_first_round [OF spi_demo(5,6) _ spi_demo(2), of 4]
    by (auto simp: spi_make_dummy_def reset_dataready_def spi_host_dummy_header prio_of_def esp_ifs ESP_MAX_IF_def
        spi_first_def pq_empty_def spi_demo_cfg_def Let_def)
  have l: "list_all spi_act_ok [Host_round, Host_rx, Task_take]" by simp
  have as: "spi_run spi_demo_cfg 4 ([Host_round, Host_rx, Task_take] @ [Task_dummy False])
      (spi_start spi_demo_cfg spi_demo_event) = Some s"
    unfolding spi_run_append s(1) using s(2) by (simp del: spi_do.simps)
  have bs: "spi_run spi_demo_cfg 4 [Task_process] s = Some t" using s(3) by (simp del: spi_do.simps)
  from spi_dead_without_dummy [OF spi_demo(1,2,5) l as bs] as bs show ?thesis by blast
qed

theorem spi_packet_ends_throttling_witness:
  "\<exists>T. pq_get (prio_of (ib_if_type demo_pkt)) (ss_tx_q (snd (the (spi_write_enqueue spi_demo_cfg True True demo_pkt
      (spi_slave_init\<lparr>ss_rx_q := pq_empty\<lparr>pq_others := replicate 9 demo_pkt\<rparr>\<rparr>))))) =
      pq_get (prio_of (ib_if_type demo_pkt)) (ss_tx_q (spi_slave_init
        \<lparr>ss_rx_q := pq_empty\<lparr>pq_others := replicate 9 demo_pkt\<rparr>\<rparr>)) @ [T] \<and> tb_flow T \<and>
    sh_throttle (process_spi_rx_buf 4 (tb_buf T) spi_host_init) = 0 \<and>
    sh_throttle (process_spi_rx_buf 4 (the (fst (spi_make_dummy spi_demo_cfg True (spi_slave_init
      \<lparr>ss_rx_q := pq_empty\<lparr>pq_others := replicate 9 demo_pkt\<rparr>\<rparr>)))) spi_host_init) = 1"
  by (rule spi_packet_ends_throttling [OF spi_demo(4,1)])
    (simp_all add: spi_demo_cfg_def demo_pkt_def esp_ifs ESP_MAX_IF_def)

end
