(* ===== verification/Spi_Hd_Slave.thy ===== *)
theory Spi_Hd_Slave
  imports Prio_Queue
begin

section \<open>The half-duplex SPI driver of the co-processor (spi_hd_slave_api.c)\<close>

text \<open>
  On the half-duplex bus the co-processor announces what it has to send in a shared register: a counter of
  all bytes ever loaded for transmission, 24 bits wide, with two interrupt bits above. The peripheral driver
  of ESP-IDF loads one queued transaction at a time and calls \<open>cb_tx_ready\<close>; the host reads the register,
  clears the data-ready line with command 9 and fetches the difference to its own count.
\<close>

definition SPI_HD_BUFFER_SIZE :: nat where "SPI_HD_BUFFER_SIZE = 1600"
definition SPI_HD_TX_BUF_LEN_MASK :: u32 where "SPI_HD_TX_BUF_LEN_MASK = 0x00FFFFFF"
definition SPI_HD_INT_START_THROTTLE :: u32 where "SPI_HD_INT_START_THROTTLE = 0x01000000"
definition SPI_HD_INT_STOP_THROTTLE :: u32 where "SPI_HD_INT_STOP_THROTTLE = 0x02000000"
definition SPI_HD_INT_MASK :: u32 where "SPI_HD_INT_MASK = 0x03000000"
definition H_FLOW_CTRL_ON :: u8 where "H_FLOW_CTRL_ON = 1"
definition H_FLOW_CTRL_OFF :: u8 where "H_FLOW_CTRL_OFF = 2"

lemmas hd_sizes = HDR_def SPI_HD_BUFFER_SIZE_def

record hd_cfg =
  hc_high :: nat
  hc_low :: nat
  hc_q :: nat
  hc_chk :: bool

text \<open>
  The state: \<open>tx_ready_buf_size\<close> and \<open>rx_ready_buf_num\<close> with their registers, the data-ready line, the frames
  queued with the peripheral driver, the one it has loaded, the transactions it has completed, the semaphore
  that counts free transmit buffers, the receive queues, the transactions queued for reception, and the flow
  control (\<open>slv_state_g.current_throttling\<close>, \<open>wifi_flow_ctrl\<close>, \<open>flow_ctrl_sem\<close>).
\<close>

record hd_slave =
  hs_tx_len :: u32
  hs_reg_tx :: u32
  hs_rx_num :: u32
  hs_reg_rx :: u32
  hs_dr :: bool
  hs_fifo :: "byte list list"
  hs_dma :: "byte list option"
  hs_done :: nat
  hs_tx_sem :: nat
  hs_rx_q :: "ibuf pq"
  hs_rx_sem :: nat
  hs_rx_trans :: nat
  hs_throttling :: bool
  hs_flow :: bool
  hs_flow_sem :: bool

subsection \<open>Callbacks of the peripheral driver\<close>

definition cb_rx_ready :: "hd_slave \<Rightarrow> hd_slave" where
  "cb_rx_ready s = s\<lparr>hs_rx_num := hs_rx_num s + 1, hs_reg_rx := hs_rx_num s + 1\<rparr>"

definition cb_tx_ready :: "nat \<Rightarrow> hd_slave \<Rightarrow> hd_slave" where
  "cb_tx_ready n s =
     (let int_mask = hs_tx_len s AND SPI_HD_INT_MASK;
          v = (((hs_tx_len s AND SPI_HD_TX_BUF_LEN_MASK) + word_of_nat n) AND SPI_HD_TX_BUF_LEN_MASK) OR int_mask
      in s\<lparr>hs_tx_len := v, hs_reg_tx := v, hs_dr := True\<rparr>)"

definition cb_cmd9_recv :: "hd_slave \<Rightarrow> hd_slave" where
  "cb_cmd9_recv s = s\<lparr>hs_tx_len := hs_tx_len s AND SPI_HD_TX_BUF_LEN_MASK, hs_dr := False\<rparr>"

subsection \<open>Flow control\<close>

definition hd_load_percent :: "hd_cfg \<Rightarrow> hd_slave \<Rightarrow> nat" where
  "hd_load_percent c s = length (pq_others (hs_rx_q s)) * 100 div hc_q c mod 256"

definition start_rx_data_throttling_if_needed :: "hd_cfg \<Rightarrow> hd_slave \<Rightarrow> hd_slave" where
  "start_rx_data_throttling_if_needed c s =
     (if 0 < hc_high c \<and> \<not> hs_throttling s \<and> hc_high c < hd_load_percent c s
      then s\<lparr>hs_throttling := True, hs_flow := True, hs_flow_sem := True\<rparr> else s)"

definition stop_rx_data_throttling_if_needed :: "hd_cfg \<Rightarrow> hd_slave \<Rightarrow> hd_slave" where
  "stop_rx_data_throttling_if_needed c s =
     (if hs_throttling s \<and> hd_load_percent c s < hc_low c
      then s\<lparr>hs_throttling := False, hs_flow := False, hs_flow_sem := True\<rparr> else s)"

text \<open>A round of \<open>flow_ctrl_task\<close>: the command of the empty packet it queues. \<open>None\<close> waits.\<close>

definition flow_ctrl_round :: "hd_slave \<Rightarrow> (u8 \<times> hd_slave) option" where
  "flow_ctrl_round s =
     (if \<not> hs_flow_sem s then None
      else Some (if hs_flow s then H_FLOW_CTRL_ON else H_FLOW_CTRL_OFF, s\<lparr>hs_flow_sem := False\<rparr>))"

subsection \<open>Sending\<close>

text \<open>The frame of a packet with its flow control command.\<close>

definition hd_frame :: "bool \<Rightarrow> u8 \<Rightarrow> ibuf \<Rightarrow> byte list" where
  "hd_frame chk flow ib =
     (let n = length (ib_payload ib);
          f = put_header \<lparr> h_if_type = ib_if_type ib, h_if_num = ib_if_num ib,
                h_flags = ib_flag ib, h_len = word_of_nat n, h_offset = word_of_nat HDR,
                h_checksum = 0, h_seq_num = ib_seq ib, h_throttle_cmd = flow, h_pkt_type = 0 \<rparr> @ ib_payload ib
      in if chk then set_checksum (compute_checksum f (HDR + n)) f else f)"

text \<open>
  \<open>esp_spi_hd_write\<close>: \<open>None\<close> waits for a free buffer. \<open>alloc\<close> and \<open>queued\<close> say whether the buffer is to be had
  and the driver takes the transaction; when not, the semaphore is not given back.
\<close>

definition esp_spi_hd_write ::
  "hd_cfg \<Rightarrow> bool \<Rightarrow> bool \<Rightarrow> bool \<Rightarrow> u8 \<Rightarrow> ibuf \<Rightarrow> hd_slave \<Rightarrow> (int \<times> hd_slave) option" where
  "esp_spi_hd_write c active alloc queued flow ib s =
     (if \<not> active \<or> flow = 0 \<and> ib_payload ib = [] then Some (ESP_FAIL, s)
      else if hs_tx_sem s = 0 then None
      else
       (let s1 = s\<lparr>hs_tx_sem := hs_tx_sem s - 1\<rparr> in
        if \<not> alloc \<or> \<not> queued then Some (ESP_FAIL, s1)
        else Some (int (length (ib_payload ib)), s1\<lparr>hs_fifo := hs_fifo s1 @ [hd_frame (hc_chk c) flow ib]\<rparr>)))"

text \<open>A round of \<open>spi_hd_tx_done_task\<close>.\<close>

definition spi_hd_tx_done :: "hd_cfg \<Rightarrow> hd_slave \<Rightarrow> hd_slave option" where
  "spi_hd_tx_done c s =
     (if hs_done s = 0 then None
      else Some (s\<lparr>hs_done := hs_done s - 1, hs_tx_sem := min (Suc (hs_tx_sem s)) (hc_q c)\<rparr>))"

subsection \<open>Receiving\<close>

text \<open>\<open>spi_hd_read_done\<close>: the transaction is queued again, or freed when the driver refuses it.\<close>

definition spi_hd_read_done :: "bool \<Rightarrow> hd_slave \<Rightarrow> hd_slave" where
  "spi_hd_read_done queued s = (if queued then s\<lparr>hs_rx_trans := Suc (hs_rx_trans s)\<rparr> else s)"

text \<open>
  A round of \<open>spi_hd_rx_task\<close> on a completed transaction of which \<open>n\<close> bytes were written. A host that wakes up
  resets the count of bytes, but not the register.
\<close>

definition spi_hd_rx_round :: "hd_cfg \<Rightarrow> bool \<Rightarrow> byte list \<Rightarrow> nat \<Rightarrow> hd_slave \<Rightarrow> ps_event option \<times> hd_slave" where
  "spi_hd_rx_round c requeue rx n s0 =
     (let s = s0\<lparr>hs_rx_trans := hs_rx_trans s0 - 1\<rparr> in
      if n = 0 then (None, spi_hd_read_done requeue s)
      else
       (let h = get_header rx; len = unat (h_len h); off = unat (h_offset h); e = ps_flag_event (h_flags h);
            s1 = (if e = Some ESP_POWER_SAVE_OFF then s\<lparr>hs_tx_len := 0\<rparr> else s);
            rx0 = (if hc_chk c then set_checksum 0 rx else rx)
        in (e, if n < len + off \<or> hc_chk c \<and> compute_checksum rx0 (len + off) \<noteq> h_checksum h
            then spi_hd_read_done requeue s1
            else
             (let s2 = start_rx_data_throttling_if_needed c s1 in
              s2\<lparr>hs_rx_q := pq_put (prio_of (h_if_type h))
                  \<lparr> ib_if_type = h_if_type h, ib_if_num = h_if_num h, ib_flag = 0, ib_seq = 0,
                    ib_payload = take n rx0, ib_zcopy = False \<rparr> (hs_rx_q s2),
                hs_rx_sem := min (Suc (hs_rx_sem s2)) (3 * hc_q c)\<rparr>))))"

text \<open>\<open>esp_spi_hd_read\<close>: \<open>None\<close> waits.\<close>

definition esp_spi_hd_read :: "hd_cfg \<Rightarrow> bool \<Rightarrow> hd_slave \<Rightarrow> (int \<times> ibuf option \<times> hd_slave) option" where
  "esp_spi_hd_read c active s =
     (if \<not> active then Some (ESP_FAIL, None, s)
      else if hs_rx_sem s = 0 then None
      else
       (let s1 = s\<lparr>hs_rx_sem := hs_rx_sem s - 1\<rparr> in
        case pq_take (hs_rx_q s1) of
          None \<Rightarrow> Some (ESP_FAIL, None, s1)
        | Some (ib, q) \<Rightarrow>
           Some (int (length (ib_payload ib)), Some ib, stop_rx_data_throttling_if_needed c (s1\<lparr>hs_rx_q := q\<rparr>))))"

subsection \<open>Set-up\<close>

text \<open>
  After \<open>esp_spi_hd_init\<close> and the start of its tasks: all registers are cleared, the semaphore counts every
  buffer, and a transaction for reception is queued for each.
\<close>

definition hd_slave_init :: "hd_cfg \<Rightarrow> hd_slave" where
  "hd_slave_init c = \<lparr> hs_tx_len = 0, hs_reg_tx = 0, hs_rx_num = 0, hs_reg_rx = 0, hs_dr = False, hs_fifo = [],
     hs_dma = None, hs_done = 0, hs_tx_sem = hc_q c, hs_rx_q = pq_empty, hs_rx_sem = 0, hs_rx_trans = hc_q c,
     hs_throttling = False, hs_flow = False, hs_flow_sem = False \<rparr>"

text \<open>\<open>generate_startup_event\<close>, given the padded event it builds.\<close>

definition spi_hd_queue_startup :: "bool \<Rightarrow> byte list \<Rightarrow> hd_slave \<Rightarrow> hd_slave option" where
  "spi_hd_queue_startup queued ev s =
     (if hs_tx_sem s = 0 then None
      else
       (let s1 = s\<lparr>hs_tx_sem := hs_tx_sem s - 1\<rparr> in
        Some (if queued then s1\<lparr>hs_fifo := hs_fifo s1 @ [ev]\<rparr> else s1)))"

end
