(* ===== verification/Spi_Hd_Host.thy ===== *)
theory Spi_Hd_Host
  imports Spi_Hd_Slave
begin

section \<open>The half-duplex SPI driver of the host (spi_hd_drv.c)\<close>

text \<open>
  The host reads shared registers of the co-processor and moves whole frames by DMA. It keeps two counts of its
  own: bytes received and buffers sent; what is to be had is the difference to the register, modulo the width
  of the counter.
\<close>

definition SPI_HD_MAX_PAYLOAD :: nat where "SPI_HD_MAX_PAYLOAD = SPI_HD_BUFFER_SIZE - HDR"

record hd_host =
  hh_rx_bytes :: u32
  hh_tx_bufs :: u32
  hh_avail :: u32
  hh_ready :: nat
  hh_throttle :: bool
  hh_rx_q :: "ibuf pq"
  hh_rx_sem :: nat

definition hd_host_init :: hd_host where
  "hd_host_init = \<lparr> hh_rx_bytes = 0, hh_tx_bufs = 0, hh_avail = 0, hh_ready = 0, hh_throttle = False,
     hh_rx_q = pq_empty, hh_rx_sem = 0 \<rparr>"

definition hd_dr_isr :: "hd_host \<Rightarrow> hd_host" where
  "hd_dr_isr h = h\<lparr>hh_ready := Suc (hh_ready h)\<rparr>"

subsection \<open>Sending\<close>

text \<open>
  \<open>spi_hd_get_tx_buffer_num\<close> and \<open>spi_hd_is_write_buffer_available\<close>: \<open>reg k\<close> is the \<open>k\<close>-th read of the register,
  \<open>None\<close> an error. The number of buffers is kept from call to call.
\<close>

definition spi_hd_get_tx_buffer_num :: "u32 option \<Rightarrow> u32 \<Rightarrow> u32 \<Rightarrow> u32" where
  "spi_hd_get_tx_buffer_num r used avail = (case r of None \<Rightarrow> avail | Some v \<Rightarrow> v - used)"

definition HD_MAX_WRITE_BUF_RETRIES :: nat where "HD_MAX_WRITE_BUF_RETRIES = 25"

fun hd_poll_buffers :: "(nat \<Rightarrow> u32 option) \<Rightarrow> u32 \<Rightarrow> nat \<Rightarrow> u32 \<Rightarrow> u32 \<Rightarrow> nat \<Rightarrow> bool \<times> u32" where
  "hd_poll_buffers reg used k need avail 0 = (False, avail)"
| "hd_poll_buffers reg used k need avail (Suc retry) =
     (let n = spi_hd_get_tx_buffer_num (reg k) used avail in
      if n < need then hd_poll_buffers reg used (Suc k) need n retry else (True, n))"

definition spi_hd_is_write_buffer_available :: "(nat \<Rightarrow> u32 option) \<Rightarrow> u32 \<Rightarrow> hd_host \<Rightarrow> bool \<times> hd_host" where
  "spi_hd_is_write_buffer_available reg need h =
     (let (ok, n) = (if hh_avail h < need
            then hd_poll_buffers reg (hh_tx_bufs h) 0 need (hh_avail h) HD_MAX_WRITE_BUF_RETRIES else (True, hh_avail h))
      in (ok, h\<lparr>hh_avail := (if need \<le> n then n - need else n)\<rparr>))"

text \<open>
  \<open>spi_hd_write_packet\<close>; \<open>None\<close> is the copy of an HCI packet without payload, whose length less one wraps.
  \<open>sent\<close> is the outcome of the DMA write.
\<close>

definition spi_hd_write_packet ::
  "bool \<Rightarrow> bool \<Rightarrow> (nat \<Rightarrow> u32 option) \<Rightarrow> bool \<Rightarrow> ibuf \<Rightarrow> hd_host \<Rightarrow> (esp_err \<times> byte list option \<times> hd_host) option" where
  "spi_hd_write_packet chk alloc reg sent ib h =
     (let n = length (ib_payload ib);
          m = (if ib_if_type ib = ESP_HCI_IF \<and> \<not> ib_zcopy ib then n - 1 else n);
          need = (m + HDR + SPI_HD_BUFFER_SIZE - 1) div SPI_HD_BUFFER_SIZE
      in if ib_flag ib = 0 \<and> n = 0 then Some (ESP_FAIL, None, h)
         else if \<not> ib_zcopy ib \<and> \<not> alloc then Some (ESP_FAIL, None, h)
         else if SPI_HD_MAX_PAYLOAD < n then Some (ESP_FAIL, None, h)
         else if n = 0 \<and> ib_if_type ib = ESP_HCI_IF \<and> \<not> ib_zcopy ib then None
         else (case spi_hd_is_write_buffer_available reg (word_of_nat need) h of
            (False, h1) \<Rightarrow> Some (ESP_FAIL, None, h1)
          | (True, h1) \<Rightarrow>
              if \<not> sent then Some (ESP_FAIL, None, h1)
              else Some (ESP_OK, Some (sdio_frame chk n ib), h1\<lparr>hh_tx_bufs := hh_tx_bufs h1 + word_of_nat need\<rparr>)))"

subsection \<open>Receiving\<close>

definition is_valid_spi_hd_rx_packet :: "bool \<Rightarrow> byte list \<Rightarrow> (nat \<times> nat) option" where
  "is_valid_spi_hd_rx_packet chk rx =
     (let h = get_header rx; len = unat (h_len h); off = unat (h_offset h) in
      if len = 0 \<or> SPI_HD_MAX_PAYLOAD < len \<or> off \<noteq> HDR then None
      else if chk \<and> compute_checksum (set_checksum 0 rx) (len + off) \<noteq> h_checksum h then None
      else Some (len, off))"

text \<open>\<open>update_flow_ctrl\<close>: whether the packet is a flow control packet, before any other field is looked at.\<close>

definition update_flow_ctrl :: "byte list \<Rightarrow> hd_host \<Rightarrow> bool \<times> hd_host" where
  "update_flow_ctrl rx h =
     (let t = h_throttle_cmd (get_header rx) in
      if t = 0 then (False, h)
      else (True, if t = H_FLOW_CTRL_ON then h\<lparr>hh_throttle := True\<rparr>
                  else if t = H_FLOW_CTRL_OFF then h\<lparr>hh_throttle := False\<rparr> else h))"

text \<open>\<open>spi_hd_push_data_to_queue\<close>; \<open>n\<close> is the size of a queue.\<close>

definition spi_hd_push_data_to_queue :: "nat \<Rightarrow> bool \<Rightarrow> byte list \<Rightarrow> hd_host \<Rightarrow> hd_host" where
  "spi_hd_push_data_to_queue n chk rx h =
     (case update_flow_ctrl rx h of
        (True, h1) \<Rightarrow> h1
      | (False, h1) \<Rightarrow>
         (case is_valid_spi_hd_rx_packet chk rx of
            None \<Rightarrow> h1
          | Some (len, off) \<Rightarrow>
             (case sdio_push_pkt_to_queue rx len off of (k, ib) \<Rightarrow>
                h1\<lparr>hh_rx_q := pq_put k ib (hh_rx_q h1), hh_rx_sem := min (Suc (hh_rx_sem h1)) (3 * n)\<rparr>)))"

text \<open>
  A round of \<open>spi_hd_read_task\<close> has three parts: the semaphore and the register; command 9; and the transfer.
  What the last part decides from the value of the register: the throttling bits, and how many bytes to fetch.
\<close>

definition hd_int_bits :: "u32 \<Rightarrow> hd_host \<Rightarrow> hd_host" where
  "hd_int_bits v h =
     (let m = v AND SPI_HD_INT_MASK;
          h1 = (if m AND SPI_HD_INT_START_THROTTLE \<noteq> 0 then h\<lparr>hh_throttle := True\<rparr> else h)
      in if m AND SPI_HD_INT_STOP_THROTTLE \<noteq> 0 then h1\<lparr>hh_throttle := False\<rparr> else h1)"

definition hd_size_to_xfer :: "u32 \<Rightarrow> hd_host \<Rightarrow> nat" where
  "hd_size_to_xfer v h = unat (((v AND SPI_HD_TX_BUF_LEN_MASK) - hh_rx_bytes h) AND SPI_HD_TX_BUF_LEN_MASK)"

definition hd_fetches :: "u32 \<Rightarrow> hd_host \<Rightarrow> bool" where
  "hd_fetches v h \<longleftrightarrow> hd_size_to_xfer v h \<noteq> 0 \<and> hd_size_to_xfer v h \<le> SPI_HD_BUFFER_SIZE"

definition hd_count_bytes :: "nat \<Rightarrow> hd_host \<Rightarrow> hd_host" where
  "hd_count_bytes n h = h\<lparr>hh_rx_bytes := (hh_rx_bytes h + word_of_nat n) AND SPI_HD_TX_BUF_LEN_MASK\<rparr>"

end
