(* ===== verification/Spi_Hd_Bus.thy ===== *)
theory Spi_Hd_Bus
  imports Spi_Hd_Host
begin

section \<open>Both half-duplex SPI drivers on one bus\<close>

text \<open>
  Writers and the peripheral driver of the co-processor and the host's read task run at the same time. The
  peripheral driver of ESP-IDF works as documented for its segment mode: it loads the first queued transaction
  when none is loaded, calling \<open>cb_tx_ready\<close>, and a DMA read of the host ends the transaction that is loaded. A
  rising data-ready line runs the host's interrupt handler. \<open>hy_sent\<close> and \<open>hy_read\<close> are histories: the frames
  queued for transmission, and the bytes of each read.
\<close>

text \<open>The read task waits, has read the register, or has also sent command 9.\<close>

datatype hd_pc = Hd_wait | Hd_got u32 | Hd_cleared u32

record hd_sys =
  hy_sl :: hd_slave
  hy_ho :: hd_host
  hy_pc :: hd_pc
  hy_sent :: "byte list list"
  hy_read :: "byte list list"

datatype hd_act =
  Hd_write u8 ibuf | Hd_load | Hd_tx_done | Hd_packet "byte list" nat | Ho_reg bool | Ho_cmd9 | Ho_xfer bool | Ho_wake

definition hd_load :: "hd_sys \<Rightarrow> hd_sys option" where
  "hd_load s =
     (case (hs_dma (hy_sl s), hs_fifo (hy_sl s)) of
        (None, f # fs) \<Rightarrow> Some (s\<lparr>hy_sl := cb_tx_ready (length f) ((hy_sl s)\<lparr>hs_dma := Some f, hs_fifo := fs\<rparr>),
          hy_ho := (if hs_dr (hy_sl s) then hy_ho s else hd_dr_isr (hy_ho s))\<rparr>)
      | _ \<Rightarrow> None)"

text \<open>
  The transfer, behind command 9. The receive buffer is cleared before, \<open>ok\<close> is the outcome of the DMA read.
\<close>

definition hd_transfer :: "hd_cfg \<Rightarrow> nat \<Rightarrow> bool \<Rightarrow> u32 \<Rightarrow> hd_sys \<Rightarrow> hd_sys" where
  "hd_transfer c n ok v s =
     (let h = hd_int_bits v (hy_ho s); m = hd_size_to_xfer v h in
      if \<not> hd_fetches v h then s\<lparr>hy_ho := h, hy_pc := Hd_wait\<rparr>
      else (case hs_dma (hy_sl s) of
         None \<Rightarrow> s\<lparr>hy_ho := hd_count_bytes m h, hy_pc := Hd_wait\<rparr>
       | Some f \<Rightarrow>
          (let rx = take m f; h1 = hd_count_bytes m h in
           s\<lparr>hy_sl := (hy_sl s)\<lparr>hs_dma := None, hs_done := Suc (hs_done (hy_sl s))\<rparr>,
             hy_ho := (if ok then spi_hd_push_data_to_queue n (hc_chk c)
                 (rx @ replicate (SPI_HD_BUFFER_SIZE - length rx) 0) h1 else h1),
             hy_pc := Hd_wait, hy_read := hy_read s @ [rx]\<rparr>)))"

text \<open>\<open>Ho_wake\<close> is a host that comes back from deep sleep with its variables cleared.\<close>

fun hd_do :: "hd_cfg \<Rightarrow> nat \<Rightarrow> hd_act \<Rightarrow> hd_sys \<Rightarrow> hd_sys option" where
  "hd_do c n (Hd_write flow ib) s =
     (case esp_spi_hd_write c True True True flow ib (hy_sl s) of
        None \<Rightarrow> None
      | Some (r, sl) \<Rightarrow> if r = ESP_FAIL then None
          else Some (s\<lparr>hy_sl := sl, hy_sent := hy_sent s @ [hd_frame (hc_chk c) flow ib]\<rparr>))"
| "hd_do c n Hd_load s = hd_load s"
| "hd_do c n Hd_tx_done s = map_option (\<lambda>sl. s\<lparr>hy_sl := sl\<rparr>) (spi_hd_tx_done c (hy_sl s))"
| "hd_do c n (Hd_packet rx m) s = Some (s\<lparr>hy_sl := snd (spi_hd_rx_round c True rx m (hy_sl s))\<rparr>)"
| "hd_do c n (Ho_reg ok) s =
     (if hy_pc s \<noteq> Hd_wait \<or> hh_ready (hy_ho s) = 0 then None
      else Some (s\<lparr>hy_ho := (hy_ho s)\<lparr>hh_ready := hh_ready (hy_ho s) - 1\<rparr>,
        hy_pc := (if ok then Hd_got (hs_reg_tx (hy_sl s)) else Hd_wait)\<rparr>))"
| "hd_do c n Ho_cmd9 s =
     (case hy_pc s of
        Hd_got v \<Rightarrow> Some (s\<lparr>hy_sl := cb_cmd9_recv (hy_sl s), hy_pc := Hd_cleared v\<rparr>)
      | _ \<Rightarrow> None)"
| "hd_do c n (Ho_xfer ok) s =
     (case hy_pc s of Hd_cleared v \<Rightarrow> Some (hd_transfer c n ok v s) | _ \<Rightarrow> None)"
| "hd_do c n Ho_wake s = Some (s\<lparr>hy_ho := hd_host_init, hy_pc := Hd_wait\<rparr>)"

fun hd_run :: "hd_cfg \<Rightarrow> nat \<Rightarrow> hd_act list \<Rightarrow> hd_sys \<Rightarrow> hd_sys option" where
  "hd_run c n [] s = Some s"
| "hd_run c n (a # as) s = (case hd_do c n a s of None \<Rightarrow> None | Some t \<Rightarrow> hd_run c n as t)"

definition hd_start :: "hd_cfg \<Rightarrow> byte list \<Rightarrow> hd_sys" where
  "hd_start c ev = \<lparr> hy_sl = the (spi_hd_queue_startup True ev (hd_slave_init c)), hy_ho = hd_host_init,
     hy_pc = Hd_wait, hy_sent = [ev], hy_read = [] \<rparr>"

text \<open>Packets that fit, no host that wakes up, and a bus without errors.\<close>

fun hd_act_ok :: "hd_act \<Rightarrow> bool" where
  "hd_act_ok (Hd_write flow ib) \<longleftrightarrow> length (ib_payload ib) \<le> SPI_HD_MAX_PAYLOAD"
| "hd_act_ok (Hd_packet rx m) \<longleftrightarrow> m = 0 \<or> ps_flag_event (h_flags (get_header rx)) \<noteq> Some ESP_POWER_SAVE_OFF"
| "hd_act_ok (Ho_reg ok) \<longleftrightarrow> ok"
| "hd_act_ok (Ho_xfer ok) \<longleftrightarrow> ok"
| "hd_act_ok Ho_wake \<longleftrightarrow> False"
| "hd_act_ok _ \<longleftrightarrow> True"

lemma hd_run_append: "hd_run c n (as @ bs) s = (case hd_run c n as s of None \<Rightarrow> None | Some t \<Rightarrow> hd_run c n bs t)"
  by (induction as arbitrary: s) (auto split: option.splits)

lemma hd_run_induct:
  assumes step: "\<And>a s t. I s \<Longrightarrow> ok a \<Longrightarrow> hd_do c n a s = Some t \<Longrightarrow> I t"
    and "I s" "list_all ok as" "hd_run c n as s = Some t"
  shows "I t"
  using assms(2-4) by (induction as arbitrary: s) (auto split: option.splits dest: step)

subsection \<open>The counter\<close>

lemma hd_mask: "x AND SPI_HD_TX_BUF_LEN_MASK = take_bit 24 x"
  by (simp add: SPI_HD_TX_BUF_LEN_MASK_def take_bit_eq_mask mask_eq_exp_minus_1)

lemma hd_no_int: "take_bit 24 x AND SPI_HD_INT_MASK = (0 :: u32)"
proof -
  have e: "SPI_HD_INT_MASK = push_bit 24 (3 :: u32)" by (simp add: SPI_HD_INT_MASK_def push_bit_eq_mult)
  show ?thesis unfolding e
    by (rule bit_word_eqI) (auto simp only: bit_and_iff bit_take_bit_iff bit_push_bit_iff bit_0_eq bot_apply bot_bool_def)
qed

text \<open>The difference of the two counts is what was added since, across the wrap of the counter.\<close>

lemma hd_difference:
  fixes r :: u32
  assumes "n < 2 ^ 24"
  shows "unat (take_bit 24 (take_bit 24 (r + word_of_nat n) - r)) = n"
proof -
  have w: "uint (take_bit 24 x) = uint x mod 2 ^ 24" for x :: u32
    unfolding take_bit_eq_mod [where 'a = int, symmetric] by (rule unsigned_take_bit_eq)
  have "uint (take_bit 24 (take_bit 24 (r + word_of_nat n) - r)) = int n mod 2 ^ 24"
    unfolding w uint_word_ariths
    by (simp add: mod_mod_cancel unsigned_of_nat take_bit_eq_mod of_nat_mod mod_simps)
  then show ?thesis using assms by (simp add: unat_eq_nat_uint)
qed

subsection \<open>The invariant of the bus\<close>

definition hd_loaded :: "hd_slave \<Rightarrow> byte list list" where
  "hd_loaded sl = (case hs_dma sl of None \<Rightarrow> [] | Some f \<Rightarrow> [f])"

definition hd_sized :: "byte list \<Rightarrow> bool" where
  "hd_sized f \<longleftrightarrow> HDR \<le> length f \<and> length f \<le> SPI_HD_BUFFER_SIZE"

text \<open>
  What is loaded is announced: the wake-up is pending, or the read task holds the value of the register. The
  register is ahead of the host's count by the frame that is loaded.
\<close>

definition hd_phase :: "hd_sys \<Rightarrow> bool" where
  "hd_phase s \<longleftrightarrow>
     (if hs_dma (hy_sl s) = None then hy_pc s = Hd_wait \<and> hh_ready (hy_ho s) = 0 \<and> \<not> hs_dr (hy_sl s)
      else hy_pc s = Hd_wait \<and> hh_ready (hy_ho s) = 1 \<and> hs_dr (hy_sl s) \<or>
           hy_pc s = Hd_got (hs_tx_len (hy_sl s)) \<and> hh_ready (hy_ho s) = 0 \<and> hs_dr (hy_sl s) \<or>
           hy_pc s = Hd_cleared (hs_tx_len (hy_sl s)) \<and> hh_ready (hy_ho s) = 0 \<and> \<not> hs_dr (hy_sl s))"

definition hd_counts :: "hd_sys \<Rightarrow> bool" where
  "hd_counts s \<longleftrightarrow>
     hs_reg_tx (hy_sl s) = hs_tx_len (hy_sl s) \<and> take_bit 24 (hh_rx_bytes (hy_ho s)) = hh_rx_bytes (hy_ho s) \<and>
     hs_tx_len (hy_sl s) = take_bit 24 (hh_rx_bytes (hy_ho s) + word_of_nat (length (concat (hd_loaded (hy_sl s)))))"

definition hd_inv :: "hd_cfg \<Rightarrow> hd_sys \<Rightarrow> bool" where
  "hd_inv c s \<longleftrightarrow>
     hd_phase s \<and> hd_counts s \<and> list_all hd_sized (hd_loaded (hy_sl s) @ hs_fifo (hy_sl s)) \<and>
     hy_sent s = hy_read s @ hd_loaded (hy_sl s) @ hs_fifo (hy_sl s) \<and>
     hs_tx_sem (hy_sl s) + length (hd_loaded (hy_sl s) @ hs_fifo (hy_sl s)) + hs_done (hy_sl s) = hc_q c"

lemmas hd_inv_defs = hd_inv_def hd_phase_def hd_counts_def hd_loaded_def

lemma length_hd_frame: "length (hd_frame chk flow ib) = HDR + length (ib_payload ib)"
  by (simp add: hd_frame_def Let_def)

lemma hd_frame_sized: "length (ib_payload ib) \<le> SPI_HD_MAX_PAYLOAD \<Longrightarrow> hd_sized (hd_frame chk flow ib)"
  by (simp add: hd_sized_def length_hd_frame SPI_HD_MAX_PAYLOAD_def hd_sizes)

text \<open>A packet from the host leaves the sending side alone, unless it says that the host woke up.\<close>

lemma spi_hd_rx_round_keeps:
  assumes "n = 0 \<or> ps_flag_event (h_flags (get_header rx)) \<noteq> Some ESP_POWER_SAVE_OFF"
  shows "hs_tx_len (snd (spi_hd_rx_round c r rx n s)) = hs_tx_len s"
  using assms
  by (auto simp: spi_hd_rx_round_def spi_hd_read_done_def start_rx_data_throttling_if_needed_def Let_def)

lemma spi_hd_rx_round_same [simp]:
  "hs_reg_tx (snd (spi_hd_rx_round c r rx n s)) = hs_reg_tx s"
  "hs_dr (snd (spi_hd_rx_round c r rx n s)) = hs_dr s"
  "hs_dma (snd (spi_hd_rx_round c r rx n s)) = hs_dma s"
  "hs_fifo (snd (spi_hd_rx_round c r rx n s)) = hs_fifo s"
  "hs_done (snd (spi_hd_rx_round c r rx n s)) = hs_done s"
  "hs_tx_sem (snd (spi_hd_rx_round c r rx n s)) = hs_tx_sem s"
  by (simp_all add: spi_hd_rx_round_def spi_hd_read_done_def start_rx_data_throttling_if_needed_def Let_def)

lemma spi_hd_push_same [simp]:
  "hh_rx_bytes (spi_hd_push_data_to_queue n chk rx h) = hh_rx_bytes h"
  "hh_ready (spi_hd_push_data_to_queue n chk rx h) = hh_ready h"
  by (simp_all add: spi_hd_push_data_to_queue_def update_flow_ctrl_def Let_def split: option.split prod.split)

lemma hd_count_same [simp]:
  "hh_rx_bytes (hd_count_bytes m h) = take_bit 24 (hh_rx_bytes h + word_of_nat m)"
  "hh_ready (hd_count_bytes m h) = hh_ready h"
  by (simp_all add: hd_count_bytes_def hd_mask)

subsection \<open>Every step keeps the invariant\<close>

lemma hd_view_same:
  assumes "hs_dma (hy_sl t) = hs_dma (hy_sl s)" "hs_dr (hy_sl t) = hs_dr (hy_sl s)"
    "hs_tx_len (hy_sl t) = hs_tx_len (hy_sl s)" "hs_reg_tx (hy_sl t) = hs_reg_tx (hy_sl s)"
    "hy_ho t = hy_ho s" "hy_pc t = hy_pc s"
  shows "hd_phase t = hd_phase s" "hd_counts t = hd_counts s" "hd_loaded (hy_sl t) = hd_loaded (hy_sl s)"
  using assms by (simp_all add: hd_phase_def hd_counts_def hd_loaded_def)

lemma hd_write_does:
  assumes "hd_do c n (Hd_write flow ib) s = Some t"
  shows "0 < hs_tx_sem (hy_sl s) \<and> t = s\<lparr>hy_sl := (hy_sl s)\<lparr>hs_tx_sem := hs_tx_sem (hy_sl s) - 1,
      hs_fifo := hs_fifo (hy_sl s) @ [hd_frame (hc_chk c) flow ib]\<rparr>,
    hy_sent := hy_sent s @ [hd_frame (hc_chk c) flow ib]\<rparr>"
  using assms by (simp add: esp_spi_hd_write_def Let_def ESP_FAIL_def split: if_splits)

lemma hd_write_inv:
  assumes i: "hd_inv c s" and ok: "hd_act_ok (Hd_write flow ib)" and d: "hd_do c n (Hd_write flow ib) s = Some t"
  shows "hd_inv c t"
  using i hd_write_does [OF d] hd_frame_sized [of ib "hc_chk c" flow] ok hd_view_same [of t s]
  by (simp add: hd_inv_def)

lemma hd_cb_same [simp]:
  "hs_dma (cb_tx_ready k sl) = hs_dma sl" "hs_fifo (cb_tx_ready k sl) = hs_fifo sl" "hs_dr (cb_tx_ready k sl)"
  "hs_dma (cb_cmd9_recv sl) = hs_dma sl" "hs_fifo (cb_cmd9_recv sl) = hs_fifo sl" "\<not> hs_dr (cb_cmd9_recv sl)"
  by (simp_all add: cb_tx_ready_def cb_cmd9_recv_def Let_def)

lemma hd_load_inv:
  assumes i: "hd_inv c s" and d: "hd_load s = Some t"
  shows "hd_inv c t"
proof -
  obtain f fs where f: "hs_dma (hy_sl s) = None" "hs_fifo (hy_sl s) = f # fs"
    and t: "t = s\<lparr>hy_sl := cb_tx_ready (length f) ((hy_sl s)\<lparr>hs_dma := Some f, hs_fifo := fs\<rparr>),
          hy_ho := (if hs_dr (hy_sl s) then hy_ho s else hd_dr_isr (hy_ho s))\<rparr>"
    using d by (auto simp: hd_load_def split: option.splits list.splits)
  have l: "hs_tx_len (hy_sl s) = hh_rx_bytes (hy_ho s)" "take_bit 24 (hh_rx_bytes (hy_ho s)) = hh_rx_bytes (hy_ho s)"
    using i f by (auto simp: hd_inv_defs)
  have "hh_rx_bytes (hy_ho s) AND SPI_HD_INT_MASK = 0" using hd_no_int [of "hh_rx_bytes (hy_ho s)"] l by simp
  then show ?thesis using i f l
    by (simp add: t hd_inv_defs cb_tx_ready_def hd_dr_isr_def Let_def hd_mask)
qed

lemma hd_transfer_reads:
  assumes i: "hd_inv c s" and d: "hy_pc s = Hd_cleared v"
  obtains f h where "hs_dma (hy_sl s) = Some f"
    "hd_transfer c n True v s = s\<lparr>hy_sl := (hy_sl s)\<lparr>hs_dma := None, hs_done := Suc (hs_done (hy_sl s))\<rparr>,
       hy_ho := h, hy_pc := Hd_wait, hy_read := hy_read s @ [f]\<rparr>"
    "hh_ready h = 0" "hh_rx_bytes h = take_bit 24 (hh_rx_bytes (hy_ho s) + word_of_nat (length f))"
    "\<not> hs_dr (hy_sl s)"
proof -
  obtain f where f: "hs_dma (hy_sl s) = Some f" and v: "v = hs_tx_len (hy_sl s)"
    and r: "hh_ready (hy_ho s) = 0" "\<not> hs_dr (hy_sl s)"
    using i d by (auto simp: hd_inv_defs split: if_splits)
  have l: "v = take_bit 24 (hh_rx_bytes (hy_ho s) + word_of_nat (length f))"
    and b: "HDR \<le> length f" "length f \<le> SPI_HD_BUFFER_SIZE"
    using i f v by (auto simp: hd_inv_defs hd_sized_def)
  have k: "v AND SPI_HD_INT_MASK = 0" unfolding l by (rule hd_no_int)
  have h: "hd_int_bits v (hy_ho s) = hy_ho s" by (simp add: hd_int_bits_def k Let_def)
  have "length f < 2 ^ 24" using b by (simp add: hd_sizes)
  from hd_difference [OF this, of "hh_rx_bytes (hy_ho s)"]
  have m: "hd_size_to_xfer v (hy_ho s) = length f" by (simp add: hd_size_to_xfer_def hd_mask l)
  have "hd_fetches v (hy_ho s)" using b by (auto simp: hd_fetches_def m hd_sizes)
  then show thesis using that [OF f] by (simp add: hd_transfer_def h m f r Let_def)
qed

lemma hd_transfer_inv:
  assumes i: "hd_inv c s" and d: "hy_pc s = Hd_cleared v"
  shows "hd_inv c (hd_transfer c n True v s)"
  by (rule hd_transfer_reads [OF i d, of n]) (use i in \<open>simp add: hd_inv_defs\<close>)

lemma hd_step_inv:
  assumes i: "hd_inv c s" and ok: "hd_act_ok a" and d: "hd_do c n a s = Some t"
  shows "hd_inv c t"
proof (cases a)
  case (Hd_write flow ib)
  then show ?thesis using hd_write_inv [OF i] ok d by simp
next
  case Hd_load
  then show ?thesis using hd_load_inv [OF i] d by simp
next
  case Hd_tx_done
  then have "0 < hs_done (hy_sl s) \<and> t = s\<lparr>hy_sl := (hy_sl s)\<lparr>hs_done := hs_done (hy_sl s) - 1,
      hs_tx_sem := min (Suc (hs_tx_sem (hy_sl s))) (hc_q c)\<rparr>\<rparr>"
    using d by (auto simp: spi_hd_tx_done_def split: if_splits)
  then show ?thesis using i hd_view_same [of t s] by (simp add: hd_inv_def)
next
  case (Hd_packet rx m)
  then have "t = s\<lparr>hy_sl := snd (spi_hd_rx_round c True rx m (hy_sl s))\<rparr>" using d by simp
  then show ?thesis using i ok Hd_packet hd_view_same [of t s] spi_hd_rx_round_keeps [of m rx c True "hy_sl s"]
    by (simp add: hd_inv_def)
next
  case (Ho_reg k)
  then show ?thesis using i d ok by (auto simp: hd_inv_defs split: if_splits option.splits)
next
  case Ho_cmd9
  have "take_bit 24 (hs_tx_len (hy_sl s)) = hs_tx_len (hy_sl s)" using i by (simp add: hd_inv_defs)
  then show ?thesis using i d Ho_cmd9
    by (auto simp: hd_inv_defs cb_cmd9_recv_def hd_mask split: if_splits option.splits hd_pc.splits)
next
  case (Ho_xfer k)
  then show ?thesis using d ok hd_transfer_inv [OF i] by (auto split: hd_pc.splits)
next
  case Ho_wake
  then show ?thesis using ok by simp
qed

lemma hd_start_inv: "0 < hc_q c \<Longrightarrow> hd_sized ev \<Longrightarrow> hd_inv c (hd_start c ev)"
  by (simp add: hd_inv_defs hd_start_def spi_hd_queue_startup_def hd_slave_init_def hd_host_init_def)

lemma hd_run_inv:
  assumes "0 < hc_q c" "hd_sized ev" "list_all hd_act_ok as" "hd_run c n as (hd_start c ev) = Some s"
  shows "hd_inv c s"
  by (rule hd_run_induct [where I = "hd_inv c" and ok = hd_act_ok, OF hd_step_inv hd_start_inv])
    (use assms in auto)

text \<open>When nothing is left to do between the peripheral driver and the read task, nothing is in flight.\<close>

lemma hd_inv_quiet:
  assumes i: "hd_inv c s" and q: "\<forall>a \<in> {Hd_load, Ho_reg True, Ho_cmd9, Ho_xfer True}. hd_do c n a s = None"
  shows "hs_dma (hy_sl s) = None \<and> hs_fifo (hy_sl s) = []"
proof -
  have d: "hs_dma (hy_sl s) = None"
  proof (rule ccontr)
    assume "hs_dma (hy_sl s) \<noteq> None"
    then show False using i q by (auto simp: hd_inv_def hd_phase_def)
  qed
  then show ?thesis using q by (auto simp: hd_load_def split: list.splits)
qed

subsection \<open>A receive path that has lost its wake-up\<close>

definition hd_stuck :: "hd_sys \<Rightarrow> bool" where
  "hd_stuck s \<longleftrightarrow> hs_dma (hy_sl s) \<noteq> None \<and> hh_ready (hy_ho s) = 0 \<and> hy_pc s = Hd_wait"

lemma hd_stuck_step:
  assumes "hd_stuck s" "hd_do c n a s = Some t"
  shows "hd_stuck t \<and> hy_read t = hy_read s"
proof (cases a)
  case (Hd_write flow ib)
  then show ?thesis using assms hd_write_does [of c n flow ib s t] by (simp add: hd_stuck_def)
next
  case Hd_load
  then show ?thesis using assms by (auto simp: hd_stuck_def hd_load_def)
next
  case Hd_tx_done
  then show ?thesis using assms by (auto simp: hd_stuck_def spi_hd_tx_done_def split: if_splits)
next
  case (Hd_packet rx m)
  then show ?thesis using assms by (auto simp: hd_stuck_def)
qed (use assms in \<open>auto simp: hd_stuck_def hd_host_init_def\<close>)

lemma hd_stuck_run:
  assumes "hd_stuck s" "hd_run c n as s = Some t"
  shows "hd_stuck t \<and> hy_read t = hy_read s"
  using assms by (induction as arbitrary: s) (fastforce split: option.splits dest: hd_stuck_step)+

text \<open>A frame longer than the host's buffer, whose length the co-processor does not check, is never fetched.\<close>

lemma hd_long_frame_stuck:
  assumes "hd_counts s" "hs_dma (hy_sl s) = Some f" "hh_ready (hy_ho s) = 0" "hy_pc s = Hd_cleared (hs_tx_len (hy_sl s))"
    "SPI_HD_BUFFER_SIZE < length f" "length f < 2 ^ 24"
  shows "hd_stuck (hd_transfer c n ok (hs_tx_len (hy_sl s)) s)"
proof -
  let ?v = "hs_tx_len (hy_sl s)"
  have l: "?v = take_bit 24 (hh_rx_bytes (hy_ho s) + word_of_nat (length f))"
    using assms(1,2) by (simp add: hd_counts_def hd_loaded_def)
  have h: "hd_int_bits ?v (hy_ho s) = hy_ho s" using hd_no_int l by (simp add: hd_int_bits_def Let_def)
  have "hd_size_to_xfer ?v (hy_ho s) = length f"
    using hd_difference [OF assms(6), of "hh_rx_bytes (hy_ho s)"] by (simp add: hd_size_to_xfer_def hd_mask l)
  then show ?thesis using assms by (simp add: hd_transfer_def h hd_fetches_def hd_stuck_def Let_def)
qed

subsection \<open>A frame at the host\<close>

definition hd_header :: "bool \<Rightarrow> u8 \<Rightarrow> ibuf \<Rightarrow> esp_payload_header" where
  "hd_header chk flow ib =
     (let h = \<lparr> h_if_type = ib_if_type ib, h_if_num = ib_if_num ib, h_flags = ib_flag ib,
            h_len = word_of_nat (length (ib_payload ib)), h_offset = word_of_nat HDR, h_checksum = 0,
            h_seq_num = ib_seq ib, h_throttle_cmd = flow, h_pkt_type = 0 \<rparr>
      in if chk then h\<lparr>h_checksum := checksum_from 0 (put_header h @ ib_payload ib)\<rparr> else h)"

lemma hd_frame_header: "hd_frame chk flow ib = put_header (hd_header chk flow ib) @ ib_payload ib"
  by (simp add: hd_frame_def hd_header_def Let_def compute_checksum_def)

lemma hd_frame_read:
  assumes "ib_if_type ib < 16" "ib_if_num ib < 16" "flow < 4"
  shows "get_header (hd_frame chk flow ib @ pad) = hd_header chk flow ib"
  using assms by (simp add: hd_frame_header get_put_header hd_header_def Let_def)

lemma hd_frame_valid:
  assumes "ib_if_type ib < 16" "ib_if_num ib < 16" "flow < 4" "0 < length (ib_payload ib)"
    "length (ib_payload ib) \<le> SPI_HD_MAX_PAYLOAD"
  shows "is_valid_spi_hd_rx_packet chk (hd_frame chk flow ib @ pad) = Some (length (ib_payload ib), HDR)"
proof -
  have n: "unat (word_of_nat (length (ib_payload ib)) :: u16) = length (ib_payload ib)"
    using assms(5) by (simp add: SPI_HD_MAX_PAYLOAD_def hd_sizes unsigned_of_nat take_bit_nat_eq_self)
  have o: "unat (word_of_nat HDR :: u16) = HDR" by (simp add: HDR_def)
  show ?thesis
    using assms n o hd_frame_read [OF assms(1-3), of chk pad]
    by (auto simp: is_valid_spi_hd_rx_packet_def hd_frame_header hd_header_def Let_def compute_checksum_def)
qed

subsection \<open>What holds of the half-duplex bus\<close>



text \<open>C24: One failed read of the length register ends reception on the half-duplex bus for good: the wake-up is
  spent, command 9 is not sent, so the data-ready line stays up and never rises again. Whatever happens then,
  nothing more is read, though a frame is loaded.\<close>

theorem spi_hd_receive_path_lost:
  assumes "0 < hc_q c" "hd_sized ev" "list_all hd_act_ok as" "hd_run c n as (hd_start c ev) = Some s"
    "hd_do c n (Ho_reg False) s = Some s'" "hd_run c n bs s' = Some t"
  shows "hy_read t = hy_read s \<and> hs_dma (hy_sl t) \<noteq> None \<and> hd_do c n (Ho_reg True) t = None"
proof -
  have "hd_inv c s" using assms(1-4) by (rule hd_run_inv)
  then have "hd_stuck s' \<and> hy_read s' = hy_read s"
    using assms(5) by (auto simp: hd_inv_def hd_phase_def hd_stuck_def split: if_splits)
  then show ?thesis using hd_stuck_run [OF _ assms(6)] by (auto simp: hd_stuck_def)
qed

theorem spi_hd_receive_path_lost_witness:
  "\<exists>t. hd_run \<lparr>hc_high = 0, hc_low = 0, hc_q = 2, hc_chk = False\<rparr> 1 [Hd_load, Ho_reg False, Ho_wake]
       (hd_start \<lparr>hc_high = 0, hc_low = 0, hc_q = 2, hc_chk = False\<rparr> (replicate 12 0)) = Some t \<and>
     hy_read t = [] \<and> hs_dma (hy_sl t) \<noteq> None"
proof -
  let ?c = "\<lparr>hc_high = 0, hc_low = 0, hc_q = 2, hc_chk = False\<rparr>"
  let ?ev = "replicate 12 (0 :: byte)"
  obtain s where s: "hd_run ?c 1 [Hd_load] (hd_start ?c ?ev) = Some s" "hy_read s = []"
      "hy_pc s = Hd_wait" "hh_ready (hy_ho s) = 1"
    by (simp add: hd_start_def spi_hd_queue_startup_def hd_slave_init_def hd_host_init_def hd_load_def hd_dr_isr_def)
  then obtain s' t where e: "hd_do ?c 1 (Ho_reg False) s = Some s'" "hd_run ?c 1 [Ho_wake] s' = Some t" by simp
  have "hd_sized ?ev" by (simp add: hd_sized_def hd_sizes)
  then have "hy_read t = [] \<and> hs_dma (hy_sl t) \<noteq> None"
    using spi_hd_receive_path_lost [OF _ _ _ s(1) e] s by simp
  then show ?thesis using s e hd_run_append [of ?c 1 "[Hd_load]" "[Ho_reg False, Ho_wake]"] by simp
qed

text \<open>A packet that the co-processor frames for the half-duplex bus is queued by the host with every field
  as it was, whatever follows in the receive buffer, and one that carries a flow control command switches
  throttling as it says and is not queued.\<close>

theorem spi_hd_packet_reaches_host:
  assumes "ib_if_type ib < 16" "ib_if_num ib < 16" "flow < 4" "flow = 0 \<Longrightarrow> ib_payload ib \<noteq> []"
    "length (ib_payload ib) \<le> SPI_HD_MAX_PAYLOAD"
  shows "spi_hd_push_data_to_queue n chk (hd_frame chk flow ib @ pad) h =
     (if flow = 0 then h\<lparr>hh_rx_q := pq_put (prio_of (ib_if_type ib)) (ib\<lparr>ib_zcopy := False\<rparr>) (hh_rx_q h),
        hh_rx_sem := min (Suc (hh_rx_sem h)) (3 * n)\<rparr>
      else if flow = H_FLOW_CTRL_ON then h\<lparr>hh_throttle := True\<rparr>
      else if flow = H_FLOW_CTRL_OFF then h\<lparr>hh_throttle := False\<rparr> else h)"
proof -
  note g = hd_frame_read [OF assms(1-3), of chk pad]
  have t: "h_throttle_cmd (hd_header chk flow ib) = flow" by (simp add: hd_header_def Let_def)
  show ?thesis
  proof (cases "flow = 0")
    case True
    have q: "sdio_push_pkt_to_queue (hd_frame chk 0 ib @ pad) (length (ib_payload ib)) HDR =
        (prio_of (ib_if_type ib), ib\<lparr>ib_zcopy := False\<rparr>)"
      using g True by (simp add: sdio_push_pkt_to_queue_def hd_frame_header hd_header_def Let_def)
    show ?thesis using True g t q hd_frame_valid [OF assms(1-3) _ assms(5), of chk pad] assms(4)
      by (simp add: spi_hd_push_data_to_queue_def update_flow_ctrl_def)
  next
    case False
    then show ?thesis using g t by (auto simp: spi_hd_push_data_to_queue_def update_flow_ctrl_def Let_def)
  qed
qed

theorem spi_hd_packet_reaches_host_witness:
  "spi_hd_push_data_to_queue 20 True (hd_frame True 0 \<lparr> ib_if_type = ESP_STA_IF, ib_if_num = 0, ib_flag = 0,
       ib_seq = 7, ib_payload = [1, 2, 3], ib_zcopy = True \<rparr> @ [9, 9]) hd_host_init =
     hd_host_init\<lparr>hh_rx_q := pq_put (prio_of ESP_STA_IF) \<lparr> ib_if_type = ESP_STA_IF, ib_if_num = 0, ib_flag = 0,
         ib_seq = 7, ib_payload = [1, 2, 3], ib_zcopy = False \<rparr> pq_empty, hh_rx_sem := 1\<rparr>"
  using spi_hd_packet_reaches_host [of "\<lparr> ib_if_type = ESP_STA_IF, ib_if_num = 0, ib_flag = 0,
       ib_seq = 7, ib_payload = [1, 2, 3], ib_zcopy = True \<rparr>" 0 20 True "[9, 9]" hd_host_init]
  by (simp add: ESP_STA_IF_def SPI_HD_MAX_PAYLOAD_def hd_sizes hd_host_init_def)

end
