(* ===== verification/Sdio_Slave.thy ===== *)
theory Sdio_Slave
  imports Host_Power Prio_Queue
begin

section \<open>The SDIO driver of the co-processor (sdio_slave_api.c)\<close>

text \<open>
  The frames are those of \<open>Transport_Frame\<close>; here are the buffers around them: the semaphore that counts free
  slots of the peripheral's send queue, the receive buffers registered with the peripheral driver of ESP-IDF, the
  queues of received packets, throttling, and the life of the driver from \<open>sdio_init\<close> to \<open>sdio_deinit\<close>, which
  a build with \<open>H_PS_UNLOAD_BUS_WHILE_PS\<close> runs through each time the host sleeps. The build is the one without
  \<open>SIMPLIFIED_SDIO_SLAVE\<close>.
\<close>

subsection \<open>State\<close>

text \<open>\<open>SDIO_DRIVER_TX_QUEUE_SIZE\<close>, \<open>SDIO_NUM_RX_BUFFERS\<close>, the checksum, the thresholds and the unloading.\<close>

record sdio_cfg =
  sdc_txq :: nat
  sdc_rxn :: nat
  sdc_chk :: bool
  sdc_high :: nat
  sdc_low :: nat
  sdc_unload :: bool

text \<open>
  \<open>sdv_handles\<close> is \<open>sdio_rx_buf_handles\<close>. Handles are numbers, given out in order by the peripheral driver, whose
  registered ones are \<open>sdv_reg\<close> and whose loaded ones \<open>sdv_loaded\<close>; \<open>sdv_sending\<close> and \<open>sdv_finished\<close> are its
  queues of buffers to send and sent. \<open>sdv_held\<close> are the buffers that the reader has not given back.
\<close>

record sdio_sl =
  sdv_state :: if_state
  sdv_made :: bool
  sdv_next :: nat
  sdv_handles :: "nat option list"
  sdv_reg :: "nat list"
  sdv_loaded :: "nat list"
  sdv_rx_q :: "(nat \<times> ibuf) pq"
  sdv_rx_sem :: nat
  sdv_held :: "nat list"
  sdv_tx_sem :: nat
  sdv_sending :: "byte list list"
  sdv_finished :: "byte list list"
  sdv_rx_task :: bool
  sdv_tx_task :: bool
  sdv_throttling :: bool
  sdv_ints :: "nat list"

definition sdio_boot :: "sdio_cfg \<Rightarrow> sdio_sl" where
  "sdio_boot c = \<lparr> sdv_state = DEINIT, sdv_made = False, sdv_next = 0, sdv_handles = replicate (sdc_rxn c) None,
     sdv_reg = [], sdv_loaded = [], sdv_rx_q = pq_empty, sdv_rx_sem = 0, sdv_held = [], sdv_tx_sem = 0,
     sdv_sending = [], sdv_finished = [], sdv_rx_task = False, sdv_tx_task = False, sdv_throttling = False,
     sdv_ints = [] \<rparr>"

subsection \<open>Throttling\<close>

definition HOST_INT_START_THROTTLE :: nat where "HOST_INT_START_THROTTLE = 7"
definition HOST_INT_STOP_THROTTLE :: nat where "HOST_INT_STOP_THROTTLE = 6"

definition sdio_load_percent :: "sdio_cfg \<Rightarrow> sdio_sl \<Rightarrow> nat" where
  "sdio_load_percent c s = length (pq_others (sdv_rx_q s)) * 100 div sdc_rxn c mod 256"

definition sdio_start_throttling :: "sdio_cfg \<Rightarrow> sdio_sl \<Rightarrow> sdio_sl" where
  "sdio_start_throttling c s =
     (if 0 < sdc_high c \<and> \<not> sdv_throttling s \<and> sdc_high c < sdio_load_percent c s
      then s\<lparr>sdv_throttling := True, sdv_ints := sdv_ints s @ [HOST_INT_START_THROTTLE]\<rparr> else s)"

definition sdio_stop_throttling :: "sdio_cfg \<Rightarrow> sdio_sl \<Rightarrow> sdio_sl" where
  "sdio_stop_throttling c s =
     (if sdv_throttling s \<and> sdio_load_percent c s < sdc_low c
      then s\<lparr>sdv_throttling := False, sdv_ints := sdv_ints s @ [HOST_INT_STOP_THROTTLE]\<rparr> else s)"

subsection \<open>Set-up and removal\<close>

text \<open>
  \<open>sdio_init\<close>: whether it returns the handle. \<open>drv\<close> and \<open>start\<close> say whether the peripheral driver is
  initialised and started, \<open>bad\<close> which buffer it refuses to load. The semaphores and queues are made once.
\<close>

definition sdio_init :: "sdio_cfg \<Rightarrow> bool \<Rightarrow> nat option \<Rightarrow> bool \<Rightarrow> sdio_sl \<Rightarrow> bool \<times> sdio_sl" where
  "sdio_init c drv bad start s =
     (if sdv_state s \<noteq> DEINIT then (True, s)
      else
       (let s1 = (if sdv_made s then s else s\<lparr>sdv_tx_sem := sdc_txq c, sdv_rx_sem := 0, sdv_rx_q := pq_empty\<rparr>);
            hs = [sdv_next s ..< sdv_next s + sdc_rxn c]
        in if \<not> drv then (False, s1)
           else (case bad of
              Some i \<Rightarrow> (False, s1\<lparr>sdv_handles := map Some (take (Suc i) hs) @ drop (Suc i) (sdv_handles s1),
                  sdv_next := sdv_next s + sdc_rxn c\<rparr>)
            | None \<Rightarrow>
               (let s2 = s1\<lparr>sdv_handles := map Some hs, sdv_next := sdv_next s + sdc_rxn c\<rparr> in
                if \<not> start then (False, s2)
                else (True, s2\<lparr>sdv_reg := hs, sdv_loaded := hs, sdv_sending := [], sdv_finished := [],
                    sdv_made := True, sdv_state := ACTIVE, sdv_rx_task := True, sdv_tx_task := True\<rparr>)))))"

text \<open>
  The loop of \<open>sdio_deinit\<close> over \<open>sdio_slave_send_get_finished\<close>, with what each call returns: how many
  buffers come back in \<open>retry\<close> calls.
\<close>

datatype sdio_fin = Fin_buffer | Fin_timeout | Fin_error

fun sdio_reclaim :: "nat \<Rightarrow> sdio_fin list \<Rightarrow> nat" where
  "sdio_reclaim 0 fs = 0"
| "sdio_reclaim (Suc retry) (Fin_buffer # fs) = Suc (sdio_reclaim retry fs)"
| "sdio_reclaim (Suc retry) (Fin_timeout # fs) = sdio_reclaim retry fs"
| "sdio_reclaim (Suc retry) (Fin_error # fs) = 0"
| "sdio_reclaim (Suc retry) [] = 0"

text \<open>\<open>sdio_deinit\<close>. The queues of received packets and their semaphore are left as they are.\<close>

definition sdio_deinit :: "sdio_cfg \<Rightarrow> sdio_fin list \<Rightarrow> sdio_sl \<Rightarrow> sdio_sl" where
  "sdio_deinit c fs s =
     (if \<not> sdc_unload c \<or> sdv_state s = DEINIT then s
      else s\<lparr>sdv_rx_task := False, sdv_tx_task := False, sdv_handles := map (\<lambda>_. None) (sdv_handles s),
         sdv_tx_sem := min (sdv_tx_sem s + sdio_reclaim 3 fs) (sdc_txq c), sdv_reg := [], sdv_loaded := [],
         sdv_sending := [], sdv_finished := [], sdv_state := DEINIT\<rparr>)"

text \<open>
  \<open>sdio_reset\<close>, which nothing calls: \<open>reset\<close> and \<open>start\<close> are what the peripheral driver returns.
\<close>

definition sdio_reset :: "esp_err \<Rightarrow> esp_err \<Rightarrow> sdio_sl \<Rightarrow> esp_err \<times> sdio_sl" where
  "sdio_reset reset start s =
     (if sdv_state s \<noteq> DEINIT then (ESP_OK, s\<lparr>sdv_state := DEACTIVE\<rparr>)
      else if reset \<noteq> ESP_OK then (reset, s)
      else if start \<noteq> ESP_OK then (start, s)
      else (ESP_OK, s\<lparr>sdv_state := ACTIVE\<rparr>))"

subsection \<open>Sending\<close>

text \<open>
  \<open>sdio_write\<close> with the semaphore of the send queue; \<open>None\<close> waits. \<open>queued\<close> is the outcome of
  \<open>sdio_slave_send_queue\<close>.
\<close>

definition sdio_write_queue ::
  "sdio_cfg \<Rightarrow> bool \<Rightarrow> bool \<Rightarrow> bool \<Rightarrow> bool \<Rightarrow> ibuf \<Rightarrow> sdio_sl \<Rightarrow> (int \<times> sdio_sl) option" where
  "sdio_write_queue c sleeping null alloc queued ib s =
     (case sdio_write (sdc_chk c) (sdv_state s = ACTIVE) sleeping null alloc True ib of
        (r, None) \<Rightarrow> Some (r, s)
      | (r, Some f) \<Rightarrow>
          if sdv_tx_sem s = 0 then None
          else if \<not> queued then Some (ESP_FAIL, s)
          else Some (r, s\<lparr>sdv_tx_sem := sdv_tx_sem s - 1, sdv_sending := sdv_sending s @ [f]\<rparr>))"

text \<open>The end of \<open>generate_startup_event\<close>: when the event is not queued, the semaphore is not given back.\<close>

definition sdio_queue_startup :: "bool \<Rightarrow> byte list \<Rightarrow> sdio_sl \<Rightarrow> sdio_sl option" where
  "sdio_queue_startup queued ev s =
     (if sdv_tx_sem s = 0 then None
      else
       (let s1 = s\<lparr>sdv_tx_sem := sdv_tx_sem s - 1\<rparr> in
        Some (if queued then s1\<lparr>sdv_sending := sdv_sending s1 @ [ev]\<rparr> else s1)))"

text \<open>A round of \<open>sdio_tx_done_task\<close>.\<close>

definition sdio_tx_done :: "sdio_cfg \<Rightarrow> sdio_sl \<Rightarrow> sdio_sl option" where
  "sdio_tx_done c s =
     (case sdv_finished s of
        f # fs \<Rightarrow> if sdv_state s = DEINIT \<or> \<not> sdv_tx_task s then None
          else Some (s\<lparr>sdv_finished := fs, sdv_tx_sem := min (Suc (sdv_tx_sem s)) (sdc_txq c)\<rparr>)
      | [] \<Rightarrow> None)"

subsection \<open>Receiving\<close>

text \<open>\<open>sdio_read_done\<close>; \<open>None\<close> is the use of a handle that the peripheral driver has freed.\<close>

definition sdio_read_done :: "nat \<Rightarrow> sdio_sl \<Rightarrow> sdio_sl option" where
  "sdio_read_done h s = (if h \<in> set (sdv_reg s) then Some (s\<lparr>sdv_loaded := sdv_loaded s @ [h]\<rparr>) else None)"

text \<open>
  A round of \<open>sdio_rx_task\<close> on the buffer \<open>h\<close> with \<open>n\<close> bytes of \<open>rx\<close>. \<open>None\<close> waits for a place in a queue.
\<close>

definition sdio_rx_round ::
  "sdio_cfg \<Rightarrow> nat \<Rightarrow> byte list \<Rightarrow> nat \<Rightarrow> sdio_sl \<Rightarrow> (ps_event option \<times> sdio_sl) option" where
  "sdio_rx_round c h rx n s =
     (case sdio_rx_step (sdc_chk c) rx n of
        (e, None) \<Rightarrow> Some (e, s\<lparr>sdv_loaded := sdv_loaded s @ [h]\<rparr>)
      | (e, Some (k, ib)) \<Rightarrow>
         (let s1 = sdio_start_throttling c s in
          if sdc_rxn c \<le> length (pq_get k (sdv_rx_q s1)) then None
          else Some (e, s1\<lparr>sdv_rx_q := pq_put k (h, ib) (sdv_rx_q s1),
              sdv_rx_sem := min (Suc (sdv_rx_sem s1)) (3 * sdc_rxn c)\<rparr>)))"

text \<open>\<open>sdio_read\<close>: \<open>None\<close> waits.\<close>

definition sdio_read :: "sdio_cfg \<Rightarrow> sdio_sl \<Rightarrow> (int \<times> (nat \<times> ibuf) option \<times> sdio_sl) option" where
  "sdio_read c s =
     (if sdv_state s = DEINIT then Some (ESP_FAIL, None, s)
      else if sdv_rx_sem s = 0 then None
      else
       (let s1 = s\<lparr>sdv_rx_sem := sdv_rx_sem s - 1\<rparr> in
        case pq_take (sdv_rx_q s1) of
          None \<Rightarrow> Some (ESP_FAIL, None, s1)
        | Some ((h, ib), q) \<Rightarrow> Some (int (length (ib_payload ib)), Some (h, ib), sdio_stop_throttling c (s1\<lparr>sdv_rx_q := q\<rparr>))))"

subsection \<open>Runs of the driver\<close>

text \<open>
  Writers, readers, both tasks, the peripheral driver, the life of the driver and the data path switch of
  \<open>event_handler\<close> in any order. \<open>Sd_recv rx n\<close> is a packet that the host wrote into the first loaded buffer,
  \<open>Sd_sent\<close> the fetch of the first buffer to send, \<open>Sd_deinit fs\<close> a removal that gets back no more than is there.
\<close>

datatype sdio_act =
  Sd_init bool "nat option" bool | Sd_deinit "sdio_fin list" | Sd_open | Sd_close
| Sd_write bool bool bool bool ibuf | Sd_startup bool "byte list" | Sd_sent | Sd_done
| Sd_recv "byte list" nat | Sd_read | Sd_give_back nat

datatype sdio_out = Sd_to sdio_sl | Sd_wait | Sd_crash

fun sdio_do :: "sdio_cfg \<Rightarrow> sdio_act \<Rightarrow> sdio_sl \<Rightarrow> sdio_out" where
  "sdio_do c (Sd_init drv bad start) s = Sd_to (snd (sdio_init c drv bad start s))"
| "sdio_do c (Sd_deinit fs) s =
     (if length (filter ((=) Fin_buffer) fs) \<le> length (sdv_sending s) + length (sdv_finished s)
      then Sd_to (sdio_deinit c fs s) else Sd_wait)"
| "sdio_do c Sd_open s = (if sdv_state s = DEINIT then Sd_wait else Sd_to (s\<lparr>sdv_state := ACTIVE\<rparr>))"
| "sdio_do c Sd_close s = Sd_to (if sdv_state s = ACTIVE then s\<lparr>sdv_state := DEACTIVE\<rparr> else s)"
| "sdio_do c (Sd_write sleeping null alloc queued ib) s =
     (case sdio_write_queue c sleeping null alloc queued ib s of None \<Rightarrow> Sd_wait | Some (r, t) \<Rightarrow> Sd_to t)"
| "sdio_do c (Sd_startup queued ev) s =
     (if sdv_state s = DEINIT then Sd_wait
      else case sdio_queue_startup queued ev s of None \<Rightarrow> Sd_wait | Some t \<Rightarrow> Sd_to t)"
| "sdio_do c Sd_sent s =
     (case sdv_sending s of f # fs \<Rightarrow> Sd_to (s\<lparr>sdv_sending := fs, sdv_finished := sdv_finished s @ [f]\<rparr>) | [] \<Rightarrow> Sd_wait)"
| "sdio_do c Sd_done s = (case sdio_tx_done c s of None \<Rightarrow> Sd_wait | Some t \<Rightarrow> Sd_to t)"
| "sdio_do c (Sd_recv rx n) s =
     (case sdv_loaded s of
        [] \<Rightarrow> Sd_wait
      | h # hs \<Rightarrow>
          if sdv_state s = DEINIT \<or> \<not> sdv_rx_task s then Sd_wait
          else case sdio_rx_round c h rx n (s\<lparr>sdv_loaded := hs\<rparr>) of None \<Rightarrow> Sd_wait | Some (e, t) \<Rightarrow> Sd_to t)"
| "sdio_do c Sd_read s =
     (case sdio_read c s of
        None \<Rightarrow> Sd_wait
      | Some (r, None, t) \<Rightarrow> Sd_to t
      | Some (r, Some (h, ib), t) \<Rightarrow> Sd_to (t\<lparr>sdv_held := h # sdv_held t\<rparr>))"
| "sdio_do c (Sd_give_back h) s =
     (if h \<notin> set (sdv_held s) then Sd_wait
      else case sdio_read_done h (s\<lparr>sdv_held := remove1 h (sdv_held s)\<rparr>) of None \<Rightarrow> Sd_crash | Some t \<Rightarrow> Sd_to t)"

fun sdio_run :: "sdio_cfg \<Rightarrow> sdio_act list \<Rightarrow> sdio_sl \<Rightarrow> sdio_out" where
  "sdio_run c [] s = Sd_to s"
| "sdio_run c (a # as) s = (case sdio_do c a s of Sd_to t \<Rightarrow> sdio_run c as t | r \<Rightarrow> r)"

lemma sdio_run_append: "sdio_run c (as @ bs) s = (case sdio_run c as s of Sd_to t \<Rightarrow> sdio_run c bs t | r \<Rightarrow> r)"
  by (induction as arbitrary: s) (auto split: sdio_out.splits)

lemma sdio_run_induct:
  assumes step: "\<And>a s t. I s \<Longrightarrow> ok a \<Longrightarrow> sdio_do c a s = Sd_to t \<Longrightarrow> I t"
    and "I s" "list_all ok as" "sdio_run c as s = Sd_to t"
  shows "I t"
  using assms(2-4) by (induction as arbitrary: s) (auto split: sdio_out.splits dest: step)

subsection \<open>The receive buffers\<close>

text \<open>Where the buffers are: loaded, queued for the reader, or with the reader.\<close>

definition sdio_places :: "sdio_sl \<Rightarrow> nat multiset" where
  "sdio_places s = mset (sdv_loaded s) + image_mset fst (mset (pq_items (sdv_rx_q s))) + mset (sdv_held s)"

definition sdio_inv :: "sdio_cfg \<Rightarrow> sdio_sl \<Rightarrow> bool" where
  "sdio_inv c s \<longleftrightarrow>
     (if sdv_state s = DEINIT then sdio_places s = {#} \<and> sdv_reg s = [] \<and> \<not> sdv_made s
      else sdio_places s = mset (sdv_reg s) \<and> distinct (sdv_reg s) \<and> length (sdv_reg s) = sdc_rxn c \<and>
        sdv_tx_sem s + length (sdv_sending s) + length (sdv_finished s) = sdc_txq c \<and>
        sdv_rx_sem s = length (pq_items (sdv_rx_q s)) \<and> sdv_rx_task s)"

fun sdio_act_ok :: "sdio_act \<Rightarrow> bool" where
  "sdio_act_ok (Sd_startup queued ev) \<longleftrightarrow> queued"
| "sdio_act_ok _ \<longleftrightarrow> True"

lemma sdio_throttling_same [simp]:
  "sdv_state (sdio_start_throttling c s) = sdv_state s" "sdv_state (sdio_stop_throttling c s) = sdv_state s"
  "sdv_reg (sdio_start_throttling c s) = sdv_reg s" "sdv_reg (sdio_stop_throttling c s) = sdv_reg s"
  "sdv_next (sdio_start_throttling c s) = sdv_next s" "sdv_next (sdio_stop_throttling c s) = sdv_next s"
  "sdv_made (sdio_start_throttling c s) = sdv_made s" "sdv_made (sdio_stop_throttling c s) = sdv_made s"
  "sdv_loaded (sdio_start_throttling c s) = sdv_loaded s" "sdv_loaded (sdio_stop_throttling c s) = sdv_loaded s"
  "sdv_held (sdio_start_throttling c s) = sdv_held s" "sdv_held (sdio_stop_throttling c s) = sdv_held s"
  "sdv_rx_q (sdio_start_throttling c s) = sdv_rx_q s" "sdv_rx_q (sdio_stop_throttling c s) = sdv_rx_q s"
  "sdv_rx_sem (sdio_start_throttling c s) = sdv_rx_sem s" "sdv_rx_sem (sdio_stop_throttling c s) = sdv_rx_sem s"
  "sdv_tx_sem (sdio_start_throttling c s) = sdv_tx_sem s" "sdv_tx_sem (sdio_stop_throttling c s) = sdv_tx_sem s"
  "sdv_sending (sdio_start_throttling c s) = sdv_sending s" "sdv_sending (sdio_stop_throttling c s) = sdv_sending s"
  "sdv_rx_task (sdio_start_throttling c s) = sdv_rx_task s" "sdv_rx_task (sdio_stop_throttling c s) = sdv_rx_task s"
  "sdv_finished (sdio_start_throttling c s) = sdv_finished s" "sdv_finished (sdio_stop_throttling c s) = sdv_finished s"
  by (simp_all add: sdio_start_throttling_def sdio_stop_throttling_def)

lemma sdio_boot_inv: "sdio_inv c (sdio_boot c)"
  by (simp add: sdio_inv_def sdio_boot_def sdio_places_def)

lemma sdio_init_inv:
  assumes "sdio_inv c s"
  shows "sdio_inv c (snd (sdio_init c drv bad start s))"
  using assms
  by (auto simp: sdio_init_def sdio_inv_def sdio_places_def Let_def split: option.splits)

text \<open>A queue that is full holds every buffer, so none is loaded: the receive task never waits for a place.\<close>

lemma sdio_queue_room:
  assumes "sdio_inv c s" "sdv_state s \<noteq> DEINIT" "sdv_loaded s = h # hs"
  shows "length (pq_get k (sdv_rx_q s)) < sdc_rxn c"
proof -
  have "size (sdio_places s) = sdc_rxn c" using assms by (simp add: sdio_inv_def)
  moreover have "length (pq_get k (sdv_rx_q s)) \<le> length (pq_items (sdv_rx_q s))"
    by (cases k) (simp_all add: pq_items_def)
  ultimately show ?thesis using assms(3) by (simp add: sdio_places_def)
qed

lemma sdio_recv_round:
  assumes "sdio_inv c s" "sdv_state s \<noteq> DEINIT" "sdv_loaded s = h # hs"
  obtains e t where "sdio_rx_round c h rx n (s\<lparr>sdv_loaded := hs\<rparr>) = Some (e, t)" "sdio_inv c t" "sdv_state t = sdv_state s"
proof (cases "sdio_rx_step (sdc_chk c) rx n")
  case (Pair e r)
  show thesis
  proof (cases r)
    case None
    then show ?thesis using Pair assms that by (auto simp: sdio_rx_round_def sdio_inv_def sdio_places_def)
  next
    case (Some p)
    obtain k ib where p: "p = (k, ib)" by (cases p)
    have r: "length (pq_get k (sdv_rx_q s)) < sdc_rxn c" using assms by (rule sdio_queue_room)
    have q: "Suc (length (pq_items (sdv_rx_q s))) \<le> 3 * sdc_rxn c"
    proof -
      have "size (sdio_places s) = sdc_rxn c" using assms by (simp add: sdio_inv_def)
      then show ?thesis using assms(3) by (simp add: sdio_places_def)
    qed
    show ?thesis using Pair Some p assms r q that
      by (simp add: sdio_rx_round_def Let_def sdio_inv_def sdio_places_def pq.items_put pq.size_put min_def)
  qed
qed

lemma sdio_write_queue_does:
  assumes "sdio_write_queue c sleeping null alloc queued ib s = Some (r, t)"
  shows "t = s \<or> sdv_state s = ACTIVE \<and> 0 < sdv_tx_sem s \<and>
    (\<exists>f. t = s\<lparr>sdv_tx_sem := sdv_tx_sem s - 1, sdv_sending := sdv_sending s @ [f]\<rparr>)"
  using assms by (auto simp: sdio_write_queue_def sdio_write_def split: if_splits prod.splits option.splits)

lemma sdio_read_does:
  assumes "sdio_read c s = Some (r, x, t)" "sdv_rx_sem s = length (pq_items (sdv_rx_q s))"
  shows "x = None \<and> t = s \<and> sdv_state s = DEINIT \<or>
    (\<exists>h ib q. x = Some (h, ib) \<and> pq_take (sdv_rx_q s) = Some ((h, ib), q) \<and>
       t = sdio_stop_throttling c (s\<lparr>sdv_rx_sem := sdv_rx_sem s - 1, sdv_rx_q := q\<rparr>))"
proof (cases "sdv_state s = DEINIT")
  case False
  then obtain m where m: "length (pq_items (sdv_rx_q s)) = Suc m"
    using assms by (cases "pq_items (sdv_rx_q s)") (auto simp: sdio_read_def)
  obtain x q where "pq_take (sdv_rx_q s) = Some (x, q)" using pq.take_counted [OF m] .
  then show ?thesis using assms m False by (cases x) (auto simp: sdio_read_def Let_def)
qed (use assms in \<open>simp add: sdio_read_def\<close>)

lemma sdio_read_inv:
  assumes i: "sdio_inv c s" and n: "sdv_state s \<noteq> DEINIT" and d: "sdio_do c Sd_read s = Sd_to t"
  shows "sdio_inv c t"
proof -
  have m: "sdv_rx_sem s = length (pq_items (sdv_rx_q s))" using i n by (simp add: sdio_inv_def)
  obtain r x t0 where r: "sdio_read c s = Some (r, x, t0)" using d by (auto split: option.splits)
  obtain h ib q where q: "x = Some (h, ib)" "pq_take (sdv_rx_q s) = Some ((h, ib), q)"
      "t0 = sdio_stop_throttling c (s\<lparr>sdv_rx_sem := sdv_rx_sem s - 1, sdv_rx_q := q\<rparr>)"
    using sdio_read_does [OF r m] n by blast
  show ?thesis using i n d r q m pq.take_mset [OF q(2)] pq.take_size [OF q(2)]
    by (auto simp: sdio_inv_def sdio_places_def)
qed

lemma sdio_give_back_inv:
  assumes i: "sdio_inv c s" and n: "sdv_state s \<noteq> DEINIT" and h: "h \<in> set (sdv_held s)"
  shows "\<exists>t. sdio_do c (Sd_give_back h) s = Sd_to t \<and> sdio_inv c t"
proof -
  have "h \<in># sdio_places s" using h by (simp add: sdio_places_def)
  then have "h \<in> set (sdv_reg s)" using i n by (simp add: sdio_inv_def)
  moreover have "sdio_places (s\<lparr>sdv_held := remove1 h (sdv_held s), sdv_loaded := sdv_loaded s @ [h]\<rparr>) = sdio_places s"
    using h by (simp add: sdio_places_def)
  ultimately show ?thesis using h i n by (simp add: sdio_read_done_def sdio_inv_def sdio_places_def)
qed

lemma sdio_off_quiet:
  assumes "sdio_inv c s" "sdv_state s = DEINIT"
  shows "sdv_held s = [] \<and> sdv_loaded s = [] \<and> pq_items (sdv_rx_q s) = []"
  using assms by (simp add: sdio_inv_def sdio_places_def)

lemma sdio_step_inv:
  assumes u: "\<not> sdc_unload c" and i: "sdio_inv c s" and ok: "sdio_act_ok a" and d: "sdio_do c a s = Sd_to t"
  shows "sdio_inv c t"
proof (cases a)
  case (Sd_init drv bad start)
  then show ?thesis using d sdio_init_inv [OF i] by auto
next
  case (Sd_deinit fs)
  then show ?thesis using d i u by (simp add: sdio_deinit_def split: if_splits)
next
  case Sd_open
  then show ?thesis using d i by (auto simp: sdio_inv_def sdio_places_def split: if_splits)
next
  case Sd_close
  then show ?thesis using d i by (auto simp: sdio_inv_def sdio_places_def split: if_splits)
next
  case (Sd_write sleeping null alloc queued ib)
  then obtain r where "sdio_write_queue c sleeping null alloc queued ib s = Some (r, t)"
    using d by (auto split: option.splits)
  from sdio_write_queue_does [OF this] i show ?thesis by (auto simp: sdio_inv_def sdio_places_def)
next
  case (Sd_startup queued ev)
  then show ?thesis using d i ok
    by (auto simp: sdio_queue_startup_def sdio_inv_def sdio_places_def Let_def split: if_splits)
next
  case Sd_sent
  then show ?thesis using d i by (auto simp: sdio_inv_def sdio_places_def split: list.splits)
next
  case Sd_done
  then show ?thesis using d i
    by (auto simp: sdio_tx_done_def sdio_inv_def sdio_places_def split: list.splits if_splits)
next
  case (Sd_recv rx n)
  then obtain h hs where l: "sdv_loaded s = h # hs" "sdv_state s \<noteq> DEINIT" using d by (auto split: list.splits if_splits)
  obtain e t' where "sdio_rx_round c h rx n (s\<lparr>sdv_loaded := hs\<rparr>) = Some (e, t')" "sdio_inv c t'"
    using sdio_recv_round [OF i l(2,1), of rx n] by blast
  then show ?thesis using Sd_recv d l by (auto split: if_splits)
next
  case Sd_read
  show ?thesis
  proof (cases "sdv_state s = DEINIT")
    case True
    then show ?thesis using Sd_read d i by (simp add: sdio_read_def)
  qed (use Sd_read d sdio_read_inv [OF i] in auto)
next
  case (Sd_give_back h)
  then have h: "h \<in> set (sdv_held s)" using d by (auto split: if_splits)
  then have "sdv_state s \<noteq> DEINIT" using sdio_off_quiet [OF i] by auto
  then show ?thesis using sdio_give_back_inv [OF i _ h] Sd_give_back d by auto
qed

lemma sdio_no_crash: "sdio_inv c s \<Longrightarrow> sdio_do c a s \<noteq> Sd_crash"
  using sdio_give_back_inv [of c s] sdio_off_quiet [of c s]
  by (cases a) (force split: option.splits list.splits if_splits)+

lemma sdio_no_wait:
  assumes i: "sdio_inv c s" "sdv_state s \<noteq> DEINIT" and l: "sdv_loaded s \<noteq> []"
  shows "sdio_do c (Sd_recv rx n) s \<noteq> Sd_wait"
proof -
  obtain h hs where h: "sdv_loaded s = h # hs" using l by (cases "sdv_loaded s") auto
  obtain e t where "sdio_rx_round c h rx n (s\<lparr>sdv_loaded := hs\<rparr>) = Some (e, t)"
    using sdio_recv_round [OF i h] by blast
  then show ?thesis using h i by (simp add: sdio_inv_def)
qed

lemma sdio_run_no_crash:
  assumes u: "\<not> sdc_unload c"
  shows "sdio_inv c s \<Longrightarrow> list_all sdio_act_ok as \<Longrightarrow> sdio_run c as s \<noteq> Sd_crash"
proof (induction as arbitrary: s)
  case (Cons a as)
  then show ?case using sdio_no_crash [of c s a] sdio_step_inv [OF u, of s a] by (cases "sdio_do c a s") simp_all
qed simp



subsection \<open>A driver that is removed while the host sleeps\<close>

definition sdio_old :: "nat \<Rightarrow> (nat \<times> ibuf) pq \<Rightarrow> bool" where
  "sdio_old n q \<longleftrightarrow> (\<forall>p \<in> set (pq_items q). fst p < n)"

lemma sdio_old_simps [simp]:
  "sdio_old n pq_empty" "sdio_old n (pq_put k (h, ib) q) \<longleftrightarrow> h < n \<and> sdio_old n q"
  "sdio_old n q \<Longrightarrow> sdio_old (n + m) q"
  by (auto simp: sdio_old_def)

lemma sdio_old_take: "pq_take q = Some ((h, ib), q') \<Longrightarrow> sdio_old n q \<longleftrightarrow> h < n \<and> sdio_old n q'"
  by (auto simp: sdio_old_def pq.take_Some)

definition sdio_weak :: "sdio_cfg \<Rightarrow> sdio_sl \<Rightarrow> bool" where
  "sdio_weak c s \<longleftrightarrow>
     sdv_rx_sem s = length (pq_items (sdv_rx_q s)) \<and> pq_bounded (sdc_rxn c) (sdv_rx_q s) \<and>
     (sdv_state s \<noteq> DEINIT \<or> pq_items (sdv_rx_q s) \<noteq> [] \<longrightarrow> sdv_made s) \<and>
     sdio_old (sdv_next s) (sdv_rx_q s) \<and> (\<forall>h \<in> set (sdv_reg s) \<union> set (sdv_loaded s). h < sdv_next s)"

lemma sdio_boot_weak: "sdio_weak c (sdio_boot c)"
  by (simp add: sdio_weak_def sdio_boot_def)

lemma sdio_init_weak: "sdio_weak c s \<Longrightarrow> sdio_weak c (snd (sdio_init c drv bad start s))"
  by (auto simp: sdio_init_def sdio_weak_def Let_def split: option.splits intro: trans_less_add1)

lemma sdio_recv_weak:
  assumes i: "sdio_weak c s" and l: "sdv_loaded s = h # hs" "sdv_state s \<noteq> DEINIT"
    and d: "sdio_rx_round c h rx n (s\<lparr>sdv_loaded := hs\<rparr>) = Some (e, t)"
  shows "sdio_weak c t"
proof (cases "sdio_rx_step (sdc_chk c) rx n")
  case (Pair e' r)
  show ?thesis
  proof (cases r)
    case None
    then show ?thesis using Pair i l d by (auto simp: sdio_rx_round_def sdio_weak_def)
  next
    case (Some p)
    obtain k ib where p: "p = (k, ib)" by (cases p)
    have r: "length (pq_get k (sdv_rx_q s)) < sdc_rxn c"
      using d Pair Some p by (simp add: sdio_rx_round_def Let_def split: if_splits)
    have b: "pq_bounded (sdc_rxn c) (pq_put k (h, ib) (sdv_rx_q s))"
      using i r by (intro pq_bounded_put) (simp_all add: sdio_weak_def)
    show ?thesis using Pair Some p d i l r b pq_bounded_size [OF b]
      by (auto simp: sdio_rx_round_def Let_def sdio_weak_def pq.size_put split: if_splits)
  qed
qed

lemma sdio_read_weak:
  assumes i: "sdio_weak c s" and d: "sdio_do c Sd_read s = Sd_to t"
  shows "sdio_weak c t"
proof -
  have m: "sdv_rx_sem s = length (pq_items (sdv_rx_q s))" using i by (simp add: sdio_weak_def)
  obtain r x t0 where r: "sdio_read c s = Some (r, x, t0)" using d by (auto split: option.splits)
  from sdio_read_does [OF r m] show ?thesis
  proof (elim disjE exE conjE)
    fix h ib q assume q: "x = Some (h, ib)" "pq_take (sdv_rx_q s) = Some ((h, ib), q)"
      "t0 = sdio_stop_throttling c (s\<lparr>sdv_rx_sem := sdv_rx_sem s - 1, sdv_rx_q := q\<rparr>)"
    show ?thesis using i d r q m pq.take_Some [OF q(2)] pq_bounded_take [OF _ q(2), of "sdc_rxn c"] sdio_old_take [OF q(2)]
      by (auto simp: sdio_weak_def)
  qed (use i d r in auto)
qed

lemma sdio_step_weak:
  assumes i: "sdio_weak c s" and d: "sdio_do c a s = Sd_to t"
  shows "sdio_weak c t"
proof (cases a)
  case (Sd_init drv bad start)
  then show ?thesis using d sdio_init_weak [OF i] by auto
next
  case (Sd_deinit fs)
  then show ?thesis using d i by (auto simp: sdio_deinit_def sdio_weak_def split: if_splits)
next
  case (Sd_write sleeping null alloc queued ib)
  then obtain r where "sdio_write_queue c sleeping null alloc queued ib s = Some (r, t)"
    using d by (auto split: option.splits)
  from sdio_write_queue_does [OF this] i show ?thesis by (auto simp: sdio_weak_def)
next
  case (Sd_recv rx n)
  then show ?thesis using d sdio_recv_weak [OF i]
    by (auto split: list.splits if_splits option.splits prod.splits)
next
  case Sd_read
  then show ?thesis using d sdio_read_weak [OF i] by simp
next
  case (Sd_give_back h)
  then have "h \<in> set (sdv_reg s)" "t = s\<lparr>sdv_held := remove1 h (sdv_held s), sdv_loaded := sdv_loaded s @ [h]\<rparr>"
    using d by (auto simp: sdio_read_done_def split: if_splits)
  then show ?thesis using i by (auto simp: sdio_weak_def)
qed (use i d in \<open>auto simp: sdio_queue_startup_def sdio_tx_done_def sdio_weak_def Let_def split: if_splits list.splits\<close>)

lemma sdio_run_weak: "sdio_run c as (sdio_boot c) = Sd_to s \<Longrightarrow> sdio_weak c s"
  by (rule sdio_run_induct [where I = "sdio_weak c" and ok = "\<lambda>_. True"])
    (auto simp: list_all_iff sdio_boot_weak intro: sdio_step_weak)

text \<open>C20: A packet that waits for its reader when the host falls asleep survives the removal of the driver with the
  handle of a buffer that the peripheral driver frees. After the next initialisation the reader is given it, and
  gives back a buffer that no longer exists.\<close>

theorem sdio_stale_packet_crashes:
  assumes "sdc_unload c" "sdio_run c as (sdio_boot c) = Sd_to s" "pq_take (sdv_rx_q s) = Some ((h, ib), q)"
  shows "sdio_run c [Sd_deinit [], Sd_init True None True, Sd_read, Sd_give_back h] s = Sd_crash"
proof -
  have w: "sdio_weak c s" using assms(2) by (rule sdio_run_weak)
  have q: "pq_items (sdv_rx_q s) = (h, ib) # pq_items q" using assms(3) by (rule pq.take_Some)
  have h: "h < sdv_next s" "sdv_made s" "sdv_rx_sem s = Suc (length (pq_items q))"
    using w q sdio_old_take [OF assms(3)] by (auto simp: sdio_weak_def)
  define t where "t = snd (sdio_init c True None True (sdio_deinit c [] s))"
  have t: "sdv_reg t = [sdv_next s ..< sdv_next s + sdc_rxn c]" "sdv_rx_q t = sdv_rx_q s" "sdv_rx_sem t = sdv_rx_sem s"
      "sdv_state t = ACTIVE"
    using assms(1) h(2) by (auto simp: t_def sdio_deinit_def sdio_init_def Let_def)
  show ?thesis using t h(1,3) assms(3) by (simp add: t_def [symmetric] sdio_read_def sdio_read_done_def Let_def)
qed

lemma sdio_rx_step_example:
  "sdio_rx_step False (put_header \<lparr> h_if_type = 1, h_if_num = 0, h_flags = 0, h_len = 1, h_offset = 12,
      h_checksum = 0, h_seq_num = 0, h_throttle_cmd = 0, h_pkt_type = 0 \<rparr> @ [5]) 13 =
   (None, Some (PRIO_Q_OTHERS, \<lparr> ib_if_type = 1, ib_if_num = 0, ib_flag = 0, ib_seq = 0,
      ib_payload = put_header \<lparr> h_if_type = 1, h_if_num = 0, h_flags = 0, h_len = 1, h_offset = 12,
        h_checksum = 0, h_seq_num = 0, h_throttle_cmd = 0, h_pkt_type = 0 \<rparr> @ [5], ib_zcopy = False \<rparr>))"
  by (simp add: sdio_rx_step_def get_put_header ps_flag_event_def prio_of_def esp_ifs HDR_def Let_def)

theorem sdio_stale_packet_crashes_witness:
  "\<exists>rx. sdio_run \<lparr>sdc_txq = 4, sdc_rxn = 2, sdc_chk = False, sdc_high = 80, sdc_low = 60, sdc_unload = True\<rparr> [Sd_init True None True, Sd_recv rx 13, Sd_deinit [], Sd_init True None True, Sd_read, Sd_give_back 0]
     (sdio_boot \<lparr>sdc_txq = 4, sdc_rxn = 2, sdc_chk = False, sdc_high = 80, sdc_low = 60, sdc_unload = True\<rparr>) = Sd_crash"
proof -
  let ?C = "\<lparr>sdc_txq = 4, sdc_rxn = 2, sdc_chk = False, sdc_high = 80, sdc_low = 60, sdc_unload = True\<rparr>"
  let ?rx = "put_header \<lparr> h_if_type = 1, h_if_num = 0, h_flags = 0, h_len = 1, h_offset = 12,
      h_checksum = 0, h_seq_num = 0, h_throttle_cmd = 0, h_pkt_type = 0 \<rparr> @ [5]"
  obtain s where s: "sdio_run ?C [Sd_init True None True, Sd_recv ?rx 13] (sdio_boot ?C) = Sd_to s"
      "\<exists>ib q. pq_take (sdv_rx_q s) = Some ((0, ib), q)"
    by (simp add: sdio_boot_def sdio_init_def sdio_rx_round_def sdio_rx_step_example sdio_start_throttling_def
        sdio_load_percent_def pq_empty_def pq_take_def Let_def)
  then obtain ib q where q: "pq_take (sdv_rx_q s) = Some ((0, ib), q)" by blast
  have "sdio_run ?C [Sd_deinit [], Sd_init True None True, Sd_read, Sd_give_back 0] s = Sd_crash"
    by (rule sdio_stale_packet_crashes [OF _ s(1) q]) simp
  then show ?thesis using s(1) sdio_run_append [of ?C "[Sd_init True None True, Sd_recv ?rx 13]"]
    by (intro exI [of _ ?rx]) (metis append.simps sdio_out.case(1))
qed

text \<open>The slots of the send queue that are free or will be.\<close>

definition sdio_credit :: "sdio_sl \<Rightarrow> nat" where
  "sdio_credit s = sdv_tx_sem s + length (sdv_sending s) + length (sdv_finished s)"

lemma sdio_reclaim_le: "sdio_reclaim r fs \<le> r \<and> sdio_reclaim r fs \<le> length (filter ((=) Fin_buffer) fs)"
  by (induction r fs rule: sdio_reclaim.induct) auto

lemma sdio_credit_step:
  assumes m: "sdv_made s" and d: "sdio_do c a s = Sd_to t"
  shows "sdv_made t \<and> sdio_credit t \<le> sdio_credit s"
proof (cases a)
  case (Sd_init drv bad start)
  then show ?thesis using m d by (auto simp: sdio_init_def sdio_credit_def Let_def split: option.splits if_splits)
next
  case (Sd_deinit fs)
  then show ?thesis using m d sdio_reclaim_le [of 3 fs]
    by (auto simp: sdio_deinit_def sdio_credit_def split: if_splits)
next
  case (Sd_write sleeping null alloc queued ib)
  then obtain r where "sdio_write_queue c sleeping null alloc queued ib s = Some (r, t)"
    using d by (auto split: option.splits)
  from sdio_write_queue_does [OF this] m show ?thesis by (auto simp: sdio_credit_def)
next
  case (Sd_recv rx n)
  then show ?thesis using m d
    by (auto simp: sdio_credit_def sdio_rx_round_def Let_def split: list.splits if_splits option.splits prod.splits)
next
  case Sd_read
  then show ?thesis using m d
    by (auto simp: sdio_read_def sdio_credit_def Let_def split: if_splits option.splits prod.splits)
qed (use m d in \<open>auto simp: sdio_queue_startup_def sdio_tx_done_def sdio_read_done_def sdio_credit_def Let_def
    split: if_splits list.splits option.splits\<close>)

text \<open>Removing the driver gives back at most three of the slots of the send queue that are in use, and the rest
  for ever: whatever happens afterwards, no more slots are free, waiting or sent than were free before and three.\<close>

theorem sdio_sleep_loses_slots:
  assumes "sdc_unload c" "sdio_run c as (sdio_boot c) = Sd_to s" "sdv_state s \<noteq> DEINIT"
    "sdio_run c (Sd_deinit fs # bs) s = Sd_to t"
  shows "sdv_tx_sem t + length (sdv_sending t) + length (sdv_finished t) \<le> sdv_tx_sem s + 3"
proof -
  let ?d = "sdio_deinit c fs s"
  have "sdv_made s" using sdio_run_weak [OF assms(2)] assms(3) by (simp add: sdio_weak_def)
  then have d: "sdv_made ?d \<and> sdio_credit ?d \<le> sdv_tx_sem s + 3"
    using assms(1,3) sdio_reclaim_le [of 3 fs] by (auto simp: sdio_deinit_def sdio_credit_def min_def)
  have r: "sdio_run c bs ?d = Sd_to t" using assms(4) by (simp split: if_splits)
  have "sdv_made t \<and> sdio_credit t \<le> sdv_tx_sem s + 3"
    by (rule sdio_run_induct [where I = "\<lambda>u. sdv_made u \<and> sdio_credit u \<le> sdv_tx_sem s + 3" and ok = "\<lambda>_. True"])
      (use d r sdio_credit_step in \<open>fastforce simp: list_all_iff\<close>)+
  then show ?thesis by (simp add: sdio_credit_def)
qed

theorem sdio_sleep_loses_slots_witness:
  "\<exists>t. sdio_run \<lparr>sdc_txq = 4, sdc_rxn = 2, sdc_chk = False, sdc_high = 80, sdc_low = 60, sdc_unload = True\<rparr>
     ([Sd_init True None True] @ replicate 4 (Sd_startup True [7]) @ [Sd_deinit [Fin_timeout, Fin_buffer, Fin_buffer], Sd_init True None True])
     (sdio_boot \<lparr>sdc_txq = 4, sdc_rxn = 2, sdc_chk = False, sdc_high = 80, sdc_low = 60, sdc_unload = True\<rparr>) = Sd_to t \<and>
     sdv_tx_sem t + length (sdv_sending t) + length (sdv_finished t) \<le> 3"
proof -
  let ?C = "\<lparr>sdc_txq = 4, sdc_rxn = 2, sdc_chk = False, sdc_high = 80, sdc_low = 60, sdc_unload = True\<rparr>"
  let ?as = "[Sd_init True None True] @ replicate 4 (Sd_startup True [7])"
  let ?f = "[Fin_timeout, Fin_buffer, Fin_buffer]"
  obtain s where s: "sdio_run ?C ?as (sdio_boot ?C) = Sd_to s" "sdv_state s = ACTIVE" "sdv_tx_sem s = 0"
      "length (sdv_sending s) = 4" "sdv_made s"
    by (simp add: sdio_boot_def sdio_init_def sdio_queue_startup_def Let_def numeral_eq_Suc)
  obtain t where t: "sdio_run ?C [Sd_deinit ?f, Sd_init True None True] s = Sd_to t"
    using s by (simp add: sdio_deinit_def sdio_init_def Let_def)
  have "sdv_tx_sem t + length (sdv_sending t) + length (sdv_finished t) \<le> 3"
    using sdio_sleep_loses_slots [OF _ s(1) _ t] s by simp
  moreover have "sdio_run ?C (?as @ [Sd_deinit ?f, Sd_init True None True]) (sdio_boot ?C) = Sd_to t"
    using t by (simp only: sdio_run_append [of _ ?as] s(1) sdio_out.case)
  ultimately show ?thesis by auto
qed

end
