(* ===== verification/Driver_Life.thy ===== *)
theory Driver_Life
  imports Host_Power
begin

section \<open>Set-up and removal of the UART, SPI and half-duplex SPI drivers\<close>

text \<open>
  \<open>init\<close>, \<open>deinit\<close> and \<open>reset\<close> of \<open>uart_slave_api.c\<close>, \<open>spi_slave_api.c\<close> and \<open>spi_hd_slave_api.c\<close>. A build
  with \<open>H_PS_UNLOAD_BUS_WHILE_PS\<close> calls \<open>deinit\<close> when the host falls asleep and \<open>init\<close> before it is woken.
  The peripheral driver of ESP-IDF is a parameter: what its calls return. A failed assertion or error check, and
  a wait that does not end, is \<open>None\<close>. (The SDIO driver is in \<open>Sdio_Slave\<close>.)
\<close>

subsection \<open>State\<close>

datatype life_task = Rx_task | Tx_done_task | Flow_task | Post_task

text \<open>
  \<open>if_handle_g.state\<close>, \<open>hosted_constructs_init_done\<close>, whether the peripheral driver is installed and the memory
  pools exist, the tasks that run, how often semaphores and queues were made, and the events reported.
\<close>

record drv_life =
  lf_state :: if_state
  lf_made :: bool
  lf_bus :: bool
  lf_pool :: bool
  lf_tasks :: "life_task list"
  lf_sets :: nat
  lf_closed :: nat

definition life_boot :: drv_life where
  "life_boot = \<lparr> lf_state = DEINIT, lf_made = False, lf_bus = False, lf_pool = False, lf_tasks = [],
     lf_sets = 0, lf_closed = 0 \<rparr>"

subsection \<open>UART\<close>

text \<open>The parameters of the line, from the options of the build.\<close>

datatype uart_parity = UART_PARITY_DISABLE | UART_PARITY_EVEN | UART_PARITY_ODD
datatype uart_stop = UART_STOP_BITS_1 | UART_STOP_BITS_1_5 | UART_STOP_BITS_2

record uart_line =
  ul_data_bits :: nat
  ul_parity :: uart_parity
  ul_stop :: uart_stop

definition uart_line_of :: "int \<Rightarrow> int \<Rightarrow> int \<Rightarrow> uart_line" where
  "uart_line_of data_bits parity stop =
     \<lparr> ul_data_bits = (if data_bits = 5 then 5 else if data_bits = 6 then 6 else if data_bits = 7 then 7 else 8),
       ul_parity = (if parity = 1 then UART_PARITY_EVEN else if parity = 2 then UART_PARITY_ODD else UART_PARITY_DISABLE),
       ul_stop = (if stop = 1 then UART_STOP_BITS_1_5 else if stop = 2 then UART_STOP_BITS_2 else UART_STOP_BITS_1) \<rparr>"

text \<open>
  \<open>h_uart_init\<close>: \<open>setup\<close> says whether \<open>uart_param_config\<close> and \<open>uart_set_pin\<close> succeed; \<open>uart_driver_install\<close>
  fails on a port that has a driver.
\<close>

definition h_uart_init :: "bool \<Rightarrow> drv_life \<Rightarrow> drv_life option" where
  "h_uart_init setup s =
     (if lf_state s \<noteq> DEINIT then Some s
      else if lf_bus s \<or> \<not> setup then None
      else Some (s\<lparr>lf_bus := True, lf_pool := True, lf_sets := Suc (lf_sets s),
        lf_tasks := lf_tasks s @ [Rx_task, Flow_task], lf_state := ACTIVE\<rparr>))"

definition h_uart_deinit :: "bool \<Rightarrow> drv_life \<Rightarrow> drv_life" where
  "h_uart_deinit unload s =
     (if \<not> unload \<or> lf_state s = DEINIT then s
      else s\<lparr>lf_state := DEINIT, lf_pool := False, lf_closed := Suc (lf_closed s), lf_bus := False\<rparr>)"

text \<open>\<open>h_uart_reset\<close>: of the two results only the second is returned.\<close>

definition h_uart_reset :: "esp_err \<Rightarrow> esp_err \<Rightarrow> esp_err" where
  "h_uart_reset flush wait = wait"

subsection \<open>SPI\<close>

definition esp_spi_init :: "bool \<Rightarrow> bool \<Rightarrow> drv_life \<Rightarrow> drv_life option" where
  "esp_spi_init unload setup s =
     (if lf_state s \<noteq> DEINIT then Some s
      else if unload \<and> lf_made s then Some (s\<lparr>lf_state := ACTIVE\<rparr>)
      else if \<not> setup then None
      else
       (let s1 = (if lf_made s then s else s\<lparr>lf_pool := True\<rparr>);
            s2 = s1\<lparr>lf_bus := True, lf_state := ACTIVE\<rparr>
        in Some (if lf_made s then s2
             else s2\<lparr>lf_sets := Suc (lf_sets s2), lf_tasks := lf_tasks s2 @ [Post_task], lf_made := True\<rparr>)))"

definition esp_spi_deinit :: "bool \<Rightarrow> drv_life \<Rightarrow> drv_life" where
  "esp_spi_deinit unload s = (if \<not> unload \<or> lf_state s = DEINIT then s else s\<lparr>lf_state := DEINIT\<rparr>)"

definition esp_spi_reset :: "esp_err \<Rightarrow> drv_life \<Rightarrow> esp_err \<times> drv_life" where
  "esp_spi_reset free s = (free, if free = ESP_OK then s\<lparr>lf_bus := False\<rparr> else s)"

text \<open>
  The interrupt of the chip select line. \<open>on_cs\<close> is the build that lowers the handshake with it, \<open>level\<close> the
  level that is read: the handshake line and whether \<open>wait_cs_deassert_sem\<close> is given.
\<close>

definition gpio_disable_hs_isr_handler :: "bool \<Rightarrow> nat \<Rightarrow> bool \<times> bool \<Rightarrow> bool \<times> bool" where
  "gpio_disable_hs_isr_handler on_cs level hs_sem =
     (case hs_sem of (hs, sem) \<Rightarrow>
        if on_cs then (if level = 0 then (False, sem) else (hs, True)) else (False, sem))"

subsection \<open>Half-duplex SPI\<close>

definition SPI_HD_CTRL_DATAPATH_ON :: u32 where "SPI_HD_CTRL_DATAPATH_ON = 1"

text \<open>The wait for the host: after how many reads of the control register it has opened the data path.\<close>

fun spi_hd_wait_open :: "u32 list \<Rightarrow> nat option" where
  "spi_hd_wait_open [] = None"
| "spi_hd_wait_open (v # vs) =
     (if v AND SPI_HD_CTRL_DATAPATH_ON \<noteq> 0 then Some 0 else map_option Suc (spi_hd_wait_open vs))"

definition esp_spi_hd_init :: "bool \<Rightarrow> u32 list \<Rightarrow> drv_life \<Rightarrow> drv_life option" where
  "esp_spi_hd_init setup ctrl s =
     (if lf_state s \<noteq> DEINIT then Some s
      else if \<not> setup then None
      else if spi_hd_wait_open ctrl = None then None
      else Some (s\<lparr>lf_bus := True, lf_pool := True, lf_sets := Suc (lf_sets s),
        lf_tasks := lf_tasks s @ [Rx_task, Tx_done_task, Flow_task], lf_state := ACTIVE\<rparr>))"

definition esp_spi_hd_deinit :: "bool \<Rightarrow> bool \<Rightarrow> drv_life \<Rightarrow> drv_life option" where
  "esp_spi_hd_deinit unload ok s =
     (if \<not> unload \<or> lf_state s = DEINIT then Some s
      else if \<not> ok then None
      else Some (s\<lparr>lf_state := DEINIT, lf_pool := False, lf_closed := Suc (lf_closed s), lf_bus := False\<rparr>))"

definition esp_spi_hd_reset :: "esp_err \<Rightarrow> esp_err \<Rightarrow> drv_life \<Rightarrow> esp_err \<times> drv_life" where
  "esp_spi_hd_reset deinit init s =
     (if deinit \<noteq> ESP_OK then (deinit, s)
      else if init \<noteq> ESP_OK then (init, s\<lparr>lf_bus := False\<rparr>) else (ESP_OK, s\<lparr>lf_bus := True\<rparr>))"

subsection \<open>A host that sleeps and wakes\<close>

datatype life_bus = On_uart | On_spi | On_spi_hd

text \<open>Set-up and removal with a peripheral driver that works and a host that opens the data path after \<open>n\<close> reads.\<close>

fun life_init :: "bool \<Rightarrow> nat \<Rightarrow> life_bus \<Rightarrow> drv_life \<Rightarrow> drv_life option" where
  "life_init unload n On_uart s = h_uart_init True s"
| "life_init unload n On_spi s = esp_spi_init unload True s"
| "life_init unload n On_spi_hd s = esp_spi_hd_init True (replicate n 0 @ [SPI_HD_CTRL_DATAPATH_ON]) s"

fun life_deinit :: "bool \<Rightarrow> life_bus \<Rightarrow> drv_life \<Rightarrow> drv_life option" where
  "life_deinit unload On_uart s = Some (h_uart_deinit unload s)"
| "life_deinit unload On_spi s = Some (esp_spi_deinit unload s)"
| "life_deinit unload On_spi_hd s = esp_spi_hd_deinit unload True s"

text \<open>Set up once, then asleep and awake \<open>k\<close> times.\<close>

fun life_cycles :: "bool \<Rightarrow> nat \<Rightarrow> life_bus \<Rightarrow> nat \<Rightarrow> drv_life option" where
  "life_cycles unload n b 0 = life_init unload n b life_boot"
| "life_cycles unload n b (Suc k) =
     Option.bind (Option.bind (life_cycles unload n b k) (life_deinit unload b)) (life_init unload n b)"

text \<open>The task that takes what arrives on the bus.\<close>

fun life_reader :: "life_bus \<Rightarrow> life_task" where
  "life_reader On_spi = Post_task"
| "life_reader b = Rx_task"

lemma spi_hd_wait_opened: "spi_hd_wait_open (replicate n 0 @ [SPI_HD_CTRL_DATAPATH_ON]) = Some n"
  by (induction n) (simp_all add: SPI_HD_CTRL_DATAPATH_ON_def)

lemmas life_ops = h_uart_init_def h_uart_deinit_def esp_spi_init_def esp_spi_deinit_def esp_spi_hd_init_def
  esp_spi_hd_deinit_def

text \<open>C21: After \<open>k\<close> naps of the host the drivers of the UART and of the half-duplex SPI bus have \<open>k + 1\<close> tasks that
  take what arrives, on as many sets of queues, because \<open>deinit\<close> ends no task and \<open>init\<close> starts new ones; the SPI
  driver has one. A build that keeps the driver has one on every bus. In each case the interface is active again.
\<close>

theorem naps_multiply_receive_tasks:
  "\<exists>s. life_cycles unload n b k = Some s \<and> lf_state s = ACTIVE \<and> lf_bus s \<and> lf_pool s \<and>
     count_list (lf_tasks s) (life_reader b) = (if unload \<and> b \<noteq> On_spi then Suc k else 1) \<and>
     lf_sets s = (if unload \<and> b \<noteq> On_spi then Suc k else 1)"
proof -
  have "\<exists>s. life_cycles unload n b k = Some s \<and> lf_state s = ACTIVE \<and> lf_bus s \<and> lf_pool s \<and>
     (b = On_spi \<longrightarrow> lf_made s) \<and>
     count_list (lf_tasks s) (life_reader b) = (if unload \<and> b \<noteq> On_spi then Suc k else 1) \<and>
     lf_sets s = (if unload \<and> b \<noteq> On_spi then Suc k else 1)"
  proof (induction k)
    case 0
    show ?case by (cases b) (simp_all add: life_ops life_boot_def spi_hd_wait_opened)
  next
    case (Suc k)
    then show ?case by (cases b) (auto simp: life_ops spi_hd_wait_opened)
  qed
  then show ?thesis by blast
qed

end
