(* ===== verification/Slave_Bt.thy ===== *)
theory Slave_Bt
  imports Transport_Frame
begin

section \<open>Bluetooth over the transport (slave_bt.c, slave_bt_uart_esp32c3_s3.c, vhci_drv.c)\<close>

text \<open>
  The Bluetooth controller runs on the co-processor, its host stack on the host. HCI packets travel as frames of
  their own interface: from the host with the packet type in the last byte of the header, to the host with
  the type as first byte of the payload. On the co-processor a semaphore keeps the transport from sending to
  the controller before it is ready. What the controller's own functions return is a parameter.
\<close>

subsection \<open>Co-processor: state\<close>

datatype esp_bt_mode = ESP_BT_MODE_BLE | ESP_BT_MODE_CLASSIC_BT | ESP_BT_MODE_BTDM

text \<open>
  The build: the mode (\<open>BLUETOOTH_BLE\<close> and so on), HCI over the transport, a NimBLE controller, and one of an
  ESP-IDF up to 5.3, for which the file has the controller's transport functions itself.
\<close>

record bt_build =
  bb_mode :: "esp_bt_mode option"
  bb_hci :: bool
  bb_nimble :: bool
  bb_old :: bool

datatype ctl_call =
  Ctl_init | Ctl_deinit | Ctl_mem_release esp_bt_mode | Ctl_enable esp_bt_mode | Ctl_disable
| Cb_register bool | Ctl_packet "byte list"

text \<open>\<open>vhci_send_sem\<close>, which does not exist before \<open>init_bluetooth\<close>, and the calls of the controller so far.\<close>

record bt_dev =
  vh_sem :: "bool option"
  vh_calls :: "ctl_call list"

definition bt_boot :: bt_dev where
  "bt_boot = \<lparr> vh_sem = None, vh_calls = [] \<rparr>"

definition ctl_called :: "ctl_call \<Rightarrow> bt_dev \<Rightarrow> bt_dev" where
  "ctl_called k s = s\<lparr>vh_calls := vh_calls s @ [k]\<rparr>"

subsection \<open>Co-processor: packets\<close>

definition controller_rcv_pkt_ready :: "bt_dev \<Rightarrow> bt_dev" where
  "controller_rcv_pkt_ready s = (case vh_sem s of None \<Rightarrow> s | Some _ \<Rightarrow> s\<lparr>vh_sem := Some True\<rparr>)"

text \<open>\<open>host_rcv_pkt\<close>: a packet of the controller goes to the host; the result and what is queued.\<close>

definition host_rcv_pkt :: "bool \<Rightarrow> bool \<Rightarrow> byte list \<Rightarrow> int \<times> ibuf option" where
  "host_rcv_pkt alloc queued d =
     (if \<not> alloc then (ESP_FAIL, None)
      else if \<not> queued then (ESP_FAIL, None)
      else (0, Some \<lparr> ib_if_type = ESP_HCI_IF, ib_if_num = 0, ib_flag = 0, ib_seq = 0, ib_payload = d, ib_zcopy = False \<rparr>))"

text \<open>
  \<open>process_hci_rx_pkt\<close> on the payload that starts at \<open>off\<close> in the receive buffer: the byte before it, which
  is the last of the header, is sent with it. The length is 16 bits wide. Without the NimBLE controller the
  packet waits for the semaphore; \<open>in_time\<close> says whether the controller gives it within \<open>VHCI_MAX_TIMEOUT_MS\<close>.
\<close>

definition process_hci_rx_pkt :: "bool \<Rightarrow> bool \<Rightarrow> byte list \<Rightarrow> nat \<Rightarrow> nat \<Rightarrow> bt_dev \<Rightarrow> bt_dev" where
  "process_hci_rx_pkt nimble in_time buf off len s =
     (let pkt = take (Suc len mod 65536) (drop (off - 1) buf) in
      if nimble then ctl_called (Ctl_packet pkt) s
      else (case vh_sem s of
         None \<Rightarrow> s
       | Some free \<Rightarrow> if free \<or> in_time then ctl_called (Ctl_packet pkt) (s\<lparr>vh_sem := Some False\<rparr>) else s))"

text \<open>
  The transport functions of the older NimBLE controller: what \<open>esp_vhci_host_send_packet\<close> hands over (\<open>None\<close>
  is the failed assertion), and the packets made of an event and of an ACL buffer.
\<close>

datatype ble_tx = Ble_nothing | Ble_cmd "byte list" | Ble_acl "byte list"

definition DATA_TYPE_COMMAND :: byte where "DATA_TYPE_COMMAND = 1"
definition DATA_TYPE_ACL :: byte where "DATA_TYPE_ACL = 2"
definition DATA_TYPE_EVENT :: byte where "DATA_TYPE_EVENT = 4"

definition esp_vhci_host_send_packet :: "bool \<Rightarrow> byte list \<Rightarrow> ble_tx option" where
  "esp_vhci_host_send_packet alloc d =
     (if d ! 0 = DATA_TYPE_COMMAND then Some (if alloc then Ble_cmd (drop 1 d) else Ble_nothing)
      else if d ! 0 = DATA_TYPE_ACL then (if alloc then Some (Ble_acl (drop 1 d)) else None)
      else Some Ble_nothing)"

definition ble_hs_hci_rx_evt :: "bool \<Rightarrow> byte list \<Rightarrow> byte list option" where
  "ble_hs_hci_rx_evt alloc ev = (if alloc then Some (DATA_TYPE_EVENT # take (unat (ev ! 1) + 2) ev) else None)"

definition ble_hs_rx_data :: "bool \<Rightarrow> byte list \<Rightarrow> byte list option" where
  "ble_hs_rx_data alloc om = (if alloc then Some (DATA_TYPE_ACL # om) else None)"

subsection \<open>Co-processor: life of the controller\<close>

text \<open>\<open>init_bluetooth\<close>: \<open>init\<close> is what the controller returns, \<open>sem\<close> whether the semaphore is to be had.\<close>

definition init_bluetooth :: "bt_build \<Rightarrow> esp_err \<Rightarrow> bool \<Rightarrow> bt_dev \<Rightarrow> esp_err \<times> bt_dev" where
  "init_bluetooth b init sem s =
     (let s1 = ctl_called Ctl_init s in
      if init \<noteq> ESP_OK then (init, s1)
      else if bb_hci b then
        (if \<not> sem then (ESP_ERR_NO_MEM, s1\<lparr>vh_sem := None\<rparr>) else (ESP_OK, s1\<lparr>vh_sem := Some True\<rparr>))
      else (ESP_OK, s1))"

text \<open>
  \<open>deinit_bluetooth\<close>: \<open>None\<close> waits for the semaphore; \<open>ready\<close> says whether the controller gives it.
\<close>

definition deinit_bluetooth ::
  "bt_build \<Rightarrow> bool \<Rightarrow> bool \<Rightarrow> esp_err \<Rightarrow> esp_err \<Rightarrow> bt_dev \<Rightarrow> (esp_err \<times> bt_dev) option" where
  "deinit_bluetooth b mem_release ready deinit release s =
     (if bb_hci b \<and> vh_sem s = Some False \<and> \<not> ready then None
      else
       (let s1 = ctl_called Ctl_deinit (if bb_hci b then s\<lparr>vh_sem := None\<rparr> else s) in
        Some (if deinit \<noteq> ESP_OK then (deinit, s1)
          else if mem_release then
            (case bb_mode b of None \<Rightarrow> (ESP_OK, s1) | Some m \<Rightarrow> (release, ctl_called (Ctl_mem_release m) s1))
          else (ESP_OK, s1))))"

definition enable_bluetooth :: "bt_build \<Rightarrow> esp_err \<Rightarrow> esp_err \<Rightarrow> bt_dev \<Rightarrow> esp_err \<times> bt_dev" where
  "enable_bluetooth b enable register s =
     (case bb_mode b of
        None \<Rightarrow> (ESP_FAIL, s)
      | Some m \<Rightarrow>
         (let s1 = ctl_called (Ctl_enable m) s in
          if enable \<noteq> ESP_OK then (enable, s1)
          else if bb_hci b then
            (if bb_nimble b \<and> bb_old b then ESP_OK else register, ctl_called (Cb_register True) s1)
          else (ESP_OK, s1)))"

definition disable_bluetooth :: "bt_build \<Rightarrow> esp_err \<Rightarrow> bt_dev \<Rightarrow> esp_err \<times> bt_dev" where
  "disable_bluetooth b disable s =
     (disable, ctl_called Ctl_disable (if bb_hci b then ctl_called (Cb_register False) s else s))"

subsection \<open>Co-processor: HCI over a UART of its own (ESP32-C3 and ESP32-S3)\<close>

text \<open>
  The controller's transport functions: a receive or send is started with a callback and its argument, and the
  end of the DMA transfer calls it. \<open>None\<close> is a failed assertion; \<open>own\<close> says whether the interrupt came from
  the channel's own DMA. The callback is cleared before it is called, so it may start the next transfer.
\<close>

record tl_chan =
  tc_callback :: "nat option"
  tc_arg :: nat
  tc_size :: nat

record hci_tl =
  tl_rx :: tl_chan
  tl_tx :: tl_chan
  tl_notified :: nat

definition tl_arm :: "bool \<Rightarrow> nat \<Rightarrow> nat option \<Rightarrow> nat \<Rightarrow> tl_chan option" where
  "tl_arm null sz cb arg =
     (if null \<or> sz = 0 \<or> cb = None then None else Some \<lparr> tc_callback = cb, tc_arg = arg, tc_size = sz \<rparr>)"

definition hci_uart_tl_recv_async :: "bool \<Rightarrow> nat \<Rightarrow> nat option \<Rightarrow> nat \<Rightarrow> hci_tl \<Rightarrow> hci_tl option" where
  "hci_uart_tl_recv_async null sz cb arg t = map_option (\<lambda>c. t\<lparr>tl_rx := c\<rparr>) (tl_arm null sz cb arg)"

definition hci_uart_tl_send_async :: "bool \<Rightarrow> nat \<Rightarrow> nat option \<Rightarrow> nat \<Rightarrow> hci_tl \<Rightarrow> hci_tl option" where
  "hci_uart_tl_send_async null sz cb arg t = map_option (\<lambda>c. t\<lparr>tl_tx := c\<rparr>) (tl_arm null sz cb arg)"

text \<open>The callback and its argument, and the state in which it is called.\<close>

definition hci_uart_tl_rx_eof_callback :: "bool \<Rightarrow> hci_tl \<Rightarrow> (nat \<times> nat \<times> hci_tl) option" where
  "hci_uart_tl_rx_eof_callback own t =
     (case tc_callback (tl_rx t) of
        Some cb \<Rightarrow> if own then Some (cb, tc_arg (tl_rx t),
          t\<lparr>tl_rx := (tl_rx t)\<lparr>tc_callback := None, tc_arg := 0\<rparr>, tl_notified := Suc (tl_notified t)\<rparr>) else None
      | None \<Rightarrow> None)"

definition hci_uart_tl_tx_eof_callback :: "bool \<Rightarrow> hci_tl \<Rightarrow> (nat \<times> nat \<times> hci_tl) option" where
  "hci_uart_tl_tx_eof_callback own t =
     (case tc_callback (tl_tx t) of
        Some cb \<Rightarrow> if own then Some (cb, tc_arg (tl_tx t),
          t\<lparr>tl_tx := (tl_tx t)\<lparr>tc_callback := None, tc_arg := 0\<rparr>, tl_notified := Suc (tl_notified t)\<rparr>) else None
      | None \<Rightarrow> None)"

subsection \<open>Host\<close>

text \<open>
  The host stack's NimBLE port (\<open>vhci_drv.c\<close>). The packet types are those of the H4 protocol, as above; the
  codes of events and the size of an event buffer are NimBLE's and a parameter.
\<close>

record nimble =
  nb_evt_size :: nat
  nb_hw_error :: byte
  nb_le_meta :: byte
  nb_adv_rpts :: "byte list"

definition hci_pkt :: "byte list \<Rightarrow> ibuf" where
  "hci_pkt d = \<lparr> ib_if_type = ESP_HCI_IF, ib_if_num = 0, ib_flag = 0, ib_seq = 0, ib_payload = d, ib_zcopy = False \<rparr>"

text \<open>
  The result, the packet given to \<open>esp_hosted_tx\<close>, and how often the buffer of the stack is freed; \<open>flat\<close>
  is the outcome of the copy.
\<close>

definition ble_transport_to_ll_acl_impl ::
  "bool \<Rightarrow> bool \<Rightarrow> bool \<Rightarrow> byte list \<Rightarrow> esp_err \<times> ibuf option \<times> nat" where
  "ble_transport_to_ll_acl_impl alloc flat up om =
     (if \<not> alloc then (ESP_FAIL, None, 1)
      else if \<not> flat then (ESP_FAIL, None, 2)
      else (fst (esp_hosted_tx up (hci_pkt (DATA_TYPE_ACL # om))), Some (hci_pkt (DATA_TYPE_ACL # om)), 1))"

definition ble_transport_to_ll_cmd_impl :: "bool \<Rightarrow> bool \<Rightarrow> byte list \<Rightarrow> esp_err \<times> ibuf option" where
  "ble_transport_to_ll_cmd_impl alloc up cmd =
     (let pkt = hci_pkt (DATA_TYPE_COMMAND # take (3 + unat (cmd ! 2)) cmd) in
      if \<not> alloc then (ESP_FAIL, None) else (fst (esp_hosted_tx up pkt), Some pkt))"

datatype hci_rx = Hci_nothing | Hci_event bool "byte list" | Hci_acl "byte list"

text \<open>
  \<open>hci_rx_handler\<close> on the \<open>n\<close> bytes at the start of \<open>mem\<close>: the length of an event is read from the event, not
  compared with \<open>n\<close>. \<open>evt\<close> says which pool has a buffer, \<open>hs\<close> and \<open>app\<close> what the stack returns.
\<close>

definition hci_rx_handler ::
  "nimble \<Rightarrow> (bool \<Rightarrow> bool) \<Rightarrow> bool \<Rightarrow> bool \<Rightarrow> bool \<Rightarrow> byte list \<Rightarrow> nat \<Rightarrow> esp_err \<times> hci_rx" where
  "hci_rx_handler nb evt hs acl app mem n =
     (if mem ! 0 = DATA_TYPE_EVENT then
        (let totlen = 2 + unat (mem ! 2); low = (mem ! 1 = nb_le_meta nb \<and> mem ! 3 \<in> set (nb_adv_rpts nb)) in
         if nb_evt_size nb < totlen \<or> mem ! 1 = nb_hw_error nb \<or> \<not> evt low \<or> \<not> hs then (ESP_FAIL, Hci_nothing)
         else (ESP_OK, Hci_event low (take totlen (drop 1 mem))))
      else if mem ! 0 = DATA_TYPE_ACL then
        (if \<not> acl \<or> \<not> app then (ESP_FAIL, Hci_nothing) else (ESP_OK, Hci_acl (take (n - 1) (drop 1 mem))))
      else (ESP_OK, Hci_nothing))"

subsection \<open>A packet from the host to the controller\<close>

lemma hci_frame_seal:
  "sdio_frame chk (Suc (length body)) (hci_pkt (t # body)) =
     seal chk (tx_header (hci_pkt (t # body)) (length body) t) body"
  by (simp add: sdio_frame_def seal_def tx_header_def hci_pkt_def Let_def compute_checksum_def)

text \<open>What the co-processor queues of a received frame, with the header that is left in front of it.\<close>

lemma sdio_rx_seal_header:
  assumes h: "h_if_type h < 16" "h_if_num h < 16" "h_throttle_cmd h = 0"
    and l: "h_len h = word_of_nat (length body)" "h_offset h = word_of_nat HDR"
      "0 < length body" "length body \<le> MAX_PAYLOAD_SIZE"
    and n: "HDR + length body \<le> n" "n < 65536" "n \<le> HDR + length body + length pad"
  obtains c q where "sdio_rx_step chk (seal chk h body @ pad) n = (ps_flag_event (h_flags h),
      Some (prio_of (h_if_type h),
        \<lparr> ib_if_type = h_if_type h, ib_if_num = h_if_num h, ib_flag = 0, ib_seq = 0,
          ib_payload = put_header (h\<lparr>h_checksum := c\<rparr>) @ body @ q, ib_zcopy = False \<rparr>))"
proof -
  obtain p where p: "sdio_rx_step chk (seal chk h body @ pad) n = (ps_flag_event (h_flags h),
      Some (prio_of (h_if_type h),
        \<lparr> ib_if_type = h_if_type h, ib_if_num = h_if_num h, ib_flag = 0, ib_seq = 0,
          ib_payload = p, ib_zcopy = False \<rparr>))"
    using sdio_rx_seal [OF h l n] by blast
  obtain c where c: "seal chk h body = put_header (h\<lparr>h_checksum := c\<rparr>) @ body"
    by (cases chk) (auto simp: seal_def)
  have "p = take n (if chk then set_checksum 0 (seal chk h body @ pad) else seal chk h body @ pad)"
    using p n by (auto simp: sdio_rx_step_def Let_def split: if_splits)
  also have "\<dots> = take n (put_header (h\<lparr>h_checksum := if chk then 0 else c\<rparr>) @ body @ pad)"
    unfolding c by simp
  also have "\<dots> = put_header (h\<lparr>h_checksum := if chk then 0 else c\<rparr>) @ body @ take (n - HDR - length body) pad"
    using n by simp
  finally show thesis using p that by blast
qed

text \<open>C37: An HCI packet that the host sends over SDIO is given to the controller byte for byte, its type included:
  the frame carries the type in the header, the co-processor accepts it and steps one byte back from the payload.
  Without a NimBLE controller it is given only while the controller can take it or becomes ready in time, and the
  controller has to become ready again before the next; otherwise it is dropped.\<close>

theorem hci_packet_reaches_controller:
  assumes "body \<noteq> []" "length (t # body) \<le> MAX_PAYLOAD_SIZE"
    and "HDR + length body \<le> n" "n < 65536" "n \<le> HDR + length body + length pad"
  shows "\<exists>p. sdio_rx_step chk (sdio_frame chk (length (t # body)) (hci_pkt (t # body)) @ pad) n =
       (None, Some (PRIO_Q_BT, \<lparr> ib_if_type = ESP_HCI_IF, ib_if_num = 0, ib_flag = 0, ib_seq = 0,
          ib_payload = p, ib_zcopy = False \<rparr>)) \<and>
     process_hci_rx_pkt nimble in_time p (unat (h_offset (get_header p))) (unat (h_len (get_header p))) s =
       (if nimble then ctl_called (Ctl_packet (t # body)) s
        else if vh_sem s = Some True \<or> vh_sem s = Some False \<and> in_time
        then ctl_called (Ctl_packet (t # body)) (s\<lparr>vh_sem := Some False\<rparr>) else s)"
proof -
  let ?h = "tx_header (hci_pkt (t # body)) (length body) t"
  have a: "h_if_type ?h < 16" "h_if_num ?h < 16" "h_throttle_cmd ?h = 0" "h_len ?h = word_of_nat (length body)"
      "h_offset ?h = word_of_nat HDR" "0 < length body" "length body \<le> MAX_PAYLOAD_SIZE"
    using assms(1,2) by (simp_all add: hci_pkt_def ESP_HCI_IF_def)
  have k: "ps_flag_event (h_flags ?h) = None" "prio_of (h_if_type ?h) = PRIO_Q_BT" "h_if_type ?h = ESP_HCI_IF" "h_if_num ?h = 0"
      "prio_of ESP_HCI_IF = PRIO_Q_BT"
    by (simp_all add: hci_pkt_def ps_flag_event_def prio_of_def esp_ifs)
  obtain c q where r0: "sdio_rx_step chk (seal chk ?h body @ pad) n = (ps_flag_event (h_flags ?h),
      Some (prio_of (h_if_type ?h), \<lparr> ib_if_type = h_if_type ?h, ib_if_num = h_if_num ?h, ib_flag = 0, ib_seq = 0,
          ib_payload = put_header (?h\<lparr>h_checksum := c\<rparr>) @ body @ q, ib_zcopy = False \<rparr>))"
    by (rule sdio_rx_seal_header [OF a assms(3-5), of chk])
  have r: "sdio_rx_step chk (sdio_frame chk (length (t # body)) (hci_pkt (t # body)) @ pad) n =
      (None, Some (PRIO_Q_BT, \<lparr> ib_if_type = ESP_HCI_IF, ib_if_num = 0, ib_flag = 0, ib_seq = 0,
          ib_payload = put_header (?h\<lparr>h_checksum := c\<rparr>) @ body @ q, ib_zcopy = False \<rparr>))"
    using r0 unfolding k by (simp add: hci_frame_seal)
  let ?p = "put_header (?h\<lparr>h_checksum := c\<rparr>) @ body @ q"
  have g: "get_header ?p = ?h\<lparr>h_checksum := c\<rparr>" using a by (simp add: get_put_header)
  have len: "unat (word_of_nat (length body) :: u16) = length body" "Suc (length body) mod 65536 = Suc (length body)"
    using a(7) by (simp_all add: sdio_sizes unsigned_of_nat take_bit_nat_eq_self)
  have "drop 11 (put_header (?h\<lparr>h_checksum := c\<rparr>)) = [t]" by (simp add: put_header_def tx_header_def)
  then have d: "drop (HDR - 1) ?p = t # body @ q" by (simp add: HDR_def)
  have o: "unat (word_of_nat HDR :: u16) = HDR" by (simp add: HDR_def)
  have e: "unat (h_offset (get_header ?p)) = HDR" "unat (h_len (get_header ?p)) = length body"
    by (simp_all add: g o len)
  have pk: "take (Suc (length body) mod 65536) (drop (HDR - 1) ?p) = t # body" unfolding d len by simp
  have "process_hci_rx_pkt nimble in_time ?p (unat (h_offset (get_header ?p))) (unat (h_len (get_header ?p))) s =
       (if nimble then ctl_called (Ctl_packet (t # body)) s
        else if vh_sem s = Some True \<or> vh_sem s = Some False \<and> in_time
        then ctl_called (Ctl_packet (t # body)) (s\<lparr>vh_sem := Some False\<rparr>) else s)"
    unfolding e process_hci_rx_pkt_def pk Let_def by (auto split: option.splits)
  then show ?thesis using r by blast
qed

theorem hci_packet_reaches_controller_witness:
  "\<exists>p. sdio_rx_step True (sdio_frame True (length [1, 3, 12, 0]) (hci_pkt [1, 3, 12, 0]) @ [0]) 16 =
       (None, Some (PRIO_Q_BT, \<lparr> ib_if_type = ESP_HCI_IF, ib_if_num = 0, ib_flag = 0, ib_seq = 0,
          ib_payload = p, ib_zcopy = False \<rparr>)) \<and>
     process_hci_rx_pkt False False p (unat (h_offset (get_header p))) (unat (h_len (get_header p)))
         \<lparr> vh_sem = Some True, vh_calls = [] \<rparr> = \<lparr> vh_sem = Some False, vh_calls = [Ctl_packet [1, 3, 12, 0]] \<rparr>"
  using hci_packet_reaches_controller [of "[3, 12, 0]" 1 16 "[0]" True False False "\<lparr> vh_sem = Some True, vh_calls = [] \<rparr>"]
  by (simp add: sdio_sizes ctl_called_def)

subsection \<open>A packet from the controller to the host\<close>

text \<open>What the controller hands over arrives at the host's stack unchanged: an event whose length byte is right and
  which fits the stack's buffer, from the pool for advertising reports exactly when it is one, or an ACL packet. The
  type is taken off, and what lies behind the packet in memory does not matter.\<close>

theorem hci_packet_reaches_host_stack:
  assumes "length d \<le> MAX_PAYLOAD_SIZE"
    and "d ! 0 = DATA_TYPE_EVENT \<and> length d = 3 + unat (d ! 2) \<and> length d \<le> nb_evt_size nb + 1 \<and> d ! 1 \<noteq> nb_hw_error nb \<or>
      d ! 0 = DATA_TYPE_ACL \<and> d \<noteq> []"
  shows "\<exists>ib. host_rcv_pkt True True d = (0, Some ib) \<and>
     host_rx chk (update_tx_header chk ib @ pad) = Some (PRIO_Q_BT, ib) \<and>
     hci_rx_handler nb (\<lambda>_. True) True True True (ib_payload ib @ mem) (length (ib_payload ib)) =
       (ESP_OK, if d ! 0 = DATA_TYPE_EVENT
          then Hci_event (d ! 1 = nb_le_meta nb \<and> (d @ mem) ! 3 \<in> set (nb_adv_rpts nb)) (drop 1 d) else Hci_acl (drop 1 d))"
proof -
  have n: "0 < length d" using assms(2) by auto
  have r: "host_rx chk (update_tx_header chk (hci_pkt d) @ pad) = Some (PRIO_Q_BT, hci_pkt d)"
    unfolding update_tx_header_seal
    by (subst host_rx_seal) (use assms(1) n in \<open>simp_all add: hci_pkt_def prio_of_def esp_ifs\<close>)
  have h: "hci_rx_handler nb (\<lambda>_. True) True True True (d @ mem) (length d) =
       (ESP_OK, if d ! 0 = DATA_TYPE_EVENT
          then Hci_event (d ! 1 = nb_le_meta nb \<and> (d @ mem) ! 3 \<in> set (nb_adv_rpts nb)) (drop 1 d) else Hci_acl (drop 1 d))"
    using assms(2) n by (auto simp: hci_rx_handler_def Let_def nth_append DATA_TYPE_EVENT_def DATA_TYPE_ACL_def)
  show ?thesis using r h by (simp add: host_rcv_pkt_def hci_pkt_def)
qed

theorem hci_packet_reaches_host_stack_witness:
  "\<exists>ib. host_rcv_pkt True True [4, 14, 1, 0] = (0, Some ib) \<and>
     host_rx True (update_tx_header True ib @ [0]) = Some (PRIO_Q_BT, ib) \<and>
     hci_rx_handler \<lparr> nb_evt_size = 70, nb_hw_error = 16, nb_le_meta = 62, nb_adv_rpts = [2, 13] \<rparr>
       (\<lambda>_. True) True True True (ib_payload ib @ [7]) (length (ib_payload ib)) = (ESP_OK, Hci_event False [14, 1, 0])"
  using hci_packet_reaches_host_stack [of "[4, 14, 1, 0]"
      "\<lparr> nb_evt_size = 70, nb_hw_error = 16, nb_le_meta = 62, nb_adv_rpts = [2, 13] \<rparr>" True "[0]" "[7]"]
  by (simp add: sdio_sizes DATA_TYPE_EVENT_def DATA_TYPE_ACL_def)

subsection \<open>The controller over time\<close>

text \<open>
  Requests of the host, packets and the controller's callback in any order. As documented, the controller is
  initialised only when idle, enabled and removed only when initialised and not enabled, and disabled only when
  enabled; it may refuse any of these at any time.
\<close>

datatype ctl_state = Ctl_idle | Ctl_inited | Ctl_enabled

record bt_world =
  bw_dev :: bt_dev
  bw_ctl :: ctl_state

datatype hci_act =
  Hb_init esp_err bool | Hb_deinit bool bool esp_err esp_err | Hb_enable esp_err esp_err | Hb_disable esp_err
| Hb_ready | Hb_packet bool "byte list" nat nat

definition ctl_moves :: "esp_err \<Rightarrow> ctl_state \<Rightarrow> ctl_state \<Rightarrow> ctl_state \<Rightarrow> ctl_state option" where
  "ctl_moves r from to c = (if r \<noteq> ESP_OK then Some c else if c = from then Some to else None)"

fun hci_do :: "bt_build \<Rightarrow> hci_act \<Rightarrow> bt_world \<Rightarrow> bt_world option" where
  "hci_do b (Hb_init r sem) w =
     map_option (\<lambda>c. w\<lparr>bw_dev := snd (init_bluetooth b r sem (bw_dev w)), bw_ctl := c\<rparr>)
       (ctl_moves r Ctl_idle Ctl_inited (bw_ctl w))"
| "hci_do b (Hb_deinit m ready r rel) w =
     (case (deinit_bluetooth b m ready r rel (bw_dev w), ctl_moves r Ctl_inited Ctl_idle (bw_ctl w)) of
        (Some (_, s), Some c) \<Rightarrow> Some (w\<lparr>bw_dev := s, bw_ctl := c\<rparr>)
      | _ \<Rightarrow> None)"
| "hci_do b (Hb_enable r cb) w =
     (if bb_mode b = None then Some w
      else map_option (\<lambda>c. w\<lparr>bw_dev := snd (enable_bluetooth b r cb (bw_dev w)), bw_ctl := c\<rparr>)
        (ctl_moves r Ctl_inited Ctl_enabled (bw_ctl w)))"
| "hci_do b (Hb_disable r) w =
     map_option (\<lambda>c. w\<lparr>bw_dev := snd (disable_bluetooth b r (bw_dev w)), bw_ctl := c\<rparr>)
       (ctl_moves r Ctl_enabled Ctl_inited (bw_ctl w))"
| "hci_do b Hb_ready w = Some (w\<lparr>bw_dev := controller_rcv_pkt_ready (bw_dev w)\<rparr>)"
| "hci_do b (Hb_packet in_time buf off n) w =
     Some (w\<lparr>bw_dev := process_hci_rx_pkt (bb_nimble b) in_time buf off n (bw_dev w)\<rparr>)"

fun hci_run :: "bt_build \<Rightarrow> hci_act list \<Rightarrow> bt_world \<Rightarrow> bt_world option" where
  "hci_run b [] w = Some w"
| "hci_run b (a # as) w = (case hci_do b a w of None \<Rightarrow> None | Some v \<Rightarrow> hci_run b as v)"

text \<open>The packets the controller was given.\<close>

definition hci_packets :: "bt_dev \<Rightarrow> byte list list" where
  "hci_packets s = concat (map (\<lambda>k. case k of Ctl_packet p \<Rightarrow> [p] | _ \<Rightarrow> []) (vh_calls s))"

text \<open>Anything but a removal that succeeds.\<close>

fun hci_keeps :: "hci_act \<Rightarrow> bool" where
  "hci_keeps (Hb_deinit m ready r rel) \<longleftrightarrow> r \<noteq> ESP_OK"
| "hci_keeps _ \<longleftrightarrow> True"

definition hci_cut :: "bt_world \<Rightarrow> bool" where
  "hci_cut w \<longleftrightarrow> bw_ctl w \<noteq> Ctl_idle \<and> vh_sem (bw_dev w) = None"

lemmas hci_ops = init_bluetooth_def deinit_bluetooth_def enable_bluetooth_def disable_bluetooth_def
  controller_rcv_pkt_ready_def process_hci_rx_pkt_def ctl_called_def ctl_moves_def

lemma hci_cut_step:
  assumes "hci_cut w" "\<not> bb_nimble b" "hci_keeps a" "hci_do b a w = Some v"
  shows "hci_cut v \<and> hci_packets (bw_dev v) = hci_packets (bw_dev w)"
  using assms by (cases a) (auto simp: hci_cut_def hci_packets_def hci_ops Let_def split: if_splits option.splits)

lemma hci_cut_run:
  assumes "\<not> bb_nimble b" "hci_cut w" "list_all hci_keeps as" "hci_run b as w = Some v"
  shows "hci_cut v \<and> hci_packets (bw_dev v) = hci_packets (bw_dev w)"
  using assms(2-4) by (induction as arbitrary: w) (auto split: option.splits dest: hci_cut_step [OF _ assms(1)])



end
