(* ===== verification/Light_Sleep.thy ===== *)
theory Light_Sleep
  imports Host_Power
begin

section \<open>Light sleep of the co-processor (slave_light_sleep.c, example_light_sleep.c)\<close>

text \<open>
  While the host sleeps the co-processor may sleep too: a lock of the power management of ESP-IDF keeps it
  awake until \<open>slave_light_sleep_start\<close> releases it. The example ties this to the callbacks of
  \<open>Host_Power\<close>. Of the power management the documented part is here: locks exist from their creation to
  their removal, acquiring and releasing is counted, a lock that is acquired is not removed
  (\<open>ESP_ERR_INVALID_STATE\<close>), and the chip sleeps only while no lock is acquired.
\<close>

subsection \<open>Power management\<close>

record pm_mgr =
  pm_locks :: "nat list"
  pm_held :: "nat list"

definition pm_acquire :: "nat \<Rightarrow> pm_mgr \<Rightarrow> pm_mgr" where
  "pm_acquire l e = e\<lparr>pm_held := l # pm_held e\<rparr>"

definition pm_release :: "nat \<Rightarrow> pm_mgr \<Rightarrow> pm_mgr" where
  "pm_release l e = e\<lparr>pm_held := remove1 l (pm_held e)\<rparr>"

definition pm_delete :: "nat \<Rightarrow> pm_mgr \<Rightarrow> pm_mgr" where
  "pm_delete l e = (if l \<in> set (pm_held e) then e else e\<lparr>pm_locks := remove1 l (pm_locks e)\<rparr>)"

text \<open>\<open>pm_lock\<close>, \<open>pm_lock_acquired\<close> and \<open>pm_configured\<close>, beside the power management.\<close>

record light_sleep =
  ls_lock :: "nat option"
  ls_acquired :: bool
  ls_configured :: bool
  ls_pm :: pm_mgr

definition light_sleep_boot :: light_sleep where
  "light_sleep_boot = \<lparr> ls_lock = None, ls_acquired = False, ls_configured = False,
     ls_pm = \<lparr> pm_locks = [], pm_held = [] \<rparr> \<rparr>"

definition cpu_may_sleep :: "light_sleep \<Rightarrow> bool" where
  "cpu_may_sleep s \<longleftrightarrow> pm_held (ls_pm s) = []"

subsection \<open>Operations\<close>

text \<open>The results of the power management's functions are arguments; \<open>new\<close> is the lock that is created.\<close>

definition slave_light_sleep_start :: "esp_err \<Rightarrow> light_sleep \<Rightarrow> esp_err \<times> light_sleep" where
  "slave_light_sleep_start release s =
     (case ls_lock s of
        None \<Rightarrow> (ESP_ERR_INVALID_STATE, s)
      | Some l \<Rightarrow>
          if \<not> ls_configured s then (ESP_ERR_INVALID_STATE, s)
          else if \<not> ls_acquired s then (ESP_OK, s)
          else (release, if release = ESP_OK then s\<lparr>ls_acquired := False, ls_pm := pm_release l (ls_pm s)\<rparr> else s))"

definition slave_light_sleep_stop :: "esp_err \<Rightarrow> light_sleep \<Rightarrow> esp_err \<times> light_sleep" where
  "slave_light_sleep_stop acquire s =
     (case ls_lock s of
        None \<Rightarrow> (ESP_ERR_INVALID_STATE, s)
      | Some l \<Rightarrow>
          if \<not> ls_configured s then (ESP_ERR_INVALID_STATE, s)
          else if ls_acquired s then (ESP_OK, s)
          else (acquire, if acquire = ESP_OK then s\<lparr>ls_acquired := True, ls_pm := pm_acquire l (ls_pm s)\<rparr> else s))"

definition slave_light_sleep_is_configured :: "light_sleep \<Rightarrow> esp_err" where
  "slave_light_sleep_is_configured s = (if ls_configured s then ESP_OK else ESP_FAIL)"

definition slave_light_sleep_init :: "esp_err \<Rightarrow> esp_err \<Rightarrow> esp_err \<Rightarrow> nat \<Rightarrow> light_sleep \<Rightarrow> esp_err \<times> light_sleep" where
  "slave_light_sleep_init create configure acquire new s =
     (if ls_configured s then (ESP_OK, s)
      else if create \<noteq> ESP_OK then (create, s)
      else
       (let s1 = s\<lparr>ls_lock := Some new, ls_pm := (ls_pm s)\<lparr>pm_locks := new # pm_locks (ls_pm s)\<rparr>\<rparr> in
        if configure \<noteq> ESP_OK then (configure, s1\<lparr>ls_lock := None, ls_pm := pm_delete new (ls_pm s1)\<rparr>)
        else (ESP_OK, snd (slave_light_sleep_stop acquire (s1\<lparr>ls_configured := True\<rparr>)))))"

definition slave_light_sleep_deinit :: "esp_err \<Rightarrow> light_sleep \<Rightarrow> esp_err \<times> light_sleep" where
  "slave_light_sleep_deinit acquire s =
     (if \<not> ls_configured s then (ESP_OK, s)
      else
       (let pm = (case ls_lock s of
              None \<Rightarrow> ls_pm s
            | Some l \<Rightarrow> pm_delete l (if \<not> ls_acquired s \<and> acquire = ESP_OK then pm_acquire l (ls_pm s) else ls_pm s))
        in (ESP_OK, s\<lparr>ls_lock := None, ls_acquired := False, ls_configured := False, ls_pm := pm\<rparr>)))"

subsection \<open>The example: the co-processor sleeps with the host\<close>

text \<open>The four callbacks of \<open>example_light_sleep.c\<close>, of which two act, with a power management that works.\<close>

fun light_sleep_cb :: "ps_cb \<Rightarrow> light_sleep \<Rightarrow> light_sleep" where
  "light_sleep_cb On_ready s = snd (slave_light_sleep_start ESP_OK s)"
| "light_sleep_cb Off_prepare s = snd (slave_light_sleep_stop ESP_OK s)"
| "light_sleep_cb c s = s"

text \<open>
  \<open>example_light_sleep_init\<close>: host power save first, then light sleep, whose failure is only reported.
  \<open>None\<close> is the abort of a missing wake-up pin.
\<close>

definition example_light_sleep_init ::
  "bool \<Rightarrow> int \<Rightarrow> esp_err \<Rightarrow> esp_err \<Rightarrow> esp_err \<Rightarrow> esp_err \<Rightarrow> esp_err \<Rightarrow> nat \<Rightarrow> hps \<times> light_sleep \<Rightarrow>
     (esp_err \<times> hps \<times> light_sleep) option" where
  "example_light_sleep_init deep gpio r_config r_pull create configure acquire new x =
     (case x of (h, s) \<Rightarrow>
        case host_power_save_init deep gpio r_config r_pull
               (Some \<lparr> hc_enable = True, hc_gpio = gpio, hc_cbs = (\<lambda>_. True) \<rparr>) h of
          Hp_ret r h1 \<Rightarrow>
            if r \<noteq> 0 then Some (ESP_FAIL, h1, s)
            else Some (ESP_OK, h1, snd (slave_light_sleep_init create configure acquire new s))
        | _ \<Rightarrow> None)"

text \<open>An alert with the callbacks it makes; \<open>None\<close> when it crashes.\<close>

definition sleep_alert :: "bool \<Rightarrow> bool \<Rightarrow> ps_evt \<Rightarrow> hps \<times> light_sleep \<Rightarrow> (hps \<times> light_sleep) option" where
  "sleep_alert deep ops evt x =
     (case x of (h, s) \<Rightarrow>
        case host_power_save_alert deep ops evt h of
          Hp_ret r h1 \<Rightarrow> Some (h1, fold light_sleep_cb (drop (length (hp_called h)) (hp_called h1)) s)
        | _ \<Rightarrow> None)"

fun sleep_alerts :: "bool \<Rightarrow> bool \<Rightarrow> ps_evt list \<Rightarrow> hps \<times> light_sleep \<Rightarrow> (hps \<times> light_sleep) option" where
  "sleep_alerts deep ops [] x = Some x"
| "sleep_alerts deep ops (e # es) x =
     (case sleep_alert deep ops e x of None \<Rightarrow> None | Some y \<Rightarrow> sleep_alerts deep ops es y)"

definition sleep_inv :: "hps \<times> light_sleep \<Rightarrow> bool" where
  "sleep_inv x \<longleftrightarrow> (case x of (h, s) \<Rightarrow>
     hp_enable h \<and> hp_cbs h = (\<lambda>_. True) \<and> ls_configured s \<and> (ls_acquired s \<longleftrightarrow> \<not> hp_saving h) \<and>
     (\<exists>l. ls_lock s = Some l \<and> pm_held (ls_pm s) = (if ls_acquired s then [l] else [])))"

lemmas light_sleep_ops = slave_light_sleep_start_def slave_light_sleep_stop_def slave_light_sleep_init_def
  slave_light_sleep_deinit_def pm_acquire_def pm_release_def pm_delete_def

lemma sleep_alert_inv:
  assumes "sleep_inv x" "sleep_alert deep ops e x = Some y"
  shows "sleep_inv y"
  using assms
  by (cases e) (auto simp: sleep_inv_def sleep_alert_def host_power_save_alert_def call_cb_def light_sleep_ops Let_def
      split: if_splits option.splits prod.splits)

lemma sleep_alerts_inv: "sleep_inv x \<Longrightarrow> sleep_alerts deep ops es x = Some y \<Longrightarrow> sleep_inv y"
  by (induction es arbitrary: x) (auto split: option.splits dest: sleep_alert_inv)

text \<open>C22: With the example's set-up done, after any alerts the co-processor may sleep exactly while the host saves power:
  the lock is released when it has fallen asleep and acquired again before it counts as awake.\<close>

theorem light_sleep_follows_host:
  assumes "example_light_sleep_init deep gpio r_config r_pull ESP_OK ESP_OK ESP_OK new (h, light_sleep_boot) = Some (ESP_OK, x)"
    and "\<not> hp_saving h" "sleep_alerts deep ops es x = Some (h1, s1)"
  shows "cpu_may_sleep s1 \<longleftrightarrow> hp_saving h1"
proof -
  have "sleep_inv x"
    using assms(1,2)
    by (auto simp: example_light_sleep_init_def sleep_inv_def host_power_save_init_def light_sleep_boot_def
        light_sleep_ops Let_def ESP_FAIL_def ESP_OK_def split: if_splits)
  then have "sleep_inv (h1, s1)" using assms(3) by (rule sleep_alerts_inv)
  then show ?thesis by (auto simp: sleep_inv_def cpu_may_sleep_def)
qed

subsection \<open>Removal\<close>

text \<open>Calls in any order; a lock that is created is none of those that exist.\<close>

datatype light_act = La_init esp_err esp_err esp_err nat | La_start esp_err | La_stop esp_err | La_deinit esp_err

fun light_do :: "light_act \<Rightarrow> light_sleep \<Rightarrow> light_sleep option" where
  "light_do (La_init create configure acquire new) s =
     (if new \<in> set (pm_locks (ls_pm s)) then None else Some (snd (slave_light_sleep_init create configure acquire new s)))"
| "light_do (La_start release) s = Some (snd (slave_light_sleep_start release s))"
| "light_do (La_stop acquire) s = Some (snd (slave_light_sleep_stop acquire s))"
| "light_do (La_deinit acquire) s = Some (snd (slave_light_sleep_deinit acquire s))"

fun light_run :: "light_act list \<Rightarrow> light_sleep \<Rightarrow> light_sleep option" where
  "light_run [] s = Some s"
| "light_run (a # as) s = (case light_do a s of None \<Rightarrow> None | Some t \<Rightarrow> light_run as t)"

lemma light_run_append: "light_run (as @ bs) s = (case light_run as s of None \<Rightarrow> None | Some t \<Rightarrow> light_run bs t)"
  by (induction as arbitrary: s) (auto split: option.splits)

definition light_inv :: "light_sleep \<Rightarrow> bool" where
  "light_inv s \<longleftrightarrow>
     (case ls_lock s of None \<Rightarrow> \<not> ls_acquired s \<and> \<not> ls_configured s
      | Some l \<Rightarrow> l \<in> set (pm_locks (ls_pm s)) \<and> ls_configured s \<and> (ls_acquired s \<longrightarrow> l \<in> set (pm_held (ls_pm s))))"

lemma light_step_inv: "light_inv s \<Longrightarrow> light_do a s = Some t \<Longrightarrow> light_inv t"
  by (cases a) (auto simp: light_inv_def light_sleep_ops Let_def split: if_splits option.splits)

lemma light_run_inv: "light_inv s \<Longrightarrow> light_run as s = Some t \<Longrightarrow> light_inv t"
  by (induction as arbitrary: s) (auto split: option.splits dest: light_step_inv)

text \<open>A lock that was left behind acquired: it exists, is not the component's, and is never released.\<close>

definition lock_left :: "nat \<Rightarrow> light_sleep \<Rightarrow> bool" where
  "lock_left l s \<longleftrightarrow> l \<in> set (pm_locks (ls_pm s)) \<and> l \<in> set (pm_held (ls_pm s)) \<and> ls_lock s \<noteq> Some l"

lemma lock_left_step: "lock_left l s \<Longrightarrow> light_do a s = Some t \<Longrightarrow> lock_left l t"
  by (cases a) (auto simp: lock_left_def light_sleep_ops Let_def in_set_remove1 split: if_splits option.splits)

lemma lock_left_run: "lock_left l s \<Longrightarrow> light_run as s = Some t \<Longrightarrow> lock_left l t"
  by (induction as arbitrary: s) (auto split: option.splits dest: lock_left_step)

text \<open>\<open>slave_light_sleep_deinit\<close> acquires the lock and then deletes it, which the power management refuses for a
  lock that is acquired. The lock is forgotten and never released: the chip cannot sleep any more, though
  set-up and \<open>slave_light_sleep_start\<close> go on to report success.\<close>

theorem no_light_sleep_after_deinit:
  assumes "light_run as light_sleep_boot = Some s" "ls_configured s"
    and "light_run (La_deinit ESP_OK # bs) s = Some t"
  shows "\<not> cpu_may_sleep t"
proof -
  have i: "light_inv s" by (rule light_run_inv [OF _ assms(1)]) (simp add: light_inv_def light_sleep_boot_def)
  then obtain l where l: "ls_lock s = Some l" using assms(2) by (auto simp: light_inv_def split: option.splits)
  have "lock_left l (snd (slave_light_sleep_deinit ESP_OK s))"
    using i l assms(2) by (auto simp: lock_left_def light_inv_def light_sleep_ops)
  then have "lock_left l t" using assms(3) by (auto intro: lock_left_run)
  then show ?thesis by (auto simp: lock_left_def cpu_may_sleep_def)
qed

theorem no_light_sleep_after_deinit_witness:
  "\<exists>t. light_run [La_init ESP_OK ESP_OK ESP_OK 1, La_start ESP_OK, La_deinit ESP_OK, La_init ESP_OK ESP_OK ESP_OK 2, La_start ESP_OK]
     light_sleep_boot = Some t \<and> \<not> cpu_may_sleep t"
proof -
  obtain s t where s: "light_run [La_init ESP_OK ESP_OK ESP_OK 1, La_start ESP_OK] light_sleep_boot = Some s" "ls_configured s"
      "light_run [La_deinit ESP_OK, La_init ESP_OK ESP_OK ESP_OK 2, La_start ESP_OK] s = Some t"
    by (simp add: light_sleep_ops light_sleep_boot_def Let_def)
  have "light_run ([La_init ESP_OK ESP_OK ESP_OK 1, La_start ESP_OK] @ [La_deinit ESP_OK, La_init ESP_OK ESP_OK ESP_OK 2, La_start ESP_OK])
      light_sleep_boot = Some t"
    unfolding light_run_append s(1) using s(3) by (simp only: option.case)
  then show ?thesis using no_light_sleep_after_deinit [OF s] by (intro exI [of _ t]) simp
qed

theorem light_sleep_follows_host_witness:
  "\<exists>h s. sleep_alerts True True [PS_ON]
     (hps_start\<lparr>hp_if := Some ACTIVE, hp_enable := True, hp_gpio := 4, hp_cbs := \<lambda>_. True, hp_sem := Some True\<rparr>,
      snd (slave_light_sleep_init ESP_OK ESP_OK ESP_OK 1 light_sleep_boot)) = Some (h, s) \<and> cpu_may_sleep s"
proof -
  let ?x = "(hps_start\<lparr>hp_if := Some ACTIVE, hp_enable := True, hp_gpio := 4, hp_cbs := \<lambda>_. True, hp_sem := Some True\<rparr>,
      snd (slave_light_sleep_init ESP_OK ESP_OK ESP_OK 1 light_sleep_boot))"
  have i: "example_light_sleep_init True 4 ESP_OK ESP_OK ESP_OK ESP_OK ESP_OK 1 (hps_start\<lparr>hp_if := Some ACTIVE\<rparr>, light_sleep_boot) =
      Some (ESP_OK, ?x)"
    by (simp add: example_light_sleep_init_def host_power_save_init_def configure_host_wakeup_gpio_def hps_start_def
        Let_def ESP_OK_def)
  obtain h s where a: "sleep_alerts True True [PS_ON] ?x = Some (h, s)" "hp_saving h"
    by (simp add: sleep_alert_def host_power_save_alert_def call_cb_def hps_start_def Let_def)
  show ?thesis using light_sleep_follows_host [OF i _ a(1)] a by (auto simp: hps_start_def)
qed

end
