(* ===== verification/Stats.thy ===== *)
theory Stats
  imports Host_Power
begin

section \<open>Statistics and throughput tests (stats.c, stats.h)\<close>

text \<open>
  What the debugging builds of the co-processor count: the time spent in functions, the share of each task in
  the processor, the packets that are missing from a bus, and the throughput of the bus alone. The timer, the
  scheduler's snapshots and the log are parameters or results; the numbers keep their widths.
\<close>

subsection \<open>Profiled functions\<close>

text \<open>
  An entry of \<open>timing_entries\<close>: the name, \<open>struct timing_measure\<close> and \<open>struct timing_stats\<close>. The table is the
  list of the first \<open>num_timing_entries\<close>, and a pointer into it is an index.
\<close>

record prof_entry =
  pe_name :: string
  pe_start :: u32
  pe_end :: u32
  pe_total :: u32
  pe_count :: u32
  pe_min :: u32
  pe_max :: u32
  pe_avg :: u32
  pe_active :: bool

definition new_prof_entry :: "string \<Rightarrow> prof_entry" where
  "new_prof_entry f = \<lparr> pe_name = f, pe_start = 0, pe_end = 0, pe_total = 0, pe_count = 0, pe_min = 0, pe_max = 0,
     pe_avg = 0, pe_active = True \<rparr>"

fun prof_index :: "string \<Rightarrow> prof_entry list \<Rightarrow> nat option" where
  "prof_index f [] = None"
| "prof_index f (e # es) = (if pe_name e = f then Some 0 else map_option Suc (prof_index f es))"

definition register_prof_stats :: "nat \<Rightarrow> string \<Rightarrow> prof_entry list \<Rightarrow> nat option \<times> prof_entry list" where
  "register_prof_stats max_entries f t =
     (if max_entries \<le> length t then (None, t)
      else case prof_index f t of
        Some i \<Rightarrow> (Some i, t)
      | None \<Rightarrow> (Some (length t), t @ [new_prof_entry f]))"

definition get_prof_data :: "nat \<Rightarrow> prof_entry list \<Rightarrow> nat option" where
  "get_prof_data i t = (if i < length t then Some i else None)"

definition prof_start :: "nat \<Rightarrow> string \<Rightarrow> u64 \<Rightarrow> prof_entry list \<Rightarrow> prof_entry list" where
  "prof_start max_entries f now t =
     (case register_prof_stats max_entries f t of
        (None, t1) \<Rightarrow> t1
      | (Some i, t1) \<Rightarrow>
          (case get_prof_data i t1 of
             None \<Rightarrow> t1
           | Some j \<Rightarrow> t1[j := (t1 ! j)\<lparr>pe_start := ucast now\<rparr>]))"

text \<open>
  The measurement at the end of a function. Start and end are both 32 bits of the timer, so their difference
  survives a wrap of the timer; all the sums wrap at 32 bits.
\<close>

definition prof_stop :: "u64 \<Rightarrow> prof_entry \<Rightarrow> prof_entry" where
  "prof_stop now e =
     (let en = ucast now; n = pe_count e + 1; elapsed = en - pe_start e; total = pe_total e + elapsed
      in e\<lparr>pe_end := en, pe_count := n, pe_total := total,
           pe_min := (if pe_min e = 0 \<or> elapsed < pe_min e then elapsed else pe_min e),
           pe_max := (if pe_max e < elapsed then elapsed else pe_max e),
           pe_avg := (if 0 < n then total div n else pe_avg e)\<rparr>)"

definition prof_end :: "string \<Rightarrow> u64 \<Rightarrow> prof_entry list \<Rightarrow> prof_entry list" where
  "prof_end f now t =
     (case prof_index f t of None \<Rightarrow> t | Some i \<Rightarrow> t[i := prof_stop now (t ! i)])"

text \<open>What the report timer shows of an entry, per second over the interval; entries without calls are skipped.\<close>

definition prof_report :: "u32 \<Rightarrow> prof_entry \<Rightarrow> (string \<times> u32 \<times> u32 \<times> u32 \<times> u32 \<times> u32) option" where
  "prof_report interval e =
     (if \<not> pe_active e \<or> pe_count e = 0 then None
      else Some (pe_name e, pe_count e, pe_min e, pe_max e, pe_total e div pe_count e, pe_count e div interval))"

text \<open>Calls of profiled functions one after the other, each with the times at which it starts and ends.\<close>

definition prof_call :: "nat \<Rightarrow> string \<times> u64 \<times> u64 \<Rightarrow> prof_entry list \<Rightarrow> prof_entry list" where
  "prof_call max_entries c t = (case c of (f, t0, t1) \<Rightarrow> prof_end f t1 (prof_start max_entries f t0 t))"

definition prof_run :: "nat \<Rightarrow> (string \<times> u64 \<times> u64) list \<Rightarrow> prof_entry list" where
  "prof_run max_entries cs = fold (prof_call max_entries) cs []"

definition prof_entry_of :: "string \<Rightarrow> prof_entry list \<Rightarrow> prof_entry option" where
  "prof_entry_of f t = map_option ((!) t) (prof_index f t)"

text \<open>The reference: the durations of the calls of a function, each below the 71 minutes of 32 bits.\<close>

definition durations :: "string \<Rightarrow> (string \<times> u64 \<times> u64) list \<Rightarrow> u32 list" where
  "durations f cs = map (\<lambda>(g, t0, t1). ucast (t1 - t0)) (filter (\<lambda>c. fst c = f) cs)"

lemma prof_index_Some: "prof_index f t = Some i \<Longrightarrow> i < length t \<and> pe_name (t ! i) = f"
  by (induction t arbitrary: i) (auto split: if_splits)

lemma prof_index_None: "prof_index f t = None \<longleftrightarrow> f \<notin> pe_name ` set t"
  by (induction t) (auto split: if_splits)

lemma prof_index_append:
  "prof_index f (t @ u) = (case prof_index f t of Some i \<Rightarrow> Some i | None \<Rightarrow> map_option (\<lambda>i. i + length t) (prof_index f u))"
  by (induction t) (auto split: option.splits simp: option.map_comp comp_def option.map_ident)

lemma prof_index_update:
  assumes "i < length t" "pe_name e = pe_name (t ! i)"
  shows "prof_index f (t[i := e]) = prof_index f t"
  using assms by (induction t arbitrary: i) (auto split: nat.splits)

lemma pe_name_stop [simp]: "pe_name (prof_stop now e) = pe_name e"
  by (simp add: prof_stop_def Let_def)

text \<open>The entry that a call measures, when there is room.\<close>

definition measured :: "string \<times> u64 \<times> u64 \<Rightarrow> prof_entry option \<Rightarrow> prof_entry" where
  "measured c old = (case c of (f, t0, t1) \<Rightarrow>
     prof_stop t1 ((case old of None \<Rightarrow> new_prof_entry f | Some e \<Rightarrow> e)\<lparr>pe_start := ucast t0\<rparr>))"

lemma prof_call_new:
  assumes "length t < m" "prof_index f t = None"
  shows "prof_call m (f, t0, t1) t = t @ [measured (f, t0, t1) None]"
  using assms
  by (simp add: prof_call_def prof_start_def register_prof_stats_def get_prof_data_def prof_end_def
    prof_index_append measured_def new_prof_entry_def)

lemma prof_call_again:
  assumes "length t < m" "prof_index f t = Some i"
  shows "prof_call m (f, t0, t1) t = t[i := measured (f, t0, t1) (Some (t ! i))]"
  using assms prof_index_Some [OF assms(2)]
  by (simp add: prof_call_def prof_start_def register_prof_stats_def get_prof_data_def prof_end_def
    prof_index_update measured_def)

lemma pe_name_measured: "pe_name (measured (f, t0, t1) old) = (case old of None \<Rightarrow> f | Some e \<Rightarrow> pe_name e)"
  by (simp add: measured_def new_prof_entry_def split: option.split)

lemma prof_call_names:
  assumes "length t < m"
  shows "map pe_name (prof_call m (f, t0, t1) t) = (if f \<in> pe_name ` set t then map pe_name t else map pe_name t @ [f])"
proof (cases "prof_index f t")
  case None
  then show ?thesis using assms by (simp add: prof_call_new pe_name_measured prof_index_None)
next
  case (Some i)
  then have "f \<in> pe_name ` set t" using prof_index_None [of f t] by auto
  then show ?thesis using assms Some prof_index_Some [OF Some]
    by (simp add: prof_call_again pe_name_measured map_update list_update_same_conv)
qed

lemma prof_call_entry:
  assumes "length t < m"
  shows "prof_entry_of g (prof_call m (f, t0, t1) t) =
      (if g = f then Some (measured (f, t0, t1) (prof_entry_of f t)) else prof_entry_of g t)"
proof (cases "prof_index f t")
  case None
  then show ?thesis using assms
    by (auto simp: prof_call_new prof_entry_of_def prof_index_append pe_name_measured nth_append
      split: option.splits dest: prof_index_Some)
next
  case (Some i)
  note i = prof_index_Some [OF Some]
  have "prof_index g t = Some i \<Longrightarrow> g = f" using i prof_index_Some by metis
  then show ?thesis using assms Some i
    by (cases "prof_index g t") (auto simp: prof_call_again prof_entry_of_def prof_index_update pe_name_measured
      nth_list_update dest: prof_index_Some)
qed


lemma prof_run_snoc: "prof_run m (cs @ [c]) = prof_call m c (prof_run m cs)"
  by (simp add: prof_run_def)

lemma durations_snoc: "durations f (cs @ [(g, t0, t1)]) = durations f cs @ (if g = f then [ucast (t1 - t0)] else [])"
  by (simp add: durations_def)

lemma card_names_snoc: "card (fst ` set (cs @ [c])) < m \<Longrightarrow> card (fst ` set cs) < m"
  by (rule le_less_trans [OF card_mono]) auto

lemma prof_run_names:
  assumes "card (fst ` set cs) < m"
  shows "distinct (map pe_name (prof_run m cs)) \<and> pe_name ` set (prof_run m cs) = fst ` set cs"
  using assms
proof (induction cs rule: rev_induct)
  case Nil
  then show ?case by (simp add: prof_run_def)
next
  case (snoc c cs)
  obtain f t0 t1 where c: "c = (f, t0, t1)" by (cases c)
  have "card (fst ` set cs) < m"
    using snoc.prems by (rule card_names_snoc)
  with snoc.IH have ih: "distinct (map pe_name (prof_run m cs))" "pe_name ` set (prof_run m cs) = fst ` set cs" by auto
  have "length (prof_run m cs) < m"
    using distinct_card [OF ih(1)] ih(2) \<open>card (fst ` set cs) < m\<close> by simp
  note n = prof_call_names [OF this, of f t0 t1]
  have "distinct (map pe_name (prof_call m c (prof_run m cs)))" using n ih by (auto simp: c)
  moreover have "pe_name ` set (prof_call m c (prof_run m cs)) = insert f (fst ` set cs)"
    using arg_cong [OF n, of set] ih(2) by (auto simp: c split: if_splits)
  ultimately show ?case by (simp add: prof_run_snoc c)
qed

lemma prof_run_room:
  assumes "card (fst ` set cs) < m"
  shows "length (prof_run m cs) < m"
  using prof_run_names [OF assms] assms distinct_card [of "map pe_name (prof_run m cs)"] by simp

definition prof_agrees :: "u32 list \<Rightarrow> prof_entry option \<Rightarrow> bool" where
  "prof_agrees ds old \<longleftrightarrow> (case old of None \<Rightarrow> ds = []
     | Some e \<Rightarrow> ds \<noteq> [] \<and> pe_count e = of_nat (length ds) \<and> pe_total e = sum_list ds \<and> pe_max e = Max (set ds) \<and>
         (0 \<in> set ds \<or> pe_min e = Min (set ds)) \<and>
         (pe_count e = 0 \<or> pe_avg e = sum_list ds div of_nat (length ds)))"

lemma elapsed_ucast: "(ucast t1 - ucast t0 :: u32) = ucast (t1 - t0 :: u64)"
  by (transfer, subst (2) take_bit_diff [symmetric]) simp

lemma min_or_unset:
  assumes "ds \<noteq> []" "0 \<notin> set ds"
  shows "(if Min (set ds) = 0 \<or> x < Min (set ds) then x else Min (set ds)) = Min (set (ds @ [x :: u32]))"
proof -
  define a where "a = Min (set ds)"
  have "a \<in> set ds" using assms(1) unfolding a_def by (intro Min_in) simp_all
  then have "a \<noteq> 0" using assms(2) by metis
  moreover have "Min (set (ds @ [x])) = min x a" using assms(1) by (simp add: a_def)
  ultimately show ?thesis unfolding a_def [symmetric] by (auto simp: min_def)
qed

lemma max_or_last:
  assumes "ds \<noteq> []"
  shows "(if Max (set ds) < x then x else Max (set ds)) = Max (set (ds @ [x :: u32]))"
proof -
  define a where "a = Max (set ds)"
  have "Max (set (ds @ [x])) = max x a" using assms by (simp add: a_def)
  then show ?thesis unfolding a_def [symmetric] by (auto simp: max_def)
qed

lemma measured_agrees:
  assumes "prof_agrees ds old"
  shows "prof_agrees (ds @ [ucast (t1 - t0)]) (Some (measured (f, t0, t1) old))"
proof (cases old)
  case None
  then show ?thesis using assms
    by (simp add: prof_agrees_def measured_def new_prof_entry_def prof_stop_def Let_def elapsed_ucast word_gt_0 del: right_minus_eq)
next
  case (Some e)
  let ?x = "ucast (t1 - t0) :: u32" and ?e = "measured (f, t0, t1) old"
  have e: "ds \<noteq> []" "pe_count e = of_nat (length ds)" "pe_total e = sum_list ds" "pe_max e = Max (set ds)"
    "0 \<in> set ds \<or> pe_min e = Min (set ds)"
    using assms Some by (auto simp: prof_agrees_def)
  have m: "pe_count ?e = of_nat (length ds) + 1" "pe_total ?e = sum_list ds + ?x"
    "pe_max ?e = (if Max (set ds) < ?x then ?x else Max (set ds))"
    "pe_min ?e = (if pe_min e = 0 \<or> ?x < pe_min e then ?x else pe_min e)"
    "pe_count ?e = 0 \<or> pe_avg ?e = (sum_list ds + ?x) div (of_nat (length ds) + 1)"
    using e by (simp_all add: Some measured_def prof_stop_def Let_def elapsed_ucast word_gt_0)
  have "0 \<in> set (ds @ [?x]) \<or> pe_min ?e = Min (set (ds @ [?x]))"
  proof (cases "0 \<in> set ds")
    case False
    then show ?thesis using e(5) m(4) min_or_unset [OF e(1) False, of ?x] by metis
  qed simp
  moreover have "pe_max ?e = Max (set (ds @ [?x]))" using m(3) max_or_last [OF e(1)] by metis
  ultimately show ?thesis using m by (simp add: prof_agrees_def algebra_simps)
qed

text \<open>C40: While fewer functions are profiled than the table has room for, the table shows for every function exactly
  the number, sum, largest, smallest and mean of the durations of its calls, at 32 bits, the smallest when no call
  took less than a microsecond; and no other function.\<close>

theorem profile_agrees_with_durations:
  assumes "card (fst ` set cs) < m"
  shows "prof_agrees (durations f cs) (prof_entry_of f (prof_run m cs))"
  using assms
proof (induction cs rule: rev_induct)
  case Nil
  then show ?case by (simp add: prof_agrees_def durations_def prof_run_def prof_entry_of_def)
next
  case (snoc c cs)
  obtain g t0 t1 where c: "c = (g, t0, t1)" by (cases c)
  note room = card_names_snoc [OF snoc.prems]
  show ?case using snoc.IH [OF room]
    by (auto simp: c prof_run_snoc durations_snoc prof_call_entry [OF prof_run_room [OF room]] intro: measured_agrees)
qed

theorem profile_agrees_with_durations_witness:
  "prof_agrees [20, 8] (prof_entry_of ''rx'' (prof_run 10 [(''rx'', 0xFFFFFFF6, 0x10000000A), (''tx'', 30, 40), (''rx'', 50, 58)]))"
  using profile_agrees_with_durations [of "[(''rx'', 0xFFFFFFF6, 0x10000000A), (''tx'', 30, 40), (''rx'', 50, 58)]" 10 "''rx''"]
  by (simp add: durations_def card_insert_if)

text \<open>
  \<open>register_prof_stats\<close> looks at the room before it looks for the function: in a full table no call is started
  any more, and the end of each adds the time since the last start that was recorded.
\<close>

theorem full_table_keeps_old_start:
  assumes "m \<le> length t"
  shows "prof_entry_of f (prof_call m (f, t0, t1) t) = map_option (prof_stop t1) (prof_entry_of f t)"
proof (cases "prof_index f t")
  case (Some i)
  then show ?thesis using assms prof_index_Some [OF Some]
    by (simp add: prof_call_def prof_start_def register_prof_stats_def prof_end_def prof_entry_of_def prof_index_update)
qed (use assms in \<open>simp add: prof_call_def prof_start_def register_prof_stats_def prof_end_def prof_entry_of_def\<close>)

text \<open>A minimum of zero is read as none: a call below a microsecond is forgotten by the next.\<close>

lemma minimum_forgets_zero: "pe_min e = 0 \<Longrightarrow> pe_min (prof_stop now e) = ucast now - pe_start e"
  by (simp add: prof_stop_def Let_def)

subsection \<open>Share of the processor\<close>

text \<open>
  One task of \<open>uxTaskGetSystemState\<close>; handle 0 is \<open>NULL\<close>. The name is a pointer into the task itself; what
  stands there when it is printed is a function \<open>name_at\<close>.
\<close>

record task_status =
  ts_handle :: nat
  ts_name :: nat
  ts_runtime :: u32
  ts_prio :: u32
  ts_hwm :: u32

datatype stat_line =
    Task_line string u32 u32 u32 u32
  | Task_deleted string
  | Task_created string

datatype stat_result = Stat_ret esp_err "stat_line list" | Stat_crash

text \<open>The inner loop: the first task of the second snapshot with the handle, which is cleared there.\<close>

fun take_task :: "nat \<Rightarrow> task_status list \<Rightarrow> (task_status \<times> task_status list) option" where
  "take_task h [] = None"
| "take_task h (e # es) =
     (if ts_handle e = h then Some (e, e\<lparr>ts_handle := 0\<rparr> # es)
      else map_option (\<lambda>(k, es1). (k, e # es1)) (take_task h es))"

fun match_tasks ::
  "task_status list \<Rightarrow> task_status list \<Rightarrow> (task_status \<times> task_status) list \<times> task_status list \<times> task_status list" where
  "match_tasks [] es = ([], [], es)"
| "match_tasks (s # ss) es =
     (case take_task (ts_handle s) es of
        None \<Rightarrow> (case match_tasks ss es of (ps, ss1, es1) \<Rightarrow> (ps, s # ss1, es1))
      | Some (k, es0) \<Rightarrow>
          (case match_tasks ss es0 of (ps, ss1, es1) \<Rightarrow> ((s, k) # ps, s\<lparr>ts_handle := 0\<rparr> # ss1, es1)))"

definition task_elapsed :: "task_status \<times> task_status \<Rightarrow> u32" where
  "task_elapsed p = ts_runtime (snd p) - ts_runtime (fst p)"

definition percentage_time :: "u32 \<Rightarrow> u32 \<Rightarrow> task_status \<times> task_status \<Rightarrow> u32" where
  "percentage_time run_time procs p = task_elapsed p * 100 div (run_time * procs)"

definition task_line :: "(nat \<Rightarrow> string) \<Rightarrow> u32 \<Rightarrow> u32 \<Rightarrow> task_status \<times> task_status \<Rightarrow> stat_line" where
  "task_line name_at run_time procs p =
     Task_line (name_at (ts_name (snd p))) (task_elapsed p) (percentage_time run_time procs p) (ts_prio (snd p)) (ts_hwm (snd p))"

text \<open>
  \<open>log_real_time_stats\<close>: the two snapshots with their run times; an empty one is the scheduler's refusal of
  an array that is too small. Both arrays are freed on every path. Dividing by zero crashes.
\<close>

definition log_real_time_stats ::
  "(nat \<Rightarrow> string) \<Rightarrow> u32 \<Rightarrow> bool \<Rightarrow> bool \<Rightarrow> task_status list \<times> u32 \<Rightarrow> task_status list \<times> u32 \<Rightarrow> stat_result" where
  "log_real_time_stats name_at procs malloc1 malloc2 x y =
     (if \<not> malloc1 then Stat_ret ESP_ERR_NO_MEM []
      else if fst x = [] then Stat_ret ESP_ERR_INVALID_SIZE []
      else if \<not> malloc2 then Stat_ret ESP_ERR_NO_MEM []
      else if fst y = [] then Stat_ret ESP_ERR_INVALID_SIZE []
      else
       (let run_time = snd y - snd x in
        if run_time = 0 then Stat_ret ESP_ERR_INVALID_STATE []
        else case match_tasks (fst x) (fst y) of (ps, ss, es) \<Rightarrow>
          if ps \<noteq> [] \<and> run_time * procs = 0 then Stat_crash
          else Stat_ret ESP_OK
            (map (task_line name_at run_time procs) ps @
             map (\<lambda>s. Task_deleted (name_at (ts_name s))) (filter (\<lambda>s. ts_handle s \<noteq> 0) ss) @
             map (\<lambda>e. Task_created (name_at (ts_name e))) (filter (\<lambda>e. ts_handle e \<noteq> 0) es))))"

definition clear_tasks :: "nat set \<Rightarrow> task_status list \<Rightarrow> task_status list" where
  "clear_tasks H = map (\<lambda>e. if ts_handle e \<in> H then e\<lparr>ts_handle := 0\<rparr> else e)"

lemma clear_tasks_simps [simp]:
  "clear_tasks H [] = []"
  "clear_tasks H (e # es) = (if ts_handle e \<in> H then e\<lparr>ts_handle := 0\<rparr> else e) # clear_tasks H es"
  by (simp_all add: clear_tasks_def)

lemma clear_tasks_other: "h \<notin> ts_handle ` set es \<Longrightarrow> clear_tasks (insert h H) es = clear_tasks H es"
  by (induction es) auto

lemma clear_tasks_none: "clear_tasks {} es = es"
  by (induction es) auto

lemma take_task_cleared:
  assumes "distinct (map ts_handle es)" "h \<notin> H" "h \<noteq> 0"
  shows "take_task h (clear_tasks H es) =
    (case filter (\<lambda>e. ts_handle e = h) es of [] \<Rightarrow> None | e # _ \<Rightarrow> Some (e, clear_tasks (insert h H) es))"
  using assms
proof (induction es)
  case (Cons e es)
  show ?case
  proof (cases "ts_handle e = h")
    case True
    then have "h \<notin> ts_handle ` set es" using Cons.prems(1) by auto
    then show ?thesis using True Cons.prems(2) by (auto simp: clear_tasks_other)
  next
    case False
    then show ?thesis using Cons by (auto split: list.splits)
  qed
qed simp

definition same_task_pairs :: "task_status list \<Rightarrow> task_status list \<Rightarrow> (task_status \<times> task_status) list" where
  "same_task_pairs ss es = concat (map (\<lambda>s. map (Pair s) (filter (\<lambda>e. ts_handle e = ts_handle s) es)) ss)"

lemma filter_handle_distinct:
  "distinct (map ts_handle es) \<Longrightarrow> filter (\<lambda>e. ts_handle e = h) es = e # xs \<Longrightarrow> xs = [] \<and> ts_handle e = h \<and> e \<in> set es"
  by (induction es) (auto split: if_splits simp: filter_empty_conv image_iff, metis+)

lemma match_tasks_cleared:
  assumes "distinct (map ts_handle ss)" "distinct (map ts_handle es)" "0 \<notin> ts_handle ` set ss" "H \<inter> ts_handle ` set ss = {}"
  shows "match_tasks ss (clear_tasks H es) =
    (same_task_pairs ss es, clear_tasks (ts_handle ` set es) ss, clear_tasks (H \<union> (ts_handle ` set ss)) es)"
  using assms
proof (induction ss arbitrary: H)
  case (Cons s ss)
  let ?h = "ts_handle s"
  have h: "?h \<notin> H" "?h \<noteq> 0" "?h \<notin> ts_handle ` set ss" using Cons.prems by auto
  note t = take_task_cleared [OF Cons.prems(2) h(1,2)]
  show ?case
  proof (cases "filter (\<lambda>e. ts_handle e = ?h) es")
    case Nil
    then have "?h \<notin> ts_handle ` set es" by (auto simp: filter_empty_conv image_iff)
    moreover have "clear_tasks (H \<union> insert ?h (ts_handle ` set ss)) es = clear_tasks (H \<union> ts_handle ` set ss) es"
      using clear_tasks_other [OF calculation, of "H \<union> ts_handle ` set ss"] by simp
    ultimately show ?thesis using t Nil Cons.IH [of H] Cons.prems by (simp add: same_task_pairs_def)
  next
    case (Cons e xs)
    note e = filter_handle_distinct [OF Cons.prems(2) Cons]
    then have "?h \<in> ts_handle ` set es" by (metis imageI)
    then show ?thesis using t Cons e Cons.IH [of "insert ?h H"] Cons.prems h
      by (simp add: same_task_pairs_def)
  qed
qed (simp add: same_task_pairs_def)

lemma filter_cleared: "0 \<notin> ts_handle ` set es \<Longrightarrow>
    filter (\<lambda>e. 0 < ts_handle e) (clear_tasks H es) = filter (\<lambda>e. ts_handle e \<notin> H) es"
  by (induction es) auto

text \<open>From two snapshots the report has a line for each task in both, with the difference of its own run times
  and the second snapshot's priority and stack mark, then the tasks that are gone, then the new ones.\<close>

theorem cpu_report_pairs_tasks:
  assumes "distinct (map ts_handle ss)" "distinct (map ts_handle es)"
    and "0 \<notin> ts_handle ` set ss" "0 \<notin> ts_handle ` set es"
    and "ss \<noteq> []" "es \<noteq> []" "(t1 - t0) * procs \<noteq> 0"
  shows "log_real_time_stats name_at procs True True (ss, t0) (es, t1) = Stat_ret ESP_OK
     (map (task_line name_at (t1 - t0) procs) (same_task_pairs ss es) @
      map (\<lambda>s. Task_deleted (name_at (ts_name s))) (filter (\<lambda>s. ts_handle s \<notin> ts_handle ` set es) ss) @
      map (\<lambda>e. Task_created (name_at (ts_name e))) (filter (\<lambda>e. ts_handle e \<notin> ts_handle ` set ss) es))"
proof -
  have "t1 - t0 \<noteq> 0" using assms(7) by auto
  moreover have "match_tasks ss es = (same_task_pairs ss es, clear_tasks (ts_handle ` set es) ss, clear_tasks (ts_handle ` set ss) es)"
    using match_tasks_cleared [OF assms(1-3), of "{}"] by (simp add: clear_tasks_none)
  ultimately show ?thesis using assms(3-7)
    by (simp add: log_real_time_stats_def Let_def filter_cleared del: right_minus_eq)
qed

definition snapshot_1 :: "task_status list" where
  "snapshot_1 = [\<lparr> ts_handle = 1, ts_name = 10, ts_runtime = 400, ts_prio = 0, ts_hwm = 900 \<rparr>,
     \<lparr> ts_handle = 2, ts_name = 20, ts_runtime = 4294967295, ts_prio = 5, ts_hwm = 300 \<rparr>]"

definition snapshot_2 :: "task_status list" where
  "snapshot_2 = [\<lparr> ts_handle = 3, ts_name = 30, ts_runtime = 7, ts_prio = 2, ts_hwm = 80 \<rparr>,
     \<lparr> ts_handle = 2, ts_name = 20, ts_runtime = 499, ts_prio = 6, ts_hwm = 250 \<rparr>]"

theorem cpu_report_pairs_tasks_witness:
  "log_real_time_stats (\<lambda>n. if n = 20 then ''rx'' else ''x'') 1 True True (snapshot_1, 1000) (snapshot_2, 2000) =
     Stat_ret ESP_OK [Task_line ''rx'' 500 50 6 250, Task_deleted ''x'', Task_created ''x'']"
  using cpu_report_pairs_tasks [of snapshot_1 snapshot_2 2000 1000 1 "\<lambda>n. if n = 20 then ''rx'' else ''x''"]
  by (simp add: snapshot_1_def snapshot_2_def same_task_pairs_def task_line_def task_elapsed_def percentage_time_def)

text \<open>While 100 times the run times fit 32 bits, as in the two seconds of the task, the shares are at most 100 together.\<close>

lemma sum_div_le: "(\<Sum>x\<leftarrow>xs. f x div (n :: nat)) \<le> (\<Sum>x\<leftarrow>xs. f x) div n"
proof (induction xs)
  case (Cons x xs)
  have "f x div n + (\<Sum>x\<leftarrow>xs. f x) div n \<le> (f x + (\<Sum>x\<leftarrow>xs. f x)) div n" by (rule ord_le_eq_trans [OF _ div_add1_eq [symmetric]]) simp
  then show ?case using Cons by simp
qed simp

lemma percentage_time_nat:
  assumes "unat (task_elapsed p) * 100 < 2 ^ 32" "unat r * unat procs < 2 ^ 32"
  shows "unat (percentage_time r procs p) = unat (task_elapsed p) * 100 div (unat r * unat procs)"
  using assms by (simp add: percentage_time_def unat_div unat_mult_lem [THEN iffD1])

theorem shares_at_most_hundred:
  assumes "\<And>p. p \<in> set ps \<Longrightarrow> unat (task_elapsed p) * 100 < 2 ^ 32" "unat r * unat procs < 2 ^ 32" "0 < unat r * unat procs"
    and "(\<Sum>p\<leftarrow>ps. unat (task_elapsed p)) \<le> unat r * unat procs"
  shows "(\<Sum>p\<leftarrow>ps. unat (percentage_time r procs p)) \<le> 100"
proof -
  let ?n = "unat r * unat procs"
  have "(\<Sum>p\<leftarrow>ps. unat (percentage_time r procs p)) = (\<Sum>p\<leftarrow>ps. unat (task_elapsed p) * 100 div ?n)"
    using assms(1,2) by (intro arg_cong [of _ _ sum_list] map_cong) (simp_all add: percentage_time_nat)
  also have "\<dots> \<le> (\<Sum>p\<leftarrow>ps. unat (task_elapsed p) * 100) div ?n" by (rule sum_div_le)
  also have "\<dots> = (\<Sum>p\<leftarrow>ps. unat (task_elapsed p)) * 100 div ?n" by (simp add: sum_list_mult_const)
  also have "\<dots> \<le> ?n * 100 div ?n" using assms(4) by (intro div_le_mono mult_le_mono1)
  finally show ?thesis using assms(3) by simp
qed

subsection \<open>Missing packets\<close>

text \<open>The macros that number the packets of a bus and look for missing ones; the result is the warning.\<close>

definition UPDATE_HEADER_TX_PKT_NO :: "u16 \<Rightarrow> u16 \<times> u16" where
  "UPDATE_HEADER_TX_PKT_NO tx_pkt_num = (tx_pkt_num, tx_pkt_num + 1)"

definition UPDATE_HEADER_RX_PKT_NO :: "u16 \<Rightarrow> u16 \<Rightarrow> bool \<times> u16" where
  "UPDATE_HEADER_RX_PKT_NO exp_num rcvd =
     (let warn = (exp_num \<noteq> rcvd); e = (if warn then rcvd else exp_num) in (warn, e + 1))"

fun rx_pkt_warnings :: "u16 \<Rightarrow> u16 list \<Rightarrow> bool list" where
  "rx_pkt_warnings e [] = []"
| "rx_pkt_warnings e (n # ns) =
     (case UPDATE_HEADER_RX_PKT_NO e n of (w, e1) \<Rightarrow> w # rx_pkt_warnings e1 ns)"

text \<open>What arrives of numbered packets when the bus loses \<open>gs ! k\<close> of them before the \<open>k\<close>-th that arrives.\<close>

fun lossy_numbers :: "u16 \<Rightarrow> nat list \<Rightarrow> u16 list" where
  "lossy_numbers n [] = []"
| "lossy_numbers n (g # gs) =
     (case UPDATE_HEADER_TX_PKT_NO (n + of_nat g) of (h, n1) \<Rightarrow> h # lossy_numbers n1 gs)"

lemma of_nat_u16_zero: "of_nat g = (0 :: u16) \<longleftrightarrow> 65536 dvd g"
  by (simp add: word_of_nat_eq_0_iff)

text \<open>Every gap is reported once, at the packet after it, unless it is a multiple of 65536 packets.\<close>

theorem gaps_reported_once:
  "rx_pkt_warnings n (lossy_numbers n gs) = map (\<lambda>g. \<not> 65536 dvd g) gs"
  by (induction gs arbitrary: n)
    (auto simp: UPDATE_HEADER_RX_PKT_NO_def UPDATE_HEADER_TX_PKT_NO_def Let_def of_nat_u16_zero [symmetric])

subsection \<open>Throughput of the bus alone\<close>

text \<open>
  The counters of both directions, the start of the current interval, and how many sending tasks run: they never
  end. \<open>datapath\<close> is the co-processor's.
\<close>

record raw_tp =
  test_raw_tp_rx_len :: u64
  test_raw_tp_tx_len :: u64
  rt_cur :: u32
  rt_tasks :: nat

definition raw_tp_boot :: raw_tp where
  "raw_tp_boot = \<lparr> test_raw_tp_rx_len = 0, test_raw_tp_tx_len = 0, rt_cur = 0, rt_tasks = 0 \<rparr>"

definition debug_update_raw_tp_rx_count :: "u16 \<Rightarrow> raw_tp \<Rightarrow> raw_tp" where
  "debug_update_raw_tp_rx_count len s = s\<lparr>test_raw_tp_rx_len := test_raw_tp_rx_len s + ucast len\<rparr>"

text \<open>The buffer: words of \<open>0xdeadbeef\<close> up to the last whole word, which with the rest stays zero.\<close>

definition raw_tp_tx_buf :: "nat \<Rightarrow> byte list" where
  "raw_tp_tx_buf len =
     concat (replicate (len div 4 - 1) (le_put 4 (0xdeadbeef :: u32))) @ replicate (len - 4 * (len div 4 - 1)) 0"

definition raw_tp_pkt :: "nat \<Rightarrow> ibuf" where
  "raw_tp_pkt len = \<lparr> ib_if_type = ESP_TEST_IF, ib_if_num = 0, ib_flag = 0, ib_seq = 0,
     ib_payload = raw_tp_tx_buf len, ib_zcopy = False \<rparr>"

text \<open>One round of \<open>raw_tp_tx_task\<close>.\<close>

definition raw_tp_tx_round :: "pm_env \<Rightarrow> nat \<Rightarrow> raw_tp \<times> copro \<Rightarrow> raw_tp \<times> copro" where
  "raw_tp_tx_round pm len x =
     (case x of (s, c) \<Rightarrow>
        if \<not> cp_datapath c then (s, c)
        else case send_to_host_queue pm (raw_tp_pkt len) c of (r, c1) \<Rightarrow>
          if r \<noteq> 0 then (s, c1)
          else (s\<lparr>test_raw_tp_tx_len := test_raw_tp_tx_len s + of_nat len\<rparr>, c1))"

text \<open>The report of an interval: its bounds in seconds, bits per second received and sent; then all starts anew.\<close>

definition stats_timer_raw :: "u32 \<Rightarrow> raw_tp \<Rightarrow> (u32 \<times> u32 \<times> u64 \<times> u64) \<times> raw_tp" where
  "stats_timer_raw timeout s =
     ((rt_cur s, rt_cur s + timeout, test_raw_tp_rx_len s * 8 div ucast timeout, test_raw_tp_tx_len s * 8 div ucast timeout),
      s\<lparr>rt_cur := rt_cur s + timeout, test_raw_tp_rx_len := 0, test_raw_tp_tx_len := 0\<rparr>)"

text \<open>The part of the same timer that reports the profiled functions and stores their means.\<close>

definition stats_timer_profile :: "u32 \<Rightarrow> prof_entry list \<Rightarrow> (string \<times> u32 \<times> u32 \<times> u32 \<times> u32 \<times> u32) list \<times> prof_entry list" where
  "stats_timer_profile interval t =
     (map (\<lambda>e. the (prof_report interval e)) (filter (\<lambda>e. prof_report interval e \<noteq> None) t),
      map (\<lambda>e. if prof_report interval e = None then e else e\<lparr>pe_avg := pe_total e div pe_count e\<rparr>) t)"

definition ESP_TEST_RAW_TP :: u8 where "ESP_TEST_RAW_TP = 1"
definition ESP_TEST_RAW_TP__ESP_TO_HOST :: u8 where "ESP_TEST_RAW_TP__ESP_TO_HOST = 2"
definition ESP_TEST_RAW_TP__BIDIRECTIONAL :: u8 where "ESP_TEST_RAW_TP__BIDIRECTIONAL = 8"

text \<open>\<open>None\<close> is the failed assertion that the task could be created.\<close>

definition process_test_capabilities :: "bool \<Rightarrow> u8 \<Rightarrow> raw_tp \<Rightarrow> raw_tp option" where
  "process_test_capabilities create_ok caps s =
     (if caps AND ESP_TEST_RAW_TP__ESP_TO_HOST \<noteq> 0 \<or> caps AND ESP_TEST_RAW_TP__BIDIRECTIONAL \<noteq> 0
      then (if create_ok then Some (s\<lparr>rt_tasks := Suc (rt_tasks s)\<rparr>) else None)
      else Some s)"

definition debug_get_raw_tp_conf :: "bool \<Rightarrow> u8" where
  "debug_get_raw_tp_conf test_raw_tp = (if test_raw_tp then ESP_TEST_RAW_TP else 0)"

text \<open>What a build starts at set-up: the task of the processor shares, the timer with its period in microseconds.\<close>

record stats_build =
  sb_runtime_stats :: bool
  sb_raw_tp :: bool
  sb_pkt_stats :: bool
  sb_raw_interval :: int
  sb_pkt_interval :: int

datatype debug_job = Log_runtime_stats_task | Stats_timer int

definition ESP_PKT_STATS_REPORT_INTERVAL :: "stats_build \<Rightarrow> int" where
  "ESP_PKT_STATS_REPORT_INTERVAL b = (if sb_raw_tp b then sb_raw_interval b else sb_pkt_interval b)"

definition SEC_TO_USEC :: "int \<Rightarrow> int" where "SEC_TO_USEC x = x * 1000 * 1000"

definition start_timer_to_display_stats :: "bool \<Rightarrow> int \<Rightarrow> debug_job list option" where
  "start_timer_to_display_stats timer_ok secs = (if timer_ok then Some [Stats_timer (SEC_TO_USEC secs)] else None)"

definition create_debugging_tasks :: "bool \<Rightarrow> bool \<Rightarrow> stats_build \<Rightarrow> debug_job list option" where
  "create_debugging_tasks task_ok timer_ok b =
     (if sb_runtime_stats b \<and> \<not> task_ok then None
      else
       (let jobs = (if sb_runtime_stats b then [Log_runtime_stats_task] else []) in
        if sb_raw_tp b \<or> sb_pkt_stats b
        then map_option ((@) jobs) (start_timer_to_display_stats timer_ok (ESP_PKT_STATS_REPORT_INTERVAL b))
        else Some jobs))"

text \<open>
  Every configuration a host sends with the bit set starts another sender, as after each restart of the host;
  all of them write the one static buffer to the bus.
\<close>

theorem senders_multiply:
  "((\<lambda>s. Option.bind s (process_test_capabilities True ESP_TEST_RAW_TP__ESP_TO_HOST)) ^^ k) (Some s) =
     Some (s\<lparr>rt_tasks := rt_tasks s + k\<rparr>)"
  by (induction k) (auto simp: process_test_capabilities_def ESP_TEST_RAW_TP__ESP_TO_HOST_def)

text \<open>
  What is counted as sent is what the task tried to send: the result is success whatever became of the packet,
  so that a sleeping host that cannot be woken, or a bus without a driver, shows full throughput.
\<close>

theorem unsent_packets_counted:
  assumes "cp_datapath c" "\<not> cp_if_write c \<or> pm_saving pm \<and> pm_wakeup_needed pm (raw_tp_pkt n) \<and> \<not> pm_wakeup_host pm"
  shows "raw_tp_tx_round pm n (s, c) = (s\<lparr>test_raw_tp_tx_len := test_raw_tp_tx_len s + of_nat n\<rparr>, c)"
  using assms by (auto simp: raw_tp_tx_round_def send_to_host_queue_def process_tx_pkt_def ESP_OK_def)

lemma length_raw_tp_tx_buf: "length (raw_tp_tx_buf n) = n"
  by (simp add: raw_tp_tx_buf_def length_concat sum_list_replicate)

lemma round_sends:
  assumes "cp_datapath c" "cp_if_write c" "\<not> pm_saving pm"
  shows "raw_tp_tx_round pm n (s, c) =
    (s\<lparr>test_raw_tp_tx_len := test_raw_tp_tx_len s + of_nat n\<rparr>, c\<lparr>cp_written := cp_written c @ [raw_tp_pkt n]\<rparr>)"
  using assms by (simp add: raw_tp_tx_round_def send_to_host_queue_def process_tx_pkt_def ESP_OK_def)

text \<open>Over an awake bus the report of an interval is the bits of exactly the payloads given to the driver and
  received in it, per second, and the next interval starts at zero where this one ended.\<close>

theorem report_is_throughput:
  assumes "cp_datapath c" "cp_if_write c" "\<not> pm_saving pm"
    and "test_raw_tp_tx_len s = 0" "test_raw_tp_rx_len s = 0"
  shows "case (raw_tp_tx_round pm n ^^ k) (fold debug_update_raw_tp_rx_count lens s, c) of (s1, c1) \<Rightarrow>
    cp_written c1 = cp_written c @ replicate k (raw_tp_pkt n) \<and>
    stats_timer_raw t s1 =
      ((rt_cur s, rt_cur s + t, (\<Sum>l\<leftarrow>lens. ucast l) * 8 div ucast t,
        of_nat (\<Sum>b\<leftarrow>drop (length (cp_written c)) (cp_written c1). length (ib_payload b)) * 8 div ucast t),
       s\<lparr>rt_cur := rt_cur s + t\<rparr>)"
proof -
  have rx: "fold debug_update_raw_tp_rx_count ls u = u\<lparr>test_raw_tp_rx_len := test_raw_tp_rx_len u + (\<Sum>l\<leftarrow>ls. ucast l)\<rparr>" for ls u
    by (induction ls arbitrary: u) (simp_all add: debug_update_raw_tp_rx_count_def algebra_simps)
  have tx: "(raw_tp_tx_round pm n ^^ k) (u, c) =
      (u\<lparr>test_raw_tp_tx_len := test_raw_tp_tx_len u + of_nat (k * n)\<rparr>, c\<lparr>cp_written := cp_written c @ replicate k (raw_tp_pkt n)\<rparr>)" for u
    using assms(1-3) by (induction k) (simp_all add: round_sends replicate_append_same algebra_simps)
  show ?thesis using assms(4,5)
    by (simp add: rx tx stats_timer_raw_def sum_list_replicate raw_tp_pkt_def length_raw_tp_tx_buf)
qed

end
