(* ===== verification/Peer_Example.thy ===== *)
theory Peer_Example
  imports Custom_Callbacks
begin

section \<open>The peer data example (example_peer_data_transfer.c)\<close>

text \<open>
  The example registers a callback for three messages of the host, each with a context of its own, and answers
  every message with the same data under another id: the callback tables of \<open>Custom_Callbacks\<close> as a client
  uses them. A callback and its context are named by the animal they belong to.
\<close>

datatype animal = Cat | Dog | Human

fun animal_req :: "animal \<Rightarrow> u32" where
  "animal_req Cat = 1" | "animal_req Dog = 3" | "animal_req Human = 5"

fun animal_resp :: "animal \<Rightarrow> u32" where
  "animal_resp Cat = 2" | "animal_resp Dog = 4" | "animal_resp Human = 6"

definition MSG_ID_GHOST :: u32 where "MSG_ID_GHOST = 99"

definition verify_user_ptr :: "animal option \<Rightarrow> animal \<Rightarrow> bool" where
  "verify_user_ptr user ctx \<longleftrightarrow> user = Some ctx"

text \<open>A callback: whether the context is the one registered, which is only printed, and the answer that is sent.\<close>

definition animal_callback ::
  "(nat \<Rightarrow> bool) \<Rightarrow> animal \<Rightarrow> byte list \<Rightarrow> animal option \<Rightarrow> bool \<times> esp_err \<times> byte list option" where
  "animal_callback malloc a d user =
     (verify_user_ptr user a, esp_hosted_send_custom_data malloc (animal_resp a) (Some d) (length d))"

definition example_peer_data_transfer_init ::
  "rtos \<Rightarrow> (animal, animal) cb_table \<Rightarrow> esp_err \<times> (animal, animal) cb_table" where
  "example_peer_data_transfer_init os t =
     (let register = (\<lambda>a t. esp_hosted_register_custom_callback os t (animal_req a) (Some a) (Some a)) in
      case register Cat t of (r1, t1) \<Rightarrow>
        if r1 \<noteq> ESP_OK then (r1, t1)
        else (case register Dog t1 of (r2, t2) \<Rightarrow>
          if r2 \<noteq> ESP_OK then (r2, t2) else register Human t2))"

text \<open>A message of the host: the dispatch, and what the callback it reaches sends back.\<close>

definition peer_message ::
  "rtos \<Rightarrow> (nat \<Rightarrow> bool) \<Rightarrow> (animal, animal) cb_table \<Rightarrow> u32 \<Rightarrow> byte list \<Rightarrow> esp_err \<times> (bool \<times> esp_err \<times> byte list option) option" where
  "peer_message os malloc t mid d =
     (case handle_custom_rpc_request os t mid d of
        (r, None) \<Rightarrow> (r, None)
      | (r, Some (a, _, d', user)) \<Rightarrow> (r, Some (animal_callback malloc a d' user)))"

lemma find_slot_replicate: "find_slot P (replicate m x) = (if P x \<and> 0 < m then Some 0 else None)"
  by (cases m) (auto simp: find_slot_None)

definition peer_slot :: "animal \<Rightarrow> (animal, animal) cb_slot" where
  "peer_slot a = \<lparr>cs_msg_id = animal_req a, cs_callback = Some a, cs_context = Some a\<rparr>"

lemma peer_slot_simps [simp]:
  "cs_msg_id (peer_slot a) = animal_req a" "cs_callback (peer_slot a) = Some a" "cs_context (peer_slot a) = Some a"
  by (simp_all add: peer_slot_def)

lemma peer_register:
  assumes "mutex_create_ok os" "mutex_take_ok os" "ct_slots t = map peer_slot as @ replicate m empty_slot" "a \<notin> set as"
  shows "esp_hosted_register_custom_callback os t (animal_req a) (Some a) (Some a) =
    (if m = 0 then ESP_ERR_NO_MEM else ESP_OK,
     t\<lparr>ct_mutex := True, ct_slots := map peer_slot (if m = 0 then as else as @ [a]) @ replicate (m - 1) empty_slot\<rparr>)"
proof -
  have n: "animal_req a \<noteq> CB_NONE" by (cases a) (simp_all add: CB_NONE_def)
  have d: "animal_req b = animal_req a \<longleftrightarrow> b = a" for b by (cases b; cases a) simp_all
  have "find_slot (\<lambda>s. cs_msg_id s = animal_req a) (ct_slots t) = None"
    using assms(3,4) n d by (auto simp: find_slot_None)
  moreover have "find_slot (\<lambda>s. cs_callback s = None) (ct_slots t) = (if m = 0 then None else Some (length as))"
    unfolding assms(3) by (induction as) (simp_all add: find_slot_replicate)
  ultimately show ?thesis using assms n
    by (cases m) (auto simp: esp_hosted_register_custom_callback_def Let_def peer_slot_def list_update_append)
qed

lemma peer_table:
  assumes "mutex_create_ok os" "mutex_take_ok os"
  shows "example_peer_data_transfer_init os (cb_init n) =
    (if n < 3 then ESP_ERR_NO_MEM else ESP_OK,
     \<lparr>ct_slots = map peer_slot (take n [Cat, Dog, Human]) @ replicate (n - 3) empty_slot, ct_mutex = True\<rparr>)"
proof -
  have r: "esp_hosted_register_custom_callback os \<lparr>ct_slots = map peer_slot as @ replicate m empty_slot, ct_mutex = b\<rparr>
      (animal_req a) (Some a) (Some a) = (if m = 0 then ESP_ERR_NO_MEM else ESP_OK,
      \<lparr>ct_slots = map peer_slot (if m = 0 then as else as @ [a]) @ replicate (m - 1) empty_slot, ct_mutex = True\<rparr>)"
    if "a \<notin> set as" for as m b a
    using peer_register [OF assms _ that, of "\<lparr>ct_slots = map peer_slot as @ replicate m empty_slot, ct_mutex = b\<rparr>" m] by simp
  note r0 = r [of Cat "[]", simplified]
  note r1 = r [of Dog "[Cat]", simplified]
  note r2 = r [of Human "[Cat, Dog]", simplified]
  consider "n = 0" | "n = 1" | "n = 2" | m where "n = Suc (Suc (Suc m))"
    by (metis One_nat_def Suc_1 old.nat.exhaust)
  then have x: "(if n = 0 then (ESP_ERR_NO_MEM, \<lparr>ct_slots = [], ct_mutex = True\<rparr>)
     else if n - 1 = 0 then (ESP_ERR_NO_MEM, \<lparr>ct_slots = map peer_slot [Cat], ct_mutex = True\<rparr>)
     else if n - 1 - 1 = 0 then (ESP_ERR_NO_MEM, \<lparr>ct_slots = map peer_slot [Cat, Dog], ct_mutex = True\<rparr>)
     else (ESP_OK, \<lparr>ct_slots = map peer_slot [Cat, Dog, Human] @ replicate (n - 1 - 1 - 1) empty_slot, ct_mutex = True\<rparr>)) =
    (if n < 3 then ESP_ERR_NO_MEM else ESP_OK,
     \<lparr>ct_slots = map peer_slot (take n [Cat, Dog, Human]) @ replicate (n - 3) empty_slot, ct_mutex = True\<rparr>)"
    by cases simp_all
  show ?thesis unfolding x [symmetric]
    by (simp add: example_peer_data_transfer_init_def cb_init_def r0 r1 r2 Let_def ESP_OK_def ESP_ERR_NO_MEM_def)
qed

text \<open>
  With room for three callbacks the set-up succeeds, every message of one of the three kinds of 1 to 8166 bytes
  is echoed to the host under the answer's id with the right context, and any other message is refused; with less
  room the set-up fails.
\<close>

theorem peer_example_echoes:
  assumes "mutex_create_ok os" "mutex_take_ok os" "\<And>k. malloc k" "d \<noteq> []" "length d \<le> 8166" "3 \<le> n"
  shows "case example_peer_data_transfer_init os (cb_init n) of (r, t) \<Rightarrow>
     r = ESP_OK \<and> peer_message os malloc t MSG_ID_GHOST d = (ESP_ERR_NOT_FOUND, None) \<and>
     (\<exists>buf. peer_message os malloc t (animal_req a) d = (ESP_OK, Some (True, ESP_OK, Some buf)) \<and>
        rpc_evt_custom_rpc buf = (animal_resp a, d))"
proof -
  let ?t = "\<lparr>ct_slots = map peer_slot (take n [Cat, Dog, Human]) @ replicate (n - 3) empty_slot, ct_mutex = True\<rparr>"
  have t: "take n [Cat, Dog, Human] = [Cat, Dog, Human]" using assms(6) by simp
  have "peer_message os malloc ?t MSG_ID_GHOST d = (ESP_ERR_NOT_FOUND, None)"
    using assms(2) by (simp add: t peer_message_def handle_custom_rpc_request_def cb_hit_def find_slot_replicate
      MSG_ID_GHOST_def CB_NONE_def)
  moreover have "peer_message os malloc ?t (animal_req a) d = (ESP_OK, Some (animal_callback malloc a d (Some a)))"
    using assms(2) by (cases a) (simp_all add: t peer_message_def handle_custom_rpc_request_def cb_hit_def CB_NONE_def)
  moreover have "\<exists>buf. animal_callback malloc a d (Some a) = (True, ESP_OK, Some buf) \<and> rpc_evt_custom_rpc buf = (animal_resp a, d)"
    using assms(3-5) by (simp add: animal_callback_def verify_user_ptr_def esp_hosted_send_custom_data_def rpc_evt_custom_rpc_def)
  ultimately show ?thesis using assms(1,2,6) by (simp add: peer_table)
qed

end
