(* ===== verification/Net_Examples.thy ===== *)
theory Net_Examples
  imports Nw_Split Host_Power
begin

section \<open>The network examples (example_mqtt_client.c, example_http_client.c)\<close>

text \<open>
  Two clients on the co-processor's own IP stack that the address events of \<open>slave_network_split.c\<close> resume and
  pause: an MQTT client, which wakes the host for a message, and a task that fetches a page every ten seconds.
  The MQTT library and the sockets are results given to the operations; what the code keeps of them is here.
\<close>

subsection \<open>The MQTT client\<close>

text \<open>\<open>client\<close>, \<open>client_started\<close>, and whether the library's client runs.\<close>

record mqtt =
  mq_client :: bool
  mq_started :: bool
  mq_running :: bool

definition mqtt_boot :: mqtt where
  "mqtt_boot = \<lparr> mq_client = False, mq_started = False, mq_running = False \<rparr>"

definition example_mqtt_client_init :: "bool \<Rightarrow> mqtt \<Rightarrow> esp_err \<times> mqtt" where
  "example_mqtt_client_init init_ok m = (if init_ok then ESP_OK else ESP_FAIL, m\<lparr>mq_client := init_ok\<rparr>)"

definition example_mqtt_client_resume :: "bool \<Rightarrow> esp_err \<Rightarrow> mqtt \<Rightarrow> esp_err \<times> mqtt" where
  "example_mqtt_client_resume init_ok start m =
     (let m1 = (if mq_client m then m else snd (example_mqtt_client_init init_ok m)) in
      if mq_client m1 \<and> \<not> mq_started m1
      then (start, m1\<lparr>mq_started := True, mq_running := mq_running m1 \<or> start = ESP_OK\<rparr>)
      else (ESP_OK, m1))"

definition example_mqtt_client_pause :: "esp_err \<Rightarrow> mqtt \<Rightarrow> esp_err \<times> mqtt" where
  "example_mqtt_client_pause stop m =
     (if mq_client m \<and> mq_started m
      then (stop, m\<lparr>mq_started := False, mq_running := mq_running m \<and> stop \<noteq> ESP_OK\<rparr>)
      else (ESP_OK, m))"

text \<open>The client's events: what it asks of the library, and for a message the call that wakes the host.\<close>

datatype mqtt_call =
    Mq_publish string string nat
  | Mq_subscribe string nat
  | Mq_unsubscribe string

datatype mqtt_evt = Mq_connected | Mq_subscribed | Mq_data "byte list" | Mq_other

definition mqtt_data_wakes :: "byte list \<Rightarrow> bool" where
  "mqtt_data_wakes d =
     (length WAKEUP_HOST_STRING \<le> length d mod 65536 \<and> take (length WAKEUP_HOST_STRING) d = WAKEUP_HOST_STRING)"

definition mqtt_event_handler ::
  "bool \<Rightarrow> if_state option \<Rightarrow> (nat \<Rightarrow> wake_round) \<Rightarrow> nat \<Rightarrow> mqtt_evt \<Rightarrow> hps \<Rightarrow> (mqtt_call list \<times> hps) option" where
  "mqtt_event_handler ctx reinit rd now evt h =
     (case evt of
        Mq_connected \<Rightarrow> Some ([Mq_publish ''/topic/qos1'' ''data_3'' 1, Mq_subscribe ''/topic/qos0'' 0,
            Mq_subscribe ''/topic/qos1'' 1, Mq_unsubscribe ''/topic/qos1''], h)
      | Mq_subscribed \<Rightarrow> Some ([Mq_publish ''/topic/qos0'' ''data'' 0], h)
      | Mq_data d \<Rightarrow>
          (if mqtt_data_wakes d then map_option (\<lambda>(_, h1). ([], h1)) (wakeup_host ctx reinit rd now 0xFFFFFFFF h)
           else Some ([], h))
      | Mq_other \<Rightarrow> Some ([], h))"

subsection \<open>The HTTP client\<close>

text \<open>
  Where the task stands: before a round, waiting while paused, before each call of the network, and in the
  hundred waits between rounds. The state keeps the sockets and address lists that are open, and how many tasks
  were deleted by force.
\<close>

datatype http_pc =
    Ht_top | Ht_pause | Ht_lookup | Ht_socket | Ht_connect | Ht_write | Ht_option | Ht_read
  | Ht_idle nat | Ht_stopped

record http =
  hc_handle :: bool
  hc_paused :: bool
  hc_stop :: bool
  hc_task :: "http_pc option"
  hc_sockets :: nat
  hc_infos :: nat
  hc_forced :: nat

definition http_boot :: http where
  "http_boot = \<lparr> hc_handle = False, hc_paused = False, hc_stop = False, hc_task = None, hc_sockets = 0,
     hc_infos = 0, hc_forced = 0 \<rparr>"

text \<open>One step of the task; \<open>ok\<close> is the outcome of the call it makes, for the read whether bytes came.\<close>

fun http_step_at :: "http_pc \<Rightarrow> bool \<Rightarrow> http \<Rightarrow> http" where
  "http_step_at Ht_top ok s = s\<lparr>hc_task := Some (if hc_stop s then Ht_stopped else Ht_pause)\<rparr>"
| "http_step_at Ht_pause ok s =
     s\<lparr>hc_task := Some (if hc_stop s then Ht_stopped else if hc_paused s then Ht_pause else Ht_lookup)\<rparr>"
| "http_step_at Ht_lookup ok s =
     (if ok then s\<lparr>hc_task := Some Ht_socket, hc_infos := hc_infos s + 1\<rparr> else s\<lparr>hc_task := Some Ht_top\<rparr>)"
| "http_step_at Ht_socket ok s =
     (if ok then s\<lparr>hc_task := Some Ht_connect, hc_sockets := hc_sockets s + 1\<rparr>
      else s\<lparr>hc_task := Some Ht_top, hc_infos := hc_infos s - 1\<rparr>)"
| "http_step_at Ht_connect ok s =
     (if ok then s\<lparr>hc_task := Some Ht_write, hc_infos := hc_infos s - 1\<rparr>
      else s\<lparr>hc_task := Some Ht_top, hc_sockets := hc_sockets s - 1, hc_infos := hc_infos s - 1\<rparr>)"
| "http_step_at Ht_write ok s =
     (if ok then s\<lparr>hc_task := Some Ht_option\<rparr> else s\<lparr>hc_task := Some Ht_top, hc_sockets := hc_sockets s - 1\<rparr>)"
| "http_step_at Ht_option ok s =
     (if ok then s\<lparr>hc_task := Some Ht_read\<rparr> else s\<lparr>hc_task := Some Ht_top, hc_sockets := hc_sockets s - 1\<rparr>)"
| "http_step_at Ht_read ok s =
     (if ok then s else s\<lparr>hc_task := Some (Ht_idle 0), hc_sockets := hc_sockets s - 1\<rparr>)"
| "http_step_at (Ht_idle i) ok s =
     s\<lparr>hc_task := Some (if i < 100 \<and> \<not> hc_paused s \<and> \<not> hc_stop s then Ht_idle (Suc i) else Ht_top)\<rparr>"
| "http_step_at Ht_stopped ok s = s\<lparr>hc_handle := False, hc_task := None\<rparr>"

definition http_get_task_step :: "bool \<Rightarrow> http \<Rightarrow> http" where
  "http_get_task_step ok s = (case hc_task s of None \<Rightarrow> s | Some pc \<Rightarrow> http_step_at pc ok s)"

definition example_http_client_init :: "bool \<Rightarrow> http \<Rightarrow> esp_err \<times> http" where
  "example_http_client_init create_ok s =
     (if hc_handle s then (ESP_FAIL, s)
      else
       (let s1 = s\<lparr>hc_stop := False, hc_paused := False\<rparr> in
        if \<not> create_ok then (ESP_FAIL, s1) else (ESP_OK, s1\<lparr>hc_handle := True, hc_task := Some Ht_top\<rparr>)))"

definition example_http_client_pause :: "http \<Rightarrow> esp_err \<times> http" where
  "example_http_client_pause s =
     (if \<not> hc_handle s then (ESP_FAIL, s)
      else if hc_paused s then (ESP_OK, s)
      else (ESP_OK, s\<lparr>hc_paused := True\<rparr>))"

definition example_http_client_resume :: "bool \<Rightarrow> http \<Rightarrow> esp_err \<times> http" where
  "example_http_client_resume create_ok s =
     (if \<not> hc_handle s then example_http_client_init create_ok s
      else if \<not> hc_paused s then (ESP_OK, s)
      else (ESP_OK, s\<lparr>hc_paused := False\<rparr>))"

text \<open>
  Stopping: the steps that the task takes in the hundred waits, with their outcomes; a task that is still there
  is deleted where it stands.
\<close>

definition example_http_client_stop :: "bool list \<Rightarrow> http \<Rightarrow> esp_err \<times> http" where
  "example_http_client_stop oks s =
     (if \<not> hc_handle s then (ESP_OK, s)
      else
       (let s1 = fold http_get_task_step oks (s\<lparr>hc_stop := True\<rparr>) in
        (ESP_OK, if hc_handle s1 then s1\<lparr>hc_handle := False, hc_task := None, hc_forced := hc_forced s1 + 1\<rparr> else s1)))"

subsection \<open>The address events\<close>

datatype net_act =
    Got_ip bool esp_err bool
  | Lost_ip esp_err
  | Http_stop "bool list"
  | Http_runs bool

fun net_do :: "net_act \<Rightarrow> mqtt \<times> http \<Rightarrow> mqtt \<times> http" where
  "net_do (Got_ip init_ok start create_ok) (m, s) =
     (snd (example_mqtt_client_resume init_ok start m), snd (example_http_client_resume create_ok s))"
| "net_do (Lost_ip stop) (m, s) = (snd (example_mqtt_client_pause stop m), snd (example_http_client_pause s))"
| "net_do (Http_stop oks) (m, s) = (m, snd (example_http_client_stop oks s))"
| "net_do (Http_runs ok) (m, s) = (m, http_get_task_step ok s)"

definition net_run :: "net_act list \<Rightarrow> mqtt \<times> http" where
  "net_run as = fold net_do as (mqtt_boot, http_boot)"

subsection \<open>Sockets are closed on every path\<close>

fun sockets_used :: "http_pc \<Rightarrow> nat" where
  "sockets_used pc = (if pc \<in> {Ht_connect, Ht_write, Ht_option, Ht_read} then 1 else 0)"

fun infos_used :: "http_pc \<Rightarrow> nat" where
  "infos_used pc = (if pc \<in> {Ht_socket, Ht_connect} then 1 else 0)"

definition http_ok :: "http \<Rightarrow> bool" where
  "http_ok s \<longleftrightarrow> (hc_handle s \<longleftrightarrow> hc_task s \<noteq> None) \<and>
     (let a = (case hc_task s of None \<Rightarrow> 0 | Some pc \<Rightarrow> sockets_used pc);
          b = (case hc_task s of None \<Rightarrow> 0 | Some pc \<Rightarrow> infos_used pc)
      in a \<le> hc_sockets s \<and> hc_sockets s \<le> a + hc_forced s \<and> b \<le> hc_infos s \<and> hc_infos s \<le> b + hc_forced s)"

lemma http_step_ok:
  assumes "http_ok s"
  shows "http_ok (http_get_task_step ok s)"
proof (cases "hc_task s")
  case (Some pc)
  then show ?thesis using assms
    by (cases pc) (auto simp: http_get_task_step_def http_ok_def Let_def)
qed (use assms in \<open>simp add: http_get_task_step_def\<close>)

lemma http_steps_ok: "http_ok s \<Longrightarrow> http_ok (fold http_get_task_step oks s)"
  by (induction oks arbitrary: s) (auto simp: http_step_ok)

lemma http_stop_ok:
  assumes "http_ok s"
  shows "http_ok (snd (example_http_client_stop oks s))"
proof -
  let ?s = "fold http_get_task_step oks (s\<lparr>hc_stop := True\<rparr>)"
  have "http_ok (s\<lparr>hc_stop := True\<rparr>)" using assms by (simp add: http_ok_def Let_def)
  from http_steps_ok [OF this, of oks]
  have "http_ok (?s\<lparr>hc_handle := False, hc_task := None, hc_forced := hc_forced ?s + 1\<rparr>)"
    by (auto simp: http_ok_def Let_def split: option.splits if_splits)
  with \<open>http_ok ?s\<close> show ?thesis using assms by (simp add: example_http_client_stop_def Let_def)
qed

lemma http_start_ok: "http_ok s \<Longrightarrow> http_ok (snd (example_http_client_resume c s))"
  by (auto simp: http_ok_def example_http_client_resume_def example_http_client_init_def Let_def)

lemma http_pause_ok: "http_ok s \<Longrightarrow> http_ok (snd (example_http_client_pause s))"
  by (auto simp: http_ok_def example_http_client_pause_def Let_def split: option.splits)

lemma net_do_ok: "http_ok (snd x) \<Longrightarrow> http_ok (snd (net_do a x))"
  by (cases x; cases a) (auto simp: http_step_ok http_stop_ok http_start_ok http_pause_ok)

text \<open>
  In every run of events and task, the handle is set exactly while the task lives, the socket and address list it
  has open are those of the call it makes, and at most one of each is lost for every task deleted by force.
\<close>

theorem http_sockets_accounted: "http_ok (snd (net_run as))"
proof -
  have "http_ok (snd x) \<Longrightarrow> http_ok (snd (fold net_do as x))" for x
    by (induction as arbitrary: x) (auto simp: net_do_ok)
  then show ?thesis by (simp add: net_run_def http_ok_def http_boot_def)
qed

text \<open>A stop while the server keeps sending is by force, and its socket stays open.\<close>

theorem forced_stop_loses_socket:
  assumes "hc_handle s" "hc_task s = Some Ht_read"
  shows "example_http_client_stop (replicate n True) s =
    (ESP_OK, s\<lparr>hc_stop := True, hc_handle := False, hc_task := None, hc_forced := hc_forced s + 1\<rparr>)"
proof -
  have "fold http_get_task_step (replicate n True) u = u" if "hc_task u = Some Ht_read" for u
    using that by (induction n) (simp_all add: http_get_task_step_def)
  then show ?thesis using assms by (simp add: example_http_client_stop_def Let_def)
qed

subsection \<open>A start that fails\<close>

lemma resume_started: "mq_client m \<Longrightarrow> mq_started m \<Longrightarrow> example_mqtt_client_resume i r m = (ESP_OK, m)"
  by (simp add: example_mqtt_client_resume_def)

text \<open>
  \<open>client_started\<close> is set before the start is tried: when it fails, every later address event reports
  success and starts nothing, until the address is lost.
\<close>

theorem failed_start_not_retried:
  assumes "r \<noteq> ESP_OK" "\<not> mq_started m" "\<not> mq_running m"
  shows "case example_mqtt_client_resume True r m of (e, m1) \<Rightarrow>
     e = r \<and> \<not> mq_running m1 \<and> (\<forall>i r1. example_mqtt_client_resume i r1 m1 = (ESP_OK, m1))"
  using assms by (auto simp: example_mqtt_client_resume_def example_mqtt_client_init_def)

definition mq_ok :: "mqtt \<Rightarrow> bool" where
  "mq_ok m \<longleftrightarrow> mq_running m = mq_started m \<and> (mq_started m \<longrightarrow> mq_client m)"

fun net_calm :: "net_act \<Rightarrow> bool" where
  "net_calm (Got_ip i r c) \<longleftrightarrow> i \<and> r = ESP_OK"
| "net_calm (Lost_ip r) \<longleftrightarrow> r = ESP_OK"
| "net_calm a \<longleftrightarrow> True"

text \<open>Whether the last address event gave an address.\<close>

fun has_ip :: "net_act \<Rightarrow> bool \<Rightarrow> bool" where
  "has_ip (Got_ip i r c) b = True"
| "has_ip (Lost_ip r) b = False"
| "has_ip a b = b"

text \<open>While the library's calls succeed, the MQTT client runs exactly while the station has an address.\<close>

theorem mqtt_follows_address:
  assumes "list_all net_calm as"
  shows "mq_running (fst (net_run as)) \<longleftrightarrow> fold has_ip as False"
proof -
  have "mq_ok (fst (net_do a x)) \<and> mq_running (fst (net_do a x)) = has_ip a (mq_running (fst x))"
    if "mq_ok (fst x)" "net_calm a" for a x
    using that by (cases x; cases a) (auto simp: mq_ok_def example_mqtt_client_resume_def
      example_mqtt_client_init_def example_mqtt_client_pause_def Let_def)
  then have "mq_ok (fst x) \<Longrightarrow> list_all net_calm as \<Longrightarrow>
      mq_running (fst (fold net_do as x)) = fold has_ip as (mq_running (fst x))" for x
    by (induction as arbitrary: x) simp_all
  then show ?thesis using assms by (simp add: net_run_def mq_ok_def mqtt_boot_def)
qed

end
