(* ===== verification/Spec2Isabelle.thy ===== *)
theory Spec2Isabelle
  imports Phy_EndToEnd Phy_Host_Steps Rpc_EndToEnd Coprocessor Wifi_Events Uart_Link Spi_Bus
    Spi_Hd_Bus Sdio_Slave Driver_Life Slave_Bt
    Light_Sleep Stats Peer_Example Net_Examples
begin

text \<open>
  A verification library of esp-hosted-open.

  \<^bold>\<open>The program.\<close> A host MCU uses the radio of a second ESP chip, the co-processor. On the co-processor
  runs the firmware of \<open>src/slave/main\<close> (ESP-Hosted) with the overlay of
  \<open>src/slave/components/phy_rpc_overlay\<close>; on the host the library of \<open>src/esp_hosted_open\<close> above the
  vendored driver of \<open>src/vendor/esp_hosted/host\<close>. A bus (SDIO, SPI, SPI half duplex or UART) carries frames
  with a common header. One kind of frame is the serial channel, which carries the RPC: a request in an
  envelope of tag, length and value, unpacked by protobuf code and dispatched by message id to a
  handler that calls the drivers of ESP-IDF. The overlay's PHY calls travel inside one such request, the
  custom message, and are dispatched a second time by a table of callbacks.

  \<^bold>\<open>Conventions.\<close> A struct is a record or a view of its bytes, an enum a datatype, a machine integer a word of
  its width where wrap-around or truncation matters. An error is a value; a crash (null pointer, failed
  assertion, access outside a block, use after free) is a constructor of the result or \<open>None\<close>. Code that
  is not in the repository (ESP-IDF, FreeRTOS, lwIP, libphy, generated protobuf code) is a parameter:
  what its calls return is an argument, and what they were called with is a log in the state. Whether
  memory can be allocated is a parameter too. Log output is left out.

  \<^bold>\<open>PHY calls\<close>, from \<open>include/phy_rpc_proto.h\<close>, \<open>phy_rpc.c\<close> and the overlay:
  \<open>Phy_Proto\<close> (ids and layouts), \<open>Custom_Callbacks\<close> (the callback tables of \<open>slave_control.c\<close> and
  \<open>rpc_evt.c\<close>, which both interpret the locale \<open>callback_table\<close>: a table refines a finite map of bounded
  size), \<open>Phy_Host\<close> and \<open>Phy_Calls\<close> (the host library: calls in flight, \<open>do_call\<close>, start-up, every public
  call and event), \<open>Phy_Host_Steps\<close> (all interleavings of callers and responses as a step relation;
  invariants: slots are owned by one caller, statuses are those of the caller's own answer),
  \<open>Phy_Slave_Base\<close>, \<open>Phy_Handlers\<close>, \<open>Phy_Extras\<close>, \<open>Phy_Wireless\<close>, \<open>Phy_Slave\<close> (the 47 handlers, forwarders of
  events, and start-up), \<open>Phy_EndToEnd\<close> (a call and its answer, or an event, through both sides).

  \<^bold>\<open>Frames and the serial channel\<close>: \<open>Transport_Frame\<close> (header, checksum, the SDIO send and receive rounds of
  \<open>sdio_drv.c\<close> and \<open>sdio_slave_api.c\<close>), \<open>Serial_Host\<close> (\<open>serial_if.c\<close>, \<open>serial_drv.c\<close>, \<open>serial_ll_if.c\<close>),
  \<open>Pserial\<close> (\<open>protocomm_pserial.c\<close>; the locale \<open>serial_port\<close> is what it needs of the functions it is
  given), \<open>Serial_Slave\<close> (receive buffer and fragmenting sender of \<open>esp_hosted_coprocessor.c\<close>, which interpret
  it), \<open>Serial_Link\<close> (a request and its answer through all of these).

  \<^bold>\<open>The other buses\<close>: \<open>Uart_Link\<close> (both sides of the UART, \<open>uart_slave_api.c\<close> and \<open>uart_drv.c\<close>, over the
  stream of bytes), \<open>Prio_Queue\<close> (the three queues of a driver, which interpret the locale \<open>counted_buffer\<close>: a
  buffer and the semaphore that counts it), \<open>Spi_Slave\<close> (\<open>spi_slave_api.c\<close>: writing, transactions, reception),
  \<open>Spi_Host\<close> (\<open>spi_drv.c\<close>: the transaction and receive tasks), \<open>Spi_Bus\<close> (both on one bus: every interleaving of
  writers, tasks, readers and interrupts as runs of steps; what is lost, when it stalls, when it cannot),
  \<open>Spi_Hd_Slave\<close> (\<open>spi_hd_slave_api.c\<close>: the callbacks of the peripheral driver, writing, receiving, flow control),
  \<open>Spi_Hd_Host\<close> (\<open>spi_hd_drv.c\<close>: the counts of bytes and buffers, the read task), \<open>Spi_Hd_Bus\<close> (both, as runs of
  steps: the counter never lags by more than the frame that is loaded, and a lost wake-up is never made up for),
  \<open>Sdio_Slave\<close> (\<open>sdio_slave_api.c\<close> around its frames: semaphores, receive buffers by handle, throttling, set-up and
  removal), \<open>Driver_Life\<close> (set-up and removal of the other three drivers, as a sleeping host makes them happen),
  \<open>Slave_Bt\<close> (\<open>slave_bt.c\<close> and the host's \<open>vhci_drv.c\<close>: Bluetooth packets as frames, and the controller's life).

  \<^bold>\<open>Start-up and the main component\<close>: \<open>Startup\<close> (the events the two sides exchange after a reset; the two
  readers interpret the locales \<open>tlv_reader\<close> and \<open>tlv_careless\<close>), \<open>Nw_Split\<close> (\<open>nw_split_router.c\<close>: which IP
  stack gets a frame), \<open>Host_Power\<close> (\<open>host_power_save.c\<close>: alerts and the wake-up loop), \<open>Light_Sleep\<close>
  (\<open>slave_light_sleep.c\<close>: the lock that lets the chip sleep with the host), \<open>Stats\<close> (\<open>stats.c\<close>: profiled functions,
  shares of tasks, packet numbers, throughput), \<open>Peer_Example\<close> and \<open>Net_Examples\<close> (the examples that use the callback
  tables, the address events and the wake-up), \<open>Coprocessor\<close>
  (\<open>esp_hosted_coprocessor.c\<close>: capabilities, Wi-Fi frames, bus events, initialisation, composed of the above).

  \<^bold>\<open>Control requests\<close>: \<open>Rpc_Base\<close> (the handler macros of \<open>slave_control.h\<close>), \<open>Rpc_Dispatch\<close> (request and event
  tables of every build and the dispatcher of \<open>slave_control.c\<close>), \<open>Slave_Ota\<close>, \<open>Slave_Monitor\<close>, \<open>Slave_Info\<close>
  (the requests of \<open>slave_control.c\<close>), \<open>Slave_Pins\<close> (\<open>slave_transport_gpio_pin_guard.c\<close>,
  \<open>slave_gpio_expander.c\<close>, \<open>slave_ext_coex.c\<close>), \<open>Slave_Netsplit\<close> (\<open>slave_network_split.c\<close>), \<open>Slave_Control\<close>
  (their composition behind the dispatcher and its invariant), \<open>Rpc_EndToEnd\<close> (a control request of the host
  through the serial channel, the dispatcher and its handler, and back).

  \<^bold>\<open>Wi-Fi\<close> (\<open>slave_wifi_std.c\<close>): \<open>Wifi_Manager\<close> (initialisation, connection manager and event handler as a step
  relation), \<open>Wifi_Config\<close> (the configurations of station and access point between messages and the
  driver, with the bit masks of \<open>esp_hosted_bitmasks.h\<close>), \<open>Wifi_Requests\<close> (the requests that call one driver
  function), \<open>Wifi_Scan\<close> (scans and lists of stations, with the host's reader of a record in \<open>rpc_rsp.c\<close>),
  \<open>Wifi_Handle\<close> (all of them as one table with typed arguments and answers, used by \<open>Slave_Control\<close>),
  \<open>Wifi_Events\<close> (driver events to messages, and the host's parser in \<open>rpc_evt.c\<close>), \<open>Wifi_Enterprise\<close>
  (\<open>slave_wifi_enterprise.c\<close>: credentials, with the copies of certificates and keys in an explicit heap).

  \<^bold>\<open>What is shown.\<close> Invariants by rule induction over reachable states (calls in flight, receive buffer,
  update status and flash, heartbeat timers, wake-up semaphore, Wi-Fi link and events, blocks that hold keys,
  packets, counters and buffers on the SDIO, SPI and half-duplex SPI buses); freedom from deadlock of the SPI bus
  under a stated condition, and a run that stalls without it; the type of every Wi-Fi answer; refinement of the
  callback tables and of whole calls to the handler they reach; round trips of envelopes, frames, fragments,
  start-up events, configurations, scan records, captured frames, events and Bluetooth packets; every handler's
  answer on every branch; bounds of the buffers; termination of the wake-up loop; what a host that sleeps costs the
  bus drivers. Where the code fails, the theorem says what it does, and the manifest records a finding.

  \<^bold>\<open>Loops and bounds.\<close> Loops over buffers are total functions with a measure (\<open>req_loop\<close>, \<open>ll_write_loop\<close>,
  \<open>serial_write_data\<close>, \<open>tlv_walk\<close>). The wake-up loop is a \<open>partial_function (option)\<close> and is shown to
  end. Interleavings are not bounded in length or number of tasks. No definition has
  fuel; the write-buffer wait in \<open>Transport_Frame\<close> recurses on the retry count of the code.

  \<^bold>\<open>Not modelled\<close>: registers, DMA and clocks of the bus peripherals and their pin configuration, block
  transfers of the host's SDIO driver, printed counters, allocation wrappers, the generated protobuf code, the
  vendored host's RPC packing and port layer, the host demo and build scripts: they only call ESP-IDF, print, or are
  generated.
\<close>

end
